(* ===== verification/Prelude.thy ===== *)
theory Prelude
  imports Main "HOL-Library.Word" "HOL-Library.AList"
begin

text \<open>
  What every component shares: the JavaScript values the code computes with (strings of UTF-16
  code units, optional properties, truthiness, parsed JSON), the insertion-ordered \<open>Map\<close> the
  message table is kept in, decimal rendering of identifiers, and two interfaces. The locale
  \<open>ordered_map\<close> is the contract of \<open>Map\<close> the reducers rely on and \<open>invariant_machine\<close> that of a
  reducer that keeps an invariant; both are interpreted on the model's own definitions.
\<close>

named_theorems invs "an operation keeps an invariant of its component"
named_theorems frames "what an operation leaves unchanged"

subsection \<open>Optional properties, truthiness\<close>

text \<open>
  An optional property is an \<open>option\<close>: \<open>None\<close> is a missing (or undefined) property. \<open>coalesce\<close> is
  \<open>a ?? b\<close>; it is also what a spread \<open>{...old, ...new}\<close> does to one property, with \<open>a\<close> that
  of \<open>new\<close> and \<open>b\<close> that of \<open>old\<close>. \<open>js_or t a b\<close> is \<open>a || b\<close> where \<open>t\<close> is the truthiness of
  the values \<open>a\<close> can have.
\<close>

definition coalesce :: "'a option \<Rightarrow> 'a option \<Rightarrow> 'a option" where
  "coalesce a b = (case a of None \<Rightarrow> b | Some x \<Rightarrow> Some x)"

definition js_or :: "('a \<Rightarrow> bool) \<Rightarrow> 'a option \<Rightarrow> 'a option \<Rightarrow> 'a option" where
  "js_or t a b = (case a of None \<Rightarrow> b | Some x \<Rightarrow> if t x then Some x else b)"

definition opt_truthy :: "('a \<Rightarrow> bool) \<Rightarrow> 'a option \<Rightarrow> bool" where
  "opt_truthy t a = (case a of None \<Rightarrow> False | Some x \<Rightarrow> t x)"

definition the_or :: "'a \<Rightarrow> 'a option \<Rightarrow> 'a" where
  "the_or d a = (case a of None \<Rightarrow> d | Some x \<Rightarrow> x)"

lemma coalesce_simps [simp]: "coalesce None b = b" "coalesce (Some x) b = Some x"
    "coalesce a None = a"
  by (auto simp: coalesce_def split: option.splits)

lemma js_or_simps [simp]: "js_or t None b = b" "t x \<Longrightarrow> js_or t (Some x) b = Some x"
    "\<not> t x \<Longrightarrow> js_or t (Some x) b = b"
  by (auto simp: js_or_def)

lemma opt_truthy_simps [simp]: "opt_truthy t None = False" "opt_truthy t (Some x) = t x"
  by (auto simp: opt_truthy_def)

lemma the_or_simps [simp]: "the_or d None = d" "the_or d (Some x) = x"
  by (auto simp: the_or_def)

lemma coalesce_assoc: "coalesce (coalesce a b) c = coalesce a (coalesce b c)"
  by (cases a) auto

text \<open>A JavaScript string is a list of UTF-16 code units; identifiers and enumerations, which the
  code only compares and concatenates, are plain \<open>string\<close>s. \<open>jsnum\<close> is a number that may be NaN
  (\<open>None\<close>), as \<open>new Date(x).getTime()\<close> can be.\<close>

type_synonym ustring = "16 word list"
type_synonym jsnum = "int option"

abbreviation truthy_text :: "'a list \<Rightarrow> bool" where
  "truthy_text s \<equiv> s \<noteq> []"

abbreviation truthy_num :: "int \<Rightarrow> bool" where
  "truthy_num n \<equiv> n \<noteq> 0"

datatype json =
    JNull
  | JBool bool
  | JNum int
  | JStr ustring
  | JArr "json list"
  | JObj "(string \<times> json) list"

fun truthy_json :: "json \<Rightarrow> bool" where
  "truthy_json JNull = False"
| "truthy_json (JBool b) = b"
| "truthy_json (JNum n) = (n \<noteq> 0)"
| "truthy_json (JStr s) = (s \<noteq> [])"
| "truthy_json (JArr _) = True"
| "truthy_json (JObj _) = True"

fun json_field :: "string \<Rightarrow> json \<Rightarrow> json option" where
  "json_field k (JObj fs) = map_of fs k"
| "json_field k _ = None"

subsection \<open>What a handler reads from its surroundings\<close>

text \<open>
  One run of a handler is synchronous. \<open>now\<close> is the clock it reads (\<open>Date.now()\<close>), \<open>nowIso\<close> the
  same instant as \<open>new Date().toISOString()\<close>, \<open>rnd k\<close> the k-th random suffix it draws
  (\<open>Math.random().toString(36).substr(2, 9)\<close>), \<open>parseDate\<close> is \<open>Date.parse\<close> (\<open>None\<close> for NaN; its
  value on a string that is not an ISO date is up to the engine) and \<open>connected\<close> what
  \<open>deps.isConnected()\<close> answers.
\<close>

record env =
  now :: int
  nowIso :: string
  rnd :: "nat \<Rightarrow> string"
  parseDate :: "string \<Rightarrow> int option"
  connected :: bool

text \<open>An environment for concrete runs.\<close>

definition demo_env :: env where
  "demo_env = \<lparr>now = 100, nowIso = ''t'', rnd = (\<lambda>_. ''r''), parseDate = (\<lambda>_. None), connected = True\<rparr>"

subsection \<open>Decimal rendering\<close>

definition digit_char :: "nat \<Rightarrow> char" where
  "digit_char d = char_of (48 + d)"

fun show_nat :: "nat \<Rightarrow> string" where
  "show_nat n = (if n < 10 then [digit_char n] else show_nat (n div 10) @ [digit_char (n mod 10)])"

declare show_nat.simps [simp del]

definition show_int :: "int \<Rightarrow> string" where
  "show_int i = (if i < 0 then CHR ''-'' # show_nat (nat (- i)) else show_nat (nat i))"

definition read_nat :: "string \<Rightarrow> nat" where
  "read_nat s = foldl (\<lambda>a c. 10 * a + (of_char c - 48)) 0 s"

lemma of_char_digit: "d < 10 \<Longrightarrow> (of_char (digit_char d) :: nat) = 48 + d"
  by (simp add: digit_char_def)

lemma read_show_nat: "read_nat (show_nat n) = n"
proof (induction n rule: show_nat.induct)
  case (1 n)
  then show ?case
    by (cases "n < 10")
      (simp_all add: show_nat.simps [of n] read_nat_def of_char_digit)
qed

lemma show_nat_inj [simp]: "show_nat m = show_nat n \<longleftrightarrow> m = n"
  by (metis read_show_nat)

lemma show_nat_digits: "c \<in> set (show_nat n) \<Longrightarrow> \<exists>d < 10. c = digit_char d"
proof (induction n rule: show_nat.induct)
  case (1 n)
  show ?case
  proof (cases "n < 10")
    case True
    with "1.prems" show ?thesis by (auto simp: show_nat.simps [of n])
  next
    case False
    with "1.prems" have "c \<in> set (show_nat (n div 10)) \<or> c = digit_char (n mod 10)"
      by (auto simp: show_nat.simps [of n])
    with "1.IH" [OF False] show ?thesis by (metis mod_less_divisor zero_less_numeral)
  qed
qed

lemma minus_not_digit: "CHR ''-'' \<notin> set (show_nat n)"
proof
  assume "CHR ''-'' \<in> set (show_nat n)"
  then obtain d where d: "d < 10" "CHR ''-'' = digit_char d"
    using show_nat_digits by blast
  then have "(of_char (CHR ''-'') :: nat) = 48 + d" by (simp add: of_char_digit)
  then show False by simp
qed

lemma show_int_inj [simp]: "show_int i = show_int j \<longleftrightarrow> i = j"
proof -
  have "show_nat a \<noteq> CHR ''-'' # s" for a s
    using minus_not_digit [of a] by force
  then show ?thesis
    by (auto simp: show_int_def split: if_splits dest: not_sym)
qed

subsection \<open>UTF-16 code points\<close>

text \<open>
  \<open>Array.from(s)\<close> splits a string into code points: a high surrogate followed by a low one is
  a single element, any other unit stands alone.
\<close>

definition high_surrogate :: "16 word \<Rightarrow> bool" where
  "high_surrogate u \<longleftrightarrow> 0xD800 \<le> u \<and> u \<le> 0xDBFF"

definition low_surrogate :: "16 word \<Rightarrow> bool" where
  "low_surrogate u \<longleftrightarrow> 0xDC00 \<le> u \<and> u \<le> 0xDFFF"

fun code_points :: "ustring \<Rightarrow> ustring list" where
  "code_points [] = []"
| "code_points [a] = [[a]]"
| "code_points (a # b # r) =
     (if high_surrogate a \<and> low_surrogate b then [a, b] # code_points r
      else [a] # code_points (b # r))"

text \<open>A scalar value: what a well-formed string (one with no lone surrogate) is made of.\<close>

fun scalar :: "ustring \<Rightarrow> bool" where
  "scalar [a] = (\<not> high_surrogate a \<and> \<not> low_surrogate a)"
| "scalar [a, b] = (high_surrogate a \<and> low_surrogate b)"
| "scalar _ = False"

definition well_formed :: "ustring \<Rightarrow> bool" where
  "well_formed s = list_all scalar (code_points s)"

lemma concat_code_points [simp]: "concat (code_points s) = s"
  by (induction s rule: code_points.induct) auto

lemma code_points_scalar_append:
  "scalar c \<Longrightarrow> code_points (c @ r) = c # code_points r"
  by (induction c rule: scalar.induct; cases r) (auto simp: high_surrogate_def low_surrogate_def)

lemma code_points_concat: "list_all scalar cs \<Longrightarrow> code_points (concat cs) = cs"
  by (induction cs) (auto simp: code_points_scalar_append)

lemma well_formed_concat [simp]: "list_all scalar cs \<Longrightarrow> well_formed (concat cs)"
  by (simp add: well_formed_def code_points_concat)

lemma concat_scalar_inj:
  "list_all scalar as \<Longrightarrow> list_all scalar bs \<Longrightarrow> concat as = concat bs \<longleftrightarrow> as = bs"
  by (metis code_points_concat)

lemma code_points_append:
  "well_formed s \<Longrightarrow> well_formed t \<Longrightarrow> code_points (s @ t) = code_points s @ code_points t"
  by (metis (no_types, lifting) code_points_concat concat_append concat_code_points
      list_all_append well_formed_def)

lemma code_points_Nil [simp]: "code_points s = [] \<longleftrightarrow> s = []"
  by (cases s rule: code_points.cases) auto

lemma length_code_points: "length (code_points s) \<le> length s"
  by (induction s rule: code_points.induct) auto

subsection \<open>Texts\<close>

text \<open>\<open>unit_space\<close> is the white space and line terminators that \<open>trim\<close> removes.\<close>

definition unit_space :: "16 word \<Rightarrow> bool" where
  "unit_space u \<longleftrightarrow> (let n = unat u in (9 \<le> n \<and> n \<le> 13) \<or> n = 32 \<or> n = 160 \<or> n = 5760
     \<or> (8192 \<le> n \<and> n \<le> 8202) \<or> n = 8232 \<or> n = 8233 \<or> n = 8239 \<or> n = 8287 \<or> n = 12288 \<or> n = 65279)"

definition unit_trim :: "ustring \<Rightarrow> ustring" where
  "unit_trim s = rev (dropWhile unit_space (rev (dropWhile unit_space s)))"

definition units :: "string \<Rightarrow> ustring" where
  "units s = map (\<lambda>c. word_of_int (int (of_char c))) s"

definition unit_lower :: "16 word \<Rightarrow> 16 word" where
  "unit_lower u = (if 65 \<le> unat u \<and> unat u \<le> 90 then u + 32 else u)"

definition word_unit :: "16 word \<Rightarrow> bool" where
  "word_unit u \<longleftrightarrow> (let n = unat u in (48 \<le> n \<and> n \<le> 57) \<or> (65 \<le> n \<and> n \<le> 90) \<or> n = 95 \<or> (97 \<le> n \<and> n \<le> 122))"

text \<open>\<open>join\<close> of texts.\<close>

fun join_units :: "ustring \<Rightarrow> ustring list \<Rightarrow> ustring" where
  "join_units sep [] = []"
| "join_units sep [x] = x"
| "join_units sep (x # y # ys) = x @ sep @ join_units sep (y # ys)"

text \<open>
  Ids, names and dates are character lists. A text that was parsed from JSON becomes one by writing each code unit
  in one to three bytes: a literal stays what it is, and different texts stay different.
\<close>

definition unit_bytes :: "16 word \<Rightarrow> string" where
  "unit_bytes u = (let n = unat u in
     if n < 128 then [char_of n]
     else if n < 2048 then [char_of (192 + n div 64), char_of (128 + n mod 64)]
     else [char_of (224 + n div 4096), char_of (128 + n div 64 mod 64), char_of (128 + n mod 64)])"

definition text_of :: "ustring \<Rightarrow> string" where
  "text_of s = concat (map unit_bytes s)"

subsection \<open>The insertion-ordered Map\<close>

text \<open>
  \<open>Map.set\<close> on a key that is present replaces its value in place; on a new key it appends. This
  is \<open>AList.update\<close>. Iteration and \<open>values()\<close> go through the entries in insertion order.
\<close>

type_synonym ('k, 'v) jsmap = "('k \<times> 'v) list"

abbreviation jm_get :: "('k, 'v) jsmap \<Rightarrow> 'k \<Rightarrow> 'v option" where
  "jm_get \<equiv> map_of"

abbreviation jm_set :: "'k \<Rightarrow> 'v \<Rightarrow> ('k, 'v) jsmap \<Rightarrow> ('k, 'v) jsmap" where
  "jm_set \<equiv> AList.update"

abbreviation jm_delete :: "'k \<Rightarrow> ('k, 'v) jsmap \<Rightarrow> ('k, 'v) jsmap" where
  "jm_delete \<equiv> AList.delete"

definition jm_keys :: "('k, 'v) jsmap \<Rightarrow> 'k list" where
  "jm_keys m = map fst m"

definition jm_wf :: "('k, 'v) jsmap \<Rightarrow> bool" where
  "jm_wf m = distinct (map fst m)"

definition jm_every :: "('k \<Rightarrow> 'v \<Rightarrow> bool) \<Rightarrow> ('k, 'v) jsmap \<Rightarrow> bool" where
  "jm_every P m = list_all (\<lambda>(k, v). P k v) m"

text \<open>The contract of \<open>Map\<close> that the reducers use.\<close>

locale ordered_map =
  fixes get :: "'m \<Rightarrow> 'k \<Rightarrow> 'v option"
    and put :: "'k \<Rightarrow> 'v \<Rightarrow> 'm \<Rightarrow> 'm"
    and keys :: "'m \<Rightarrow> 'k list"
    and wf :: "'m \<Rightarrow> bool"
    and every :: "('k \<Rightarrow> 'v \<Rightarrow> bool) \<Rightarrow> 'm \<Rightarrow> bool"
  assumes get_put: "get (put k v m) k' = (if k' = k then Some v else get m k')"
    and keys_put: "keys (put k v m) = (if k \<in> set (keys m) then keys m else keys m @ [k])"
    and wf_distinct: "wf m \<Longrightarrow> distinct (keys m)"
    and wf_put: "wf m \<Longrightarrow> wf (put k v m)"
    and get_keys: "get m k = None \<longleftrightarrow> k \<notin> set (keys m)"
    and every_get: "wf m \<Longrightarrow> every P m \<longleftrightarrow> (\<forall>k v. get m k = Some v \<longrightarrow> P k v)"
begin

lemma get_put_same: "get (put k v m) k = Some v"
  by (simp add: get_put)

lemma get_put_other: "k' \<noteq> k \<Longrightarrow> get (put k v m) k' = get m k'"
  by (simp add: get_put)

lemma keys_put_present: "get m k = Some w \<Longrightarrow> keys (put k v m) = keys m"
  using get_keys [of m k] by (simp add: keys_put)

lemma keys_put_subset: "set (keys m) \<subseteq> set (keys (put k v m))"
  by (auto simp: keys_put)

lemma every_put: "wf m \<Longrightarrow> every P m \<Longrightarrow> P k v \<Longrightarrow> every P (put k v m)"
  by (auto simp: every_get wf_put get_put split: if_splits)

lemma everyD: "wf m \<Longrightarrow> every P m \<Longrightarrow> get m k = Some v \<Longrightarrow> P k v"
  by (simp add: every_get)

lemma keys_put_length:
  "length (keys (put k v m)) = (if k \<in> set (keys m) then length (keys m) else Suc (length (keys m)))"
  by (simp add: keys_put)

end

interpretation jm: ordered_map jm_get jm_set jm_keys jm_wf jm_every
proof unfold_locales
  show "jm_get (jm_set k v m) k' = (if k' = k then Some v else jm_get m k')" for k k' :: 'k and v :: 'v and m
    by (simp add: update_conv')
  show "jm_keys (jm_set k v m) = (if k \<in> set (jm_keys m) then jm_keys m else jm_keys m @ [k])"
    for k :: 'k and v :: 'v and m
    by (simp add: jm_keys_def update_keys)
  show "jm_wf m \<Longrightarrow> distinct (jm_keys m)" for m :: "('k, 'v) jsmap"
    by (simp add: jm_wf_def jm_keys_def)
  show "jm_wf m \<Longrightarrow> jm_wf (jm_set k v m)" for k :: 'k and v :: 'v and m
    by (simp add: jm_wf_def distinct_update)
  show "jm_get m k = None \<longleftrightarrow> k \<notin> set (jm_keys m)" for m :: "('k, 'v) jsmap" and k
    by (auto simp: jm_keys_def map_of_eq_None_iff)
  show "jm_wf m \<Longrightarrow> jm_every P m \<longleftrightarrow> (\<forall>k v. jm_get m k = Some v \<longrightarrow> P k v)"
    for m :: "('k, 'v) jsmap" and P
    by (auto simp: jm_wf_def jm_every_def list_all_iff map_of_eq_Some_iff)
qed

lemma jm_set_new: "k \<notin> fst ` set m \<Longrightarrow> jm_set k v m = m @ [(k, v)]"
  by (induction m) auto

lemma jm_wf_Nil [simp]: "jm_wf []"
  by (simp add: jm_wf_def)

lemma jm_every_Nil [simp]: "jm_every P []"
  by (simp add: jm_every_def)

lemma jm_get_in: "jm_get m k = Some v \<Longrightarrow> (k, v) \<in> set m"
  by (rule map_of_SomeD)

lemma jm_in_get: "jm_wf m \<Longrightarrow> (k, v) \<in> set m \<Longrightarrow> jm_get m k = Some v"
  by (simp add: jm_wf_def map_of_eq_Some_iff)

lemma jm_wf_set [simp]: "jm_wf m \<Longrightarrow> jm_wf (jm_set k v m)"
  by (rule jm.wf_put)

lemma jm_get_delete [simp]: "jm_get (jm_delete k m) k' = (if k' = k then None else jm_get m k')"
  by (simp add: delete_conv')

lemma jm_get_set [simp]: "jm_get (jm_set k v m) k' = (if k' = k then Some v else jm_get m k')"
  by (rule jm.get_put)

lemma jm_wf_delete [simp]: "jm_wf m \<Longrightarrow> jm_wf (jm_delete k m)"
  by (simp add: jm_wf_def distinct_delete)

lemma jm_get_map: "jm_get (map (\<lambda>(k, v). (k, f v)) m) k' = map_option f (jm_get m k')"
  by (induction m) auto

lemma jm_wf_map [simp]: "jm_wf (map (\<lambda>(k, v). (k, f v)) m) = jm_wf m"
  by (simp add: jm_wf_def comp_def case_prod_unfold)

lemma jm_wf_filter: "jm_wf m \<Longrightarrow> jm_wf (filter P m)"
  unfolding jm_wf_def by (induction m) auto

lemma jm_every_filter: "jm_every P m \<Longrightarrow> jm_every P (filter Q m)"
  by (auto simp: jm_every_def list_all_iff)

lemma jm_every_set: "jm_every P m \<Longrightarrow> P k v \<Longrightarrow> jm_every P (jm_set k v m)"
  by (induction m) (auto simp: jm_every_def)

lemma jm_everyD: "jm_every P m \<Longrightarrow> jm_get m k = Some v \<Longrightarrow> P k v"
  by (auto simp: jm_every_def list_all_iff dest!: jm_get_in)

lemma jm_get_filter:
  "jm_wf m \<Longrightarrow>
   jm_get (filter P m) k = (case jm_get m k of None \<Rightarrow> None | Some v \<Rightarrow> if P (k, v) then Some v else None)"
  unfolding jm_wf_def
  by (induction m) (auto split: option.splits simp: map_of_eq_None_iff)

subsection \<open>The insertion-ordered Set\<close>

text \<open>A \<open>Set\<close> is the list of its elements in insertion order.\<close>

definition js_add :: "'a \<Rightarrow> 'a list \<Rightarrow> 'a list" where
  "js_add x xs = (if x \<in> set xs then xs else xs @ [x])"

definition js_remove :: "'a \<Rightarrow> 'a list \<Rightarrow> 'a list" where
  "js_remove x xs = filter (\<lambda>y. y \<noteq> x) xs"

lemma set_js_add [simp]: "set (js_add x xs) = insert x (set xs)"
  by (auto simp: js_add_def)

lemma set_js_remove [simp]: "set (js_remove x xs) = set xs - {x}"
  by (auto simp: js_remove_def)

lemma distinct_js_ops [simp]: "distinct xs \<Longrightarrow> distinct (js_add x xs)" "distinct xs \<Longrightarrow> distinct (js_remove x xs)"
  by (auto simp: js_add_def js_remove_def)

subsection \<open>Reducers that keep an invariant\<close>

locale invariant_machine =
  fixes step :: "'s \<Rightarrow> 'e \<Rightarrow> 's"
    and inv :: "'s \<Rightarrow> bool"
  assumes step_inv: "inv s \<Longrightarrow> inv (step s e)"
begin

lemma run_inv: "inv s \<Longrightarrow> inv (foldl step s es)"
  by (induction es arbitrary: s) (auto simp: step_inv)

end

text \<open>A machine whose invariant also bounds a rank from below along every run.\<close>

locale monotone_machine = invariant_machine step inv
  for step :: "'s \<Rightarrow> 'e \<Rightarrow> 's" and inv :: "'s \<Rightarrow> bool" +
  fixes rank :: "'s \<Rightarrow> 'r::preorder"
  assumes step_rank: "inv s \<Longrightarrow> rank s \<le> rank (step s e)"
begin

lemma run_rank: "inv s \<Longrightarrow> rank s \<le> rank (foldl step s es)"
proof (induction es arbitrary: s)
  case Nil
  then show ?case by simp
next
  case (Cons e es)
  then have "rank (step s e) \<le> rank (foldl step (step s e) es)"
    by (simp add: step_inv)
  with step_rank [OF Cons.prems] show ?case by (auto intro: order_trans)
qed

end

end
