(* ===== verification/TaskStatus.thy ===== *)
theory TaskStatus
  imports Prelude
begin

text \<open>
  The task statuses of the backend and their classification, from
  \<open>packages/chat-core/src/api-types.ts\<close> and
  \<open>packages/chat-core/src/task-state/taskStatusClassifier.ts\<close>.
\<close>

datatype ApiTaskStatus =
    PENDING
  | RUNNING
  | COMPLETED
  | FAILED
  | CANCELLED
  | CANCELLING
  | DELETE
  | PENDING_CONFIRMATION

instantiation ApiTaskStatus :: enum
begin

definition "enum_ApiTaskStatus =
  [PENDING, RUNNING, COMPLETED, FAILED, CANCELLED, CANCELLING, DELETE, PENDING_CONFIRMATION]"

definition "enum_all_ApiTaskStatus P =
  (P PENDING \<and> P RUNNING \<and> P COMPLETED \<and> P FAILED \<and> P CANCELLED \<and> P CANCELLING \<and> P DELETE
    \<and> P PENDING_CONFIRMATION)"

definition "enum_ex_ApiTaskStatus P =
  (P PENDING \<or> P RUNNING \<or> P COMPLETED \<or> P FAILED \<or> P CANCELLED \<or> P CANCELLING \<or> P DELETE
    \<or> P PENDING_CONFIRMATION)"

instance
proof
  have cases: "x \<in> set (enum_class.enum :: ApiTaskStatus list)" for x
    by (cases x) (simp_all add: enum_ApiTaskStatus_def)
  then show "(UNIV :: ApiTaskStatus set) = set enum_class.enum" by auto
  show "distinct (enum_class.enum :: ApiTaskStatus list)"
    by (simp add: enum_ApiTaskStatus_def)
  show "enum_class.enum_all P = Ball (UNIV :: ApiTaskStatus set) P" for P
    unfolding enum_all_ApiTaskStatus_def Ball_def by (metis ApiTaskStatus.exhaust UNIV_I)
  show "enum_class.enum_ex P = Bex (UNIV :: ApiTaskStatus set) P" for P
    unfolding enum_ex_ApiTaskStatus_def Bex_def by (metis ApiTaskStatus.exhaust UNIV_I)
qed

end

text \<open>The string each status is, as it is written into a message's \<open>subtaskStatus\<close>.\<close>

fun statusName :: "ApiTaskStatus \<Rightarrow> string" where
  "statusName PENDING = ''PENDING''"
| "statusName RUNNING = ''RUNNING''"
| "statusName COMPLETED = ''COMPLETED''"
| "statusName FAILED = ''FAILED''"
| "statusName CANCELLED = ''CANCELLED''"
| "statusName CANCELLING = ''CANCELLING''"
| "statusName DELETE = ''DELETE''"
| "statusName PENDING_CONFIRMATION = ''PENDING_CONFIRMATION''"

datatype TaskRuntimePhase =
    PhUnknown
  | PhSyncing
  | PhRunning
  | PhStreaming
  | PhWaitingForUser
  | PhTerminal
  | PhError

definition ACTIVE_EXECUTION_STATUSES :: "ApiTaskStatus list" where
  "ACTIVE_EXECUTION_STATUSES = [PENDING, RUNNING, CANCELLING]"

definition TERMINAL_TASK_STATUSES :: "ApiTaskStatus list" where
  "TERMINAL_TASK_STATUSES = [COMPLETED, FAILED, CANCELLED, DELETE]"

definition WAITING_FOR_USER_STATUSES :: "ApiTaskStatus list" where
  "WAITING_FOR_USER_STATUSES = [PENDING_CONFIRMATION]"

definition isActiveExecutionTaskStatus :: "ApiTaskStatus option \<Rightarrow> bool" where
  "isActiveExecutionTaskStatus status =
     opt_truthy (\<lambda>s. s \<in> set ACTIVE_EXECUTION_STATUSES) status"

definition isTerminalTaskStatus :: "ApiTaskStatus option \<Rightarrow> bool" where
  "isTerminalTaskStatus status = opt_truthy (\<lambda>s. s \<in> set TERMINAL_TASK_STATUSES) status"

definition isWaitingForUserTaskStatus :: "ApiTaskStatus option \<Rightarrow> bool" where
  "isWaitingForUserTaskStatus status = opt_truthy (\<lambda>s. s \<in> set WAITING_FOR_USER_STATUSES) status"

definition getRuntimePhaseForTaskStatus :: "ApiTaskStatus option \<Rightarrow> bool \<Rightarrow> TaskRuntimePhase" where
  "getRuntimePhaseForTaskStatus status hasActiveStream =
     (if isTerminalTaskStatus status then PhTerminal
      else if isWaitingForUserTaskStatus status then PhWaitingForUser
      else if isActiveExecutionTaskStatus status
        then (if hasActiveStream then PhStreaming else PhRunning)
      else PhUnknown)"

lemmas status_defs = isActiveExecutionTaskStatus_def isTerminalTaskStatus_def
  isWaitingForUserTaskStatus_def ACTIVE_EXECUTION_STATUSES_def TERMINAL_TASK_STATUSES_def
  WAITING_FOR_USER_STATUSES_def

lemma active_status_cases:
  "isActiveExecutionTaskStatus s \<longleftrightarrow> s \<in> {Some PENDING, Some RUNNING, Some CANCELLING}"
  by (cases s) (auto simp: status_defs)

lemma terminal_status_cases:
  "isTerminalTaskStatus s \<longleftrightarrow> s \<in> {Some COMPLETED, Some FAILED, Some CANCELLED, Some DELETE}"
  by (cases s) (auto simp: status_defs)

lemma waiting_status_cases: "isWaitingForUserTaskStatus s \<longleftrightarrow> s = Some PENDING_CONFIRMATION"
  by (cases s) (auto simp: status_defs)

lemmas status_cases = active_status_cases terminal_status_cases waiting_status_cases

lemma terminal_not_active: "isTerminalTaskStatus s \<Longrightarrow> \<not> isActiveExecutionTaskStatus s"
  by (auto simp: status_cases)

lemma status_None [simp]:
  "\<not> isActiveExecutionTaskStatus None" "\<not> isTerminalTaskStatus None"
  "\<not> isWaitingForUserTaskStatus None"
  by (simp_all add: status_cases)

lemma status_simps [simp]:
  "isTerminalTaskStatus (Some RUNNING) = False" "isTerminalTaskStatus (Some FAILED) = True"
  "isTerminalTaskStatus (Some COMPLETED) = True" "isTerminalTaskStatus (Some CANCELLED) = True"
  "isActiveExecutionTaskStatus (Some RUNNING) = True"
  by (simp_all add: status_cases)

lemma phase_terminal_iff:
  "getRuntimePhaseForTaskStatus s b = PhTerminal \<longleftrightarrow> isTerminalTaskStatus s"
  by (simp add: getRuntimePhaseForTaskStatus_def)

lemma phase_streaming_iff:
  "getRuntimePhaseForTaskStatus s b = PhStreaming \<longleftrightarrow> isActiveExecutionTaskStatus s \<and> b"
  by (auto simp: getRuntimePhaseForTaskStatus_def status_cases)

lemma statusName_inj [simp]: "statusName a = statusName b \<longleftrightarrow> a = b"
  by (cases a; cases b) simp_all

end
