(* ===== verification/ForestBuilding.thy ===== *)
theory ForestBuilding
  imports Prelude
begin

text \<open>
  Building a forest from a map of blocks and their parent links, as the message blocks and the workbench blocks
  both do: the children of a block are the ids whose link names it, in the order of the links, and the walk
  down stops at a block that is among its own ancestors. The contract \<open>forest\<close> has the recursion equation
  of the code; that every id it visits has a block is proved once.
\<close>

lemma those_Some: "(\<And>x. x \<in> set xs \<Longrightarrow> x \<noteq> None) \<Longrightarrow> \<exists>ys. those xs = Some ys"
proof (induction xs)
  case Nil
  then show ?case by simp
next
  case (Cons a xs)
  then obtain y ys where "a = Some y" "those xs = Some ys"
    by (metis list.set_intros not_None_eq)
  then show ?case by simp
qed

lemma those_mem:
  assumes "those (map f ks) = Some ys" and "y \<in> set ys"
  obtains k where "k \<in> set ks" "f k = Some y"
  using assms by (induction ks arbitrary: ys thesis) (force split: option.splits)+

locale forest =
  fixes parent_id :: "(string, 'b) jsmap \<Rightarrow> string \<Rightarrow> bool"
    and is_parent :: "'b \<Rightarrow> bool"
    and with_children :: "'b \<Rightarrow> 'b list \<Rightarrow> 'b"
    and children :: "(string, 'b) jsmap \<Rightarrow> (string, string) jsmap \<Rightarrow> (string, string list) jsmap"
    and build :: "(string, 'b) jsmap \<Rightarrow> (string, string list) jsmap \<Rightarrow> string \<Rightarrow> string list \<Rightarrow> 'b option"
  assumes parent_id: "parent_id m i = (case jm_get m i of None \<Rightarrow> False | Some b \<Rightarrow> is_parent b)"
    and children: "children m ps = foldl (\<lambda>acc (c, p). if \<not> parent_id m p then acc
      else jm_set p (the_or [] (jm_get acc p) @ [c]) acc) [] ps"
    and build: "build m kids i anc = (case jm_get m i of
        None \<Rightarrow> None
      | Some b \<Rightarrow> if \<not> is_parent b \<or> i \<in> set anc then Some b
          else map_option (with_children b) (those (map (\<lambda>c. build m kids c (i # anc)) (the_or [] (jm_get kids i)))))"
begin

lemma children_step:
  "jm_get (foldl (\<lambda>acc (c, p). if \<not> parent_id m p then acc
       else jm_set p (the_or [] (jm_get acc p) @ [c]) acc) acc ps) q =
   (if (\<exists>c. (c, q) \<in> set ps) \<and> parent_id m q
    then Some (the_or [] (jm_get acc q) @ map fst (filter (\<lambda>(c, p). p = q) ps))
    else jm_get acc q)"
proof (induction ps arbitrary: acc)
  case Nil
  then show ?case by simp
next
  case (Cons cp ps)
  obtain c p where cp: "cp = (c, p)" by (cases cp)
  show ?case
    by (auto simp: cp Cons.IH update_conv' filter_empty_conv)
qed

lemma children_get:
  "the_or [] (jm_get (children m ps) q) = (if parent_id m q then map fst (filter (\<lambda>(c, p). p = q) ps) else [])"
proof -
  have "filter (\<lambda>(c, p). p = q) ps = []" if "\<nexists>c. (c, q) \<in> set ps"
    using that by (auto simp: filter_empty_conv)
  then show ?thesis
    unfolding children by (auto simp: children_step)
qed

lemma children_known:
  assumes "fst ` set ps \<subseteq> fst ` set m"
  shows "set (the_or [] (jm_get (children m ps) q)) \<subseteq> fst ` set m"
  using assms by (auto simp: children_get)

lemma build_exists:
  assumes "\<And>q. set (the_or [] (jm_get kids q)) \<subseteq> fst ` set m" and "i \<in> fst ` set m"
  shows "\<exists>b. build m kids i anc = Some b"
  using assms(2)
proof (induction "card (fst ` set m - set anc)" arbitrary: i anc rule: less_induct)
  case less
  from less.prems obtain b where b: "jm_get m i = Some b"
    by (metis map_of_eq_None_iff option.exhaust)
  show ?case
  proof (cases "\<not> is_parent b \<or> i \<in> set anc")
    case True
    then show ?thesis by (simp add: build [of m kids i] b)
  next
    case False
    then have "fst ` set m - set (i # anc) \<subset> fst ` set m - set anc" using less.prems by auto
    then have "card (fst ` set m - set (i # anc)) < card (fst ` set m - set anc)"
      by (intro psubset_card_mono) auto
    then have "build m kids c (i # anc) \<noteq> None" if "c \<in> set (the_or [] (jm_get kids i))" for c
      using less.hyps [of "i # anc" c] assms(1) that by blast
    then have "\<exists>ys. those (map (\<lambda>c. build m kids c (i # anc)) (the_or [] (jm_get kids i))) = Some ys"
      by (intro those_Some) auto
    then show ?thesis using False by (auto simp: build [of m kids i] b)
  qed
qed

lemma all_built:
  assumes "fst ` set ps \<subseteq> fst ` set m" and "set is \<subseteq> fst ` set m"
  shows "\<exists>tree. those (map (\<lambda>i. build m (children m ps) i []) is) = Some tree"
proof (rule those_Some)
  fix t
  assume "t \<in> set (map (\<lambda>i. build m (children m ps) i []) is)"
  then obtain i where "i \<in> set is" "t = build m (children m ps) i []" by auto
  then show "t \<noteq> None"
    using build_exists [OF children_known [OF assms(1)]] assms(2) by (metis option.distinct(1) subsetD)
qed

end

end
