(* ===== verification/MessageBlocks.thy ===== *)
theory MessageBlocks
  imports ForestBuilding
begin

text \<open>
  Message blocks and the display tree, from \<open>packages/chat-core/src/message-blocks.ts\<close>. A block is
  one of eleven object shapes with a common base. The model is one record of the properties the code
  reads or writes, each optional, with every other property of the shape in \<open>bExtra\<close>, and the
  \<open>children\<close> of a subagent beside it; a partial block is the same type.
\<close>

datatype MessageBlockStatus =
    BsPending
  | BsGeneratingArguments
  | BsStreaming
  | BsInvoking
  | BsDone
  | BsError
  | BsQueued
  | BsSending
  | BsFailed
  | BsApplied
  | BsExpired

datatype BlockType =
    TText
  | TTool
  | TSubagent
  | TThinking
  | TGuidance
  | TError
  | TVideo
  | TImage
  | TCard
  | TPromptOptimization
  | TSubscriptionPreview

datatype CardStatus =
    CsPending
  | CsPartialReady
  | CsPopulated
  | CsError
  | CsExpired

record BaseBlock =
  bId :: string
  bType :: "BlockType option"
  bParent :: "string option"
  bStatus :: "MessageBlockStatus option"
  bTimestamp :: "jsnum option"
  bContent :: "ustring option"
  bRenderPayload :: "json option"
  bIsPlaceholder :: "bool option"
  bCardId :: "string option"
  bCardType :: "string option"
  bCardStatus :: "CardStatus option"
  bCardData :: "json option"
  bCardPreviewData :: "json option"
  bCardError :: "json option"
  bExtra :: "(string, json) jsmap"

datatype MessageBlock = Block (bHead: BaseBlock) (bChildren: "MessageBlock list option")

definition empty_base :: "string \<Rightarrow> BaseBlock" where
  "empty_base i = \<lparr>bId = i, bType = None, bParent = None, bStatus = None, bTimestamp = None,
     bContent = None, bRenderPayload = None, bIsPlaceholder = None, bCardId = None,
     bCardType = None, bCardStatus = None, bCardData = None, bCardPreviewData = None,
     bCardError = None, bExtra = []\<rparr>"

abbreviation blk_id :: "MessageBlock \<Rightarrow> string" where
  "blk_id b \<equiv> bId (bHead b)"

abbreviation blk_type :: "MessageBlock \<Rightarrow> BlockType option" where
  "blk_type b \<equiv> bType (bHead b)"

abbreviation blk_status :: "MessageBlock \<Rightarrow> MessageBlockStatus option" where
  "blk_status b \<equiv> bStatus (bHead b)"

abbreviation blk_content :: "MessageBlock \<Rightarrow> ustring option" where
  "blk_content b \<equiv> bContent (bHead b)"

abbreviation is_subagent :: "MessageBlock \<Rightarrow> bool" where
  "is_subagent b \<equiv> blk_type b = Some TSubagent"

text \<open>\<open>{...old, ...new}\<close> on two blocks: a property of \<open>new\<close> that is present wins.\<close>

definition spread_base :: "BaseBlock \<Rightarrow> BaseBlock \<Rightarrow> BaseBlock" where
  "spread_base old new = \<lparr>bId = bId new, bType = coalesce (bType new) (bType old),
     bParent = coalesce (bParent new) (bParent old),
     bStatus = coalesce (bStatus new) (bStatus old),
     bTimestamp = coalesce (bTimestamp new) (bTimestamp old),
     bContent = coalesce (bContent new) (bContent old),
     bRenderPayload = coalesce (bRenderPayload new) (bRenderPayload old),
     bIsPlaceholder = coalesce (bIsPlaceholder new) (bIsPlaceholder old),
     bCardId = coalesce (bCardId new) (bCardId old),
     bCardType = coalesce (bCardType new) (bCardType old),
     bCardStatus = coalesce (bCardStatus new) (bCardStatus old),
     bCardData = coalesce (bCardData new) (bCardData old),
     bCardPreviewData = coalesce (bCardPreviewData new) (bCardPreviewData old),
     bCardError = coalesce (bCardError new) (bCardError old),
     bExtra = foldl (\<lambda>m (k, v). jm_set k v m) (bExtra old) (bExtra new)\<rparr>"

definition spread_block :: "MessageBlock \<Rightarrow> MessageBlock \<Rightarrow> MessageBlock" where
  "spread_block old new =
     Block (spread_base (bHead old) (bHead new)) (coalesce (bChildren new) (bChildren old))"

subsection \<open>Building the display tree\<close>

record nest_state =
  blockMap :: "(string, MessageBlock) jsmap"
  blockOrder :: "string list"
  parentIds :: "(string, string) jsmap"

text \<open>\<open>children: undefined\<close> in the copy of a subagent also erases the children an earlier entry had.\<close>

definition collect_one :: "string option \<Rightarrow> MessageBlock \<Rightarrow> nest_state \<Rightarrow> nest_state" where
  "collect_one nestedParentId block s =
     (let existing = jm_get (blockMap s) (blk_id block);
          blockWithoutChildren = (if is_subagent block then Block (bHead block) None else block);
          entry = (case existing of
              None \<Rightarrow> blockWithoutChildren
            | Some e \<Rightarrow> (if is_subagent block
                then Block (spread_base (bHead e) (bHead block)) None
                else spread_block e block));
          parentId = js_or truthy_text (bParent (bHead block)) nestedParentId
      in s\<lparr>blockOrder := (if existing = None then blockOrder s @ [blk_id block] else blockOrder s),
           blockMap := jm_set (blk_id block) entry (blockMap s),
           parentIds := (case parentId of
               Some p \<Rightarrow> if truthy_text p \<and> p \<noteq> blk_id block
                 then jm_set (blk_id block) p (parentIds s) else parentIds s
             | None \<Rightarrow> parentIds s)\<rparr>)"

fun collectBlock :: "string option \<Rightarrow> MessageBlock \<Rightarrow> nest_state \<Rightarrow> nest_state"
  and collectBlocks :: "string option \<Rightarrow> MessageBlock list \<Rightarrow> nest_state \<Rightarrow> nest_state" where
  "collectBlock np (Block h cs) s =
     (let s' = collect_one np (Block h cs) s
      in if bType h = Some TSubagent
         then (case cs of None \<Rightarrow> s' | Some bs \<Rightarrow> collectBlocks (Some (bId h)) bs s')
         else s')"
| "collectBlocks np [] s = s"
| "collectBlocks np (b # bs) s = collectBlocks np bs (collectBlock np b s)"

definition is_subagent_id :: "(string, MessageBlock) jsmap \<Rightarrow> string \<Rightarrow> bool" where
  "is_subagent_id m i = (case jm_get m i of None \<Rightarrow> False | Some b \<Rightarrow> is_subagent b)"

definition childIdsByParent ::
    "(string, MessageBlock) jsmap \<Rightarrow> (string, string) jsmap \<Rightarrow> (string, string list) jsmap" where
  "childIdsByParent m ps =
     foldl (\<lambda>acc (childId, parentId).
        if \<not> is_subagent_id m parentId then acc
        else jm_set parentId (the_or [] (jm_get acc parentId) @ [childId]) acc) [] ps"

text \<open>
  \<open>buildBlock\<close>: \<open>None\<close> is the TypeError of reading \<open>type\<close> of an id that is not in the map;
  \<open>nest_total\<close> below shows it never happens. The recursion is on the ids not yet among the
  ancestors.
\<close>

function buildBlock ::
    "(string, MessageBlock) jsmap \<Rightarrow> (string, string list) jsmap \<Rightarrow> string \<Rightarrow> string list
     \<Rightarrow> MessageBlock option" where
  "buildBlock m kids blockId ancestors =
     (case jm_get m blockId of
        None \<Rightarrow> None
      | Some block \<Rightarrow>
          if \<not> is_subagent block \<or> blockId \<in> set ancestors then Some block
          else map_option (\<lambda>cs. Block (bHead block) (Some cs))
                 (those (map (\<lambda>c. buildBlock m kids c (blockId # ancestors))
                   (the_or [] (jm_get kids blockId)))))"
  by pat_completeness auto
termination
proof (relation "measure (\<lambda>(m, kids, i, anc). card (fst ` set m - set anc))")
  show "wf (measure (\<lambda>(m :: (string, MessageBlock) jsmap, kids :: (string, string list) jsmap,
      i :: string, anc). card (fst ` set m - set anc)))"
    by simp
  fix m :: "(string, MessageBlock) jsmap" and kids :: "(string, string list) jsmap"
    and i c :: string and anc b
  assume "jm_get m i = Some b" and "\<not> (\<not> is_subagent b \<or> i \<in> set anc)"
    and "c \<in> set (the_or [] (jm_get kids i))"
  then have "i \<in> fst ` set m - set anc" by (force dest: jm_get_in)
  then have "fst ` set m - set (i # anc) \<subset> fst ` set m - set anc" by auto
  then have "card (fst ` set m - set (i # anc)) < card (fst ` set m - set anc)"
    by (intro psubset_card_mono) auto
  then show "((m, kids, c, i # anc), m, kids, i, anc)
      \<in> measure (\<lambda>(m, kids, i, anc). card (fst ` set m - set anc))"
    by simp
qed

declare buildBlock.simps [simp del]

definition nest_collect :: "MessageBlock list \<Rightarrow> nest_state" where
  "nest_collect blocks =
     collectBlocks None blocks \<lparr>blockMap = [], blockOrder = [], parentIds = []\<rparr>"

definition nest_roots :: "nest_state \<Rightarrow> string list" where
  "nest_roots s = filter (\<lambda>i. case jm_get (parentIds s) i of
       None \<Rightarrow> True | Some p \<Rightarrow> \<not> truthy_text p \<or> \<not> is_subagent_id (blockMap s) p) (blockOrder s)"

definition try_nestMessageBlocks :: "MessageBlock list \<Rightarrow> MessageBlock list option" where
  "try_nestMessageBlocks blocks =
     (let s = nest_collect blocks; kids = childIdsByParent (blockMap s) (parentIds s)
      in those (map (\<lambda>i. buildBlock (blockMap s) kids i []) (nest_roots s)))"

definition nestMessageBlocks :: "MessageBlock list \<Rightarrow> MessageBlock list" where
  "nestMessageBlocks blocks = the_or [] (try_nestMessageBlocks blocks)"

subsection \<open>The tree is always built\<close>

definition nest_ok :: "nest_state \<Rightarrow> bool" where
  "nest_ok s \<longleftrightarrow> jm_wf (blockMap s) \<and> distinct (blockOrder s)
     \<and> set (blockOrder s) = fst ` set (blockMap s)
     \<and> fst ` set (parentIds s) \<subseteq> fst ` set (blockMap s)
     \<and> jm_every (\<lambda>k b. blk_id b = k) (blockMap s)"

lemma spread_base_id [simp]: "bId (spread_base a b) = bId b"
  by (simp add: spread_base_def)

lemma collect_one_ok [invs]: "nest_ok s \<Longrightarrow> nest_ok (collect_one np b s)"
  unfolding nest_ok_def collect_one_def Let_def
  by (auto simp: dom_update jm_every_set map_of_eq_None_iff spread_block_def
      split: option.splits intro!: jm_every_set)

lemma collect_ok:
  "nest_ok s \<Longrightarrow> nest_ok (collectBlock np b s)"
  "nest_ok s \<Longrightarrow> nest_ok (collectBlocks np bs s)"
  by (induction np b s and np bs s rule: collectBlock_collectBlocks.induct)
    (auto simp: Let_def collect_one_ok split: option.splits)

lemma nest_collect_ok: "nest_ok (nest_collect bs)"
  unfolding nest_collect_def
  by (rule collect_ok) (simp add: nest_ok_def)

interpretation block_forest: forest is_subagent_id is_subagent "\<lambda>b cs. Block (bHead b) (Some cs)" childIdsByParent buildBlock
proof
  show "is_subagent_id m i = (case jm_get m i of None \<Rightarrow> False | Some b \<Rightarrow> is_subagent b)" for m i
    by (simp add: is_subagent_id_def)
  show "childIdsByParent m ps = foldl (\<lambda>acc (c, p). if \<not> is_subagent_id m p then acc
      else jm_set p (the_or [] (jm_get acc p) @ [c]) acc) [] ps" for m ps
    by (simp add: childIdsByParent_def)
qed (rule buildBlock.simps)

lemma kids_in_map:
  assumes "nest_ok s"
  shows "set (the_or [] (jm_get (childIdsByParent (blockMap s) (parentIds s)) q)) \<subseteq> fst ` set (blockMap s)"
  using assms by (intro block_forest.children_known) (simp add: nest_ok_def)

lemma nest_tree_exists: "\<exists>tree. try_nestMessageBlocks blocks = Some tree"
proof -
  have "nest_ok (nest_collect blocks)" by (rule nest_collect_ok)
  then show ?thesis
    unfolding try_nestMessageBlocks_def Let_def
    by (intro block_forest.all_built) (auto simp: nest_ok_def nest_roots_def)
qed

text \<open>C31: Building the display tree never fails: whatever parent links and nested children the
  blocks have, cyclic ones included, every id the walk visits has an entry, so the non-null
  assertion on the map lookup holds, and the recursion ends.\<close>

theorem nest_total: "\<exists>tree. try_nestMessageBlocks blocks = Some tree"
  by (rule nest_tree_exists)

subsection \<open>A flat list is already a tree\<close>

lemma collect_flat:
  "distinct (map blk_id bs) \<Longrightarrow> \<forall>b\<in>set bs. \<not> is_subagent b \<Longrightarrow>
   \<forall>b\<in>set bs. blk_id b \<notin> fst ` set (blockMap s) \<Longrightarrow>
   blockMap (collectBlocks None bs s) = blockMap s @ map (\<lambda>b. (blk_id b, b)) bs \<and>
   blockOrder (collectBlocks None bs s) = blockOrder s @ map blk_id bs"
proof (induction bs arbitrary: s)
  case Nil
  then show ?case by simp
next
  case (Cons b bs)
  obtain h cs where b: "b = Block h cs" by (cases b)
  let ?s' = "collect_one None b s"
  have none: "jm_get (blockMap s) (blk_id b) = None"
    using Cons.prems(3) by (simp add: map_of_eq_None_iff)
  have upd: "jm_set (blk_id b) b (blockMap s) = blockMap s @ [(blk_id b, b)]"
    using Cons.prems(3) by (intro jm_set_new) auto
  have s': "blockMap ?s' = blockMap s @ [(blk_id b, b)]" "blockOrder ?s' = blockOrder s @ [blk_id b]"
    using none upd Cons.prems(2) by (auto simp: collect_one_def Let_def)
  have "collectBlocks None (b # bs) s = collectBlocks None bs ?s'"
    using Cons.prems(2) by (simp add: b Let_def)
  moreover have "\<forall>x\<in>set bs. blk_id x \<notin> fst ` set (blockMap ?s')"
    using Cons.prems(1,3) by (auto simp: s' image_iff)
  ultimately show ?case
    using Cons.IH [of ?s'] Cons.prems(1,2) by (simp add: s')
qed

lemma nest_flat_eq:
  assumes "distinct (map blk_id blocks)" and "\<forall>b\<in>set blocks. \<not> is_subagent b"
  shows "nestMessageBlocks blocks = blocks"
proof -
  let ?s = "nest_collect blocks"
  have m: "blockMap ?s = map (\<lambda>b. (blk_id b, b)) blocks" and o: "blockOrder ?s = map blk_id blocks"
    using collect_flat [OF assms, of "\<lparr>blockMap = [], blockOrder = [], parentIds = []\<rparr>"]
    by (simp_all add: nest_collect_def)
  have get: "jm_get (blockMap ?s) (blk_id b) = Some b" if "b \<in> set blocks" for b
    using assms(1) that by (simp add: m map_of_eq_Some_iff comp_def image_iff)
  have nosub: "\<not> is_subagent_id (blockMap ?s) i" for i
    using assms(2) by (auto simp: is_subagent_id_def m split: option.splits dest!: map_of_SomeD)
  have roots: "nest_roots ?s = map blk_id blocks"
    by (auto simp: nest_roots_def o nosub intro!: filter_True split: option.splits)
  have build: "buildBlock (blockMap ?s) kids (blk_id b) [] = Some b" if "b \<in> set blocks" for b kids
    using get [OF that] assms(2) that by (simp add: buildBlock.simps)
  have "those (map (\<lambda>i. buildBlock (blockMap ?s) kids i []) (map blk_id bs)) = Some bs"
    if "set bs \<subseteq> set blocks" for bs kids
    using that by (induction bs) (auto simp: build)
  then show ?thesis
    by (simp add: nestMessageBlocks_def try_nestMessageBlocks_def Let_def roots)
qed

text \<open>On a flat list with distinct ids and no subagent the tree is the list itself, in its
  order: nesting only moves blocks below subagents and never reorders or rewrites the rest.\<close>

theorem nest_flat:
  assumes "distinct (map blk_id blocks)" and "\<forall>b\<in>set blocks. \<not> is_subagent b"
  shows "nestMessageBlocks blocks = blocks"
  by (rule nest_flat_eq) (use assms in auto)

theorem nest_flat_witness:
  "nestMessageBlocks [Block ((empty_base ''a'')\<lparr>bType := Some TText\<rparr>) None,
     Block ((empty_base ''b'')\<lparr>bType := Some TTool\<rparr>) None]
   = [Block ((empty_base ''a'')\<lparr>bType := Some TText\<rparr>) None,
      Block ((empty_base ''b'')\<lparr>bType := Some TTool\<rparr>) None]"
  by (rule nest_flat) (simp_all add: empty_base_def)

subsection \<open>No block is invented\<close>

fun tree_ids :: "MessageBlock \<Rightarrow> string list" where
  "tree_ids (Block h None) = [bId h]"
| "tree_ids (Block h (Some cs)) = bId h # concat (map tree_ids cs)"

lemma tree_ids_head: "bId (bHead b) \<in> set (tree_ids b)"
  by (cases b rule: tree_ids.cases) auto

lemma collect_one_keys:
  "fst ` set (blockMap (collect_one np b s)) = insert (blk_id b) (fst ` set (blockMap s))"
  by (simp add: collect_one_def Let_def dom_update)

lemma collect_keys:
  "fst ` set (blockMap (collectBlock np b s)) \<subseteq> fst ` set (blockMap s) \<union> set (tree_ids b)"
  "fst ` set (blockMap (collectBlocks np bs s)) \<subseteq> fst ` set (blockMap s) \<union> set (concat (map tree_ids bs))"
proof (induction np b s and np bs s rule: collectBlock_collectBlocks.induct)
  case (1 np h cs s)
  let ?s' = "collect_one np (Block h cs) s"
  have keys: "fst ` set (blockMap ?s') = insert (bId h) (fst ` set (blockMap s))"
    using collect_one_keys [of np "Block h cs" s] by simp
  show ?case
  proof (cases "bType h = Some TSubagent \<and> cs \<noteq> None")
    case True
    then obtain bs where bs: "cs = Some bs" by blast
    have "fst ` set (blockMap (collectBlocks (Some (bId h)) bs ?s'))
        \<subseteq> fst ` set (blockMap ?s') \<union> set (concat (map tree_ids bs))"
      using 1 [OF refl _ bs] True by blast
    then show ?thesis using True bs keys by (simp add: Let_def)
  next
    case False
    then show ?thesis using keys by (cases cs) (auto simp: Let_def)
  qed
next
  case (3 np b bs s)
  let ?M = "\<lambda>s. fst ` set (blockMap s)"
  have "?M (collectBlocks np bs (collectBlock np b s))
      \<subseteq> ?M (collectBlock np b s) \<union> set (concat (map tree_ids bs))"
    by (rule 3(2))
  also have "\<dots> \<subseteq> (?M s \<union> set (tree_ids b)) \<union> set (concat (map tree_ids bs))"
    using 3(1) by (rule Un_mono) simp
  finally show ?case by (simp add: Un_assoc)
qed simp

lemma tree_ids_build:
  assumes "jm_every (\<lambda>k b. blk_id b = k) m" and "\<forall>k b. jm_get m k = Some b \<longrightarrow> bChildren b = None"
    and "\<And>q. set (the_or [] (jm_get kids q)) \<subseteq> fst ` set m"
    and "buildBlock m kids i anc = Some t"
  shows "set (tree_ids t) \<subseteq> fst ` set m"
  using assms
proof (induction m kids i anc arbitrary: t rule: buildBlock.induct)
  case (1 m kids i anc)
  note prem = "1.prems"
  from prem(4) obtain b where b: "jm_get m i = Some b"
    by (auto simp: buildBlock.simps [of m kids i] split: option.splits)
  then have i: "i \<in> fst ` set m" and hd: "blk_id b = i" "bChildren b = None"
    using prem(1,2) by (force dest: jm_get_in, auto dest: jm_everyD)
  show ?case
  proof (cases "\<not> is_subagent b \<or> i \<in> set anc")
    case True
    then have "t = b" using prem(4) b by (simp add: buildBlock.simps [of m kids i])
    then show ?thesis using i hd by (cases b) simp
  next
    case False
    let ?ks = "the_or [] (jm_get kids i)"
    from False prem(4) b obtain cs where
      cs: "those (map (\<lambda>c. buildBlock m kids c (i # anc)) ?ks) = Some cs"
      and t: "t = Block (bHead b) (Some cs)"
      by (auto simp: buildBlock.simps [of m kids i])
    have "set (tree_ids u) \<subseteq> fst ` set m" if u: "u \<in> set cs" for u
    proof -
      from cs u obtain c where c: "c \<in> set ?ks" "buildBlock m kids c (i # anc) = Some u"
        by (rule those_mem [where f = "\<lambda>c. buildBlock m kids c (i # anc)"])
      show ?thesis using "1.IH" [OF b False c(1) prem(1-3) c(2)] by blast
    qed
    then show ?thesis using i hd by (auto simp: t)
  qed
qed

text \<open>Only a subagent has children, as the types of the blocks say.\<close>

fun typed_block :: "MessageBlock \<Rightarrow> bool" where
  "typed_block (Block h None) = True"
| "typed_block (Block h (Some cs)) = (bType h = Some TSubagent \<and> list_all typed_block cs)"

abbreviation childless :: "nest_state \<Rightarrow> bool" where
  "childless s \<equiv> jm_every (\<lambda>_ b. bChildren b = None) (blockMap s)"

lemma collect_one_childless [invs]:
  "typed_block b \<Longrightarrow> childless s \<Longrightarrow> childless (collect_one np b s)"
  by (cases b rule: typed_block.cases)
    (auto simp: collect_one_def Let_def spread_block_def intro!: jm_every_set
      split: option.splits dest: jm_everyD)

lemma collect_childless:
  "typed_block b \<Longrightarrow> childless s \<Longrightarrow> childless (collectBlock np b s)"
  "list_all typed_block bs \<Longrightarrow> childless s \<Longrightarrow> childless (collectBlocks np bs s)"
proof (induction np b s and np bs s rule: collectBlock_collectBlocks.induct)
  case (1 np h cs s)
  then show ?case by (cases cs) (simp_all add: Let_def collect_one_childless)
qed simp_all

text \<open>Nesting invents no block: every id of the display tree, at any depth, is the id of a
  block (or of a nested child) of the input.\<close>

theorem nest_ids:
  assumes "list_all typed_block blocks"
  shows "set (concat (map tree_ids (nestMessageBlocks blocks))) \<subseteq> set (concat (map tree_ids blocks))"
proof -
  let ?s = "nest_collect blocks"
  have ok: "nest_ok ?s" by (rule nest_collect_ok)
  have childless: "childless ?s"
    unfolding nest_collect_def by (rule collect_childless) (use assms in simp_all)
  have keys: "fst ` set (blockMap ?s) \<subseteq> set (concat (map tree_ids blocks))"
    using collect_keys(2) [of None blocks "\<lparr>blockMap = [], blockOrder = [], parentIds = []\<rparr>"]
    by (simp add: nest_collect_def)
  obtain tree where tree: "try_nestMessageBlocks blocks = Some tree"
    using nest_collect_ok nest_tree_exists by blast
  have "set (tree_ids t) \<subseteq> fst ` set (blockMap ?s)" if t: "t \<in> set tree" for t
  proof -
    from tree t obtain i where
      "buildBlock (blockMap ?s) (childIdsByParent (blockMap ?s) (parentIds ?s)) i [] = Some t"
      unfolding try_nestMessageBlocks_def Let_def by (auto elim: those_mem)
    with ok childless kids_in_map [OF ok] show ?thesis
      by (intro tree_ids_build) (auto simp: nest_ok_def dest: jm_everyD)
  qed
  with keys have "set (tree_ids t) \<subseteq> set (concat (map tree_ids blocks))" if "t \<in> set tree" for t
    using that by (meson order_trans)
  then show ?thesis by (simp add: nestMessageBlocks_def tree UN_subset_iff)
qed

definition demo_parent :: MessageBlock where
  "demo_parent = Block ((empty_base ''p'')\<lparr>bType := Some TSubagent\<rparr>) None"

definition demo_child :: MessageBlock where
  "demo_child = Block ((empty_base ''c'')\<lparr>bType := Some TTool, bParent := Some ''p''\<rparr>) None"

theorem nest_ids_witness:
  "list_all typed_block [demo_parent, demo_child] \<and>
   set (concat (map tree_ids (nestMessageBlocks [demo_parent, demo_child]))) \<subseteq> {''p'', ''c''}"
proof -
  have "list_all typed_block [demo_parent, demo_child]"
    by (simp add: demo_parent_def demo_child_def)
  moreover from nest_ids [OF this] show ?thesis
    using calculation by (simp add: demo_parent_def demo_child_def empty_base_def)
qed

end
