(* ===== verification/MessageUtils.thy ===== *)
theory MessageUtils
  imports Prelude
begin

text \<open>
  Message ids and the merge of a streamed chunk into the text received so far, from
  \<open>packages/chat-core/src/task-state/TaskStateMachine.messageUtils.ts\<close>. Chunk offsets count code
  points. The abstract view of a stream is a text \<open>F\<close>, as a list of code points, of which a prefix
  has been received; \<open>mergeChunkContent\<close> refines the operation that moves the end of that prefix.
\<close>

datatype MessageType = MtUser | MtAi

text \<open>\<open>k\<close> numbers the random suffix drawn, should one be needed.\<close>

definition generateMessageId :: "env \<Rightarrow> nat \<Rightarrow> MessageType \<Rightarrow> int option \<Rightarrow> string" where
  "generateMessageId e k type subtaskId =
     (if type = MtAi \<and> opt_truthy truthy_num subtaskId
      then ''ai-'' @ show_int (the_or 0 subtaskId)
      else ''user-'' @ show_int (now e) @ ''-'' @ rnd e k)"

lemma generateMessageId_ai [simp]:
  "i \<noteq> 0 \<Longrightarrow> generateMessageId e k MtAi (Some i) = ''ai-'' @ show_int i"
  by (simp add: generateMessageId_def)

lemma generateMessageId_ai_iff:
  "i \<noteq> 0 \<Longrightarrow> generateMessageId e k MtAi s = ''ai-'' @ show_int i \<longleftrightarrow> s = Some i"
  by (cases s) (auto simp: generateMessageId_def)

text \<open>The id of an assistant message is its subtask: two nonzero subtasks never share an id,
  whatever the clock and the random source say.\<close>

theorem generateMessageId_injective:
  assumes "i \<noteq> 0" and "j \<noteq> 0"
  shows "generateMessageId e k MtAi (Some i) = generateMessageId e' k' MtAi (Some j) \<longleftrightarrow> i = j"
  using assms by simp

theorem generateMessageId_injective_witness:
  "generateMessageId e 0 MtAi (Some 7) \<noteq> generateMessageId e 0 MtAi (Some 8)"
  by (subst generateMessageId_injective) simp_all

subsection \<open>Merging a chunk\<close>

definition replaceTail :: "ustring list \<Rightarrow> nat \<Rightarrow> ustring \<Rightarrow> ustring \<times> ustring" where
  "replaceTail existingCodePoints offset incomingContent =
     (let content = concat (take offset existingCodePoints) @ incomingContent;
          contentCodePoints = code_points content;
          existingLength = length existingCodePoints
      in (content, if existingLength < length contentCodePoints
                   then concat (drop existingLength contentCodePoints) else []))"

definition mergeChunkContent :: "ustring \<Rightarrow> ustring \<Rightarrow> int option \<Rightarrow> ustring \<times> ustring" where
  "mergeChunkContent existingContent incomingContent offset =
     (if incomingContent = [] then (existingContent, [])
      else case offset of
        None \<Rightarrow> (existingContent @ incomingContent, incomingContent)
      | Some off \<Rightarrow>
        (if off < 0 then (existingContent @ incomingContent, incomingContent)
         else
           let o' = nat off;
               existingCodePoints = code_points existingContent;
               incomingCodePoints = code_points incomingContent;
               existingLength = length existingCodePoints
           in if existingLength < o' then replaceTail existingCodePoints o' incomingContent
              else if concat (take (length incomingCodePoints) (drop o' existingCodePoints))
                        = incomingContent
              then (existingContent, [])
              else if o' < existingLength
              then (let overlapLength = existingLength - o' in
                    if concat (drop o' existingCodePoints)
                         = concat (take overlapLength incomingCodePoints)
                    then (let appendedContent = concat (drop overlapLength incomingCodePoints)
                          in (existingContent @ appendedContent, appendedContent))
                    else replaceTail existingCodePoints o' incomingContent)
              else (existingContent @ incomingContent, incomingContent)))"

lemma mergeChunkContent_Nil [simp]: "mergeChunkContent x [] off = (x, [])"
  by (simp add: mergeChunkContent_def)

lemma mergeChunkContent_no_offset [simp]: "mergeChunkContent x y None = (x @ y, y)"
  by (simp add: mergeChunkContent_def)

subsection \<open>A chunk of a known text\<close>

lemma scalar_take: "list_all scalar F \<Longrightarrow> list_all scalar (take n F)"
  by (auto simp: list_all_iff dest: in_set_takeD)

lemma scalar_drop: "list_all scalar F \<Longrightarrow> list_all scalar (drop n F)"
  by (auto simp: list_all_iff dest: in_set_dropD)

lemmas scalar_slices = scalar_take scalar_drop

text \<open>The chunk of \<open>k\<close> code points at offset \<open>off\<close>, and the text received up to \<open>n\<close>.\<close>

definition chunk_at :: "ustring list \<Rightarrow> nat \<Rightarrow> nat \<Rightarrow> ustring" where
  "chunk_at F off k = concat (take k (drop off F))"

definition text_upto :: "ustring list \<Rightarrow> nat \<Rightarrow> ustring" where
  "text_upto F n = concat (take n F)"

lemma mergeChunk_unfold:
  assumes "code_points e = E" and "code_points i = I" and "i \<noteq> []" and "off \<le> length E"
  shows "mergeChunkContent e i (Some (int off)) =
    (if concat (take (length I) (drop off E)) = i then (e, [])
     else if off < length E
     then (if concat (drop off E) = concat (take (length E - off) I)
           then (e @ concat (drop (length E - off) I), concat (drop (length E - off) I))
           else replaceTail E off i)
     else (e @ i, i))"
  using assms by (simp add: mergeChunkContent_def Let_def)

lemma mergeChunk_step:
  assumes F: "list_all scalar F" and n: "n \<le> length F" and off: "off \<le> n"
  shows "mergeChunkContent (text_upto F n) (chunk_at F off k) (Some (int off)) =
    (text_upto F (max n (off + k)), concat (drop n (take (max n (off + k)) F)))"
proof -
  let ?E = "take n F" and ?I = "take k (drop off F)"
  have E: "list_all scalar ?E" and I: "list_all scalar ?I"
    using F by (auto intro: scalar_slices)
  have cE: "code_points (concat ?E) = ?E" and cI: "code_points (concat ?I) = ?I"
    by (rule code_points_concat [OF E], rule code_points_concat [OF I])
  have lE: "length ?E = n" using n by simp
  show ?thesis
  proof (cases "?I = []")
    case True
    then have "k = 0 \<or> length F \<le> off" by auto
    then have "take (max n (off + k)) F = ?E" using n off by (auto simp: max_def)
    moreover have "chunk_at F off k = []" unfolding chunk_at_def True by simp
    ultimately show ?thesis by (simp add: text_upto_def)
  next
    case nonempty: False
    then have Ine: "concat ?I \<noteq> []" using cI by (metis code_points.simps(1))
    have at: "concat (take (length ?I) (drop off ?E)) = concat ?I \<longleftrightarrow> take (length ?I) (drop off ?E) = ?I"
      by (rule concat_scalar_inj) (auto intro: scalar_slices F)
    note unfold = mergeChunk_unfold [OF cE cI Ine, of off, unfolded lE, OF off, unfolded at]
    show ?thesis
    proof (cases "off + length ?I \<le> n")
      case inside: True
      then have "take (length ?I) (drop off ?E) = ?I"
        by (simp add: drop_take min_def take_all_iff split: if_splits)
      moreover have "take (max n (off + k)) F = ?E"
        using inside n off by (auto simp: max_def min_def split: if_splits)
      ultimately show ?thesis
        by (simp add: unfold chunk_at_def text_upto_def)
    next
      case beyond: False
      then have neq: "take (length ?I) (drop off ?E) \<noteq> ?I"
        using lE off by (metis add_le_cancel_left diff_add_inverse le_add_diff_inverse length_drop
            length_take min.cobounded1 nat_le_linear)
      have nk: "n < off + k" using beyond by simp
      have "take (n + (off + k - n)) F = take n F @ take (off + k - n) (drop n F)"
        by (rule take_add)
      moreover have "drop (n - off) ?I = take (off + k - n) (drop n F)"
        using off nk by (simp add: drop_take add.commute)
      ultimately have full: "take (max n (off + k)) F = ?E @ drop (n - off) ?I"
        using nk by (simp add: max_def)
      have new: "concat (drop n (take (max n (off + k)) F)) = concat (drop (n - off) ?I)"
        unfolding full using lE by simp
      have "mergeChunkContent (concat ?E) (concat ?I) (Some (int off)) =
          (concat ?E @ concat (drop (n - off) ?I), concat (drop (n - off) ?I))"
      proof (cases "off < n")
        case True
        then have eq: "drop off ?E = take (n - off) ?I"
          using beyond n off by (simp add: drop_take min_def split: if_splits)
        show ?thesis unfolding unfold if_not_P [OF neq] if_P [OF True] by (subst eq) simp
      next
        case False
        then have "n - off = 0" using off by simp
        then show ?thesis unfolding unfold if_not_P [OF neq] if_not_P [OF False] by simp
      qed
      then show ?thesis
        unfolding chunk_at_def text_upto_def new unfolding full by simp
    qed
  qed
qed

text \<open>A chunk that starts inside or at the end of what has been received moves the end of the
  received prefix, and nothing else: the merged text is the prefix up to the later of the old end
  and the chunk's end, and the reported addition is exactly the new part. Duplicated, overlapping
  and shorter chunks are absorbed. Offsets count code points, for text with no lone surrogate.\<close>

theorem mergeChunkContent_prefix:
  assumes "list_all scalar F" and "n \<le> length F" and "off \<le> n"
  shows "mergeChunkContent (text_upto F n) (chunk_at F off k) (Some (int off)) =
    (text_upto F (max n (off + k)), concat (drop n (take (max n (off + k)) F)))"
  by (rule mergeChunk_step) (use assms in auto)

text \<open>A text of three code points, the second outside the basic plane.\<close>

definition demo_text :: "ustring list" where
  "demo_text = [[97], [0xD83D, 0xDE00], [98]]"

lemma demo_text_scalar: "list_all scalar demo_text"
  by (simp add: demo_text_def high_surrogate_def low_surrogate_def)

theorem mergeChunkContent_prefix_witness:
  "mergeChunkContent (text_upto demo_text 2) (chunk_at demo_text 1 2) (Some (int 1)) =
   ([97, 0xD83D, 0xDE00, 98], [98])"
  using mergeChunkContent_prefix [OF demo_text_scalar, of 2 1 2]
  by (simp add: demo_text_def text_upto_def)

subsection \<open>A whole stream\<close>

text \<open>
  The contract of a text that is received in chunks: \<open>upto n\<close> is what a receiver holds that has
  the first \<open>n\<close> units, \<open>chunk o k\<close> a transmitted piece. \<open>reach\<close> is how far a list of chunks gets,
  \<open>gap_free\<close> that none of them starts beyond what has been received when it arrives.
\<close>

definition reach :: "nat \<Rightarrow> (nat \<times> nat) list \<Rightarrow> nat" where
  "reach n cs = foldl (\<lambda>n (off, k). max n (off + k)) n cs"

fun gap_free :: "nat \<Rightarrow> (nat \<times> nat) list \<Rightarrow> bool" where
  "gap_free n [] = True"
| "gap_free n ((off, k) # cs) = (off \<le> n \<and> gap_free (max n (off + k)) cs)"

locale chunk_receiver =
  fixes ok :: "'f \<Rightarrow> bool"
    and size_of :: "'f \<Rightarrow> nat"
    and upto :: "'f \<Rightarrow> nat \<Rightarrow> 't"
    and chunk :: "'f \<Rightarrow> nat \<Rightarrow> nat \<Rightarrow> 't"
    and receive :: "'t \<Rightarrow> 't \<Rightarrow> nat \<Rightarrow> 't"
  assumes receive_chunk: "ok F \<Longrightarrow> n \<le> size_of F \<Longrightarrow> off \<le> n \<Longrightarrow>
      receive (upto F n) (chunk F off k) off = upto F (max n (off + k))"
    and upto_sat: "size_of F \<le> n \<Longrightarrow> upto F n = upto F (size_of F)"
begin

definition receive_all :: "'f \<Rightarrow> 't \<Rightarrow> (nat \<times> nat) list \<Rightarrow> 't" where
  "receive_all F x cs = foldl (\<lambda>x (off, k). receive x (chunk F off k) off) x cs"

lemma stream_complete:
  "ok F \<Longrightarrow> n \<le> size_of F \<Longrightarrow> \<forall>(off, k)\<in>set cs. off + k \<le> size_of F \<Longrightarrow> gap_free n cs \<Longrightarrow>
   receive_all F (upto F n) cs = upto F (reach n cs)"
proof (induction cs arbitrary: n)
  case Nil
  then show ?case by (simp add: receive_all_def reach_def)
next
  case (Cons c cs)
  obtain off k where c: "c = (off, k)" by (cases c)
  from Cons.prems have "receive (upto F n) (chunk F off k) off = upto F (max n (off + k))"
    by (intro receive_chunk) (auto simp: c)
  moreover have "receive_all F (upto F (max n (off + k))) cs = upto F (reach (max n (off + k)) cs)"
    using Cons.prems by (intro Cons.IH) (auto simp: c)
  ultimately show ?case by (simp add: c receive_all_def reach_def)
qed

lemma replay_absorbed:
  "ok F \<Longrightarrow> n \<le> size_of F \<Longrightarrow> off + k \<le> n \<Longrightarrow> receive (upto F n) (chunk F off k) off = upto F n"
  by (simp add: receive_chunk max_absorb1)

end

interpretation text_stream: chunk_receiver "list_all scalar" "length" text_upto chunk_at
  "\<lambda>x c off. fst (mergeChunkContent x c (Some (int off)))"
  by unfold_locales (simp_all add: mergeChunk_step, simp add: text_upto_def)

definition mergeChunks :: "ustring \<Rightarrow> (int option \<times> ustring) list \<Rightarrow> ustring" where
  "mergeChunks x cs = foldl (\<lambda>x (off, c). fst (mergeChunkContent x c off)) x cs"

lemma mergeChunks_receive_all:
  "mergeChunks x (map (\<lambda>(off, k). (Some (int off), chunk_at F off k)) cs) = text_stream.receive_all F x cs"
  unfolding mergeChunks_def text_stream.receive_all_def
  by (induction cs arbitrary: x) auto

text \<open>C3: However a text is cut into chunks and however often they are repeated or overlap, a
  receiver that never misses a piece holds exactly the prefix up to the furthest chunk end, and
  holds the whole text once a chunk has reached its end.\<close>

theorem mergeChunks_complete:
  assumes "list_all scalar F" and "\<forall>(off, k)\<in>set cs. off + k \<le> length F" and "gap_free 0 cs"
  shows "mergeChunks [] (map (\<lambda>(off, k). (Some (int off), chunk_at F off k)) cs)
    = concat (take (reach 0 cs) F)"
  using text_stream.stream_complete [of F 0 cs] assms
  by (simp add: mergeChunks_receive_all text_upto_def)

theorem mergeChunks_complete_witness:
  "mergeChunks [] (map (\<lambda>(off, k). (Some (int off), chunk_at demo_text off k))
     [(0, 1), (0, 2), (1, 1), (1, 2)]) = [97, 0xD83D, 0xDE00, 98]"
  by (subst mergeChunks_complete [OF demo_text_scalar]) (simp_all add: demo_text_def reach_def)

text \<open>A chunk that starts beyond what has been received is not held back: it is appended right
  after the received text, so the code points in the gap are missing from the merged text.\<close>

theorem mergeChunkContent_gap:
  assumes "length (code_points x) < off"
  shows "fst (mergeChunkContent x c (Some (int off))) = x @ c"
  using assms by (simp add: mergeChunkContent_def Let_def replaceTail_def take_all)

theorem mergeChunkContent_gap_witness:
  "fst (mergeChunkContent [97] [99] (Some (int 2))) = [97, 99]"
  by (subst mergeChunkContent_gap) simp_all

end
