(* ===== verification/TaskTypes.thy ===== *)
theory TaskTypes
  imports TaskStatus MessageBlocks MessageUtils
begin

text \<open>
  The state of a task machine and its events, from
  \<open>packages/chat-core/src/task-state/TaskStateMachine.types.ts\<close>, the flags derived from the runtime
  state (\<open>deriveRuntimeState\<close> of \<open>TaskStateMachine.ts\<close>) and the invariants of the state every
  reducer keeps.
\<close>

datatype MachineStatus =
    StIdle
  | StWaitingSocket
  | StJoining
  | StSyncing
  | StReady
  | StStreaming
  | StError

datatype MessageStatus = MsPending | MsStreaming | MsCompleted | MsError

record MsgResult =
  rValue :: "json option"
  rThinking :: "json option"
  rWorkbench :: "json option"
  rShellType :: "string option"
  rSources :: "json option"
  rRetrievalSummary :: "json option"
  rReasoningContent :: "ustring option"
  rReasoningChunk :: "ustring option"
  rBlocks :: "MessageBlock list option"
  rContextMetrics :: "json option"
  rVideoConfig :: "json option"
  rImageConfig :: "json option"
  rErrorType :: "string option"

definition empty_result :: MsgResult where
  "empty_result = \<lparr>rValue = None, rThinking = None, rWorkbench = None, rShellType = None,
     rSources = None, rRetrievalSummary = None, rReasoningContent = None, rReasoningChunk = None,
     rBlocks = None, rContextMetrics = None, rVideoConfig = None, rImageConfig = None,
     rErrorType = None\<rparr>"

text \<open>\<open>{...old, ...new}\<close> on two results.\<close>

definition spread_result :: "MsgResult \<Rightarrow> MsgResult \<Rightarrow> MsgResult" where
  "spread_result old new = \<lparr>rValue = coalesce (rValue new) (rValue old),
     rThinking = coalesce (rThinking new) (rThinking old),
     rWorkbench = coalesce (rWorkbench new) (rWorkbench old),
     rShellType = coalesce (rShellType new) (rShellType old),
     rSources = coalesce (rSources new) (rSources old),
     rRetrievalSummary = coalesce (rRetrievalSummary new) (rRetrievalSummary old),
     rReasoningContent = coalesce (rReasoningContent new) (rReasoningContent old),
     rReasoningChunk = coalesce (rReasoningChunk new) (rReasoningChunk old),
     rBlocks = coalesce (rBlocks new) (rBlocks old),
     rContextMetrics = coalesce (rContextMetrics new) (rContextMetrics old),
     rVideoConfig = coalesce (rVideoConfig new) (rVideoConfig old),
     rImageConfig = coalesce (rImageConfig new) (rImageConfig old),
     rErrorType = coalesce (rErrorType new) (rErrorType old)\<rparr>"

record UnifiedMessage =
  mId :: string
  mType :: MessageType
  mStatus :: MessageStatus
  mContent :: ustring
  mAttachment :: "json option"
  mAttachments :: "json option"
  mContexts :: "json option"
  mTimestamp :: jsnum
  mSubtaskId :: "int option"
  mMessageId :: "int option"
  mError :: "string option"
  mErrorType :: "string option"
  mBotName :: "string option"
  mSenderUserName :: "string option"
  mSenderUserId :: "int option"
  mShouldShowSender :: "bool option"
  mSubtaskStatus :: "string option"
  mReasoningContent :: "ustring option"
  mIsReasoningStreaming :: "bool option"
  mResult :: "MsgResult option"
  mSources :: "json option"

text \<open>An object literal with the required properties only.\<close>

definition new_message :: "string \<Rightarrow> MessageType \<Rightarrow> MessageStatus \<Rightarrow> ustring \<Rightarrow> jsnum \<Rightarrow> UnifiedMessage" where
  "new_message i t st c ts = \<lparr>mId = i, mType = t, mStatus = st, mContent = c, mAttachment = None,
     mAttachments = None, mContexts = None, mTimestamp = ts, mSubtaskId = None, mMessageId = None,
     mError = None, mErrorType = None, mBotName = None, mSenderUserName = None,
     mSenderUserId = None, mShouldShowSender = None, mSubtaskStatus = None,
     mReasoningContent = None, mIsReasoningStreaming = None, mResult = None, mSources = None\<rparr>"

record StreamingRecoveryPayload =
  srSubtaskId :: int
  srOffset :: "int option"
  srCachedContent :: "ustring option"
  srStartedAt :: "string option"
  srLastActivityAt :: "string option"
  srBlocks :: "MessageBlock list option"

datatype TaskRecoveryReason =
    TaskSelected
  | PageVisible
  | WebsocketReconnect
  | TaskStatusEvent
  | JoinAck
  | QueuedMessageBlocked
  | ManualRefresh
  | RuntimeInstabilityProbe
  | NetworkOnline

record TaskRuntimeState =
  rtTaskId :: int
  rtPhase :: TaskRuntimePhase
  rtTaskStatus :: "ApiTaskStatus option"
  rtJoinedRoom :: bool
  rtActiveStreamSubtaskId :: "int option"
  rtActiveStreamStartedAt :: "string option"
  rtActiveStreamLastActivityAt :: "string option"
  rtLocalStreamCursor :: int
  rtLocalLastChunkAt :: "int option"
  rtLastVerifiedServerCursor :: "int option"
  rtLastVerifiedAt :: "int option"
  rtLastSyncedAt :: "int option"
  rtLastStatusUpdatedAt :: "string option"
  rtMessagesSyncedUpdatedAt :: "string option"
  rtLastTerminalStatusUpdatedAt :: "string option"
  rtHasTerminalStatus :: "bool option"
  rtDeferredTerminalStatus :: "ApiTaskStatus option"
  rtDeferredTerminalUpdatedAt :: "string option"
  rtRecoveryReason :: "TaskRecoveryReason option"
  rtRecoveryError :: "string option"
  rtServerConfirmedNoStream :: "bool option"

text \<open>The runtime literal of the constructor and of LEAVE.\<close>

definition initial_runtime :: "int \<Rightarrow> TaskRuntimeState" where
  "initial_runtime tid = \<lparr>rtTaskId = tid, rtPhase = PhUnknown, rtTaskStatus = None,
     rtJoinedRoom = False, rtActiveStreamSubtaskId = None, rtActiveStreamStartedAt = None,
     rtActiveStreamLastActivityAt = None, rtLocalStreamCursor = 0, rtLocalLastChunkAt = None,
     rtLastVerifiedServerCursor = None, rtLastVerifiedAt = None, rtLastSyncedAt = None,
     rtLastStatusUpdatedAt = None, rtMessagesSyncedUpdatedAt = None,
     rtLastTerminalStatusUpdatedAt = None, rtHasTerminalStatus = None,
     rtDeferredTerminalStatus = None, rtDeferredTerminalUpdatedAt = None,
     rtRecoveryReason = None, rtRecoveryError = None, rtServerConfirmedNoStream = None\<rparr>"

record TaskRuntimeDerivedState =
  dIsExecutionActive :: bool
  dIsTerminal :: bool
  dIsStreaming :: bool
  dShouldJoinRoom :: bool
  dCanSendMessage :: bool
  dCanQueueMessage :: bool
  dCanCancelTask :: bool
  dBlocksQueuedDispatch :: bool
  dServerConfirmedNoStream :: bool

record ActiveStream =
  asSubtaskId :: int
  asCursor :: int
  asLastActivityAt :: "string option"

record TaskRuntimeVerifyResult =
  vTaskId :: int
  vTaskStatus :: ApiTaskStatus
  vStatusUpdatedAt :: "string option"
  vActiveStream :: "ActiveStream option"

record PendingChunkEvent =
  ckSubtaskId :: int
  ckContent :: ustring
  ckOffset :: "int option"
  ckResult :: "MsgResult option"
  ckSources :: "json option"
  ckBlockId :: "string option"

record TaskMachineInternalState =
  sTaskId :: int
  sStatus :: MachineStatus
  sMessages :: "(string, UnifiedMessage) jsmap"
  sError :: "string option"
  sIsStopping :: bool
  sRuntime :: TaskRuntimeState
  sDerived :: TaskRuntimeDerivedState

record RecoverEvent =
  reForce :: "bool option"
  reReason :: "TaskRecoveryReason option"
  reResumeFromCursor :: "int option"
  reActiveStreamSubtaskId :: "int option"
  reSyncAfterMessageId :: "int option"
  reSyncUpdatedAt :: "string option"

record ChatStartEvent =
  csSubtaskId :: int
  csShellType :: "string option"
  csMessageId :: "int option"
  csBotName :: "string option"

record ChatDoneEvent =
  cdSubtaskId :: int
  cdContent :: "ustring option"
  cdResult :: "MsgResult option"
  cdMessageId :: "int option"
  cdSources :: "json option"
  cdHasError :: "bool option"
  cdErrorMessage :: "string option"
  cdContexts :: "json option"

record ChatErrorEvent =
  ceSubtaskId :: int
  ceError :: string
  ceMessageId :: "int option"
  ceErrorType :: "string option"

datatype Event =
    RECOVER RecoverEvent
  | CHAT_START ChatStartEvent
  | CHAT_CHUNK PendingChunkEvent
  | CHAT_DONE ChatDoneEvent
  | CHAT_BLOCK_UPDATED int MessageBlock
  | CHAT_ERROR ChatErrorEvent
  | CHAT_CANCELLED int
  | SEND_ACCEPTED string
  | TASK_STATUS_RECEIVED ApiTaskStatus "string option"
  | TASK_DETAIL_SYNCED ApiTaskStatus "string option"
  | LEAVE

record SyncOptions =
  soTeamName :: "string option"
  soIsGroupChat :: "bool option"
  soCurrentUserId :: "int option"
  soCurrentUserName :: "string option"
  soForceClean :: "bool option"

subsection \<open>Derived flags\<close>

abbreviation confirmed_no_stream :: "TaskRuntimeState \<Rightarrow> bool" where
  "confirmed_no_stream r \<equiv> rtServerConfirmedNoStream r = Some True"

definition deriveRuntimeState :: "TaskRuntimeState \<Rightarrow> TaskRuntimeDerivedState" where
  "deriveRuntimeState runtime =
     (let isExecutionActive = isActiveExecutionTaskStatus (rtTaskStatus runtime);
          isTerminal = isTerminalTaskStatus (rtTaskStatus runtime);
          isWaitingForUser = isWaitingForUserTaskStatus (rtTaskStatus runtime);
          hasActiveStream = (rtPhase runtime = PhStreaming
            \<and> opt_truthy truthy_num (rtActiveStreamSubtaskId runtime));
          serverConfirmedNoStream = confirmed_no_stream runtime;
          isStreaming = (hasActiveStream
            \<or> (rtTaskStatus runtime = Some RUNNING \<and> \<not> serverConfirmedNoStream))
      in \<lparr>dIsExecutionActive = isExecutionActive,
          dIsTerminal = isTerminal,
          dIsStreaming = isStreaming,
          dShouldJoinRoom = (isExecutionActive \<and> \<not> rtJoinedRoom runtime),
          dCanSendMessage = (isTerminal \<or> isWaitingForUser
            \<or> (rtPhase runtime = PhRunning \<and> serverConfirmedNoStream)),
          dCanQueueMessage = hasActiveStream,
          dCanCancelTask = (isExecutionActive \<and> \<not> isTerminal \<and> \<not> serverConfirmedNoStream),
          dBlocksQueuedDispatch = (isExecutionActive \<and> \<not> serverConfirmedNoStream),
          dServerConfirmedNoStream = serverConfirmedNoStream\<rparr>)"

text \<open>Every reducer ends with this pair: the new runtime state and the flags derived from it.\<close>

definition with_runtime :: "TaskRuntimeState \<Rightarrow> TaskMachineInternalState \<Rightarrow> TaskMachineInternalState" where
  "with_runtime r s = s\<lparr>sRuntime := r, sDerived := deriveRuntimeState r\<rparr>"

lemma with_runtime_simps [simp]:
  "sRuntime (with_runtime r s) = r" "sDerived (with_runtime r s) = deriveRuntimeState r"
  "sTaskId (with_runtime r s) = sTaskId s" "sStatus (with_runtime r s) = sStatus s"
  "sMessages (with_runtime r s) = sMessages s" "sError (with_runtime r s) = sError s"
  "sIsStopping (with_runtime r s) = sIsStopping s"
  by (simp_all add: with_runtime_def)

text \<open>The flags the interface reads are consistent: cancelling is offered exactly while queued
  dispatch is blocked, a terminal task can always be sent to, is never cancellable and is never
  reported as streaming unless the runtime still names an active stream, and a message is never
  offered to be sent while the task is running and the server has not denied a stream.\<close>

theorem derived_flags_consistent:
  "let d = deriveRuntimeState r in
     (dCanCancelTask d \<longleftrightarrow> dBlocksQueuedDispatch d) \<and>
     (dIsTerminal d \<longrightarrow> dCanSendMessage d \<and> \<not> dCanCancelTask d \<and> \<not> dShouldJoinRoom d) \<and>
     (dIsTerminal d \<and> dIsStreaming d \<longrightarrow> dCanQueueMessage d) \<and>
     (dBlocksQueuedDispatch d \<longrightarrow> \<not> dCanSendMessage d)"
  by (auto simp: deriveRuntimeState_def Let_def status_cases)

text \<open>A running task whose stream the server has not denied.\<close>

definition demo_runtime :: TaskRuntimeState where
  "demo_runtime = (initial_runtime 1)\<lparr>rtTaskStatus := Some RUNNING, rtPhase := PhRunning\<rparr>"

theorem derived_flags_consistent_witness:
  "dBlocksQueuedDispatch (deriveRuntimeState demo_runtime) \<and>
   \<not> dCanSendMessage (deriveRuntimeState demo_runtime)"
  using derived_flags_consistent [of demo_runtime]
  by (simp add: demo_runtime_def initial_runtime_def deriveRuntimeState_def Let_def status_cases)

subsection \<open>Invariants of the state\<close>

definition derived_ok :: "TaskMachineInternalState \<Rightarrow> bool" where
  "derived_ok s \<longleftrightarrow> sDerived s = deriveRuntimeState (sRuntime s)"

text \<open>Each message is stored under its own id, and that of an assistant message is its subtask's.\<close>

definition msg_ok :: "string \<Rightarrow> UnifiedMessage \<Rightarrow> bool" where
  "msg_ok k m \<longleftrightarrow> mId m = k \<and>
     (\<forall>i. mType m = MtAi \<and> mSubtaskId m = Some i \<and> i \<noteq> 0 \<longrightarrow> k = ''ai-'' @ show_int i)"

definition keyed :: "(string, UnifiedMessage) jsmap \<Rightarrow> bool" where
  "keyed ms \<longleftrightarrow> jm_wf ms \<and> jm_every msg_ok ms"

text \<open>A machine in state streaming knows which subtask streams.\<close>

definition stream_known :: "TaskMachineInternalState \<Rightarrow> bool" where
  "stream_known s \<longleftrightarrow> (sStatus s = StStreaming \<longrightarrow> rtActiveStreamSubtaskId (sRuntime s) \<noteq> None)"

text \<open>A status put off until the stream ends is a terminal one.\<close>

definition deferred_ok :: "TaskMachineInternalState \<Rightarrow> bool" where
  "deferred_ok s \<longleftrightarrow>
     (\<forall>t. rtDeferredTerminalStatus (sRuntime s) = Some t \<longrightarrow> isTerminalTaskStatus (Some t))"

definition state_ok :: "TaskMachineInternalState \<Rightarrow> bool" where
  "state_ok s \<longleftrightarrow> derived_ok s \<and> keyed (sMessages s) \<and> stream_known s \<and> deferred_ok s"

lemmas state_ok_defs = state_ok_def derived_ok_def stream_known_def deferred_ok_def

lemma keyed_Nil [simp]: "keyed []"
  by (simp add: keyed_def)

lemma keyed_set [invs]: "keyed ms \<Longrightarrow> msg_ok k m \<Longrightarrow> keyed (jm_set k m ms)"
  by (simp add: keyed_def jm_every_set)

lemma keyedD: "keyed ms \<Longrightarrow> jm_get ms k = Some m \<Longrightarrow> msg_ok k m"
  by (auto simp: keyed_def dest: jm_everyD)

lemma keyed_filter [invs]: "keyed ms \<Longrightarrow> keyed (filter P ms)"
  by (simp add: keyed_def jm_wf_filter jm_every_filter)

text \<open>A message keeps its place when its id, type and subtask stay.\<close>

lemma msg_ok_cong:
  "msg_ok k m \<Longrightarrow> mId m' = mId m \<Longrightarrow> mType m' = mType m \<Longrightarrow> mSubtaskId m' = mSubtaskId m \<Longrightarrow>
   msg_ok k m'"
  by (simp add: msg_ok_def)

lemma msg_ok_generated [simp]:
  "mId m = generateMessageId e k MtAi (Some i) \<Longrightarrow> mSubtaskId m = Some i \<Longrightarrow>
   msg_ok (generateMessageId e k MtAi (Some i)) m"
  by (auto simp: msg_ok_def generateMessageId_def)

lemma new_message_simps [simp]:
  "mId (new_message i t st c ts) = i" "mType (new_message i t st c ts) = t"
  "mStatus (new_message i t st c ts) = st" "mContent (new_message i t st c ts) = c"
  by (simp_all add: new_message_def)

text \<open>The state of the constructor, and of LEAVE.\<close>

definition initial_state :: "int \<Rightarrow> TaskMachineInternalState" where
  "initial_state tid = \<lparr>sTaskId = tid, sStatus = StIdle, sMessages = [], sError = None,
     sIsStopping = False, sRuntime = initial_runtime tid,
     sDerived = deriveRuntimeState (initial_runtime tid)\<rparr>"

lemma initial_state_ok [invs]: "state_ok (initial_state tid)"
  by (simp add: initial_state_def state_ok_defs initial_runtime_def)

end
