(* ===== verification/BlockMerging.thy ===== *)
theory BlockMerging
  imports MessageBlocks
begin

text \<open>
  How streamed chunks and final results are merged into a message's blocks, from
  \<open>packages/chat-core/src/task-state/TaskStateMachine.blockMerging.ts\<close>: one definition per
  function, then what the merges keep (order and ids, the visible text, a finished card).
\<close>

definition upd_head :: "(BaseBlock \<Rightarrow> BaseBlock) \<Rightarrow> MessageBlock \<Rightarrow> MessageBlock" where
  "upd_head f b = Block (f (bHead b)) (bChildren b)"

definition TERMINAL_CARD_STATUSES :: "CardStatus list" where
  "TERMINAL_CARD_STATUSES = [CsPopulated, CsError]"

definition NONTERMINAL_CARD_STATUSES :: "CardStatus list" where
  "NONTERMINAL_CARD_STATUSES = [CsPending, CsPartialReady]"

fun blockTypeName :: "BlockType \<Rightarrow> string" where
  "blockTypeName TText = ''text''"
| "blockTypeName TThinking = ''thinking''"
| "blockTypeName _ = ''''"

text \<open>\<open>k\<close> numbers the random suffix drawn.\<close>

definition generateBlockId :: "env \<Rightarrow> nat \<Rightarrow> BlockType \<Rightarrow> string" where
  "generateBlockId e k t = blockTypeName t @ ''-'' @ show_int (now e) @ ''-'' @ rnd e k"

definition new_stream_block :: "env \<Rightarrow> string \<Rightarrow> BlockType \<Rightarrow> ustring \<Rightarrow> MessageBlock" where
  "new_stream_block e i t c = Block ((empty_base i)\<lparr>bType := Some t, bContent := Some c,
     bStatus := Some BsStreaming, bTimestamp := Some (Some (now e))\<rparr>) None"

definition append_content :: "ustring \<Rightarrow> MessageBlock \<Rightarrow> MessageBlock" where
  "append_content c b = upd_head (\<lambda>h. h\<lparr>bContent := Some (the_or [] (bContent h) @ c)\<rparr>) b"

definition finalizeStreamingBlocks :: "MessageBlock list \<Rightarrow> BlockType list \<Rightarrow> MessageBlock list" where
  "finalizeStreamingBlocks blocks blockTypes =
     map (\<lambda>b. if blk_status b = Some BsStreaming \<and> blk_type b \<in> Some ` set blockTypes
              then upd_head (\<lambda>h. h\<lparr>bStatus := Some BsDone\<rparr>) b else b) blocks"

definition mergeReasoningBlock :: "env \<Rightarrow> MessageBlock list \<Rightarrow> ustring \<Rightarrow> MessageBlock list" where
  "mergeReasoningBlock e existingBlocks reasoningChunk =
     (let blocksArray = finalizeStreamingBlocks existingBlocks [TText];
          lastIndex = length blocksArray - 1
      in if blocksArray \<noteq> [] \<and> blk_type (blocksArray ! lastIndex) = Some TThinking
            \<and> blk_status (blocksArray ! lastIndex) = Some BsStreaming
         then blocksArray[lastIndex := append_content reasoningChunk (blocksArray ! lastIndex)]
         else blocksArray @ [new_stream_block e (generateBlockId e 0 TThinking) TThinking reasoningChunk])"

definition block_map_of :: "MessageBlock list \<Rightarrow> (string, MessageBlock) jsmap" where
  "block_map_of bs = foldl (\<lambda>m b. jm_set (blk_id b) b m) [] bs"

definition mergeTextBlockWithId ::
    "env \<Rightarrow> MessageBlock list \<Rightarrow> string \<Rightarrow> ustring \<Rightarrow> MessageBlock list" where
  "mergeTextBlockWithId e existingBlocks blockId content =
     (let blocksMap = block_map_of (finalizeStreamingBlocks existingBlocks [TThinking])
      in map snd (case jm_get blocksMap blockId of
           Some targetBlock \<Rightarrow>
             (if blk_type targetBlock = Some TText
              then jm_set blockId (append_content content targetBlock) blocksMap
              else blocksMap)
         | None \<Rightarrow> jm_set blockId (new_stream_block e blockId TText content) blocksMap))"

definition mergeTextWithoutBlockId :: "env \<Rightarrow> MessageBlock list \<Rightarrow> ustring \<Rightarrow> MessageBlock list" where
  "mergeTextWithoutBlockId e existingBlocks content =
     (let blocksArray = finalizeStreamingBlocks existingBlocks [TThinking];
          lastIndex = length blocksArray - 1
      in if blocksArray \<noteq> [] \<and> blk_type (blocksArray ! lastIndex) = Some TText
            \<and> blk_status (blocksArray ! lastIndex) = Some BsStreaming
         then blocksArray[lastIndex := append_content content (blocksArray ! lastIndex)]
         else blocksArray @ [new_stream_block e (generateBlockId e 1 TText) TText content])"

definition mergeIncomingBlocks :: "MessageBlock list \<Rightarrow> MessageBlock list \<Rightarrow> MessageBlock list" where
  "mergeIncomingBlocks existingBlocks incomingBlocks =
     nestMessageBlocks (finalizeStreamingBlocks existingBlocks [TText, TThinking] @ incomingBlocks)"

definition mergeStreamingBlocks ::
    "env \<Rightarrow> MessageBlock list \<Rightarrow> MessageBlock list \<Rightarrow> ustring option \<Rightarrow> string option
     \<Rightarrow> ustring option \<Rightarrow> MessageBlock list" where
  "mergeStreamingBlocks e existingBlocks incomingBlocks content blockId reasoningChunk =
     (if opt_truthy truthy_text reasoningChunk
      then mergeReasoningBlock e existingBlocks (the_or [] reasoningChunk)
      else if opt_truthy truthy_text blockId \<and> opt_truthy truthy_text content
      then mergeTextBlockWithId e existingBlocks (the_or [] blockId) (the_or [] content)
      else if opt_truthy truthy_text content \<and> \<not> opt_truthy truthy_text blockId \<and> incomingBlocks = []
      then mergeTextWithoutBlockId e existingBlocks (the_or [] content)
      else if incomingBlocks = [] then existingBlocks
      else mergeIncomingBlocks existingBlocks incomingBlocks)"

definition mergeMessageBlock :: "MessageBlock \<Rightarrow> MessageBlock \<Rightarrow> MessageBlock" where
  "mergeMessageBlock existingBlock incomingBlock =
     (let merged = spread_block existingBlock incomingBlock; ex = bHead existingBlock
      in if blk_type existingBlock = Some TCard
            \<and> bCardStatus ex \<in> Some ` set TERMINAL_CARD_STATUSES
            \<and> bCardStatus (bHead incomingBlock) \<in> Some ` set NONTERMINAL_CARD_STATUSES
         then upd_head (\<lambda>h. h\<lparr>bStatus := bStatus ex, bCardStatus := bCardStatus ex,
                bCardData := bCardData ex, bCardPreviewData := bCardPreviewData ex,
                bCardError := bCardError ex\<rparr>) merged
         else merged)"

definition hasDuplicateBlockContent :: "MessageBlock list \<Rightarrow> MessageBlock \<Rightarrow> bool" where
  "hasDuplicateBlockContent existingBlocks incomingBlock \<longleftrightarrow>
     (blk_type incomingBlock = Some TText \<or> blk_type incomingBlock = Some TThinking) \<and>
     list_ex (\<lambda>b. blk_type b = blk_type incomingBlock \<and> blk_content b = blk_content incomingBlock)
       existingBlocks"

definition mergeDoneBlocksWithInlineThinking ::
    "MessageBlock list \<Rightarrow> MessageBlock list \<Rightarrow> MessageBlock list" where
  "mergeDoneBlocksWithInlineThinking existingBlocks incomingBlocks =
     (let incomingBlocksMap = block_map_of incomingBlocks;
          mergedBlocks = map (\<lambda>b. case jm_get incomingBlocksMap (blk_id b) of
              None \<Rightarrow> b | Some i \<Rightarrow> mergeMessageBlock b i) existingBlocks;
          appendedBlocks = filter (\<lambda>b. blk_id b \<notin> blk_id ` set existingBlocks
              \<and> \<not> hasDuplicateBlockContent existingBlocks b) incomingBlocks
      in mergedBlocks @ appendedBlocks)"

definition mergeDoneBlocksWithBackendOrder ::
    "MessageBlock list \<Rightarrow> MessageBlock list \<Rightarrow> MessageBlock list" where
  "mergeDoneBlocksWithBackendOrder existingBlocks incomingBlocks =
     (let existingToolBlocksMap = block_map_of (filter (\<lambda>b. blk_type b \<noteq> Some TText) existingBlocks)
      in map (\<lambda>b. if blk_type b = Some TText then b
            else case jm_get existingToolBlocksMap (blk_id b) of
              None \<Rightarrow> b | Some x \<Rightarrow> mergeMessageBlock x b) incomingBlocks)"

definition mergeBlocksForDone :: "MessageBlock list \<Rightarrow> MessageBlock list \<Rightarrow> MessageBlock list" where
  "mergeBlocksForDone existingMessageBlocks incomingBlocks =
     (let existingBlocks =
            finalizeStreamingBlocks (nestMessageBlocks existingMessageBlocks) [TText, TThinking];
          normalizedIncomingBlocks = nestMessageBlocks incomingBlocks
      in if existingBlocks = [] then normalizedIncomingBlocks
         else if normalizedIncomingBlocks = [] then existingBlocks
         else if list_ex (\<lambda>b. blk_type b = Some TThinking) existingBlocks
         then nestMessageBlocks
                (mergeDoneBlocksWithInlineThinking existingBlocks normalizedIncomingBlocks)
         else nestMessageBlocks
                (mergeDoneBlocksWithBackendOrder existingBlocks normalizedIncomingBlocks))"

subsection \<open>Field lemmas\<close>

lemma upd_head_simps [simp]: "bHead (upd_head f b) = f (bHead b)" "bChildren (upd_head f b) = bChildren b"
  by (simp_all add: upd_head_def)

lemma spread_block_simps [simp]:
  "bHead (spread_block a b) = spread_base (bHead a) (bHead b)"
  "bChildren (spread_block a b) = coalesce (bChildren b) (bChildren a)"
  by (simp_all add: spread_block_def)

lemma spread_base_simps [simp]:
  "bType (spread_base a b) = coalesce (bType b) (bType a)"
  "bCardStatus (spread_base a b) = coalesce (bCardStatus b) (bCardStatus a)"
  "bContent (spread_base a b) = coalesce (bContent b) (bContent a)"
  by (simp_all add: spread_base_def)

lemma mergeMessageBlock_id [simp]: "blk_id (mergeMessageBlock a b) = blk_id b"
  by (simp add: mergeMessageBlock_def Let_def)

lemma mergeMessageBlock_type [simp]:
  "blk_type (mergeMessageBlock a b) = coalesce (blk_type b) (blk_type a)"
  by (simp add: mergeMessageBlock_def Let_def)

lemma new_stream_block_simps [simp]:
  "blk_id (new_stream_block e i t c) = i" "blk_type (new_stream_block e i t c) = Some t"
  "blk_content (new_stream_block e i t c) = Some c"
  by (simp_all add: new_stream_block_def empty_base_def)

lemma append_content_simps [simp]:
  "blk_id (append_content c b) = blk_id b" "blk_type (append_content c b) = blk_type b"
  "blk_content (append_content c b) = Some (the_or [] (blk_content b) @ c)"
  by (simp_all add: append_content_def)

subsection \<open>Finalizing\<close>

lemma finalize_ids [simp]: "map blk_id (finalizeStreamingBlocks bs ts) = map blk_id bs"
  by (simp add: finalizeStreamingBlocks_def)

lemma finalize_types [simp]: "map blk_type (finalizeStreamingBlocks bs ts) = map blk_type bs"
  by (simp add: finalizeStreamingBlocks_def)

lemma finalize_contents [simp]: "map blk_content (finalizeStreamingBlocks bs ts) = map blk_content bs"
  by (simp add: finalizeStreamingBlocks_def)

lemma finalize_done:
  "b \<in> set (finalizeStreamingBlocks bs ts) \<Longrightarrow> blk_type b \<in> Some ` set ts \<Longrightarrow>
   blk_status b \<noteq> Some BsStreaming"
  by (auto simp: finalizeStreamingBlocks_def)

lemma finalize_idem [simp]:
  "finalizeStreamingBlocks (finalizeStreamingBlocks bs ts) ts = finalizeStreamingBlocks bs ts"
  by (simp add: finalizeStreamingBlocks_def)

subsection \<open>The text a reader sees\<close>

definition kind_text :: "BlockType \<Rightarrow> MessageBlock list \<Rightarrow> ustring" where
  "kind_text t bs = concat (map (\<lambda>b. the_or [] (blk_content b)) (filter (\<lambda>b. blk_type b = Some t) bs))"

lemma kind_text_append [simp]: "kind_text t (as @ bs) = kind_text t as @ kind_text t bs"
  by (simp add: kind_text_def)

lemma kind_text_single: "kind_text t [b] = (if blk_type b = Some t then the_or [] (blk_content b) else [])"
  by (simp add: kind_text_def)

lemma kind_text_map:
  "(\<And>b. b \<in> set bs \<Longrightarrow> blk_type (f b) = blk_type b \<and> blk_content (f b) = blk_content b) \<Longrightarrow>
   kind_text t (map f bs) = kind_text t bs"
  by (induction bs) (auto simp: kind_text_def)

lemma kind_text_finalize [simp]: "kind_text t (finalizeStreamingBlocks bs ts) = kind_text t bs"
  unfolding finalizeStreamingBlocks_def by (rule kind_text_map) simp

lemma kind_text_last:
  assumes "bs \<noteq> []" and "blk_type (bs ! (length bs - 1)) = Some t'"
  shows "kind_text t (bs[length bs - 1 := append_content c (bs ! (length bs - 1))])
    = kind_text t bs @ (if t = t' then c else [])"
proof -
  obtain as b where bs: "bs = as @ [b]" using assms(1) by (metis rev_exhaust)
  show ?thesis using assms(2) by (simp add: bs nth_append list_update_append kind_text_single)
qed

text \<open>Without block ids, a text chunk extends the text and leaves the reasoning alone, and a
  reasoning chunk does the reverse.\<close>

lemma kind_text_mergeTextWithoutBlockId:
  "kind_text t (mergeTextWithoutBlockId e bs c) = kind_text t bs @ (if t = TText then c else [])"
  by (auto simp: mergeTextWithoutBlockId_def Let_def kind_text_last kind_text_single
      simp del: One_nat_def)

lemma kind_text_mergeReasoningBlock:
  "kind_text t (mergeReasoningBlock e bs c) = kind_text t bs @ (if t = TThinking then c else [])"
  by (auto simp: mergeReasoningBlock_def Let_def kind_text_last kind_text_single
      simp del: One_nat_def)

text \<open>A streamed chunk that carries no block id and no blocks loses nothing and duplicates
  nothing: the text shown grows by exactly the chunk's text when it is a text chunk, the reasoning
  shown by exactly the reasoning chunk when it is one (reasoning wins when both are present), and
  every other kind of text is unchanged.\<close>

theorem mergeStreamingBlocks_text:
  "kind_text t (mergeStreamingBlocks e bs [] content None reasoning) =
   kind_text t bs @
     (if opt_truthy truthy_text reasoning then (if t = TThinking then the_or [] reasoning else [])
      else if t = TText then the_or [] content else [])"
  by (cases content; cases reasoning)
    (auto simp: mergeStreamingBlocks_def kind_text_mergeReasoningBlock kind_text_mergeTextWithoutBlockId)

subsection \<open>A chunk with a block id\<close>

lemma block_map_of_distinct:
  "distinct (map blk_id bs) \<Longrightarrow> block_map_of bs = map (\<lambda>b. (blk_id b, b)) bs"
proof (induction bs rule: rev_induct)
  case Nil
  then show ?case by (simp add: block_map_of_def)
next
  case (snoc b bs)
  then show ?case
    by (simp add: block_map_of_def) (intro jm_set_new, auto simp: image_iff)
qed

lemma map_snd_update:
  "distinct (map fst m) \<Longrightarrow> k \<in> fst ` set m \<Longrightarrow>
   map snd (jm_set k v m) = map (\<lambda>(k', w). if k' = k then v else w) m"
proof (induction m)
  case Nil
  then show ?case by simp
next
  case (Cons kv m)
  obtain k' w where kv: "kv = (k', w)" by (cases kv)
  have "map snd m = map (\<lambda>(k', w). if k' = k then v else w) m" if "k \<notin> fst ` set m"
    using that by (induction m) auto
  then show ?case using Cons kv by (auto simp: image_iff)
qed

text \<open>A text chunk with a block id touches one block only. With distinct block ids the list keeps
  its ids and order, the text block with that id grows by exactly the chunk, and every other block
  is only finalized (its reasoning stops streaming); when no block has the id, a new streaming text
  block with the chunk is appended; when a block of another kind has it, no text is added.\<close>

theorem mergeTextBlockWithId_spec:
  assumes "distinct (map blk_id bs)"
  shows "mergeTextBlockWithId e bs i c =
    (if i \<in> blk_id ` set bs
     then map (\<lambda>b. if blk_id b = i \<and> blk_type b = Some TText then append_content c b else b)
            (finalizeStreamingBlocks bs [TThinking])
     else finalizeStreamingBlocks bs [TThinking] @ [new_stream_block e i TText c])"
proof -
  let ?f = "finalizeStreamingBlocks bs [TThinking]"
  let ?m = "map (\<lambda>b. (blk_id b, b)) ?f"
  have dist: "distinct (map blk_id ?f)" and ids: "blk_id ` set ?f = blk_id ` set bs"
    using assms finalize_ids [of bs "[TThinking]"] by (metis, metis list.set_map)
  have m: "block_map_of ?f = ?m" by (rule block_map_of_distinct [OF dist])
  have snds: "map snd ?m = ?f" by (simp add: comp_def)
  show ?thesis
  proof (cases "i \<in> blk_id ` set bs")
    case True
    then obtain b where b: "b \<in> set ?f" "blk_id b = i" using ids by force
    have get: "jm_get ?m i = Some b"
      using dist b by (simp add: map_of_eq_Some_iff comp_def image_iff)
    have uniq: "x = b" if "x \<in> set ?f" "blk_id x = i" for x
      using dist b that by (metis distinct_map inj_onD)
    have "map snd (jm_set i v ?m) = map (\<lambda>x. if blk_id x = i then v else x) ?f" for v
      using dist b by (subst map_snd_update) (auto simp: comp_def image_iff)
    note upd = this
    show ?thesis
    proof (cases "blk_type b = Some TText")
      case istext: True
      have "mergeTextBlockWithId e bs i c = map (\<lambda>x. if blk_id x = i then append_content c b else x) ?f"
        using istext by (simp add: mergeTextBlockWithId_def m get Let_def upd del: map_map)
      also have "\<dots> = map (\<lambda>x. if blk_id x = i \<and> blk_type x = Some TText then append_content c x else x) ?f"
        by (rule map_cong [OF refl]) (use uniq istext in auto)
      finally show ?thesis using True by simp
    next
      case other: False
      have "mergeTextBlockWithId e bs i c = ?f"
        using other by (simp add: mergeTextBlockWithId_def m get Let_def snds del: map_map)
      also have "\<dots> = map (\<lambda>x. if blk_id x = i \<and> blk_type x = Some TText then append_content c x else x) ?f"
        by (rule map_idI [symmetric]) (use uniq other in auto)
      finally show ?thesis using True by simp
    qed
  next
    case False
    have "fst ` set ?m = blk_id ` set ?f" by (simp add: image_image)
    then have nokey: "i \<notin> fst ` set ?m" using ids False by metis
    then have get: "jm_get ?m i = None" by (simp only: map_of_eq_None_iff not_False_eq_True)
    have upd: "jm_set i v ?m = ?m @ [(i, v)]" for v by (rule jm_set_new [OF nokey])
    have "mergeTextBlockWithId e bs i c = map snd (?m @ [(i, new_stream_block e i TText c)])"
      unfolding mergeTextBlockWithId_def m Let_def get upd by simp
    also have "\<dots> = ?f @ [new_stream_block e i TText c]"
      by (simp only: map_append snds list.map snd_conv)
    finally show ?thesis using False by simp
  qed
qed

theorem mergeTextBlockWithId_witness:
  "map blk_content (mergeTextBlockWithId demo_env [new_stream_block demo_env ''a'' TText [97],
      new_stream_block demo_env ''b'' TText [98]] ''a'' [99]) = [Some [97, 99], Some [98]]"
  by (subst mergeTextBlockWithId_spec) (simp_all add: finalizeStreamingBlocks_def)

subsection \<open>Cards\<close>

definition card_finished :: "MessageBlock \<Rightarrow> bool" where
  "card_finished b \<longleftrightarrow> blk_type b = Some TCard \<and> bCardStatus (bHead b) \<in> Some ` set TERMINAL_CARD_STATUSES"

lemmas card_defs = card_finished_def TERMINAL_CARD_STATUSES_def NONTERMINAL_CARD_STATUSES_def

text \<open>A finished card stays finished. Whatever updates arrive late, as long as none of them
  changes its type or declares it expired, a card that reached populated or error has one of these
  two statuses after all of them.\<close>

theorem card_stays_finished:
  assumes "card_finished b"
    and "\<forall>u\<in>set updates. blk_type u \<in> {None, Some TCard} \<and> bCardStatus (bHead u) \<noteq> Some CsExpired"
  shows "card_finished (foldl mergeMessageBlock b updates)"
  using assms
proof (induction updates arbitrary: b)
  case Nil
  then show ?case by simp
next
  case (Cons u us)
  have "card_finished (mergeMessageBlock b u)"
    using Cons.prems
    by (cases "bCardStatus (bHead u)"; cases "the (bCardStatus (bHead u))")
      (auto simp: card_defs mergeMessageBlock_def Let_def)
  then show ?case using Cons by simp
qed

text \<open>A card as it is populated, then a late progress update and an unrelated one.\<close>

definition demo_card :: MessageBlock where
  "demo_card = Block ((empty_base ''k'')\<lparr>bType := Some TCard, bCardStatus := Some CsPopulated,
     bCardData := Some (JNum 1)\<rparr>) None"

definition demo_late :: MessageBlock where
  "demo_late = Block ((empty_base ''k'')\<lparr>bCardStatus := Some CsPending, bCardData := Some JNull\<rparr>) None"

theorem card_stays_finished_witness: "card_finished (foldl mergeMessageBlock demo_card [demo_late])"
  by (rule card_stays_finished)
    (simp_all add: demo_card_def demo_late_def card_defs empty_base_def)

text \<open>A late progress update (pending or partial) of a finished card changes none of its card
  fields: status, card status, data, preview and error stay those of the finished card.\<close>

theorem late_card_update_kept:
  assumes "card_finished b" and "bCardStatus (bHead u) \<in> Some ` set NONTERMINAL_CARD_STATUSES"
  shows "let h = bHead (mergeMessageBlock b u) in
    bStatus h = bStatus (bHead b) \<and> bCardStatus h = bCardStatus (bHead b) \<and>
    bCardData h = bCardData (bHead b) \<and> bCardPreviewData h = bCardPreviewData (bHead b) \<and>
    bCardError h = bCardError (bHead b)"
  using assms by (simp add: mergeMessageBlock_def card_finished_def Let_def)

theorem late_card_update_kept_witness:
  "bCardData (bHead (mergeMessageBlock demo_card demo_late)) = Some (JNum 1)"
  using late_card_update_kept [of demo_card demo_late]
  by (simp add: demo_card_def demo_late_def card_defs empty_base_def Let_def)

text \<open>The protection of a finished card does not cover the status expired: an expired update
  is taken over a populated card, and from there a late pending update is taken too, so a finished
  card can go back to pending in two updates.\<close>

theorem card_expired_reopens:
  "\<exists>b u v. card_finished b \<and> bCardStatus (bHead (mergeMessageBlock (mergeMessageBlock b u) v)) = Some CsPending"
  by (rule exI [of _ demo_card],
      rule exI [of _ "Block ((empty_base ''k'')\<lparr>bCardStatus := Some CsExpired\<rparr>) None"],
      rule exI [of _ demo_late])
    (simp add: demo_card_def demo_late_def card_defs empty_base_def mergeMessageBlock_def Let_def
      spread_base_def)

subsection \<open>The merge at completion\<close>

lemma backend_order_ids: "map blk_id (mergeDoneBlocksWithBackendOrder bs inc) = map blk_id inc"
  by (simp add: mergeDoneBlocksWithBackendOrder_def Let_def split: option.splits)

lemma inline_thinking_ids:
  "map blk_id (mergeDoneBlocksWithInlineThinking bs inc) =
   map blk_id bs @ map blk_id (filter (\<lambda>b. blk_id b \<notin> blk_id ` set bs
     \<and> \<not> hasDuplicateBlockContent bs b) inc)"
proof -
  have "jm_get (block_map_of inc) i = Some b \<Longrightarrow> blk_id b = i" for i b
  proof -
    have "jm_every (\<lambda>k x. blk_id x = k) (block_map_of bs)" for bs
      unfolding block_map_of_def
      by (induction bs rule: rev_induct) (auto intro: jm_every_set)
    then show "jm_get (block_map_of inc) i = Some b \<Longrightarrow> blk_id b = i"
      by (rule jm_everyD [where P = "\<lambda>k x. blk_id x = k"])
  qed
  then show ?thesis
    by (auto simp: mergeDoneBlocksWithInlineThinking_def Let_def split: option.splits)
qed

definition flat_blocks :: "MessageBlock list \<Rightarrow> bool" where
  "flat_blocks bs \<longleftrightarrow> distinct (map blk_id bs) \<and> (\<forall>b\<in>set bs. \<not> is_subagent b)"

lemma flat_finalize: "flat_blocks bs \<Longrightarrow> flat_blocks (finalizeStreamingBlocks bs ts)"
  unfolding flat_blocks_def by (simp only: finalize_ids) (auto simp: finalizeStreamingBlocks_def)

lemma nest_flat_blocks: "flat_blocks bs \<Longrightarrow> nestMessageBlocks bs = bs"
  unfolding flat_blocks_def by (rule nest_flat_eq) auto

lemma flat_backend_order:
  assumes "flat_blocks bs" and "flat_blocks inc"
  shows "flat_blocks (mergeDoneBlocksWithBackendOrder bs inc)"
proof -
  have "\<not> is_subagent x" if "jm_get (block_map_of (filter P bs)) i = Some x" for P i x
  proof -
    have "jm_every (\<lambda>_ x. \<not> is_subagent x) (block_map_of cs)" if "\<forall>x\<in>set cs. \<not> is_subagent x" for cs
      using that unfolding block_map_of_def
      by (induction cs rule: rev_induct) (auto intro: jm_every_set)
    then have "jm_every (\<lambda>_ x. \<not> is_subagent x) (block_map_of (filter P bs))"
      using assms(1) by (simp add: flat_blocks_def)
    from jm_everyD [OF this that] show ?thesis .
  qed
  then have "\<forall>b\<in>set (mergeDoneBlocksWithBackendOrder bs inc). \<not> is_subagent b"
    using assms unfolding flat_blocks_def
    by (auto simp: mergeDoneBlocksWithBackendOrder_def Let_def coalesce_def split: option.splits)
  then show ?thesis
    using assms(2) unfolding flat_blocks_def by (simp only: backend_order_ids simp_thms)
qed

lemma flat_inline_thinking:
  assumes "flat_blocks bs" and "flat_blocks inc"
  shows "flat_blocks (mergeDoneBlocksWithInlineThinking bs inc)"
proof -
  have "\<not> is_subagent x" if "jm_get (block_map_of inc) i = Some x" for i x
  proof -
    have "jm_every (\<lambda>_ x. \<not> is_subagent x) (block_map_of cs)" if "\<forall>x\<in>set cs. \<not> is_subagent x" for cs
      using that unfolding block_map_of_def
      by (induction cs rule: rev_induct) (auto intro: jm_every_set)
    then have "jm_every (\<lambda>_ x. \<not> is_subagent x) (block_map_of inc)"
      using assms(2) by (simp add: flat_blocks_def)
    from jm_everyD [OF this that] show ?thesis .
  qed
  moreover have "distinct (map blk_id (mergeDoneBlocksWithInlineThinking bs inc))"
    using assms by (auto simp: inline_thinking_ids flat_blocks_def distinct_map_filter image_iff)
  ultimately show ?thesis
    using assms unfolding flat_blocks_def
    by (auto simp: mergeDoneBlocksWithInlineThinking_def Let_def coalesce_def split: option.splits)
qed

lemma duplicate_finalize [simp]:
  "hasDuplicateBlockContent (finalizeStreamingBlocks bs ts) b = hasDuplicateBlockContent bs b"
  unfolding hasDuplicateBlockContent_def by (induction bs) (auto simp: finalizeStreamingBlocks_def)

lemma finalize_has_type:
  "list_ex (\<lambda>b. blk_type b = t) (finalizeStreamingBlocks bs ts) = list_ex (\<lambda>b. blk_type b = t) bs"
  by (induction bs) (auto simp: finalizeStreamingBlocks_def)

lemma finalize_Nil [simp]: "finalizeStreamingBlocks bs ts = [] \<longleftrightarrow> bs = []"
  by (simp add: finalizeStreamingBlocks_def)

lemma finalize_id_set: "blk_id ` set (finalizeStreamingBlocks bs ts) = blk_id ` set bs"
  by (metis finalize_ids list.set_map)

text \<open>What completion does to the order of the blocks (no subagents, distinct ids). If reasoning
  was streamed, the streamed order is kept and only final blocks that are new, by id and by
  content, are appended; otherwise the backend's order replaces it; an empty side gives the other.\<close>

theorem mergeBlocksForDone_order:
  assumes "flat_blocks bs" and "flat_blocks inc"
  shows "map blk_id (mergeBlocksForDone bs inc) =
    (if bs = [] then map blk_id inc
     else if inc = [] then map blk_id bs
     else if list_ex (\<lambda>b. blk_type b = Some TThinking) bs
     then map blk_id bs @ map blk_id (filter (\<lambda>b. blk_id b \<notin> blk_id ` set bs
            \<and> \<not> hasDuplicateBlockContent bs b) inc)
     else map blk_id inc)"
proof -
  let ?f = "finalizeStreamingBlocks bs [TText, TThinking]"
  have "flat_blocks ?f" by (rule flat_finalize [OF assms(1)])
  then show ?thesis
    using assms nest_flat_blocks [OF flat_inline_thinking [OF _ assms(2), of ?f]]
      nest_flat_blocks [OF flat_backend_order [OF _ assms(2), of ?f]]
    by (simp add: mergeBlocksForDone_def Let_def nest_flat_blocks finalize_has_type
        inline_thinking_ids backend_order_ids finalize_id_set)
qed

theorem mergeBlocksForDone_order_witness:
  "map blk_id (mergeBlocksForDone [new_stream_block demo_env ''x'' TThinking [1]]
     [new_stream_block demo_env ''y'' TText [2], new_stream_block demo_env ''z'' TThinking [1]]) = [''x'', ''y'']"
  by (subst mergeBlocksForDone_order)
    (simp_all add: flat_blocks_def hasDuplicateBlockContent_def)

end
