(* ===== verification/ChatEvents.thy ===== *)
theory ChatEvents
  imports TaskTypes BlockMerging
begin

text \<open>
  The reducers of the chat events, from
  \<open>packages/chat-core/src/task-state/TaskStateMachine.chatEvents.ts\<close>: one definition per reducer,
  each with its guards and early returns in the source's order. The clock, the random suffixes and
  the ISO instant come from the handler's \<open>env\<close>.
\<close>

abbreviation ai_key :: "env \<Rightarrow> int \<Rightarrow> string" where
  "ai_key e i \<equiv> generateMessageId e 0 MtAi (Some i)"

abbreviation failed_or_cancelled :: "string option \<Rightarrow> bool" where
  "failed_or_cancelled st \<equiv> st = Some ''FAILED'' \<or> st = Some ''CANCELLED''"

definition getRenderPayloadType :: "MessageBlock \<Rightarrow> ustring option" where
  "getRenderPayloadType block =
     (case bRenderPayload (bHead block) of
        Some (JObj fs) \<Rightarrow> (case map_of fs ''type'' of Some (JStr t) \<Rightarrow> Some t | _ \<Rightarrow> None)
      | _ \<Rightarrow> None)"

subsection \<open>Stream start\<close>

definition retrying_terminal_message :: "UnifiedMessage \<Rightarrow> bool" where
  "retrying_terminal_message m \<longleftrightarrow> mStatus m = MsError \<or> failed_or_cancelled (mSubtaskStatus m)"

definition reduceChatStartEvent ::
    "env \<Rightarrow> TaskMachineInternalState \<Rightarrow> ChatStartEvent \<Rightarrow> TaskMachineInternalState" where
  "reduceChatStartEvent e state event =
     (let aiMessageId = ai_key e (csSubtaskId event);
          existingMessage = jm_get (sMessages state) aiMessageId;
          isTerminalRuntime = isTerminalTaskStatus (rtTaskStatus (sRuntime state));
          isRetryingTerminalMessage =
            (isTerminalRuntime \<and> opt_truthy retrying_terminal_message existingMessage);
          isRestartingAfterTerminal =
            (isTerminalRuntime \<and> (existingMessage = None \<or> isRetryingTerminalMessage))
      in if isTerminalRuntime \<and> existingMessage \<noteq> None \<and> \<not> isRetryingTerminalMessage then state
         else if opt_truthy (\<lambda>m. mStatus m \<noteq> MsStreaming) existingMessage
                 \<and> \<not> isRetryingTerminalMessage then state
         else
           let streamingMessage = (case existingMessage of
                   Some m \<Rightarrow> if mStatus m = MsStreaming then Some m else None | None \<Rightarrow> None);
               streamingResult = Option.bind streamingMessage mResult;
               initialResult = (if opt_truthy truthy_text (csShellType event)
                 then Some ((the_or empty_result streamingResult)\<lparr>rShellType := csShellType event\<rparr>)
                 else streamingResult);
               message = (new_message aiMessageId MtAi MsStreaming
                   (case streamingMessage of Some m \<Rightarrow> mContent m | None \<Rightarrow> [])
                   (case streamingMessage of
                      Some m \<Rightarrow> (if opt_truthy truthy_num (mTimestamp m) then mTimestamp m
                                else Some (now e))
                    | None \<Rightarrow> Some (now e)))
                 \<lparr>mSubtaskId := Some (csSubtaskId event),
                  mMessageId := coalesce (csMessageId event) (Option.bind streamingMessage mMessageId),
                  mBotName := coalesce (csBotName event) (Option.bind streamingMessage mBotName),
                  mResult := initialResult\<rparr>;
               runtime = (sRuntime state)
                 \<lparr>rtTaskStatus := (if isRestartingAfterTerminal then Some RUNNING
                                  else rtTaskStatus (sRuntime state)),
                  rtPhase := PhStreaming,
                  rtActiveStreamSubtaskId := Some (csSubtaskId event),
                  rtActiveStreamStartedAt := Some (nowIso e),
                  rtActiveStreamLastActivityAt := None,
                  rtLocalStreamCursor := 0,
                  rtLocalLastChunkAt := Some (now e),
                  rtServerConfirmedNoStream := Some False\<rparr>
           in with_runtime runtime
                (state\<lparr>sStatus := StStreaming,
                       sMessages := jm_set aiMessageId message (sMessages state)\<rparr>))"

subsection \<open>Chunks\<close>

definition mergeChunkBlocks ::
    "env \<Rightarrow> UnifiedMessage \<Rightarrow> PendingChunkEvent \<Rightarrow> ustring \<Rightarrow> MessageBlock list" where
  "mergeChunkBlocks e existingMessage event appendedContent =
     mergeStreamingBlocks e
       (the_or [] (Option.bind (mResult existingMessage) rBlocks))
       (the_or [] (Option.bind (ckResult event) rBlocks))
       (Some appendedContent) (ckBlockId event)
       (Option.bind (ckResult event) rReasoningChunk)"

text \<open>The message after a chunk, the part of the reducer between reading and storing it.\<close>

definition chunkMessage :: "env \<Rightarrow> UnifiedMessage \<Rightarrow> PendingChunkEvent \<Rightarrow> UnifiedMessage" where
  "chunkMessage e existingMessage event =
     (let contentMerge =
            mergeChunkContent (mContent existingMessage) (ckContent event) (ckOffset event);
          m1 = existingMessage\<lparr>mContent := fst contentMerge\<rparr>;
          chunk = Option.bind (ckResult event) rReasoningChunk;
          full = Option.bind (ckResult event) rReasoningContent;
          m2 = (if opt_truthy truthy_text chunk
                then m1\<lparr>mReasoningContent :=
                          Some (the_or [] (mReasoningContent existingMessage) @ the_or [] chunk),
                        mIsReasoningStreaming := Some True\<rparr>
                else if opt_truthy truthy_text full then m1\<lparr>mReasoningContent := full\<rparr>
                else m1);
          m3 = (if ckContent event \<noteq> [] then m2\<lparr>mIsReasoningStreaming := Some False\<rparr> else m2);
          mergedBlocks = mergeChunkBlocks e existingMessage event (snd contentMerge);
          base = the_or empty_result (mResult existingMessage);
          m4 = (case ckResult event of
              Some r \<Rightarrow> m3\<lparr>mResult := Some ((spread_result base r)
                \<lparr>rThinking := js_or truthy_json (rThinking r) (rThinking base),
                 rBlocks := Some mergedBlocks,
                 rReasoningContent := js_or truthy_text (rReasoningContent r) (rReasoningContent base),
                 rShellType := js_or truthy_text (rShellType r) (rShellType base)\<rparr>)\<rparr>
            | None \<Rightarrow> m3\<lparr>mResult := Some (base\<lparr>rBlocks := Some mergedBlocks\<rparr>)\<rparr>)
      in if opt_truthy truthy_json (ckSources event) then m4\<lparr>mSources := ckSources event\<rparr> else m4)"

record ChatChunkReducerResult =
  ccState :: TaskMachineInternalState
  ccPendingChunks :: "PendingChunkEvent list"
  ccNotify :: bool

definition reduceChatChunkEvent ::
    "env \<Rightarrow> TaskMachineInternalState \<Rightarrow> PendingChunkEvent \<Rightarrow> PendingChunkEvent list
     \<Rightarrow> ChatChunkReducerResult" where
  "reduceChatChunkEvent e state event pendingChunks =
     (if sStatus state \<in> {StIdle, StJoining, StSyncing}
      then \<lparr>ccState = state, ccPendingChunks = pendingChunks @ [event], ccNotify = False\<rparr>
      else
        let aiMessageId = ai_key e (ckSubtaskId event)
        in case jm_get (sMessages state) aiMessageId of
             None \<Rightarrow> \<lparr>ccState = state, ccPendingChunks = pendingChunks, ccNotify = False\<rparr>
           | Some existingMessage \<Rightarrow>
               if mStatus existingMessage \<noteq> MsStreaming
               then \<lparr>ccState = state, ccPendingChunks = pendingChunks, ccNotify = False\<rparr>
               else
                 let updatedMessage = chunkMessage e existingMessage event;
                     runtime = (sRuntime state)
                       \<lparr>rtPhase := PhStreaming,
                        rtActiveStreamSubtaskId := Some (ckSubtaskId event),
                        rtLocalStreamCursor := int (length (mContent updatedMessage)),
                        rtLocalLastChunkAt := Some (now e),
                        rtServerConfirmedNoStream := Some False\<rparr>
                 in \<lparr>ccState = with_runtime runtime
                        (state\<lparr>sMessages := jm_set aiMessageId updatedMessage (sMessages state)\<rparr>),
                     ccPendingChunks = pendingChunks, ccNotify = True\<rparr>)"

subsection \<open>Block updates\<close>

definition inferredBlockType :: "MessageBlock \<Rightarrow> BlockType option" where
  "inferredBlockType block =
     (let isCardUpdate = (bCardId (bHead block) \<noteq> None \<or> bCardType (bHead block) \<noteq> None)
      in case blk_type block of
           Some t \<Rightarrow> Some t
         | None \<Rightarrow> if isCardUpdate then Some TCard
                   else if opt_truthy truthy_text (getRenderPayloadType block) then Some TTool
                   else None)"

definition with_type :: "BlockType option \<Rightarrow> MessageBlock \<Rightarrow> MessageBlock" where
  "with_type t b = upd_head (\<lambda>h. h\<lparr>bType := t\<rparr>) b"

definition find_block :: "string \<Rightarrow> MessageBlock list \<Rightarrow> nat option" where
  "find_block i bs = (case filter (\<lambda>j. blk_id (bs ! j) = i) [0..<length bs] of
     [] \<Rightarrow> None | j # _ \<Rightarrow> Some j)"

definition reduceChatBlockUpdatedEvent ::
    "env \<Rightarrow> TaskMachineInternalState \<Rightarrow> int \<Rightarrow> MessageBlock \<Rightarrow> TaskMachineInternalState" where
  "reduceChatBlockUpdatedEvent e state subtaskId eventBlock =
     (let aiMessageId = ai_key e subtaskId;
          inferredType = inferredBlockType eventBlock
      in case jm_get (sMessages state) aiMessageId of
           None \<Rightarrow>
             (if inferredType = None then state
              else
                let block = with_type inferredType eventBlock;
                    isTerminalBlock = (blk_status block = Some BsDone
                      \<or> (blk_type block = Some TCard
                         \<and> bCardStatus (bHead block) \<in> {Some CsPopulated, Some CsError}))
                in state\<lparr>sMessages := jm_set aiMessageId
                     ((new_message aiMessageId MtAi
                         (if isTerminalBlock then MsCompleted else MsStreaming) [] (Some (now e)))
                      \<lparr>mSubtaskId := Some subtaskId,
                       mResult := Some (empty_result\<lparr>rBlocks := Some [block]\<rparr>)\<rparr>)
                     (sMessages state)\<rparr>)
         | Some existingMessage \<Rightarrow>
             let existingBlocks = the_or [] (Option.bind (mResult existingMessage) rBlocks)
             in case find_block (blk_id eventBlock) existingBlocks of
                  None \<Rightarrow>
                    (if inferredType = None then state
                     else state\<lparr>sMessages := jm_set aiMessageId
                       (existingMessage\<lparr>mResult := Some ((the_or empty_result (mResult existingMessage))
                         \<lparr>rBlocks := Some (existingBlocks @ [with_type inferredType eventBlock])\<rparr>)\<rparr>)
                       (sMessages state)\<rparr>)
                | Some existingIndex \<Rightarrow>
                    state\<lparr>sMessages := jm_set aiMessageId
                      (existingMessage\<lparr>mResult := Some ((the_or empty_result (mResult existingMessage))
                        \<lparr>rBlocks := Some (existingBlocks[existingIndex :=
                            mergeMessageBlock (existingBlocks ! existingIndex) eventBlock])\<rparr>)\<rparr>)
                      (sMessages state)\<rparr>)"

subsection \<open>Stream end\<close>

definition is_active_stream_event :: "TaskMachineInternalState \<Rightarrow> int \<Rightarrow> bool" where
  "is_active_stream_event state subtaskId \<longleftrightarrow>
     sStatus state = StStreaming \<and> rtActiveStreamSubtaskId (sRuntime state) = Some subtaskId"

text \<open>\<open>result.value\<close> is declared a string; anything else is not text.\<close>

definition value_text :: "MsgResult option \<Rightarrow> ustring" where
  "value_text r = (case Option.bind r rValue of Some (JStr s) \<Rightarrow> s | _ \<Rightarrow> [])"

definition text_or :: "ustring option \<Rightarrow> ustring \<Rightarrow> ustring" where
  "text_or a b = (if opt_truthy truthy_text a then the_or [] a else b)"

text \<open>The message a completion starts from: the stored one, or a fresh streaming one.\<close>

definition done_source :: "env \<Rightarrow> TaskMachineInternalState \<Rightarrow> ChatDoneEvent \<Rightarrow> UnifiedMessage" where
  "done_source e state event =
     (let aiMessageId = ai_key e (cdSubtaskId event)
      in case jm_get (sMessages state) aiMessageId of
           Some m \<Rightarrow> m
         | None \<Rightarrow> (new_message aiMessageId MtAi MsStreaming
                      (text_or (cdContent event) (value_text (cdResult event))) (Some (now e)))
             \<lparr>mSubtaskId := Some (cdSubtaskId event), mResult := cdResult event,
              mSources := cdSources event\<rparr>)"

definition done_terminal_status ::
    "TaskMachineInternalState \<Rightarrow> ChatDoneEvent \<Rightarrow> ApiTaskStatus option" where
  "done_terminal_status state event =
     (let rt = sRuntime state; active = is_active_stream_event state (cdSubtaskId event)
      in if active \<and> rtDeferredTerminalStatus rt \<noteq> None then rtDeferredTerminalStatus rt
         else if active then Some (if cdHasError event = Some True then FAILED else COMPLETED)
         else rtTaskStatus rt)"

definition done_result :: "UnifiedMessage \<Rightarrow> ChatDoneEvent \<Rightarrow> MsgResult option" where
  "done_result existingMessage event =
     (let exBlocks = Option.bind (mResult existingMessage) rBlocks;
          mergedBlocks = mergeBlocksForDone (the_or [] exBlocks)
            (the_or [] (Option.bind (cdResult event) rBlocks));
          base = the_or empty_result (mResult existingMessage)
      in if cdResult event \<noteq> None \<or> exBlocks \<noteq> None
         then Some ((spread_result base (the_or empty_result (cdResult event)))
           \<lparr>rThinking := js_or truthy_json (Option.bind (cdResult event) rThinking) (rThinking base),
            rBlocks := Some mergedBlocks\<rparr>)
         else mResult existingMessage)"

definition done_message ::
    "env \<Rightarrow> ApiTaskStatus option \<Rightarrow> UnifiedMessage \<Rightarrow> ChatDoneEvent \<Rightarrow> UnifiedMessage" where
  "done_message e terminalTaskStatus existingMessage event =
     (let hasError = (cdHasError event = Some True);
          hasTerminalLifecycle = isTerminalTaskStatus terminalTaskStatus;
          bad = (terminalTaskStatus = Some FAILED \<or> terminalTaskStatus = Some CANCELLED);
          finalStatus = (if hasTerminalLifecycle then (if bad then MsError else MsCompleted)
                         else if hasError then MsError else MsCompleted);
          finalSubtaskStatus =
            (if hasTerminalLifecycle
             then (if bad then map_option statusName terminalTaskStatus else Some ''COMPLETED'')
             else if hasError then Some ''FAILED'' else Some ''COMPLETED'');
          incomingContent =
            (if \<not> hasTerminalLifecycle \<or> terminalTaskStatus = Some COMPLETED
             then text_or (cdContent event) (value_text (cdResult event)) else []);
          finalContent =
            (if length (mContent existingMessage) < length incomingContent then incomingContent
             else if mContent existingMessage \<noteq> [] then mContent existingMessage
             else incomingContent)
      in existingMessage
           \<lparr>mStatus := finalStatus,
            mSubtaskStatus := finalSubtaskStatus,
            mContent := finalContent,
            mTimestamp := (if hasError then Some (now e) else mTimestamp existingMessage),
            mIsReasoningStreaming := Some False,
            mError := (if hasError then cdErrorMessage event else mError existingMessage),
            mMessageId := coalesce (cdMessageId event) (mMessageId existingMessage),
            mSources := js_or truthy_json (cdSources event) (mSources existingMessage),
            mContexts := coalesce (cdContexts event) (mContexts existingMessage),
            mResult := done_result existingMessage event\<rparr>)"

text \<open>The runtime when the completed stream is the active one.\<close>

definition done_runtime :: "ApiTaskStatus option \<Rightarrow> TaskRuntimeState \<Rightarrow> TaskRuntimeState" where
  "done_runtime terminalTaskStatus rt = rt
     \<lparr>rtTaskStatus := terminalTaskStatus,
      rtPhase := getRuntimePhaseForTaskStatus terminalTaskStatus False,
      rtActiveStreamSubtaskId := None,
      rtActiveStreamStartedAt := None,
      rtActiveStreamLastActivityAt := None,
      rtLocalStreamCursor := 0,
      rtLastStatusUpdatedAt := coalesce (rtDeferredTerminalUpdatedAt rt) (rtLastStatusUpdatedAt rt),
      rtLastTerminalStatusUpdatedAt :=
        coalesce (rtDeferredTerminalUpdatedAt rt) (rtLastTerminalStatusUpdatedAt rt),
      rtHasTerminalStatus := Some True,
      rtDeferredTerminalStatus := None,
      rtDeferredTerminalUpdatedAt := None\<rparr>"

definition reduceChatDoneEvent ::
    "env \<Rightarrow> TaskMachineInternalState \<Rightarrow> ChatDoneEvent \<Rightarrow> TaskMachineInternalState" where
  "reduceChatDoneEvent e state event =
     (let aiMessageId = ai_key e (cdSubtaskId event);
          existingMessage = done_source e state event;
          isActiveStreamEvent = is_active_stream_event state (cdSubtaskId event)
      in if \<not> isActiveStreamEvent
            \<and> (mStatus existingMessage = MsError \<or> failed_or_cancelled (mSubtaskStatus existingMessage))
         then state
         else if \<not> isActiveStreamEvent \<and> mStatus existingMessage = MsCompleted
                 \<and> cdHasError event = Some True then state
         else
           let terminalTaskStatus = done_terminal_status state event;
               message = done_message e terminalTaskStatus existingMessage event
           in with_runtime
                (if isActiveStreamEvent then done_runtime terminalTaskStatus (sRuntime state)
                 else sRuntime state)
                (state\<lparr>sStatus := (if isActiveStreamEvent then StReady else sStatus state),
                       sMessages := jm_set aiMessageId message (sMessages state),
                       sIsStopping := (if isActiveStreamEvent then False else sIsStopping state)\<rparr>))"

text \<open>The runtime both a failed and a cancelled stream leave behind.\<close>

definition stream_ended_runtime :: "ApiTaskStatus \<Rightarrow> TaskRuntimeState \<Rightarrow> TaskRuntimeState" where
  "stream_ended_runtime st rt = rt
     \<lparr>rtTaskStatus := Some st, rtPhase := PhTerminal, rtActiveStreamSubtaskId := None,
      rtActiveStreamStartedAt := None, rtActiveStreamLastActivityAt := None,
      rtLocalStreamCursor := 0, rtHasTerminalStatus := Some True,
      rtDeferredTerminalStatus := None, rtDeferredTerminalUpdatedAt := None\<rparr>"

lemma stream_ended_runtime_simps [simp]:
  "rtTaskStatus (stream_ended_runtime st rt) = Some st"
  "rtPhase (stream_ended_runtime st rt) = PhTerminal"
  "rtActiveStreamSubtaskId (stream_ended_runtime st rt) = None"
  "rtLocalStreamCursor (stream_ended_runtime st rt) = 0"
  "rtDeferredTerminalStatus (stream_ended_runtime st rt) = None"
  by (simp_all add: stream_ended_runtime_def)

definition reduceChatErrorEvent ::
    "env \<Rightarrow> TaskMachineInternalState \<Rightarrow> ChatErrorEvent \<Rightarrow> TaskMachineInternalState" where
  "reduceChatErrorEvent e state event =
     (let aiMessageId = ai_key e (ceSubtaskId event)
      in case jm_get (sMessages state) aiMessageId of
           None \<Rightarrow> state
         | Some existingMessage \<Rightarrow>
             if isTerminalTaskStatus (rtTaskStatus (sRuntime state)) then state
             else if \<not> is_active_stream_event state (ceSubtaskId event) then state
             else with_runtime (stream_ended_runtime FAILED (sRuntime state))
               (state\<lparr>sStatus := StError,
                      sMessages := jm_set aiMessageId (existingMessage
                        \<lparr>mStatus := MsError, mSubtaskStatus := Some ''FAILED'',
                         mTimestamp := Some (now e), mError := Some (ceError event),
                         mErrorType := coalesce (ceErrorType event) (mErrorType existingMessage),
                         mMessageId := coalesce (ceMessageId event) (mMessageId existingMessage)\<rparr>)
                        (sMessages state),
                      sError := Some (ceError event),
                      sIsStopping := False\<rparr>))"

definition reduceChatCancelledEvent ::
    "env \<Rightarrow> TaskMachineInternalState \<Rightarrow> int \<Rightarrow> TaskMachineInternalState" where
  "reduceChatCancelledEvent e state subtaskId =
     (let aiMessageId = ai_key e subtaskId
      in case jm_get (sMessages state) aiMessageId of
           None \<Rightarrow> state
         | Some existingMessage \<Rightarrow>
             if isTerminalTaskStatus (rtTaskStatus (sRuntime state)) then state
             else
               let newMessages = jm_set aiMessageId (existingMessage
                     \<lparr>mStatus := MsCompleted, mSubtaskStatus := Some ''CANCELLED''\<rparr>) (sMessages state);
                   newStatus = (if is_active_stream_event state subtaskId then StReady
                                else sStatus state)
               in if newStatus = sStatus state then state
                  else with_runtime (stream_ended_runtime CANCELLED (sRuntime state))
                    (state\<lparr>sStatus := newStatus, sMessages := newMessages, sIsStopping := False\<rparr>))"

definition reduceSendAcceptedEvent ::
    "TaskMachineInternalState \<Rightarrow> string \<Rightarrow> TaskMachineInternalState" where
  "reduceSendAcceptedEvent state acceptedAt =
     (let activeStreamSubtaskId = rtActiveStreamSubtaskId (sRuntime state);
          runtime = (sRuntime state)
            \<lparr>rtTaskId := sTaskId state,
             rtTaskStatus := Some RUNNING,
             rtPhase := getRuntimePhaseForTaskStatus (Some RUNNING)
               (opt_truthy truthy_num activeStreamSubtaskId),
             rtActiveStreamSubtaskId := activeStreamSubtaskId,
             rtLastStatusUpdatedAt := Some acceptedAt,
             rtLastTerminalStatusUpdatedAt := None,
             rtHasTerminalStatus := Some False,
             rtDeferredTerminalStatus := None,
             rtDeferredTerminalUpdatedAt := None,
             rtServerConfirmedNoStream := Some False\<rparr>
      in with_runtime runtime
           (state\<lparr>sStatus := (if activeStreamSubtaskId = None then StReady else StStreaming),
                  sError := None, sIsStopping := False\<rparr>))"

subsection \<open>What a chunk does to a message\<close>

lemma chunkMessage_frame [simp]:
  "mId (chunkMessage e m c) = mId m" "mType (chunkMessage e m c) = mType m"
  "mSubtaskId (chunkMessage e m c) = mSubtaskId m" "mStatus (chunkMessage e m c) = mStatus m"
  "mMessageId (chunkMessage e m c) = mMessageId m"
  "mContent (chunkMessage e m c) = fst (mergeChunkContent (mContent m) (ckContent c) (ckOffset c))"
  by (simp_all add: chunkMessage_def Let_def split: option.splits)

subsection \<open>The reducers keep the invariants\<close>

lemma chat_start_ok [invs]: "state_ok s \<Longrightarrow> state_ok (reduceChatStartEvent e s ev)"
  unfolding reduceChatStartEvent_def Let_def
  by (auto simp: state_ok_defs intro!: keyed_set)

lemma chat_chunk_ok [invs]: "state_ok s \<Longrightarrow> state_ok (ccState (reduceChatChunkEvent e s ev pc))"
  unfolding reduceChatChunkEvent_def Let_def
  by (auto simp: state_ok_defs split: option.splits intro!: keyed_set elim!: msg_ok_cong
      dest: keyedD)

lemma block_updated_ok [invs]: "state_ok s \<Longrightarrow> state_ok (reduceChatBlockUpdatedEvent e s i b)"
  unfolding reduceChatBlockUpdatedEvent_def Let_def
  by (auto simp: state_ok_defs split: option.splits intro!: keyed_set elim!: msg_ok_cong
      dest: keyedD)

lemma chat_error_ok [invs]: "state_ok s \<Longrightarrow> state_ok (reduceChatErrorEvent e s ev)"
  unfolding reduceChatErrorEvent_def Let_def
  by (auto simp: state_ok_defs split: option.splits intro!: keyed_set elim!: msg_ok_cong
      dest: keyedD)

lemma chat_cancelled_ok [invs]: "state_ok s \<Longrightarrow> state_ok (reduceChatCancelledEvent e s i)"
  unfolding reduceChatCancelledEvent_def Let_def
  by (auto simp: state_ok_defs split: option.splits intro!: keyed_set elim!: msg_ok_cong
      dest: keyedD)

lemma send_accepted_ok [invs]: "state_ok s \<Longrightarrow> state_ok (reduceSendAcceptedEvent s t)"
  unfolding reduceSendAcceptedEvent_def Let_def
  by (auto simp: state_ok_defs)

lemma done_source_ok: "keyed (sMessages s) \<Longrightarrow> msg_ok (ai_key e (cdSubtaskId ev)) (done_source e s ev)"
  by (auto simp: done_source_def Let_def split: option.splits dest: keyedD)

lemma done_message_frame [simp]:
  "mId (done_message e t m ev) = mId m" "mType (done_message e t m ev) = mType m"
  "mSubtaskId (done_message e t m ev) = mSubtaskId m"
  by (simp_all add: done_message_def Let_def)

lemma done_runtime_simps [simp]:
  "rtActiveStreamSubtaskId (done_runtime t r) = None" "rtTaskStatus (done_runtime t r) = t"
  "rtPhase (done_runtime t r) = getRuntimePhaseForTaskStatus t False"
  "rtLocalStreamCursor (done_runtime t r) = 0"
  "rtDeferredTerminalStatus (done_runtime t r) = None"
  "rtHasTerminalStatus (done_runtime t r) = Some True"
  by (simp_all add: done_runtime_def)

lemma chat_done_ok [invs]: "state_ok s \<Longrightarrow> state_ok (reduceChatDoneEvent e s ev)"
  unfolding reduceChatDoneEvent_def Let_def
  by (auto simp: state_ok_defs intro!: keyed_set elim!: msg_ok_cong intro: msg_ok_cong [OF done_source_ok])

lemmas chat_ok = chat_start_ok chat_chunk_ok block_updated_ok chat_done_ok chat_error_ok
  chat_cancelled_ok send_accepted_ok

subsection \<open>What the events do not touch\<close>

lemma chat_frame [frames]:
  "k \<noteq> ai_key e (csSubtaskId ev1) \<Longrightarrow>
     jm_get (sMessages (reduceChatStartEvent e s ev1)) k = jm_get (sMessages s) k"
  "k \<noteq> ai_key e (ckSubtaskId ev2) \<Longrightarrow>
     jm_get (sMessages (ccState (reduceChatChunkEvent e s ev2 pc))) k = jm_get (sMessages s) k"
  "k \<noteq> ai_key e i \<Longrightarrow>
     jm_get (sMessages (reduceChatBlockUpdatedEvent e s i b)) k = jm_get (sMessages s) k"
  "k \<noteq> ai_key e (cdSubtaskId ev3) \<Longrightarrow>
     jm_get (sMessages (reduceChatDoneEvent e s ev3)) k = jm_get (sMessages s) k"
  "k \<noteq> ai_key e (ceSubtaskId ev4) \<Longrightarrow>
     jm_get (sMessages (reduceChatErrorEvent e s ev4)) k = jm_get (sMessages s) k"
  "k \<noteq> ai_key e i \<Longrightarrow>
     jm_get (sMessages (reduceChatCancelledEvent e s i)) k = jm_get (sMessages s) k"
  "jm_get (sMessages (reduceSendAcceptedEvent s t)) k = jm_get (sMessages s) k"
  by (auto simp: reduceChatStartEvent_def reduceChatChunkEvent_def reduceChatBlockUpdatedEvent_def
      reduceChatDoneEvent_def reduceChatErrorEvent_def reduceChatCancelledEvent_def
      reduceSendAcceptedEvent_def Let_def update_conv' split: option.splits)

lemma with_own_runtime: "derived_ok s \<Longrightarrow> with_runtime (sRuntime s) s = s"
  by (simp add: with_runtime_def derived_ok_def)

text \<open>An end event of another stream cannot end the current one: an error or a cancellation for
  a subtask that is not the active stream changes nothing at all, and a completion for it leaves
  the machine's status, its error, its stopping flag, its runtime and its flags as they were.\<close>

theorem foreign_end_events:
  assumes "state_ok s" and "\<not> is_active_stream_event s i"
  shows "(ceSubtaskId ev = i \<longrightarrow> reduceChatErrorEvent e s ev = s) \<and>
    reduceChatCancelledEvent e s i = s \<and>
    (cdSubtaskId dn = i \<longrightarrow> (let s' = reduceChatDoneEvent e s dn in
       sStatus s' = sStatus s \<and> sError s' = sError s \<and> sIsStopping s' = sIsStopping s \<and>
       sRuntime s' = sRuntime s \<and> sDerived s' = sDerived s))"
  using assms
  by (auto simp: reduceChatErrorEvent_def reduceChatCancelledEvent_def reduceChatDoneEvent_def Let_def
      state_ok_def derived_ok_def split: option.splits)

text \<open>Task 1 with subtask 7 streaming its first code points.\<close>

definition demo_message :: UnifiedMessage where
  "demo_message = (new_message ''ai-7'' MtAi MsStreaming [97] (Some 5))\<lparr>mSubtaskId := Some 7\<rparr>"

definition demo_stream :: TaskMachineInternalState where
  "demo_stream = with_runtime ((initial_runtime 1)\<lparr>rtTaskStatus := Some RUNNING, rtPhase := PhStreaming,
     rtActiveStreamSubtaskId := Some 7\<rparr>)
     ((initial_state 1)\<lparr>sStatus := StStreaming, sMessages := [(''ai-7'', demo_message)]\<rparr>)"

lemma show_7: "show_int 7 = ''7''"
  by code_simp

lemma demo_stream_ok: "state_ok demo_stream"
  by (simp add: demo_stream_def demo_message_def state_ok_defs initial_runtime_def initial_state_def
      keyed_def jm_wf_def jm_every_def msg_ok_def show_7 new_message_def)

theorem foreign_end_events_witness:
  "\<not> is_active_stream_event demo_stream 8 \<and> reduceChatCancelledEvent demo_env demo_stream 8 = demo_stream"
proof -
  have "\<not> is_active_stream_event demo_stream 8"
    by (simp add: is_active_stream_event_def demo_stream_def)
  with foreign_end_events [OF demo_stream_ok this] show ?thesis by blast
qed

text \<open>The end of the active stream always settles the machine: after its completion the machine is
  ready, after its error in state error, after its cancellation ready (the last two when the message
  is known and the task not already terminal); no stream is active, the task is terminal, nothing is
  being stopped, and the user can send again.\<close>

theorem active_end_events:
  assumes "state_ok s" and "is_active_stream_event s i"
  shows "(cdSubtaskId dn = i \<longrightarrow> (let s' = reduceChatDoneEvent e s dn in
      sStatus s' = StReady \<and> \<not> sIsStopping s' \<and> rtActiveStreamSubtaskId (sRuntime s') = None \<and>
      dIsTerminal (sDerived s') \<and> \<not> dIsStreaming (sDerived s') \<and> dCanSendMessage (sDerived s'))) \<and>
    (jm_get (sMessages s) (ai_key e i) \<noteq> None \<and> \<not> isTerminalTaskStatus (rtTaskStatus (sRuntime s)) \<longrightarrow>
      (ceSubtaskId er = i \<longrightarrow> (let s' = reduceChatErrorEvent e s er in
        sStatus s' = StError \<and> sError s' = Some (ceError er) \<and> \<not> sIsStopping s' \<and>
        rtActiveStreamSubtaskId (sRuntime s') = None \<and> rtTaskStatus (sRuntime s') = Some FAILED \<and>
        \<not> dIsStreaming (sDerived s') \<and> dCanSendMessage (sDerived s'))) \<and>
      (let s' = reduceChatCancelledEvent e s i in
        sStatus s' = StReady \<and> \<not> sIsStopping s' \<and> rtActiveStreamSubtaskId (sRuntime s') = None \<and>
        rtTaskStatus (sRuntime s') = Some CANCELLED \<and>
        \<not> dIsStreaming (sDerived s') \<and> dCanSendMessage (sDerived s')))"
proof -
  have streaming: "sStatus s = StStreaming" using assms(2) by (simp add: is_active_stream_event_def)
  have fin: "isTerminalTaskStatus (done_terminal_status s dn)" if "cdSubtaskId dn = i"
    using assms that by (auto simp: done_terminal_status_def Let_def state_ok_defs)
  have "let s' = reduceChatDoneEvent e s dn in
      sStatus s' = StReady \<and> \<not> sIsStopping s' \<and> rtActiveStreamSubtaskId (sRuntime s') = None \<and>
      dIsTerminal (sDerived s') \<and> \<not> dIsStreaming (sDerived s') \<and> dCanSendMessage (sDerived s')"
    if "cdSubtaskId dn = i"
    using fin [OF that] assms(2) that
    by (auto simp: reduceChatDoneEvent_def Let_def deriveRuntimeState_def status_cases)
  then show ?thesis
    using assms(2) streaming
    by (auto simp: reduceChatErrorEvent_def reduceChatCancelledEvent_def Let_def deriveRuntimeState_def)
qed

theorem active_end_events_witness:
  "rtTaskStatus (sRuntime (reduceChatCancelledEvent demo_env demo_stream 7)) = Some CANCELLED"
proof -
  have act: "is_active_stream_event demo_stream 7"
    by (simp add: is_active_stream_event_def demo_stream_def)
  have "jm_get (sMessages demo_stream) (ai_key demo_env 7) \<noteq> None"
    "\<not> isTerminalTaskStatus (rtTaskStatus (sRuntime demo_stream))"
    by (simp_all add: demo_stream_def show_7)
  with active_end_events [OF demo_stream_ok act, where e = demo_env] show ?thesis
    by (simp add: Let_def)
qed

text \<open>A completion never shortens the text on screen: the message it leaves holds the text it
  held, or a strictly longer final one, and any other message is untouched.\<close>

theorem chat_done_keeps_text:
  assumes "jm_get (sMessages s) (ai_key e (cdSubtaskId ev)) = Some m"
  shows "\<exists>m'. jm_get (sMessages (reduceChatDoneEvent e s ev)) (ai_key e (cdSubtaskId ev)) = Some m' \<and>
    (mContent m' = mContent m \<or> length (mContent m) < length (mContent m')) \<and>
    (\<forall>k. k \<noteq> ai_key e (cdSubtaskId ev) \<longrightarrow>
       jm_get (sMessages (reduceChatDoneEvent e s ev)) k = jm_get (sMessages s) k)"
proof -
  have "done_source e s ev = m" using assms by (simp add: done_source_def Let_def)
  moreover have "mContent (done_message e t m ev) = mContent m
      \<or> length (mContent m) < length (mContent (done_message e t m ev))" for t
    by (auto simp: done_message_def Let_def)
  ultimately show ?thesis
    using assms by (auto simp: reduceChatDoneEvent_def Let_def update_conv')
qed

theorem chat_done_keeps_text_witness:
  "\<exists>m'. jm_get (sMessages (reduceChatDoneEvent demo_env demo_stream
      \<lparr>cdSubtaskId = 7, cdContent = None, cdResult = None, cdMessageId = None, cdSources = None,
       cdHasError = None, cdErrorMessage = None, cdContexts = None\<rparr>)) ''ai-7'' = Some m' \<and>
     mContent m' \<noteq> []"
  using chat_done_keeps_text [of demo_stream demo_env "\<lparr>cdSubtaskId = 7, cdContent = None,
      cdResult = None, cdMessageId = None, cdSources = None,
      cdHasError = None, cdErrorMessage = None, cdContexts = None\<rparr>" demo_message]
  by (auto simp: demo_stream_def show_7 demo_message_def)

subsection \<open>Streaming into a message\<close>

lemma chat_chunk_taken:
  assumes "sStatus s \<notin> {StIdle, StJoining, StSyncing}"
    and "jm_get (sMessages s) (ai_key e (ckSubtaskId ev)) = Some m" and "mStatus m = MsStreaming"
  shows "let r = reduceChatChunkEvent e s ev pc; s' = ccState r in
    jm_get (sMessages s') (ai_key e (ckSubtaskId ev)) = Some (chunkMessage e m ev) \<and>
    ccPendingChunks r = pc \<and> sStatus s' = sStatus s \<and>
    rtActiveStreamSubtaskId (sRuntime s') = Some (ckSubtaskId ev) \<and>
    rtLocalStreamCursor (sRuntime s') = int (length (mContent (chunkMessage e m ev)))"
  using assms by (simp add: reduceChatChunkEvent_def Let_def update_conv')

text \<open>C4: The text of a streaming message refines the abstract stream. If the message holds the
  first n code points of a text and a chunk of it arrives that starts at or before n, then the
  message holds the prefix up to the later of n and the chunk's end, it is still streaming, the
  subtask is the active stream, the cursor is the new length and nothing is queued.\<close>

theorem chat_chunk_refines_stream:
  assumes "list_all scalar F" and "n \<le> length F" and "off \<le> n"
    and "sStatus s \<notin> {StIdle, StJoining, StSyncing}"
    and "jm_get (sMessages s) (ai_key e (ckSubtaskId ev)) = Some m" and "mStatus m = MsStreaming"
    and "mContent m = text_upto F n"
    and "ckContent ev = chunk_at F off k" and "ckOffset ev = Some (int off)"
  shows "let r = reduceChatChunkEvent e s ev pc; s' = ccState r in \<exists>m'.
    jm_get (sMessages s') (ai_key e (ckSubtaskId ev)) = Some m' \<and>
    mContent m' = text_upto F (max n (off + k)) \<and> mStatus m' = MsStreaming \<and>
    rtActiveStreamSubtaskId (sRuntime s') = Some (ckSubtaskId ev) \<and>
    rtLocalStreamCursor (sRuntime s') = int (length (text_upto F (max n (off + k)))) \<and>
    ccPendingChunks r = pc"
  using chat_chunk_taken [OF assms(4-6), of pc] assms
  by (simp add: Let_def mergeChunk_step)

definition demo_chunk :: PendingChunkEvent where
  "demo_chunk = \<lparr>ckSubtaskId = 7, ckContent = [0xD83D, 0xDE00], ckOffset = Some 1,
     ckResult = None, ckSources = None, ckBlockId = None\<rparr>"

lemma demo_stream_get: "jm_get (sMessages demo_stream) (ai_key e 7) = Some demo_message"
  by (simp add: demo_stream_def show_7)

lemma demo_stream_status: "sStatus demo_stream \<notin> {StIdle, StJoining, StSyncing}"
  by (simp add: demo_stream_def)

theorem chat_chunk_refines_stream_witness:
  "\<exists>m'. jm_get (sMessages (ccState (reduceChatChunkEvent demo_env demo_stream demo_chunk []))) ''ai-7''
     = Some m' \<and> mContent m' = [97, 0xD83D, 0xDE00]"
  using chat_chunk_refines_stream [OF demo_text_scalar, of 1 1 demo_stream demo_env demo_chunk
      demo_message 1 "[]"] demo_stream_get [of demo_env] demo_stream_status
  by (auto simp: demo_chunk_def demo_text_def demo_message_def text_upto_def chunk_at_def Let_def show_7)

lemma demo_chunk_sub [simp]: "ckSubtaskId demo_chunk = 7"
  by (simp add: demo_chunk_def)

lemma demo_message_streaming: "mStatus demo_message = MsStreaming"
  by (simp add: demo_message_def)

lemma demo_chunk_content:
  "mContent (chunkMessage demo_env demo_message demo_chunk) = [97, 0xD83D, 0xDE00]"
  by (simp add: demo_chunk_def demo_message_def mergeChunkContent_def Let_def
      high_surrogate_def low_surrogate_def)

lemma demo_chunk_taken:
  "jm_get (sMessages (ccState (reduceChatChunkEvent demo_env demo_stream demo_chunk []))) ''ai-7''
     = Some (chunkMessage demo_env demo_message demo_chunk)"
  "rtLocalStreamCursor (sRuntime (ccState (reduceChatChunkEvent demo_env demo_stream demo_chunk []))) = 3"
  using chat_chunk_taken [OF demo_stream_status _ demo_message_streaming, of demo_env demo_chunk "[]"]
    demo_stream_get [of demo_env] demo_chunk_content
  by (simp_all add: Let_def show_7)

text \<open>The stream cursor is not in the unit of the chunk offsets. Offsets count code points, the
  cursor counts UTF-16 units, so after a chunk with a character outside the basic plane the cursor
  the machine keeps, and later resumes from and compares with the server's, is larger than the
  number of code points received.\<close>

theorem cursor_exceeds_code_points:
  "\<exists>e s ev m'. state_ok s \<and> jm_get (sMessages (ccState (reduceChatChunkEvent e s ev []))) ''ai-7'' = Some m'
     \<and> int (length (code_points (mContent m')))
         < rtLocalStreamCursor (sRuntime (ccState (reduceChatChunkEvent e s ev [])))"
proof (intro exI conjI)
  show "state_ok demo_stream" by (rule demo_stream_ok)
  show "jm_get (sMessages (ccState (reduceChatChunkEvent demo_env demo_stream demo_chunk []))) ''ai-7''
      = Some (chunkMessage demo_env demo_message demo_chunk)" by (rule demo_chunk_taken(1))
  show "int (length (code_points (mContent (chunkMessage demo_env demo_message demo_chunk))))
      < rtLocalStreamCursor (sRuntime (ccState (reduceChatChunkEvent demo_env demo_stream demo_chunk [])))"
    unfolding demo_chunk_taken(2) demo_chunk_content
    by (simp add: high_surrogate_def low_surrogate_def)
qed

text \<open>A start event never costs text. Repeated for a message that streams it keeps the text, the
  creation time and every known id and name; for a message that is finished it changes nothing, unless
  the task is terminal and the message failed or was cancelled, which is a retry.\<close>

theorem chat_start_keeps_message:
  assumes "jm_get (sMessages s) (ai_key e (csSubtaskId ev)) = Some m"
    and "\<not> (isTerminalTaskStatus (rtTaskStatus (sRuntime s)) \<and> retrying_terminal_message m)"
  shows "if mStatus m = MsStreaming \<and> \<not> isTerminalTaskStatus (rtTaskStatus (sRuntime s))
    then \<exists>m'. jm_get (sMessages (reduceChatStartEvent e s ev)) (ai_key e (csSubtaskId ev)) = Some m' \<and>
      mContent m' = mContent m \<and> mStatus m' = MsStreaming \<and>
      (opt_truthy truthy_num (mTimestamp m) \<longrightarrow> mTimestamp m' = mTimestamp m) \<and>
      (mMessageId m \<noteq> None \<longrightarrow> mMessageId m' \<noteq> None) \<and>
      Option.bind (mResult m') rBlocks = Option.bind (mResult m) rBlocks
    else reduceChatStartEvent e s ev = s"
proof -
  have blocks: "rBlocks (the_or empty_result r) = Option.bind r rBlocks" for r
    by (cases r) (simp_all add: empty_result_def)
  have stamp: "mTimestamp (new_message i t u c n) = n" for i t u c n
    by (simp add: new_message_def)
  show ?thesis
    using assms
    by (auto simp: reduceChatStartEvent_def Let_def update_conv' blocks stamp coalesce_def split: option.splits)
qed

definition demo_start :: ChatStartEvent where
  "demo_start = \<lparr>csSubtaskId = 7, csShellType = Some ''Chat'', csMessageId = Some 3, csBotName = None\<rparr>"

theorem chat_start_keeps_message_witness:
  "\<exists>m'. jm_get (sMessages (reduceChatStartEvent demo_env demo_stream demo_start)) ''ai-7'' = Some m' \<and>
     mContent m' = [97] \<and> mTimestamp m' = Some 5"
proof -
  have "jm_get (sMessages demo_stream) (ai_key demo_env (csSubtaskId demo_start)) = Some demo_message"
    by (simp add: demo_start_def demo_stream_def show_7)
  moreover have "mTimestamp demo_message = Some 5" "mContent demo_message = [97]"
    "mStatus demo_message = MsStreaming" "\<not> isTerminalTaskStatus (rtTaskStatus (sRuntime demo_stream))"
    by (simp_all add: demo_message_def demo_stream_def new_message_def)
  ultimately show ?thesis
    using chat_start_keeps_message [of demo_stream demo_env demo_start demo_message]
    by (auto simp: demo_start_def show_7)
qed

text \<open>A block update is data only: it never changes the machine's status, its error, its stopping
  flag, its runtime or its flags, and an existing message keeps its status, text, error and ids.\<close>

theorem block_update_is_data_only:
  "let s' = reduceChatBlockUpdatedEvent e s i b in
    sStatus s' = sStatus s \<and> sError s' = sError s \<and> sIsStopping s' = sIsStopping s \<and>
    sRuntime s' = sRuntime s \<and> sDerived s' = sDerived s \<and>
    (\<forall>m. jm_get (sMessages s) (ai_key e i) = Some m \<longrightarrow>
      (\<exists>m'. jm_get (sMessages s') (ai_key e i) = Some m' \<and> mStatus m' = mStatus m \<and>
         mContent m' = mContent m \<and> mError m' = mError m \<and> mId m' = mId m \<and>
         mSubtaskId m' = mSubtaskId m \<and> mMessageId m' = mMessageId m))"
  by (auto simp: reduceChatBlockUpdatedEvent_def Let_def update_conv' split: option.splits)

theorem block_update_is_data_only_witness:
  "\<exists>m'. jm_get (sMessages (reduceChatBlockUpdatedEvent demo_env demo_stream 7 demo_card)) ''ai-7'' = Some m'
     \<and> mContent m' = [97]"
  using block_update_is_data_only [of demo_env demo_stream 7 demo_card] demo_stream_get [of demo_env]
  by (auto simp: Let_def show_7 demo_message_def)

text \<open>An accepted send re-opens the task: whatever state it was in, the task is then running and
  not terminal, no error or stop is pending, nothing is put off, further sends are blocked from
  dispatch, the task can be cancelled and counts as streaming; the messages are untouched.\<close>

theorem send_accepted_reopens:
  "let s' = reduceSendAcceptedEvent s t; d = sDerived s' in
    rtTaskStatus (sRuntime s') = Some RUNNING \<and> sError s' = None \<and> \<not> sIsStopping s' \<and>
    rtDeferredTerminalStatus (sRuntime s') = None \<and> rtLastStatusUpdatedAt (sRuntime s') = Some t \<and>
    dIsExecutionActive d \<and> \<not> dIsTerminal d \<and> dBlocksQueuedDispatch d \<and> dCanCancelTask d \<and>
    dIsStreaming d \<and> \<not> dCanSendMessage d \<and> sMessages s' = sMessages s \<and>
    (sStatus s' = StStreaming \<longleftrightarrow> rtActiveStreamSubtaskId (sRuntime s) \<noteq> None)"
  by (auto simp: reduceSendAcceptedEvent_def Let_def deriveRuntimeState_def status_cases)

end
