(* ===== verification/TaskLifecycle.thy ===== *)
theory TaskLifecycle
  imports ChatEvents
begin

text \<open>
  What a task status reported by the server does to a machine, from
  \<open>packages/chat-core/src/task-state/TaskStateMachine.lifecycle.ts\<close>: it is put off, ignored or
  applied. Statuses come with the time they were reported at; \<open>Date.parse\<close> is that of the
  handler's \<open>env\<close>.
\<close>

record LifecycleResult =
  lcState :: TaskMachineInternalState
  lcClearPendingChunks :: bool

definition shouldIgnoreLifecycleStatus ::
    "env \<Rightarrow> TaskMachineInternalState \<Rightarrow> ApiTaskStatus \<Rightarrow> string option \<Rightarrow> bool" where
  "shouldIgnoreLifecycleStatus e state taskStatus updatedAt =
     (let rt = sRuntime state;
          previousUpdatedAt = rtLastStatusUpdatedAt rt;
          previousStatus = rtTaskStatus rt
      in if isTerminalTaskStatus previousStatus \<and> isActiveExecutionTaskStatus (Some taskStatus) then True
         else if opt_truthy truthy_text previousUpdatedAt \<and> opt_truthy truthy_text updatedAt then
           (case (Option.bind previousUpdatedAt (parseDate e), Option.bind updatedAt (parseDate e)) of
              (Some previousTime, Some nextTime) \<Rightarrow>
                if nextTime < previousTime then True
                else nextTime = previousTime \<and> isTerminalTaskStatus (Some taskStatus)
                  \<and> updatedAt = rtLastTerminalStatusUpdatedAt rt
                  \<and> rtPhase rt = PhStreaming \<and> rtActiveStreamSubtaskId rt \<noteq> None
            | _ \<Rightarrow> False)
         else False)"

definition shouldDeferLifecycleStatus :: "TaskMachineInternalState \<Rightarrow> ApiTaskStatus \<Rightarrow> bool" where
  "shouldDeferLifecycleStatus state taskStatus \<longleftrightarrow>
     isTerminalTaskStatus (Some taskStatus)
     \<and> rtPhase (sRuntime state) = PhStreaming
     \<and> rtActiveStreamSubtaskId (sRuntime state) \<noteq> None
     \<and> rtHasTerminalStatus (sRuntime state) = Some True
     \<and> \<not> opt_truthy truthy_text (rtLastTerminalStatusUpdatedAt (sRuntime state))"

definition finalize_for_terminal :: "ApiTaskStatus \<Rightarrow> UnifiedMessage \<Rightarrow> UnifiedMessage" where
  "finalize_for_terminal taskStatus message =
     (let bad = (taskStatus = FAILED \<or> taskStatus = CANCELLED)
      in if mType message \<noteq> MtAi \<or> mStatus message \<noteq> MsStreaming then message
         else message\<lparr>mStatus := (if bad then MsError else MsCompleted),
                      mSubtaskStatus := Some (if bad then statusName taskStatus else ''COMPLETED''),
                      mIsReasoningStreaming := Some False\<rparr>)"

text \<open>The loop sets present keys only, so it rewrites each entry in place.\<close>

definition finalizeStreamingMessagesForTerminal ::
    "(string, UnifiedMessage) jsmap \<Rightarrow> ApiTaskStatus \<Rightarrow> (string, UnifiedMessage) jsmap" where
  "finalizeStreamingMessagesForTerminal currentMessages taskStatus =
     map (\<lambda>(i, m). (i, finalize_for_terminal taskStatus m)) currentMessages"

definition lifecycle_runtime ::
    "TaskMachineInternalState \<Rightarrow> ApiTaskStatus \<Rightarrow> string option \<Rightarrow> TaskRuntimeState" where
  "lifecycle_runtime state taskStatus updatedAt =
     (let rt = sRuntime state;
          isTerminal = isTerminalTaskStatus (Some taskStatus);
          activeStreamSubtaskId = (if isTerminal then None else rtActiveStreamSubtaskId rt);
          settled = (isTerminal \<or> isActiveExecutionTaskStatus (Some taskStatus))
      in rt\<lparr>rtTaskId := sTaskId state,
            rtTaskStatus := Some taskStatus,
            rtPhase := getRuntimePhaseForTaskStatus (Some taskStatus)
              (opt_truthy truthy_num activeStreamSubtaskId),
            rtActiveStreamSubtaskId := activeStreamSubtaskId,
            rtActiveStreamStartedAt := (if isTerminal then None else rtActiveStreamStartedAt rt),
            rtActiveStreamLastActivityAt := (if isTerminal then None else rtActiveStreamLastActivityAt rt),
            rtLastStatusUpdatedAt := coalesce updatedAt (rtLastStatusUpdatedAt rt),
            rtLastTerminalStatusUpdatedAt :=
              (if isTerminal then coalesce updatedAt (rtLastTerminalStatusUpdatedAt rt)
               else rtLastTerminalStatusUpdatedAt rt),
            rtHasTerminalStatus := (if isTerminal then Some True else rtHasTerminalStatus rt),
            rtDeferredTerminalStatus := (if settled then None else rtDeferredTerminalStatus rt),
            rtDeferredTerminalUpdatedAt := (if settled then None else rtDeferredTerminalUpdatedAt rt),
            rtServerConfirmedNoStream :=
              (if isTerminal then Some False else rtServerConfirmedNoStream rt)\<rparr>)"

abbreviation recovery_status :: "MachineStatus \<Rightarrow> bool" where
  "recovery_status st \<equiv> st = StWaitingSocket \<or> st = StJoining \<or> st = StSyncing"

definition applyTaskLifecycleStatusToState ::
    "env \<Rightarrow> TaskMachineInternalState \<Rightarrow> ApiTaskStatus \<Rightarrow> string option \<Rightarrow> LifecycleResult" where
  "applyTaskLifecycleStatusToState e state taskStatus updatedAt =
     (if shouldDeferLifecycleStatus state taskStatus then
        \<lparr>lcState = with_runtime ((sRuntime state)\<lparr>rtDeferredTerminalStatus := Some taskStatus,
           rtDeferredTerminalUpdatedAt := updatedAt\<rparr>) state, lcClearPendingChunks = False\<rparr>
      else if shouldIgnoreLifecycleStatus e state taskStatus updatedAt then
        \<lparr>lcState = state, lcClearPendingChunks = False\<rparr>
      else
        let isTerminal = isTerminalTaskStatus (Some taskStatus);
            messages = (if isTerminal
              then finalizeStreamingMessagesForTerminal (sMessages state) taskStatus
              else sMessages state);
            shouldPreserveMessageRecoveryPhase = (isTerminal \<and> recovery_status (sStatus state))
        in \<lparr>lcState = with_runtime (lifecycle_runtime state taskStatus updatedAt)
              (state\<lparr>sStatus := (if isTerminal \<and> \<not> shouldPreserveMessageRecoveryPhase then StReady
                                else sStatus state),
                     sIsStopping := (if isTerminal then False else sIsStopping state),
                     sMessages := messages\<rparr>),
            lcClearPendingChunks = isTerminal\<rparr>)"

subsection \<open>The invariants\<close>

lemma finalize_for_terminal_frame [simp]:
  "mId (finalize_for_terminal t m) = mId m" "mType (finalize_for_terminal t m) = mType m"
  "mSubtaskId (finalize_for_terminal t m) = mSubtaskId m"
  "mContent (finalize_for_terminal t m) = mContent m"
  "mMessageId (finalize_for_terminal t m) = mMessageId m"
  "mResult (finalize_for_terminal t m) = mResult m"
  by (simp_all add: finalize_for_terminal_def Let_def)

lemma keyed_map:
  assumes "keyed ms" and "\<And>k m. msg_ok k m \<Longrightarrow> msg_ok k (f m)"
  shows "keyed (map (\<lambda>(k, m). (k, f m)) ms)"
proof -
  have "map fst (map (\<lambda>(k, m). (k, f m)) ms) = map fst ms" by (induction ms) auto
  then have "jm_wf (map (\<lambda>(k, m). (k, f m)) ms) = jm_wf ms"
    unfolding jm_wf_def by (rule arg_cong)
  moreover have "jm_every msg_ok (map (\<lambda>(k, m). (k, f m)) ms)"
    using assms by (auto simp: keyed_def jm_every_def list_all_iff)
  ultimately show ?thesis using assms(1) by (simp add: keyed_def)
qed

lemma finalize_get:
  "jm_get (finalizeStreamingMessagesForTerminal ms t) k = map_option (finalize_for_terminal t) (jm_get ms k)"
  unfolding finalizeStreamingMessagesForTerminal_def by (induction ms) auto

lemma finalize_keyed [invs]: "keyed ms \<Longrightarrow> keyed (finalizeStreamingMessagesForTerminal ms t)"
  unfolding finalizeStreamingMessagesForTerminal_def
  by (rule keyed_map) (auto elim!: msg_ok_cong)

lemma lifecycle_runtime_simps [simp]:
  "rtTaskStatus (lifecycle_runtime s t u) = Some t"
  "rtTaskId (lifecycle_runtime s t u) = sTaskId s"
  "rtPhase (lifecycle_runtime s t u) = getRuntimePhaseForTaskStatus (Some t)
     (opt_truthy truthy_num (rtActiveStreamSubtaskId (lifecycle_runtime s t u)))"
  "rtActiveStreamSubtaskId (lifecycle_runtime s t u) =
     (if isTerminalTaskStatus (Some t) then None else rtActiveStreamSubtaskId (sRuntime s))"
  "rtLastStatusUpdatedAt (lifecycle_runtime s t u) = coalesce u (rtLastStatusUpdatedAt (sRuntime s))"
  "rtJoinedRoom (lifecycle_runtime s t u) = rtJoinedRoom (sRuntime s)"
  "rtLocalStreamCursor (lifecycle_runtime s t u) = rtLocalStreamCursor (sRuntime s)"
  "rtDeferredTerminalStatus (lifecycle_runtime s t u) =
     (if isTerminalTaskStatus (Some t) \<or> isActiveExecutionTaskStatus (Some t) then None
      else rtDeferredTerminalStatus (sRuntime s))"
  by (simp_all add: lifecycle_runtime_def Let_def)

lemma lifecycle_ok [invs]:
  "state_ok s \<Longrightarrow> state_ok (lcState (applyTaskLifecycleStatusToState e s t u))"
  by (auto simp: applyTaskLifecycleStatusToState_def Let_def state_ok_defs shouldDeferLifecycleStatus_def
      intro!: finalize_keyed)

lemma finalize_no_streaming:
  "(k, m) \<in> set (finalizeStreamingMessagesForTerminal ms t) \<Longrightarrow>
   \<not> (mType m = MtAi \<and> mStatus m = MsStreaming)"
  by (auto simp: finalizeStreamingMessagesForTerminal_def finalize_for_terminal_def Let_def
      split: if_splits)

subsection \<open>Properties\<close>

text \<open>A terminal status that is neither put off nor ignored settles the task: it is terminal, no
  stream is active, nothing is being stopped, queued chunks are dropped, no assistant message
  streams any more while every message keeps its text, id and result, and the machine is ready unless
  a recovery is under way, which is left to finish.\<close>

theorem terminal_status_settles:
  assumes "isTerminalTaskStatus (Some t)" and "\<not> shouldDeferLifecycleStatus s t"
    and "\<not> shouldIgnoreLifecycleStatus e s t u"
  shows "let r = applyTaskLifecycleStatusToState e s t u; s' = lcState r in
    lcClearPendingChunks r \<and> dIsTerminal (sDerived s') \<and> \<not> dIsStreaming (sDerived s') \<and>
    dCanSendMessage (sDerived s') \<and> rtActiveStreamSubtaskId (sRuntime s') = None \<and>
    \<not> sIsStopping s' \<and> rtDeferredTerminalStatus (sRuntime s') = None \<and>
    sStatus s' = (if recovery_status (sStatus s) then sStatus s else StReady) \<and>
    (\<forall>k. case jm_get (sMessages s') k of None \<Rightarrow> jm_get (sMessages s) k = None
       | Some m' \<Rightarrow> \<not> (mType m' = MtAi \<and> mStatus m' = MsStreaming) \<and>
           (\<exists>m. jm_get (sMessages s) k = Some m \<and> mContent m' = mContent m \<and> mId m' = mId m \<and>
              mResult m' = mResult m \<and> (mStatus m \<noteq> MsStreaming \<longrightarrow> m' = m)))"
proof -
  have "case jm_get (finalizeStreamingMessagesForTerminal ms t) k of None \<Rightarrow> jm_get ms k = None
       | Some m' \<Rightarrow> \<not> (mType m' = MtAi \<and> mStatus m' = MsStreaming) \<and>
           (\<exists>m. jm_get ms k = Some m \<and> mContent m' = mContent m \<and> mId m' = mId m \<and>
              mResult m' = mResult m \<and> (mStatus m \<noteq> MsStreaming \<longrightarrow> m' = m))" for ms k
    by (cases "jm_get ms k")
      (auto simp: finalize_get finalize_for_terminal_def Let_def)
  with assms show ?thesis
    by (auto simp: applyTaskLifecycleStatusToState_def Let_def deriveRuntimeState_def
        phase_streaming_iff status_cases)
qed

lemma lifecycle_terminal:
  assumes "isTerminalTaskStatus (rtTaskStatus (sRuntime s))"
  shows "isActiveExecutionTaskStatus (Some t) \<Longrightarrow> applyTaskLifecycleStatusToState e s t u =
      \<lparr>lcState = s, lcClearPendingChunks = False\<rparr>"
    and "\<not> isActiveExecutionTaskStatus (rtTaskStatus (sRuntime (lcState (applyTaskLifecycleStatusToState e s t u))))"
proof -
  have "\<not> shouldDeferLifecycleStatus s t" if "isActiveExecutionTaskStatus (Some t)"
    using that by (auto simp: shouldDeferLifecycleStatus_def dest: terminal_not_active)
  then show "isActiveExecutionTaskStatus (Some t) \<Longrightarrow> applyTaskLifecycleStatusToState e s t u =
      \<lparr>lcState = s, lcClearPendingChunks = False\<rparr>"
    and "\<not> isActiveExecutionTaskStatus (rtTaskStatus (sRuntime (lcState (applyTaskLifecycleStatusToState e s t u))))"
    using assms by (auto simp: applyTaskLifecycleStatusToState_def shouldIgnoreLifecycleStatus_def Let_def
        dest: terminal_not_active)
qed

text \<open>A reported status never revives a finished task. A terminal task stays as it is when an
  active status arrives; it stays not active whatever status arrives.\<close>

theorem terminal_not_revived:
  assumes "isTerminalTaskStatus (rtTaskStatus (sRuntime s))"
  shows "(isActiveExecutionTaskStatus (Some t) \<longrightarrow> applyTaskLifecycleStatusToState e s t u =
      \<lparr>lcState = s, lcClearPendingChunks = False\<rparr>) \<and>
    \<not> isActiveExecutionTaskStatus (rtTaskStatus (sRuntime (lcState (applyTaskLifecycleStatusToState e s t u))))"
  using lifecycle_terminal [OF assms] by blast

text \<open>Reports may arrive out of order: one older than the last applied one changes nothing,
  except that a terminal one may be put off, which changes neither status nor messages. So the time
  of the last applied status never decreases.\<close>

theorem stale_status_ignored:
  assumes "rtLastStatusUpdatedAt (sRuntime s) = Some p" and "parseDate e p = Some tp" and "p \<noteq> []"
    and "parseDate e q = Some tq" and "q \<noteq> []"
  shows "let s' = lcState (applyTaskLifecycleStatusToState e s t (Some q)) in
    (tq < tp \<longrightarrow> sMessages s' = sMessages s \<and> sStatus s' = sStatus s \<and>
       rtTaskStatus (sRuntime s') = rtTaskStatus (sRuntime s) \<and> rtPhase (sRuntime s') = rtPhase (sRuntime s) \<and>
       (\<not> shouldDeferLifecycleStatus s t \<longrightarrow> s' = s)) \<and>
    (\<exists>p' tp'. rtLastStatusUpdatedAt (sRuntime s') = Some p' \<and> parseDate e p' = Some tp' \<and> tp \<le> tp')"
  using assms
  by (auto simp: applyTaskLifecycleStatusToState_def shouldIgnoreLifecycleStatus_def Let_def)

definition demo_dates :: env where
  "demo_dates = demo_env\<lparr>parseDate := (\<lambda>s. if s = ''1'' then Some 1 else if s = ''2'' then Some 2 else None)\<rparr>"

theorem terminal_status_settles_witness:
  "dIsTerminal (sDerived (lcState (applyTaskLifecycleStatusToState demo_dates demo_stream COMPLETED (Some ''1''))))"
  using terminal_status_settles [of COMPLETED demo_stream demo_dates "Some ''1''"]
  by (simp add: Let_def shouldDeferLifecycleStatus_def shouldIgnoreLifecycleStatus_def demo_stream_def
      initial_runtime_def)

text \<open>Task 1 after a completed run.\<close>

definition demo_settled :: TaskMachineInternalState where
  "demo_settled = with_runtime ((initial_runtime 1)\<lparr>rtTaskStatus := Some COMPLETED, rtPhase := PhTerminal,
     rtLastStatusUpdatedAt := Some ''2''\<rparr>) ((initial_state 1)\<lparr>sStatus := StReady\<rparr>)"

theorem terminal_not_revived_witness:
  "applyTaskLifecycleStatusToState demo_dates demo_settled RUNNING (Some ''2'') =
     \<lparr>lcState = demo_settled, lcClearPendingChunks = False\<rparr>"
  using terminal_not_revived [of demo_settled RUNNING demo_dates "Some ''2''"]
  by (simp add: demo_settled_def)

theorem stale_status_ignored_witness:
  "lcState (applyTaskLifecycleStatusToState demo_dates demo_settled FAILED (Some ''1'')) = demo_settled"
  using stale_status_ignored [of demo_settled "''2''" demo_dates 2 "''1''" 1 FAILED]
  by (simp add: Let_def demo_settled_def demo_dates_def shouldDeferLifecycleStatus_def)

subsection \<open>A stale status that is put off\<close>

definition demo_done :: "int \<Rightarrow> ChatDoneEvent" where
  "demo_done i = \<lparr>cdSubtaskId = i, cdContent = None, cdResult = None, cdMessageId = None,
     cdSources = None, cdHasError = None, cdErrorMessage = None, cdContexts = None\<rparr>"

definition demo_begin :: "int \<Rightarrow> ChatStartEvent" where
  "demo_begin i = \<lparr>csSubtaskId = i, csShellType = None, csMessageId = None, csBotName = None\<rparr>"

text \<open>Two turns of task 1: the first is accepted at time 2, runs and completes; the second starts.\<close>

definition demo_second_turn :: TaskMachineInternalState where
  "demo_second_turn =
     (let s1 = reduceSendAcceptedEvent (initial_state 1) ''2'';
          s2 = reduceChatStartEvent demo_dates s1 (demo_begin 7);
          s3 = reduceChatDoneEvent demo_dates s2 (demo_done 7)
      in reduceChatStartEvent demo_dates s3 (demo_begin 8))"

text \<open>Whether a terminal status is put off is decided before its age. While the second turn of a task
  streams, a failure reported before the status already applied is kept, and when the turn completes
  it is applied: the task ends as failed and the time of its status goes back.\<close>

theorem deferred_status_may_be_stale:
  "rtLastStatusUpdatedAt (sRuntime demo_second_turn) = Some ''2'' \<and>
   (let s' = reduceChatDoneEvent demo_dates
        (lcState (applyTaskLifecycleStatusToState demo_dates demo_second_turn FAILED (Some ''1''))) (demo_done 8)
    in rtTaskStatus (sRuntime s') = Some FAILED \<and> rtLastStatusUpdatedAt (sRuntime s') = Some ''1'')"
  by code_simp

end
