(* ===== verification/MessageBuilder.thy ===== *)
theory MessageBuilder
  imports ChatEvents
begin

text \<open>
  Messages from the backend's subtasks, from
  \<open>packages/chat-core/src/task-state/TaskStateMachine.messageBuilder.ts\<close>, with \<open>TaskDetailSubtask\<close> of
  \<open>api-types.ts\<close>. \<open>result\<close> is declared unknown and read as a message result; null and undefined
  are both \<open>None\<close>. The role is ASCII.
\<close>

record TaskDetailSubtask =
  skId :: int
  skRole :: "string option"
  skStatus :: "string option"
  skPrompt :: "ustring option"
  skResult :: "MsgResult option"
  skCreatedAt :: string
  skMessageId :: "int option"
  skAttachments :: "json option"
  skContexts :: "json option"
  skBots :: "string option list option"
  skErrorMessage :: "string option"
  skSenderUserName :: "string option"
  skSenderUserId :: "int option"

definition upper_char :: "char \<Rightarrow> char" where
  "upper_char c = (let n = of_char c :: nat in if 97 \<le> n \<and> n \<le> 122 then char_of (n - 32) else c)"

definition is_user_subtask :: "TaskDetailSubtask \<Rightarrow> bool" where
  "is_user_subtask s \<longleftrightarrow> skRole s = Some ''USER''
     \<or> map_option (map upper_char) (skRole s) = Some ''USER''"

definition getImageConfig :: "TaskDetailSubtask \<Rightarrow> (string \<times> json) list option" where
  "getImageConfig subtask =
     (case Option.bind (skResult subtask) rImageConfig of Some (JObj fs) \<Rightarrow> Some fs | _ \<Rightarrow> None)"

text \<open>The settings of the nearest user subtask before; the argument is the prefix, last first.\<close>

fun find_user_config :: "TaskDetailSubtask list \<Rightarrow> (string \<times> json) list option" where
  "find_user_config [] = None"
| "find_user_config (c # cs) = (if is_user_subtask c then getImageConfig c else find_user_config cs)"

definition findImageConfigForAssistantSubtask ::
    "TaskDetailSubtask list \<Rightarrow> nat \<Rightarrow> (string \<times> json) list option" where
  "findImageConfigForAssistantSubtask subtasks assistantIndex =
     (case getImageConfig (subtasks ! assistantIndex) of
        Some c \<Rightarrow> Some c
      | None \<Rightarrow> find_user_config (rev (take assistantIndex subtasks)))"

definition has_blocks :: "MessageBlock list option \<Rightarrow> bool" where
  "has_blocks bs \<longleftrightarrow> opt_truthy (\<lambda>l. l \<noteq> []) bs"

definition image_placeholder ::
    "env \<Rightarrow> (string \<times> json) list \<Rightarrow> int \<Rightarrow> string \<Rightarrow> MessageBlock" where
  "image_placeholder e imageConfig subtaskId createdAt =
     (let imageSize = (case map_of imageConfig ''size'' of Some (JStr t) \<Rightarrow> Some t | _ \<Rightarrow> None);
          base = empty_base (''image-placeholder-'' @ show_int subtaskId)
      in Block (base\<lparr>bType := Some TImage, bStatus := Some BsStreaming, bIsPlaceholder := Some True,
           bContent := Some [], bTimestamp := Some (parseDate e createdAt),
           bExtra := [(''image_urls'', JArr []), (''image_attachment_ids'', JArr []),
                      (''image_count'', JNum 0)]
             @ (case imageSize of Some t \<Rightarrow> (if truthy_text t then [(''image_size'', JStr t)] else [])
                | None \<Rightarrow> [])\<rparr>) None)"

definition ensureRunningImagePlaceholder ::
    "env \<Rightarrow> MsgResult option \<Rightarrow> (string \<times> json) list option \<Rightarrow> int \<Rightarrow> string \<Rightarrow> MsgResult option" where
  "ensureRunningImagePlaceholder e result imageConfig subtaskId createdAt =
     (case imageConfig of
        None \<Rightarrow> result
      | Some c \<Rightarrow>
          if has_blocks (Option.bind result rBlocks) then result
          else Some ((the_or empty_result result)
            \<lparr>rBlocks := Some [image_placeholder e c subtaskId createdAt]\<rparr>))"

subsection \<open>One subtask\<close>

definition message_key :: "TaskDetailSubtask \<Rightarrow> string" where
  "message_key s = (if is_user_subtask s then ''user-backend-'' @ show_int (skId s)
     else ''ai-'' @ show_int (skId s))"

definition first_bot_name :: "TaskDetailSubtask \<Rightarrow> string option" where
  "first_bot_name s = (case skBots s of Some (b # _) \<Rightarrow> b | _ \<Rightarrow> None)"

definition frontend_error :: "UnifiedMessage option \<Rightarrow> bool" where
  "frontend_error m \<longleftrightarrow> opt_truthy (\<lambda>x. mStatus x = MsError \<and> opt_truthy truthy_text (mError x)) m"

definition failed_status :: "TaskDetailSubtask \<Rightarrow> bool" where
  "failed_status s \<longleftrightarrow> skStatus s = Some ''FAILED'' \<or> skStatus s = Some ''CANCELLED''"

definition nonempty :: "string option \<Rightarrow> string option" where
  "nonempty x = js_or truthy_text x None"

definition best_content ::
    "StreamingRecoveryPayload option \<Rightarrow> int \<Rightarrow> UnifiedMessage option \<Rightarrow> ustring \<Rightarrow> ustring" where
  "best_content streamRecovery subtaskId existingAiMessage backendContent =
     (let best1 = (case existingAiMessage of
            Some m \<Rightarrow> (if length backendContent < length (mContent m) then mContent m else backendContent)
          | None \<Rightarrow> backendContent)
      in case streamRecovery of
           Some sr \<Rightarrow>
             (if srSubtaskId sr = subtaskId \<and> opt_truthy (\<lambda>c. c \<noteq> [] \<and> length best1 < length c) (srCachedContent sr)
              then the_or [] (srCachedContent sr) else best1)
         | None \<Rightarrow> best1)"

definition running_result ::
    "env \<Rightarrow> TaskDetailSubtask list \<Rightarrow> nat \<Rightarrow> StreamingRecoveryPayload option \<Rightarrow> MsgResult option" where
  "running_result e subtasks index streamRecovery =
     (let subtask = subtasks ! index;
          recoveredBlocks = (case streamRecovery of
              Some sr \<Rightarrow> if srSubtaskId sr = skId subtask then srBlocks sr else None | None \<Rightarrow> None);
          resultWithRecoveredBlocks =
            (if \<not> has_blocks (Option.bind (skResult subtask) rBlocks) \<and> has_blocks recoveredBlocks
             then Some ((the_or empty_result (skResult subtask))\<lparr>rBlocks := recoveredBlocks\<rparr>)
             else skResult subtask)
      in ensureRunningImagePlaceholder e resultWithRecoveredBlocks
           (findImageConfigForAssistantSubtask subtasks index) (skId subtask) (skCreatedAt subtask))"

definition running_message ::
    "env \<Rightarrow> SyncOptions \<Rightarrow> StreamingRecoveryPayload option \<Rightarrow> TaskDetailSubtask list \<Rightarrow> nat \<Rightarrow>
     UnifiedMessage option \<Rightarrow> UnifiedMessage option \<Rightarrow> UnifiedMessage" where
  "running_message e opts streamRecovery subtasks index existingMessage existingAiMessage =
     (let subtask = subtasks ! index;
          hasFrontendError = frontend_error existingMessage
      in (new_message (message_key subtask) MtAi (if hasFrontendError then MsError else MsStreaming)
            (best_content streamRecovery (skId subtask) existingAiMessage (value_text (skResult subtask)))
            (case existingAiMessage of
               Some m \<Rightarrow> (if opt_truthy truthy_num (mTimestamp m) then mTimestamp m
                         else parseDate e (skCreatedAt subtask))
             | None \<Rightarrow> parseDate e (skCreatedAt subtask)))
         \<lparr>mSubtaskId := Some (skId subtask),
          mMessageId := skMessageId subtask,
          mAttachments := skAttachments subtask,
          mContexts := coalesce (skContexts subtask) (Option.bind existingAiMessage mContexts),
          mBotName := js_or truthy_text (first_bot_name subtask) (soTeamName opts),
          mSubtaskStatus := skStatus subtask,
          mResult := running_result e subtasks index streamRecovery,
          mError := (if hasFrontendError then Option.bind existingMessage mError else None),
          mErrorType := (if hasFrontendError then Option.bind existingMessage mErrorType else None),
          mReasoningContent := Option.bind existingAiMessage mReasoningContent\<rparr>)"

definition snapshot_message ::
    "TaskDetailSubtask \<Rightarrow> UnifiedMessage option \<Rightarrow> UnifiedMessage \<Rightarrow> UnifiedMessage" where
  "snapshot_message subtask existingMessage existingSnapshotMessage =
     (let hasFrontendError = frontend_error existingMessage;
          backendContent = value_text (skResult subtask)
      in existingSnapshotMessage
         \<lparr>mContexts := coalesce (skContexts subtask) (mContexts existingSnapshotMessage),
          mStatus := (if failed_status subtask \<or> hasFrontendError then MsError else MsCompleted),
          mContent := (if length (mContent existingSnapshotMessage) < length backendContent
                       then backendContent else mContent existingSnapshotMessage),
          mMessageId := skMessageId subtask,
          mSubtaskStatus := skStatus subtask,
          mResult := skResult subtask,
          mError := (if hasFrontendError then Option.bind existingMessage mError
                     else nonempty (skErrorMessage subtask)),
          mErrorType := (if hasFrontendError then Option.bind existingMessage mErrorType
                         else Option.bind (skResult subtask) rErrorType),
          mIsReasoningStreaming := Some False\<rparr>)"

definition fresh_message ::
    "env \<Rightarrow> SyncOptions \<Rightarrow> TaskDetailSubtask \<Rightarrow> UnifiedMessage option \<Rightarrow> UnifiedMessage" where
  "fresh_message e opts subtask existingMessage =
     (let isUserMessage = is_user_subtask subtask;
          hasFrontendError = frontend_error existingMessage
      in (new_message (message_key subtask) (if isUserMessage then MtUser else MtAi)
            (if failed_status subtask \<or> hasFrontendError then MsError else MsCompleted)
            (if isUserMessage then the_or [] (skPrompt subtask) else value_text (skResult subtask))
            (parseDate e (skCreatedAt subtask)))
         \<lparr>mSubtaskId := Some (skId subtask),
          mMessageId := skMessageId subtask,
          mAttachments := skAttachments subtask,
          mContexts := skContexts subtask,
          mBotName := (if \<not> isUserMessage \<and> opt_truthy truthy_text (first_bot_name subtask)
                       then first_bot_name subtask else soTeamName opts),
          mSenderUserName := js_or truthy_text (skSenderUserName subtask)
            (if isUserMessage \<and> skSenderUserId subtask = soCurrentUserId opts
             then soCurrentUserName opts else None),
          mSenderUserId := js_or truthy_num (skSenderUserId subtask)
            (if isUserMessage then soCurrentUserId opts else None),
          mShouldShowSender := map_option (\<lambda>g. g \<and> isUserMessage) (soIsGroupChat opts),
          mSubtaskStatus := skStatus subtask,
          mResult := skResult subtask,
          mError := (if hasFrontendError then Option.bind existingMessage mError
                     else nonempty (skErrorMessage subtask)),
          mErrorType := (if hasFrontendError then Option.bind existingMessage mErrorType
                         else Option.bind (skResult subtask) rErrorType)\<rparr>)"

subsection \<open>All subtasks\<close>

record build_context =
  bcEnv :: env
  bcCurrent :: "(string, UnifiedMessage) jsmap"
  bcOptions :: SyncOptions
  bcRecovery :: "StreamingRecoveryPayload option"
  bcSubtasks :: "TaskDetailSubtask list"
  bcExistingSubtaskIds :: "int list"
  bcExistingUserCount :: nat

definition build_one ::
    "build_context \<Rightarrow> (string, UnifiedMessage) jsmap \<Rightarrow> nat \<Rightarrow> (string, UnifiedMessage) jsmap" where
  "build_one c messages index =
     (let subtask = bcSubtasks c ! index;
          isUserMessage = is_user_subtask subtask;
          messageId = message_key subtask;
          existingMessage = jm_get (bcCurrent c) messageId
      in if \<not> isUserMessage \<and> skStatus subtask = Some ''RUNNING'' then
           jm_set messageId (running_message (bcEnv c) (bcOptions c) (bcRecovery c) (bcSubtasks c) index
             existingMessage (jm_get messages messageId)) messages
         else if \<not> isUserMessage \<and> skStatus subtask = Some ''PENDING'' then messages
         else if \<not> isUserMessage \<and> jm_get messages messageId \<noteq> None then
           jm_set messageId (snapshot_message subtask existingMessage (the (jm_get messages messageId))) messages
         else if skId subtask \<in> set (bcExistingSubtaskIds c) then messages
         else if jm_get messages messageId \<noteq> None then messages
         else if isUserMessage \<and> length (filter is_user_subtask (bcSubtasks c)) \<le> bcExistingUserCount c
           then messages
         else jm_set messageId (fresh_message (bcEnv c) (bcOptions c) subtask existingMessage) messages)"

definition kept_messages ::
    "SyncOptions \<Rightarrow> TaskDetailSubtask list \<Rightarrow> (string, UnifiedMessage) jsmap \<Rightarrow> (string, UnifiedMessage) jsmap" where
  "kept_messages opts subtasks currentMessages =
     (if soForceClean opts = Some True \<and> currentMessages \<noteq> [] then
        filter (\<lambda>(_, msg). \<not> opt_truthy truthy_num (mSubtaskId msg)
          \<or> opt_truthy (\<lambda>i. i \<in> skId ` set subtasks) (mSubtaskId msg)) currentMessages
      else currentMessages)"

definition build_setup ::
    "env \<Rightarrow> (string, UnifiedMessage) jsmap \<Rightarrow> TaskDetailSubtask list \<Rightarrow> SyncOptions \<Rightarrow>
     StreamingRecoveryPayload option \<Rightarrow> build_context" where
  "build_setup e currentMessages subtasks syncOptions streamRecovery =
     (let messages = kept_messages syncOptions subtasks currentMessages
      in \<lparr>bcEnv = e, bcCurrent = currentMessages, bcOptions = syncOptions, bcRecovery = streamRecovery,
          bcSubtasks = subtasks,
          bcExistingSubtaskIds =
            concat (map (\<lambda>(_, msg). case mSubtaskId msg of
              Some i \<Rightarrow> (if truthy_num i then [i] else []) | None \<Rightarrow> []) messages),
          bcExistingUserCount = length (filter (\<lambda>(_, msg). mType msg = MtUser) messages)\<rparr>)"

definition buildMessagesFromSubtasks ::
    "env \<Rightarrow> (string, UnifiedMessage) jsmap \<Rightarrow> TaskDetailSubtask list \<Rightarrow> SyncOptions \<Rightarrow>
     StreamingRecoveryPayload option \<Rightarrow> (string, UnifiedMessage) jsmap" where
  "buildMessagesFromSubtasks e currentMessages subtasks syncOptions streamRecovery =
     foldl (build_one (build_setup e currentMessages subtasks syncOptions streamRecovery))
       (kept_messages syncOptions subtasks currentMessages) [0..<length subtasks]"

subsection \<open>What one subtask changes\<close>

text \<open>The later text of a message is not shorter.\<close>

definition text_grows :: "UnifiedMessage \<Rightarrow> UnifiedMessage \<Rightarrow> bool" where
  "text_grows m m' \<longleftrightarrow> length (mContent m) \<le> length (mContent m')"

lemma text_grows_refl [simp]: "text_grows m m"
  by (simp add: text_grows_def)

lemma text_grows_trans: "text_grows a b \<Longrightarrow> text_grows b c \<Longrightarrow> text_grows a c"
  by (auto simp: text_grows_def)

lemma message_key_cases:
  "message_key s = ''ai-'' @ show_int i \<longleftrightarrow> \<not> is_user_subtask s \<and> skId s = i"
  "message_key s = ''user-backend-'' @ show_int i \<longleftrightarrow> is_user_subtask s \<and> skId s = i"
  by (auto simp: message_key_def)

text \<open>The text chosen for a running message is a longest of the candidates.\<close>

lemma best_content_longest:
  "length b \<le> length (best_content sr i ai b)"
  "length (mContent m) \<le> length (best_content sr i (Some m) b)"
  "srCachedContent p = Some c \<Longrightarrow> srSubtaskId p = i \<Longrightarrow> length c \<le> length (best_content (Some p) i ai b)"
proof -
  show "length b \<le> length (best_content sr i ai b)"
    by (cases sr; cases "srCachedContent (the sr)"; cases ai) (auto simp: best_content_def Let_def)
  show "length (mContent m) \<le> length (best_content sr i (Some m) b)"
    by (cases sr; cases "srCachedContent (the sr)") (auto simp: best_content_def Let_def)
  show "srCachedContent p = Some c \<Longrightarrow> srSubtaskId p = i \<Longrightarrow> length c \<le> length (best_content (Some p) i ai b)"
    by (cases ai) (auto simp: best_content_def Let_def)
qed

lemma running_message_frame [simp]:
  "mId (running_message e opts sr sks i ex ai) = message_key (sks ! i)"
  "mType (running_message e opts sr sks i ex ai) = MtAi"
  "mSubtaskId (running_message e opts sr sks i ex ai) = Some (skId (sks ! i))"
  "mStatus (running_message e opts sr sks i ex ai) = (if frontend_error ex then MsError else MsStreaming)"
  "mContent (running_message e opts sr sks i ex ai) =
     best_content sr (skId (sks ! i)) ai (value_text (skResult (sks ! i)))"
  "mError (running_message e opts sr sks i ex ai) =
     (if frontend_error ex then Option.bind ex mError else None)"
  by (simp_all add: running_message_def Let_def)

lemma snapshot_message_frame [simp]:
  "mId (snapshot_message sk ex m) = mId m" "mType (snapshot_message sk ex m) = mType m"
  "mSubtaskId (snapshot_message sk ex m) = mSubtaskId m"
  "mStatus (snapshot_message sk ex m) = (if failed_status sk \<or> frontend_error ex then MsError else MsCompleted)"
  "mContent (snapshot_message sk ex m) = (if length (mContent m) < length (value_text (skResult sk))
     then value_text (skResult sk) else mContent m)"
  "mError (snapshot_message sk ex m) =
     (if frontend_error ex then Option.bind ex mError else nonempty (skErrorMessage sk))"
  by (simp_all add: snapshot_message_def Let_def)

lemma fresh_message_frame [simp]:
  "mId (fresh_message e opts sk ex) = message_key sk"
  "mType (fresh_message e opts sk ex) = (if is_user_subtask sk then MtUser else MtAi)"
  "mSubtaskId (fresh_message e opts sk ex) = Some (skId sk)"
  "mStatus (fresh_message e opts sk ex) = (if failed_status sk \<or> frontend_error ex then MsError else MsCompleted)"
  "mError (fresh_message e opts sk ex) =
     (if frontend_error ex then Option.bind ex mError else nonempty (skErrorMessage sk))"
  by (simp_all add: fresh_message_def Let_def)

lemma build_one_frame:
  "k \<noteq> message_key (bcSubtasks c ! i) \<Longrightarrow> jm_get (build_one c ms i) k = jm_get ms k"
  by (simp add: build_one_def Let_def update_conv')

lemma build_one_keyed [invs]: "keyed ms \<Longrightarrow> keyed (build_one c ms i)"
  unfolding build_one_def Let_def
  by (auto intro!: keyed_set elim!: msg_ok_cong dest: keyedD simp: msg_ok_def message_key_def)

lemma build_one_text:
  assumes "jm_get ms k = Some m"
  shows "\<exists>m'. jm_get (build_one c ms i) k = Some m' \<and> text_grows m m'"
proof (cases "k = message_key (bcSubtasks c ! i)")
  case False
  with assms show ?thesis by (simp add: build_one_frame)
next
  case True
  have "text_grows m (running_message e opts sr sks j ex (Some m))" for e opts sr sks j ex
    by (simp add: text_grows_def best_content_longest)
  moreover have "text_grows m (snapshot_message sk ex m)" for sk ex
    by (simp add: text_grows_def)
  ultimately show ?thesis
    using assms True by (auto simp: build_one_def Let_def update_conv')
qed

text \<open>An error the frontend recorded stays with its message.\<close>

definition errors_kept :: "(string, UnifiedMessage) jsmap \<Rightarrow> (string, UnifiedMessage) jsmap \<Rightarrow> bool" where
  "errors_kept cur ms \<longleftrightarrow> (\<forall>k m. jm_get cur k = Some m \<and> frontend_error (Some m) \<longrightarrow>
     (\<exists>m'. jm_get ms k = Some m' \<and> mStatus m' = MsError \<and> mError m' = mError m))"

lemma build_one_errors: "errors_kept (bcCurrent c) ms \<Longrightarrow> errors_kept (bcCurrent c) (build_one c ms i)"
  unfolding errors_kept_def build_one_def Let_def
  by (auto simp: update_conv')

lemma foldl_inv: "P s \<Longrightarrow> (\<And>s x. P s \<Longrightarrow> P (f s x)) \<Longrightarrow> P (foldl f s xs)"
  by (induction xs arbitrary: s) auto

lemma build_setup_simps [simp]:
  "bcEnv (build_setup e cur sks opts sr) = e" "bcCurrent (build_setup e cur sks opts sr) = cur"
  "bcOptions (build_setup e cur sks opts sr) = opts" "bcRecovery (build_setup e cur sks opts sr) = sr"
  "bcSubtasks (build_setup e cur sks opts sr) = sks"
  by (simp_all add: build_setup_def Let_def)

lemma kept_all: "soForceClean opts \<noteq> Some True \<Longrightarrow> kept_messages opts sks ms = ms"
  by (simp add: kept_messages_def)

lemma build_keyed [invs]: "keyed ms \<Longrightarrow> keyed (buildMessagesFromSubtasks e ms sks opts sr)"
  unfolding buildMessagesFromSubtasks_def
  by (rule foldl_inv [where P = keyed]) (auto simp: kept_messages_def intro: keyed_filter build_one_keyed)

lemma build_text:
  assumes "soForceClean opts \<noteq> Some True" and "jm_get cur k = Some m"
  shows "\<exists>m'. jm_get (buildMessagesFromSubtasks e cur sks opts sr) k = Some m' \<and> text_grows m m'"
  unfolding buildMessagesFromSubtasks_def kept_all [OF assms(1)]
proof (rule foldl_inv [where P = "\<lambda>ms. \<exists>m'. jm_get ms k = Some m' \<and> text_grows m m'"])
  show "\<exists>m'. jm_get cur k = Some m' \<and> text_grows m m'" using assms(2) by simp
next
  fix ms i assume "\<exists>m'. jm_get ms k = Some m' \<and> text_grows m m'"
  then show "\<exists>m'. jm_get (build_one (build_setup e cur sks opts sr) ms i) k = Some m' \<and> text_grows m m'"
    using build_one_text text_grows_trans by blast
qed

text \<open>With the keys of the subtasks distinct, the message of one is settled by its own step.\<close>

lemma foldl_untouched:
  "(\<And>x. x \<in> set xs \<Longrightarrow> k \<noteq> message_key (bcSubtasks c ! x)) \<Longrightarrow>
   jm_get (foldl (build_one c) ms xs) k = jm_get ms k"
  by (induction xs arbitrary: ms) (auto simp: build_one_frame)

lemma build_at:
  assumes "distinct (map message_key sks)" and "j < length sks"
  shows "\<exists>ms. jm_get ms (message_key (sks ! j)) = jm_get (kept_messages opts sks cur) (message_key (sks ! j)) \<and>
    jm_get (buildMessagesFromSubtasks e cur sks opts sr) (message_key (sks ! j)) =
    jm_get (build_one (build_setup e cur sks opts sr) ms j) (message_key (sks ! j))"
proof -
  let ?c = "build_setup e cur sks opts sr" and ?k = "message_key (sks ! j)"
  let ?ms = "foldl (build_one ?c) (kept_messages opts sks cur) [0..<j]"
  have other: "?k \<noteq> message_key (sks ! x)" if "x \<noteq> j" "x < length sks" for x
    using that assms by (metis length_map nth_eq_iff_index_eq nth_map)
  have "[0..<length sks] = [0..<j] @ j # [Suc j..<length sks]"
    using assms(2) by (metis le_add2 less_imp_add_positive plus_nat.add_0 upt_add_eq_append upt_conv_Cons less_imp_le_nat le0)
  then have "buildMessagesFromSubtasks e cur sks opts sr =
      foldl (build_one ?c) (build_one ?c ?ms j) [Suc j..<length sks]"
    by (simp add: buildMessagesFromSubtasks_def)
  moreover have "?k \<noteq> message_key (bcSubtasks ?c ! x)" if "x \<in> set [Suc j..<length sks]" for x
    using that other [of x] by simp
  ultimately have "jm_get (buildMessagesFromSubtasks e cur sks opts sr) ?k = jm_get (build_one ?c ?ms j) ?k"
    by (metis foldl_untouched)
  moreover have "jm_get ?ms ?k = jm_get (kept_messages opts sks cur) ?k"
  proof (rule foldl_untouched)
    show "?k \<noteq> message_key (bcSubtasks ?c ! x)" if "x \<in> set [0..<j]" for x
      using that other [of x] assms(2) by simp
  qed
  ultimately show ?thesis by blast
qed

subsection \<open>Properties\<close>

text \<open>A sync loses no text and no error: unless stale messages are to be cleaned, every message
  is still there with a text that is not shorter, and one that carried an error of its
  own still carries it.\<close>

theorem build_keeps_messages:
  assumes "soForceClean opts \<noteq> Some True" and "jm_get cur k = Some m"
  shows "\<exists>m'. jm_get (buildMessagesFromSubtasks e cur sks opts sr) k = Some m' \<and>
    length (mContent m) \<le> length (mContent m') \<and>
    (frontend_error (Some m) \<longrightarrow> mStatus m' = MsError \<and> mError m' = mError m)"
proof -
  let ?r = "buildMessagesFromSubtasks e cur sks opts sr"
  have "errors_kept cur ?r"
    unfolding buildMessagesFromSubtasks_def kept_all [OF assms(1)]
    by (rule foldl_inv [where P = "errors_kept cur"])
      (use build_one_errors [of "build_setup e cur sks opts sr"] in
        \<open>auto simp: errors_kept_def frontend_error_def\<close>)
  moreover obtain m' where "jm_get ?r k = Some m'" "text_grows m m'"
    using build_text [OF assms] by blast
  ultimately show ?thesis
    using assms(2) by (fastforce simp: errors_kept_def text_grows_def)
qed

text \<open>After a sync the message of each assistant subtask has the status of the subtask: a running
  one streams and its text is a longest of the stored, the backend's and the recovered text, a
  finished one is completed or, if it failed or was cancelled, in error; only an error of the
  frontend overrides this, and a pending one is left as it was.\<close>

theorem build_status_of_subtask:
  assumes "distinct (map message_key sks)" and "sk \<in> set sks" and "\<not> is_user_subtask sk"
    and "soForceClean opts \<noteq> Some True"
    and "jm_get cur (message_key sk) = Some m"
  shows "\<exists>m'. jm_get (buildMessagesFromSubtasks e cur sks opts sr) (message_key sk) = Some m' \<and>
    (skStatus sk = Some ''RUNNING'' \<longrightarrow>
       mStatus m' = (if frontend_error (Some m) then MsError else MsStreaming) \<and>
       (\<forall>t \<in> {mContent m, value_text (skResult sk)} \<union>
          (case sr of Some p \<Rightarrow> if srSubtaskId p = skId sk then set_option (srCachedContent p) else {} | None \<Rightarrow> {}).
          length t \<le> length (mContent m'))) \<and>
    (skStatus sk = Some ''PENDING'' \<longrightarrow> m' = m) \<and>
    (skStatus sk \<notin> {Some ''RUNNING'', Some ''PENDING''} \<longrightarrow>
       mStatus m' = (if failed_status sk \<or> frontend_error (Some m) then MsError else MsCompleted))"
proof -
  obtain j where j: "j < length sks" "sk = sks ! j" using assms(2) by (metis in_set_conv_nth)
  obtain ms where ms: "jm_get ms (message_key sk) = Some m"
    "jm_get (buildMessagesFromSubtasks e cur sks opts sr) (message_key sk) =
     jm_get (build_one (build_setup e cur sks opts sr) ms j) (message_key sk)"
    using build_at [OF assms(1) j(1), of opts cur e sr] assms j by (auto simp: kept_all)
  then show ?thesis
    using assms j
    by (auto simp: build_one_def Let_def update_conv' best_content_longest split: option.splits if_splits)
qed

text \<open>The stored message holds [97], the backend has the shorter empty text, the stream's cache a longer one.\<close>

definition demo_subtask :: TaskDetailSubtask where
  "demo_subtask = \<lparr>skId = 7, skRole = Some ''ASSISTANT'', skStatus = Some ''RUNNING'', skPrompt = None,
     skResult = None, skCreatedAt = ''1'', skMessageId = Some 3, skAttachments = None,
     skContexts = None, skBots = Some [Some ''bot''], skErrorMessage = None,
     skSenderUserName = None, skSenderUserId = None\<rparr>"

definition demo_recovery :: StreamingRecoveryPayload where
  "demo_recovery = \<lparr>srSubtaskId = 7, srOffset = Some 2, srCachedContent = Some [97, 98],
     srStartedAt = None, srLastActivityAt = None, srBlocks = None\<rparr>"

definition demo_options :: SyncOptions where
  "demo_options = \<lparr>soTeamName = Some ''team'', soIsGroupChat = None, soCurrentUserId = Some 1,
     soCurrentUserName = None, soForceClean = None\<rparr>"

lemma demo_subtask_key: "\<not> is_user_subtask demo_subtask" "message_key demo_subtask = ''ai-7''"
  by (simp_all add: message_key_def is_user_subtask_def demo_subtask_def show_7 upper_char_def)

theorem build_keeps_messages_witness:
  "\<exists>m'. jm_get (buildMessagesFromSubtasks demo_env (sMessages demo_stream) [demo_subtask] demo_options None)
     ''ai-7'' = Some m' \<and> 1 \<le> length (mContent m')"
  using build_keeps_messages [of demo_options "sMessages demo_stream" "''ai-7''" demo_message demo_env
      "[demo_subtask]" None]
  by (auto simp: demo_options_def demo_stream_def demo_message_def)

theorem build_status_of_subtask_witness:
  "\<exists>m'. jm_get (buildMessagesFromSubtasks demo_env (sMessages demo_stream) [demo_subtask] demo_options
     (Some demo_recovery)) ''ai-7'' = Some m' \<and> mStatus m' = MsStreaming \<and> 2 \<le> length (mContent m')"
proof -
  have "soForceClean demo_options \<noteq> Some True" by (simp add: demo_options_def)
  moreover have "jm_get (sMessages demo_stream) (message_key demo_subtask) = Some demo_message"
    by (simp add: demo_subtask_key demo_stream_def)
  moreover have "\<not> frontend_error (Some demo_message)"
    by (simp add: frontend_error_def demo_message_def)
  ultimately show ?thesis
    using build_status_of_subtask [of "[demo_subtask]" demo_subtask demo_options
        "sMessages demo_stream" demo_message demo_env "Some demo_recovery"] demo_subtask_key
    by (auto simp: demo_subtask_def demo_recovery_def)
qed

end
