(* ===== verification/TaskSync.thy ===== *)
theory TaskSync
  imports MessageBuilder
begin

text \<open>
  Synchronising the messages with the answer of a join, from
  \<open>packages/chat-core/src/task-state/TaskStateMachine.sync.ts\<close>.
\<close>

datatype SyncCompletionEvent =
    SyncDone "string option"
  | SyncStreaming (scSubtaskId: int) (scCursor: int) (scStartedAt: "string option")
      (scLastActivityAt: "string option") (scSyncUpdatedAt: "string option")

abbreviation streaming_ai :: "UnifiedMessage \<Rightarrow> bool" where
  "streaming_ai m \<equiv> mType m = MtAi \<and> mStatus m = MsStreaming"

text \<open>The first streaming assistant message decides, also when it has no subtask id.\<close>

fun first_stream_subtask :: "(string, UnifiedMessage) jsmap \<Rightarrow> int option" where
  "first_stream_subtask [] = None"
| "first_stream_subtask ((_, msg) # ms) =
     (if streaming_ai msg then (if opt_truthy truthy_num (mSubtaskId msg) then mSubtaskId msg else None)
      else first_stream_subtask ms)"

definition getActiveStreamSubtaskId :: "TaskMachineInternalState \<Rightarrow> int option" where
  "getActiveStreamSubtaskId state = first_stream_subtask (sMessages state)"

definition finalize_stale ::
    "TaskDetailSubtask list option \<Rightarrow> int \<Rightarrow> UnifiedMessage \<Rightarrow> UnifiedMessage" where
  "finalize_stale subtasks i staleMsg =
     (let staleSubtask = List.find (\<lambda>s. skId s = i) (the_or [] subtasks);
          staleStatus = Option.bind staleSubtask skStatus
      in staleMsg\<lparr>mStatus := (if staleStatus = Some ''COMPLETED'' then MsCompleted else MsError),
                  mSubtaskStatus := coalesce staleStatus (mSubtaskStatus staleMsg),
                  mIsReasoningStreaming := Some False\<rparr>)"

definition finalize_stale_one ::
    "env \<Rightarrow> TaskMachineInternalState \<Rightarrow> TaskDetailSubtask list option \<Rightarrow>
     (string, UnifiedMessage) jsmap \<Rightarrow> UnifiedMessage \<Rightarrow> (string, UnifiedMessage) jsmap" where
  "finalize_stale_one e state subtasks nextMessages msg =
     (if \<not> streaming_ai msg \<or> \<not> opt_truthy truthy_num (mSubtaskId msg) then nextMessages
      else let i = the (mSubtaskId msg) in
        case jm_get (sMessages state) (ai_key e i) of
          None \<Rightarrow> nextMessages
        | Some staleMsg \<Rightarrow> jm_set (ai_key e i) (finalize_stale subtasks i staleMsg) nextMessages)"

definition finalizeStaleStreamingMessagesForNoStream ::
    "env \<Rightarrow> TaskMachineInternalState \<Rightarrow> TaskDetailSubtask list option \<Rightarrow> TaskMachineInternalState" where
  "finalizeStaleStreamingMessagesForNoStream e state subtasks =
     state\<lparr>sMessages := foldl (finalize_stale_one e state subtasks) (sMessages state)
       (map snd (sMessages state))\<rparr>"

text \<open>A recovered stream, or none: a payload whose subtask id is 0 counts as none.\<close>

definition recovered_stream :: "StreamingRecoveryPayload option \<Rightarrow> StreamingRecoveryPayload option" where
  "recovered_stream sr = js_or (\<lambda>p. truthy_num (srSubtaskId p)) sr None"

definition applyStreamRecoveryMessage ::
    "env \<Rightarrow> TaskMachineInternalState \<Rightarrow> StreamingRecoveryPayload option \<Rightarrow> TaskMachineInternalState" where
  "applyStreamRecoveryMessage e state streamRecovery =
     (case recovered_stream streamRecovery of
        None \<Rightarrow> state
      | Some sr \<Rightarrow>
          let aiMessageId = ai_key e (srSubtaskId sr)
          in case jm_get (sMessages state) aiMessageId of
               None \<Rightarrow> state\<lparr>sMessages := jm_set aiMessageId
                 ((new_message aiMessageId MtAi MsStreaming (the_or [] (srCachedContent sr)) (Some (now e)))
                   \<lparr>mSubtaskId := Some (srSubtaskId sr),
                    mResult := (if has_blocks (srBlocks sr)
                                then Some (empty_result\<lparr>rBlocks := srBlocks sr\<rparr>) else None)\<rparr>)
                 (sMessages state)\<rparr>
             | Some existingMessage \<Rightarrow>
                 if mStatus existingMessage \<noteq> MsStreaming then state
                 else
                   let oldBlocks = Option.bind (mResult existingMessage) rBlocks;
                       shouldUpdateContent = opt_truthy
                         (\<lambda>c. c \<noteq> [] \<and> length (mContent existingMessage) < length c) (srCachedContent sr);
                       shouldUpdateBlocks = (has_blocks (srBlocks sr)
                         \<and> (oldBlocks = None \<or> length (the oldBlocks) < length (the_or [] (srBlocks sr))));
                       m1 = (if shouldUpdateContent
                         then existingMessage\<lparr>mContent := the_or [] (srCachedContent sr)\<rparr>
                         else existingMessage);
                       m2 = (if shouldUpdateBlocks
                         then m1\<lparr>mResult := Some ((the_or empty_result (mResult existingMessage))
                           \<lparr>rBlocks := srBlocks sr\<rparr>)\<rparr>
                         else m1)
                   in if \<not> shouldUpdateContent \<and> \<not> shouldUpdateBlocks then state
                      else state\<lparr>sMessages := jm_set aiMessageId m2 (sMessages state)\<rparr>)"

definition sync_completion ::
    "TaskMachineInternalState \<Rightarrow> string option \<Rightarrow> StreamingRecoveryPayload option \<Rightarrow> SyncCompletionEvent" where
  "sync_completion nextState syncUpdatedAt streamRecovery =
     (case getActiveStreamSubtaskId nextState of
        None \<Rightarrow> SyncDone syncUpdatedAt
      | Some activeStreamSubtaskId \<Rightarrow>
          (case streamRecovery of
             Some sr \<Rightarrow>
               (if srSubtaskId sr = activeStreamSubtaskId
                then SyncStreaming activeStreamSubtaskId
                  (the_or 0 (coalesce (srOffset sr) (map_option (\<lambda>c. int (length c)) (srCachedContent sr))))
                  (srStartedAt sr) (srLastActivityAt sr) syncUpdatedAt
                else SyncStreaming activeStreamSubtaskId 0 None None syncUpdatedAt)
           | None \<Rightarrow> SyncStreaming activeStreamSubtaskId 0 None None syncUpdatedAt))"

definition syncMessagesFromJoinPayload ::
    "env \<Rightarrow> TaskMachineInternalState \<Rightarrow> TaskDetailSubtask list option \<Rightarrow> SyncOptions \<Rightarrow>
     string option \<Rightarrow> StreamingRecoveryPayload option \<Rightarrow> TaskMachineInternalState \<times> SyncCompletionEvent" where
  "syncMessagesFromJoinPayload e state subtasks syncOptions syncUpdatedAt streamRecovery =
     (let s1 = (if opt_truthy (\<lambda>l. l \<noteq> []) subtasks
                then state\<lparr>sMessages := buildMessagesFromSubtasks e (sMessages state) (the_or [] subtasks)
                  syncOptions streamRecovery\<rparr>
                else state);
          s2 = applyStreamRecoveryMessage e s1 streamRecovery;
          s3 = (if recovered_stream streamRecovery = None
                then finalizeStaleStreamingMessagesForNoStream e s2 subtasks else s2)
      in (s3, sync_completion s3 syncUpdatedAt streamRecovery))"

subsection \<open>Invariants\<close>

lemma finalize_stale_frame [simp]:
  "mId (finalize_stale sks i m) = mId m" "mType (finalize_stale sks i m) = mType m"
  "mSubtaskId (finalize_stale sks i m) = mSubtaskId m" "mContent (finalize_stale sks i m) = mContent m"
  "mStatus (finalize_stale sks i m) \<noteq> MsStreaming"
  by (simp_all add: finalize_stale_def Let_def)

text \<open>Everything but the messages.\<close>

definition same_control :: "TaskMachineInternalState \<Rightarrow> TaskMachineInternalState \<Rightarrow> bool" where
  "same_control s s' \<longleftrightarrow> (\<exists>ms. s' = s\<lparr>sMessages := ms\<rparr>)"

lemma same_control_refl [simp]: "same_control s s"
  unfolding same_control_def by (rule exI [of _ "sMessages s"]) simp

lemma same_control_set [simp]: "same_control s (s\<lparr>sMessages := ms\<rparr>)"
  by (auto simp: same_control_def)

lemma same_control_trans: "same_control a b \<Longrightarrow> same_control b c \<Longrightarrow> same_control a c"
  by (auto simp: same_control_def)

lemma same_control_ok: "same_control s s' \<Longrightarrow> state_ok s \<Longrightarrow> keyed (sMessages s') \<Longrightarrow> state_ok s'"
  by (auto simp: same_control_def state_ok_defs)

lemma finalize_stale_one_keyed:
  "keyed (sMessages s) \<Longrightarrow> keyed ms \<Longrightarrow> keyed (finalize_stale_one e s sks ms m)"
  unfolding finalize_stale_one_def Let_def
  by (auto split: option.splits intro!: keyed_set elim!: msg_ok_cong dest: keyedD)

lemma finalize_stale_keyed [invs]:
  "keyed (sMessages s) \<Longrightarrow> keyed (sMessages (finalizeStaleStreamingMessagesForNoStream e s sks))"
  unfolding finalizeStaleStreamingMessagesForNoStream_def
  by (simp, rule foldl_inv [where P = keyed]) (auto intro: finalize_stale_one_keyed)

lemma recovery_message_keyed [invs]:
  "keyed (sMessages s) \<Longrightarrow> keyed (sMessages (applyStreamRecoveryMessage e s sr))"
  unfolding applyStreamRecoveryMessage_def Let_def
  by (auto split: option.splits intro!: keyed_set elim!: msg_ok_cong dest: keyedD)

lemma recovery_message_control: "same_control s (applyStreamRecoveryMessage e s sr)"
  by (auto simp: applyStreamRecoveryMessage_def Let_def split: option.splits)

lemma finalize_stale_control: "same_control s (finalizeStaleStreamingMessagesForNoStream e s sks)"
  by (simp add: finalizeStaleStreamingMessagesForNoStream_def)

lemma sync_control: "same_control s (fst (syncMessagesFromJoinPayload e s sks o' u sr))"
proof -
  let ?s1 = "if opt_truthy (\<lambda>l. l \<noteq> []) sks
     then s\<lparr>sMessages := buildMessagesFromSubtasks e (sMessages s) (the_or [] sks) o' sr\<rparr> else s"
  have "same_control s ?s1" by simp
  note this [THEN same_control_trans, OF recovery_message_control [of ?s1 e sr]]
  moreover note this [THEN same_control_trans, OF finalize_stale_control]
  ultimately show ?thesis by (simp add: syncMessagesFromJoinPayload_def Let_def)
qed

lemma sync_keyed: "keyed (sMessages s) \<Longrightarrow> keyed (sMessages (fst (syncMessagesFromJoinPayload e s sks o' u sr)))"
  by (auto simp: syncMessagesFromJoinPayload_def Let_def
      intro!: finalize_stale_keyed recovery_message_keyed build_keyed)

lemma sync_ok [invs]: "state_ok s \<Longrightarrow> state_ok (fst (syncMessagesFromJoinPayload e s sks o' u sr))"
  using same_control_ok [OF sync_control] sync_keyed by (auto simp: state_ok_def)

subsection \<open>Stale streams\<close>

abbreviation stale :: "UnifiedMessage \<Rightarrow> bool" where
  "stale m \<equiv> streaming_ai m \<and> opt_truthy truthy_num (mSubtaskId m)"

lemma stale_key:
  assumes "keyed ms" and "jm_get ms k = Some m" and "stale m"
  shows "k = ai_key e (the (mSubtaskId m))" and "the (mSubtaskId m) \<noteq> 0"
proof -
  from assms(3) obtain i where i: "mSubtaskId m = Some i" "i \<noteq> 0"
    by (cases "mSubtaskId m") auto
  with keyedD [OF assms(1,2)] assms(3) show "k = ai_key e (the (mSubtaskId m))"
    by (auto simp: msg_ok_def generateMessageId_def)
  from i show "the (mSubtaskId m) \<noteq> 0" by simp
qed

lemma stale_fold:
  assumes "keyed (sMessages s)" and "set vs \<subseteq> {m. jm_get (sMessages s) (mId m) = Some m}"
  shows "jm_get (foldl (finalize_stale_one e s sks) acc vs) k =
    (case jm_get (sMessages s) k of
       Some m \<Rightarrow> if m \<in> set vs \<and> stale m then Some (finalize_stale sks (the (mSubtaskId m)) m) else jm_get acc k
     | None \<Rightarrow> jm_get acc k)"
  using assms(2)
proof (induction vs arbitrary: k rule: rev_induct)
  case Nil
  then show ?case by (simp split: option.splits)
next
  case (snoc v vs)
  have v: "jm_get (sMessages s) (mId v) = Some v" using snoc.prems by simp
  have IH: "jm_get (foldl (finalize_stale_one e s sks) acc vs) k =
    (case jm_get (sMessages s) k of
       Some m \<Rightarrow> if m \<in> set vs \<and> stale m then Some (finalize_stale sks (the (mSubtaskId m)) m) else jm_get acc k
     | None \<Rightarrow> jm_get acc k)" for k
    using snoc by simp
  have same: "jm_get (sMessages s) k = Some m \<Longrightarrow> mId m = k" for k m
    using keyedD [OF assms(1)] by (auto simp: msg_ok_def)
  show ?case
  proof (cases "stale v")
    case False
    then have "finalize_stale_one e s sks ms v = ms" for ms by (auto simp: finalize_stale_one_def)
    with IH False show ?thesis by (auto split: option.splits)
  next
    case True
    have key: "mId v = ai_key e (the (mSubtaskId v))" by (rule stale_key(1) [OF assms(1) v True])
    then have "finalize_stale_one e s sks ms v = jm_set (mId v) (finalize_stale sks (the (mSubtaskId v)) v) ms" for ms
      using True v by (simp add: finalize_stale_one_def Let_def)
    with IH True v show ?thesis
      by (cases "k = mId v") (auto simp: update_conv' split: option.splits dest: same)
  qed
qed

lemma finalize_stale_get:
  assumes "keyed (sMessages s)"
  shows "jm_get (sMessages (finalizeStaleStreamingMessagesForNoStream e s sks)) k =
    map_option (\<lambda>m. if stale m then finalize_stale sks (the (mSubtaskId m)) m else m) (jm_get (sMessages s) k)"
proof -
  have wf: "jm_wf (sMessages s)" using assms by (simp add: keyed_def)
  have "set (map snd (sMessages s)) \<subseteq> {m. jm_get (sMessages s) (mId m) = Some m}"
  proof
    fix m assume "m \<in> set (map snd (sMessages s))"
    then obtain k where "jm_get (sMessages s) k = Some m" using jm_in_get [OF wf] by fastforce
    moreover from this have "mId m = k" using keyedD [OF assms] by (auto simp: msg_ok_def)
    ultimately show "m \<in> {m. jm_get (sMessages s) (mId m) = Some m}" by simp
  qed
  from stale_fold [OF assms this, of e sks "sMessages s" k] show ?thesis
    by (auto simp: finalizeStaleStreamingMessagesForNoStream_def split: option.splits
        dest!: jm_get_in intro: rev_image_eqI)
qed

text \<open>No assistant message with a subtask id streams.\<close>

definition no_stream :: "TaskMachineInternalState \<Rightarrow> bool" where
  "no_stream s \<longleftrightarrow> (\<forall>k m. jm_get (sMessages s) k = Some m \<longrightarrow> \<not> stale m)"

lemma finalize_stale_no_stream:
  assumes "keyed (sMessages s)"
  shows "no_stream (finalizeStaleStreamingMessagesForNoStream e s sks)"
  unfolding no_stream_def finalize_stale_get [OF assms]
proof (intro allI impI)
  fix k m
  assume "map_option (\<lambda>m. if stale m then finalize_stale sks (the (mSubtaskId m)) m else m)
    (jm_get (sMessages s) k) = Some m"
  then obtain m0 where "m = (if stale m0 then finalize_stale sks (the (mSubtaskId m0)) m0 else m0)"
    by auto
  then show "\<not> stale m" by (cases "stale m0") simp_all
qed

lemma first_stream_found:
  "jm_wf ms \<Longrightarrow> first_stream_subtask ms = Some i \<Longrightarrow>
   \<exists>k m. jm_get ms k = Some m \<and> streaming_ai m \<and> mSubtaskId m = Some i \<and> i \<noteq> 0"
proof (induction ms rule: first_stream_subtask.induct)
  case 1
  then show ?case by simp
next
  case (2 k msg ms)
  show ?case
  proof (cases "streaming_ai msg")
    case True
    with "2.prems" show ?thesis
      by (intro exI [of _ k] exI [of _ msg]) (auto split: if_splits)
  next
    case False
    with 2 obtain k' m where m: "jm_get ms k' = Some m" "streaming_ai m" "mSubtaskId m = Some i" "i \<noteq> 0"
      by (auto simp: jm_wf_def split: if_splits)
    moreover have "k' \<noteq> k" using "2.prems"(1) m(1) by (auto simp: jm_wf_def dest: jm_get_in intro: rev_image_eqI)
    ultimately show ?thesis by (intro exI [of _ k'] exI [of _ m]) simp
  qed
qed

lemma first_stream_none:
  "first_stream_subtask ms = None \<Longrightarrow> jm_get ms k = Some m \<Longrightarrow> stale m \<Longrightarrow>
   \<exists>k' m'. (k', m') \<in> set ms \<and> streaming_ai m' \<and> \<not> stale m'"
proof (induction ms rule: first_stream_subtask.induct)
  case 1
  then show ?case by simp
next
  case (2 k' msg ms)
  then show ?case by (cases "streaming_ai msg") (auto split: if_splits)
qed

lemma no_stream_first:
  assumes "jm_wf (sMessages s)" and "no_stream s"
  shows "first_stream_subtask (sMessages s) = None"
proof (rule ccontr)
  assume "first_stream_subtask (sMessages s) \<noteq> None"
  then obtain i where "first_stream_subtask (sMessages s) = Some i" by auto
  from first_stream_found [OF assms(1) this] obtain k m
    where m: "jm_get (sMessages s) k = Some m" "streaming_ai m" "mSubtaskId m = Some i" "i \<noteq> 0" by blast
  then have "stale m" by simp
  with assms(2) m(1) show False unfolding no_stream_def by blast
qed

lemma sync_no_stream:
  assumes "keyed (sMessages s)" and "recovered_stream sr = None"
  shows "no_stream (fst (syncMessagesFromJoinPayload e s sks o' u sr))"
    and "snd (syncMessagesFromJoinPayload e s sks o' u sr) = SyncDone u"
proof -
  let ?r = "syncMessagesFromJoinPayload e s sks o' u sr"
  let ?s1 = "if opt_truthy (\<lambda>l. l \<noteq> []) sks
     then s\<lparr>sMessages := buildMessagesFromSubtasks e (sMessages s) (the_or [] sks) o' sr\<rparr> else s"
  have "keyed (sMessages (applyStreamRecoveryMessage e ?s1 sr))"
    by (intro recovery_message_keyed) (simp add: build_keyed assms(1))
  moreover have "fst ?r = finalizeStaleStreamingMessagesForNoStream e (applyStreamRecoveryMessage e ?s1 sr) sks"
    using assms(2) by (simp add: syncMessagesFromJoinPayload_def Let_def)
  ultimately show no: "no_stream (fst ?r)" by (simp only: finalize_stale_no_stream)
  have "keyed (sMessages (fst ?r))" using sync_keyed [OF assms(1)] .
  then have "first_stream_subtask (sMessages (fst ?r)) = None"
    using no by (intro no_stream_first) (simp_all add: keyed_def)
  moreover have "snd ?r = sync_completion (fst ?r) u sr"
    by (simp add: syncMessagesFromJoinPayload_def Let_def)
  ultimately show "snd ?r = SyncDone u"
    by (simp add: sync_completion_def getActiveStreamSubtaskId_def)
qed

subsection \<open>Properties\<close>

text \<open>A sync whose answer names no stream ends all streams: it completes as done and leaves no
  assistant message of a subtask streaming, whatever the subtasks say.\<close>

theorem sync_without_stream_settles:
  assumes "keyed (sMessages s)" and "recovered_stream sr = None"
  shows "let (s', c) = syncMessagesFromJoinPayload e s sks o' u sr in
    c = SyncDone u \<and>
    (\<forall>k m. jm_get (sMessages s') k = Some m \<longrightarrow>
       \<not> (mType m = MtAi \<and> mStatus m = MsStreaming \<and> opt_truthy truthy_num (mSubtaskId m)))"
  using sync_no_stream [OF assms, of e sks o' u]
  by (cases "syncMessagesFromJoinPayload e s sks o' u sr") (auto simp: no_stream_def)

text \<open>A sync that completes as streaming is right to: the answer named a stream, and the subtask
  reported is that of a streaming assistant message, stored under the subtask's key.\<close>

theorem sync_streaming_is_real:
  assumes "keyed (sMessages s)"
    and "syncMessagesFromJoinPayload e s sks o' u sr = (s', SyncStreaming i c st la u')"
  shows "\<exists>m. jm_get (sMessages s') (ai_key e i) = Some m \<and> mType m = MtAi \<and> mStatus m = MsStreaming \<and>
    mSubtaskId m = Some i \<and> i \<noteq> 0 \<and> u' = u \<and>
    (\<exists>p. sr = Some p \<and> srSubtaskId p \<noteq> 0 \<and>
       c = (if srSubtaskId p = i
            then the_or 0 (coalesce (srOffset p) (map_option (\<lambda>t. int (length t)) (srCachedContent p))) else 0))"
proof -
  have kd: "keyed (sMessages s')" using sync_keyed [OF assms(1), of e sks o' u sr] assms(2) by simp
  have c: "SyncStreaming i c st la u' = sync_completion s' u sr"
    using assms(2) by (auto simp: syncMessagesFromJoinPayload_def Let_def)
  then have first: "first_stream_subtask (sMessages s') = Some i" and "u' = u"
    by (auto simp: sync_completion_def getActiveStreamSubtaskId_def split: option.splits if_splits)
  from first_stream_found [OF _ first] kd obtain k m
    where m: "jm_get (sMessages s') k = Some m" "streaming_ai m" "mSubtaskId m = Some i" "i \<noteq> 0"
    by (auto simp: keyed_def)
  with stale_key(1) [OF kd m(1), of e] have "k = ai_key e i" by simp
  moreover have "recovered_stream sr \<noteq> None"
    using sync_no_stream(2) [OF assms(1), of sr e sks o' u] assms(2) by auto
  then obtain p where "sr = Some p" "srSubtaskId p \<noteq> 0"
    by (cases sr) (auto simp: recovered_stream_def js_or_def split: if_splits)
  ultimately show ?thesis
    using m c first \<open>u' = u\<close>
    by (auto simp: sync_completion_def getActiveStreamSubtaskId_def split: if_splits)
qed

lemma finalize_stale_text:
  "keyed (sMessages s) \<Longrightarrow> jm_get (sMessages s) k = Some m \<Longrightarrow>
   \<exists>m'. jm_get (sMessages (finalizeStaleStreamingMessagesForNoStream e s sks)) k = Some m' \<and> text_grows m m'"
  by (auto simp: finalize_stale_get text_grows_def)

lemma recovery_message_text:
  "jm_get (sMessages s) k = Some m \<Longrightarrow>
   \<exists>m'. jm_get (sMessages (applyStreamRecoveryMessage e s sr)) k = Some m' \<and> text_grows m m'"
  by (auto simp: applyStreamRecoveryMessage_def Let_def update_conv' text_grows_def opt_truthy_def
      split: option.splits)

text \<open>A sync loses no message and no text: unless stale messages are to be cleaned, every message
  is still stored under its key and its text is not shorter; nothing but the messages changes, and
  the state stays consistent.\<close>

theorem sync_keeps_text:
  assumes "state_ok s" and "soForceClean o' \<noteq> Some True" and "jm_get (sMessages s) k = Some m"
  shows "let s' = fst (syncMessagesFromJoinPayload e s sks o' u sr) in
    (\<exists>m'. jm_get (sMessages s') k = Some m' \<and> length (mContent m) \<le> length (mContent m')) \<and>
    sStatus s' = sStatus s \<and> sRuntime s' = sRuntime s \<and> sDerived s' = sDerived s \<and> state_ok s'"
proof -
  let ?s1 = "if opt_truthy (\<lambda>l. l \<noteq> []) sks
     then s\<lparr>sMessages := buildMessagesFromSubtasks e (sMessages s) (the_or [] sks) o' sr\<rparr> else s"
  let ?s2 = "applyStreamRecoveryMessage e ?s1 sr"
  let ?s3 = "finalizeStaleStreamingMessagesForNoStream e ?s2 sks"
  have keyed: "keyed (sMessages s)" using assms(1) by (simp add: state_ok_def)
  then have k2: "keyed (sMessages ?s2)"
    by (intro recovery_message_keyed) (simp add: build_keyed)
  obtain m1 where m1: "jm_get (sMessages ?s1) k = Some m1" "text_grows m m1"
    using build_text [OF assms(2,3), of e "the_or [] sks" sr] assms(3)
    by (cases "opt_truthy (\<lambda>l. l \<noteq> []) sks") (auto intro: that)
  from recovery_message_text [OF m1(1)] obtain m2
    where m2: "jm_get (sMessages ?s2) k = Some m2" "text_grows m1 m2" by blast
  from finalize_stale_text [OF k2 m2(1)] obtain m3
    where m3: "jm_get (sMessages ?s3) k = Some m3" "text_grows m2 m3" by blast
  have "\<exists>m'. jm_get (sMessages (fst (syncMessagesFromJoinPayload e s sks o' u sr))) k = Some m' \<and> text_grows m m'"
    using m1 m2 m3 unfolding syncMessagesFromJoinPayload_def Let_def
    by (auto intro: text_grows_trans)
  moreover have "same_control s (fst (syncMessagesFromJoinPayload e s sks o' u sr))" by (rule sync_control)
  ultimately show ?thesis
    using sync_ok [OF assms(1), of e sks o' u sr] by (auto simp: Let_def text_grows_def same_control_def)
qed

lemma demo_stream_keyed: "keyed (sMessages demo_stream)"
  using demo_stream_ok by (simp add: state_ok_def)

theorem sync_without_stream_settles_witness:
  "snd (syncMessagesFromJoinPayload demo_env demo_stream (Some [demo_subtask]) demo_options None None)
     = SyncDone None"
  using sync_without_stream_settles [OF demo_stream_keyed, of None demo_env "Some [demo_subtask]" demo_options None]
  by (auto simp: recovered_stream_def split: prod.splits)

text \<open>The same sync when the answer names the stream of subtask 7.\<close>

lemma demo_sync_first:
  "first_stream_subtask (sMessages (fst (syncMessagesFromJoinPayload demo_env demo_stream None demo_options None
     (Some demo_recovery)))) = Some 7"
  by code_simp

theorem sync_streaming_is_real_witness:
  "\<exists>s' m. fst (syncMessagesFromJoinPayload demo_env demo_stream None demo_options None (Some demo_recovery)) = s' \<and>
     jm_get (sMessages s') ''ai-7'' = Some m \<and> mStatus m = MsStreaming"
proof -
  let ?r = "syncMessagesFromJoinPayload demo_env demo_stream None demo_options None (Some demo_recovery)"
  have "snd ?r = sync_completion (fst ?r) None (Some demo_recovery)"
    by (simp add: syncMessagesFromJoinPayload_def Let_def)
  also have "\<dots> = SyncStreaming 7 2 None None None"
    using demo_sync_first by (simp add: sync_completion_def getActiveStreamSubtaskId_def demo_recovery_def)
  finally have "?r = (fst ?r, SyncStreaming 7 2 None None None)" by (metis prod.collapse)
  from sync_streaming_is_real [OF demo_stream_keyed this] show ?thesis by (auto simp: show_7)
qed

theorem sync_keeps_text_witness:
  "\<exists>m'. jm_get (sMessages (fst (syncMessagesFromJoinPayload demo_env demo_stream (Some [demo_subtask])
     demo_options None (Some demo_recovery)))) ''ai-7'' = Some m' \<and> 1 \<le> length (mContent m')"
proof -
  have "soForceClean demo_options \<noteq> Some True" by (simp add: demo_options_def)
  moreover have "jm_get (sMessages demo_stream) ''ai-7'' = Some demo_message" by (simp add: demo_stream_def)
  moreover have "length (mContent demo_message) = 1" by (simp add: demo_message_def)
  ultimately show ?thesis
    using sync_keeps_text [OF demo_stream_ok, of demo_options "''ai-7''" demo_message demo_env
        "Some [demo_subtask]" None "Some demo_recovery"]
    by (auto simp: Let_def)
qed

end
