(* ===== verification/PendingChunks.thy ===== *)
theory PendingChunks
  imports TaskSync
begin

text \<open>
  Replaying the chunks that arrived while the messages could not take them, from
  \<open>packages/chat-core/src/task-state/TaskStateMachine.pendingChunks.ts\<close>. The loop repeats the body of
  the live chunk reducer in its own words; the last section proves the two agree.
\<close>

definition mergeBlocksFromPendingChunk ::
    "env \<Rightarrow> UnifiedMessage \<Rightarrow> PendingChunkEvent \<Rightarrow> ustring \<Rightarrow> MessageBlock list" where
  "mergeBlocksFromPendingChunk e existingMessage chunk appendedContent =
     mergeStreamingBlocks e
       (the_or [] (Option.bind (mResult existingMessage) rBlocks))
       (the_or [] (Option.bind (ckResult chunk) rBlocks))
       (Some appendedContent) (ckBlockId chunk)
       (Option.bind (ckResult chunk) rReasoningChunk)"

definition pendingChunkMessage :: "env \<Rightarrow> UnifiedMessage \<Rightarrow> PendingChunkEvent \<Rightarrow> UnifiedMessage" where
  "pendingChunkMessage e existingMessage chunk =
     (let contentMerge = mergeChunkContent (mContent existingMessage) (ckContent chunk) (ckOffset chunk);
          reasoning = Option.bind (ckResult chunk) rReasoningChunk;
          full = Option.bind (ckResult chunk) rReasoningContent;
          m1 = existingMessage\<lparr>mContent := fst contentMerge\<rparr>;
          m2 = (if opt_truthy truthy_text reasoning
                then m1\<lparr>mReasoningContent :=
                          Some (the_or [] (mReasoningContent existingMessage) @ the_or [] reasoning),
                        mIsReasoningStreaming := Some True\<rparr>
                else if opt_truthy truthy_text full then m1\<lparr>mReasoningContent := full\<rparr>
                else m1);
          m3 = (if ckContent chunk \<noteq> [] then m2\<lparr>mIsReasoningStreaming := Some False\<rparr> else m2);
          mergedBlocks = mergeBlocksFromPendingChunk e existingMessage chunk (snd contentMerge);
          base = the_or empty_result (mResult existingMessage);
          m4 = m3\<lparr>mResult := (case ckResult chunk of
              Some r \<Rightarrow> Some ((spread_result base r)
                \<lparr>rThinking := js_or truthy_json (rThinking r) (rThinking base),
                 rBlocks := Some mergedBlocks,
                 rReasoningContent := js_or truthy_text (rReasoningContent r) (rReasoningContent base),
                 rShellType := js_or truthy_text (rShellType r) (rShellType base)\<rparr>)
            | None \<Rightarrow> Some (base\<lparr>rBlocks := Some mergedBlocks\<rparr>))\<rparr>
      in if opt_truthy truthy_json (ckSources chunk) then m4\<lparr>mSources := ckSources chunk\<rparr> else m4)"

text \<open>One round of the loop; a chunk whose message is unknown or finished is skipped.\<close>

definition applyPendingChunk ::
    "env \<Rightarrow> TaskMachineInternalState \<Rightarrow> PendingChunkEvent \<Rightarrow> TaskMachineInternalState" where
  "applyPendingChunk e nextState chunk =
     (let aiMessageId = ai_key e (ckSubtaskId chunk)
      in case jm_get (sMessages nextState) aiMessageId of
           None \<Rightarrow> nextState
         | Some existingMessage \<Rightarrow>
             if mStatus existingMessage \<noteq> MsStreaming then nextState
             else
               let updatedMessage = pendingChunkMessage e existingMessage chunk
               in with_runtime ((sRuntime nextState)
                    \<lparr>rtPhase := PhStreaming,
                     rtActiveStreamSubtaskId := Some (ckSubtaskId chunk),
                     rtLocalStreamCursor := int (length (mContent updatedMessage)),
                     rtLocalLastChunkAt := Some (now e)\<rparr>)
                  (nextState\<lparr>sMessages := jm_set aiMessageId updatedMessage (sMessages nextState)\<rparr>))"

text \<open>Each round draws its own random suffixes, at most two.\<close>

definition chunk_env :: "env \<Rightarrow> nat \<Rightarrow> env" where
  "chunk_env e j = e\<lparr>rnd := (\<lambda>k. rnd e (2 * j + k))\<rparr>"

fun replay_chunks ::
    "env \<Rightarrow> nat \<Rightarrow> TaskMachineInternalState \<Rightarrow> PendingChunkEvent list \<Rightarrow> TaskMachineInternalState" where
  "replay_chunks e j s [] = s"
| "replay_chunks e j s (c # cs) = replay_chunks e (Suc j) (applyPendingChunk (chunk_env e j) s c) cs"

record ApplyPendingChunksResult =
  apState :: TaskMachineInternalState
  apPendingChunks :: "PendingChunkEvent list"
  apNotify :: bool

definition applyPendingChunksToState ::
    "env \<Rightarrow> TaskMachineInternalState \<Rightarrow> PendingChunkEvent list \<Rightarrow> ApplyPendingChunksResult" where
  "applyPendingChunksToState e state pendingChunks =
     (if pendingChunks = [] then \<lparr>apState = state, apPendingChunks = pendingChunks, apNotify = False\<rparr>
      else \<lparr>apState = replay_chunks e 0 state pendingChunks, apPendingChunks = [], apNotify = True\<rparr>)"

subsection \<open>The invariants\<close>

lemma chunk_env_key [simp]: "i \<noteq> 0 \<Longrightarrow> ai_key (chunk_env e j) i = ai_key e i"
  by (simp add: generateMessageId_def chunk_env_def)

lemma chunk_env_now [simp]: "now (chunk_env e j) = now e"
  by (simp add: chunk_env_def)

lemma pending_blocks_eq: "mergeBlocksFromPendingChunk = mergeChunkBlocks"
  by (intro ext) (simp add: mergeBlocksFromPendingChunk_def mergeChunkBlocks_def)

lemma pending_message_eq: "pendingChunkMessage e m c = chunkMessage e m c"
  by (simp add: pendingChunkMessage_def chunkMessage_def Let_def pending_blocks_eq split: option.split)

lemma apply_pending_ok [invs]: "state_ok s \<Longrightarrow> state_ok (applyPendingChunk e s c)"
  unfolding applyPendingChunk_def Let_def pending_message_eq
  by (auto simp: state_ok_defs split: option.splits intro!: keyed_set elim!: msg_ok_cong dest: keyedD)

lemma replay_ok [invs]: "state_ok s \<Longrightarrow> state_ok (replay_chunks e j s cs)"
  by (induction e j s cs rule: replay_chunks.induct) (auto intro: apply_pending_ok)

lemma pending_chunks_ok [invs]: "state_ok s \<Longrightarrow> state_ok (apState (applyPendingChunksToState e s cs))"
  by (simp add: applyPendingChunksToState_def replay_ok)

lemma apply_pending_status [simp]: "sStatus (applyPendingChunk e s c) = sStatus s"
  by (simp add: applyPendingChunk_def Let_def split: option.split)

lemma replay_status [simp]: "sStatus (replay_chunks e j s cs) = sStatus s"
  by (induction e j s cs rule: replay_chunks.induct) auto

lemma pending_chunks_status [simp]: "sStatus (apState (applyPendingChunksToState e s cs)) = sStatus s"
  by (simp add: applyPendingChunksToState_def)

subsection \<open>Replay and live chunks\<close>

fun live_chunks ::
    "env \<Rightarrow> nat \<Rightarrow> TaskMachineInternalState \<Rightarrow> PendingChunkEvent list \<Rightarrow> TaskMachineInternalState" where
  "live_chunks e j s [] = s"
| "live_chunks e j s (c # cs) =
     live_chunks e (Suc j) (ccState (reduceChatChunkEvent (chunk_env e j) s c [])) cs"

lemma apply_pending_live:
  assumes "sStatus s \<notin> {StIdle, StJoining, StSyncing}" and "rtServerConfirmedNoStream (sRuntime s) = Some False"
  shows "ccState (reduceChatChunkEvent e s c []) = applyPendingChunk e s c"
    and "rtServerConfirmedNoStream (sRuntime (applyPendingChunk e s c)) = Some False"
proof -
  show "ccState (reduceChatChunkEvent e s c []) = applyPendingChunk e s c"
    using assms
    by (auto simp: reduceChatChunkEvent_def applyPendingChunk_def Let_def pending_message_eq
        split: option.split intro!: arg_cong2 [where f = with_runtime] TaskRuntimeState.equality)
  show "rtServerConfirmedNoStream (sRuntime (applyPendingChunk e s c)) = Some False"
    using assms by (simp add: applyPendingChunk_def Let_def split: option.split)
qed

lemma replay_live:
  "sStatus s \<notin> {StIdle, StJoining, StSyncing} \<Longrightarrow> rtServerConfirmedNoStream (sRuntime s) = Some False \<Longrightarrow>
   replay_chunks e j s cs = live_chunks e j s cs"
proof (induction e j s cs rule: replay_chunks.induct)
  case 1
  then show ?case by simp
next
  case (2 e j s c cs)
  note step = apply_pending_live [OF 2(2,3), of "chunk_env e j" c]
  show ?case unfolding replay_chunks.simps live_chunks.simps step(1)
    by (rule "2.IH") (use 2(2) step(2) in simp_all)
qed

text \<open>C5: Chunks that had to wait are not treated differently. Once a sync has completed as streaming,
  replaying the queue leaves exactly the state that receiving the same chunks live, in the same
  order, would have left.\<close>

theorem replay_equals_live:
  assumes "sStatus s = StStreaming" and "rtServerConfirmedNoStream (sRuntime s) = Some False"
  shows "apState (applyPendingChunksToState e s cs) = live_chunks e 0 s cs"
  using assms replay_live [of s e 0 cs] by (simp add: applyPendingChunksToState_def)

definition demo_synced :: TaskMachineInternalState where
  "demo_synced = with_runtime ((sRuntime demo_stream)\<lparr>rtServerConfirmedNoStream := Some False\<rparr>) demo_stream"

theorem replay_equals_live_witness:
  "apState (applyPendingChunksToState demo_env demo_synced [demo_chunk]) =
   ccState (reduceChatChunkEvent (chunk_env demo_env 0) demo_synced demo_chunk [])"
proof -
  have "sStatus demo_synced = StStreaming" "rtServerConfirmedNoStream (sRuntime demo_synced) = Some False"
    by (simp_all add: demo_synced_def demo_stream_def)
  from replay_equals_live [OF this, of demo_env "[demo_chunk]"] show ?thesis by simp
qed

subsection \<open>The text after a replay\<close>

lemma replay_text:
  assumes "list_all scalar F" and "i \<noteq> 0"
  shows "n \<le> length F \<Longrightarrow> gap_free n cs \<Longrightarrow> \<forall>(off, k) \<in> set cs. off + k \<le> length F \<Longrightarrow>
    map (\<lambda>p. (ckSubtaskId p, ckOffset p, ckContent p)) ps =
      map (\<lambda>(off, k). (i, Some (int off), chunk_at F off k)) cs \<Longrightarrow>
    jm_get (sMessages s) (ai_key e i) = Some m \<Longrightarrow> mStatus m = MsStreaming \<Longrightarrow> mContent m = text_upto F n \<Longrightarrow>
    \<exists>m'. jm_get (sMessages (replay_chunks e j s ps)) (ai_key e i) = Some m' \<and>
      mStatus m' = MsStreaming \<and> mContent m' = text_upto F (reach n cs)"
proof (induction cs arbitrary: n ps s m j)
  case Nil
  then show ?case by (simp add: reach_def)
next
  case (Cons c cs)
  obtain off k where c: "c = (off, k)" by (cases c)
  with Cons.prems(4) obtain p ps' where ps: "ps = p # ps'"
    and p: "ckSubtaskId p = i" "ckOffset p = Some (int off)" "ckContent p = chunk_at F off k"
    and ps': "map (\<lambda>p. (ckSubtaskId p, ckOffset p, ckContent p)) ps' =
      map (\<lambda>(off, k). (i, Some (int off), chunk_at F off k)) cs"
    by (cases ps) auto
  let ?n = "max n (off + k)" and ?s = "applyPendingChunk (chunk_env e j) s p"
  have got: "jm_get (sMessages ?s) (ai_key e i) = Some (chunkMessage (chunk_env e j) m p)"
    using Cons.prems p assms(2) by (simp add: applyPendingChunk_def Let_def pending_message_eq update_conv')
  have content: "mContent (chunkMessage (chunk_env e j) m p) = text_upto F ?n"
    using Cons.prems c p mergeChunk_step [OF assms(1), of n off k] by simp
  have "\<exists>m'. jm_get (sMessages (replay_chunks e (Suc j) ?s ps')) (ai_key e i) = Some m' \<and>
      mStatus m' = MsStreaming \<and> mContent m' = text_upto F (reach ?n cs)"
    by (rule Cons.IH [OF _ _ _ ps' got _ content]) (use Cons.prems c in auto)
  then show ?case by (simp add: ps c reach_def)
qed

text \<open>C30: A replay reassembles the text. If the message holds the first n code points of a text and
  the queued chunks are pieces of it, none starting beyond what is then received, the message holds
  the prefix up to the furthest end of a chunk, however the pieces overlap or repeat.\<close>

theorem replay_reassembles_text:
  assumes "list_all scalar F" and "i \<noteq> 0" and "n \<le> length F" and "gap_free n cs"
    and "\<forall>(off, k) \<in> set cs. off + k \<le> length F"
    and "map (\<lambda>p. (ckSubtaskId p, ckOffset p, ckContent p)) ps =
      map (\<lambda>(off, k). (i, Some (int off), chunk_at F off k)) cs"
    and "jm_get (sMessages s) (ai_key e i) = Some m" and "mStatus m = MsStreaming"
    and "mContent m = text_upto F n"
  shows "\<exists>m'. jm_get (sMessages (apState (applyPendingChunksToState e s ps))) (ai_key e i) = Some m' \<and>
    mStatus m' = MsStreaming \<and> mContent m' = text_upto F (reach n cs) \<and>
    apPendingChunks (applyPendingChunksToState e s ps) = []"
  using replay_text [OF assms, of 0] by (auto simp: applyPendingChunksToState_def)

theorem replay_reassembles_text_witness:
  "\<exists>m'. jm_get (sMessages (apState (applyPendingChunksToState demo_env demo_synced [demo_chunk, demo_chunk])))
     ''ai-7'' = Some m' \<and> mContent m' = [97, 0xD83D, 0xDE00]"
proof -
  have chunks: "map (\<lambda>p. (ckSubtaskId p, ckOffset p, ckContent p)) [demo_chunk, demo_chunk] =
      map (\<lambda>(off, k). (7, Some (int off), chunk_at demo_text off k)) [(1, 1), (1, 1)]"
    by (simp add: demo_chunk_def chunk_at_def demo_text_def)
  have "jm_get (sMessages demo_synced) (ai_key demo_env 7) = Some demo_message"
    using demo_stream_get [of demo_env] by (simp add: demo_synced_def del: generateMessageId_def)
  from replay_reassembles_text [OF demo_text_scalar _ _ _ _ chunks this, of 1] show ?thesis
    by (auto simp: demo_message_def demo_text_def text_upto_def reach_def show_7)
qed

end
