(* ===== verification/TaskRecovery.thy ===== *)
theory TaskRecovery
  imports TaskTypes
begin

text \<open>
  What a recovery asks the server for, from
  \<open>packages/chat-core/src/task-state/TaskStateMachine.recovery.ts\<close>. \<open>logRecoverJoinAck\<close> only logs.
\<close>

record RecoverJoinOptions =
  joForceRefresh :: bool
  joAfterMessageId :: "int option"
  joResumeFromCursor :: "int option"
  joActiveStreamSubtaskId :: "int option"

definition later_id :: "int option \<Rightarrow> int option \<Rightarrow> int option" where
  "later_id maxMessageId messageId =
     (case messageId of
        None \<Rightarrow> maxMessageId
      | Some i \<Rightarrow> (case maxMessageId of None \<Rightarrow> Some i | Some a \<Rightarrow> if a < i then Some i else Some a))"

definition getMaxMessageId :: "TaskMachineInternalState \<Rightarrow> int option" where
  "getMaxMessageId state = foldl later_id None (map (\<lambda>(_, msg). mMessageId msg) (sMessages state))"

definition buildRecoverJoinOptions ::
    "TaskMachineInternalState \<Rightarrow> RecoverEvent \<Rightarrow> RecoverJoinOptions \<times> int option" where
  "buildRecoverJoinOptions state event =
     (let maxMessageId = getMaxMessageId state
      in (\<lparr>joForceRefresh = True,
           joAfterMessageId = (if reReason event = Some WebsocketReconnect then None
                               else coalesce (reSyncAfterMessageId event) maxMessageId),
           joResumeFromCursor = reResumeFromCursor event,
           joActiveStreamSubtaskId = reActiveStreamSubtaskId event\<rparr>, maxMessageId))"

lemma later_id_None: "foldl later_id None xs = None \<longleftrightarrow> set xs \<subseteq> {None}"
  by (induction xs rule: rev_induct) (auto simp: later_id_def split: option.splits)

lemma later_id_Some:
  "foldl later_id None xs = Some i \<Longrightarrow> Some i \<in> set xs \<and> (\<forall>j. Some j \<in> set xs \<longrightarrow> j \<le> i)"
proof (induction xs arbitrary: i rule: rev_induct)
  case Nil
  then show ?case by simp
next
  case (snoc x xs)
  have step: "later_id (foldl later_id None xs) x = Some i" using snoc.prems by simp
  show ?case
  proof (cases "foldl later_id None xs")
    case None
    then have "set xs \<subseteq> {None}" by (simp add: later_id_None)
    with step [unfolded None] show ?thesis by (cases x) (auto simp: later_id_def)
  next
    case (Some a)
    with snoc.IH [OF Some] step [unfolded Some] show ?thesis
      by (cases x) (auto simp: later_id_def split: if_splits)
  qed
qed

lemma max_message_id_known:
  assumes "jm_wf (sMessages s)"
  shows "getMaxMessageId s = None \<Longrightarrow> jm_get (sMessages s) k = Some m \<Longrightarrow> mMessageId m = None"
    and "getMaxMessageId s = Some i \<Longrightarrow> \<exists>k m. jm_get (sMessages s) k = Some m \<and> mMessageId m = Some i"
    and "getMaxMessageId s = Some i \<Longrightarrow> jm_get (sMessages s) k = Some m \<Longrightarrow> mMessageId m = Some j \<Longrightarrow> j \<le> i"
proof -
  let ?ids = "map (\<lambda>(_, msg). mMessageId msg) (sMessages s)"
  have mem: "mMessageId m \<in> set ?ids" if "jm_get (sMessages s) k = Some m" for k m
    using jm_get_in [OF that] by force
  show "mMessageId m = None" if "getMaxMessageId s = None" "jm_get (sMessages s) k = Some m"
    using that(1) mem [OF that(2)] unfolding getMaxMessageId_def later_id_None by blast
  show "j \<le> i" if "getMaxMessageId s = Some i" "jm_get (sMessages s) k = Some m" "mMessageId m = Some j"
    using later_id_Some [OF that(1) [unfolded getMaxMessageId_def]] mem [OF that(2)] that(3) by simp
  show "\<exists>k m. jm_get (sMessages s) k = Some m \<and> mMessageId m = Some i" if "getMaxMessageId s = Some i"
  proof -
    from later_id_Some [OF that [unfolded getMaxMessageId_def]]
    obtain k m where "(k, m) \<in> set (sMessages s)" "mMessageId m = Some i" by force
    then show ?thesis using jm_in_get [OF assms] by blast
  qed
qed

text \<open>A recovery asks for what is missing and no less: after a reconnect for everything, otherwise,
  unless the caller names a point to resume after, for what follows the newest message known; the
  messages asked for include every one the machine does not have.\<close>

theorem recover_asks_after_newest:
  assumes "jm_wf (sMessages s)"
  shows "case joAfterMessageId (fst (buildRecoverJoinOptions s ev)) of
    None \<Rightarrow> reReason ev = Some WebsocketReconnect \<or>
      (\<forall>k m. jm_get (sMessages s) k = Some m \<longrightarrow> mMessageId m = None)
  | Some a \<Rightarrow> reReason ev \<noteq> Some WebsocketReconnect \<and>
      (reSyncAfterMessageId ev = Some a \<or>
       reSyncAfterMessageId ev = None \<and> (\<exists>k m. jm_get (sMessages s) k = Some m \<and> mMessageId m = Some a) \<and>
       (\<forall>k m i. jm_get (sMessages s) k = Some m \<and> mMessageId m = Some i \<longrightarrow> i \<le> a))"
proof (cases "getMaxMessageId s")
  case None
  then show ?thesis
    using max_message_id_known(1) [OF assms None]
    by (auto simp: buildRecoverJoinOptions_def Let_def split: option.split)
next
  case (Some i)
  then show ?thesis
    using max_message_id_known(2,3) [OF assms Some]
    by (cases "reSyncAfterMessageId ev") (auto simp: buildRecoverJoinOptions_def Let_def)
qed

definition demo_history :: TaskMachineInternalState where
  "demo_history = (initial_state 1)\<lparr>sMessages :=
     [(''ai-1'', (new_message ''ai-1'' MtAi MsCompleted [97] (Some 1))\<lparr>mSubtaskId := Some 1, mMessageId := Some 4\<rparr>),
      (''u'', (new_message ''u'' MtUser MsCompleted [97] (Some 1))\<lparr>mMessageId := Some 9\<rparr>)]\<rparr>"

definition demo_recover :: "TaskRecoveryReason \<Rightarrow> RecoverEvent" where
  "demo_recover r = \<lparr>reForce = Some True, reReason = Some r, reResumeFromCursor = None,
     reActiveStreamSubtaskId = None, reSyncAfterMessageId = None, reSyncUpdatedAt = None\<rparr>"

theorem recover_asks_after_newest_witness:
  "\<exists>a. joAfterMessageId (fst (buildRecoverJoinOptions demo_history (demo_recover PageVisible))) = Some a \<and> 9 \<le> a"
proof -
  have wf: "jm_wf (sMessages demo_history)" by (simp add: demo_history_def jm_wf_def)
  have got: "jm_get (sMessages demo_history) ''u'' =
      Some ((new_message ''u'' MtUser MsCompleted [97] (Some 1))\<lparr>mMessageId := Some 9\<rparr>)"
    by (simp add: demo_history_def)
  from recover_asks_after_newest [OF wf, of "demo_recover PageVisible"] got show ?thesis
    by (fastforce simp: demo_recover_def split: option.splits)
qed

end
