(* ===== verification/RuntimeProbe.thy ===== *)
theory RuntimeProbe
  imports TaskTypes
begin

text \<open>
  The probe that checks an unstable runtime against the server, from
  \<open>packages/chat-core/src/task-state/TaskStateMachine.runtimeProbe.ts\<close>. The timer is the pair its
  callback closes over, \<open>generation\<close> and \<open>reason\<close>; when it fires is up to the scheduler. \<open>run\<close> is
  split at its await: \<open>probe_begin\<close> says whether the check starts, \<open>probe_finish\<close> is the
  \<open>finally\<close> block before \<open>resync\<close>.
\<close>

record probe =
  pbTimer :: "(nat \<times> TaskRecoveryReason) option"
  pbRunning :: bool
  pbGeneration :: nat
  pbReason :: "TaskRecoveryReason option"

definition new_probe :: probe where
  "new_probe = \<lparr>pbTimer = None, pbRunning = False, pbGeneration = 0, pbReason = None\<rparr>"

definition probe_stop :: "probe \<Rightarrow> probe" where
  "probe_stop p = p\<lparr>pbTimer := None, pbReason := None, pbGeneration := pbGeneration p + 1\<rparr>"

definition probe_schedule :: "TaskRecoveryReason \<Rightarrow> probe \<Rightarrow> probe" where
  "probe_schedule reason p =
     (if pbReason p = Some reason \<and> (pbTimer p \<noteq> None \<or> pbRunning p) then p
      else
        let p1 = probe_stop p;
            generation = pbGeneration p1 + 1
        in p1\<lparr>pbReason := Some reason, pbGeneration := generation, pbTimer := Some (generation, reason)\<rparr>)"

definition probe_begin :: "bool \<Rightarrow> nat \<Rightarrow> probe \<Rightarrow> probe \<times> bool" where
  "probe_begin closed generation p =
     (if closed \<or> generation \<noteq> pbGeneration p \<or> pbRunning p then (p, False)
      else (p\<lparr>pbRunning := True\<rparr>, True))"

definition probe_run_now :: "bool \<Rightarrow> probe \<Rightarrow> probe \<times> bool" where
  "probe_run_now closed p =
     (let p1 = probe_stop p;
          generation = pbGeneration p1 + 1
      in probe_begin closed generation (p1\<lparr>pbGeneration := generation\<rparr>))"

text \<open>The timer's callback: what it ran for, and whether the check starts.\<close>

definition probe_fire :: "bool \<Rightarrow> probe \<Rightarrow> probe \<times> TaskRecoveryReason option" where
  "probe_fire closed p =
     (case pbTimer p of
        None \<Rightarrow> (p, None)
      | Some (generation, reason) \<Rightarrow>
          (let (p', started) = probe_begin closed generation (p\<lparr>pbTimer := None\<rparr>)
           in (p', if started then Some reason else None)))"

definition probe_finish :: "probe \<Rightarrow> probe" where
  "probe_finish p = p\<lparr>pbRunning := False\<rparr>"

text \<open>An armed timer is the current one: it will not be discarded when it fires.\<close>

definition probe_ok :: "probe \<Rightarrow> bool" where
  "probe_ok p \<longleftrightarrow> (\<forall>g r. pbTimer p = Some (g, r) \<longrightarrow> g = pbGeneration p \<and> pbReason p = Some r)"

text \<open>A check will happen: one is timed or under way.\<close>

definition probe_due :: "probe \<Rightarrow> bool" where
  "probe_due p \<longleftrightarrow> pbTimer p \<noteq> None \<or> pbRunning p"

lemma probe_ok_new [invs]: "probe_ok new_probe"
  by (simp add: probe_ok_def new_probe_def)

lemma probe_ok_stop [invs]: "probe_ok (probe_stop p)"
  by (simp add: probe_ok_def probe_stop_def)

lemma probe_ok_schedule [invs]: "probe_ok p \<Longrightarrow> probe_ok (probe_schedule r p)"
  by (cases "pbTimer p") (auto simp: probe_ok_def probe_schedule_def Let_def)

lemma probe_ok_finish [invs]: "probe_ok p \<Longrightarrow> probe_ok (probe_finish p)"
  by (simp add: probe_ok_def probe_finish_def)

lemma probe_ok_begin [invs]: "probe_ok p \<Longrightarrow> probe_ok (fst (probe_begin c g p))"
  by (simp add: probe_ok_def probe_begin_def)

lemma probe_ok_run_now [invs]: "probe_ok (fst (probe_run_now c p))"
  unfolding probe_run_now_def Let_def
  by (rule probe_ok_begin) (simp add: probe_ok_def probe_stop_def)

lemma probe_fire_cases:
  "probe_fire c p = (case pbTimer p of None \<Rightarrow> (p, None)
     | Some (g, r) \<Rightarrow> if c \<or> g \<noteq> pbGeneration p \<or> pbRunning p then (p\<lparr>pbTimer := None\<rparr>, None)
         else (p\<lparr>pbTimer := None, pbRunning := True\<rparr>, Some r))"
  by (simp add: probe_fire_def probe_begin_def split: option.split)

lemma probe_ok_fire [invs]: "probe_ok p \<Longrightarrow> probe_ok (fst (probe_fire c p))"
  by (cases "pbTimer p") (auto simp: probe_fire_cases probe_ok_def)

lemmas probe_ok_ops = probe_ok_new probe_ok_stop probe_ok_schedule probe_ok_finish probe_ok_begin
  probe_ok_run_now probe_ok_fire

lemma probe_due_schedule [simp]: "probe_due (probe_schedule r p)"
  by (auto simp: probe_due_def probe_schedule_def Let_def)

lemma probe_running_ops [simp]:
  "pbRunning (probe_stop p) = pbRunning p" "pbRunning (probe_schedule r p) = pbRunning p"
  "pbTimer (probe_stop p) = None"
  "\<not> pbRunning (probe_finish p)"
  by (simp_all add: probe_stop_def probe_schedule_def probe_finish_def Let_def)

lemma probe_begin_running:
  "snd (probe_begin c g p) \<Longrightarrow> \<not> pbRunning p \<and> pbRunning (fst (probe_begin c g p)) \<and> \<not> c"
  "\<not> snd (probe_begin c g p) \<Longrightarrow> fst (probe_begin c g p) = p"
  by (auto simp: probe_begin_def split: if_splits)

lemma probe_run_now_running:
  "snd (probe_run_now c p) \<longleftrightarrow> \<not> c \<and> \<not> pbRunning p"
  "pbRunning (fst (probe_run_now c p)) \<longleftrightarrow> pbRunning p \<or> \<not> c"
  by (simp_all add: probe_run_now_def probe_begin_def probe_stop_def Let_def)

lemma probe_fire_running:
  "probe_ok p \<Longrightarrow> pbTimer p = Some (g, r) \<Longrightarrow>
     snd (probe_fire c p) = (if c \<or> pbRunning p then None else Some r)"
  "pbRunning (fst (probe_fire c p)) \<longleftrightarrow> pbRunning p \<or> snd (probe_fire c p) \<noteq> None"
  by (simp add: probe_fire_cases probe_ok_def, cases "pbTimer p", auto simp: probe_fire_cases split: if_splits)

text \<open>A timer that is armed is never wasted. Whatever scheduling, stopping and checking went
  before, when the timer of an open machine fires while no check is under way, the check starts, for
  the reason it was scheduled for, and afterwards no second one can start until it has finished.\<close>

theorem probe_timer_fires:
  assumes "probe_ok p" and "pbTimer p = Some (g, r)" and "\<not> pbRunning p"
  shows "snd (probe_fire False p) = Some r \<and> probe_ok (fst (probe_fire False p)) \<and>
    \<not> snd (probe_run_now c (fst (probe_fire False p))) \<and>
    \<not> snd (probe_begin c g' (fst (probe_fire False p)))"
  using assms
  by (auto simp: probe_fire_running probe_ok_ops probe_run_now_running probe_begin_def)

theorem probe_timer_fires_witness:
  "snd (probe_fire False (probe_schedule ManualRefresh (probe_stop (probe_schedule PageVisible new_probe))))
     = Some ManualRefresh"
proof -
  let ?p = "probe_schedule ManualRefresh (probe_stop (probe_schedule PageVisible new_probe))"
  have "probe_ok ?p" by (intro probe_ok_ops)
  moreover have "pbTimer ?p = Some (5, ManualRefresh)" "\<not> pbRunning ?p"
    by (simp_all add: probe_schedule_def probe_stop_def new_probe_def Let_def)
  ultimately show ?thesis using probe_timer_fires by blast
qed

end
