(* ===== verification/TaskMachine.thy ===== *)
theory TaskMachine
  imports TaskLifecycle PendingChunks TaskRecovery RuntimeProbe
begin

text \<open>
  The class \<open>TaskStateMachine\<close> of \<open>packages/chat-core/src/task-state/TaskStateMachine.ts\<close>. Its private
  fields are the record \<open>machine\<close>; a method is a function on it. JavaScript runs one handler at a
  time up to its next \<open>await\<close>, so an asynchronous method is cut at its awaits: what is still to do
  is a \<open>thread\<close> of the machine, and the answer that wakes it is a step of its own. The calls to
  \<open>deps\<close> are recorded in order in \<open>mcEffects\<close>; what they answer is up to the environment.
  Listeners are outside the model; \<open>notifyListeners\<close> is what it does to the machine itself.
\<close>

record join_response =
  jrError :: "string option"
  jrSubtasks :: "TaskDetailSubtask list option"
  jrStreaming :: "StreamingRecoveryPayload option"

datatype join_outcome = JoinAnswered join_response | JoinThrew string

datatype pull_outcome = PullNothing | PullServer TaskRuntimeVerifyResult | PullThrew

text \<open>The flag of a thread says that the probe's check waits for it.\<close>

datatype thread =
    AwaitJoin nat RecoverEvent bool
  | AwaitTail bool
  | AwaitPull TaskRecoveryReason
  | AwaitDetail
  | ProbeFinally

datatype effect =
    JoinTask int RecoverJoinOptions nat
  | LeaveTask int
  | EnsureConnected
  | PullRuntime int
  | PullTaskDetail int

record pending_options =
  poResumeFromCursor :: "int option"
  poActiveStreamSubtaskId :: "int option"
  poSyncAfterMessageId :: "int option"

record machine =
  mcState :: TaskMachineInternalState
  mcPendingRecovery :: bool
  mcPendingReason :: "TaskRecoveryReason option"
  mcPendingOptions :: "pending_options option"
  mcLastRecoveryTime :: int
  mcSyncOptions :: SyncOptions
  mcClosed :: bool
  mcRecoveryVersion :: nat
  mcProbe :: probe
  mcPendingChunks :: "PendingChunkEvent list"
  mcHasPull :: bool
  mcHasDetail :: bool
  mcThreads :: "thread list"
  mcEffects :: "effect list"

definition RUNTIME_CONSISTENCY_GRACE_MS :: int where
  "RUNTIME_CONSISTENCY_GRACE_MS = 3000"

definition recoveryDebounceMs :: int where
  "recoveryDebounceMs = 1000"

text \<open>The constructor; whether \<open>deps\<close> has its optional actions is fixed then.\<close>

definition new_machine :: "int \<Rightarrow> bool \<Rightarrow> bool \<Rightarrow> machine" where
  "new_machine taskId hasPull hasDetail = \<lparr>mcState = initial_state taskId, mcPendingRecovery = False,
     mcPendingReason = None, mcPendingOptions = None, mcLastRecoveryTime = 0,
     mcSyncOptions = \<lparr>soTeamName = None, soIsGroupChat = None, soCurrentUserId = None,
       soCurrentUserName = None, soForceClean = None\<rparr>,
     mcClosed = False, mcRecoveryVersion = 0, mcProbe = new_probe, mcPendingChunks = [],
     mcHasPull = hasPull, mcHasDetail = hasDetail, mcThreads = [], mcEffects = []\<rparr>"

definition call :: "effect \<Rightarrow> machine \<Rightarrow> machine" where
  "call x m = m\<lparr>mcEffects := mcEffects m @ [x]\<rparr>"

definition spawn :: "thread \<Rightarrow> machine \<Rightarrow> machine" where
  "spawn t m = m\<lparr>mcThreads := mcThreads m @ [t]\<rparr>"

definition on_state ::
    "(TaskMachineInternalState \<Rightarrow> TaskMachineInternalState) \<Rightarrow> machine \<Rightarrow> machine" where
  "on_state f m = m\<lparr>mcState := f (mcState m)\<rparr>"

subsection \<open>Probe and listeners\<close>

definition shouldProbeRuntimeInstability :: "machine \<Rightarrow> bool" where
  "shouldProbeRuntimeInstability m =
     (let s = mcState m; rt = sRuntime s;
          waitingForStream = (rtTaskStatus rt = Some RUNNING \<and> rtActiveStreamSubtaskId rt = None
            \<and> \<not> confirmed_no_stream rt);
          cancelPending = (sIsStopping s \<and> rtActiveStreamSubtaskId rt \<noteq> None
            \<and> \<not> isTerminalTaskStatus (rtTaskStatus rt))
      in \<not> recovery_status (sStatus s) \<and> (waitingForStream \<or> cancelPending))"

definition syncRuntimeStabilityProbe :: "machine \<Rightarrow> machine" where
  "syncRuntimeStabilityProbe m =
     (if mcClosed m \<or> \<not> mcHasPull m then m\<lparr>mcProbe := probe_stop (mcProbe m)\<rparr>
      else if shouldProbeRuntimeInstability m
        then m\<lparr>mcProbe := probe_schedule RuntimeInstabilityProbe (mcProbe m)\<rparr>
      else m\<lparr>mcProbe := probe_stop (mcProbe m)\<rparr>)"

definition notifyListeners :: "machine \<Rightarrow> machine" where
  "notifyListeners m = syncRuntimeStabilityProbe m"

subsection \<open>Moves of the recovery\<close>

definition enterWaitingSocket ::
    "TaskRecoveryReason option \<Rightarrow> TaskMachineInternalState \<Rightarrow> TaskMachineInternalState" where
  "enterWaitingSocket reason s =
     with_runtime ((sRuntime s)\<lparr>rtPhase := PhSyncing, rtRecoveryReason := reason,
         rtRecoveryError := Some ''socket-disconnected''\<rparr>)
       (s\<lparr>sStatus := StWaitingSocket, sError := None\<rparr>)"

definition enterJoining ::
    "TaskRecoveryReason option \<Rightarrow> TaskMachineInternalState \<Rightarrow> TaskMachineInternalState" where
  "enterJoining reason s =
     with_runtime ((sRuntime s)\<lparr>rtPhase := PhSyncing, rtRecoveryReason := reason,
         rtRecoveryError := None\<rparr>)
       (s\<lparr>sStatus := StJoining, sError := None\<rparr>)"

definition enterSyncing :: "TaskMachineInternalState \<Rightarrow> TaskMachineInternalState" where
  "enterSyncing s =
     with_runtime ((sRuntime s)\<lparr>rtJoinedRoom := True, rtRecoveryError := None\<rparr>)
       (s\<lparr>sStatus := StSyncing\<rparr>)"

definition enterRecoveryError :: "string \<Rightarrow> TaskMachineInternalState \<Rightarrow> TaskMachineInternalState" where
  "enterRecoveryError error s =
     (if \<not> recovery_status (sStatus s) then s
      else with_runtime ((sRuntime s)\<lparr>rtRecoveryError := Some error\<rparr>)
        (s\<lparr>sStatus := StError, sError := Some error\<rparr>))"

definition applySyncCompletion ::
    "env \<Rightarrow> SyncCompletionEvent \<Rightarrow> TaskMachineInternalState \<Rightarrow> TaskMachineInternalState" where
  "applySyncCompletion e completion s =
     (if sStatus s \<noteq> StSyncing then s
      else let rt = sRuntime s in
        case completion of
          SyncDone syncUpdatedAt \<Rightarrow>
            with_runtime (rt\<lparr>rtPhase := getRuntimePhaseForTaskStatus (rtTaskStatus rt) False,
                rtActiveStreamSubtaskId := None, rtActiveStreamStartedAt := None,
                rtActiveStreamLastActivityAt := None, rtLocalStreamCursor := 0,
                rtLastSyncedAt := Some (now e),
                rtMessagesSyncedUpdatedAt := coalesce syncUpdatedAt (rtMessagesSyncedUpdatedAt rt),
                rtServerConfirmedNoStream := Some True\<rparr>)
              (s\<lparr>sStatus := StReady, sIsStopping := False\<rparr>)
        | SyncStreaming subtaskId cursor startedAt lastActivityAt syncUpdatedAt \<Rightarrow>
            with_runtime (rt\<lparr>rtPhase := getRuntimePhaseForTaskStatus (rtTaskStatus rt) True,
                rtActiveStreamSubtaskId := Some subtaskId, rtActiveStreamStartedAt := startedAt,
                rtActiveStreamLastActivityAt := lastActivityAt, rtLocalStreamCursor := cursor,
                rtLocalLastChunkAt := Some (now e), rtLastSyncedAt := Some (now e),
                rtMessagesSyncedUpdatedAt := coalesce syncUpdatedAt (rtMessagesSyncedUpdatedAt rt),
                rtServerConfirmedNoStream := Some False\<rparr>)
              (s\<lparr>sStatus := StStreaming, sIsStopping := False\<rparr>))"

definition clearLocalStream :: "bool option \<Rightarrow> TaskMachineInternalState \<Rightarrow> TaskMachineInternalState" where
  "clearLocalStream serverConfirmedNoStream s =
     (let rt = sRuntime s
      in with_runtime (rt\<lparr>rtPhase := getRuntimePhaseForTaskStatus (rtTaskStatus rt) False,
             rtActiveStreamSubtaskId := None, rtActiveStreamStartedAt := None,
             rtActiveStreamLastActivityAt := None, rtLocalStreamCursor := 0,
             rtServerConfirmedNoStream :=
               coalesce serverConfirmedNoStream (rtServerConfirmedNoStream rt)\<rparr>)
           (s\<lparr>sStatus := StReady, sIsStopping := False\<rparr>))"

definition recordRuntimeVerification ::
    "env \<Rightarrow> TaskRuntimeVerifyResult \<Rightarrow> TaskMachineInternalState \<Rightarrow> TaskMachineInternalState" where
  "recordRuntimeVerification e server s =
     with_runtime ((sRuntime s)\<lparr>rtLastVerifiedAt := Some (now e),
       rtLastVerifiedServerCursor := map_option asCursor (vActiveStream server)\<rparr>) s"

subsection \<open>What to ask the server for\<close>

definition is_placeholder_block :: "MessageBlock \<Rightarrow> bool" where
  "is_placeholder_block b \<longleftrightarrow> (blk_type b = Some TVideo \<or> blk_type b = Some TImage)
     \<and> bIsPlaceholder (bHead b) = Some True"

definition still_changing :: "UnifiedMessage \<Rightarrow> bool" where
  "still_changing message \<longleftrightarrow> mType message = MtAi \<and> mMessageId message \<noteq> None \<and>
     (mStatus message = MsStreaming
      \<or> list_ex is_placeholder_block (the_or [] (Option.bind (mResult message) rBlocks)))"

definition active_message :: "env \<Rightarrow> TaskMachineInternalState \<Rightarrow> int option \<Rightarrow> UnifiedMessage option" where
  "active_message e s subtaskId =
     (case subtaskId of
        Some i \<Rightarrow> jm_get (sMessages s) (ai_key e i)
      | None \<Rightarrow> (case sort_key (\<lambda>m. the_or 0 (mMessageId m))
                  (filter still_changing (map snd (sMessages s))) of
                 [] \<Rightarrow> None | m # _ \<Rightarrow> Some m))"

definition getSyncAfterMessageIdBeforeSubtask ::
    "env \<Rightarrow> TaskMachineInternalState \<Rightarrow> int option \<Rightarrow> int option" where
  "getSyncAfterMessageIdBeforeSubtask e s subtaskId =
     (case Option.bind (active_message e s subtaskId) mMessageId of
        None \<Rightarrow> None
      | Some activeMessageId \<Rightarrow>
          foldl later_id None (map (\<lambda>(_, message). case mMessageId message of
              None \<Rightarrow> None | Some i \<Rightarrow> if activeMessageId \<le> i then None else Some i) (sMessages s)))"

definition shouldJoinOrResume ::
    "env \<Rightarrow> TaskMachineInternalState \<Rightarrow> TaskRuntimeVerifyResult \<Rightarrow> TaskRecoveryReason \<Rightarrow> bool" where
  "shouldJoinOrResume e s server reason =
     (let rt = sRuntime s; serverUpdatedAt = vStatusUpdatedAt server
      in if reason = WebsocketReconnect then True
         else if opt_truthy truthy_text serverUpdatedAt \<and> rtMessagesSyncedUpdatedAt rt \<noteq> serverUpdatedAt
           then True
         else if \<not> isActiveExecutionTaskStatus (Some (vTaskStatus server)) then False
         else (case vActiveStream server of
             None \<Rightarrow> \<not> rtJoinedRoom rt
           | Some active \<Rightarrow>
               if \<not> rtJoinedRoom rt then True
               else if rtActiveStreamSubtaskId rt \<noteq> Some (asSubtaskId active) then True
               else
                 let serverCursor = asCursor active;
                     previousServerCursor = the_or serverCursor (rtLastVerifiedServerCursor rt);
                     localLastChunkAt = the_or 0 (rtLocalLastChunkAt rt);
                     serverIsProgressing = previousServerCursor < serverCursor;
                     localIsStalled = 10000 < now e - localLastChunkAt
                 in rtLocalStreamCursor rt < serverCursor \<and> serverIsProgressing \<and> localIsStalled))"

subsection \<open>Recovery\<close>

definition applyTaskLifecycleStatus ::
    "env \<Rightarrow> ApiTaskStatus \<Rightarrow> string option \<Rightarrow> machine \<Rightarrow> machine" where
  "applyTaskLifecycleStatus e taskStatus updatedAt m =
     (let result = applyTaskLifecycleStatusToState e (mcState m) taskStatus updatedAt
      in m\<lparr>mcState := lcState result,
           mcPendingChunks := (if lcClearPendingChunks result then [] else mcPendingChunks m)\<rparr>)"

definition queue_recovery :: "RecoverEvent \<Rightarrow> machine \<Rightarrow> machine" where
  "queue_recovery event m = m\<lparr>mcPendingRecovery := True, mcPendingReason := reReason event,
     mcPendingOptions := Some \<lparr>poResumeFromCursor = reResumeFromCursor event,
       poActiveStreamSubtaskId = reActiveStreamSubtaskId event,
       poSyncAfterMessageId = reSyncAfterMessageId event\<rparr>\<rparr>"

definition unqueue_recovery :: "machine \<Rightarrow> machine" where
  "unqueue_recovery m =
     m\<lparr>mcPendingRecovery := False, mcPendingReason := None, mcPendingOptions := None\<rparr>"

text \<open>The part up to the join, or to the return.\<close>

definition recoverToStableState :: "env \<Rightarrow> RecoverEvent \<Rightarrow> bool \<Rightarrow> machine \<Rightarrow> machine" where
  "recoverToStableState e event pb m =
     (if sStatus (mcState m) = StJoining \<or> sStatus (mcState m) = StSyncing then
        spawn (AwaitTail pb) (queue_recovery event m)
      else if \<not> connected e then
        spawn (AwaitTail pb)
          (notifyListeners (on_state (enterWaitingSocket (reReason event)) (queue_recovery event m)))
      else if reForce event \<noteq> Some True \<and> now e - mcLastRecoveryTime m < recoveryDebounceMs then
        spawn (AwaitTail pb) m
      else
        let recoveryVersion = mcRecoveryVersion m + 1;
            m1 = notifyListeners (on_state (enterJoining (reReason event))
              ((unqueue_recovery m)\<lparr>mcLastRecoveryTime := now e, mcRecoveryVersion := recoveryVersion\<rparr>));
            joinOptions = fst (buildRecoverJoinOptions (mcState m1) event)
        in spawn (AwaitJoin recoveryVersion event pb)
             (call (JoinTask (sTaskId (mcState m1)) joinOptions recoveryVersion) m1))"

definition pending_recover_event :: "machine \<Rightarrow> RecoverEvent" where
  "pending_recover_event m =
     \<lparr>reForce = Some True, reReason = mcPendingReason m,
      reResumeFromCursor = Option.bind (mcPendingOptions m) poResumeFromCursor,
      reActiveStreamSubtaskId = Option.bind (mcPendingOptions m) poActiveStreamSubtaskId,
      reSyncAfterMessageId = Option.bind (mcPendingOptions m) poSyncAfterMessageId,
      reSyncUpdatedAt = None\<rparr>"

text \<open>The end of \<open>dispatch\<close>: notify, then start the recovery that was queued.\<close>

definition dispatch_tail :: "env \<Rightarrow> bool \<Rightarrow> machine \<Rightarrow> machine" where
  "dispatch_tail e pb m =
     (let m1 = notifyListeners m; st = sStatus (mcState m1)
      in if mcPendingRecovery m1 \<and> (st = StReady \<or> st = StStreaming \<or> st = StError)
         then recoverToStableState e (pending_recover_event m1) pb (unqueue_recovery m1)
         else if pb then spawn ProbeFinally m1 else m1)"

definition leave_state :: "machine \<Rightarrow> machine" where
  "leave_state m = (unqueue_recovery (m\<lparr>mcState := initial_state (sTaskId (mcState m))\<rparr>))
     \<lparr>mcPendingChunks := []\<rparr>"

definition dispatch :: "env \<Rightarrow> Event \<Rightarrow> machine \<Rightarrow> machine" where
  "dispatch e event m = (case event of
       RECOVER ev \<Rightarrow> recoverToStableState e ev False m
     | CHAT_START ev \<Rightarrow> dispatch_tail e False (on_state (\<lambda>s. reduceChatStartEvent e s ev) m)
     | CHAT_CHUNK ev \<Rightarrow>
         (let result = reduceChatChunkEvent e (mcState m) ev (mcPendingChunks m);
              m1 = m\<lparr>mcState := ccState result, mcPendingChunks := ccPendingChunks result\<rparr>
          in dispatch_tail e False (if ccNotify result then notifyListeners m1 else m1))
     | CHAT_DONE ev \<Rightarrow> dispatch_tail e False (on_state (\<lambda>s. reduceChatDoneEvent e s ev) m)
     | CHAT_BLOCK_UPDATED i b \<Rightarrow>
         dispatch_tail e False (on_state (\<lambda>s. reduceChatBlockUpdatedEvent e s i b) m)
     | CHAT_ERROR ev \<Rightarrow> dispatch_tail e False (on_state (\<lambda>s. reduceChatErrorEvent e s ev) m)
     | CHAT_CANCELLED i \<Rightarrow> dispatch_tail e False (on_state (\<lambda>s. reduceChatCancelledEvent e s i) m)
     | SEND_ACCEPTED t \<Rightarrow> dispatch_tail e False (on_state (\<lambda>s. reduceSendAcceptedEvent s t) m)
     | TASK_STATUS_RECEIVED t u \<Rightarrow> dispatch_tail e False (applyTaskLifecycleStatus e t u m)
     | TASK_DETAIL_SYNCED t u \<Rightarrow> dispatch_tail e False (applyTaskLifecycleStatus e t u m)
     | LEAVE \<Rightarrow> dispatch_tail e False (leave_state m))"

definition applyPendingChunks :: "env \<Rightarrow> machine \<Rightarrow> machine" where
  "applyPendingChunks e m =
     (let result = applyPendingChunksToState e (mcState m) (mcPendingChunks m);
          m1 = m\<lparr>mcState := apState result, mcPendingChunks := apPendingChunks result\<rparr>
      in if apNotify result then notifyListeners m1 else m1)"

definition syncRecoveredMessages ::
    "env \<Rightarrow> TaskDetailSubtask list option \<Rightarrow> string option \<Rightarrow> StreamingRecoveryPayload option \<Rightarrow>
     machine \<Rightarrow> machine" where
  "syncRecoveredMessages e subtasks syncUpdatedAt streamRecovery m =
     (let (state, completion) = syncMessagesFromJoinPayload e (mcState m) subtasks (mcSyncOptions m)
            syncUpdatedAt streamRecovery
      in applyPendingChunks e (m\<lparr>mcState := applySyncCompletion e completion state\<rparr>))"

text \<open>The part of \<open>recoverToStableState\<close> after the join; it returns to the end of \<open>dispatch\<close>.\<close>

definition join_returned :: "env \<Rightarrow> nat \<Rightarrow> RecoverEvent \<Rightarrow> join_outcome \<Rightarrow> machine \<Rightarrow> machine" where
  "join_returned e recoveryVersion event outcome m =
     (let superseded = (mcClosed m \<or> recoveryVersion \<noteq> mcRecoveryVersion m)
      in case outcome of
           JoinThrew errorMsg \<Rightarrow> (if superseded then m else on_state (enterRecoveryError errorMsg) m)
         | JoinAnswered response \<Rightarrow>
             if superseded then call (LeaveTask (sTaskId (mcState m))) m
             else if opt_truthy truthy_text (jrError response)
               then on_state (enterRecoveryError (the_or [] (jrError response))) m
             else
               let m1 = notifyListeners (on_state enterSyncing m)
               in syncRecoveredMessages e (jrSubtasks response)
                    (coalesce (reSyncUpdatedAt event) (rtLastStatusUpdatedAt (sRuntime (mcState m1))))
                    (jrStreaming response) m1)"

subsection \<open>Checking the runtime\<close>

definition joinOrResumeFromRuntime ::
    "env \<Rightarrow> TaskRuntimeVerifyResult \<Rightarrow> TaskRecoveryReason \<Rightarrow> int option \<Rightarrow> bool \<Rightarrow> machine \<Rightarrow> machine" where
  "joinOrResumeFromRuntime e server reason syncAfterMessageId pb m =
     recoverToStableState e
       \<lparr>reForce = Some True, reReason = Some reason,
        reResumeFromCursor = (case vActiveStream server of
            Some _ \<Rightarrow> Some (rtLocalStreamCursor (sRuntime (mcState m))) | None \<Rightarrow> None),
        reActiveStreamSubtaskId = map_option asSubtaskId (vActiveStream server),
        reSyncAfterMessageId = syncAfterMessageId,
        reSyncUpdatedAt = vStatusUpdatedAt server\<rparr> pb m"

text \<open>The caller's continuation, when the method returns without waiting.\<close>

definition returns :: "bool \<Rightarrow> machine \<Rightarrow> machine" where
  "returns pb m = (if pb then spawn ProbeFinally m else m)"

definition reconcileRuntime ::
    "env \<Rightarrow> TaskRuntimeVerifyResult \<Rightarrow> TaskRecoveryReason \<Rightarrow> bool \<Rightarrow> machine \<Rightarrow> machine" where
  "reconcileRuntime e server reason pb m =
     (let syncAfterMessageId = (case vActiveStream server of
            Some _ \<Rightarrow> None
          | None \<Rightarrow> getSyncAfterMessageIdBeforeSubtask e (mcState m)
              (rtActiveStreamSubtaskId (sRuntime (mcState m))));
          m1 = applyTaskLifecycleStatus e (vTaskStatus server) (vStatusUpdatedAt server) m;
          join = shouldJoinOrResume e (mcState m1) server reason;
          m2 = on_state (recordRuntimeVerification e server) m1
      in if join then
           (if \<not> connected e then
              returns pb (syncRuntimeStabilityProbe (notifyListeners
                (on_state (enterWaitingSocket (Some reason)) (call EnsureConnected m2))))
            else joinOrResumeFromRuntime e server reason syncAfterMessageId pb m2)
         else
           returns pb (notifyListeners
             (if vActiveStream server = None \<and> isActiveExecutionTaskStatus (Some (vTaskStatus server))
              then on_state (\<lambda>s. clearLocalStream (Some True)
                (finalizeStaleStreamingMessagesForNoStream e s None)) m2
              else m2)))"

text \<open>\<open>checkHealth\<close> up to its await; without the action it throws, which ends the check.\<close>

definition checkHealth :: "TaskRecoveryReason \<Rightarrow> machine \<Rightarrow> machine" where
  "checkHealth reason m =
     (if \<not> mcHasPull m then spawn ProbeFinally m
      else spawn (AwaitPull reason) (call (PullRuntime (sTaskId (mcState m))) m))"

definition requestRuntimeCheck :: "TaskRecoveryReason \<Rightarrow> machine \<Rightarrow> machine" where
  "requestRuntimeCheck reason m =
     (if mcClosed m \<or> \<not> mcHasPull m then syncRuntimeStabilityProbe m
      else
        let (p, started) = probe_run_now (mcClosed m) (mcProbe m);
            m1 = m\<lparr>mcProbe := p\<rparr>
        in if started then checkHealth reason m1 else m1)"

definition timer_fired :: "machine \<Rightarrow> machine" where
  "timer_fired m =
     (let (p, started) = probe_fire (mcClosed m) (mcProbe m);
          m1 = m\<lparr>mcProbe := p\<rparr>
      in case started of Some reason \<Rightarrow> checkHealth reason m1 | None \<Rightarrow> m1)"

definition pull_returned ::
    "env \<Rightarrow> TaskRecoveryReason \<Rightarrow> pull_outcome \<Rightarrow> machine \<Rightarrow> machine" where
  "pull_returned e reason outcome m = (case outcome of
       PullServer server \<Rightarrow> reconcileRuntime e server reason True m
     | _ \<Rightarrow> spawn ProbeFinally m)"

definition probe_finished :: "machine \<Rightarrow> machine" where
  "probe_finished m = syncRuntimeStabilityProbe (m\<lparr>mcProbe := probe_finish (mcProbe m)\<rparr>)"

subsection \<open>The other methods\<close>

definition loadTask :: "env \<Rightarrow> int \<Rightarrow> ApiTaskStatus \<Rightarrow> string option \<Rightarrow> machine \<Rightarrow> machine" where
  "loadTask e taskDetailId status updatedAt m =
     (if taskDetailId \<noteq> sTaskId (mcState m) then m
      else notifyListeners (applyTaskLifecycleStatus e status updatedAt m))"

definition openTask :: "env \<Rightarrow> machine \<Rightarrow> machine" where
  "openTask e m =
     (let m1 = m\<lparr>mcClosed := False\<rparr>;
          m2 = (if mcHasDetail m1
                then spawn AwaitDetail (call (PullTaskDetail (sTaskId (mcState m1))) m1) else m1)
      in dispatch e (RECOVER \<lparr>reForce = Some True, reReason = Some TaskSelected,
           reResumeFromCursor = None, reActiveStreamSubtaskId = None, reSyncAfterMessageId = None,
           reSyncUpdatedAt = None\<rparr>) m2)"

definition closeTask :: "env \<Rightarrow> machine \<Rightarrow> machine" where
  "closeTask e m =
     (let m1 = m\<lparr>mcClosed := True, mcRecoveryVersion := mcRecoveryVersion m + 1,
                 mcProbe := probe_stop (mcProbe m)\<rparr>
      in dispatch e LEAVE (call (LeaveTask (sTaskId (mcState m1))) m1))"

definition renameTaskId :: "int \<Rightarrow> machine \<Rightarrow> machine" where
  "renameTaskId taskId m =
     (if taskId = sTaskId (mcState m) then m
      else notifyListeners (on_state (\<lambda>s. with_runtime ((sRuntime s)\<lparr>rtTaskId := taskId\<rparr>)
        (s\<lparr>sTaskId := taskId\<rparr>)) m))"

definition addUserMessage :: "UnifiedMessage \<Rightarrow> machine \<Rightarrow> machine" where
  "addUserMessage message m =
     notifyListeners (on_state (\<lambda>s. s\<lparr>sMessages := jm_set (mId message) message (sMessages s)\<rparr>) m)"

text \<open>\<open>updates\<close> is a partial message; here it is what spreading it over a message does.\<close>

definition updateUserMessage :: "string \<Rightarrow> (UnifiedMessage \<Rightarrow> UnifiedMessage) \<Rightarrow> machine \<Rightarrow> machine" where
  "updateUserMessage messageId updates m =
     (case jm_get (sMessages (mcState m)) messageId of
        None \<Rightarrow> m
      | Some existingMessage \<Rightarrow>
          notifyListeners (on_state
            (\<lambda>s. s\<lparr>sMessages := jm_set messageId (updates existingMessage) (sMessages s)\<rparr>) m))"

definition edited_message_id :: "int \<Rightarrow> (string, UnifiedMessage) jsmap \<Rightarrow> int option" where
  "edited_message_id editedSubtaskId ms =
     (case List.find (\<lambda>(_, msg). mSubtaskId msg = Some editedSubtaskId) ms of
        Some (_, msg) \<Rightarrow> mMessageId msg | None \<Rightarrow> None)"

definition cleanupMessagesAfterEdit :: "int \<Rightarrow> machine \<Rightarrow> machine" where
  "cleanupMessagesAfterEdit editedSubtaskId m =
     (case edited_message_id editedSubtaskId (sMessages (mcState m)) of
        None \<Rightarrow> m
      | Some editedMessageId \<Rightarrow>
          notifyListeners (on_state (\<lambda>s. s\<lparr>sMessages := filter (\<lambda>(_, msg). case mMessageId msg of
              None \<Rightarrow> True | Some i \<Rightarrow> i < editedMessageId) (sMessages s)\<rparr>) m))"

definition setStopping :: "bool \<Rightarrow> machine \<Rightarrow> machine" where
  "setStopping isStopping m = notifyListeners (on_state (\<lambda>s. s\<lparr>sIsStopping := isStopping\<rparr>) m)"

definition setSyncOptions :: "SyncOptions \<Rightarrow> machine \<Rightarrow> machine" where
  "setSyncOptions options m = m\<lparr>mcSyncOptions := options\<rparr>"

end
