(* ===== verification/TaskMachineRuns.thy ===== *)
theory TaskMachineRuns
  imports TaskMachine
begin

text \<open>
  The runs of a task machine: every public method, every event and every answer of the environment is
  a step, in any order. The invariants hold along all of them.
\<close>

datatype action =
    DoEvent Event
  | DoOpen
  | DoClose
  | DoLoad int ApiTaskStatus "string option"
  | DoCheck TaskRecoveryReason
  | DoReconcile TaskRuntimeVerifyResult TaskRecoveryReason
  | DoRename int
  | DoAddUser UnifiedMessage
  | DoUpdateUser string "UnifiedMessage \<Rightarrow> UnifiedMessage"
  | DoCleanup int
  | DoSetStopping bool
  | DoSetOptions SyncOptions
  | DoRefreshProbe
  | FireTimer
  | JoinReturns nat RecoverEvent bool join_outcome
  | PullReturns TaskRecoveryReason pull_outcome
  | DetailReturns "(int \<times> ApiTaskStatus \<times> string option) option"
  | RunTail bool
  | RunFinally

definition finish_thread :: "thread \<Rightarrow> machine \<Rightarrow> machine" where
  "finish_thread t m = m\<lparr>mcThreads := remove1 t (mcThreads m)\<rparr>"

text \<open>The thread an answer wakes.\<close>

fun woken :: "action \<Rightarrow> thread option" where
  "woken (JoinReturns v ev pb out) = Some (AwaitJoin v ev pb)"
| "woken (PullReturns r out) = Some (AwaitPull r)"
| "woken (DetailReturns d) = Some AwaitDetail"
| "woken (RunTail pb) = Some (AwaitTail pb)"
| "woken RunFinally = Some ProbeFinally"
| "woken _ = None"

fun act :: "env \<Rightarrow> action \<Rightarrow> machine \<Rightarrow> machine" where
  "act e (DoEvent ev) m = dispatch e ev m"
| "act e DoOpen m = openTask e m"
| "act e DoClose m = closeTask e m"
| "act e (DoLoad i t u) m = loadTask e i t u m"
| "act e (DoCheck r) m = requestRuntimeCheck r m"
| "act e (DoReconcile server r) m = reconcileRuntime e server r False m"
| "act e (DoRename i) m = renameTaskId i m"
| "act e (DoAddUser msg) m = addUserMessage msg m"
| "act e (DoUpdateUser i f) m = updateUserMessage i f m"
| "act e (DoCleanup i) m = cleanupMessagesAfterEdit i m"
| "act e (DoSetStopping b) m = setStopping b m"
| "act e (DoSetOptions o') m = setSyncOptions o' m"
| "act e DoRefreshProbe m = syncRuntimeStabilityProbe m"
| "act e FireTimer m = timer_fired m"
| "act e (JoinReturns v ev pb out) m =
     spawn (AwaitTail pb) (join_returned e v ev out (finish_thread (AwaitJoin v ev pb) m))"
| "act e (PullReturns r out) m = pull_returned e r out (finish_thread (AwaitPull r) m)"
| "act e (DetailReturns d) m = (case d of
     None \<Rightarrow> finish_thread AwaitDetail m
   | Some (i, t, u) \<Rightarrow> loadTask e i t u (finish_thread AwaitDetail m))"
| "act e (RunTail pb) m = dispatch_tail e pb (finish_thread (AwaitTail pb) m)"
| "act e RunFinally m = probe_finished (finish_thread ProbeFinally m)"

text \<open>
  Enabled: an answer needs its waiting thread. The two methods that take a message from the caller
  take one that is filed under its own key.
\<close>

fun caller_ok :: "action \<Rightarrow> bool" where
  "caller_ok (DoAddUser msg) \<longleftrightarrow> msg_ok (mId msg) msg"
| "caller_ok (DoUpdateUser i f) \<longleftrightarrow> (\<forall>m. msg_ok i m \<longrightarrow> msg_ok i (f m))"
| "caller_ok _ \<longleftrightarrow> True"

definition awaited :: "action \<Rightarrow> machine \<Rightarrow> bool" where
  "awaited a m = (case woken a of None \<Rightarrow> True | Some t \<Rightarrow> t \<in> set (mcThreads m))"

definition enabled :: "action \<Rightarrow> machine \<Rightarrow> bool" where
  "enabled a m \<longleftrightarrow> awaited a m \<and> caller_ok a"

inductive task_step :: "machine \<Rightarrow> action \<Rightarrow> machine \<Rightarrow> bool" where
  task_step: "enabled a m \<Longrightarrow> task_step m a (act e a m)"

inductive task_reach :: "machine \<Rightarrow> machine \<Rightarrow> bool" for m0 where
  start: "task_reach m0 m0"
| step: "task_reach m0 m \<Longrightarrow> task_step m a m' \<Longrightarrow> task_reach m0 m'"

text \<open>A given sequence of actions, \<open>None\<close> when an answer is not awaited; it computes.\<close>

fun task_run :: "env \<Rightarrow> action list \<Rightarrow> machine \<Rightarrow> machine option" where
  "task_run e [] m = Some m"
| "task_run e (a # as) m = (if awaited a m then task_run e as (act e a m) else None)"

lemma task_reach_trans: "task_reach m1 m2 \<Longrightarrow> task_reach m0 m1 \<Longrightarrow> task_reach m0 m2"
  by (induction rule: task_reach.induct) (auto intro: step)

lemma task_run_reach: "task_run e as m = Some m' \<Longrightarrow> list_all caller_ok as \<Longrightarrow> task_reach m m'"
proof (induction e as m rule: task_run.induct)
  case (1 e m)
  then show ?case by (simp add: start)
next
  case (2 e a as m)
  from 2 have "task_step m a (act e a m)" by (auto simp: enabled_def intro!: task_step split: if_splits)
  moreover from this have "task_reach m (act e a m)" using start step by blast
  moreover have "task_reach (act e a m) m'" using 2 by (auto split: if_splits)
  ultimately show ?case using task_reach_trans by blast
qed

inductive_cases task_stepE: "task_step m a m'"
inductive_simps task_step_iff: "task_step m a m'"

subsection \<open>What the building blocks leave alone\<close>

lemma spawn_simps [simp]:
  "mcState (spawn t m) = mcState m" "mcThreads (spawn t m) = mcThreads m @ [t]"
  "mcProbe (spawn t m) = mcProbe m" "mcClosed (spawn t m) = mcClosed m"
  "mcHasPull (spawn t m) = mcHasPull m" "mcRecoveryVersion (spawn t m) = mcRecoveryVersion m"
  "mcPendingChunks (spawn t m) = mcPendingChunks m" "mcEffects (spawn t m) = mcEffects m"
  "mcPendingRecovery (spawn t m) = mcPendingRecovery m"
  by (simp_all add: spawn_def)

lemma call_simps [simp]:
  "mcState (call x m) = mcState m" "mcThreads (call x m) = mcThreads m"
  "mcProbe (call x m) = mcProbe m" "mcClosed (call x m) = mcClosed m"
  "mcHasPull (call x m) = mcHasPull m" "mcRecoveryVersion (call x m) = mcRecoveryVersion m"
  "mcPendingChunks (call x m) = mcPendingChunks m" "mcEffects (call x m) = mcEffects m @ [x]"
  "mcPendingRecovery (call x m) = mcPendingRecovery m"
  by (simp_all add: call_def)

lemma on_state_simps [simp]:
  "mcState (on_state f m) = f (mcState m)" "mcThreads (on_state f m) = mcThreads m"
  "mcProbe (on_state f m) = mcProbe m" "mcClosed (on_state f m) = mcClosed m"
  "mcHasPull (on_state f m) = mcHasPull m" "mcRecoveryVersion (on_state f m) = mcRecoveryVersion m"
  "mcPendingChunks (on_state f m) = mcPendingChunks m" "mcEffects (on_state f m) = mcEffects m"
  "mcPendingRecovery (on_state f m) = mcPendingRecovery m"
  by (simp_all add: on_state_def)

lemma sync_probe_simps [simp]:
  "mcState (syncRuntimeStabilityProbe m) = mcState m"
  "mcThreads (syncRuntimeStabilityProbe m) = mcThreads m"
  "mcClosed (syncRuntimeStabilityProbe m) = mcClosed m"
  "mcHasPull (syncRuntimeStabilityProbe m) = mcHasPull m"
  "mcRecoveryVersion (syncRuntimeStabilityProbe m) = mcRecoveryVersion m"
  "mcPendingChunks (syncRuntimeStabilityProbe m) = mcPendingChunks m"
  "mcEffects (syncRuntimeStabilityProbe m) = mcEffects m"
  "mcPendingRecovery (syncRuntimeStabilityProbe m) = mcPendingRecovery m"
  "mcPendingReason (syncRuntimeStabilityProbe m) = mcPendingReason m"
  "mcPendingOptions (syncRuntimeStabilityProbe m) = mcPendingOptions m"
  "pbRunning (mcProbe (syncRuntimeStabilityProbe m)) = pbRunning (mcProbe m)"
  by (simp_all add: syncRuntimeStabilityProbe_def)

lemma notify_simps [simp]: "notifyListeners = syncRuntimeStabilityProbe"
  by (rule ext) (simp add: notifyListeners_def)

lemma queue_simps [simp]:
  "mcState (queue_recovery ev m) = mcState m" "mcThreads (queue_recovery ev m) = mcThreads m"
  "mcProbe (queue_recovery ev m) = mcProbe m" "mcClosed (queue_recovery ev m) = mcClosed m"
  "mcHasPull (queue_recovery ev m) = mcHasPull m"
  "mcRecoveryVersion (queue_recovery ev m) = mcRecoveryVersion m"
  "mcEffects (queue_recovery ev m) = mcEffects m"
  "mcState (unqueue_recovery m) = mcState m" "mcThreads (unqueue_recovery m) = mcThreads m"
  "mcProbe (unqueue_recovery m) = mcProbe m" "mcClosed (unqueue_recovery m) = mcClosed m"
  "mcHasPull (unqueue_recovery m) = mcHasPull m"
  "mcRecoveryVersion (unqueue_recovery m) = mcRecoveryVersion m"
  "mcPendingRecovery (unqueue_recovery m) = False" "mcEffects (unqueue_recovery m) = mcEffects m"
  "mcPendingRecovery (queue_recovery ev m) = True"
  by (simp_all add: queue_recovery_def unqueue_recovery_def)

lemma lifecycle_machine_simps [simp]:
  "mcThreads (applyTaskLifecycleStatus e t u m) = mcThreads m"
  "mcProbe (applyTaskLifecycleStatus e t u m) = mcProbe m"
  "mcClosed (applyTaskLifecycleStatus e t u m) = mcClosed m"
  "mcHasPull (applyTaskLifecycleStatus e t u m) = mcHasPull m"
  "mcRecoveryVersion (applyTaskLifecycleStatus e t u m) = mcRecoveryVersion m"
  "mcState (applyTaskLifecycleStatus e t u m) = lcState (applyTaskLifecycleStatusToState e (mcState m) t u)"
  by (simp_all add: applyTaskLifecycleStatus_def Let_def)

lemma finish_thread_simps [simp]:
  "mcState (finish_thread t m) = mcState m" "mcThreads (finish_thread t m) = remove1 t (mcThreads m)"
  "mcProbe (finish_thread t m) = mcProbe m" "mcClosed (finish_thread t m) = mcClosed m"
  "mcHasPull (finish_thread t m) = mcHasPull m"
  "mcRecoveryVersion (finish_thread t m) = mcRecoveryVersion m"
  "mcEffects (finish_thread t m) = mcEffects m"
  "mcPendingChunks (finish_thread t m) = mcPendingChunks m"
  "mcPendingRecovery (finish_thread t m) = mcPendingRecovery m"
  by (simp_all add: finish_thread_def)

subsection \<open>The moves keep the state consistent\<close>

text \<open>The state is consistent and no sync is under way.\<close>

definition settled :: "TaskMachineInternalState \<Rightarrow> bool" where
  "settled s \<longleftrightarrow> state_ok s \<and> sStatus s \<noteq> StSyncing"

lemma settledI: "state_ok s \<Longrightarrow> sStatus s \<noteq> StSyncing \<Longrightarrow> settled s"
  by (simp add: settled_def)

lemma enter_ok [invs]:
  "state_ok s \<Longrightarrow> state_ok (enterWaitingSocket r s)" "state_ok s \<Longrightarrow> state_ok (enterJoining r s)"
  "state_ok s \<Longrightarrow> state_ok (enterSyncing s)" "state_ok s \<Longrightarrow> state_ok (enterRecoveryError x s)"
  "state_ok s \<Longrightarrow> state_ok (clearLocalStream c s)"
  "state_ok s \<Longrightarrow> state_ok (recordRuntimeVerification e sv s)"
  "state_ok s \<Longrightarrow> state_ok (applySyncCompletion e co s)"
  by (auto simp: enterWaitingSocket_def enterJoining_def enterSyncing_def enterRecoveryError_def
      clearLocalStream_def recordRuntimeVerification_def applySyncCompletion_def Let_def state_ok_defs
      split: SyncCompletionEvent.split)

lemma enter_status [simp]:
  "sStatus (enterWaitingSocket r s) = StWaitingSocket" "sStatus (enterJoining r s) = StJoining"
  "sStatus (enterSyncing s) = StSyncing" "sStatus (clearLocalStream c s) = StReady"
  "sStatus (recordRuntimeVerification e sv s) = sStatus s"
  "sStatus (enterRecoveryError x s) = (if recovery_status (sStatus s) then StError else sStatus s)"
  by (simp_all add: enterWaitingSocket_def enterJoining_def enterSyncing_def enterRecoveryError_def
      clearLocalStream_def recordRuntimeVerification_def Let_def)

lemma completion_status:
  "sStatus (applySyncCompletion e co s) = (if sStatus s \<noteq> StSyncing then sStatus s
     else case co of SyncDone _ \<Rightarrow> StReady | _ \<Rightarrow> StStreaming)"
  by (simp add: applySyncCompletion_def Let_def split: SyncCompletionEvent.split)

lemma chat_status_not_syncing:
  "sStatus s \<noteq> StSyncing \<Longrightarrow> sStatus (reduceChatStartEvent e s ev1) \<noteq> StSyncing"
  "sStatus s \<noteq> StSyncing \<Longrightarrow> sStatus (ccState (reduceChatChunkEvent e s ev2 pc)) \<noteq> StSyncing"
  "sStatus s \<noteq> StSyncing \<Longrightarrow> sStatus (reduceChatDoneEvent e s ev3) \<noteq> StSyncing"
  "sStatus s \<noteq> StSyncing \<Longrightarrow> sStatus (reduceChatBlockUpdatedEvent e s i b) \<noteq> StSyncing"
  "sStatus s \<noteq> StSyncing \<Longrightarrow> sStatus (reduceChatErrorEvent e s ev4) \<noteq> StSyncing"
  "sStatus s \<noteq> StSyncing \<Longrightarrow> sStatus (reduceChatCancelledEvent e s i) \<noteq> StSyncing"
  "sStatus (reduceSendAcceptedEvent s t) \<noteq> StSyncing"
  "sStatus s \<noteq> StSyncing \<Longrightarrow> sStatus (lcState (applyTaskLifecycleStatusToState e s t' u)) \<noteq> StSyncing"
  by (simp_all add: reduceChatStartEvent_def reduceChatChunkEvent_def reduceChatDoneEvent_def
      reduceChatBlockUpdatedEvent_def reduceChatErrorEvent_def reduceChatCancelledEvent_def
      reduceSendAcceptedEvent_def applyTaskLifecycleStatusToState_def Let_def split: option.split)

lemma settled_reducers [invs]:
  "settled s \<Longrightarrow> settled (reduceChatStartEvent e s ev1)"
  "settled s \<Longrightarrow> settled (ccState (reduceChatChunkEvent e s ev2 pc))"
  "settled s \<Longrightarrow> settled (reduceChatDoneEvent e s ev3)"
  "settled s \<Longrightarrow> settled (reduceChatBlockUpdatedEvent e s i b)"
  "settled s \<Longrightarrow> settled (reduceChatErrorEvent e s ev4)"
  "settled s \<Longrightarrow> settled (reduceChatCancelledEvent e s i)"
  "settled s \<Longrightarrow> settled (reduceSendAcceptedEvent s t)"
  "settled s \<Longrightarrow> settled (lcState (applyTaskLifecycleStatusToState e s t' u))"
  by (simp_all add: settled_def chat_status_not_syncing chat_ok lifecycle_ok)

lemma settled_moves [invs]:
  "settled s \<Longrightarrow> settled (enterWaitingSocket r s)" "settled s \<Longrightarrow> settled (enterJoining r s)"
  "settled s \<Longrightarrow> settled (enterRecoveryError x s)" "settled s \<Longrightarrow> settled (clearLocalStream c s)"
  "settled s \<Longrightarrow> settled (recordRuntimeVerification e sv s)" "settled (initial_state i)"
  by (simp_all add: settled_def enter_ok initial_state_ok, simp add: initial_state_def)

lemma settled_stale [invs]:
  "settled s \<Longrightarrow> settled (finalizeStaleStreamingMessagesForNoStream e s sks)"
  using same_control_ok [OF finalize_stale_control] finalize_stale_keyed finalize_stale_control [of s e sks]
  by (auto simp: settled_def state_ok_def same_control_def)

subsection \<open>The invariant of a machine\<close>

fun is_probe_thread :: "thread \<Rightarrow> bool" where
  "is_probe_thread (AwaitJoin _ _ pb) = pb"
| "is_probe_thread (AwaitTail pb) = pb"
| "is_probe_thread (AwaitPull _) = True"
| "is_probe_thread AwaitDetail = False"
| "is_probe_thread ProbeFinally = True"

definition probe_threads :: "machine \<Rightarrow> nat" where
  "probe_threads m = length (filter is_probe_thread (mcThreads m))"

definition tail_pending :: "machine \<Rightarrow> bool" where
  "tail_pending m \<longleftrightarrow> (\<exists>pb. AwaitTail pb \<in> set (mcThreads m))"

text \<open>An unstable runtime is being checked, unless checks are off.\<close>

definition watched :: "machine \<Rightarrow> bool" where
  "watched m \<longleftrightarrow> mcClosed m \<or> \<not> mcHasPull m \<or> \<not> shouldProbeRuntimeInstability m \<or> probe_due (mcProbe m)"

text \<open>\<open>carry pb\<close>: the invariant inside a method that the probe's check waits for iff \<open>pb\<close>.\<close>

definition carry :: "bool \<Rightarrow> machine \<Rightarrow> bool" where
  "carry pb m \<longleftrightarrow> settled (mcState m) \<and> probe_ok (mcProbe m) \<and>
     probe_threads m + of_bool pb = of_bool (pbRunning (mcProbe m))"

definition machine_ok :: "machine \<Rightarrow> bool" where
  "machine_ok m \<longleftrightarrow> carry False m \<and> (tail_pending m \<or> watched m)"

lemma watched_sync: "watched (syncRuntimeStabilityProbe m)"
  by (simp add: watched_def shouldProbeRuntimeInstability_def syncRuntimeStabilityProbe_def)

lemma watched_spawn [simp]: "watched (spawn t m) = watched m"
  by (simp add: watched_def shouldProbeRuntimeInstability_def)

lemma watched_call [simp]: "watched (call x m) = watched m"
  by (simp add: watched_def shouldProbeRuntimeInstability_def)

lemma tail_spawn [simp]: "tail_pending (spawn (AwaitTail pb) m)"
  by (auto simp: tail_pending_def)

lemma probe_threads_simps [simp]:
  "probe_threads (spawn t m) = probe_threads m + of_bool (is_probe_thread t)"
  "probe_threads (call x m) = probe_threads m" "probe_threads (on_state f m) = probe_threads m"
  "probe_threads (syncRuntimeStabilityProbe m) = probe_threads m"
  "probe_threads (queue_recovery ev m) = probe_threads m"
  "probe_threads (unqueue_recovery m) = probe_threads m"
  "probe_threads (applyTaskLifecycleStatus e st u m) = probe_threads m"
  by (simp_all add: probe_threads_def)

lemma length_filter_remove1:
  "t \<in> set xs \<Longrightarrow> length (filter P (remove1 t xs)) + of_bool (P t) = length (filter P xs)"
  by (induction xs) auto

lemma carry_finish:
  "machine_ok m \<Longrightarrow> t \<in> set (mcThreads m) \<Longrightarrow> carry (is_probe_thread t) (finish_thread t m)"
  using length_filter_remove1 [of t "mcThreads m" is_probe_thread]
  by (simp add: machine_ok_def carry_def probe_threads_def)

lemma carry_state: "carry pb m \<Longrightarrow> (settled (mcState m) \<Longrightarrow> settled (f (mcState m))) \<Longrightarrow> carry pb (on_state f m)"
  by (simp add: carry_def)

lemma carry_update:
  "carry pb m \<Longrightarrow> settled (mcState m') \<Longrightarrow> mcThreads m' = mcThreads m \<Longrightarrow> mcProbe m' = mcProbe m \<Longrightarrow> carry pb m'"
  by (simp add: carry_def probe_threads_def)

lemma carry_sync: "carry pb m \<Longrightarrow> carry pb (syncRuntimeStabilityProbe m)"
  by (simp add: carry_def, simp add: syncRuntimeStabilityProbe_def probe_ok_ops)

lemma carry_queue: "carry pb m \<Longrightarrow> carry pb (queue_recovery ev m)" "carry pb m \<Longrightarrow> carry pb (unqueue_recovery m)"
  by (simp_all add: carry_def)

lemma carry_call: "carry pb m \<Longrightarrow> carry pb (call x m)"
  by (simp add: carry_def)

lemma carry_lifecycle: "carry pb m \<Longrightarrow> carry pb (applyTaskLifecycleStatus e t u m)"
  by (simp add: carry_def settled_reducers)

lemma ok_tail: "carry pb m \<Longrightarrow> machine_ok (spawn (AwaitTail pb) m)"
  by (simp add: machine_ok_def carry_def)

lemma ok_watched: "carry False m \<Longrightarrow> watched m \<Longrightarrow> machine_ok m"
  by (simp add: machine_ok_def)

lemma ok_spawn: "carry pb m \<Longrightarrow> watched m \<Longrightarrow> is_probe_thread t = pb \<Longrightarrow> machine_ok (spawn t m)"
  by (simp add: machine_ok_def carry_def)

lemma ok_join: "carry pb m \<Longrightarrow> watched m \<Longrightarrow> machine_ok (spawn (AwaitJoin v ev pb) m)"
  by (rule ok_spawn) simp_all

lemma ok_notified: "carry False m \<Longrightarrow> machine_ok (syncRuntimeStabilityProbe m)"
  by (intro ok_watched carry_sync watched_sync)

lemma ok_returns: "carry pb m \<Longrightarrow> machine_ok (returns pb (syncRuntimeStabilityProbe m))"
  by (auto simp: returns_def intro: ok_notified intro!: ok_spawn carry_sync watched_sync)

lemma ok_recover: "carry pb m \<Longrightarrow> machine_ok (recoverToStableState e ev pb m)"
proof -
  assume m: "carry pb m"
  let ?m = "on_state (enterJoining (reReason ev))
      ((unqueue_recovery m)\<lparr>mcLastRecoveryTime := now e, mcRecoveryVersion := mcRecoveryVersion m + 1\<rparr>)"
  have "carry pb ((unqueue_recovery m)\<lparr>mcLastRecoveryTime := now e,
      mcRecoveryVersion := mcRecoveryVersion m + 1\<rparr>)"
    by (rule carry_update [OF m]) (use m in \<open>simp_all add: carry_def\<close>)
  then have "carry pb ?m" by (rule carry_state) (rule settled_moves)
  then have "carry pb (syncRuntimeStabilityProbe ?m)" by (rule carry_sync)
  moreover have "carry pb (on_state (enterWaitingSocket (reReason ev)) (queue_recovery ev m))"
    using m by (intro carry_state carry_queue settled_moves)
  ultimately show ?thesis
    using m
    by (simp add: recoverToStableState_def Let_def ok_tail ok_join carry_call carry_queue carry_sync
        watched_sync)
qed

lemma ok_dispatch_tail: "carry pb m \<Longrightarrow> machine_ok (dispatch_tail e pb m)"
  by (auto simp: dispatch_tail_def Let_def intro!: ok_recover carry_queue carry_sync ok_spawn watched_sync
      ok_notified)

lemma carry_leave: "carry pb m \<Longrightarrow> carry pb (leave_state m)"
  by (rule carry_update) (auto simp: leave_state_def settled_moves)

lemma carry_chunk:
  "carry pb m \<Longrightarrow> carry pb (m\<lparr>mcState := ccState (reduceChatChunkEvent e (mcState m) ev pcs), mcPendingChunks := x\<rparr>)"
  by (rule carry_update) (auto simp: carry_def settled_reducers)

lemma ok_dispatch: "machine_ok m \<Longrightarrow> machine_ok (dispatch e ev m)"
proof -
  assume "machine_ok m"
  then have m: "carry False m" by (simp add: machine_ok_def)
  show ?thesis
    unfolding dispatch_def Let_def
    using m
    by (auto split: Event.split intro!: ok_dispatch_tail ok_recover carry_state carry_lifecycle carry_leave
        carry_chunk carry_sync intro: settled_reducers)
qed

lemma sync_state_settled:
  assumes "state_ok s" and "syncMessagesFromJoinPayload e s sks o' u sr = (s', c)" and "sStatus s = StSyncing"
  shows "settled (applySyncCompletion e c s')"
proof -
  have "state_ok s'" using sync_ok [OF assms(1), of e sks o' u sr] assms(2) by simp
  moreover have "sStatus s' = StSyncing"
    using sync_control [of s e sks o' u sr] assms(2,3) by (auto simp: same_control_def)
  ultimately show ?thesis
    by (cases c) (auto simp: completion_status intro!: settledI enter_ok)
qed

lemma carry_pending_chunks: "carry pb m \<Longrightarrow> carry pb (applyPendingChunks e m)"
proof -
  assume m: "carry pb m"
  let ?r = "applyPendingChunksToState e (mcState m) (mcPendingChunks m)"
  have "settled (apState ?r)"
    using m by (simp add: carry_def settled_def pending_chunks_ok)
  then have "carry pb (m\<lparr>mcState := apState ?r, mcPendingChunks := apPendingChunks ?r\<rparr>)"
    by (intro carry_update [OF m]) simp_all
  then show ?thesis by (auto simp: applyPendingChunks_def Let_def intro: carry_sync)
qed

lemma carry_synced:
  assumes "carry pb m"
  shows "carry pb (syncRecoveredMessages e sks u sr (syncRuntimeStabilityProbe (on_state enterSyncing m)))"
proof -
  let ?m = "syncRuntimeStabilityProbe (on_state enterSyncing m)"
  obtain s c where sc: "syncMessagesFromJoinPayload e (mcState ?m) sks (mcSyncOptions ?m) u sr = (s, c)"
    by (cases "syncMessagesFromJoinPayload e (mcState ?m) sks (mcSyncOptions ?m) u sr")
  have "settled (applySyncCompletion e c s)"
    by (rule sync_state_settled [OF _ sc]) (use assms in \<open>simp_all add: carry_def settled_def enter_ok\<close>)
  moreover have "probe_ok (mcProbe ?m)" using assms
    by (auto simp: carry_def syncRuntimeStabilityProbe_def intro: probe_ok_ops)
  ultimately have "carry pb (?m\<lparr>mcState := applySyncCompletion e c s\<rparr>)"
    using assms by (simp add: carry_def probe_threads_def)
  then show ?thesis unfolding syncRecoveredMessages_def sc by (simp add: carry_pending_chunks)
qed

lemma carry_join: "carry pb m \<Longrightarrow> carry pb (join_returned e v ev out m)"
  unfolding join_returned_def Let_def
  by (auto split: join_outcome.split intro!: carry_call carry_synced carry_state settled_moves)

lemma carry_reconcile_state:
  "carry pb m \<Longrightarrow> carry pb (on_state (\<lambda>s. clearLocalStream c (finalizeStaleStreamingMessagesForNoStream e s n)) m)"
  by (rule carry_state) (auto intro: settled_moves settled_stale)

lemma ok_reconcile: "carry pb m \<Longrightarrow> machine_ok (reconcileRuntime e sv r pb m)"
proof -
  assume m: "carry pb m"
  let ?m = "on_state (recordRuntimeVerification e sv)
    (applyTaskLifecycleStatus e (vTaskStatus sv) (vStatusUpdatedAt sv) m)"
  have m2: "carry pb ?m" using m by (intro carry_state carry_lifecycle settled_moves)
  have "carry pb (on_state (enterWaitingSocket (Some r)) (call EnsureConnected ?m))"
    by (rule carry_state [OF carry_call [OF m2]]) (rule settled_moves)
  then show ?thesis
    using m2 carry_reconcile_state [OF m2]
    by (simp add: reconcileRuntime_def joinOrResumeFromRuntime_def Let_def ok_returns ok_recover carry_sync)
qed

lemma ok_started:
  assumes "machine_ok m" and "probe_ok p" and "\<not> pbRunning (mcProbe m)" and "pbRunning p"
  shows "machine_ok (checkHealth r (m\<lparr>mcProbe := p\<rparr>))"
proof -
  have "carry True (m\<lparr>mcProbe := p\<rparr>)"
    using assms by (simp add: machine_ok_def carry_def probe_threads_def)
  moreover have "watched (m\<lparr>mcProbe := p\<rparr>)" using assms by (simp add: watched_def probe_due_def)
  ultimately show ?thesis
    by (auto simp: checkHealth_def intro!: ok_spawn carry_call)
qed

lemma ok_not_started:
  assumes "machine_ok m" and "probe_ok p" and "pbRunning p = pbRunning (mcProbe m)"
    and "mcClosed m \<or> pbRunning p \<or> p = mcProbe m"
  shows "machine_ok (m\<lparr>mcProbe := p\<rparr>)"
  using assms
  by (auto simp: machine_ok_def carry_def probe_threads_def watched_def probe_due_def
      shouldProbeRuntimeInstability_def tail_pending_def)

lemma ok_check: "machine_ok m \<Longrightarrow> machine_ok (requestRuntimeCheck r m)"
proof -
  assume m: "machine_ok m"
  let ?p = "probe_run_now (mcClosed m) (mcProbe m)"
  show ?thesis
  proof (cases "mcClosed m \<or> \<not> mcHasPull m")
    case True
    with m show ?thesis by (auto simp: requestRuntimeCheck_def machine_ok_def intro: carry_sync watched_sync)
  next
    case False
    show ?thesis
    proof (cases "pbRunning (mcProbe m)")
      case True
      then show ?thesis using False m probe_run_now_running [of "mcClosed m" "mcProbe m"]
        by (auto simp: requestRuntimeCheck_def Let_def intro!: ok_not_started probe_ok_run_now split: prod.split)
          (metis fst_conv snd_conv probe_ok_run_now)+
    next
      case no: False
      obtain p b where p: "?p = (p, b)" by (cases ?p)
      have "b" "pbRunning p" "probe_ok p"
        using probe_run_now_running [of "mcClosed m" "mcProbe m"] probe_ok_run_now [of "mcClosed m" "mcProbe m"]
          p no False by auto
      then show ?thesis using False m no p by (simp add: requestRuntimeCheck_def Let_def ok_started)
    qed
  qed
qed

lemma ok_timer: "machine_ok m \<Longrightarrow> machine_ok (timer_fired m)"
proof -
  assume m: "machine_ok m"
  have ok: "probe_ok (mcProbe m)" using m by (simp add: machine_ok_def carry_def)
  obtain p b where p: "probe_fire (mcClosed m) (mcProbe m) = (p, b)"
    by (cases "probe_fire (mcClosed m) (mcProbe m)")
  have pok: "probe_ok p" using probe_ok_fire [OF ok, of "mcClosed m"] p by simp
  have run: "pbRunning p \<longleftrightarrow> pbRunning (mcProbe m) \<or> b \<noteq> None"
    using probe_fire_running(2) [of "mcClosed m" "mcProbe m"] p by simp
  have started: "b \<noteq> None \<Longrightarrow> \<not> pbRunning (mcProbe m)" "b = None \<Longrightarrow> mcClosed m \<or> pbRunning p \<or> p = mcProbe m"
    using p ok run by (auto simp: probe_fire_cases probe_ok_def split: option.splits if_splits prod.splits)
  show ?thesis
  proof (cases b)
    case None
    then show ?thesis using p started(2) run by (simp add: timer_fired_def ok_not_started [OF m pok])
  next
    case (Some r)
    then show ?thesis using p started(1) run by (simp add: timer_fired_def ok_started [OF m pok])
  qed
qed

lemma okD: "machine_ok m \<Longrightarrow> carry False m" "machine_ok m \<Longrightarrow> tail_pending m \<or> watched m"
  by (simp_all add: machine_ok_def)

lemma ok_load: "machine_ok m \<Longrightarrow> machine_ok (loadTask e i t u m)"
  by (simp add: loadTask_def okD ok_notified carry_lifecycle)

lemma ok_open: "machine_ok m \<Longrightarrow> machine_ok (openTask e m)"
proof -
  assume "machine_ok m"
  then have "carry False (m\<lparr>mcClosed := False\<rparr>)" by (intro carry_update [OF okD(1)]) (auto simp: okD carry_def dest!: okD(1))
  moreover from this have "carry False (spawn AwaitDetail (call x (m\<lparr>mcClosed := False\<rparr>)))" for x
    by (simp add: carry_def)
  ultimately show ?thesis by (simp add: openTask_def dispatch_def Let_def ok_recover)
qed

lemma ok_close: "machine_ok m \<Longrightarrow> machine_ok (closeTask e m)"
proof -
  assume "machine_ok m"
  then have "carry False (m\<lparr>mcClosed := True, mcRecoveryVersion := mcRecoveryVersion m + 1,
      mcProbe := probe_stop (mcProbe m)\<rparr>)"
    by (auto simp: carry_def probe_threads_def probe_ok_ops dest!: okD(1))
  then show ?thesis by (simp add: closeTask_def dispatch_def Let_def ok_dispatch_tail carry_leave carry_call)
qed

lemma settled_keyed:
  "settled s \<Longrightarrow> keyed ms \<Longrightarrow> settled (s\<lparr>sMessages := ms\<rparr>)"
  by (auto simp: settled_def state_ok_defs)

lemma settled_keyedD: "settled s \<Longrightarrow> keyed (sMessages s)"
  by (simp add: settled_def state_ok_def)

lemma ok_state:
  "machine_ok m \<Longrightarrow> (settled (mcState m) \<Longrightarrow> settled (f (mcState m))) \<Longrightarrow>
   machine_ok (syncRuntimeStabilityProbe (on_state f m))"
  by (intro ok_notified carry_state) (auto dest: okD)

lemma ok_methods:
  "machine_ok m \<Longrightarrow> machine_ok (renameTaskId i m)"
  "machine_ok m \<Longrightarrow> msg_ok (mId msg) msg \<Longrightarrow> machine_ok (addUserMessage msg m)"
  "machine_ok m \<Longrightarrow> (\<And>x. msg_ok k x \<Longrightarrow> msg_ok k (f x)) \<Longrightarrow> machine_ok (updateUserMessage k f m)"
  "machine_ok m \<Longrightarrow> machine_ok (cleanupMessagesAfterEdit i m)"
  "machine_ok m \<Longrightarrow> machine_ok (setStopping b m)"
  "machine_ok m \<Longrightarrow> machine_ok (setSyncOptions o' m)"
  by (auto simp: renameTaskId_def addUserMessage_def updateUserMessage_def cleanupMessagesAfterEdit_def
      setStopping_def intro!: ok_state settled_keyed keyed_set keyed_filter dest: settled_keyedD keyedD
      split: option.split)
    (auto simp: settled_def state_ok_defs setSyncOptions_def machine_ok_def carry_def probe_threads_def
      watched_def shouldProbeRuntimeInstability_def tail_pending_def)

lemma ok_finish_detail:
  assumes "machine_ok m" and "AwaitDetail \<in> set (mcThreads m)"
  shows "machine_ok (finish_thread AwaitDetail m)"
proof -
  have "carry False (finish_thread AwaitDetail m)" using carry_finish [OF assms] by simp
  moreover have "watched (finish_thread AwaitDetail m) = watched m"
    by (simp add: watched_def shouldProbeRuntimeInstability_def)
  moreover have "tail_pending (finish_thread AwaitDetail m) = tail_pending m"
    by (simp add: tail_pending_def)
  ultimately show ?thesis using assms(1) by (simp add: machine_ok_def)
qed

lemma carry_true_watched: "carry True m \<Longrightarrow> watched m"
  by (auto simp: carry_def watched_def probe_due_def)

lemma ok_check_ends: "carry True m \<Longrightarrow> machine_ok (spawn ProbeFinally m)"
  by (intro ok_spawn carry_true_watched) auto

lemma ok_pull: "carry True m \<Longrightarrow> machine_ok (pull_returned e r out m)"
  by (simp add: pull_returned_def ok_reconcile ok_check_ends split: pull_outcome.split)

lemma ok_probe_finished: "carry True m \<Longrightarrow> machine_ok (probe_finished m)"
  unfolding probe_finished_def
  by (rule ok_notified, cases "pbRunning (mcProbe m)")
    (auto simp: carry_def probe_threads_def probe_ok_ops)

lemma ok_woken:
  "machine_ok m \<Longrightarrow> enabled a m \<Longrightarrow> woken a = Some t \<Longrightarrow> carry (is_probe_thread t) (finish_thread t m)"
  by (simp add: enabled_def awaited_def carry_finish)

lemma ok_join_returned: "carry pb m \<Longrightarrow> machine_ok (spawn (AwaitTail pb) (join_returned e v ev out m))"
  by (rule ok_tail [OF carry_join])

lemma ok_act:
  assumes "machine_ok m" and "enabled a m"
  shows "machine_ok (act e a m)"
proof (cases "woken a")
  case (Some t)
  note carry = ok_woken [OF assms Some]
  have "t \<in> set (mcThreads m)" using assms(2) Some by (simp add: enabled_def awaited_def)
  with carry Some show ?thesis
    by (cases a) (auto intro: ok_join_returned ok_pull ok_dispatch_tail ok_probe_finished ok_load
        ok_finish_detail assms(1) split: option.split)
next
  case None
  with assms show ?thesis
    by (cases a) (simp_all add: enabled_def ok_dispatch ok_open ok_close ok_load ok_check ok_timer
        ok_methods ok_reconcile ok_notified okD)
qed

lemma new_machine_simps [simp]:
  "mcState (new_machine i hp hd') = initial_state i" "mcThreads (new_machine i hp hd') = []"
  "mcProbe (new_machine i hp hd') = new_probe" "mcClosed (new_machine i hp hd') = False"
  "mcHasPull (new_machine i hp hd') = hp"
  by (simp_all add: new_machine_def)

lemma ok_new: "machine_ok (new_machine i hp hd')"
proof -
  have "\<not> shouldProbeRuntimeInstability (new_machine i hp hd')"
    by (simp add: shouldProbeRuntimeInstability_def initial_state_def initial_runtime_def)
  moreover have "\<not> pbRunning new_probe" by (simp add: new_probe_def)
  ultimately show ?thesis
    by (simp add: machine_ok_def carry_def probe_threads_def settled_moves probe_ok_ops watched_def)
qed

lemma ok_reach: "task_reach m0 m \<Longrightarrow> machine_ok m0 \<Longrightarrow> machine_ok m"
  by (induction rule: task_reach.induct) (auto simp: task_step_iff ok_act)

text \<open>The machine as a total step function, a step that is not enabled changing nothing.\<close>

definition task_next :: "machine \<Rightarrow> env \<times> action \<Rightarrow> machine" where
  "task_next m ea = (if enabled (snd ea) m then act (fst ea) (snd ea) m else m)"

lemma recover_version: "mcRecoveryVersion m \<le> mcRecoveryVersion (recoverToStableState e ev pb m)"
  by (simp add: recoverToStableState_def Let_def)

lemma tail_version: "mcRecoveryVersion m \<le> mcRecoveryVersion (dispatch_tail e pb m)"
  using recover_version [of "unqueue_recovery (syncRuntimeStabilityProbe m)"]
  by (simp add: dispatch_tail_def Let_def)

lemma version_simps [simp]:
  "mcRecoveryVersion (returns pb m) = mcRecoveryVersion m"
  "mcRecoveryVersion (checkHealth r m) = mcRecoveryVersion m"
  "mcRecoveryVersion (leave_state m) = mcRecoveryVersion m"
  "mcRecoveryVersion (join_returned e v ev out m) = mcRecoveryVersion m"
  "mcRecoveryVersion (loadTask e i t u m) = mcRecoveryVersion m"
  by (simp_all add: returns_def checkHealth_def leave_state_def join_returned_def loadTask_def
      syncRecoveredMessages_def applyPendingChunks_def Let_def split: join_outcome.split prod.split)

lemma dispatch_version: "mcRecoveryVersion m \<le> mcRecoveryVersion (dispatch e ev m)"
  unfolding dispatch_def Let_def
  by (cases ev) (auto intro: order_trans [OF _ tail_version] order_trans [OF _ recover_version])

lemma reconcile_version: "mcRecoveryVersion m \<le> mcRecoveryVersion (reconcileRuntime e sv r pb m)"
  by (auto simp: reconcileRuntime_def joinOrResumeFromRuntime_def Let_def
      intro: order_trans [OF _ recover_version])

lemma act_version: "mcRecoveryVersion m \<le> mcRecoveryVersion (act e a m)"
proof (cases a)
  case DoOpen
  have "mcRecoveryVersion m \<le> mcRecoveryVersion (dispatch e ev (spawn t (call x (m\<lparr>mcClosed := False\<rparr>))))"
    "mcRecoveryVersion m \<le> mcRecoveryVersion (dispatch e ev (m\<lparr>mcClosed := False\<rparr>))" for ev t x
    by (rule order_trans [OF _ dispatch_version], simp)+
  with DoOpen show ?thesis by (simp add: openTask_def Let_def)
next
  case DoClose
  have "mcRecoveryVersion m \<le> mcRecoveryVersion (dispatch e LEAVE (call x
      (m\<lparr>mcClosed := True, mcRecoveryVersion := mcRecoveryVersion m + 1, mcProbe := p\<rparr>)))" for x p
    by (rule order_trans [OF _ dispatch_version]) simp
  with DoClose show ?thesis by (simp add: closeTask_def Let_def)
qed (auto simp: requestRuntimeCheck_def timer_fired_def pull_returned_def probe_finished_def renameTaskId_def
    addUserMessage_def updateUserMessage_def cleanupMessagesAfterEdit_def setStopping_def setSyncOptions_def
    Let_def intro: dispatch_version reconcile_version order_trans [OF _ reconcile_version]
    order_trans [OF _ tail_version] split: option.split prod.split pull_outcome.split)

interpretation task_machine: monotone_machine task_next machine_ok mcRecoveryVersion
  by unfold_locales (auto simp: task_next_def ok_act act_version)

end
