(* ===== verification/TaskMachineProps.thy ===== *)
theory TaskMachineProps
  imports TaskMachineRuns
begin

text \<open>
  What the task machine guarantees over all its runs, and what it does not.
\<close>

abbreviation task_status :: "machine \<Rightarrow> ApiTaskStatus option" where
  "task_status m \<equiv> rtTaskStatus (sRuntime (mcState m))"

subsection \<open>The invariant\<close>





text \<open>The versions that tell a current join from a superseded one never go back, in any sequence of
  calls and answers.\<close>

theorem recovery_version_monotone:
  assumes "machine_ok m"
  shows "mcRecoveryVersion m \<le> mcRecoveryVersion (foldl task_next m steps)"
  using task_machine.run_rank [OF assms] .

theorem recovery_version_monotone_witness:
  "mcRecoveryVersion (new_machine 1 True True) \<le>
   mcRecoveryVersion (foldl task_next (new_machine 1 True True) [(demo_env, DoOpen), (demo_env, DoClose)])"
  by (rule recovery_version_monotone [OF ok_new])

subsection \<open>Joins\<close>

lemma join_superseded:
  "mcClosed m \<or> v \<noteq> mcRecoveryVersion m \<Longrightarrow>
   join_returned e v ev out m = (case out of JoinThrew _ \<Rightarrow> m | JoinAnswered _ \<Rightarrow> call (LeaveTask (sTaskId (mcState m))) m)"
  by (auto simp: join_returned_def Let_def split: join_outcome.split)

text \<open>The answer to a join that has been superseded, by a later one or by closing, is dropped: the
  state, the queued chunks, the queued recovery and the probe stay as they are; all that happens is
  that the room is left.\<close>

theorem superseded_join_dropped:
  assumes "mcClosed m \<or> v \<noteq> mcRecoveryVersion m"
  shows "let m' = act e (JoinReturns v ev pb out) m in
    mcState m' = mcState m \<and> mcPendingChunks m' = mcPendingChunks m \<and> mcProbe m' = mcProbe m \<and>
    mcPendingRecovery m' = mcPendingRecovery m \<and> mcRecoveryVersion m' = mcRecoveryVersion m \<and>
    mcEffects m' = mcEffects m @ (case out of JoinAnswered _ \<Rightarrow> [LeaveTask (sTaskId (mcState m))] | JoinThrew _ \<Rightarrow> [])"
  using assms
  by (simp add: join_superseded split: join_outcome.split)

definition demo_answer :: join_outcome where
  "demo_answer = JoinAnswered \<lparr>jrError = None, jrSubtasks = None, jrStreaming = None\<rparr>"

theorem superseded_join_dropped_witness:
  "mcState (act demo_env (JoinReturns 1 (demo_recover PageVisible) False demo_answer) (new_machine 1 True True))
     = initial_state 1"
  using superseded_join_dropped [of "new_machine 1 True True" 1 demo_env "demo_recover PageVisible" False demo_answer]
  by (simp add: Let_def new_machine_def)

lemma sync_joined:
  assumes "syncMessagesFromJoinPayload e s sks o' u sr = (s', c)" and "sStatus s = StSyncing"
  shows "sStatus (applySyncCompletion e c s') = (case c of SyncDone _ \<Rightarrow> StReady | _ \<Rightarrow> StStreaming)"
    and "rtJoinedRoom (sRuntime (applySyncCompletion e c s')) = rtJoinedRoom (sRuntime s)"
    and "\<not> sIsStopping (applySyncCompletion e c s')"
    and "rtTaskStatus (sRuntime (applySyncCompletion e c s')) = rtTaskStatus (sRuntime s)"
proof -
  have "same_control s s'" using sync_control [of s e sks o' u sr] assms(1) by simp
  with assms(2) show "sStatus (applySyncCompletion e c s') = (case c of SyncDone _ \<Rightarrow> StReady | _ \<Rightarrow> StStreaming)"
    "rtJoinedRoom (sRuntime (applySyncCompletion e c s')) = rtJoinedRoom (sRuntime s)"
    "\<not> sIsStopping (applySyncCompletion e c s')"
    "rtTaskStatus (sRuntime (applySyncCompletion e c s')) = rtTaskStatus (sRuntime s)"
    by (cases c, auto simp: applySyncCompletion_def same_control_def Let_def)+
qed

lemma apply_pending_frame [simp]:
  "rtTaskStatus (sRuntime (applyPendingChunk e s c)) = rtTaskStatus (sRuntime s)"
  "rtJoinedRoom (sRuntime (applyPendingChunk e s c)) = rtJoinedRoom (sRuntime s)"
  "sIsStopping (applyPendingChunk e s c) = sIsStopping s"
  by (simp_all add: applyPendingChunk_def Let_def split: option.split)

lemma replay_frame [simp]:
  "rtTaskStatus (sRuntime (replay_chunks e j s cs)) = rtTaskStatus (sRuntime s)"
  "rtJoinedRoom (sRuntime (replay_chunks e j s cs)) = rtJoinedRoom (sRuntime s)"
  "sIsStopping (replay_chunks e j s cs) = sIsStopping s"
  by (induction e j s cs rule: replay_chunks.induct) auto

lemma pending_chunks_frame [simp]:
  "rtTaskStatus (sRuntime (apState (applyPendingChunksToState e s cs))) = rtTaskStatus (sRuntime s)"
  "rtJoinedRoom (sRuntime (apState (applyPendingChunksToState e s cs))) = rtJoinedRoom (sRuntime s)"
  "sIsStopping (apState (applyPendingChunksToState e s cs)) = sIsStopping s"
  "apPendingChunks (applyPendingChunksToState e s cs) = []"
  by (simp_all add: applyPendingChunksToState_def)

lemma machine_pending_frame [simp]:
  "task_status (applyPendingChunks e m) = task_status m"
  "rtJoinedRoom (sRuntime (mcState (applyPendingChunks e m))) = rtJoinedRoom (sRuntime (mcState m))"
  "sIsStopping (mcState (applyPendingChunks e m)) = sIsStopping (mcState m)"
  "sStatus (mcState (applyPendingChunks e m)) = sStatus (mcState m)"
  "mcPendingChunks (applyPendingChunks e m) = []"
  by (simp_all add: applyPendingChunks_def Let_def)

text \<open>A join that succeeds always brings the machine to rest: it is ready or streaming, in the room,
  not stopping, every queued chunk has been applied, and it streams only if the answer named a
  stream. One that fails leaves an error, in the state as in the runtime, if a recovery was under way.\<close>

theorem join_settles:
  assumes "machine_ok m" and "\<not> mcClosed m" and "v = mcRecoveryVersion m"
  shows "case out of
      JoinAnswered r \<Rightarrow>
        (let s' = mcState (join_returned e v ev out m) in
          if opt_truthy truthy_text (jrError r)
          then recovery_status (sStatus (mcState m)) \<longrightarrow> sStatus s' = StError \<and> sError s' = jrError r
          else (sStatus s' = StReady \<or> sStatus s' = StStreaming) \<and> rtJoinedRoom (sRuntime s') \<and>
            \<not> sIsStopping s' \<and> mcPendingChunks (join_returned e v ev out m) = [] \<and> state_ok s' \<and>
            (sStatus s' = StStreaming \<longrightarrow> recovered_stream (jrStreaming r) \<noteq> None))
    | JoinThrew x \<Rightarrow>
        recovery_status (sStatus (mcState m)) \<longrightarrow> sStatus (mcState (join_returned e v ev out m)) = StError"
proof (cases out)
  case (JoinThrew x)
  with assms show ?thesis by (simp add: join_returned_def)
next
  case (JoinAnswered r)
  show ?thesis
  proof (cases "opt_truthy truthy_text (jrError r)")
    case True
    with JoinAnswered assms show ?thesis
      by (cases "jrError r") (auto simp: join_returned_def enterRecoveryError_def Let_def)
  next
    case False
    let ?m = "syncRuntimeStabilityProbe (on_state enterSyncing m)"
    let ?u = "coalesce (reSyncUpdatedAt ev) (rtLastStatusUpdatedAt (sRuntime (mcState ?m)))"
    obtain s c where sc:
      "syncMessagesFromJoinPayload e (mcState ?m) (jrSubtasks r) (mcSyncOptions ?m) ?u (jrStreaming r) = (s, c)"
      by (cases "syncMessagesFromJoinPayload e (mcState ?m) (jrSubtasks r) (mcSyncOptions ?m) ?u (jrStreaming r)")
    have join: "join_returned e v ev out m = applyPendingChunks e (?m\<lparr>mcState := applySyncCompletion e c s\<rparr>)"
      using False JoinAnswered assms sc
      unfolding join_returned_def syncRecoveredMessages_def Let_def by simp
    have syncing: "sStatus (mcState ?m) = StSyncing" "rtJoinedRoom (sRuntime (mcState ?m))"
      by (simp_all add: enterSyncing_def)
    have "keyed (sMessages (mcState ?m))"
      using assms(1) by (simp add: machine_ok_def carry_def settled_def state_ok_def enterSyncing_def)
    then have "recovered_stream (jrStreaming r) \<noteq> None" if "c \<noteq> SyncDone ?u"
      using sync_no_stream(2) [of "mcState ?m" "jrStreaming r" e "jrSubtasks r" "mcSyncOptions ?m" ?u] sc that
      by auto
    moreover have "carry False (join_returned e v ev out m)"
      using assms(1) by (simp add: machine_ok_def carry_join)
    ultimately show ?thesis
      using False JoinAnswered sync_joined [OF sc syncing(1)] syncing(2)
      by (auto simp: join [unfolded JoinAnswered] carry_def settled_def Let_def split: SyncCompletionEvent.splits)
  qed
qed

lemma demo_open:
  "mcState (openTask demo_env (new_machine 1 False False)) = enterJoining (Some TaskSelected) (initial_state 1)"
  "mcRecoveryVersion (openTask demo_env (new_machine 1 False False)) = 1"
  "\<not> mcClosed (openTask demo_env (new_machine 1 False False))"
  by (simp_all add: openTask_def dispatch_def recoverToStableState_def demo_env_def new_machine_def
      initial_state_def unqueue_recovery_def syncRuntimeStabilityProbe_def on_state_def Let_def)

theorem join_settles_witness:
  "rtJoinedRoom (sRuntime (mcState (join_returned demo_env 1 (demo_recover TaskSelected) demo_answer
     (openTask demo_env (new_machine 1 False False)))))"
  using join_settles [OF ok_open [OF ok_new], of demo_env 1 False False 1 demo_env "demo_recover TaskSelected" demo_answer] demo_open
  by (simp add: demo_answer_def Let_def)

subsection \<open>Leaving\<close>

text \<open>Leaving resets everything: whatever the machine was doing, it holds the initial state of its
  task, no chunk and no recovery is queued, no check is timed and nothing is joined.\<close>

theorem leave_resets:
  "let m' = dispatch e LEAVE m in
    mcState m' = initial_state (sTaskId (mcState m)) \<and> mcPendingChunks m' = [] \<and>
    \<not> mcPendingRecovery m' \<and> mcPendingOptions m' = None \<and> pbTimer (mcProbe m') = None \<and>
    mcThreads m' = mcThreads m \<and> mcEffects m' = mcEffects m"
proof -
  have "\<not> shouldProbeRuntimeInstability (leave_state m)"
    by (simp add: shouldProbeRuntimeInstability_def leave_state_def initial_state_def initial_runtime_def)
  then show ?thesis
    by (simp add: dispatch_def dispatch_tail_def Let_def syncRuntimeStabilityProbe_def leave_state_def
        unqueue_recovery_def)
qed

subsection \<open>A finished task\<close>



lemma enter_task_status [simp]:
  "rtTaskStatus (sRuntime (enterWaitingSocket r s)) = rtTaskStatus (sRuntime s)"
  "rtTaskStatus (sRuntime (enterJoining r s)) = rtTaskStatus (sRuntime s)"
  "rtTaskStatus (sRuntime (enterSyncing s)) = rtTaskStatus (sRuntime s)"
  "rtTaskStatus (sRuntime (enterRecoveryError x s)) = rtTaskStatus (sRuntime s)"
  "rtTaskStatus (sRuntime (clearLocalStream c s)) = rtTaskStatus (sRuntime s)"
  "rtTaskStatus (sRuntime (recordRuntimeVerification e sv s)) = rtTaskStatus (sRuntime s)"
  "rtTaskStatus (sRuntime (applySyncCompletion e co s)) = rtTaskStatus (sRuntime s)"
  "rtTaskStatus (sRuntime (finalizeStaleStreamingMessagesForNoStream e s sks)) = rtTaskStatus (sRuntime s)"
  by (simp_all add: enterWaitingSocket_def enterJoining_def enterSyncing_def enterRecoveryError_def
      clearLocalStream_def recordRuntimeVerification_def applySyncCompletion_def
      finalizeStaleStreamingMessagesForNoStream_def Let_def split: SyncCompletionEvent.split)

lemma recover_task_status [simp]: "task_status (recoverToStableState e ev pb m) = task_status m"
  by (simp add: recoverToStableState_def Let_def)

lemma tail_task_status [simp]: "task_status (dispatch_tail e pb m) = task_status m"
  by (simp add: dispatch_tail_def Let_def)

lemma join_task_status [simp]: "task_status (join_returned e v ev out m) = task_status m"
proof (cases out)
  case (JoinAnswered r)
  have "task_status (syncRecoveredMessages e sks u sr n) = task_status n" for sks u sr n
    using sync_control [of "mcState n" e sks "mcSyncOptions n" u sr]
    by (auto simp: syncRecoveredMessages_def same_control_def split: prod.split)
  with JoinAnswered show ?thesis by (simp add: join_returned_def Let_def)
qed (simp add: join_returned_def)






lemma check_task_status [simp]:
  "task_status (requestRuntimeCheck r m) = task_status m" "task_status (timer_fired m) = task_status m"
  by (simp_all add: requestRuntimeCheck_def timer_fired_def checkHealth_def Let_def
      split: prod.split option.split)



subsection \<open>A join under way\<close>

text \<open>A machine in state joining waits for the answer of its latest join.\<close>

definition join_waited :: "machine \<Rightarrow> bool" where
  "join_waited m \<longleftrightarrow> (sStatus (mcState m) = StJoining \<longrightarrow>
     (\<exists>ev pb. AwaitJoin (mcRecoveryVersion m) ev pb \<in> set (mcThreads m)))"

lemma waited_frame:
  "join_waited m \<Longrightarrow> (sStatus (mcState m') = StJoining \<Longrightarrow> sStatus (mcState m) = StJoining) \<Longrightarrow>
   mcRecoveryVersion m' = mcRecoveryVersion m \<Longrightarrow>
   (\<And>v ev pb. AwaitJoin v ev pb \<in> set (mcThreads m) \<Longrightarrow> AwaitJoin v ev pb \<in> set (mcThreads m')) \<Longrightarrow>
   join_waited m'"
  unfolding join_waited_def by metis

lemma waited_recover: "join_waited m \<Longrightarrow> join_waited (recoverToStableState e ev pb m)"
  by (auto simp: recoverToStableState_def join_waited_def Let_def)

lemma waited_tail: "join_waited m \<Longrightarrow> join_waited (dispatch_tail e pb m)"
  by (auto simp: dispatch_tail_def Let_def intro!: waited_recover)
    (auto simp: join_waited_def)

lemma reducers_joining:
  "sStatus (reduceChatStartEvent e s ev1) = StJoining \<Longrightarrow> sStatus s = StJoining"
  "sStatus (ccState (reduceChatChunkEvent e s ev2 pc)) = StJoining \<Longrightarrow> sStatus s = StJoining"
  "sStatus (reduceChatDoneEvent e s ev3) = StJoining \<Longrightarrow> sStatus s = StJoining"
  "sStatus (reduceChatBlockUpdatedEvent e s i b) = StJoining \<Longrightarrow> sStatus s = StJoining"
  "sStatus (reduceChatErrorEvent e s ev4) = StJoining \<Longrightarrow> sStatus s = StJoining"
  "sStatus (reduceChatCancelledEvent e s i) = StJoining \<Longrightarrow> sStatus s = StJoining"
  "sStatus (reduceSendAcceptedEvent s t) = StJoining \<Longrightarrow> sStatus s = StJoining"
  "sStatus (lcState (applyTaskLifecycleStatusToState e s t' u)) = StJoining \<Longrightarrow> sStatus s = StJoining"
  by (simp_all add: reduceChatStartEvent_def reduceChatChunkEvent_def reduceChatDoneEvent_def
      reduceChatBlockUpdatedEvent_def reduceChatErrorEvent_def reduceChatCancelledEvent_def
      reduceSendAcceptedEvent_def applyTaskLifecycleStatusToState_def Let_def
      split: option.splits if_splits)

lemma waited_state:
  "join_waited m \<Longrightarrow> (sStatus (f (mcState m)) = StJoining \<Longrightarrow> sStatus (mcState m) = StJoining) \<Longrightarrow>
   join_waited (on_state f m)"
  by (rule waited_frame) auto

lemma waited_lifecycle: "join_waited m \<Longrightarrow> join_waited (applyTaskLifecycleStatus e t u m)"
  by (rule waited_frame) (auto dest: reducers_joining)

lemma waited_sync: "join_waited m \<Longrightarrow> join_waited (syncRuntimeStabilityProbe m)"
  by (rule waited_frame) auto

lemma waited_leave: "join_waited (leave_state m)"
  by (simp add: join_waited_def leave_state_def initial_state_def)

lemma waited_chunk:
  "join_waited m \<Longrightarrow> join_waited (m\<lparr>mcState := ccState (reduceChatChunkEvent e (mcState m) ev pcs), mcPendingChunks := x\<rparr>)"
  by (rule waited_frame) (auto dest: reducers_joining)

lemma waited_dispatch: "join_waited m \<Longrightarrow> join_waited (dispatch e ev m)"
  by (cases ev) (auto simp: dispatch_def Let_def
      intro!: waited_tail waited_recover waited_state waited_lifecycle waited_leave waited_chunk waited_sync
      dest: reducers_joining)

lemma waited_spawn: "join_waited m \<Longrightarrow> join_waited (spawn t m)"
  by (rule waited_frame) auto

lemma waited_call: "join_waited m \<Longrightarrow> join_waited (call x m)"
  by (rule waited_frame) auto

lemma waited_returns: "join_waited m \<Longrightarrow> join_waited (returns pb m)"
  by (simp add: returns_def waited_spawn)

lemma waited_reconcile: "join_waited m \<Longrightarrow> join_waited (reconcileRuntime e sv r pb m)"
proof -
  assume "join_waited m"
  then have "join_waited (on_state (recordRuntimeVerification e sv)
      (applyTaskLifecycleStatus e (vTaskStatus sv) (vStatusUpdatedAt sv) m))"
    by (intro waited_state waited_lifecycle) auto
  then show ?thesis
    by (auto simp: reconcileRuntime_def joinOrResumeFromRuntime_def Let_def
        intro!: waited_returns waited_recover waited_sync waited_call)
      (auto simp: join_waited_def)
qed

lemma waited_load: "join_waited m \<Longrightarrow> join_waited (loadTask e i t u m)"
  by (simp add: loadTask_def waited_sync waited_lifecycle)

lemma waited_finish:
  "join_waited m \<Longrightarrow> (\<And>ev pb. t \<noteq> AwaitJoin (mcRecoveryVersion m) ev pb) \<Longrightarrow> join_waited (finish_thread t m)"
  unfolding join_waited_def by (metis finish_thread_simps(1,2,6) in_set_remove1)

lemma waited_check:
  "join_waited m \<Longrightarrow> join_waited (requestRuntimeCheck r m)" "join_waited m \<Longrightarrow> join_waited (timer_fired m)"
  by (auto simp: requestRuntimeCheck_def timer_fired_def checkHealth_def join_waited_def Let_def
      split: prod.split option.split)

lemma waited_methods:
  "join_waited m \<Longrightarrow> join_waited (renameTaskId i m)" "join_waited m \<Longrightarrow> join_waited (addUserMessage msg m)"
  "join_waited m \<Longrightarrow> join_waited (updateUserMessage k f m)"
  "join_waited m \<Longrightarrow> join_waited (cleanupMessagesAfterEdit i m)"
  "join_waited m \<Longrightarrow> join_waited (setStopping b m)" "join_waited m \<Longrightarrow> join_waited (setSyncOptions o' m)"
  by (simp_all add: renameTaskId_def addUserMessage_def updateUserMessage_def cleanupMessagesAfterEdit_def
      setStopping_def setSyncOptions_def join_waited_def split: option.split)

lemma joined_not_joining:
  assumes "\<not> mcClosed m" and "v = mcRecoveryVersion m"
  shows "sStatus (mcState (join_returned e v ev out m)) \<noteq> StJoining"
proof (cases out)
  case (JoinThrew x)
  with assms show ?thesis by (simp add: join_returned_def)
next
  case (JoinAnswered r)
  have "sStatus (mcState (syncRecoveredMessages e sks u sr (syncRuntimeStabilityProbe (on_state enterSyncing m))))
      \<noteq> StJoining" for sks u sr
    using sync_joined(1) [of e "enterSyncing (mcState m)" sks
        "mcSyncOptions (syncRuntimeStabilityProbe (on_state enterSyncing m))" u sr]
    by (auto simp: syncRecoveredMessages_def split: prod.split SyncCompletionEvent.splits)
  with JoinAnswered assms show ?thesis by (simp add: join_returned_def Let_def)
qed

lemma act_waited:
  assumes "enabled a m" and "join_waited m" and "\<not> mcClosed m"
  shows "join_waited (act e a m)"
proof (cases a)
  case DoOpen
  have "join_waited (m\<lparr>mcClosed := b\<rparr>)" for b using assms(2) by (simp add: join_waited_def)
  with DoOpen show ?thesis
    by (simp add: openTask_def Let_def waited_dispatch waited_spawn waited_call)
next
  case DoClose
  then show ?thesis
    by (simp add: closeTask_def dispatch_def Let_def waited_tail waited_leave)
next
  case (JoinReturns v ev pb out)
  let ?m = "finish_thread (AwaitJoin v ev pb) m"
  have "join_waited (join_returned e v ev out ?m)"
  proof (cases "v = mcRecoveryVersion m")
    case True
    have "sStatus (mcState (join_returned e v ev out ?m)) \<noteq> StJoining"
      using True assms(3) joined_not_joining [of ?m v e ev out] by simp
    then show ?thesis by (simp add: join_waited_def)
  next
    case False
    then have "join_waited ?m" using assms(2) by (intro waited_finish) auto
    with False show ?thesis by (simp add: join_superseded waited_call split: join_outcome.split)
  qed
  with JoinReturns show ?thesis by (simp add: waited_spawn)
next
  case (PullReturns r out)
  have "join_waited (finish_thread (AwaitPull r) m)" using assms(2) by (rule waited_finish) simp
  with PullReturns show ?thesis
    by (simp add: pull_returned_def waited_reconcile waited_spawn split: pull_outcome.split)
next
  case (DetailReturns d)
  have "join_waited (finish_thread AwaitDetail m)" using assms(2) by (rule waited_finish) simp
  with DetailReturns show ?thesis by (simp add: waited_load split: option.split)
next
  case (RunTail pb)
  have "join_waited (finish_thread (AwaitTail pb) m)" using assms(2) by (rule waited_finish) simp
  with RunTail show ?thesis by (simp add: waited_tail)
next
  case RunFinally
  have "join_waited (finish_thread ProbeFinally m)" using assms(2) by (rule waited_finish) simp
  then have "join_waited ((finish_thread ProbeFinally m)\<lparr>mcProbe := p\<rparr>)" for p
    by (simp add: join_waited_def)
  with RunFinally show ?thesis by (simp add: probe_finished_def waited_sync)
qed (use assms(2) in \<open>simp_all add: waited_dispatch waited_load waited_check waited_reconcile
    waited_methods waited_sync\<close>)

lemma closed_recover [simp]: "mcClosed (recoverToStableState e ev pb m) = mcClosed m"
  by (simp add: recoverToStableState_def Let_def)

lemma closed_tail [simp]: "mcClosed (dispatch_tail e pb m) = mcClosed m"
  by (simp add: dispatch_tail_def Let_def)

lemma closed_leave [simp]: "mcClosed (leave_state m) = mcClosed m"
  by (simp add: leave_state_def unqueue_recovery_def)

lemma closed_dispatch [simp]: "mcClosed (dispatch e ev m) = mcClosed m"
  by (cases ev) (simp_all add: dispatch_def Let_def)

lemma closed_ops [simp]:
  "mcClosed (reconcileRuntime e sv r pb m) = mcClosed m" "mcClosed (loadTask e i t u m) = mcClosed m"
  "mcClosed (requestRuntimeCheck r m) = mcClosed m" "mcClosed (timer_fired m) = mcClosed m"
  "mcClosed (join_returned e v ev out m) = mcClosed m"
  by (simp_all add: reconcileRuntime_def joinOrResumeFromRuntime_def returns_def loadTask_def
      requestRuntimeCheck_def timer_fired_def checkHealth_def join_returned_def
      syncRecoveredMessages_def applyPendingChunks_def Let_def
      split: prod.split option.split join_outcome.split)

lemma closed_act: "a \<noteq> DoOpen \<Longrightarrow> mcClosed m \<Longrightarrow> mcClosed (act e a m)"
  by (cases a) (simp_all add: closeTask_def pull_returned_def probe_finished_def renameTaskId_def
      addUserMessage_def updateUserMessage_def cleanupMessagesAfterEdit_def setStopping_def
      setSyncOptions_def Let_def split: option.split pull_outcome.split)

text \<open>A session: a machine that has been closed is not opened again.\<close>

inductive session_reach :: "machine \<Rightarrow> machine \<Rightarrow> bool" for m0 where
  session_start: "session_reach m0 m0"
| session_step: "session_reach m0 m \<Longrightarrow> enabled a m \<Longrightarrow> (a = DoOpen \<Longrightarrow> \<not> mcClosed m) \<Longrightarrow>
    session_reach m0 (act e a m)"

text \<open>C2: A session does not get stuck joining: as long as the machine is open, being in state joining
  means that the answer of the latest join, the one that will be taken, is still to come.\<close>

theorem joining_is_waiting:
  assumes "session_reach (new_machine i hasPull hasDetail) m" and "\<not> mcClosed m"
    and "sStatus (mcState m) = StJoining"
  shows "\<exists>ev pb. AwaitJoin (mcRecoveryVersion m) ev pb \<in> set (mcThreads m)"
proof -
  from assms(1) have "mcClosed m \<or> join_waited m"
  proof (induction rule: session_reach.induct)
    case session_start
    then show ?case by (simp add: join_waited_def initial_state_def)
  next
    case (session_step m a e)
    then show ?case using closed_act act_waited by blast
  qed
  with assms(2,3) show ?thesis by (simp add: join_waited_def)
qed

lemma demo_open_joining: "sStatus (mcState (openTask demo_env (new_machine 1 False False))) = StJoining"
  by (simp add: demo_open)

theorem joining_is_waiting_witness:
  "\<exists>ev pb. AwaitJoin 1 ev pb \<in> set (mcThreads (openTask demo_env (new_machine 1 False False)))"
proof -
  have "session_reach (new_machine 1 False False) (openTask demo_env (new_machine 1 False False))"
    using session_step [OF session_start, of DoOpen "new_machine 1 False False" demo_env]
    by (simp add: enabled_def awaited_def)
  from joining_is_waiting [OF this demo_open(3) demo_open_joining] show ?thesis
    by (simp add: demo_open(2))
qed

subsection \<open>What goes wrong\<close>






text \<open>A second join is started because a stream began while the first was under way; it succeeds.\<close>

definition demo_rejoin :: "action list" where
  "demo_rejoin = [DoOpen, DoEvent (CHAT_START (demo_begin 7)), DoEvent (RECOVER (demo_recover PageVisible)),
     JoinReturns 2 (demo_recover PageVisible) False demo_answer, RunTail False]"

lemma demo_rejoin_run:
  "case task_run demo_env demo_rejoin (new_machine 1 False False) of None \<Rightarrow> False
   | Some m \<Rightarrow> rtJoinedRoom (sRuntime (mcState m)) \<and> LeaveTask 1 \<notin> set (mcEffects m) \<and>
     (case task_run demo_env [JoinReturns 1 (demo_recover TaskSelected) False demo_answer] m of None \<Rightarrow> False
      | Some m' \<Rightarrow> last (mcEffects m') = LeaveTask 1 \<and> sStatus (mcState m') = StReady \<and>
          rtJoinedRoom (sRuntime (mcState m')))"
  by code_simp

text \<open>C33: A late answer leaves the room of its successor. Rooms are left by task, not by join: when a
  join has been superseded by one of the same task, which has succeeded, the answer to the first makes
  the machine leave the room it has just joined, while its state goes on saying that it is in the
  room and ready.\<close>

theorem late_join_leaves_room:
  "\<exists>m m'. task_reach (new_machine 1 False False) m \<and> rtJoinedRoom (sRuntime (mcState m)) \<and>
     LeaveTask 1 \<notin> set (mcEffects m) \<and> task_reach m m' \<and>
     last (mcEffects m') = LeaveTask 1 \<and> sStatus (mcState m') = StReady \<and>
     rtJoinedRoom (sRuntime (mcState m'))"
proof -
  let ?late = "[JoinReturns 1 (demo_recover TaskSelected) False demo_answer]"
  have callers: "list_all caller_ok demo_rejoin" "list_all caller_ok ?late"
    by (simp_all add: demo_rejoin_def)
  obtain m where m: "task_run demo_env demo_rejoin (new_machine 1 False False) = Some m"
    using demo_rejoin_run by (auto split: option.splits)
  then obtain m' where m': "task_run demo_env ?late m = Some m'"
    using demo_rejoin_run by (auto split: option.splits)
  show ?thesis
    using demo_rejoin_run m m' task_run_reach [OF m callers(1)] task_run_reach [OF m' callers(2)]
    by auto
qed

subsection \<open>Edits and incremental recovery\<close>

text \<open>After an edit exactly the edited message and those after it are gone: of a known subtask with a
  known message id, the messages with no id or an earlier one stay, unchanged and in order, and no
  other; an edit of an unknown subtask changes nothing.\<close>

theorem cleanup_after_edit:
  "case edited_message_id i (sMessages (mcState m)) of
     None \<Rightarrow> cleanupMessagesAfterEdit i m = m
   | Some x \<Rightarrow> sMessages (mcState (cleanupMessagesAfterEdit i m)) =
       filter (\<lambda>(_, msg). mMessageId msg = None \<or> the (mMessageId msg) < x) (sMessages (mcState m)) \<and>
       (\<exists>k msg. (k, msg) \<in> set (sMessages (mcState m)) \<and> mSubtaskId msg = Some i \<and> mMessageId msg = Some x)"
proof (cases "edited_message_id i (sMessages (mcState m))")
  case None
  then show ?thesis by (simp add: cleanupMessagesAfterEdit_def)
next
  case (Some x)
  then obtain k msg where "List.find (\<lambda>(_, msg). mSubtaskId msg = Some i) (sMessages (mcState m)) = Some (k, msg)"
    and x: "mMessageId msg = Some x"
    by (auto simp: edited_message_id_def split: option.splits prod.splits)
  then have "(k, msg) \<in> set (sMessages (mcState m))" "mSubtaskId msg = Some i"
    by (auto simp: find_Some_iff dest: nth_mem)
  moreover have "(\<lambda>(_ :: string, msg :: UnifiedMessage). case mMessageId msg of None \<Rightarrow> True | Some i \<Rightarrow> i < x) =
      (\<lambda>(_, msg). mMessageId msg = None \<or> the (mMessageId msg) < x)"
    by (rule ext, rename_tac kv, case_tac "mMessageId (snd kv)") auto
  ultimately show ?thesis
    using Some x by (auto simp: cleanupMessagesAfterEdit_def)
qed

text \<open>An incremental recovery reaches back far enough. What it resumes after is the id of a message
  before the one that is still changing, the newest such; so the changing message and all after it
  are asked for again.\<close>

theorem sync_resumes_before_active:
  assumes "jm_wf (sMessages s)" and "getSyncAfterMessageIdBeforeSubtask e s sub = Some a"
  shows "\<exists>act i. active_message e s sub = Some act \<and> mMessageId act = Some i \<and> a < i \<and>
    (\<exists>k m. jm_get (sMessages s) k = Some m \<and> mMessageId m = Some a) \<and>
    (\<forall>k m j. jm_get (sMessages s) k = Some m \<and> mMessageId m = Some j \<and> j < i \<longrightarrow> j \<le> a)"
proof -
  from assms(2) obtain act i where act: "active_message e s sub = Some act" "mMessageId act = Some i"
    unfolding getSyncAfterMessageIdBeforeSubtask_def
    by (cases "active_message e s sub") (auto split: option.splits)
  define f where "f = (\<lambda>(_ :: string, message :: UnifiedMessage). case mMessageId message of
      None \<Rightarrow> None | Some j \<Rightarrow> if i \<le> j then None else Some j)"
  have "foldl later_id None (map f (sMessages s)) = Some a"
    using assms(2) act by (simp add: getSyncAfterMessageIdBeforeSubtask_def f_def)
  note found = later_id_Some [OF this]
  have f: "f (k, m) = Some j \<longleftrightarrow> mMessageId m = Some j \<and> j < i" for k m j
    by (auto simp: f_def split: option.split)
  from found obtain kv where kv: "kv \<in> set (sMessages s)" "f kv = Some a" by auto
  obtain k m where "kv = (k, m)" by (cases kv)
  with kv f have km: "jm_get (sMessages s) k = Some m" "mMessageId m = Some a" "a < i"
    using jm_in_get [OF assms(1)] by auto
  moreover have "j \<le> a" if "jm_get (sMessages s) k = Some m" "mMessageId m = Some j" "j < i" for k m j
  proof -
    have "f (k, m) = Some j" using that f by blast
    then have "Some j \<in> set (map f (sMessages s))" using jm_get_in [OF that(1)] by force
    then show ?thesis using found by blast
  qed
  ultimately show ?thesis using act by blast
qed

definition demo_turns :: TaskMachineInternalState where
  "demo_turns = (initial_state 1)\<lparr>sMessages :=
     [(''u'', (new_message ''u'' MtUser MsCompleted [97] (Some 1))\<lparr>mMessageId := Some 3\<rparr>),
      (''ai-7'', (new_message ''ai-7'' MtAi MsStreaming [97] (Some 1))
         \<lparr>mSubtaskId := Some 7, mMessageId := Some 5\<rparr>)]\<rparr>"

theorem sync_resumes_before_active_witness:
  "\<exists>act i. active_message demo_env demo_turns None = Some act \<and> mMessageId act = Some i \<and> 3 < i"
proof -
  have wf: "jm_wf (sMessages demo_turns)" by (simp add: demo_turns_def jm_wf_def)
  have "getSyncAfterMessageIdBeforeSubtask demo_env demo_turns None = Some 3" by code_simp
  from sync_resumes_before_active [OF wf this] show ?thesis by blast
qed

lemma lifecycle_in_recovery:
  "sStatus s \<in> {StJoining, StSyncing} \<Longrightarrow> sStatus (lcState (applyTaskLifecycleStatusToState e s t u)) = sStatus s"
  by (auto simp: applyTaskLifecycleStatusToState_def Let_def)

lemma lifecycle_not_recovery:
  "sStatus s \<notin> {StJoining, StSyncing} \<Longrightarrow>
   sStatus (lcState (applyTaskLifecycleStatusToState e s t u)) \<notin> {StJoining, StSyncing}"
  by (auto simp: applyTaskLifecycleStatusToState_def Let_def)

lemma lifecycle_task_id: "sTaskId (lcState (applyTaskLifecycleStatusToState e s t u)) = sTaskId s"
  by (simp add: applyTaskLifecycleStatusToState_def Let_def)

text \<open>After a reconnect the room is always joined again, and completely. When the check that follows a
  reconnect gets its answer, whatever it says, a machine with a socket either starts a join of its
  task that asks for every message, or, if a join is under way, queues one after it; without a socket
  it waits for one, having asked for it.\<close>

theorem reconnect_rejoins:
  "let m' = reconcileRuntime e server WebsocketReconnect pb m in
    if \<not> connected e then sStatus (mcState m') = StWaitingSocket \<and> last (mcEffects m') = EnsureConnected
    else if sStatus (mcState m) \<in> {StJoining, StSyncing}
    then mcPendingRecovery m' \<and> mcPendingReason m' = Some WebsocketReconnect \<and> mcEffects m' = mcEffects m
    else sStatus (mcState m') = StJoining \<and>
      (\<exists>opts. last (mcEffects m') = JoinTask (sTaskId (mcState m)) opts (mcRecoveryVersion m') \<and>
         joAfterMessageId opts = None)"
proof -
  have rec: "shouldJoinOrResume e s server WebsocketReconnect" for s
    by (simp add: shouldJoinOrResume_def Let_def)
  have eff: "mcEffects (applyTaskLifecycleStatus e t u m) = mcEffects m" for t u
    by (simp add: applyTaskLifecycleStatus_def Let_def)
  have tid: "sTaskId (enterJoining r s) = sTaskId s" "sTaskId (recordRuntimeVerification e server s) = sTaskId s" for r s
    by (simp_all add: enterJoining_def recordRuntimeVerification_def)
  show ?thesis
    using lifecycle_in_recovery [of "mcState m" e "vTaskStatus server" "vStatusUpdatedAt server"]
      lifecycle_not_recovery [of "mcState m" e "vTaskStatus server" "vStatusUpdatedAt server"]
    by (simp add: reconcileRuntime_def rec joinOrResumeFromRuntime_def recoverToStableState_def Let_def
        returns_def eff tid lifecycle_task_id buildRecoverJoinOptions_def)
      (auto simp: queue_recovery_def spawn_def eff)
qed

end
