(* ===== verification/RuntimeTaskTypes.thy ===== *)
theory RuntimeTaskTypes
  imports Prelude
begin

text \<open>
  The data of the runtime task lifecycle, from
  \<open>wework/src/features/workbench/runtimeTaskLifecycle/types.ts\<close>, with \<open>RuntimeTaskSummary\<close> and
  \<open>RuntimeExecutionState\<close> of \<open>packages/chat-core/src/runtime-task-api-types.ts\<close> and
  \<open>RuntimeTaskAddress\<close> of \<open>runtime.ts\<close>. Undefined and null are one \<open>None\<close> except for the two
  properties where the code tells them apart (\<open>'a option option\<close>, the outer \<open>None\<close> a missing
  property). Strings are ASCII. \<open>esRevision\<close> is \<open>BigInt(revision)\<close>. Properties no code here reads
  are in \<open>tsOthers\<close> and \<open>adOthers\<close>.
\<close>

datatype RuntimeTaskExecutionPhase =
    EpUnknown | EpIdle | EpQueued | EpStarting | EpRunning | EpContinuing | EpRecovering | EpStopping

datatype RuntimeTaskTurnPhase = TpIdle | TpSubmitting | TpAwaiting | TpStreaming

datatype TurnOutcome = Succeeded | Failed | Cancelled

datatype RuntimeGoalStatus = GActive | GPaused | GBlocked | GUsageLimited | GBudgetLimited | GComplete

datatype RuntimeGoalExecutionStatus = GeRunning | GeRecovering | GeNeedsAttention

datatype RuntimeTaskInteractionStatus = WaitingForUserInput | AwaitingUserReply

text \<open>A timestamp is a number of milliseconds or a string.\<close>

datatype timestamp = TimeNum int | TimeStr string

record RuntimeExecutionState =
  esEpoch :: "string option"
  esRevision :: int
  esPhase :: RuntimeTaskExecutionPhase
  esTurnId :: "string option"
  esLatestTurnId :: "string option"
  esOutcome :: "TurnOutcome option"
  esStartedAt :: "int option"

record RuntimeTaskSummary =
  tsExecutionState :: "RuntimeExecutionState option"
  tsTaskId :: string
  tsCreatedAt :: "timestamp option"
  tsUpdatedAt :: "timestamp option"
  tsCompletedAt :: "timestamp option"
  tsRunning :: "bool option"
  tsContinuable :: "bool option"
  tsThreadStatus :: "string option"
  tsTurnStatus :: "string option"
  tsStatus :: "string option"
  tsQueuePosition :: "int option"
  tsGoalStatus :: "RuntimeGoalStatus option option"
  tsGoalExecutionStatus :: "RuntimeGoalExecutionStatus option"
  tsInteractionStatus :: "RuntimeTaskInteractionStatus option option"
  tsOptimistic :: "bool option"
  tsCachedProjection :: "bool option"
  tsError :: "string option"
  tsRuntimeHandle :: "(string \<times> json) list option"
  tsOthers :: "(string \<times> json) list"

record RuntimeTaskAddress =
  adDeviceId :: string
  adTaskId :: string
  adThreadId :: "string option"
  adWorkspacePath :: "string option"
  adRuntimeHandle :: "(string \<times> json) list option"
  adOthers :: "(string, json) jsmap"

record RuntimeTaskLifecycleState =
  lsAddress :: RuntimeTaskAddress
  lsTask :: "RuntimeTaskSummary option"
  lsWorkspaceCreationKind :: "string option"
  lsExecutionPhase :: RuntimeTaskExecutionPhase
  lsTurnPhase :: RuntimeTaskTurnPhase
  lsTurnOutcome :: "TurnOutcome option"
  lsActiveTurnId :: "string option"
  lsLatestTurnId :: "string option"
  lsGoalStatus :: "RuntimeGoalStatus option"
  lsInteractionStatus :: "RuntimeTaskInteractionStatus option"
  lsHasAuthoritativeGoalStatus :: bool
  lsContinuable :: bool
  lsUnread :: bool
  lsExpectedExecutorRunning :: "bool option"

datatype RuntimeTaskLifecycleEvent =
    ExecutorReplaced
  | ExecutorSnapshotReceived RuntimeTaskAddress RuntimeTaskSummary
  | SendRequested "string option"
  | SendAccepted
  | SendQueued "int option option"
  | SendRejected
  | SendBlockedByActiveTurn
  | StopRequested
  | StopRejected
  | ExecutorStarted
  | ExecutorSettled
  | TurnStarted "string option"
  | TurnSettled "string option" "TurnOutcome option"
  | TurnRecovered bool "string option"
  | UserInputRequested bool
  | UserInputResponded
  | GoalStatusReceived "RuntimeGoalStatus option"
  | MarkedRead
  | MarkedUnread

record RuntimeTaskLifecycleDerivedState =
  ldExecutionKnown :: bool
  ldIsRunning :: bool
  ldIsQueued :: bool
  ldIsTurnActive :: bool
  ldIsThinking :: bool
  ldIsBusy :: bool
  ldCanSend :: bool
  ldCanQueue :: bool
  ldShouldShowSidebarRunning :: bool
  ldShouldShowSidebarWaiting :: bool
  ldShouldShowUnread :: bool

record RuntimeTaskLifecycleSnapshot =
  snKey :: string
  snAddress :: RuntimeTaskAddress
  snTask :: "RuntimeTaskSummary option"
  snWorkspaceCreationKind :: "string option"
  snExecutionPhase :: RuntimeTaskExecutionPhase
  snExecutionKnown :: bool
  snExecutionRunning :: bool
  snTurnPhase :: RuntimeTaskTurnPhase
  snTurnActive :: bool
  snTurnId :: "string option"
  snTurnLatestId :: "string option"
  snTurnOutcome :: "TurnOutcome option"
  snGoalStatus :: "RuntimeGoalStatus option"
  snInteractionStatus :: "RuntimeTaskInteractionStatus option"
  snContinuable :: bool
  snUnread :: bool
  snDerived :: RuntimeTaskLifecycleDerivedState

subsection \<open>Status words\<close>

definition js_space :: "char \<Rightarrow> bool" where
  "js_space c \<longleftrightarrow> (of_char c :: nat) \<in> {9, 10, 11, 12, 13, 32}"

definition js_trim :: "string \<Rightarrow> string" where
  "js_trim s = rev (dropWhile js_space (rev (dropWhile js_space s)))"

definition lower_char :: "char \<Rightarrow> char" where
  "lower_char c = (let n = of_char c :: nat in if 65 \<le> n \<and> n \<le> 90 then char_of (n + 32) else c)"

text \<open>\<open>s?.trim().toLowerCase()\<close>, and with \<open>replace(/[_-]/g, '')\<close> before.\<close>

definition word_of :: "string option \<Rightarrow> string option" where
  "word_of s = map_option (\<lambda>x. map lower_char (js_trim x)) s"

definition bare_word_of :: "string option \<Rightarrow> string option" where
  "bare_word_of s = word_of (map_option (filter (\<lambda>c. c \<noteq> CHR ''_'' \<and> c \<noteq> CHR ''-'')) s)"

lemma word_of_None [simp]: "word_of None = None" "bare_word_of None = None"
  by (simp_all add: word_of_def bare_word_of_def)

end
