(* ===== verification/RuntimeTaskProjection.thy ===== *)
theory RuntimeTaskProjection
  imports RuntimeTaskTypes
begin

text \<open>
  What a task summary says about the task, and which of two summaries of a task to keep, from
  \<open>wework/src/features/workbench/runtimeTaskLifecycle/projection.ts\<close>. \<open>pd\<close> is \<open>Date.parse\<close>,
  \<open>None\<close> for NaN. A summary with an execution state (a native one) is judged by that alone.
\<close>

definition isRuntimeTaskQueued :: "RuntimeTaskSummary \<Rightarrow> bool" where
  "isRuntimeTaskQueued task \<longleftrightarrow> word_of (tsStatus task) = Some ''queued''"

definition isRuntimeTaskRunningStatus :: "string option \<Rightarrow> bool" where
  "isRuntimeTaskRunningStatus status \<longleftrightarrow>
     bare_word_of status \<in> {Some ''active'', Some ''inprogress'', Some ''running''}"

definition isRuntimeTurnRunningStatus :: "string option \<Rightarrow> bool" where
  "isRuntimeTurnRunningStatus status \<longleftrightarrow>
     bare_word_of status \<in> {Some ''active'', Some ''inprogress'', Some ''pending'', Some ''streaming''}"

text \<open>The turns of a transcript, as far as the lifecycle reads them.\<close>

record TranscriptTurn =
  ttId :: "string option"
  ttStatus :: "string option"
  ttCompletedAt :: "timestamp option"

record RuntimePaneTranscript =
  trRunning :: "bool option"
  trTurns :: "TranscriptTurn list"

definition isRuntimePaneTranscriptConfirmedIdle :: "RuntimePaneTranscript \<Rightarrow> bool" where
  "isRuntimePaneTranscriptConfirmedIdle transcript =
     (if trRunning transcript \<noteq> Some False then False
      else \<not> list_ex (\<lambda>turn. isRuntimeTurnRunningStatus (ttStatus turn)) (trTurns transcript))"

definition native_running :: "RuntimeExecutionState \<Rightarrow> bool" where
  "native_running x \<longleftrightarrow> esPhase x \<noteq> EpIdle \<and> esPhase x \<noteq> EpQueued"

definition isRuntimeGoalExecutionActive :: "RuntimeTaskSummary \<Rightarrow> bool" where
  "isRuntimeGoalExecutionActive task =
     (case tsExecutionState task of
        Some x \<Rightarrow> tsGoalStatus task = Some (Some GActive) \<and> native_running x
      | None \<Rightarrow>
          if tsGoalExecutionStatus task = Some GeRunning \<or> tsGoalExecutionStatus task = Some GeRecovering
          then True
          else tsGoalStatus task = Some (Some GActive) \<and> isRuntimeTaskQueued task)"

definition isRuntimeTaskAuthoritativeCompletion :: "RuntimeTaskSummary \<Rightarrow> bool" where
  "isRuntimeTaskAuthoritativeCompletion task =
     (case tsExecutionState task of
        Some x \<Rightarrow> esPhase x = EpIdle
      | None \<Rightarrow> tsRunning task = Some False \<and> tsCompletedAt task \<noteq> None
          \<and> \<not> isRuntimeGoalExecutionActive task)"

definition settled_status :: "RuntimeTaskSummary \<Rightarrow> string" where
  "settled_status task =
     (let status = word_of (tsStatus task); turnStatus = word_of (tsTurnStatus task)
      in if status = Some ''failed'' \<or> status = Some ''error'' \<or> turnStatus = Some ''failed'' then ''failed''
         else if status = Some ''cancelled'' \<or> status = Some ''canceled'' \<or> turnStatus = Some ''interrupted''
           then ''cancelled''
         else if status = Some ''archived'' then ''archived''
         else ''done'')"

definition settled_turn_status :: "RuntimeTaskSummary \<Rightarrow> string option" where
  "settled_turn_status task =
     (let turnStatus = word_of (tsTurnStatus task)
      in if turnStatus = Some ''failed'' \<or> turnStatus = Some ''interrupted'' then tsTurnStatus task
         else Some ''completed'')"

definition normalizeRuntimeTaskSummary :: "RuntimeTaskSummary \<Rightarrow> RuntimeTaskSummary" where
  "normalizeRuntimeTaskSummary task =
     (if tsExecutionState task \<noteq> None then task
      else if \<not> isRuntimeTaskAuthoritativeCompletion task then task
      else if tsStatus task = Some (settled_status task) \<and> tsTurnStatus task = settled_turn_status task
              \<and> tsOptimistic task \<noteq> Some True then task
      else task\<lparr>tsOptimistic := None, tsStatus := Some (settled_status task),
                tsTurnStatus := settled_turn_status task\<rparr>)"

definition isRuntimeTaskExecutionRunning :: "RuntimeTaskSummary \<Rightarrow> bool" where
  "isRuntimeTaskExecutionRunning task =
     (case tsExecutionState task of
        Some x \<Rightarrow> native_running x
      | None \<Rightarrow>
          (let normalizedTask = normalizeRuntimeTaskSummary task
           in if tsOptimistic normalizedTask = Some True then False
              else if isRuntimeGoalExecutionActive normalizedTask then True
              else tsRunning normalizedTask = Some True \<and> tsCompletedAt normalizedTask = None))"

definition isRuntimeTaskConfirmedActive :: "RuntimeTaskSummary \<Rightarrow> bool" where
  "isRuntimeTaskConfirmedActive task =
     (if tsExecutionState task \<noteq> None then isRuntimeTaskExecutionRunning task
      else if tsOptimistic task = Some True then False
      else if isRuntimeGoalExecutionActive task then True
      else tsRunning task = Some True \<and> tsCompletedAt task = None
        \<and> (isRuntimeTaskRunningStatus (tsThreadStatus task) \<or> isRuntimeTaskRunningStatus (tsTurnStatus task)))"

definition isRuntimeTaskOptimisticallyActive :: "RuntimeTaskSummary \<Rightarrow> bool" where
  "isRuntimeTaskOptimisticallyActive task \<longleftrightarrow> tsOptimistic task = Some True \<and>
     tsStatus task \<in> {Some ''creating'', Some ''queued'', Some ''active'', Some ''running''}"

datatype RuntimeTaskBoardState = BoardAttention | BoardQueued | BoardActive | BoardCompleted

definition runtimeTaskBoardState :: "RuntimeTaskSummary \<Rightarrow> RuntimeTaskBoardState" where
  "runtimeTaskBoardState task =
     (let normalizedTask = normalizeRuntimeTaskSummary task;
          status = word_of (tsStatus normalizedTask);
          turnStatus = word_of (tsTurnStatus normalizedTask)
      in if status \<in> {Some ''failed'', Some ''error'', Some ''cancelled'', Some ''canceled''}
            \<or> turnStatus = Some ''failed'' \<or> turnStatus = Some ''interrupted'' then BoardAttention
         else if tsRunning normalizedTask = Some True \<or> isRuntimeTaskConfirmedActive normalizedTask
            \<or> isRuntimeTaskOptimisticallyActive normalizedTask then BoardActive
         else if isRuntimeTaskQueued normalizedTask then BoardQueued
         else if isRuntimeTaskAuthoritativeCompletion normalizedTask then BoardCompleted
         else BoardAttention)"

definition runtimeTaskReconciliationSnapshot ::
    "RuntimeTaskSummary \<Rightarrow> string \<times> bool \<times> string option" where
  "runtimeTaskReconciliationSnapshot task =
     (let canonical = normalizeRuntimeTaskSummary task
      in (the_or [] (tsStatus canonical), isRuntimeTaskConfirmedActive canonical, tsTurnStatus canonical))"

datatype RuntimeTaskTrackingExecutionStatus =
    TrQueued | TrRunning | TrSucceeded | TrFailed | TrCancelled | TrArchived

definition runtimeTaskSummaryTrackingExecutionStatus ::
    "RuntimeTaskSummary \<Rightarrow> RuntimeTaskTrackingExecutionStatus option" where
  "runtimeTaskSummaryTrackingExecutionStatus task =
     (let normalizedTask = normalizeRuntimeTaskSummary task;
          status = word_of (tsStatus normalizedTask);
          turnStatus = word_of (tsTurnStatus normalizedTask);
          threadStatus = word_of (tsThreadStatus normalizedTask)
      in if status = Some ''archived'' then Some TrArchived
         else if status = Some ''failed'' \<or> status = Some ''error'' \<or> turnStatus = Some ''failed''
            \<or> threadStatus = Some ''systemerror'' \<or> opt_truthy truthy_text (tsError normalizedTask)
           then Some TrFailed
         else if status = Some ''cancelled'' \<or> status = Some ''canceled''
            \<or> turnStatus \<in> {Some ''cancelled'', Some ''canceled'', Some ''interrupted''}
           then Some TrCancelled
         else if status = Some ''queued'' then Some TrQueued
         else if isRuntimeTaskExecutionRunning normalizedTask then Some TrRunning
         else if isRuntimeTaskAuthoritativeCompletion normalizedTask
            \<or> status \<in> {Some ''done'', Some ''completed'', Some ''succeeded''} then Some TrSucceeded
         else None)"

fun outcome_status :: "TurnOutcome \<Rightarrow> RuntimeTaskTrackingExecutionStatus" where
  "outcome_status Succeeded = TrSucceeded"
| "outcome_status Failed = TrFailed"
| "outcome_status Cancelled = TrCancelled"

definition runtimeTaskTrackingExecutionStatus ::
    "RuntimeTaskLifecycleSnapshot \<Rightarrow> RuntimeTaskTrackingExecutionStatus option" where
  "runtimeTaskTrackingExecutionStatus lifecycle =
     (case snTask lifecycle of
        Some task \<Rightarrow>
          if tsExecutionState task \<noteq> None then runtimeTaskSummaryTrackingExecutionStatus task
          else if ldIsQueued (snDerived lifecycle) then Some TrQueued
          else if snTurnActive lifecycle then Some TrRunning
          else if snTurnOutcome lifecycle \<noteq> None then map_option outcome_status (snTurnOutcome lifecycle)
          else if ldIsRunning (snDerived lifecycle) then Some TrRunning
          else runtimeTaskSummaryTrackingExecutionStatus task
      | None \<Rightarrow>
          if ldIsQueued (snDerived lifecycle) then Some TrQueued
          else if snTurnActive lifecycle then Some TrRunning
          else if snTurnOutcome lifecycle \<noteq> None then map_option outcome_status (snTurnOutcome lifecycle)
          else if ldIsRunning (snDerived lifecycle) then Some TrRunning
          else None)"

subsection \<open>Which of two summaries to keep\<close>

definition runtimeTaskTimestamp :: "(string \<Rightarrow> int option) \<Rightarrow> timestamp option \<Rightarrow> int" where
  "runtimeTaskTimestamp pd value = (case value of
       None \<Rightarrow> 0
     | Some (TimeNum n) \<Rightarrow> n
     | Some (TimeStr s) \<Rightarrow> (if s = [] then 0 else the_or 0 (pd s)))"

definition runtimeTaskProjectionTime :: "(string \<Rightarrow> int option) \<Rightarrow> RuntimeTaskSummary \<Rightarrow> int" where
  "runtimeTaskProjectionTime pd task =
     max (max (runtimeTaskTimestamp pd (tsUpdatedAt task)) (runtimeTaskTimestamp pd (tsCompletedAt task)))
       (runtimeTaskTimestamp pd (tsCreatedAt task))"

definition lastTurnId :: "RuntimeTaskSummary \<Rightarrow> json option" where
  "lastTurnId task = Option.bind (tsRuntimeHandle task) (\<lambda>h. map_of h ''lastTurnId'')"

text \<open>\<open>===\<close> on two JSON values from separate summaries: objects and arrays are never identical.\<close>

fun same_json :: "json \<Rightarrow> json \<Rightarrow> bool" where
  "same_json (JArr _) _ = False"
| "same_json (JObj _) _ = False"
| "same_json a b = (a = b)"

definition same_turn :: "RuntimeTaskSummary \<Rightarrow> RuntimeTaskSummary \<Rightarrow> bool" where
  "same_turn current candidate \<longleftrightarrow> opt_truthy truthy_json (lastTurnId current)
     \<and> opt_truthy (\<lambda>b. opt_truthy (\<lambda>a. same_json a b) (lastTurnId current)) (lastTurnId candidate)"

definition shouldReplaceRuntimeTaskProjection ::
    "(string \<Rightarrow> int option) \<Rightarrow> RuntimeTaskSummary \<Rightarrow> RuntimeTaskSummary \<Rightarrow> bool \<Rightarrow> bool" where
  "shouldReplaceRuntimeTaskProjection pd currentTask candidateTask hasPendingSend =
     (let current = normalizeRuntimeTaskSummary currentTask;
          candidate = normalizeRuntimeTaskSummary candidateTask;
          currentCompleted = isRuntimeTaskAuthoritativeCompletion current;
          candidateCompleted = isRuntimeTaskAuthoritativeCompletion candidate;
          currentTime = runtimeTaskProjectionTime pd current;
          candidateTime = runtimeTaskProjectionTime pd candidate
      in case (tsExecutionState current, tsExecutionState candidate) of
           (Some _, None) \<Rightarrow> False
         | (None, Some _) \<Rightarrow> True
         | (Some x, Some y) \<Rightarrow> esRevision x < esRevision y
         | (None, None) \<Rightarrow>
             if tsCachedProjection current \<noteq> tsCachedProjection candidate
               then tsCachedProjection current = Some True
             else if currentCompleted \<noteq> candidateCompleted then
               (if currentCompleted \<and> same_turn current candidate \<and> \<not> hasPendingSend then False
                else if candidateCompleted then
                  (if \<not> isRuntimeTaskExecutionRunning current then True
                   else let completedAt = runtimeTaskTimestamp pd (tsCompletedAt candidate)
                        in completedAt = 0 \<or> currentTime div 1000 \<le> completedAt div 1000)
                else if \<not> isRuntimeTaskConfirmedActive candidate then False
                else candidateTime = 0 \<or> currentTime < candidateTime)
             else if tsOptimistic current = Some True \<and> tsOptimistic candidate \<noteq> Some True then
               \<not> (isRuntimeTaskOptimisticallyActive current \<and> tsRunning candidate = Some False
                  \<and> \<not> isRuntimeTaskQueued candidate)
             else if tsOptimistic current \<noteq> Some True \<and> tsOptimistic candidate = Some True then False
             else if candidateTime \<noteq> currentTime then currentTime < candidateTime
             else True)"

subsection \<open>Normal forms\<close>

lemma settled_words [simp]:
  "word_of (Some ''failed'') = Some ''failed''" "word_of (Some ''cancelled'') = Some ''cancelled''"
  "word_of (Some ''archived'') = Some ''archived''" "word_of (Some ''done'') = Some ''done''"
  "word_of (Some ''completed'') = Some ''completed''"
  by code_simp+

lemma settled_status_cases: "settled_status t \<in> {''failed'', ''cancelled'', ''archived'', ''done''}"
  by (simp add: settled_status_def Let_def)

lemma settled_status_word [simp]: "word_of (Some (settled_status t)) = Some (settled_status t)"
  using settled_status_cases [of t] by auto

lemma settled_turn_word:
  "word_of (settled_turn_status t) =
     (if word_of (tsTurnStatus t) \<in> {Some ''failed'', Some ''interrupted''} then word_of (tsTurnStatus t)
      else Some ''completed'')"
  by (auto simp: settled_turn_status_def Let_def)

lemma settled_again:
  assumes "tsStatus t' = Some (settled_status t)" and "tsTurnStatus t' = settled_turn_status t"
  shows "settled_status t' = settled_status t" and "settled_turn_status t' = settled_turn_status t"
proof -
  have turn: "word_of (tsTurnStatus t') = (if word_of (tsTurnStatus t) \<in> {Some ''failed'', Some ''interrupted''}
      then word_of (tsTurnStatus t) else Some ''completed'')"
    using assms(2) by (simp add: settled_turn_word)
  show "settled_turn_status t' = settled_turn_status t"
    using assms(2) turn by (auto simp: settled_turn_status_def Let_def)
  have "word_of (tsStatus t') = Some (settled_status t)" using assms(1) by simp
  then show "settled_status t' = settled_status t"
    using turn unfolding settled_status_def Let_def by (auto split: if_splits)
qed

lemma not_queued_when_settled: "tsStatus t' = Some (settled_status t) \<Longrightarrow> \<not> isRuntimeTaskQueued t'"
  using settled_status_cases [of t] by (auto simp: isRuntimeTaskQueued_def)

text \<open>A completed summary of a task that is not native, and its normal form.\<close>

lemma normalize_completed:
  assumes "tsExecutionState t = None" and "isRuntimeTaskAuthoritativeCompletion t"
  shows "tsStatus (normalizeRuntimeTaskSummary t) = Some (settled_status t)"
    and "tsTurnStatus (normalizeRuntimeTaskSummary t) = settled_turn_status t"
    and "tsOptimistic (normalizeRuntimeTaskSummary t) \<noteq> Some True"
  using assms by (auto simp: normalizeRuntimeTaskSummary_def)

lemma normalize_frame [simp]:
  "tsExecutionState (normalizeRuntimeTaskSummary t) = tsExecutionState t"
  "tsRunning (normalizeRuntimeTaskSummary t) = tsRunning t"
  "tsCompletedAt (normalizeRuntimeTaskSummary t) = tsCompletedAt t"
  "tsUpdatedAt (normalizeRuntimeTaskSummary t) = tsUpdatedAt t"
  "tsCreatedAt (normalizeRuntimeTaskSummary t) = tsCreatedAt t"
  "tsGoalStatus (normalizeRuntimeTaskSummary t) = tsGoalStatus t"
  "tsGoalExecutionStatus (normalizeRuntimeTaskSummary t) = tsGoalExecutionStatus t"
  "tsRuntimeHandle (normalizeRuntimeTaskSummary t) = tsRuntimeHandle t"
  "tsCachedProjection (normalizeRuntimeTaskSummary t) = tsCachedProjection t"
  by (simp_all add: normalizeRuntimeTaskSummary_def)

lemma normalize_completion [simp]:
  "isRuntimeTaskAuthoritativeCompletion (normalizeRuntimeTaskSummary t) = isRuntimeTaskAuthoritativeCompletion t"
proof (cases "tsExecutionState t = None \<and> isRuntimeTaskAuthoritativeCompletion t")
  case True
  then have "\<not> isRuntimeTaskQueued (normalizeRuntimeTaskSummary t)"
    by (intro not_queued_when_settled [of _ t] normalize_completed) auto
  with True show ?thesis
    by (auto simp: isRuntimeTaskAuthoritativeCompletion_def isRuntimeGoalExecutionActive_def split: option.splits)
next
  case False
  then have "normalizeRuntimeTaskSummary t = t" by (auto simp: normalizeRuntimeTaskSummary_def)
  then show ?thesis by simp
qed

lemma normalize_again: "normalizeRuntimeTaskSummary (normalizeRuntimeTaskSummary t) = normalizeRuntimeTaskSummary t"
proof (cases "tsExecutionState t = None \<and> isRuntimeTaskAuthoritativeCompletion t")
  case True
  let ?n = "normalizeRuntimeTaskSummary t"
  note n = normalize_completed [of t]
  have "tsStatus ?n = Some (settled_status ?n)" "tsTurnStatus ?n = settled_turn_status ?n"
    using n settled_again [of ?n t] True by simp_all
  with n True show ?thesis by (simp add: normalizeRuntimeTaskSummary_def [of ?n])
next
  case False
  then have "normalizeRuntimeTaskSummary t = t" by (auto simp: normalizeRuntimeTaskSummary_def)
  then show ?thesis by simp
qed

text \<open>Normalising a summary is idempotent, keeps everything the choice between summaries depends on,
  and brings a completed task into one of four final states, never an optimistic one.\<close>

theorem normalize_idempotent:
  "let n = normalizeRuntimeTaskSummary t in
    normalizeRuntimeTaskSummary n = n \<and>
    isRuntimeTaskAuthoritativeCompletion n = isRuntimeTaskAuthoritativeCompletion t \<and>
    runtimeTaskProjectionTime pd n = runtimeTaskProjectionTime pd t \<and> lastTurnId n = lastTurnId t \<and>
    (tsExecutionState t = None \<and> isRuntimeTaskAuthoritativeCompletion t \<longrightarrow>
       tsStatus n \<in> {Some ''failed'', Some ''cancelled'', Some ''archived'', Some ''done''} \<and>
       tsOptimistic n \<noteq> Some True)"
  using normalize_completed [of t] settled_status_cases [of t]
  by (auto simp: Let_def runtimeTaskProjectionTime_def lastTurnId_def normalize_again)

definition demo_done_task :: RuntimeTaskSummary where
  "demo_done_task = \<lparr>tsExecutionState = None, tsTaskId = ''t'', tsCreatedAt = None, tsUpdatedAt = Some (TimeNum 5000),
     tsCompletedAt = Some (TimeNum 4000), tsRunning = Some False, tsContinuable = None, tsThreadStatus = None,
     tsTurnStatus = Some ''Interrupted'', tsStatus = Some '' Queued '', tsQueuePosition = None, tsGoalStatus = None,
     tsGoalExecutionStatus = None, tsInteractionStatus = None, tsOptimistic = Some True,
     tsCachedProjection = None, tsError = None,
     tsRuntimeHandle = Some [(''lastTurnId'', JStr [116])], tsOthers = []\<rparr>"

lemma demo_done_completed: "isRuntimeTaskAuthoritativeCompletion demo_done_task"
  by (simp add: isRuntimeTaskAuthoritativeCompletion_def isRuntimeGoalExecutionActive_def demo_done_task_def)

theorem normalize_idempotent_witness:
  "tsOptimistic (normalizeRuntimeTaskSummary demo_done_task) \<noteq> Some True"
proof -
  have "tsExecutionState demo_done_task = None" by (simp add: demo_done_task_def)
  with normalize_idempotent [of demo_done_task] demo_done_completed show ?thesis by (simp add: Let_def)
qed

text \<open>A task that has completed is never shown as still going: on the board it is completed or needs
  attention, in tracking it has succeeded, failed, been cancelled or archived, and it is neither
  running nor confirmed active, whatever its status words say.\<close>

theorem completed_is_not_running:
  assumes "isRuntimeTaskAuthoritativeCompletion t"
    and "case tsExecutionState t of None \<Rightarrow> True | Some _ \<Rightarrow> tsRunning t \<noteq> Some True \<and>
      tsOptimistic t \<noteq> Some True \<and> word_of (tsStatus t) \<noteq> Some ''queued''"
  shows "runtimeTaskBoardState t \<in> {BoardCompleted, BoardAttention} \<and>
    runtimeTaskSummaryTrackingExecutionStatus t \<in> Some ` {TrSucceeded, TrFailed, TrCancelled, TrArchived} \<and>
    \<not> isRuntimeTaskExecutionRunning t \<and> \<not> isRuntimeTaskConfirmedActive t"
proof (cases "tsExecutionState t")
  case None
  let ?n = "normalizeRuntimeTaskSummary t"
  note n = normalize_completed [OF None assms(1)]
  have nq: "\<not> isRuntimeTaskQueued ?n" using n(1) by (rule not_queued_when_settled)
  have goal: "\<not> isRuntimeGoalExecutionActive t" "\<not> isRuntimeGoalExecutionActive ?n"
    and run: "tsRunning t = Some False"
    using assms(1) normalize_completion [of t] None
    by (auto simp: isRuntimeTaskAuthoritativeCompletion_def)
  have "\<not> isRuntimeTaskConfirmedActive t" "\<not> isRuntimeTaskConfirmedActive ?n"
    "\<not> isRuntimeTaskExecutionRunning t" "\<not> isRuntimeTaskOptimisticallyActive ?n"
    using None goal run n(3)
    by (simp_all add: isRuntimeTaskConfirmedActive_def isRuntimeTaskExecutionRunning_def
        isRuntimeTaskOptimisticallyActive_def)
  moreover have "\<not> isRuntimeTaskExecutionRunning ?n"
    using None run n(3) goal
    by (simp add: isRuntimeTaskExecutionRunning_def normalize_again)
  moreover have "word_of (tsStatus ?n) \<noteq> Some ''queued''" using nq by (simp add: isRuntimeTaskQueued_def)
  ultimately show ?thesis
    using assms(1) None run nq
    by (auto simp: runtimeTaskBoardState_def runtimeTaskSummaryTrackingExecutionStatus_def Let_def)
next
  case (Some x)
  have idle: "\<not> native_running x" using assms(1) Some
    by (simp add: isRuntimeTaskAuthoritativeCompletion_def native_running_def)
  have n: "normalizeRuntimeTaskSummary t = t" using Some by (simp add: normalizeRuntimeTaskSummary_def)
  show ?thesis
    using assms Some idle
    by (auto simp: runtimeTaskBoardState_def runtimeTaskSummaryTrackingExecutionStatus_def n Let_def
        isRuntimeTaskConfirmedActive_def isRuntimeTaskExecutionRunning_def
        isRuntimeTaskOptimisticallyActive_def isRuntimeTaskQueued_def)
qed

theorem completed_is_not_running_witness:
  "runtimeTaskBoardState demo_done_task \<in> {BoardCompleted, BoardAttention}"
  using completed_is_not_running [OF demo_done_completed] by (simp add: demo_done_task_def)

subsection \<open>Replacing a summary\<close>

lemma replace_native:
  "tsExecutionState a = Some x \<Longrightarrow> shouldReplaceRuntimeTaskProjection pd a b pending \<longleftrightarrow>
     (\<exists>y. tsExecutionState b = Some y \<and> esRevision x < esRevision y)"
  by (auto simp: shouldReplaceRuntimeTaskProjection_def Let_def split: option.split)

text \<open>Among summaries of which one is native the choice is a strict order: a native one is replaced
  only by a native one of a higher revision, never by one that is not native; so no sequence of
  replacements returns to a summary it has left, and the order the summaries arrive in does not
  matter.\<close>

theorem native_replacement_order:
  assumes "tsExecutionState a = Some x"
  shows "(shouldReplaceRuntimeTaskProjection pd a b p \<longrightarrow> tsExecutionState b \<noteq> None \<and>
      \<not> shouldReplaceRuntimeTaskProjection pd b a p') \<and>
    \<not> shouldReplaceRuntimeTaskProjection pd a a p \<and>
    (shouldReplaceRuntimeTaskProjection pd a b p \<and> shouldReplaceRuntimeTaskProjection pd b c p' \<longrightarrow>
      shouldReplaceRuntimeTaskProjection pd a c p'')"
proof -
  have "\<not> shouldReplaceRuntimeTaskProjection pd b a p'" if "tsExecutionState b = Some y" "esRevision x < esRevision y" for y
    using that assms replace_native [of b y pd a p'] by auto
  moreover have "shouldReplaceRuntimeTaskProjection pd a c p''"
    if "tsExecutionState b = Some y" "esRevision x < esRevision y" "shouldReplaceRuntimeTaskProjection pd b c p'" for y
    using that assms replace_native [of b y pd c p'] replace_native [OF assms, of pd c p''] by auto
  ultimately show ?thesis
    using replace_native [OF assms, of pd b p] replace_native [OF assms, of pd a p] assms by auto
qed

definition demo_native :: "int \<Rightarrow> RuntimeTaskExecutionPhase \<Rightarrow> RuntimeTaskSummary" where
  "demo_native n ph = demo_done_task\<lparr>tsExecutionState := Some \<lparr>esEpoch = Some ''e'', esRevision = n,
     esPhase = ph, esTurnId = None, esLatestTurnId = None, esOutcome = None, esStartedAt = None\<rparr>\<rparr>"

theorem native_replacement_order_witness:
  "\<not> shouldReplaceRuntimeTaskProjection pd (demo_native 3 EpRunning) (demo_native 3 EpRunning) False"
  using native_replacement_order [of "demo_native 3 EpRunning"
      "\<lparr>esEpoch = Some ''e'', esRevision = 3, esPhase = EpRunning, esTurnId = None, esLatestTurnId = None,
        esOutcome = None, esStartedAt = None\<rparr>" pd _ False]
  by (simp add: demo_native_def)

text \<open>A completed turn is not revived by a delayed snapshot of itself: of two summaries that are not
  native and equally cached, a completed one is not replaced by one that still shows the same turn
  as not completed, unless a message is waiting to be sent; nor by any that does not confirm being
  active.\<close>

theorem completed_turn_not_revived:
  assumes "tsExecutionState a = None" and "tsExecutionState b = None"
    and "tsCachedProjection a = tsCachedProjection b"
    and "isRuntimeTaskAuthoritativeCompletion a" and "\<not> isRuntimeTaskAuthoritativeCompletion b"
    and "same_turn a b \<and> \<not> pending \<or> \<not> isRuntimeTaskConfirmedActive b"
  shows "\<not> shouldReplaceRuntimeTaskProjection pd a b pending"
proof -
  have "normalizeRuntimeTaskSummary b = b" using assms by (simp add: normalizeRuntimeTaskSummary_def)
  moreover have "same_turn (normalizeRuntimeTaskSummary a) b = same_turn a b"
    by (simp add: same_turn_def lastTurnId_def)
  ultimately show ?thesis
    using assms by (auto simp: shouldReplaceRuntimeTaskProjection_def Let_def)
qed

theorem completed_turn_not_revived_witness:
  "\<not> shouldReplaceRuntimeTaskProjection (\<lambda>_. None) demo_done_task
     (demo_done_task\<lparr>tsRunning := Some True, tsCompletedAt := None, tsUpdatedAt := Some (TimeNum 9000),
        tsThreadStatus := Some ''active''\<rparr>) False"
proof (rule completed_turn_not_revived)
  let ?b = "demo_done_task\<lparr>tsRunning := Some True, tsCompletedAt := None, tsUpdatedAt := Some (TimeNum 9000),
        tsThreadStatus := Some ''active''\<rparr>"
  show "isRuntimeTaskAuthoritativeCompletion demo_done_task" by (rule demo_done_completed)
  show "same_turn demo_done_task ?b \<and> \<not> False \<or> \<not> isRuntimeTaskConfirmedActive ?b"
    by (simp add: same_turn_def lastTurnId_def demo_done_task_def)
qed (simp_all add: demo_done_task_def isRuntimeTaskAuthoritativeCompletion_def)

end
