(* ===== verification/RuntimeTaskReducer.thy ===== *)
theory RuntimeTaskReducer
  imports RuntimeTaskProjection
begin

text \<open>
  The reducer of the runtime task lifecycle, from
  \<open>wework/src/features/workbench/runtimeTaskLifecycle/reducer.ts\<close>. The caller tells a change by
  object identity, so the model returns \<open>None\<close> where the code returns the state it was given and
  \<open>Some\<close> a new state elsewhere.
\<close>

definition isTerminalRuntimeStatus :: "string option \<Rightarrow> bool" where
  "isTerminalRuntimeStatus status \<longleftrightarrow> bare_word_of status \<in> Some ` set
     [''done'', ''complete'', ''completed'', ''failed'', ''error'', ''cancelled'', ''canceled'']"

definition mergeAddress :: "RuntimeTaskAddress \<Rightarrow> RuntimeTaskAddress \<Rightarrow> RuntimeTaskAddress" where
  "mergeAddress current incoming =
     \<lparr>adDeviceId = adDeviceId incoming, adTaskId = adTaskId incoming,
      adThreadId = coalesce (adThreadId incoming) (adThreadId current),
      adWorkspacePath = coalesce (adWorkspacePath incoming) (adWorkspacePath current),
      adRuntimeHandle = coalesce (adRuntimeHandle incoming) (adRuntimeHandle current),
      adOthers = foldl (\<lambda>m (k, v). jm_set k v m) (adOthers current) (adOthers incoming)\<rparr>"

abbreviation native_state :: "RuntimeTaskLifecycleState \<Rightarrow> RuntimeExecutionState option" where
  "native_state s \<equiv> Option.bind (lsTask s) tsExecutionState"

definition reduceNativeSnapshot ::
    "RuntimeTaskLifecycleState \<Rightarrow> RuntimeTaskAddress \<Rightarrow> RuntimeTaskSummary \<Rightarrow>
     RuntimeTaskLifecycleState option" where
  "reduceNativeSnapshot state address task =
     (case tsExecutionState task of
        None \<Rightarrow> None
      | Some execution \<Rightarrow>
          if opt_truthy (\<lambda>previous. esRevision execution \<le> esRevision previous) (native_state state) then None
          else Some (state
            \<lparr>lsAddress := mergeAddress (lsAddress state) address,
             lsTask := Some task,
             lsExecutionPhase := esPhase execution,
             lsTurnPhase := (if opt_truthy truthy_text (esTurnId execution) then TpStreaming
                             else if esPhase execution = EpStarting then TpAwaiting else TpIdle),
             lsActiveTurnId := esTurnId execution,
             lsLatestTurnId := esLatestTurnId execution,
             lsTurnOutcome := esOutcome execution,
             lsGoalStatus := the_or None (tsGoalStatus task),
             lsInteractionStatus := the_or None (tsInteractionStatus task),
             lsHasAuthoritativeGoalStatus := True,
             lsContinuable := (tsContinuable task \<noteq> Some False),
             lsExpectedExecutorRunning := None\<rparr>))"

subsection \<open>A snapshot of a task that is not native\<close>

text \<open>The constants the handler computes before it decides, in its order.\<close>

record snapshot_facts =
  sfGoalExecutionActive :: bool
  sfSnapshotRunning :: "bool option"
  sfHasIdentifiedActiveTurn :: bool
  sfTerminalStatus :: bool
  sfQueuedStatus :: bool
  sfSnapshotConfirmsSettlement :: bool
  sfTransitionMismatch :: bool
  sfConfirmsAutonomousTurn :: bool
  sfSnapshotTurnId :: "string option"
  sfTurnAlreadySettled :: bool
  sfRevivesSettledTask :: bool

definition text_field :: "string \<Rightarrow> (string \<times> json) list option \<Rightarrow> string option" where
  "text_field k h = (case Option.bind h (\<lambda>fs. map_of fs k) of
     Some (JStr u) \<Rightarrow> Some (map (\<lambda>w. char_of (unat w)) u) | _ \<Rightarrow> None)"

definition snapshot_facts_of ::
    "RuntimeTaskLifecycleState \<Rightarrow> RuntimeTaskSummary \<Rightarrow> snapshot_facts" where
  "snapshot_facts_of state task =
     (let goalExecutionActive = isRuntimeGoalExecutionActive task;
          snapshotRunning = (if tsRunning task = Some True \<or> goalExecutionActive then Some True
            else map_option (\<lambda>_. False) (tsRunning task));
          expectedRunning = lsExpectedExecutorRunning state;
          hasIdentifiedActiveTurn = (lsTurnPhase state = TpStreaming \<and> lsActiveTurnId state \<noteq> None);
          terminalStatus = isTerminalRuntimeStatus (tsStatus task);
          completionAdvanced = (isRuntimeTaskAuthoritativeCompletion task
            \<and> tsCompletedAt task \<noteq> Option.bind (lsTask state) tsCompletedAt);
          terminalSnapshotAdvanced = (terminalStatus
            \<and> (\<not> isTerminalRuntimeStatus (Option.bind (lsTask state) tsStatus)
               \<or> tsStatus task \<noteq> Option.bind (lsTask state) tsStatus \<or> completionAdvanced));
          awaitingContinuationAdmission = (lsExecutionPhase state = EpStarting
            \<and> opt_truthy isRuntimeTaskAuthoritativeCompletion (lsTask state));
          snapshotConfirmsSettlement = (terminalStatus \<and> \<not> awaitingContinuationAdmission
            \<and> (\<not> hasIdentifiedActiveTurn \<or> completionAdvanced)
            \<and> (expectedRunning \<noteq> Some True \<or> terminalSnapshotAdvanced));
          transitionMismatch = (snapshotRunning \<noteq> None \<and> expectedRunning \<noteq> None
            \<and> snapshotRunning \<noteq> expectedRunning);
          snapshotTurnId = text_field ''lastTurnId'' (tsRuntimeHandle task);
          snapshotTurnAlreadySettled = (snapshotTurnId \<noteq> None
            \<and> snapshotTurnId = lsLatestTurnId state \<and> lsTurnOutcome state \<noteq> None);
          snapshotRevivesSettledTaskWithoutIntent =
            ((opt_truthy isRuntimeTaskAuthoritativeCompletion (lsTask state)
               \<or> (lsExecutionPhase state = EpIdle \<and> lsExpectedExecutorRunning state = Some False))
             \<and> isRuntimeTaskConfirmedActive task \<and> lsGoalStatus state \<noteq> None
             \<and> lsGoalStatus state \<noteq> Some GActive \<and> lsExpectedExecutorRunning state \<noteq> Some True)
      in \<lparr>sfGoalExecutionActive = goalExecutionActive, sfSnapshotRunning = snapshotRunning,
          sfHasIdentifiedActiveTurn = hasIdentifiedActiveTurn, sfTerminalStatus = terminalStatus,
          sfQueuedStatus = isRuntimeTaskQueued task,
          sfSnapshotConfirmsSettlement = snapshotConfirmsSettlement,
          sfTransitionMismatch = transitionMismatch,
          sfConfirmsAutonomousTurn = isRuntimeTaskConfirmedActive task,
          sfSnapshotTurnId = snapshotTurnId, sfTurnAlreadySettled = snapshotTurnAlreadySettled,
          sfRevivesSettledTask = snapshotRevivesSettledTaskWithoutIntent\<rparr>)"

definition snapshot_ignored :: "RuntimeTaskLifecycleState \<Rightarrow> snapshot_facts \<Rightarrow> bool" where
  "snapshot_ignored state f =
     (if sfRevivesSettledTask f then True
      else if sfTurnAlreadySettled f \<and> sfConfirmsAutonomousTurn f \<and> lsExecutionPhase state = EpIdle
         \<and> lsExpectedExecutorRunning state \<noteq> Some True \<and> \<not> sfGoalExecutionActive f then True
      else sfTransitionMismatch f \<and> \<not> sfQueuedStatus f \<and> \<not> sfConfirmsAutonomousTurn f
         \<and> \<not> sfSnapshotConfirmsSettlement f)"

definition snapshot_state ::
    "RuntimeTaskLifecycleState \<Rightarrow> RuntimeTaskAddress \<Rightarrow> RuntimeTaskSummary \<Rightarrow> snapshot_facts \<Rightarrow>
     RuntimeTaskLifecycleState" where
  "snapshot_state state address task f =
     (let stops = (sfQueuedStatus f \<or> sfTerminalStatus f \<or> sfSnapshotRunning f = Some False);
          executionPhase = (if sfGoalExecutionActive f then EpRunning
            else if sfQueuedStatus f then EpQueued
            else if sfTerminalStatus f \<or> sfSnapshotRunning f = Some False then EpIdle
            else if sfSnapshotRunning f = Some True then EpRunning
            else lsExecutionPhase state);
          restoredTurnId = (if \<not> sfHasIdentifiedActiveTurn f \<and> \<not> sfTurnAlreadySettled f
            \<and> sfConfirmsAutonomousTurn f \<and> isRuntimeTurnRunningStatus (tsTurnStatus task)
            then sfSnapshotTurnId f else None);
          restored = opt_truthy truthy_text restoredTurnId;
          snapshotInteractionStatus = (case tsInteractionStatus task of
            Some i \<Rightarrow> i | None \<Rightarrow> lsInteractionStatus state)
      in state
         \<lparr>lsAddress := mergeAddress (lsAddress state) address,
          lsTask := Some task,
          lsExecutionPhase := executionPhase,
          lsTurnPhase := (if stops then TpIdle else if restored then TpStreaming else lsTurnPhase state),
          lsTurnOutcome := (if restored then None else lsTurnOutcome state),
          lsActiveTurnId := (if stops then None else coalesce (lsActiveTurnId state) restoredTurnId),
          lsLatestTurnId := coalesce (sfSnapshotTurnId f) (lsLatestTurnId state),
          lsInteractionStatus := (if sfTerminalStatus f \<and> snapshotInteractionStatus \<noteq> Some AwaitingUserReply
            then None else snapshotInteractionStatus),
          lsGoalStatus := (case tsGoalStatus task of
              None \<Rightarrow> lsGoalStatus state
            | Some g \<Rightarrow> if lsHasAuthoritativeGoalStatus state then lsGoalStatus state else g),
          lsHasAuthoritativeGoalStatus :=
            (lsHasAuthoritativeGoalStatus state \<or> tsGoalStatus task = Some None),
          lsContinuable := (tsContinuable task \<noteq> Some False),
          lsExpectedExecutorRunning :=
            (if sfSnapshotRunning f \<noteq> None \<and> tsOptimistic task \<noteq> Some True then None
             else lsExpectedExecutorRunning state)\<rparr>)"

definition reduceSnapshot ::
    "RuntimeTaskLifecycleState \<Rightarrow> RuntimeTaskAddress \<Rightarrow> RuntimeTaskSummary \<Rightarrow>
     RuntimeTaskLifecycleState option" where
  "reduceSnapshot state address task =
     (if tsExecutionState task \<noteq> None \<or> native_state state \<noteq> None
      then reduceNativeSnapshot state address task
      else
        let f = snapshot_facts_of state task
        in if snapshot_ignored state f then None
           else let nextState = snapshot_state state address task f
             in if state = nextState then None else Some nextState)"

subsection \<open>The other events\<close>

definition reduceSendQueued ::
    "RuntimeTaskLifecycleState \<Rightarrow> int option option \<Rightarrow> RuntimeTaskLifecycleState" where
  "reduceSendQueued state queuePosition =
     (let executorAlreadyActive = (Option.bind (lsTask state) tsRunning = Some True
            \<or> lsActiveTurnId state \<noteq> None)
      in if executorAlreadyActive then
           state\<lparr>lsExecutionPhase := EpRunning,
             lsTurnPhase := (if opt_truthy truthy_text (lsActiveTurnId state) then TpStreaming
                             else lsTurnPhase state),
             lsExpectedExecutorRunning := Some True\<rparr>
         else
           state\<lparr>lsTask := map_option (\<lambda>task. task\<lparr>tsRunning := Some False, tsStatus := Some ''queued'',
               tsQueuePosition := (case queuePosition of None \<Rightarrow> tsQueuePosition task | Some q \<Rightarrow> q)\<rparr>)
               (lsTask state),
             lsExecutionPhase := EpQueued, lsTurnPhase := TpIdle, lsActiveTurnId := None,
             lsExpectedExecutorRunning := Some False\<rparr>)"

definition goal_settles ::
    "RuntimeTaskLifecycleState \<Rightarrow> RuntimeGoalStatus option \<Rightarrow> bool" where
  "goal_settles state goalStatus \<longleftrightarrow> lsGoalStatus state = Some GActive \<and> goalStatus \<noteq> None
     \<and> goalStatus \<noteq> Some GActive \<and> (goalStatus \<noteq> Some GComplete \<or> lsTurnPhase state = TpIdle)"

definition reduceGoalStatus ::
    "RuntimeTaskLifecycleState \<Rightarrow> RuntimeGoalStatus option \<Rightarrow> RuntimeTaskLifecycleState" where
  "reduceGoalStatus state goalStatus =
     (if native_state state \<noteq> None then
        state\<lparr>lsGoalStatus := goalStatus, lsHasAuthoritativeGoalStatus := True\<rparr>
      else
        let task = map_option (\<lambda>t. normalizeRuntimeTaskSummary (t\<lparr>tsGoalStatus := Some goalStatus,
              tsGoalExecutionStatus := (if goalStatus \<noteq> Some GActive then None
                else tsGoalExecutionStatus t)\<rparr>)) (lsTask state)
        in if goal_settles state goalStatus then
             state\<lparr>lsTask := task, lsExecutionPhase := EpIdle, lsTurnPhase := TpIdle, lsActiveTurnId := None,
               lsInteractionStatus := (if lsInteractionStatus state = Some AwaitingUserReply
                 then lsInteractionStatus state else None),
               lsGoalStatus := goalStatus, lsHasAuthoritativeGoalStatus := True,
               lsExpectedExecutorRunning := Some False\<rparr>
           else state\<lparr>lsTask := task, lsGoalStatus := goalStatus, lsHasAuthoritativeGoalStatus := True\<rparr>)"

definition reduceTurnSettled ::
    "RuntimeTaskLifecycleState \<Rightarrow> string option \<Rightarrow> TurnOutcome option \<Rightarrow> RuntimeTaskLifecycleState option" where
  "reduceTurnSettled state turnId outcome =
     (if opt_truthy truthy_text turnId \<and> opt_truthy truthy_text (lsActiveTurnId state)
         \<and> turnId \<noteq> lsActiveTurnId state then None
      else
        let complete = (lsGoalStatus state = Some GComplete)
        in Some (state\<lparr>lsExecutionPhase := (if complete then EpIdle else lsExecutionPhase state),
             lsTurnPhase := TpIdle,
             lsTurnOutcome := coalesce outcome (lsTurnOutcome state),
             lsActiveTurnId := None,
             lsLatestTurnId := coalesce turnId (coalesce (lsActiveTurnId state) (lsLatestTurnId state)),
             lsExpectedExecutorRunning := (if complete then Some False else None)\<rparr>))"

text \<open>The events of the RPC channel, which cannot settle a native execution.\<close>

fun rpc_event :: "RuntimeTaskLifecycleEvent \<Rightarrow> bool" where
  "rpc_event ExecutorStarted = True"
| "rpc_event ExecutorSettled = True"
| "rpc_event (TurnStarted _) = True"
| "rpc_event (TurnSettled _ _) = True"
| "rpc_event (TurnRecovered _ _) = True"
| "rpc_event UserInputResponded = True"
| "rpc_event _ = False"

definition reduceRuntimeTaskLifecycle ::
    "RuntimeTaskLifecycleState \<Rightarrow> RuntimeTaskLifecycleEvent \<Rightarrow> RuntimeTaskLifecycleState option" where
  "reduceRuntimeTaskLifecycle state event =
     (if native_state state \<noteq> None \<and> rpc_event event then None
      else case event of
        ExecutorReplaced \<Rightarrow> Some (state
          \<lparr>lsTask := map_option (\<lambda>t. t\<lparr>tsExecutionState := None, tsCachedProjection := Some True\<rparr>) (lsTask state),
           lsExecutionPhase := EpUnknown, lsTurnPhase := TpIdle, lsActiveTurnId := None,
           lsExpectedExecutorRunning := None\<rparr>)
      | ExecutorSnapshotReceived address task \<Rightarrow> reduceSnapshot state address task
      | SendRequested kind \<Rightarrow> Some (state
          \<lparr>lsWorkspaceCreationKind := (if opt_truthy truthy_text kind then kind
             else lsWorkspaceCreationKind state),
           lsExecutionPhase := EpStarting, lsTurnPhase := TpSubmitting, lsTurnOutcome := None,
           lsExpectedExecutorRunning := Some True,
           lsInteractionStatus := (if lsInteractionStatus state = Some AwaitingUserReply
             then lsInteractionStatus state else None),
           lsUnread := False\<rparr>)
      | SendAccepted \<Rightarrow>
          if lsExpectedExecutorRunning state = Some True
          then Some (state\<lparr>lsExecutionPhase := EpRunning,
            lsTurnPhase := (if lsTurnPhase state = TpStreaming then TpStreaming else TpAwaiting),
            lsTurnOutcome := None, lsExpectedExecutorRunning := Some True\<rparr>)
          else None
      | SendQueued q \<Rightarrow> Some (reduceSendQueued state q)
      | SendRejected \<Rightarrow>
          if lsExecutionPhase state = EpRunning \<or> lsTurnPhase state = TpStreaming then None
          else Some (state\<lparr>lsExecutionPhase := EpIdle, lsTurnPhase := TpIdle,
            lsExpectedExecutorRunning := Some False\<rparr>)
      | SendBlockedByActiveTurn \<Rightarrow> Some (state\<lparr>lsExecutionPhase := EpRunning, lsTurnPhase := TpIdle,
          lsActiveTurnId := None, lsExpectedExecutorRunning := None\<rparr>)
      | StopRequested \<Rightarrow> Some (state\<lparr>lsExecutionPhase :=
          (if lsExecutionPhase state = EpIdle then EpIdle else EpStopping)\<rparr>)
      | StopRejected \<Rightarrow> Some (state\<lparr>lsExecutionPhase :=
          (if lsExecutionPhase state = EpStopping then EpRunning else lsExecutionPhase state)\<rparr>)
      | ExecutorStarted \<Rightarrow> Some (state\<lparr>lsExecutionPhase := EpRunning, lsTurnOutcome := None,
          lsExpectedExecutorRunning := Some True, lsUnread := False\<rparr>)
      | ExecutorSettled \<Rightarrow> Some (state\<lparr>lsExecutionPhase := EpIdle, lsTurnPhase := TpIdle,
          lsActiveTurnId := None, lsExpectedExecutorRunning := Some False\<rparr>)
      | TurnStarted turnId \<Rightarrow> Some (state\<lparr>lsExecutionPhase := EpRunning, lsTurnPhase := TpStreaming,
          lsTurnOutcome := None, lsActiveTurnId := turnId,
          lsLatestTurnId := coalesce turnId (lsLatestTurnId state),
          lsExpectedExecutorRunning := Some True, lsUnread := False\<rparr>)
      | TurnSettled turnId outcome \<Rightarrow> reduceTurnSettled state turnId outcome
      | TurnRecovered streaming turnId \<Rightarrow>
          if streaming then Some (state\<lparr>lsExecutionPhase := EpRunning, lsTurnPhase := TpStreaming,
            lsTurnOutcome := None, lsActiveTurnId := turnId,
            lsLatestTurnId := coalesce turnId (lsLatestTurnId state),
            lsExpectedExecutorRunning := Some True\<rparr>)
          else None
      | UserInputRequested async \<Rightarrow> Some (if async
          then state\<lparr>lsInteractionStatus := Some AwaitingUserReply\<rparr>
          else state\<lparr>lsExecutionPhase := EpRunning, lsInteractionStatus := Some WaitingForUserInput,
            lsExpectedExecutorRunning := Some True\<rparr>)
      | UserInputResponded \<Rightarrow>
          if lsInteractionStatus state = None then None
          else if lsInteractionStatus state = Some AwaitingUserReply
          then Some (state\<lparr>lsInteractionStatus := None\<rparr>)
          else Some (state\<lparr>lsInteractionStatus := None, lsExecutionPhase := EpRunning,
            lsTurnPhase := (if lsTurnPhase state = TpIdle then TpAwaiting else lsTurnPhase state),
            lsExpectedExecutorRunning := Some True\<rparr>)
      | GoalStatusReceived g \<Rightarrow> Some (reduceGoalStatus state g)
      | MarkedRead \<Rightarrow> if lsUnread state then Some (state\<lparr>lsUnread := False\<rparr>) else None
      | MarkedUnread \<Rightarrow> if lsUnread state then None else Some (state\<lparr>lsUnread := True\<rparr>))"

end
