(* ===== verification/RuntimeTaskMachine.thy ===== *)
theory RuntimeTaskMachine
  imports RuntimeTaskReducer
begin

text \<open>
  The class \<open>RuntimeTaskMachine\<close> of
  \<open>wework/src/features/workbench/runtimeTaskLifecycle/RuntimeTaskMachine.ts\<close>: the reducer with what it
  remembers of past turns and replaced executors, and the snapshot the interface shows.
\<close>

record runtime_machine =
  rmState :: RuntimeTaskLifecycleState
  rmRevision :: nat
  rmObservedTurnIds :: "string set"
  rmSettledTurnIds :: "string set"
  rmRetiredExecutorEpochs :: "string set"

definition new_runtime_machine :: "RuntimeTaskAddress \<Rightarrow> bool \<Rightarrow> runtime_machine" where
  "new_runtime_machine address unread =
     \<lparr>rmState = \<lparr>lsAddress = address, lsTask = None, lsWorkspaceCreationKind = None,
        lsExecutionPhase = EpUnknown, lsTurnPhase = TpIdle, lsTurnOutcome = None,
        lsActiveTurnId = None, lsLatestTurnId = None, lsGoalStatus = None,
        lsInteractionStatus = None, lsHasAuthoritativeGoalStatus = False, lsContinuable = False,
        lsUnread = unread, lsExpectedExecutorRunning = None\<rparr>,
      rmRevision = 0, rmObservedTurnIds = {}, rmSettledTurnIds = {}, rmRetiredExecutorEpochs = {}\<rparr>"

text \<open>Adding \<open>x\<close> to a set of ids, when it is truthy.\<close>

definition note_id :: "string option \<Rightarrow> string set \<Rightarrow> string set" where
  "note_id x ids = (case x of None \<Rightarrow> ids | Some i \<Rightarrow> if truthy_text i then insert i ids else ids)"

definition isPriorTurn :: "runtime_machine \<Rightarrow> string \<Rightarrow> bool" where
  "isPriorTurn m turnId \<longleftrightarrow> turnId \<in> rmObservedTurnIds m \<and>
     (Some turnId \<noteq> coalesce (lsActiveTurnId (rmState m)) (lsLatestTurnId (rmState m))
      \<or> lsTurnPhase (rmState m) = TpSubmitting \<or> lsTurnPhase (rmState m) = TpAwaiting)"

definition isSettledTurn :: "runtime_machine \<Rightarrow> string \<Rightarrow> bool" where
  "isSettledTurn m turnId \<longleftrightarrow> turnId \<in> rmSettledTurnIds m"

definition observeTurn :: "string \<Rightarrow> runtime_machine \<Rightarrow> runtime_machine" where
  "observeTurn turnId m = m\<lparr>rmObservedTurnIds := insert turnId (rmObservedTurnIds m)\<rparr>"

definition mergeTurnHistory :: "runtime_machine \<Rightarrow> runtime_machine \<Rightarrow> runtime_machine" where
  "mergeTurnHistory previous m =
     m\<lparr>rmObservedTurnIds := rmObservedTurnIds m \<union> rmObservedTurnIds previous,
       rmSettledTurnIds := rmSettledTurnIds m \<union> rmSettledTurnIds previous,
       rmRetiredExecutorEpochs := rmRetiredExecutorEpochs m \<union> rmRetiredExecutorEpochs previous\<rparr>"

text \<open>The two guards before the reducer.\<close>

definition refused :: "runtime_machine \<Rightarrow> RuntimeTaskLifecycleEvent \<Rightarrow> bool" where
  "refused m event = (case event of
       ExecutorSnapshotReceived _ task \<Rightarrow>
         opt_truthy (\<lambda>epoch. truthy_text epoch \<and> epoch \<in> rmRetiredExecutorEpochs m)
           (Option.bind (tsExecutionState task) esEpoch)
     | TurnSettled turnId _ \<Rightarrow> lsTurnPhase (rmState m) \<noteq> TpIdle
         \<and> opt_truthy (\<lambda>i. truthy_text i \<and> isPriorTurn m i) turnId
     | _ \<Rightarrow> False)"

definition is_turn_settled :: "RuntimeTaskLifecycleEvent \<Rightarrow> bool" where
  "is_turn_settled event = (case event of TurnSettled _ _ \<Rightarrow> True | _ \<Rightarrow> False)"

definition rm_dispatch ::
    "runtime_machine \<Rightarrow> RuntimeTaskLifecycleEvent \<Rightarrow> runtime_machine \<times> bool" where
  "rm_dispatch m event =
     (let m1 = (if event = ExecutorReplaced
            then m\<lparr>rmRetiredExecutorEpochs :=
              note_id (Option.bind (native_state (rmState m)) esEpoch) (rmRetiredExecutorEpochs m)\<rparr>
            else m)
      in if refused m1 event then (m1, False)
         else
           let result = reduceRuntimeTaskLifecycle (rmState m1) event;
               state = the_or (rmState m1) result;
               changed = (result \<noteq> None)
           in (m1\<lparr>rmState := state,
                  rmObservedTurnIds := note_id (lsLatestTurnId state) (rmObservedTurnIds m1),
                  rmSettledTurnIds := (if changed \<and> is_turn_settled event
                    then note_id (lsLatestTurnId state) (rmSettledTurnIds m1) else rmSettledTurnIds m1),
                  rmRevision := (if changed then rmRevision m1 + 1 else rmRevision m1)\<rparr>, changed))"

definition getRuntimeTaskLifecycleKey :: "RuntimeTaskAddress \<Rightarrow> string" where
  "getRuntimeTaskLifecycleKey address = adDeviceId address @ [CHR 0x00] @ adTaskId address"

definition running_phase :: "RuntimeTaskExecutionPhase \<Rightarrow> bool" where
  "running_phase p \<longleftrightarrow> p \<in> {EpStarting, EpRunning, EpContinuing, EpRecovering, EpStopping}"

definition getSnapshot :: "runtime_machine \<Rightarrow> RuntimeTaskLifecycleSnapshot" where
  "getSnapshot m =
     (let s = rmState m;
          executionKnown = (lsExecutionPhase s \<noteq> EpUnknown);
          isQueued = (lsExecutionPhase s = EpQueued);
          isRunning = running_phase (lsExecutionPhase s);
          isTurnActive = (lsTurnPhase s \<noteq> TpIdle);
          isThinking = (lsTurnPhase s = TpSubmitting \<or> lsTurnPhase s = TpAwaiting);
          isWaitingForUserInput = (lsInteractionStatus s = Some WaitingForUserInput);
          hasPendingUserInput = (isWaitingForUserInput \<or> lsInteractionStatus s = Some AwaitingUserReply);
          isBusy = (isQueued \<or> isRunning \<or> isTurnActive \<or> isWaitingForUserInput)
      in \<lparr>snKey = getRuntimeTaskLifecycleKey (lsAddress s), snAddress = lsAddress s, snTask = lsTask s,
          snWorkspaceCreationKind = js_or truthy_text (lsWorkspaceCreationKind s) None,
          snExecutionPhase = lsExecutionPhase s, snExecutionKnown = executionKnown,
          snExecutionRunning = isRunning, snTurnPhase = lsTurnPhase s, snTurnActive = isTurnActive,
          snTurnId = lsActiveTurnId s, snTurnLatestId = lsLatestTurnId s,
          snTurnOutcome = lsTurnOutcome s, snGoalStatus = lsGoalStatus s,
          snInteractionStatus = lsInteractionStatus s, snContinuable = lsContinuable s,
          snUnread = lsUnread s,
          snDerived = \<lparr>ldExecutionKnown = executionKnown, ldIsRunning = isRunning, ldIsQueued = isQueued,
            ldIsTurnActive = isTurnActive, ldIsThinking = isThinking, ldIsBusy = isBusy,
            ldCanSend = (lsContinuable s \<and> \<not> isBusy), ldCanQueue = (lsContinuable s \<and> isBusy),
            ldShouldShowSidebarRunning = (isRunning \<and> \<not> hasPendingUserInput),
            ldShouldShowSidebarWaiting = hasPendingUserInput,
            ldShouldShowUnread = (lsUnread s \<and> \<not> isRunning \<and> \<not> hasPendingUserInput)\<rparr>\<rparr>)"

subsection \<open>The invariant\<close>

text \<open>A quiet executor has no turn in progress.\<close>

definition coherent :: "RuntimeTaskLifecycleState \<Rightarrow> bool" where
  "coherent s \<longleftrightarrow> (running_phase (lsExecutionPhase s) \<or> lsTurnPhase s = TpIdle)"

text \<open>A native execution that is idle or queued has no turn, as the executor reports it.\<close>

definition event_ok :: "RuntimeTaskLifecycleEvent \<Rightarrow> bool" where
  "event_ok event = (case event of
       ExecutorSnapshotReceived _ task \<Rightarrow> (case tsExecutionState task of
           None \<Rightarrow> True
         | Some x \<Rightarrow> running_phase (esPhase x) \<or> \<not> opt_truthy truthy_text (esTurnId x))
     | _ \<Rightarrow> True)"

text \<open>The execution that is held is not that of a replaced executor.\<close>

definition epoch_ok :: "runtime_machine \<Rightarrow> bool" where
  "epoch_ok m \<longleftrightarrow> (\<forall>ep. Option.bind (native_state (rmState m)) esEpoch = Some ep \<and> ep \<noteq> [] \<longrightarrow>
     ep \<notin> rmRetiredExecutorEpochs m)"

lemma epoch_okD:
  "epoch_ok m \<Longrightarrow> Option.bind (native_state (rmState m)) esEpoch = Some ep \<Longrightarrow> ep \<noteq> [] \<Longrightarrow>
     ep \<notin> rmRetiredExecutorEpochs m"
  unfolding epoch_ok_def by blast

lemma snapshot_coherent:
  assumes "coherent s" and "tsExecutionState t = None"
  shows "coherent (snapshot_state s a t (snapshot_facts_of s t))"
proof -
  let ?f = "snapshot_facts_of s t"
  have "sfConfirmsAutonomousTurn ?f \<Longrightarrow> sfSnapshotRunning ?f = Some True"
    using assms(2) by (auto simp: snapshot_facts_of_def isRuntimeTaskConfirmedActive_def Let_def split: if_splits)
  then show ?thesis
    using assms(1) by (auto simp: snapshot_state_def coherent_def running_phase_def Let_def)
qed

lemma native_coherent:
  "event_ok (ExecutorSnapshotReceived a t) \<Longrightarrow> reduceNativeSnapshot s a t = Some s' \<Longrightarrow> coherent s'"
  by (auto simp: reduceNativeSnapshot_def event_ok_def coherent_def running_phase_def
      split: option.splits if_splits)

lemma reduceSnapshot_coherent:
  "coherent s \<Longrightarrow> event_ok (ExecutorSnapshotReceived a t) \<Longrightarrow> reduceSnapshot s a t = Some s' \<Longrightarrow> coherent s'"
  by (auto simp: reduceSnapshot_def Let_def split: if_splits dest: native_coherent intro: snapshot_coherent)

lemma reduce_coherent:
  assumes "coherent s" and "event_ok ev" and "reduceRuntimeTaskLifecycle s ev = Some s'"
  shows "coherent s'"
proof (cases ev)
  case (ExecutorSnapshotReceived a t)
  with assms show ?thesis
    by (auto simp: reduceRuntimeTaskLifecycle_def split: if_splits intro: reduceSnapshot_coherent)
qed (use assms in \<open>auto simp: reduceRuntimeTaskLifecycle_def reduceSendQueued_def reduceGoalStatus_def
    reduceTurnSettled_def coherent_def running_phase_def Let_def split: if_splits\<close>)

text \<open>Which execution is held after an event.\<close>

lemma goal_native:
  "native_state (reduceGoalStatus s g) = native_state s"
  by (cases "lsTask s") (auto simp: reduceGoalStatus_def Let_def)

lemma queued_native: "native_state (reduceSendQueued s q) = native_state s"
  by (cases "lsTask s") (auto simp: reduceSendQueued_def Let_def)

lemma settled_native: "reduceTurnSettled s i out = Some s' \<Longrightarrow> native_state s' = native_state s"
  by (auto simp: reduceTurnSettled_def Let_def split: if_splits)

lemma native_step:
  assumes "reduceNativeSnapshot s a t = Some s'"
  shows "native_state s' = tsExecutionState t"
    and "native_state s = Some x \<Longrightarrow> \<exists>y. tsExecutionState t = Some y \<and> esRevision x < esRevision y"
  using assms by (auto simp: reduceNativeSnapshot_def split: option.split_asm if_split_asm)

lemma snapshot_state_task [simp]: "lsTask (snapshot_state s a t f) = Some t"
  by (simp add: snapshot_state_def Let_def)

lemma reduceSnapshot_cases:
  assumes "reduceSnapshot s a t = Some s'"
  obtains (native) "tsExecutionState t \<noteq> None \<or> native_state s \<noteq> None" "reduceNativeSnapshot s a t = Some s'"
  | (remote) "tsExecutionState t = None" "native_state s = None" "s' = snapshot_state s a t (snapshot_facts_of s t)"
proof (cases "tsExecutionState t \<noteq> None \<or> native_state s \<noteq> None")
  case True
  then have "reduceNativeSnapshot s a t = Some s'" using assms by (simp add: reduceSnapshot_def)
  with True show ?thesis by (rule native)
next
  case False
  with assms have "s' = snapshot_state s a t (snapshot_facts_of s t)"
    by (simp add: reduceSnapshot_def Let_def split: if_split_asm)
  with False show ?thesis by (intro remote) simp_all
qed

lemma snapshot_native:
  assumes "reduceSnapshot s a t = Some s'"
  shows "native_state s' = tsExecutionState t \<and>
     (\<forall>x. native_state s = Some x \<longrightarrow> (\<exists>y. tsExecutionState t = Some y \<and> esRevision x < esRevision y))"
  using assms
proof (cases rule: reduceSnapshot_cases)
  case native
  then show ?thesis using native_step by blast
next
  case remote
  then show ?thesis by simp
qed

lemma reduce_native:
  assumes "reduceRuntimeTaskLifecycle s ev = Some s'"
  shows "native_state s' = (case ev of ExecutorReplaced \<Rightarrow> None
     | ExecutorSnapshotReceived _ t \<Rightarrow> tsExecutionState t | _ \<Rightarrow> native_state s)"
proof (cases ev)
  case ExecutorReplaced
  with assms show ?thesis
    by (cases "lsTask s") (auto simp: reduceRuntimeTaskLifecycle_def)
next
  case (ExecutorSnapshotReceived a t)
  with assms show ?thesis by (auto simp: reduceRuntimeTaskLifecycle_def dest: snapshot_native)
qed (use assms in \<open>auto simp: reduceRuntimeTaskLifecycle_def goal_native queued_native
    split: if_splits dest: settled_native\<close>)

text \<open>One dispatch, in the two cases that matter.\<close>

lemma dispatch_refused:
  "refused m ev \<Longrightarrow> ev \<noteq> ExecutorReplaced \<Longrightarrow> rm_dispatch m ev = (m, False)"
  by (simp add: rm_dispatch_def Let_def)

lemma dispatch_state:
  "\<not> refused m ev \<Longrightarrow> rmState (fst (rm_dispatch m ev)) =
     the_or (rmState m) (reduceRuntimeTaskLifecycle (rmState m) ev)"
  by (auto simp: rm_dispatch_def Let_def refused_def)

lemma dispatch_epochs:
  "rmRetiredExecutorEpochs (fst (rm_dispatch m ev)) =
     (if ev = ExecutorReplaced
      then note_id (Option.bind (native_state (rmState m)) esEpoch) (rmRetiredExecutorEpochs m)
      else rmRetiredExecutorEpochs m)"
  by (simp add: rm_dispatch_def Let_def)

lemma dispatch_monotone:
  "rmRevision m \<le> rmRevision (fst (rm_dispatch m ev))"
  "rmRetiredExecutorEpochs m \<subseteq> rmRetiredExecutorEpochs (fst (rm_dispatch m ev))"
  "rmObservedTurnIds m \<subseteq> rmObservedTurnIds (fst (rm_dispatch m ev))"
  by (auto simp: rm_dispatch_def Let_def note_id_def split: option.split)

lemma replaced_not_refused [simp]: "\<not> refused m ExecutorReplaced"
  by (simp add: refused_def)

definition rm_ok :: "runtime_machine \<Rightarrow> bool" where
  "rm_ok m \<longleftrightarrow> coherent (rmState m) \<and> epoch_ok m"

lemma dispatch_coherent:
  "coherent (rmState m) \<Longrightarrow> event_ok ev \<Longrightarrow> coherent (rmState (fst (rm_dispatch m ev)))"
proof -
  assume c: "coherent (rmState m)" "event_ok ev"
  show ?thesis
  proof (cases "refused m ev")
    case True
    then have "ev \<noteq> ExecutorReplaced" by auto
    with True c show ?thesis by (simp add: dispatch_refused)
  next
    case False
    with c show ?thesis
      by (cases "reduceRuntimeTaskLifecycle (rmState m) ev")
        (simp_all add: dispatch_state reduce_coherent [OF c])
  qed
qed

lemma dispatch_epoch_ok: "epoch_ok m \<Longrightarrow> epoch_ok (fst (rm_dispatch m ev))"
proof -
  assume ok: "epoch_ok m"
  show ?thesis
  proof (cases "refused m ev")
    case True
    then have "ev \<noteq> ExecutorReplaced" by auto
    with True ok show ?thesis by (simp add: dispatch_refused)
  next
    case False
    show ?thesis
    proof (cases "reduceRuntimeTaskLifecycle (rmState m) ev")
      case None
      then have "ev \<noteq> ExecutorReplaced" by (auto simp: reduceRuntimeTaskLifecycle_def)
      with False None ok show ?thesis by (simp add: epoch_ok_def dispatch_state dispatch_epochs)
    next
      case (Some s')
      note held = reduce_native [OF Some]
      show ?thesis
      proof (cases ev)
        case (ExecutorSnapshotReceived a t)
        with False Some held show ?thesis
          by (auto simp: epoch_ok_def dispatch_state dispatch_epochs refused_def)
      qed (use False Some held ok in \<open>auto simp: epoch_ok_def dispatch_state dispatch_epochs\<close>)
    qed
  qed
qed

lemma rm_ok_new: "rm_ok (new_runtime_machine a u)"
  by (simp add: rm_ok_def coherent_def epoch_ok_def new_runtime_machine_def)

text \<open>The machine as a step function on the events an executor can send.\<close>

definition rm_next :: "runtime_machine \<Rightarrow> RuntimeTaskLifecycleEvent \<Rightarrow> runtime_machine" where
  "rm_next m ev = (if event_ok ev then fst (rm_dispatch m ev) else m)"

lemma rm_next_ok: "rm_ok m \<Longrightarrow> rm_ok (rm_next m ev)"
  by (simp add: rm_next_def rm_ok_def dispatch_coherent dispatch_epoch_ok)

interpretation runtime_task: monotone_machine rm_next rm_ok rmRevision
proof unfold_locales
  show "rm_ok (rm_next m ev)" if "rm_ok m" for m ev using that by (rule rm_next_ok)
qed (simp add: rm_next_def dispatch_monotone)

interpretation runtime_epochs: monotone_machine rm_next rm_ok rmRetiredExecutorEpochs
  by unfold_locales (simp add: rm_next_def dispatch_monotone)

abbreviation rm_run :: "runtime_machine \<Rightarrow> RuntimeTaskLifecycleEvent list \<Rightarrow> runtime_machine" where
  "rm_run \<equiv> foldl rm_next"

subsection \<open>Properties\<close>

text \<open>C6: In every run of a new machine on the events an executor can send, a turn in progress means a
  running executor, so a task shown as idle, queued or unknown has no turn in progress; and the
  execution held is never one of an executor that has been replaced.\<close>

theorem runtime_machine_invariant:
  assumes "m = rm_run (new_runtime_machine a u) evs"
  shows "(ldIsTurnActive (snDerived (getSnapshot m)) \<longrightarrow> ldIsRunning (snDerived (getSnapshot m))) \<and>
    (\<forall>x ep. native_state (rmState m) = Some x \<and> esEpoch x = Some ep \<and> ep \<noteq> [] \<longrightarrow>
       ep \<notin> rmRetiredExecutorEpochs m)"
proof -
  have "rm_ok m" unfolding assms by (rule runtime_task.run_inv [OF rm_ok_new])
  then have phases: "coherent (rmState m)" and epochs: "epoch_ok m" by (simp_all add: rm_ok_def)
  have "ep \<notin> rmRetiredExecutorEpochs m"
    if "native_state (rmState m) = Some x" "esEpoch x = Some ep" "ep \<noteq> []" for x ep
    using epoch_okD [OF epochs] that by simp
  with phases show ?thesis by (auto simp: coherent_def getSnapshot_def Let_def)
qed

definition demo_address :: RuntimeTaskAddress where
  "demo_address = \<lparr>adDeviceId = ''d'', adTaskId = ''t'', adThreadId = None, adWorkspacePath = None,
     adRuntimeHandle = None, adOthers = []\<rparr>"

theorem runtime_machine_invariant_witness:
  "ldIsRunning (snDerived (getSnapshot (rm_run (new_runtime_machine demo_address False)
     [SendRequested None, SendAccepted, TurnStarted (Some ''1'')])))"
proof -
  let ?m = "rm_run (new_runtime_machine demo_address False) [SendRequested None, SendAccepted, TurnStarted (Some ''1'')]"
  have "ldIsTurnActive (snDerived (getSnapshot ?m))" by code_simp
  with runtime_machine_invariant [OF refl, of demo_address False "[SendRequested None, SendAccepted, TurnStarted (Some ''1'')]"]
  show ?thesis by blast
qed

text \<open>What the interface offers is unambiguous: a task that can continue can be sent to or queued to,
  never both and never neither, not sent to while anything is in progress; it is shown as running
  or as waiting for the user, never both; and as unread only when it is neither.\<close>

theorem snapshot_flags_exclusive:
  "let d = snDerived (getSnapshot m) in
    (ldCanSend d \<longleftrightarrow> snContinuable (getSnapshot m) \<and> \<not> ldIsBusy d) \<and>
    (ldCanQueue d \<longleftrightarrow> snContinuable (getSnapshot m) \<and> ldIsBusy d) \<and>
    (ldIsQueued d \<or> ldIsRunning d \<or> ldIsTurnActive d \<longleftrightarrow>
       ldIsBusy d \<and> (ldIsQueued d \<or> ldIsRunning d \<or> ldIsTurnActive d)) \<and>
    \<not> (ldIsQueued d \<and> ldIsRunning d) \<and> \<not> (ldIsThinking d \<and> \<not> ldIsTurnActive d) \<and>
    \<not> (ldShouldShowSidebarRunning d \<and> ldShouldShowSidebarWaiting d) \<and>
    \<not> (ldShouldShowUnread d \<and> (ldShouldShowSidebarRunning d \<or> ldShouldShowSidebarWaiting d)) \<and>
    \<not> ((ldIsQueued d \<or> ldIsRunning d) \<and> \<not> ldExecutionKnown d)"
  by (auto simp: getSnapshot_def Let_def running_phase_def)

text \<open>A replaced executor cannot come back. Once an executor of a known epoch has been replaced, no
  later sequence of events makes the machine hold an execution of that epoch again.\<close>

theorem retired_epoch_stays_retired:
  assumes "rm_ok m" and "native_state (rmState m) = Some x" and "esEpoch x = Some ep" and "ep \<noteq> []"
  shows "Option.bind (native_state (rmState (rm_run (rm_next m ExecutorReplaced) evs))) esEpoch \<noteq> Some ep"
proof -
  let ?m = "rm_next m ExecutorReplaced"
  have ok: "rm_ok ?m" using assms(1) by (rule rm_next_ok)
  have "ep \<in> rmRetiredExecutorEpochs ?m"
    using assms by (simp add: rm_next_def event_ok_def dispatch_epochs note_id_def)
  then have "ep \<in> rmRetiredExecutorEpochs (rm_run ?m evs)"
    using runtime_epochs.run_rank [OF ok, of evs] by auto
  moreover have "epoch_ok (rm_run ?m evs)"
    using runtime_task.run_inv [OF ok, of evs] by (simp add: rm_ok_def)
  ultimately show ?thesis using epoch_okD assms(4) by metis
qed

definition demo_running_machine :: runtime_machine where
  "demo_running_machine = rm_next (new_runtime_machine demo_address False)
     (ExecutorSnapshotReceived demo_address (demo_native 3 EpRunning))"

lemma demo_running_ok: "rm_ok demo_running_machine"
  unfolding demo_running_machine_def by (rule rm_next_ok [OF rm_ok_new])

lemma demo_running_native:
  "native_state (rmState demo_running_machine) = Some \<lparr>esEpoch = Some ''e'', esRevision = 3,
     esPhase = EpRunning, esTurnId = None, esLatestTurnId = None, esOutcome = None, esStartedAt = None\<rparr>"
  by code_simp

theorem retired_epoch_stays_retired_witness:
  "Option.bind (native_state (rmState (rm_run (rm_next demo_running_machine ExecutorReplaced)
     [ExecutorSnapshotReceived demo_address (demo_native 9 EpRunning)]))) esEpoch \<noteq> Some ''e''"
  by (rule retired_epoch_stays_retired [OF demo_running_ok demo_running_native]) simp_all

end
