(* ===== verification/RuntimeStore.thy ===== *)
theory RuntimeStore
  imports RuntimeTaskMachine
begin

text \<open>
  The class \<open>RuntimeTaskLifecycleStore\<close> of
  \<open>wework/src/features/workbench/runtimeTaskLifecycle/RuntimeTaskLifecycleStore.ts\<close>: the table of runtime
  task machines by device and task, with the aliases of devices, the unread marks, and the snapshot
  it publishes. A public method is a function on the store; the listeners it calls after publishing are
  outside, and so is what it only logs. \<open>Date.parse\<close> and whether the browser's storage takes a write
  are read from a \<open>store_env\<close>. A serialised set of keys is the list of the keys it holds.
\<close>

record store_env =
  sePd :: "string \<Rightarrow> int option"
  seStorage :: bool

record TaskUnreadState =
  tuUnread :: bool
  tuRevision :: nat

record RuntimeTaskLifecycleStoreSnapshot =
  ssVersion :: nat
  ssTasks :: "(string, RuntimeTaskLifecycleSnapshot) jsmap"
  ssRunningTaskKeys :: "string list"
  ssQueuedTaskKeys :: "string list"
  ssUnreadTaskKeys :: "string list"

record lifecycle_store =
  stMachines :: "(string, runtime_machine) jsmap"
  stDeviceAliases :: "(string, string) jsmap"
  stUnread :: "(string, TaskUnreadState) jsmap"
  stPreviousRunning :: "string list"
  stDeferredGoal :: "string list"
  stCurrentTaskKey :: "string option"
  stPersistedUnread :: "string list"
  stPersistedRunning :: "string list"
  stUnreadRevision :: nat
  stVersion :: nat
  stSnapshot :: RuntimeTaskLifecycleStoreSnapshot

definition serializeTaskKeys :: "string list \<Rightarrow> string list" where
  "serializeTaskKeys keys = drop (length keys - 200) keys"

text \<open>The constructor; its arguments are the two sets it reads from the storage.\<close>

definition new_store :: "string list \<Rightarrow> string list \<Rightarrow> lifecycle_store" where
  "new_store unreadKeys runningKeys =
     \<lparr>stMachines = [], stDeviceAliases = [],
      stUnread = map (\<lambda>key. (key, \<lparr>tuUnread = True, tuRevision = 0\<rparr>)) unreadKeys,
      stPreviousRunning = runningKeys, stDeferredGoal = [], stCurrentTaskKey = None,
      stPersistedUnread = serializeTaskKeys unreadKeys,
      stPersistedRunning = serializeTaskKeys runningKeys, stUnreadRevision = 0, stVersion = 0,
      stSnapshot = \<lparr>ssVersion = 0, ssTasks = [], ssRunningTaskKeys = [], ssQueuedTaskKeys = [],
        ssUnreadTaskKeys = []\<rparr>\<rparr>"

subsection \<open>Addresses\<close>

text \<open>The loop of \<open>resolveDeviceId\<close>: it stops at a device it has visited.\<close>

function resolve_from :: "(string, string) jsmap \<Rightarrow> string list \<Rightarrow> string \<Rightarrow> string" where
  "resolve_from aliases visited current =
     (if current \<in> set visited then current
      else case jm_get aliases current of
        None \<Rightarrow> current
      | Some next \<Rightarrow>
          if next = [] \<or> next = current then current
          else resolve_from aliases (current # visited) next)"
  by pat_completeness auto
termination
proof (relation "measure (\<lambda>(aliases, visited, current). card (fst ` set aliases - set visited))", goal_cases)
  case 1
  show ?case by simp
next
  case (2 aliases visited current target)
  then have "current \<in> fst ` set aliases - set visited" by (force dest: jm_get_in)
  then have "fst ` set aliases - set (current # visited) \<subset> fst ` set aliases - set visited" by auto
  then show ?case by (simp add: psubset_card_mono)
qed

declare resolve_from.simps [simp del]

definition resolveDeviceId :: "lifecycle_store \<Rightarrow> string \<Rightarrow> string" where
  "resolveDeviceId s deviceId = resolve_from (stDeviceAliases s) [] deviceId"

definition canonicalizeAddress :: "lifecycle_store \<Rightarrow> RuntimeTaskAddress \<Rightarrow> RuntimeTaskAddress" where
  "canonicalizeAddress s address = address\<lparr>adDeviceId := resolveDeviceId s (adDeviceId address)\<rparr>"

definition store_key :: "lifecycle_store \<Rightarrow> RuntimeTaskAddress \<Rightarrow> string" where
  "store_key s address = getRuntimeTaskLifecycleKey (canonicalizeAddress s address)"

definition store_machine :: "lifecycle_store \<Rightarrow> RuntimeTaskAddress \<Rightarrow> runtime_machine option" where
  "store_machine s address = jm_get (stMachines s) (store_key s address)"

definition getTask :: "lifecycle_store \<Rightarrow> RuntimeTaskAddress \<Rightarrow> RuntimeTaskLifecycleSnapshot option" where
  "getTask s address = map_option getSnapshot (store_machine s address)"

definition getTaskRevision :: "lifecycle_store \<Rightarrow> RuntimeTaskAddress \<Rightarrow> nat" where
  "getTaskRevision s address = the_or 0 (map_option rmRevision (store_machine s address))"

definition store_isPriorTurn :: "lifecycle_store \<Rightarrow> RuntimeTaskAddress \<Rightarrow> string \<Rightarrow> bool" where
  "store_isPriorTurn s address turnId =
     the_or False (map_option (\<lambda>m. isPriorTurn m turnId) (store_machine s address))"

definition getCurrentTask :: "lifecycle_store \<Rightarrow> RuntimeTaskLifecycleSnapshot option" where
  "getCurrentTask s = (case stCurrentTaskKey s of
     None \<Rightarrow> None | Some key \<Rightarrow> jm_get (ssTasks (stSnapshot s)) key)"

definition selectTask ::
    "lifecycle_store \<Rightarrow> RuntimeTaskLifecycleStoreSnapshot \<Rightarrow> RuntimeTaskAddress \<Rightarrow>
     RuntimeTaskLifecycleSnapshot option" where
  "selectTask s snapshot address = jm_get (ssTasks snapshot) (store_key s address)"

text \<open>\<open>ensureMachine\<close>: the key under which the machine is filed, and the machine.\<close>

definition ensureMachine ::
    "lifecycle_store \<Rightarrow> RuntimeTaskAddress \<Rightarrow> lifecycle_store \<times> string \<times> runtime_machine" where
  "ensureMachine s address =
     (let canonicalAddress = canonicalizeAddress s address;
          key = getRuntimeTaskLifecycleKey canonicalAddress
      in case jm_get (stMachines s) key of
           Some existing \<Rightarrow> (s, key, existing)
         | None \<Rightarrow>
             let machine = new_runtime_machine canonicalAddress
                   (the_or False (map_option tuUnread (jm_get (stUnread s) key)))
             in (s\<lparr>stMachines := jm_set key machine (stMachines s)\<rparr>, key, machine))"

definition put_machine :: "string \<Rightarrow> runtime_machine \<Rightarrow> lifecycle_store \<Rightarrow> lifecycle_store" where
  "put_machine key machine s = s\<lparr>stMachines := jm_set key machine (stMachines s)\<rparr>"

definition recordUnreadState :: "string \<Rightarrow> bool \<Rightarrow> lifecycle_store \<Rightarrow> lifecycle_store" where
  "recordUnreadState key unread s =
     (let revision = stUnreadRevision s + 1
      in s\<lparr>stUnread := jm_set key \<lparr>tuUnread = unread, tuRevision = revision\<rparr> (stUnread s),
           stUnreadRevision := revision\<rparr>)"

subsection \<open>Publishing\<close>

definition persistUnreadKeys :: "store_env \<Rightarrow> lifecycle_store \<Rightarrow> lifecycle_store" where
  "persistUnreadKeys e s =
     (let keys = map fst (filter (\<lambda>(_, state). tuUnread state) (stUnread s));
          shown = filter (\<lambda>key. case jm_get (stMachines s) key of
              None \<Rightarrow> True
            | Some machine \<Rightarrow> ldShouldShowUnread (snDerived (getSnapshot machine))) keys;
          serialized = serializeTaskKeys shown
      in if seStorage e \<and> serialized \<noteq> stPersistedUnread s
         then s\<lparr>stPersistedUnread := serialized\<rparr> else s)"

definition persistRunningKeys :: "store_env \<Rightarrow> lifecycle_store \<Rightarrow> lifecycle_store" where
  "persistRunningKeys e s =
     (let serialized = serializeTaskKeys (stPreviousRunning s)
      in if seStorage e \<and> serialized \<noteq> stPersistedRunning s
         then s\<lparr>stPersistedRunning := serialized\<rparr> else s)"

text \<open>The keys of the machines whose derived flag \<open>f\<close> is set.\<close>

definition flagged ::
    "(RuntimeTaskLifecycleDerivedState \<Rightarrow> bool) \<Rightarrow> (string, RuntimeTaskLifecycleSnapshot) jsmap \<Rightarrow>
     string list" where
  "flagged f tasks = map fst (filter (\<lambda>(_, task). f (snDerived task)) tasks)"

definition publish :: "store_env \<Rightarrow> lifecycle_store \<Rightarrow> lifecycle_store" where
  "publish e s =
     (let tasks = map (\<lambda>(key, machine). (key, getSnapshot machine)) (stMachines s);
          version = stVersion s + 1
      in persistRunningKeys e (persistUnreadKeys e (s
        \<lparr>stVersion := version,
         stSnapshot := \<lparr>ssVersion = version, ssTasks = tasks,
           ssRunningTaskKeys = flagged ldIsRunning tasks,
           ssQueuedTaskKeys = flagged ldIsQueued tasks,
           ssUnreadTaskKeys = flagged ldShouldShowUnread tasks\<rparr>\<rparr>)))"

definition publish_if :: "store_env \<Rightarrow> lifecycle_store \<times> bool \<Rightarrow> lifecycle_store" where
  "publish_if e r = (if snd r then publish e (fst r) else fst r)"

subsection \<open>One event for one task\<close>

definition snapshot_turn_id :: "RuntimeTaskSummary \<Rightarrow> string option" where
  "snapshot_turn_id task = text_field ''lastTurnId'' (tsRuntimeHandle task)"

text \<open>A send that no snapshot has answered yet.\<close>

definition has_pending_send :: "runtime_machine \<Rightarrow> bool" where
  "has_pending_send m \<longleftrightarrow> lsTurnPhase (rmState m) \<noteq> TpIdle \<and> lsActiveTurnId (rmState m) = None
     \<and> lsExpectedExecutorRunning (rmState m) = Some True"

definition confirms_accepted_send :: "runtime_machine \<Rightarrow> RuntimeTaskSummary \<Rightarrow> bool" where
  "confirms_accepted_send m task \<longleftrightarrow> has_pending_send m \<and> lsTurnPhase (rmState m) = TpAwaiting
     \<and> tsRunning task = Some True"

definition skips_prior_turn :: "runtime_machine \<Rightarrow> RuntimeTaskSummary \<Rightarrow> bool" where
  "skips_prior_turn m task \<longleftrightarrow> tsExecutionState task = None \<and> \<not> confirms_accepted_send m task
     \<and> (if lsTurnPhase (rmState m) \<noteq> TpIdle then lsTask (rmState m) \<noteq> None
        else lsTurnOutcome (rmState m) \<noteq> None \<and> \<not> isRuntimeTaskConfirmedActive task)
     \<and> opt_truthy (isPriorTurn m) (snapshot_turn_id task)"

definition skips_settled_turn :: "runtime_machine \<Rightarrow> RuntimeTaskSummary \<Rightarrow> bool" where
  "skips_settled_turn m task \<longleftrightarrow> tsExecutionState task = None \<and> tsRunning task = Some True
     \<and> \<not> confirms_accepted_send m task \<and> \<not> isRuntimeGoalExecutionActive task
     \<and> opt_truthy (isSettledTurn m) (snapshot_turn_id task)"

definition skips_older_summary :: "store_env \<Rightarrow> runtime_machine \<Rightarrow> RuntimeTaskSummary \<Rightarrow> bool" where
  "skips_older_summary e m task \<longleftrightarrow> opt_truthy
     (\<lambda>previousTask. \<not> shouldReplaceRuntimeTaskProjection (sePd e) previousTask task (has_pending_send m))
     (lsTask (rmState m))"

definition skips_event :: "store_env \<Rightarrow> runtime_machine \<Rightarrow> RuntimeTaskLifecycleEvent \<Rightarrow> bool" where
  "skips_event e m event = (case event of
       ExecutorSnapshotReceived _ task \<Rightarrow>
         skips_prior_turn m task \<or> skips_settled_turn m task \<or> skips_older_summary e m task
     | _ \<Rightarrow> False)"

text \<open>
  The unread marks after an event: \<open>wasRunning\<close> is from before it, \<open>unreadBefore\<close> the mark then, and
  \<open>machine\<close> the machine after it. A task that stops in the background becomes unread, unless its goal
  is still active; then the mark is put off until the goal is settled.
\<close>

definition is_current :: "lifecycle_store \<Rightarrow> RuntimeTaskLifecycleSnapshot \<Rightarrow> bool" where
  "is_current s snapshot \<longleftrightarrow> stCurrentTaskKey s = Some (snKey snapshot)"

definition is_quiet :: "RuntimeTaskLifecycleSnapshot \<Rightarrow> bool" where
  "is_quiet snapshot \<longleftrightarrow> \<not> ldIsRunning (snDerived snapshot) \<and> \<not> ldIsQueued (snDerived snapshot)"

definition became_background_idle ::
    "lifecycle_store \<Rightarrow> bool \<Rightarrow> RuntimeTaskLifecycleSnapshot \<Rightarrow> bool" where
  "became_background_idle s wasRunning next \<longleftrightarrow> wasRunning \<and> is_quiet next \<and> \<not> is_current s next"

definition marks_unread ::
    "lifecycle_store \<Rightarrow> string \<Rightarrow> bool \<Rightarrow> RuntimeTaskLifecycleSnapshot \<Rightarrow> bool" where
  "marks_unread s key wasRunning next \<longleftrightarrow>
     (became_background_idle s wasRunning next \<or> key \<in> set (stDeferredGoal s)) \<and> is_quiet next
     \<and> snGoalStatus next \<noteq> Some GActive \<and> \<not> is_current s next"

definition mark_if ::
    "bool \<Rightarrow> RuntimeTaskLifecycleEvent \<Rightarrow> runtime_machine \<Rightarrow> runtime_machine \<times> bool" where
  "mark_if b event machine = (if b then rm_dispatch machine event else (machine, False))"

definition settle_unread ::
    "string \<Rightarrow> bool \<Rightarrow> bool \<Rightarrow> RuntimeTaskLifecycleEvent \<Rightarrow> runtime_machine \<Rightarrow> lifecycle_store \<Rightarrow>
     lifecycle_store \<times> runtime_machine \<times> bool" where
  "settle_unread key wasRunning unreadBefore event machine s =
     (let next = getSnapshot machine;
          isRunning = ldIsRunning (snDerived next);
          marks = marks_unread s key wasRunning next;
          reads = (isRunning \<or> is_current s next);
          r2 = mark_if marks MarkedUnread machine;
          r3 = mark_if reads MarkedRead (fst r2);
          unread = lsUnread (rmState (fst r3));
          deferred1 = (if became_background_idle s wasRunning next \<and> snGoalStatus next = Some GActive
            then js_add key (stDeferredGoal s) else stDeferredGoal s);
          deferred2 = (if marks then js_remove key deferred1 else deferred1);
          s3 = s
            \<lparr>stPreviousRunning := (if isRunning then js_add key (stPreviousRunning s)
                                  else js_remove key (stPreviousRunning s)),
             stDeferredGoal := (if reads then js_remove key deferred2 else deferred2)\<rparr>;
          s4 = (if event = MarkedRead \<or> is_current s next then recordUnreadState key False s3
                else if isRunning then s3\<lparr>stUnread := jm_delete key (stUnread s3)\<rparr>
                else if unreadBefore \<noteq> unread then recordUnreadState key unread s3
                else s3)
      in (s4, fst r3, snd r2 \<or> snd r3))"

definition canonical_event ::
    "RuntimeTaskAddress \<Rightarrow> RuntimeTaskLifecycleEvent \<Rightarrow> RuntimeTaskLifecycleEvent" where
  "canonical_event canonicalAddress event = (case event of
       ExecutorSnapshotReceived _ task \<Rightarrow> ExecutorSnapshotReceived canonicalAddress task
     | _ \<Rightarrow> event)"

definition reduceMachine ::
    "store_env \<Rightarrow> RuntimeTaskAddress \<Rightarrow> RuntimeTaskLifecycleEvent \<Rightarrow> lifecycle_store \<Rightarrow>
     lifecycle_store \<times> bool" where
  "reduceMachine e address event s =
     (let canonicalAddress = canonicalizeAddress s address;
          canonicalEvent = canonical_event canonicalAddress event;
          (s1, mapKey, machine) = ensureMachine s canonicalAddress;
          key = snKey (getSnapshot machine)
      in if skips_event e machine canonicalEvent then (s1, False)
         else
           let wasRunning = (ldIsRunning (snDerived (getSnapshot machine)) \<or> key \<in> set (stPreviousRunning s1));
               (machine', eventChanged) = rm_dispatch machine canonicalEvent;
               (s2, machine'', marksChanged) =
                 settle_unread key wasRunning (lsUnread (rmState machine)) canonicalEvent machine' s1
           in (put_machine mapKey machine'' s2, eventChanged \<or> marksChanged))"

definition store_dispatch ::
    "store_env \<Rightarrow> RuntimeTaskAddress \<Rightarrow> RuntimeTaskLifecycleEvent \<Rightarrow> lifecycle_store \<Rightarrow> lifecycle_store" where
  "store_dispatch e address event s = publish_if e (reduceMachine e address event s)"

end
