(* ===== verification/RuntimeStoreOps.thy ===== *)
theory RuntimeStoreOps
  imports RuntimeStore
begin

text \<open>
  The other operations of \<open>RuntimeTaskLifecycleStore\<close>: moving a task to another address, device
  aliases, the snapshots and transcripts a client receives, and all public methods as actions.
\<close>

subsection \<open>Moving a task\<close>

definition movePersistedTaskState ::
    "string \<Rightarrow> string \<Rightarrow> lifecycle_store \<Rightarrow> lifecycle_store \<times> bool" where
  "movePersistedTaskState previousKey nextKey s =
     (let previousUnread = jm_get (stUnread s) previousKey;
          nextUnread = jm_get (stUnread s) nextKey;
          unread1 = jm_delete previousKey (stUnread s);
          move = (\<lambda>keys. if previousKey \<in> set keys then js_add nextKey (js_remove previousKey keys) else keys)
      in (s\<lparr>stUnread := (case previousUnread of
              None \<Rightarrow> unread1
            | Some p \<Rightarrow> if opt_truthy (\<lambda>n. tuRevision p \<le> tuRevision n) nextUnread then unread1
                else jm_set nextKey p unread1),
            stPreviousRunning := move (stPreviousRunning s),
            stDeferredGoal := move (stDeferredGoal s)\<rparr>,
          previousUnread \<noteq> None \<or> previousKey \<in> set (stPreviousRunning s)
            \<or> previousKey \<in> set (stDeferredGoal s)))"

definition restoreMachineUnread ::
    "string \<Rightarrow> runtime_machine \<Rightarrow> lifecycle_store \<Rightarrow> lifecycle_store \<times> runtime_machine" where
  "restoreMachineUnread key machine s =
     (let snapshot = getSnapshot machine;
          isRunning = ldIsRunning (snDerived snapshot);
          isCurrent = (Some key = stCurrentTaskKey s);
          settled = (snExecutionKnown snapshot \<and> \<not> isRunning);
          s1 = (if settled then s\<lparr>stPreviousRunning := js_remove key (stPreviousRunning s)\<rparr> else s);
          finished = (settled \<and> key \<in> set (stPreviousRunning s) \<and> \<not> ldIsQueued (snDerived snapshot)
            \<and> \<not> isCurrent \<and> jm_get (stUnread s) key = None);
          s2 = (if finished then
                  (if snGoalStatus snapshot = Some GActive
                   then s1\<lparr>stDeferredGoal := js_add key (stDeferredGoal s1)\<rparr>
                   else recordUnreadState key True s1)
                else s1)
      in if isRunning \<or> isCurrent then
           let s3 = (if isCurrent then recordUnreadState key False s2
                     else s2\<lparr>stUnread := jm_delete key (stUnread s2)\<rparr>)
           in (s3\<lparr>stDeferredGoal := js_remove key (stDeferredGoal s3)\<rparr>, fst (rm_dispatch machine MarkedRead))
         else case jm_get (stUnread s2) key of
             None \<Rightarrow> (s2, machine)
           | Some unread \<Rightarrow> (s2, fst (rm_dispatch machine
               (if tuUnread unread then MarkedUnread else MarkedRead))))"

text \<open>The events that bring a machine to the state of the one it replaces.\<close>

definition merge_events :: "RuntimeTaskLifecycleState \<Rightarrow> RuntimeTaskLifecycleEvent list" where
  "merge_events previousState =
     (let sendRequestedEvent = SendRequested (js_or truthy_text (lsWorkspaceCreationKind previousState) None)
      in (if lsHasAuthoritativeGoalStatus previousState
          then [GoalStatusReceived (lsGoalStatus previousState)] else [])
       @ (if lsExecutionPhase previousState = EpStarting then [sendRequestedEvent]
          else if lsExecutionPhase previousState = EpRunning then [ExecutorStarted] else [])
       @ (case lsTurnPhase previousState of
            TpStreaming \<Rightarrow> [TurnStarted (lsActiveTurnId previousState)]
          | TpSubmitting \<Rightarrow> [sendRequestedEvent]
          | TpAwaiting \<Rightarrow> [SendAccepted]
          | TpIdle \<Rightarrow> [])
       @ (if lsTurnOutcome previousState \<noteq> None
             \<or> (lsTurnPhase previousState = TpIdle \<and> opt_truthy truthy_text (lsLatestTurnId previousState))
          then [TurnSettled (lsLatestTurnId previousState) (lsTurnOutcome previousState)] else []))"

definition mergeMachineState ::
    "RuntimeTaskLifecycleState \<Rightarrow> runtime_machine \<Rightarrow> runtime_machine" where
  "mergeMachineState previousState nextMachine =
     foldl (\<lambda>m event. fst (rm_dispatch m event)) nextMachine (merge_events previousState)"

definition to_units :: "string \<Rightarrow> ustring" where
  "to_units s = map (\<lambda>c. word_of_nat (of_char c)) s"

definition emptyRuntimeTaskSummary :: "RuntimeTaskAddress \<Rightarrow> RuntimeTaskSummary" where
  "emptyRuntimeTaskSummary address =
     \<lparr>tsExecutionState = None, tsTaskId = adTaskId address, tsCreatedAt = None, tsUpdatedAt = None,
      tsCompletedAt = None, tsRunning = None, tsContinuable = None, tsThreadStatus = None,
      tsTurnStatus = None, tsStatus = None, tsQueuePosition = None, tsGoalStatus = None,
      tsGoalExecutionStatus = None, tsInteractionStatus = None, tsOptimistic = None,
      tsCachedProjection = None, tsError = None, tsRuntimeHandle = adRuntimeHandle address,
      tsOthers = (case adThreadId address of None \<Rightarrow> [] | Some t \<Rightarrow> [(''threadId'', JStr (to_units t))])
        @ [(''workspacePath'', JStr (to_units (the_or [] (adWorkspacePath address)))),
           (''title'', JStr (to_units (adTaskId address))),
           (''runtime'', the_or (JStr (to_units ''codex'')) (jm_get (adOthers address) ''runtime''))]\<rparr>"

definition prefers_previous_task ::
    "store_env \<Rightarrow> RuntimeTaskLifecycleState \<Rightarrow> RuntimeTaskLifecycleState \<Rightarrow> bool" where
  "prefers_previous_task e nextState previousState = (case lsTask nextState of
       None \<Rightarrow> True
     | Some n \<Rightarrow> opt_truthy (\<lambda>p. shouldReplaceRuntimeTaskProjection (sePd e) n p False) (lsTask previousState))"

definition merged_machine ::
    "store_env \<Rightarrow> runtime_machine \<Rightarrow> RuntimeTaskAddress \<Rightarrow> runtime_machine \<Rightarrow> runtime_machine" where
  "merged_machine e previousMachine nextAddress nextMachine =
     (let previousState = rmState previousMachine;
          m1 = mergeTurnHistory previousMachine nextMachine;
          preferPreviousTask = prefers_previous_task e (rmState m1) previousState;
          m2 = (if preferPreviousTask
            then fst (rm_dispatch m1 (ExecutorSnapshotReceived nextAddress
              (the_or (emptyRuntimeTaskSummary nextAddress) (lsTask previousState)))) else m1)
      in if preferPreviousTask \<or> lsTask previousState = None
         then mergeMachineState previousState m2 else m2)"

definition mergeMachineIntoAddress ::
    "store_env \<Rightarrow> string \<Rightarrow> runtime_machine \<Rightarrow> RuntimeTaskAddress \<Rightarrow> lifecycle_store \<Rightarrow> lifecycle_store" where
  "mergeMachineIntoAddress e previousKey previousMachine nextAddress s =
     (let nextKey = getRuntimeTaskLifecycleKey nextAddress;
          s1 = fst (movePersistedTaskState previousKey nextKey s);
          (s2, mapKey, nextMachine) = ensureMachine s1 nextAddress;
          (s3, m) = restoreMachineUnread nextKey (merged_machine e previousMachine nextAddress nextMachine) s2;
          s4 = put_machine mapKey m s3
      in s4\<lparr>stPreviousRunning := (if ldIsRunning (snDerived (getSnapshot m)) then stPreviousRunning s4
               else js_remove nextKey (stPreviousRunning s4)),
            stMachines := jm_delete previousKey (stMachines s4),
            stCurrentTaskKey := (if stCurrentTaskKey s4 = Some previousKey then Some nextKey
                                 else stCurrentTaskKey s4)\<rparr>)"

text \<open>The tail both \<open>rename\<close> and \<open>registerDeviceAlias\<close> have for a key that was moved.\<close>

definition restore_at :: "string \<Rightarrow> lifecycle_store \<Rightarrow> lifecycle_store" where
  "restore_at key s = (case jm_get (stMachines s) key of
       None \<Rightarrow> s
     | Some machine \<Rightarrow> (let (s', m') = restoreMachineUnread key machine s in put_machine key m' s'))"

definition store_rename ::
    "store_env \<Rightarrow> RuntimeTaskAddress \<Rightarrow> RuntimeTaskAddress \<Rightarrow> lifecycle_store \<Rightarrow> lifecycle_store" where
  "store_rename e previous nextAddr s =
     (let canonicalNext = canonicalizeAddress s nextAddr;
          previousKey = store_key s previous;
          nextKey = store_key s nextAddr
      in if previousKey = nextKey then s
         else case jm_get (stMachines s) previousKey of
             Some previousMachine \<Rightarrow>
               publish e (mergeMachineIntoAddress e previousKey previousMachine canonicalNext s)
           | None \<Rightarrow>
               let (s1, moved) = movePersistedTaskState previousKey nextKey s
               in if moved then publish e (restore_at nextKey s1) else s1)"

definition store_remove :: "store_env \<Rightarrow> RuntimeTaskAddress \<Rightarrow> lifecycle_store \<Rightarrow> lifecycle_store" where
  "store_remove e address s =
     (let key = store_key s address;
          s1 = s\<lparr>stMachines := jm_delete key (stMachines s), stUnread := jm_delete key (stUnread s),
                 stPreviousRunning := js_remove key (stPreviousRunning s),
                 stDeferredGoal := js_remove key (stDeferredGoal s)\<rparr>
      in publish_if e (s1, jm_get (stMachines s) key \<noteq> None \<or> jm_get (stUnread s) key \<noteq> None
           \<or> key \<in> set (stPreviousRunning s) \<or> key \<in> set (stDeferredGoal s)))"

subsection \<open>Device aliases\<close>

definition starts_with :: "string \<Rightarrow> string \<Rightarrow> bool" where
  "starts_with p s \<longleftrightarrow> take (length p) s = p"

definition stored_keys :: "lifecycle_store \<Rightarrow> string list" where
  "stored_keys s = foldl (\<lambda>acc k. js_add k acc) []
     (map fst (stUnread s) @ stPreviousRunning s @ stDeferredGoal s)"

definition migrate_key :: "string \<Rightarrow> string \<Rightarrow> string \<Rightarrow> string" where
  "migrate_key alias canonical key = canonical @ [CHR 0x00] @ drop (length alias + 1) key"

definition migrate_machine ::
    "store_env \<Rightarrow> string \<Rightarrow> string \<Rightarrow> lifecycle_store \<Rightarrow> string \<Rightarrow> lifecycle_store" where
  "migrate_machine e alias canonical s key = (case jm_get (stMachines s) key of
       None \<Rightarrow> s
     | Some machine \<Rightarrow>
         let address = lsAddress (rmState machine)
         in if adDeviceId address \<noteq> alias then s
            else mergeMachineIntoAddress e key machine (address\<lparr>adDeviceId := canonical\<rparr>) s)"

definition registerDeviceAlias ::
    "store_env \<Rightarrow> string \<Rightarrow> string \<Rightarrow> lifecycle_store \<Rightarrow> lifecycle_store \<times> bool" where
  "registerDeviceAlias e alias canonicalDeviceId s =
     (let canonical = resolveDeviceId s canonicalDeviceId
      in if resolveDeviceId s alias = canonical then (s, False)
         else
           let s1 = s\<lparr>stDeviceAliases := jm_set alias canonical (stDeviceAliases s)\<rparr>;
               moving = filter (starts_with (alias @ [CHR 0x00])) (stored_keys s1);
               s2 = foldl (\<lambda>s' key. fst (movePersistedTaskState key (migrate_key alias canonical key) s')) s1 moving;
               s3 = foldl (migrate_machine e alias canonical) s2 (map fst (stMachines s2));
               s4 = foldl (\<lambda>s' key. restore_at (migrate_key alias canonical key) s') s3 moving
           in (s4, True))"

text \<open>A sequence of operations that each say whether they changed anything.\<close>

fun chain ::
    "('a \<Rightarrow> lifecycle_store \<Rightarrow> lifecycle_store \<times> bool) \<Rightarrow> 'a list \<Rightarrow> lifecycle_store \<Rightarrow> lifecycle_store \<times> bool" where
  "chain f [] s = (s, False)"
| "chain f (x # xs) s = (let (s1, c1) = f x s; (s2, c2) = chain f xs s1 in (s2, c1 \<or> c2))"

text \<open>
  \<open>syncDevices\<close> on the aliases of the devices: an id that names several devices, or the device itself,
  is its own alias.
\<close>

definition unambiguous_aliases :: "(string \<times> string list) list \<Rightarrow> (string, string) jsmap" where
  "unambiguous_aliases devices =
     (let candidates = foldl (\<lambda>acc (canonicalDeviceId, ids).
            if canonicalDeviceId = [] then acc
            else foldl (\<lambda>m alias. jm_set alias (js_add canonicalDeviceId (the_or [] (jm_get m alias))) m) acc ids)
          [] devices
      in map (\<lambda>(alias, matches). (alias, if length matches = 1 then hd matches else alias)) candidates)"

definition syncDevices :: "store_env \<Rightarrow> (string \<times> string list) list \<Rightarrow> lifecycle_store \<Rightarrow> lifecycle_store" where
  "syncDevices e devices s =
     (let aliases = unambiguous_aliases devices;
          own = map fst (filter (\<lambda>(alias, canonical). alias = canonical) aliases);
          s1 = s\<lparr>stDeviceAliases := foldl (\<lambda>m alias. jm_delete alias m) (stDeviceAliases s) own\<rparr>;
          deleted = list_ex (\<lambda>alias. jm_get (stDeviceAliases s) alias \<noteq> None) own;
          (s2, registered) = chain (\<lambda>(alias, canonical) s'. registerDeviceAlias e alias canonical s')
            (filter (\<lambda>(alias, canonical). alias \<noteq> canonical) aliases) s1
      in publish_if e (s2, deleted \<or> registered))"

subsection \<open>Snapshots\<close>

record RuntimeDeviceWorkspace =
  wsDeviceId :: string
  wsRemoteHostId :: "string option"
  wsWorkspacePath :: "string option"
  wsTasks :: "RuntimeTaskSummary list"

record RuntimeWorkListResponse =
  wkProjects :: "RuntimeDeviceWorkspace list list"
  wkChats :: "RuntimeDeviceWorkspace list"

definition collectRuntimeWorkspaces :: "RuntimeWorkListResponse \<Rightarrow> RuntimeDeviceWorkspace list" where
  "collectRuntimeWorkspaces runtimeWork = wkChats runtimeWork @ concat (wkProjects runtimeWork)"

definition collectRuntimeTasks ::
    "RuntimeWorkListResponse \<Rightarrow> (RuntimeDeviceWorkspace \<times> RuntimeTaskSummary) list" where
  "collectRuntimeTasks runtimeWork =
     concat (map (\<lambda>workspace. map (Pair workspace) (wsTasks workspace)) (collectRuntimeWorkspaces runtimeWork))"

definition other_text :: "string \<Rightarrow> RuntimeTaskSummary \<Rightarrow> string option" where
  "other_text k task = text_field k (Some (tsOthers task))"

definition getRuntimeTaskAddress ::
    "RuntimeDeviceWorkspace \<Rightarrow> RuntimeTaskSummary \<Rightarrow> RuntimeTaskAddress" where
  "getRuntimeTaskAddress workspace task =
     \<lparr>adDeviceId = wsDeviceId workspace, adTaskId = tsTaskId task,
      adThreadId = other_text ''threadId'' task,
      adWorkspacePath = js_or truthy_text (other_text ''workspacePath'' task) (wsWorkspacePath workspace),
      adRuntimeHandle = tsRuntimeHandle task,
      adOthers = (case other_text ''runtime'' task of
          None \<Rightarrow> []
        | Some runtime \<Rightarrow> if runtime = ''codex'' then [] else [(''runtime'', JStr (to_units runtime))])\<rparr>"

definition registerRuntimeWorkAliases ::
    "store_env \<Rightarrow> RuntimeWorkListResponse \<Rightarrow> lifecycle_store \<Rightarrow> lifecycle_store \<times> bool" where
  "registerRuntimeWorkAliases e runtimeWork s =
     chain (\<lambda>workspace s'.
        let alias = the_or [] (map_option js_trim (wsRemoteHostId workspace));
            canonicalDeviceId = js_trim (wsDeviceId workspace)
        in if alias = [] \<or> canonicalDeviceId = [] \<or> alias = canonicalDeviceId then (s', False)
           else registerDeviceAlias e alias canonicalDeviceId s')
       (collectRuntimeWorkspaces runtimeWork) s"

definition sync_one_task ::
    "store_env \<Rightarrow> RuntimeDeviceWorkspace \<times> RuntimeTaskSummary \<Rightarrow> lifecycle_store \<Rightarrow> lifecycle_store \<times> bool" where
  "sync_one_task e = (\<lambda>(workspace, task) s.
     let address = getRuntimeTaskAddress workspace task
     in reduceMachine e address (ExecutorSnapshotReceived address (normalizeRuntimeTaskSummary task)) s)"

definition syncRuntimeWork ::
    "store_env \<Rightarrow> RuntimeWorkListResponse option \<Rightarrow> lifecycle_store \<Rightarrow> lifecycle_store" where
  "syncRuntimeWork e runtimeWork s = (case runtimeWork of
       None \<Rightarrow> s
     | Some work \<Rightarrow>
         let (s1, c1) = registerRuntimeWorkAliases e work s;
             (s2, c2) = chain (sync_one_task e) (collectRuntimeTasks work) s1
         in publish_if e (s2, c1 \<or> c2))"

definition invalidateNativeExecutions ::
    "store_env \<Rightarrow> lifecycle_store \<Rightarrow> lifecycle_store \<times> RuntimeTaskAddress list" where
  "invalidateNativeExecutions e s =
     (let native = (\<lambda>machine. native_state (rmState machine) \<noteq> None);
          machines = map (\<lambda>(key, machine). (key,
            if native machine then fst (rm_dispatch machine ExecutorReplaced) else machine)) (stMachines s);
          changed = list_ex (\<lambda>(_, machine). native machine \<and> snd (rm_dispatch machine ExecutorReplaced))
            (stMachines s)
      in (publish_if e (s\<lparr>stMachines := machines\<rparr>, changed),
          map (\<lambda>(_, machine). lsAddress (rmState machine))
            (filter (\<lambda>(_, machine). native machine) (stMachines s))))"

definition runtimeTaskLifecycleTransitionChanged ::
    "RuntimeTaskLifecycleSnapshot option \<Rightarrow> RuntimeTaskLifecycleSnapshot option \<Rightarrow> bool" where
  "runtimeTaskLifecycleTransitionChanged expected current =
     (case (expected, current) of
        (Some x, Some y) \<Rightarrow> snExecutionPhase x \<noteq> snExecutionPhase y \<or> snTurnPhase x \<noteq> snTurnPhase y
          \<or> snTurnId x \<noteq> snTurnId y \<or> snTurnLatestId x \<noteq> snTurnLatestId y
          \<or> snTurnOutcome x \<noteq> snTurnOutcome y \<or> snGoalStatus x \<noteq> snGoalStatus y
          \<or> snContinuable x \<noteq> snContinuable y
      | (None, None) \<Rightarrow> False
      | _ \<Rightarrow> True)"

text \<open>The outer \<open>None\<close> of the expected snapshot is a missing argument. The result is the method's.\<close>

definition syncRuntimeTask ::
    "store_env \<Rightarrow> RuntimeTaskAddress \<Rightarrow> RuntimeTaskSummary \<Rightarrow> RuntimeTaskLifecycleSnapshot option option \<Rightarrow>
     lifecycle_store \<Rightarrow> lifecycle_store \<times> bool" where
  "syncRuntimeTask e address task expectedSnapshot s =
     (if opt_truthy (\<lambda>x. runtimeTaskLifecycleTransitionChanged x (getTask s address)) expectedSnapshot
      then (s, False)
      else
        let normalizedTask = normalizeRuntimeTaskSummary task;
            s' = publish_if e (reduceMachine e address (ExecutorSnapshotReceived address normalizedTask) s)
        in (s', tsRunning normalizedTask = None
             \<or> tsRunning normalizedTask = map_option snExecutionRunning (getTask s' address)))"

subsection \<open>Transcripts\<close>

definition isTerminalTurnStatus :: "string option \<Rightarrow> bool" where
  "isTerminalTurnStatus status \<longleftrightarrow> bare_word_of status \<in> Some ` set
     [''done'', ''complete'', ''completed'', ''failed'', ''error'', ''cancelled'', ''canceled'', ''interrupted'']"

definition terminalTurnOutcome :: "string option \<Rightarrow> TurnOutcome" where
  "terminalTurnOutcome status =
     (if bare_word_of status \<in> {Some ''failed'', Some ''error''} then Failed
      else if bare_word_of status \<in> {Some ''cancelled'', Some ''canceled'', Some ''interrupted''} then Cancelled
      else Succeeded)"

definition shouldIgnoreStaleRunningTranscript :: "RuntimeTaskLifecycleSnapshot option \<Rightarrow> bool" where
  "shouldIgnoreStaleRunningTranscript current = opt_truthy (\<lambda>c.
     \<not> ldIsRunning (snDerived c) \<and>
     (Option.bind (snTask c) tsGoalExecutionStatus = Some GeNeedsAttention \<or> snTurnOutcome c \<noteq> None
      \<or> (snGoalStatus c \<noteq> Some GActive \<and> opt_truthy isRuntimeTaskAuthoritativeCompletion (snTask c)))) current"

definition last_terminal_turn :: "RuntimePaneTranscript \<Rightarrow> TranscriptTurn option" where
  "last_terminal_turn transcript =
     List.find (\<lambda>turn. isTerminalTurnStatus (ttStatus turn)) (rev (trTurns transcript))"

fun timestamp_text :: "timestamp \<Rightarrow> string" where
  "timestamp_text (TimeNum n) = show_int n"
| "timestamp_text (TimeStr s) = s"

definition is_native_task :: "lifecycle_store \<Rightarrow> RuntimeTaskAddress \<Rightarrow> bool" where
  "is_native_task s address \<longleftrightarrow> Option.bind (Option.bind (getTask s address) snTask) tsExecutionState \<noteq> None"

text \<open>The summary a finished turn of the transcript makes of the one that is held.\<close>

definition settled_task ::
    "RuntimeTaskSummary \<Rightarrow> TranscriptTurn \<Rightarrow> timestamp \<Rightarrow> RuntimeTaskInteractionStatus option \<Rightarrow> RuntimeTaskSummary" where
  "settled_task currentTask terminalTurn completedAt interactionStatus =
     (let outcome = terminalTurnOutcome (ttStatus terminalTurn)
      in currentTask
        \<lparr>tsRuntimeHandle := (if opt_truthy truthy_text (ttId terminalTurn)
           then Some (jm_set ''lastTurnId'' (JStr (to_units (the_or [] (ttId terminalTurn))))
             (the_or [] (tsRuntimeHandle currentTask)))
           else tsRuntimeHandle currentTask),
         tsRunning := Some False,
         tsCompletedAt := Some completedAt,
         tsInteractionStatus := Some (if outcome = Succeeded then interactionStatus else None),
         tsStatus := (case outcome of Failed \<Rightarrow> Some ''failed'' | Cancelled \<Rightarrow> Some ''cancelled''
           | Succeeded \<Rightarrow> tsStatus currentTask),
         tsTurnStatus := Some (case outcome of Failed \<Rightarrow> ''failed'' | Cancelled \<Rightarrow> ''interrupted''
           | Succeeded \<Rightarrow> ''completed'')\<rparr>)"

text \<open>The part for a transcript that is not running and whose last finished turn has a time.\<close>

definition sync_terminal_turn ::
    "store_env \<Rightarrow> RuntimeTaskAddress \<Rightarrow> TranscriptTurn \<Rightarrow> timestamp \<Rightarrow> lifecycle_store \<Rightarrow> lifecycle_store" where
  "sync_terminal_turn e address terminalTurn completedAt s =
     (let current = getTask s address
      in if opt_truthy snTurnActive current
            \<and> opt_truthy (\<lambda>i. truthy_text i \<and> store_isPriorTurn s address i) (ttId terminalTurn) then s
         else case Option.bind current snTask of
           None \<Rightarrow> store_dispatch e address ExecutorSettled s
         | Some currentTask \<Rightarrow>
             if opt_truthy (\<lambda>t. timestamp_text t = timestamp_text completedAt) (tsCompletedAt currentTask) then
               let currentTurnId = Option.bind current snTurnId
               in if opt_truthy truthy_text currentTurnId \<and> ttId terminalTurn = currentTurnId then
                    store_dispatch e address
                      (TurnSettled currentTurnId (Some (terminalTurnOutcome (ttStatus terminalTurn))))
                      (store_dispatch e address ExecutorSettled s)
                  else s
             else fst (syncRuntimeTask e address
               (settled_task currentTask terminalTurn completedAt (Option.bind current snInteractionStatus)) None s))"

definition syncRuntimeTranscriptSnapshot ::
    "store_env \<Rightarrow> RuntimeTaskAddress \<Rightarrow> RuntimePaneTranscript \<Rightarrow> lifecycle_store \<Rightarrow> lifecycle_store" where
  "syncRuntimeTranscriptSnapshot e address transcript s =
     (if is_native_task s address then s
      else case trRunning transcript of
        Some True \<Rightarrow>
          if shouldIgnoreStaleRunningTranscript (getTask s address) then s
          else store_dispatch e address ExecutorStarted s
      | None \<Rightarrow> s
      | Some False \<Rightarrow>
          case last_terminal_turn transcript of
            None \<Rightarrow> s
          | Some terminalTurn \<Rightarrow>
              (case ttCompletedAt terminalTurn of
                 None \<Rightarrow> s
               | Some completedAt \<Rightarrow> sync_terminal_turn e address terminalTurn completedAt s))"

definition in_progress :: "TranscriptTurn \<Rightarrow> bool" where
  "in_progress turn \<longleftrightarrow> ttStatus turn = Some ''pending'' \<or> ttStatus turn = Some ''streaming''"

definition observe_turns :: "RuntimePaneTranscript \<Rightarrow> runtime_machine \<Rightarrow> runtime_machine" where
  "observe_turns transcript machine = foldl (\<lambda>m turn.
     if opt_truthy truthy_text (ttId turn) \<and> in_progress turn then observeTurn (the_or [] (ttId turn)) m else m)
     machine (trTurns transcript)"

text \<open>What \<open>syncTranscript\<close> does once the snapshot part is over: \<open>s0\<close> is the store before that part.\<close>

definition follow_transcript ::
    "store_env \<Rightarrow> RuntimeTaskAddress \<Rightarrow> RuntimePaneTranscript \<Rightarrow> bool \<Rightarrow> lifecycle_store \<Rightarrow>
     lifecycle_store \<Rightarrow> lifecycle_store" where
  "follow_transcript e address transcript ignoreStaleIdleTranscript s0 s =
     (let currentTurn = getTask s0 address;
          terminalTurn = last_terminal_turn transcript;
          latestTurn = (if trTurns transcript = [] then None else Some (last (trTurns transcript)));
          streamingTurn = (if opt_truthy in_progress latestTurn then latestTurn else None);
          current = getTask s address;
          ignoreStaleRunning = shouldIgnoreStaleRunningTranscript current
      in case streamingTurn of
           Some turn \<Rightarrow>
             if ignoreStaleRunning then
               (let (s1, key, machine) = ensureMachine s (canonicalizeAddress s address)
                in put_machine key (observe_turns transcript machine) s1)
             else
               let known = coalesce (Option.bind currentTurn snTurnId) (Option.bind currentTurn snTurnLatestId);
                   stale = (opt_truthy truthy_text (ttId turn) \<and>
                     (opt_truthy snTurnActive currentTurn \<and> store_isPriorTurn s address (the_or [] (ttId turn))
                      \<or> trRunning transcript = Some False \<and> opt_truthy truthy_text known \<and> ttId turn \<noteq> known))
               in if stale then s
                  else store_dispatch e address (TurnRecovered True (ttId turn))
                    (store_dispatch e address ExecutorStarted s)
         | None \<Rightarrow>
             if trRunning transcript = Some True then
               let s1 = (if ignoreStaleRunning then s else store_dispatch e address ExecutorStarted s);
                   settles = (opt_truthy (\<lambda>c. (snExecutionPhase c = EpIdle \<or> snExecutionPhase c = EpRunning)
                       \<and> \<not> snTurnActive c) current
                     \<and> opt_truthy (\<lambda>turn. opt_truthy truthy_text (ttId turn) \<and> isTerminalTurnStatus (ttStatus turn)
                         \<and> (Option.bind current snTurnLatestId = None
                            \<or> Option.bind current snTurnLatestId = ttId turn)) latestTurn)
               in if settles then store_dispatch e address (TurnSettled (Option.bind latestTurn ttId)
                    (map_option (\<lambda>turn. terminalTurnOutcome (ttStatus turn)) latestTurn)) s1
                  else s1
             else if trRunning transcript = Some False \<and> \<not> ignoreStaleIdleTranscript then
               store_dispatch e address (TurnSettled (Option.bind terminalTurn ttId)
                 (map_option (\<lambda>turn. terminalTurnOutcome (ttStatus turn)) terminalTurn))
                 (store_dispatch e address ExecutorSettled s)
             else s)"

definition syncTranscript ::
    "store_env \<Rightarrow> RuntimeTaskAddress \<Rightarrow> RuntimePaneTranscript \<Rightarrow> bool \<Rightarrow> lifecycle_store \<Rightarrow> lifecycle_store" where
  "syncTranscript e address transcript preserveActiveTurn s =
     (if is_native_task s address then s
      else
        let recoveredTurn = getTask s address;
            completedRecoveredTurn = (trRunning transcript = Some False
              \<and> opt_truthy (\<lambda>c. snTurnPhase c = TpStreaming) recoveredTurn
              \<and> list_ex (\<lambda>turn. ttId turn = Option.bind recoveredTurn snTurnId
                  \<and> isTerminalTurnStatus (ttStatus turn)) (trTurns transcript));
            s0 = (if completedRecoveredTurn then store_dispatch e address ExecutorSettled s else s);
            currentTurn = getTask s0 address;
            terminalId = Option.bind (last_terminal_turn transcript) ttId;
            ignoreStaleIdleTranscript = (trRunning transcript = Some False \<and>
              (preserveActiveTurn \<and> opt_truthy (\<lambda>c. ldIsRunning (snDerived c)) currentTurn
               \<or> opt_truthy snTurnActive currentTurn
                 \<and> opt_truthy (\<lambda>i. truthy_text i \<and> store_isPriorTurn s0 address i) terminalId));
            s1 = (if ignoreStaleIdleTranscript then s0
                  else syncRuntimeTranscriptSnapshot e address transcript s0)
        in follow_transcript e address transcript ignoreStaleIdleTranscript s0 s1)"

subsection \<open>The public methods\<close>

definition setCurrentTask ::
    "store_env \<Rightarrow> RuntimeTaskAddress option \<Rightarrow> lifecycle_store \<Rightarrow> lifecycle_store" where
  "setCurrentTask e address s =
     (let nextKey = map_option (store_key s) address
      in if nextKey = stCurrentTaskKey s then s
         else
           let s1 = s\<lparr>stCurrentTaskKey := nextKey\<rparr>
           in case address of
                Some a \<Rightarrow> store_dispatch e (canonicalizeAddress s a) MarkedRead s1
              | None \<Rightarrow> publish e s1)"

datatype store_action =
    SyncRuntimeWork "RuntimeWorkListResponse option"
  | InvalidateNativeExecutions
  | SyncDevices "(string \<times> string list) list"
  | SyncRuntimeTask RuntimeTaskAddress RuntimeTaskSummary "RuntimeTaskLifecycleSnapshot option option"
  | SyncTranscriptSnapshot RuntimeTaskAddress RuntimePaneTranscript
  | SyncTranscript RuntimeTaskAddress RuntimePaneTranscript bool
  | SetCurrentTask "RuntimeTaskAddress option"
  | StoreEvent RuntimeTaskAddress RuntimeTaskLifecycleEvent
  | RemoveTask RuntimeTaskAddress
  | RenameTask RuntimeTaskAddress RuntimeTaskAddress

fun store_act :: "store_env \<Rightarrow> lifecycle_store \<Rightarrow> store_action \<Rightarrow> lifecycle_store" where
  "store_act e s (SyncRuntimeWork work) = syncRuntimeWork e work s"
| "store_act e s InvalidateNativeExecutions = fst (invalidateNativeExecutions e s)"
| "store_act e s (SyncDevices devices) = syncDevices e devices s"
| "store_act e s (SyncRuntimeTask a t x) = fst (syncRuntimeTask e a t x s)"
| "store_act e s (SyncTranscriptSnapshot a t) = syncRuntimeTranscriptSnapshot e a t s"
| "store_act e s (SyncTranscript a t p) = syncTranscript e a t p s"
| "store_act e s (SetCurrentTask a) = setCurrentTask e a s"
| "store_act e s (StoreEvent a ev) = store_dispatch e a ev s"
| "store_act e s (RemoveTask a) = store_remove e a s"
| "store_act e s (RenameTask a b) = store_rename e a b s"

text \<open>A view for one of several owners: without ownership no method that writes does anything.\<close>

definition owner_act ::
    "bool \<Rightarrow> store_env \<Rightarrow> lifecycle_store \<Rightarrow> store_action \<Rightarrow> lifecycle_store" where
  "owner_act canWrite e s a = (if canWrite then store_act e s a else s)"

definition consumeRuntimeTaskLifecycleBlock ::
    "(string, RuntimeTaskLifecycleSnapshot option) jsmap \<Rightarrow> string \<Rightarrow> RuntimeTaskLifecycleSnapshot option \<Rightarrow>
     (string, RuntimeTaskLifecycleSnapshot option) jsmap \<times> bool" where
  "consumeRuntimeTaskLifecycleBlock blockedSnapshots key current =
     (case jm_get blockedSnapshots key of
        None \<Rightarrow> (blockedSnapshots, True)
      | Some blocked \<Rightarrow>
          if \<not> runtimeTaskLifecycleTransitionChanged blocked current then (blockedSnapshots, False)
          else (jm_delete key blockedSnapshots, True))"

end
