(* ===== verification/RuntimeStoreInv.thy ===== *)
theory RuntimeStoreInv
  imports RuntimeStoreOps
begin

text \<open>
  The invariants of the store: device aliases never form a cycle, every machine is filed under the key
  of its own address and under a device that is not an alias, and what has been published is what the
  machines say.
\<close>

subsection \<open>Aliases\<close>

definition alias_root :: "(string, string) jsmap \<Rightarrow> string \<Rightarrow> bool" where
  "alias_root aliases d = (case jm_get aliases d of None \<Rightarrow> True | Some n \<Rightarrow> n = [] \<or> n = d)"

definition alias_rank :: "(string \<Rightarrow> nat) \<Rightarrow> (string, string) jsmap \<Rightarrow> bool" where
  "alias_rank rank aliases \<longleftrightarrow>
     (\<forall>d n. jm_get aliases d = Some n \<longrightarrow> n \<noteq> [] \<longrightarrow> n \<noteq> d \<longrightarrow> rank n < rank d)"

text \<open>Device ids do not contain the character that separates them from the task in a key.\<close>

definition plain :: "string \<Rightarrow> bool" where
  "plain d \<longleftrightarrow> CHR 0x00 \<notin> set d"

definition aliases_ok :: "(string, string) jsmap \<Rightarrow> bool" where
  "aliases_ok aliases \<longleftrightarrow> (\<exists>rank. alias_rank rank aliases) \<and>
     (\<forall>d n. jm_get aliases d = Some n \<longrightarrow> plain n)"

lemma key_injective:
  assumes "plain (adDeviceId a)" and "plain (adDeviceId b)"
    and "getRuntimeTaskLifecycleKey a = getRuntimeTaskLifecycleKey b"
  shows "adDeviceId a = adDeviceId b \<and> adTaskId a = adTaskId b"
proof -
  have "takeWhile (\<lambda>c. c \<noteq> CHR 0x00) (getRuntimeTaskLifecycleKey x) = adDeviceId x"
    if "plain (adDeviceId x)" for x
    using that by (auto simp: plain_def getRuntimeTaskLifecycleKey_def takeWhile_append intro: takeWhile_eq_all_conv [THEN iffD2])
  with assms have "adDeviceId a = adDeviceId b" by metis
  with assms(3) show ?thesis by (simp add: getRuntimeTaskLifecycleKey_def)
qed

lemma resolve_reaches_root:
  "alias_rank rank aliases \<Longrightarrow> \<forall>v \<in> set visited. rank current < rank v \<Longrightarrow>
   alias_root aliases (resolve_from aliases visited current)"
proof (induction aliases visited current rule: resolve_from.induct)
  case (1 aliases visited current)
  have fresh: "current \<notin> set visited" using "1.prems"(2) by blast
  show ?case
  proof (cases "alias_root aliases current")
    case True
    with fresh show ?thesis
      by (subst resolve_from.simps) (auto simp: alias_root_def split: option.splits)
  next
    case False
    then obtain n where n: "jm_get aliases current = Some n" "n \<noteq> []" "n \<noteq> current"
      by (auto simp: alias_root_def split: option.splits)
    with "1.prems"(1) have less: "rank n < rank current" by (auto simp: alias_rank_def)
    have "\<forall>v \<in> set (current # visited). rank n < rank v"
      using "1.prems"(2) less by (auto intro: less_trans)
    with "1.IH" [OF fresh n(1)] n "1.prems"(1)
    have "alias_root aliases (resolve_from aliases (current # visited) n)" by auto
    with fresh n show ?thesis by (subst resolve_from.simps) simp
  qed
qed

lemma resolve_of_root: "alias_root aliases d \<Longrightarrow> resolve_from aliases [] d = d"
  by (subst resolve_from.simps) (auto simp: alias_root_def split: option.splits)

lemma resolve_plain:
  "\<forall>d n. jm_get aliases d = Some n \<longrightarrow> plain n \<Longrightarrow> plain current \<Longrightarrow> plain (resolve_from aliases visited current)"
proof (induction aliases visited current rule: resolve_from.induct)
  case (1 aliases visited current)
  then show ?case by (subst resolve_from.simps) (auto split: option.split)
qed

lemma resolved_plain:
  "aliases_ok (stDeviceAliases s) \<Longrightarrow> plain d \<Longrightarrow> plain (resolveDeviceId s d)"
  unfolding aliases_ok_def resolveDeviceId_def by (auto intro: resolve_plain)

lemma resolve_root: "aliases_ok (stDeviceAliases s) \<Longrightarrow> alias_root (stDeviceAliases s) (resolveDeviceId s d)"
  unfolding aliases_ok_def resolveDeviceId_def by (auto intro: resolve_reaches_root)

lemma aliases_ok_Nil [simp]: "aliases_ok []"
  by (simp add: aliases_ok_def alias_rank_def)

lemma aliases_ok_sub:
  assumes "aliases_ok aliases" and sub: "\<And>d n. jm_get aliases' d = Some n \<Longrightarrow> n \<noteq> d \<Longrightarrow> jm_get aliases d = Some n"
    and "\<And>d n. jm_get aliases' d = Some n \<Longrightarrow> plain n"
  shows "aliases_ok aliases'"
proof -
  obtain rank where "alias_rank rank aliases" using assms(1) by (auto simp: aliases_ok_def)
  with sub have "alias_rank rank aliases'" unfolding alias_rank_def by blast
  with assms(3) show ?thesis unfolding aliases_ok_def by blast
qed

lemma aliases_ok_plain: "aliases_ok aliases \<Longrightarrow> jm_get aliases d = Some n \<Longrightarrow> plain n"
  by (simp add: aliases_ok_def)

lemma aliases_ok_delete: "aliases_ok aliases \<Longrightarrow> aliases_ok (jm_delete d aliases)"
  by (rule aliases_ok_sub) (auto dest: aliases_ok_plain split: if_split_asm)

lemma alias_root_delete: "alias_root aliases d \<Longrightarrow> alias_root (jm_delete d' aliases) d"
  by (simp add: alias_root_def)

text \<open>An alias to a device that is not one itself closes no cycle.\<close>

lemma aliases_ok_set:
  assumes "aliases_ok aliases" and "alias_root aliases canonical" and "plain canonical"
  shows "aliases_ok (jm_set alias canonical aliases)"
proof (cases "alias = canonical")
  case True
  with assms show ?thesis
    by (intro aliases_ok_sub [OF assms(1)]) (auto dest: aliases_ok_plain [OF assms(1)] split: if_split_asm)
next
  case False
  obtain rank where rank: "alias_rank rank aliases" using assms(1) by (auto simp: aliases_ok_def)
  let ?rank = "\<lambda>d. if d = canonical then 0 else Suc (rank d)"
  have "alias_rank ?rank (jm_set alias canonical aliases)"
    unfolding alias_rank_def
  proof (intro allI impI)
    fix d n
    assume step: "jm_get (jm_set alias canonical aliases) d = Some n" "n \<noteq> []" "n \<noteq> d"
    show "?rank n < ?rank d"
    proof (cases "d = alias")
      case True
      with step False show ?thesis by simp
    next
      case False
      with step have old: "jm_get aliases d = Some n" by simp
      with assms(2) step have "d \<noteq> canonical" by (auto simp: alias_root_def)
      moreover have "rank n < rank d" using rank old step unfolding alias_rank_def by blast
      ultimately show ?thesis by simp
    qed
  qed
  moreover have "\<forall>d n. jm_get (jm_set alias canonical aliases) d = Some n \<longrightarrow> plain n"
    using assms by (simp add: aliases_ok_def)
  ultimately show ?thesis unfolding aliases_ok_def by blast
qed

lemma alias_root_set: "alias_root aliases d \<Longrightarrow> d \<noteq> alias \<Longrightarrow> alias_root (jm_set alias canonical aliases) d"
  by (simp add: alias_root_def)

subsection \<open>Where a machine is filed\<close>

definition addr_id :: "RuntimeTaskAddress \<Rightarrow> string \<times> string" where
  "addr_id a = (adDeviceId a, adTaskId a)"

lemma key_of_addr_id: "addr_id a = addr_id b \<Longrightarrow> getRuntimeTaskLifecycleKey a = getRuntimeTaskLifecycleKey b"
  by (simp add: addr_id_def getRuntimeTaskLifecycleKey_def)

lemma addr_id_merge [simp]: "addr_id (mergeAddress a b) = addr_id b"
  by (simp add: addr_id_def mergeAddress_def)

lemma snapshot_state_address [simp]: "lsAddress (snapshot_state s a t f) = mergeAddress (lsAddress s) a"
  by (simp add: snapshot_state_def Let_def)

lemma native_snapshot_address:
  "reduceNativeSnapshot s a t = Some s' \<Longrightarrow> lsAddress s' = mergeAddress (lsAddress s) a"
  by (auto simp: reduceNativeSnapshot_def split: option.split_asm if_split_asm)

lemma reduceSnapshot_address:
  "reduceSnapshot s a t = Some s' \<Longrightarrow> lsAddress s' = mergeAddress (lsAddress s) a"
  by (elim reduceSnapshot_cases) (simp_all add: native_snapshot_address)

lemma other_event_address [simp]:
  "lsAddress (reduceSendQueued s q) = lsAddress s" "lsAddress (reduceGoalStatus s g) = lsAddress s"
  by (simp_all add: reduceSendQueued_def reduceGoalStatus_def Let_def)

lemma settled_address: "reduceTurnSettled s i out = Some s' \<Longrightarrow> lsAddress s' = lsAddress s"
  by (auto simp: reduceTurnSettled_def Let_def split: if_split_asm)

lemma reduce_address:
  assumes "reduceRuntimeTaskLifecycle s ev = Some s'"
  shows "lsAddress s' = (case ev of ExecutorSnapshotReceived a _ \<Rightarrow> mergeAddress (lsAddress s) a
     | _ \<Rightarrow> lsAddress s)"
proof (cases ev)
  case (ExecutorSnapshotReceived a t)
  with assms show ?thesis
    by (auto simp: reduceRuntimeTaskLifecycle_def dest: reduceSnapshot_address split: if_split_asm)
qed (use assms in \<open>auto simp: reduceRuntimeTaskLifecycle_def split: if_split_asm dest: settled_address\<close>)

lemma dispatch_rmState:
  "rmState (fst (rm_dispatch m ev)) =
     (if refused m ev then rmState m else the_or (rmState m) (reduceRuntimeTaskLifecycle (rmState m) ev))"
proof (cases "refused m ev")
  case True
  then have "ev \<noteq> ExecutorReplaced" by auto
  with True show ?thesis by (simp add: dispatch_refused)
qed (simp add: dispatch_state)

lemma dispatch_unchanged:
  assumes "\<not> snd (rm_dispatch m ev)"
  shows "rmState (fst (rm_dispatch m ev)) = rmState m" and "rmRevision (fst (rm_dispatch m ev)) = rmRevision m"
  using assms by (auto simp: rm_dispatch_def Let_def split: if_split_asm)

lemma dispatch_addr:
  "addr_id (lsAddress (rmState (fst (rm_dispatch m ev)))) =
     (case ev of ExecutorSnapshotReceived a t \<Rightarrow>
        if refused m ev \<or> reduceRuntimeTaskLifecycle (rmState m) ev = None
        then addr_id (lsAddress (rmState m)) else addr_id a
      | _ \<Rightarrow> addr_id (lsAddress (rmState m)))"
proof (cases "reduceRuntimeTaskLifecycle (rmState m) ev")
  case None
  then show ?thesis by (cases ev) (simp_all add: dispatch_rmState)
next
  case (Some s')
  then show ?thesis by (cases ev) (simp_all add: dispatch_rmState reduce_address)
qed

definition filed :: "(string, string) jsmap \<Rightarrow> string \<Rightarrow> runtime_machine \<Rightarrow> bool" where
  "filed aliases key m \<longleftrightarrow> key = getRuntimeTaskLifecycleKey (lsAddress (rmState m))
     \<and> alias_root aliases (adDeviceId (lsAddress (rmState m))) \<and> plain (adDeviceId (lsAddress (rmState m)))"

lemma filed_cong:
  "addr_id (lsAddress (rmState m)) = addr_id (lsAddress (rmState m')) \<Longrightarrow> filed aliases key m = filed aliases key m'"
  by (simp add: filed_def addr_id_def getRuntimeTaskLifecycleKey_def)

text \<open>Where an event may be sent: a snapshot only to the machine of its own address.\<close>

definition sent_to :: "(string, string) jsmap \<Rightarrow> string \<Rightarrow> RuntimeTaskLifecycleEvent \<Rightarrow> bool" where
  "sent_to aliases key ev = (case ev of
       ExecutorSnapshotReceived a _ \<Rightarrow> key = getRuntimeTaskLifecycleKey a \<and> alias_root aliases (adDeviceId a)
         \<and> plain (adDeviceId a)
     | _ \<Rightarrow> True)"

lemma filed_dispatch:
  assumes "filed aliases key m" and "sent_to aliases key ev"
  shows "filed aliases key (fst (rm_dispatch m ev))"
proof (cases "\<exists>a t. ev = ExecutorSnapshotReceived a t \<and> addr_id (lsAddress (rmState (fst (rm_dispatch m ev)))) = addr_id a")
  case True
  then obtain a t where "ev = ExecutorSnapshotReceived a t"
    "addr_id (lsAddress (rmState (fst (rm_dispatch m ev)))) = addr_id a" by blast
  with assms(2) show ?thesis
    by (auto simp: filed_def sent_to_def addr_id_def getRuntimeTaskLifecycleKey_def)
next
  case False
  then have "addr_id (lsAddress (rmState (fst (rm_dispatch m ev)))) = addr_id (lsAddress (rmState m))"
    by (simp add: dispatch_addr split: RuntimeTaskLifecycleEvent.split_asm if_split_asm)
  with assms(1) show ?thesis using filed_cong by blast
qed

text \<open>Marking a machine read or unread.\<close>

definition marked :: "runtime_machine \<Rightarrow> runtime_machine \<Rightarrow> bool" where
  "marked m m' \<longleftrightarrow> (\<exists>u. rmState m' = (rmState m)\<lparr>lsUnread := u\<rparr>) \<and> rmRevision m \<le> rmRevision m'
     \<and> rmRetiredExecutorEpochs m' = rmRetiredExecutorEpochs m"

lemma marked_refl [simp]: "marked m m"
  unfolding marked_def by (auto intro: exI [of _ "lsUnread (rmState m)"])

lemma marked_trans: "marked m1 m2 \<Longrightarrow> marked m2 m3 \<Longrightarrow> marked m1 m3"
  by (auto simp: marked_def)

lemma mark_state:
  "rmState (fst (rm_dispatch m MarkedRead)) = (rmState m)\<lparr>lsUnread := False\<rparr>"
  "rmState (fst (rm_dispatch m MarkedUnread)) = (rmState m)\<lparr>lsUnread := True\<rparr>"
  by (auto simp: dispatch_rmState reduceRuntimeTaskLifecycle_def refused_def)

lemma marked_dispatch [simp]:
  "marked m (fst (rm_dispatch m MarkedRead))" "marked m (fst (rm_dispatch m MarkedUnread))"
  by (auto simp: marked_def mark_state dispatch_monotone dispatch_epochs)

lemma marked_filed: "marked m m' \<Longrightarrow> filed aliases key m' = filed aliases key m"
  by (intro filed_cong) (auto simp: marked_def)

lemma mark_if_marked:
  "ev = MarkedRead \<or> ev = MarkedUnread \<Longrightarrow> marked m (fst (mark_if b ev m))"
  by (auto simp: mark_if_def)

lemma mark_if_unchanged:
  "\<not> snd (mark_if b ev m) \<Longrightarrow> rmState (fst (mark_if b ev m)) = rmState m
     \<and> rmRevision (fst (mark_if b ev m)) = rmRevision m"
  by (cases b) (simp_all add: mark_if_def dispatch_unchanged)

lemma mark_if_unread [simp]:
  "lsUnread (rmState (fst (mark_if b MarkedRead m))) = (\<not> b \<and> lsUnread (rmState m))"
  "lsUnread (rmState (fst (mark_if b MarkedUnread m))) = (b \<or> lsUnread (rmState m))"
  by (simp_all add: mark_if_def mark_state)

lemma settle_unread_machine:
  assumes "settle_unread key w u ev m s = (s', m', c)"
  obtains b1 b2 where "m' = fst (mark_if b2 MarkedRead (fst (mark_if b1 MarkedUnread m)))"
    and "c = (snd (mark_if b1 MarkedUnread m) \<or> snd (mark_if b2 MarkedRead (fst (mark_if b1 MarkedUnread m))))"
    and "b1 = marks_unread s key w (getSnapshot m)"
    and "b2 = (ldIsRunning (snDerived (getSnapshot m)) \<or> is_current s (getSnapshot m))"
  using assms by (auto simp: settle_unread_def Let_def)

lemma settle_unread_marked:
  assumes "settle_unread key w u ev m s = (s', m', c)"
  shows "marked m m'" and "\<not> c \<Longrightarrow> rmState m' = rmState m \<and> rmRevision m' = rmRevision m"
proof -
  from assms obtain b1 b2
    where m': "m' = fst (mark_if b2 MarkedRead (fst (mark_if b1 MarkedUnread m)))"
      and c: "c = (snd (mark_if b1 MarkedUnread m) \<or> snd (mark_if b2 MarkedRead (fst (mark_if b1 MarkedUnread m))))"
    by (rule settle_unread_machine)
  show "marked m m'" unfolding m' by (rule marked_trans [OF mark_if_marked mark_if_marked]) simp_all
  show "\<not> c \<Longrightarrow> rmState m' = rmState m \<and> rmRevision m' = rmRevision m"
    unfolding m' c by (simp add: mark_if_unchanged)
qed

lemma recordUnreadState_frame [simp]:
  "stMachines (recordUnreadState key u s) = stMachines s"
  "stDeviceAliases (recordUnreadState key u s) = stDeviceAliases s"
  "stCurrentTaskKey (recordUnreadState key u s) = stCurrentTaskKey s"
  "stSnapshot (recordUnreadState key u s) = stSnapshot s"
  "stVersion (recordUnreadState key u s) = stVersion s"
  "stPreviousRunning (recordUnreadState key u s) = stPreviousRunning s"
  "stDeferredGoal (recordUnreadState key u s) = stDeferredGoal s"
  by (simp_all add: recordUnreadState_def Let_def)

lemma settle_unread_frame:
  assumes "settle_unread key w u ev m s = (s', m', c)"
  shows "stMachines s' = stMachines s" and "stDeviceAliases s' = stDeviceAliases s"
    and "stCurrentTaskKey s' = stCurrentTaskKey s" and "stSnapshot s' = stSnapshot s"
    and "stVersion s' = stVersion s"
proof -
  have s': "s' = fst (settle_unread key w u ev m s)" using assms by simp
  show "stMachines s' = stMachines s" "stDeviceAliases s' = stDeviceAliases s"
    "stCurrentTaskKey s' = stCurrentTaskKey s" "stSnapshot s' = stSnapshot s" "stVersion s' = stVersion s"
    unfolding s' settle_unread_def Let_def fst_conv
    by (simp_all add: if_distrib [of stMachines] if_distrib [of stDeviceAliases] if_distrib [of stCurrentTaskKey]
        if_distrib [of stSnapshot] if_distrib [of stVersion])
qed

subsection \<open>The structure of a store\<close>

definition store_ok :: "lifecycle_store \<Rightarrow> bool" where
  "store_ok s \<longleftrightarrow> aliases_ok (stDeviceAliases s) \<and> jm_wf (stMachines s) \<and>
     (\<forall>k m. jm_get (stMachines s) k = Some m \<longrightarrow> filed (stDeviceAliases s) k m)"

lemma store_okD:
  assumes "store_ok s"
  shows "aliases_ok (stDeviceAliases s)" and "jm_wf (stMachines s)"
    and "jm_get (stMachines s) k = Some m \<Longrightarrow> filed (stDeviceAliases s) k m"
  using assms by (auto simp: store_ok_def)

lemma store_ok_cong:
  "stMachines s' = stMachines s \<Longrightarrow> stDeviceAliases s' = stDeviceAliases s \<Longrightarrow> store_ok s' = store_ok s"
  by (simp add: store_ok_def)

lemma store_ok_put:
  "store_ok s \<Longrightarrow> filed (stDeviceAliases s) k m \<Longrightarrow> store_ok (put_machine k m s)"
  by (auto simp: store_ok_def put_machine_def)

lemma put_machine_simps [simp]:
  "stMachines (put_machine k m s) = jm_set k m (stMachines s)"
  "stDeviceAliases (put_machine k m s) = stDeviceAliases s"
  "stCurrentTaskKey (put_machine k m s) = stCurrentTaskKey s" "stSnapshot (put_machine k m s) = stSnapshot s"
  "stUnread (put_machine k m s) = stUnread s" "stPreviousRunning (put_machine k m s) = stPreviousRunning s"
  "stDeferredGoal (put_machine k m s) = stDeferredGoal s"
  by (simp_all add: put_machine_def)

lemma canonical_root [simp]:
  "store_ok s \<Longrightarrow> alias_root (stDeviceAliases s) (adDeviceId (canonicalizeAddress s a))"
  by (simp add: canonicalizeAddress_def resolve_root store_okD)

lemma canonical_plain [simp]:
  "store_ok s \<Longrightarrow> plain (adDeviceId a) \<Longrightarrow> plain (adDeviceId (canonicalizeAddress s a))"
  by (simp add: canonicalizeAddress_def resolved_plain store_okD)

lemma canonicalize_root: "alias_root (stDeviceAliases s) (adDeviceId a) \<Longrightarrow> canonicalizeAddress s a = a"
  by (simp add: canonicalizeAddress_def resolveDeviceId_def resolve_of_root)

lemma canonicalize_again [simp]:
  "store_ok s \<Longrightarrow> canonicalizeAddress s (canonicalizeAddress s a) = canonicalizeAddress s a"
  by (rule canonicalize_root) simp

lemma resolve_cong: "stDeviceAliases s' = stDeviceAliases s \<Longrightarrow> canonicalizeAddress s' a = canonicalizeAddress s a"
  by (simp add: canonicalizeAddress_def resolveDeviceId_def)

lemma store_key_cong: "stDeviceAliases s' = stDeviceAliases s \<Longrightarrow> store_key s' a = store_key s a"
  by (simp add: store_key_def canonicalizeAddress_def resolveDeviceId_def)

lemma ensureMachine_cases:
  assumes "ensureMachine s a = (s1, k, m)"
  obtains (old) "k = store_key s a" and "s1 = s" and "jm_get (stMachines s) k = Some m"
  | (new) "k = store_key s a" and "s1 = put_machine k m s" and "jm_get (stMachines s) k = None"
      and "m = new_runtime_machine (canonicalizeAddress s a)
        (the_or False (map_option tuUnread (jm_get (stUnread s) k)))"
proof (cases "jm_get (stMachines s) (store_key s a)")
  case None
  let ?m = "new_runtime_machine (canonicalizeAddress s a)
    (the_or False (map_option tuUnread (jm_get (stUnread s) (store_key s a))))"
  from None have ens: "ensureMachine s a = (put_machine (store_key s a) ?m s, store_key s a, ?m)"
    by (simp add: ensureMachine_def Let_def store_key_def put_machine_def)
  from trans [OF ens [symmetric] assms]
  have eqs: "k = store_key s a" "s1 = put_machine (store_key s a) ?m s" "m = ?m" by blast+
  show ?thesis by (rule new) (simp_all only: eqs None)
next
  case (Some m')
  then have ens: "ensureMachine s a = (s, store_key s a, m')"
    by (simp add: ensureMachine_def Let_def store_key_def)
  from trans [OF ens [symmetric] assms] have eqs: "k = store_key s a" "s1 = s" "m = m'" by blast+
  show ?thesis by (rule old) (simp_all only: eqs Some)
qed

lemma new_machine_filed:
  "store_ok s \<Longrightarrow> plain (adDeviceId a) \<Longrightarrow>
   filed (stDeviceAliases s) (store_key s a) (new_runtime_machine (canonicalizeAddress s a) u)"
  by (simp add: filed_def new_runtime_machine_def store_key_def)

lemma ensureMachine_ok:
  assumes "store_ok s" and "plain (adDeviceId a)" and "ensureMachine s a = (s1, k, m)"
  shows "store_ok s1" and "filed (stDeviceAliases s) k m" and "stDeviceAliases s1 = stDeviceAliases s"
    and "jm_get (stMachines s1) k = Some m" and "stCurrentTaskKey s1 = stCurrentTaskKey s"
    and "stSnapshot s1 = stSnapshot s" and "stPreviousRunning s1 = stPreviousRunning s"
    and "stDeferredGoal s1 = stDeferredGoal s" and "stUnread s1 = stUnread s"
proof -
  have "store_ok s1 \<and> filed (stDeviceAliases s) k m \<and> jm_get (stMachines s1) k = Some m \<and>
    (s1 = s \<or> s1 = put_machine k m s)"
    using assms(3)
  proof (cases rule: ensureMachine_cases)
    case old
    with assms(1) show ?thesis by (simp add: store_okD(3))
  next
    case new
    with new_machine_filed [OF assms(1,2)] have "filed (stDeviceAliases s) k m" by simp
    with new store_ok_put [OF assms(1) this] show ?thesis by simp
  qed
  then show "store_ok s1" "filed (stDeviceAliases s) k m" "stDeviceAliases s1 = stDeviceAliases s"
    "jm_get (stMachines s1) k = Some m" "stCurrentTaskKey s1 = stCurrentTaskKey s"
    "stSnapshot s1 = stSnapshot s" "stPreviousRunning s1 = stPreviousRunning s"
    "stDeferredGoal s1 = stDeferredGoal s" "stUnread s1 = stUnread s"
    by auto
qed

lemma filed_key: "filed aliases k m \<Longrightarrow> snKey (getSnapshot m) = k"
  by (simp add: filed_def getSnapshot_def Let_def)

lemma canonical_event_sent:
  "store_ok s \<Longrightarrow> plain (adDeviceId a) \<Longrightarrow> sent_to (stDeviceAliases s) (store_key s a) (canonical_event (canonicalizeAddress s a) ev)"
  by (cases ev) (simp_all add: canonical_event_def sent_to_def store_key_def)

lemma reduceMachine_cases:
  assumes ok: "store_ok s" and pl: "plain (adDeviceId a)" and red: "reduceMachine e a ev s = (s', c)"
  obtains (skip) s1 k m where "ensureMachine s a = (s1, k, m)" and "k = store_key s a"
      and "skips_event e m (canonical_event (canonicalizeAddress s a) ev)" and "s' = s1" and "\<not> c"
  | (run) s1 k m s2 m2 c2 where "ensureMachine s a = (s1, k, m)" and "k = store_key s a"
      and "\<not> skips_event e m (canonical_event (canonicalizeAddress s a) ev)"
      and "settle_unread k (ldIsRunning (snDerived (getSnapshot m)) \<or> k \<in> set (stPreviousRunning s))
        (lsUnread (rmState m)) (canonical_event (canonicalizeAddress s a) ev)
        (fst (rm_dispatch m (canonical_event (canonicalizeAddress s a) ev))) s1 = (s2, m2, c2)"
      and "s' = put_machine k m2 s2"
      and "c = (snd (rm_dispatch m (canonical_event (canonicalizeAddress s a) ev)) \<or> c2)"
proof -
  have again: "ensureMachine s (canonicalizeAddress s a) = ensureMachine s a"
    using ok by (simp add: ensureMachine_def)
  obtain s1 k m where ens: "ensureMachine s a = (s1, k, m)" by (metis prod_cases3)
  then have k: "k = store_key s a" by (cases rule: ensureMachine_cases) auto
  note facts = ensureMachine_ok [OF ok pl ens]
  have key: "snKey (getSnapshot m) = k" by (rule filed_key [OF facts(2)])
  let ?ev = "canonical_event (canonicalizeAddress s a) ev"
  show ?thesis
  proof (cases "skips_event e m ?ev")
    case True
    with red show ?thesis
      by (intro skip [OF ens k]) (simp_all add: reduceMachine_def Let_def again ens)
  next
    case False
    obtain s2 m2 c2 where settle: "settle_unread k (ldIsRunning (snDerived (getSnapshot m)) \<or> k \<in> set (stPreviousRunning s))
        (lsUnread (rmState m)) ?ev (fst (rm_dispatch m ?ev)) s1 = (s2, m2, c2)" by (metis prod_cases3)
    with red False show ?thesis
      by (intro run [OF ens k False settle])
        (simp_all add: reduceMachine_def Let_def again ens key facts split: prod.splits)
  qed
qed

lemma reduceMachine_ok:
  assumes ok: "store_ok s" and pl: "plain (adDeviceId a)" and red: "reduceMachine e a ev s = (s', c)"
  shows "store_ok s'" and "stDeviceAliases s' = stDeviceAliases s"
    and "stCurrentTaskKey s' = stCurrentTaskKey s"
proof -
  have "store_ok s' \<and> stDeviceAliases s' = stDeviceAliases s \<and> stCurrentTaskKey s' = stCurrentTaskKey s"
    using ok pl red
  proof (cases rule: reduceMachine_cases)
    case (skip s1 k m)
    with ensureMachine_ok [OF ok pl skip(1)] show ?thesis by simp
  next
    case (run s1 k m s2 m2 c2)
    note ens = ensureMachine_ok [OF ok pl run(1)] and frame = settle_unread_frame [OF run(4)]
    have "filed (stDeviceAliases s) k (fst (rm_dispatch m (canonical_event (canonicalizeAddress s a) ev)))"
      using filed_dispatch [OF ens(2)] canonical_event_sent [OF ok pl] run(2) by blast
    then have "filed (stDeviceAliases s) k m2" using marked_filed [OF settle_unread_marked(1) [OF run(4)]] by blast
    moreover have "store_ok s2" using store_ok_cong [OF frame(1,2)] ens(1) by simp
    ultimately show ?thesis using run(5) ens frame by (auto intro!: store_ok_put)
  qed
  then show "store_ok s'" "stDeviceAliases s' = stDeviceAliases s" "stCurrentTaskKey s' = stCurrentTaskKey s"
    by simp_all
qed

end
