(* ===== verification/RuntimeStoreMoves.thy ===== *)
theory RuntimeStoreMoves
  imports RuntimeStoreInv
begin

text \<open>
  The structure of the store through the operations that move tasks: renaming a task and registering an
  alias of a device. While an alias is registered the machines of that device are still filed under it;
  when the operation is over none is left there.
\<close>

subsection \<open>Frames\<close>

lemma persist_frame [simp]:
  "stMachines (persistUnreadKeys e s) = stMachines s" "stMachines (persistRunningKeys e s) = stMachines s"
  "stDeviceAliases (persistUnreadKeys e s) = stDeviceAliases s"
  "stDeviceAliases (persistRunningKeys e s) = stDeviceAliases s"
  "stCurrentTaskKey (persistUnreadKeys e s) = stCurrentTaskKey s"
  "stCurrentTaskKey (persistRunningKeys e s) = stCurrentTaskKey s"
  "stSnapshot (persistUnreadKeys e s) = stSnapshot s" "stSnapshot (persistRunningKeys e s) = stSnapshot s"
  "stUnread (persistUnreadKeys e s) = stUnread s" "stUnread (persistRunningKeys e s) = stUnread s"
  "stPreviousRunning (persistUnreadKeys e s) = stPreviousRunning s"
  "stPreviousRunning (persistRunningKeys e s) = stPreviousRunning s"
  "stDeferredGoal (persistUnreadKeys e s) = stDeferredGoal s"
  "stDeferredGoal (persistRunningKeys e s) = stDeferredGoal s"
  "stPersistedRunning (persistUnreadKeys e s) = stPersistedRunning s"
  "stPersistedUnread (persistRunningKeys e s) = stPersistedUnread s"
  "stVersion (persistUnreadKeys e s) = stVersion s" "stVersion (persistRunningKeys e s) = stVersion s"
  by (simp_all add: persistUnreadKeys_def persistRunningKeys_def Let_def)

lemma publish_frame [simp]:
  "stMachines (publish e s) = stMachines s" "stDeviceAliases (publish e s) = stDeviceAliases s"
  "stCurrentTaskKey (publish e s) = stCurrentTaskKey s" "stUnread (publish e s) = stUnread s"
  "stPreviousRunning (publish e s) = stPreviousRunning s" "stDeferredGoal (publish e s) = stDeferredGoal s"
  "stVersion (publish e s) = Suc (stVersion s)"
  by (simp_all add: publish_def Let_def)

lemma publish_if_frame [simp]:
  "stMachines (publish_if e r) = stMachines (fst r)" "stDeviceAliases (publish_if e r) = stDeviceAliases (fst r)"
  "stCurrentTaskKey (publish_if e r) = stCurrentTaskKey (fst r)" "stUnread (publish_if e r) = stUnread (fst r)"
  by (simp_all add: publish_if_def)

lemma store_ok_publish [simp]: "store_ok (publish e s) = store_ok s" "store_ok (publish_if e r) = store_ok (fst r)"
  by (simp_all add: store_ok_def)

lemma move_frame [simp]:
  "stMachines (fst (movePersistedTaskState p n s)) = stMachines s"
  "stDeviceAliases (fst (movePersistedTaskState p n s)) = stDeviceAliases s"
  "stCurrentTaskKey (fst (movePersistedTaskState p n s)) = stCurrentTaskKey s"
  "stSnapshot (fst (movePersistedTaskState p n s)) = stSnapshot s"
  by (simp_all add: movePersistedTaskState_def Let_def)

lemma restore_frame [simp]:
  "stMachines (fst (restoreMachineUnread k m s)) = stMachines s"
  "stDeviceAliases (fst (restoreMachineUnread k m s)) = stDeviceAliases s"
  "stCurrentTaskKey (fst (restoreMachineUnread k m s)) = stCurrentTaskKey s"
  "stSnapshot (fst (restoreMachineUnread k m s)) = stSnapshot s"
  by (simp_all add: restoreMachineUnread_def Let_def split: option.split)

lemma restore_marked [simp]: "marked m (snd (restoreMachineUnread k m s))"
  by (simp add: restoreMachineUnread_def Let_def split: option.split)

subsection \<open>While an alias is registered\<close>

definition filed_in :: "string set \<Rightarrow> (string, string) jsmap \<Rightarrow> string \<Rightarrow> runtime_machine \<Rightarrow> bool" where
  "filed_in X aliases k m \<longleftrightarrow> k = getRuntimeTaskLifecycleKey (lsAddress (rmState m))
     \<and> (alias_root aliases (adDeviceId (lsAddress (rmState m))) \<or> adDeviceId (lsAddress (rmState m)) \<in> X)
     \<and> plain (adDeviceId (lsAddress (rmState m)))"

definition store_but :: "string set \<Rightarrow> lifecycle_store \<Rightarrow> bool" where
  "store_but X s \<longleftrightarrow> aliases_ok (stDeviceAliases s) \<and> jm_wf (stMachines s) \<and>
     (\<forall>k m. jm_get (stMachines s) k = Some m \<longrightarrow> filed_in X (stDeviceAliases s) k m)"

lemma filed_in_filed: "filed aliases k m \<Longrightarrow> filed_in X aliases k m"
  by (simp add: filed_def filed_in_def)

lemma filed_in_marked: "marked m m' \<Longrightarrow> filed_in X aliases k m' = filed_in X aliases k m"
  by (auto simp: marked_def filed_in_def)

lemma store_but_none: "store_but {} s = store_ok s"
  by (simp add: store_but_def store_ok_def filed_in_def filed_def)

lemma store_but_left:
  "store_but X s \<Longrightarrow> (\<And>k m. jm_get (stMachines s) k = Some m \<Longrightarrow> adDeviceId (lsAddress (rmState m)) \<notin> X) \<Longrightarrow> store_ok s"
  unfolding store_but_def store_ok_def filed_in_def filed_def by blast

lemma store_but_cong:
  "stMachines s' = stMachines s \<Longrightarrow> stDeviceAliases s' = stDeviceAliases s \<Longrightarrow> store_but X s' = store_but X s"
  by (simp add: store_but_def)

lemma store_but_put:
  "store_but X s \<Longrightarrow> filed_in X (stDeviceAliases s) k m \<Longrightarrow> store_but X (put_machine k m s)"
  by (simp add: store_but_def)

lemma store_but_get:
  "store_but X s \<Longrightarrow> jm_get (stMachines s) k = Some m \<Longrightarrow> filed_in X (stDeviceAliases s) k m"
  by (simp add: store_but_def)

text \<open>At the key of a device that is no alias only that device's machine can be.\<close>

lemma filed_at_root:
  assumes "store_but X s" and "alias_root (stDeviceAliases s) (adDeviceId a)" and "plain (adDeviceId a)"
    and "jm_get (stMachines s) (getRuntimeTaskLifecycleKey a) = Some m"
  shows "filed (stDeviceAliases s) (getRuntimeTaskLifecycleKey a) m"
  using store_but_get [OF assms(1,4)] key_injective [OF assms(3), of "lsAddress (rmState m)"] assms(2)
  by (simp add: filed_in_def filed_def)

lemma restore_at_ok: "store_but X s \<Longrightarrow> store_but X (restore_at k s)"
proof (cases "jm_get (stMachines s) k")
  case (Some m)
  assume ok: "store_but X s"
  let ?r = "restoreMachineUnread k m s"
  have "filed_in X (stDeviceAliases s) k (snd ?r)"
    using store_but_get [OF ok Some] filed_in_marked [OF restore_marked] by blast
  with ok Some show ?thesis by (simp add: restore_at_def case_prod_unfold store_but_def Let_def)
qed (simp add: restore_at_def)

lemma filed_history: "filed aliases k (mergeTurnHistory p m) = filed aliases k m"
  by (rule filed_cong) (simp add: mergeTurnHistory_def)

lemma filed_merge:
  assumes "filed aliases k m"
  shows "filed aliases k (mergeMachineState p m)"
proof -
  have "filed aliases k (foldl (\<lambda>m event. fst (rm_dispatch m event)) m evs)"
    if "\<forall>ev \<in> set evs. sent_to aliases k ev" for evs
    using that assms by (induction evs arbitrary: m) (auto intro: filed_dispatch)
  moreover have "\<forall>ev \<in> set (merge_events p). sent_to aliases k ev"
    by (auto simp: merge_events_def sent_to_def Let_def split: RuntimeTaskTurnPhase.splits)
  ultimately show ?thesis by (simp add: mergeMachineState_def)
qed

lemma store_key_root: "alias_root (stDeviceAliases s) (adDeviceId a) \<Longrightarrow> store_key s a = getRuntimeTaskLifecycleKey a"
  by (simp add: store_key_def canonicalize_root)

lemma ensure_at_root:
  assumes "store_but X s" and "alias_root (stDeviceAliases s) (adDeviceId a)" and "plain (adDeviceId a)"
    and "ensureMachine s a = (s1, k, m)"
  shows "k = getRuntimeTaskLifecycleKey a" and "filed (stDeviceAliases s) k m"
    and "s1 = s \<or> s1 = put_machine k m s"
proof -
  have "k = getRuntimeTaskLifecycleKey a \<and> filed (stDeviceAliases s) k m \<and> (s1 = s \<or> s1 = put_machine k m s)"
    using assms(4)
  proof (cases rule: ensureMachine_cases)
    case old
    with filed_at_root [OF assms(1-3)] show ?thesis by (simp add: store_key_root [OF assms(2)])
  next
    case new
    with assms(2,3) show ?thesis
      by (simp add: store_key_root filed_def new_runtime_machine_def canonicalize_root)
  qed
  then show "k = getRuntimeTaskLifecycleKey a" "filed (stDeviceAliases s) k m" "s1 = s \<or> s1 = put_machine k m s"
    by auto
qed

lemma filed_merged:
  assumes "filed aliases (getRuntimeTaskLifecycleKey a) m" and "alias_root aliases (adDeviceId a)"
    and "plain (adDeviceId a)"
  shows "filed aliases (getRuntimeTaskLifecycleKey a) (merged_machine e p a m)"
  using assms by (simp add: merged_machine_def Let_def filed_merge filed_dispatch filed_history sent_to_def)

lemma merge_into_root:
  fixes e previousKey m
  assumes ok: "store_but X s" and root: "alias_root (stDeviceAliases s) (adDeviceId a)" and pl: "plain (adDeviceId a)"
  defines "s' \<equiv> mergeMachineIntoAddress e previousKey m a s"
  obtains m' where "filed (stDeviceAliases s) (getRuntimeTaskLifecycleKey a) m'"
    and "stDeviceAliases s' = stDeviceAliases s" and "jm_wf (stMachines s')"
    and "\<And>k. jm_get (stMachines s') k = (if k = previousKey then None
      else if k = getRuntimeTaskLifecycleKey a then Some m' else jm_get (stMachines s) k)"
proof -
  let ?k = "getRuntimeTaskLifecycleKey a"
  let ?s1 = "fst (movePersistedTaskState previousKey ?k s)"
  have ok1: "store_but X ?s1" using ok by (simp add: store_but_def)
  obtain s2 k m0 where ens: "ensureMachine ?s1 a = (s2, k, m0)" by (metis prod_cases3)
  have root1: "alias_root (stDeviceAliases ?s1) (adDeviceId a)" using root by simp
  note facts = ensure_at_root [OF ok1 root1 pl ens, unfolded move_frame]
  have m3: "filed (stDeviceAliases s) ?k (merged_machine e m a m0)"
    using facts root pl by (auto intro: filed_merged)
  obtain s3 m4 where r: "restoreMachineUnread ?k (merged_machine e m a m0) s2 = (s3, m4)" by (cases "restoreMachineUnread ?k (merged_machine e m a m0) s2")
  have m4: "filed (stDeviceAliases s) ?k m4"
    using m3 marked_filed [OF restore_marked] r by (metis snd_conv)
  have s3: "stMachines s3 = stMachines s2" "stDeviceAliases s3 = stDeviceAliases s2"
    using restore_frame [of ?k "merged_machine e m a m0" s2] r by simp_all
  have parts: "stMachines s' = jm_delete previousKey (jm_set k m4 (stMachines s2))"
    "stDeviceAliases s' = stDeviceAliases s2"
    using r s3 by (simp_all add: s'_def mergeMachineIntoAddress_def Let_def ens)
  show thesis
  proof (rule that [OF m4])
    show "stDeviceAliases s' = stDeviceAliases s" using parts facts(3) by auto
    show "jm_wf (stMachines s')" using parts facts(3) ok by (auto simp: store_but_def)
    show "jm_get (stMachines s') k' = (if k' = previousKey then None
      else if k' = ?k then Some m4 else jm_get (stMachines s) k')" for k'
      using parts facts by auto
  qed
qed

lemma merge_into_ok:
  assumes ok: "store_but X s" and root: "alias_root (stDeviceAliases s) (adDeviceId a)" and pl: "plain (adDeviceId a)"
  shows "store_but X (mergeMachineIntoAddress e previousKey m a s)"
proof -
  obtain m' where "filed (stDeviceAliases s) (getRuntimeTaskLifecycleKey a) m'"
    and "stDeviceAliases (mergeMachineIntoAddress e previousKey m a s) = stDeviceAliases s"
    and "jm_wf (stMachines (mergeMachineIntoAddress e previousKey m a s))"
    and "\<And>k. jm_get (stMachines (mergeMachineIntoAddress e previousKey m a s)) k = (if k = previousKey then None
      else if k = getRuntimeTaskLifecycleKey a then Some m' else jm_get (stMachines s) k)"
    using merge_into_root [OF ok root pl] by blast
  with ok show ?thesis by (simp add: store_but_def filed_in_filed)
qed

lemma store_rename_ok:
  assumes ok: "store_ok s" and pl: "plain (adDeviceId b)"
  shows "store_ok (store_rename e a b s)"
proof -
  have "store_but {} (mergeMachineIntoAddress e k m (canonicalizeAddress s b) s)" for k m
    using ok pl by (intro merge_into_ok) (simp_all add: store_but_none)
  moreover have "store_but {} (restore_at k (fst (movePersistedTaskState p n s)))" for k p n
    using ok by (intro restore_at_ok) (simp add: store_but_none store_ok_def)
  ultimately show ?thesis
    using ok by (simp add: store_rename_def Let_def store_but_none case_prod_unfold store_ok_def split: option.split)
qed

subsection \<open>Registering an alias\<close>

lemma migrate_step:
  fixes e key
  assumes ok: "store_but {alias} s" and root: "alias_root (stDeviceAliases s) canonical" and pl: "plain canonical"
    and ne: "alias \<noteq> canonical"
    and left: "\<forall>k m. jm_get (stMachines s) k = Some m \<and> adDeviceId (lsAddress (rmState m)) = alias \<longrightarrow> k \<in> K"
  defines "s' \<equiv> migrate_machine e alias canonical s key"
  shows "store_but {alias} s'" and "stDeviceAliases s' = stDeviceAliases s"
    and "\<forall>k m. jm_get (stMachines s') k = Some m \<and> adDeviceId (lsAddress (rmState m)) = alias \<longrightarrow> k \<in> K - {key}"
proof -
  have "store_but {alias} s' \<and> stDeviceAliases s' = stDeviceAliases s \<and>
    (\<forall>k m. jm_get (stMachines s') k = Some m \<and> adDeviceId (lsAddress (rmState m)) = alias \<longrightarrow> k \<in> K - {key})"
  proof (cases "\<exists>m. jm_get (stMachines s) key = Some m \<and> adDeviceId (lsAddress (rmState m)) = alias")
    case False
    then have "s' = s" by (auto simp: s'_def migrate_machine_def Let_def split: option.split)
    with ok left False show ?thesis by blast
  next
    case True
    then obtain m where m: "jm_get (stMachines s) key = Some m" "adDeviceId (lsAddress (rmState m)) = alias" by blast
    let ?a = "(lsAddress (rmState m))\<lparr>adDeviceId := canonical\<rparr>"
    have s': "s' = mergeMachineIntoAddress e key m ?a s" using m by (simp add: s'_def migrate_machine_def Let_def)
    have a: "alias_root (stDeviceAliases s) (adDeviceId ?a)" "plain (adDeviceId ?a)" using root pl by simp_all
    obtain m' where m': "filed (stDeviceAliases s) (getRuntimeTaskLifecycleKey ?a) m'"
      and al: "stDeviceAliases s' = stDeviceAliases s"
      and get: "\<And>k. jm_get (stMachines s') k = (if k = key then None
        else if k = getRuntimeTaskLifecycleKey ?a then Some m' else jm_get (stMachines s) k)"
      unfolding s' using merge_into_root [OF ok a] by blast
    have "adDeviceId (lsAddress (rmState m')) = canonical"
      using m' key_injective [of ?a "lsAddress (rmState m')"] pl by (simp add: filed_def)
    with ne get left al merge_into_ok [OF ok a] show ?thesis by (auto simp: s' split: if_split_asm)
  qed
  then show "store_but {alias} s'" "stDeviceAliases s' = stDeviceAliases s"
    "\<forall>k m. jm_get (stMachines s') k = Some m \<and> adDeviceId (lsAddress (rmState m)) = alias \<longrightarrow> k \<in> K - {key}"
    by blast+
qed

lemma migrate_all:
  assumes "store_but {alias} s" and "alias_root (stDeviceAliases s) canonical" and "plain canonical"
    and "alias \<noteq> canonical"
    and "\<forall>k m. jm_get (stMachines s) k = Some m \<and> adDeviceId (lsAddress (rmState m)) = alias \<longrightarrow> k \<in> set keys"
  shows "store_ok (foldl (migrate_machine e alias canonical) s keys)"
    and "stDeviceAliases (foldl (migrate_machine e alias canonical) s keys) = stDeviceAliases s"
proof -
  have "store_ok (foldl (migrate_machine e alias canonical) s keys) \<and>
    stDeviceAliases (foldl (migrate_machine e alias canonical) s keys) = stDeviceAliases s"
    using assms
  proof (induction keys arbitrary: s)
    case Nil
    then show ?case by (auto intro: store_but_left)
  next
    case (Cons key keys)
    note step = migrate_step [OF Cons.prems]
    have "store_ok (foldl (migrate_machine e alias canonical) (migrate_machine e alias canonical s key) keys) \<and>
      stDeviceAliases (foldl (migrate_machine e alias canonical) (migrate_machine e alias canonical s key) keys) =
      stDeviceAliases (migrate_machine e alias canonical s key)"
    proof (rule Cons.IH)
      show "\<forall>k m. jm_get (stMachines (migrate_machine e alias canonical s key)) k = Some m \<and>
        adDeviceId (lsAddress (rmState m)) = alias \<longrightarrow> k \<in> set keys"
        using step(3) by auto
    qed (use Cons.prems step in simp_all)
    with step(2) show ?case by simp
  qed
  then show "store_ok (foldl (migrate_machine e alias canonical) s keys)"
    "stDeviceAliases (foldl (migrate_machine e alias canonical) s keys) = stDeviceAliases s" by blast+
qed

lemma restored_ok: "store_ok s \<Longrightarrow> store_ok (foldl (\<lambda>s' key. restore_at (f key) s') s keys)"
  by (induction keys arbitrary: s) (simp_all add: restore_at_ok store_but_none [symmetric])

lemma restore_at_aliases [simp]: "stDeviceAliases (restore_at k s) = stDeviceAliases s"
  by (simp add: restore_at_def case_prod_unfold Let_def split: option.split)

lemma restored_aliases: "stDeviceAliases (foldl (\<lambda>s' key. restore_at (f key) s') s keys) = stDeviceAliases s"
  by (induction keys arbitrary: s) simp_all

lemma moved_frame:
  "stMachines (foldl (\<lambda>s' key. fst (movePersistedTaskState key (f key) s')) s keys) = stMachines s"
  "stDeviceAliases (foldl (\<lambda>s' key. fst (movePersistedTaskState key (f key) s')) s keys) = stDeviceAliases s"
  by (induction keys arbitrary: s) simp_all

text \<open>
  The three parts of a registration that changes something: the alias and the stored marks, the machines,
  and the marks of the machines.
\<close>

lemma register_parts:
  assumes ok: "store_ok s" and pl: "plain canonicalDeviceId"
    and new: "resolveDeviceId s alias \<noteq> resolveDeviceId s canonicalDeviceId"
    and c: "c = resolveDeviceId s canonicalDeviceId"
  obtains t keys where "stMachines t = stMachines s" and "stDeviceAliases t = jm_set alias c (stDeviceAliases s)"
    and "store_but {alias} t" and "alias_root (stDeviceAliases t) c" and "plain c" and "alias \<noteq> c"
    and "fst (registerDeviceAlias e alias canonicalDeviceId s) = foldl (\<lambda>s' key. restore_at (migrate_key alias c key) s')
      (foldl (migrate_machine e alias c) t (map fst (stMachines t))) keys"
proof -
  let ?s1 = "s\<lparr>stDeviceAliases := jm_set alias c (stDeviceAliases s)\<rparr>"
  have root: "alias_root (stDeviceAliases s) c" using ok c by (simp add: resolve_root store_okD)
  have plc: "plain c" using ok pl c by (simp add: resolved_plain store_okD)
  have ne: "alias \<noteq> c" using new c resolve_of_root [OF root] by (auto simp: resolveDeviceId_def)
  have "filed_in {alias} (jm_set alias c (stDeviceAliases s)) k m" if "filed (stDeviceAliases s) k m" for k m
    using that alias_root_set by (auto simp: filed_def filed_in_def)
  with ok root plc have s1: "store_but {alias} ?s1"
    by (simp add: store_but_def store_ok_def aliases_ok_set)
  define keys where "keys = filter (starts_with (alias @ [CHR 0x00])) (stored_keys ?s1)"
  define t where "t = foldl (\<lambda>s' key. fst (movePersistedTaskState key (migrate_key alias c key) s')) ?s1 keys"
  have t: "stMachines t = stMachines ?s1" "stDeviceAliases t = stDeviceAliases ?s1"
    unfolding t_def by (rule moved_frame)+
  show thesis
  proof (rule that)
    show "store_but {alias} t" using s1 store_but_cong [OF t] by simp
    show "alias_root (stDeviceAliases t) c" using t alias_root_set [OF root] ne by simp
    show "fst (registerDeviceAlias e alias canonicalDeviceId s) =
      foldl (\<lambda>s' key. restore_at (migrate_key alias c key) s')
        (foldl (migrate_machine e alias c) t (map fst (stMachines t))) keys"
      using new c by (simp add: registerDeviceAlias_def Let_def t_def keys_def)
  qed (use t plc ne in simp_all)
qed

lemma registerDeviceAlias_ok:
  assumes ok: "store_ok s" and pl: "plain canonicalDeviceId"
  shows "store_ok (fst (registerDeviceAlias e alias canonicalDeviceId s))"
proof (cases "resolveDeviceId s alias = resolveDeviceId s canonicalDeviceId")
  case False
  obtain t keys where t: "store_but {alias} t" "alias_root (stDeviceAliases t) (resolveDeviceId s canonicalDeviceId)"
      "plain (resolveDeviceId s canonicalDeviceId)" "alias \<noteq> resolveDeviceId s canonicalDeviceId"
    and s': "fst (registerDeviceAlias e alias canonicalDeviceId s) =
      foldl (\<lambda>s' key. restore_at (migrate_key alias (resolveDeviceId s canonicalDeviceId) key) s')
        (foldl (migrate_machine e alias (resolveDeviceId s canonicalDeviceId)) t (map fst (stMachines t))) keys"
    using register_parts [OF ok pl False refl] by metis
  have "\<forall>k m. jm_get (stMachines t) k = Some m \<and> adDeviceId (lsAddress (rmState m)) = alias \<longrightarrow>
      k \<in> set (map fst (stMachines t))" by (force dest: jm_get_in)
  from migrate_all(1) [OF t this] show ?thesis unfolding s' by (rule restored_ok)
qed (use ok in \<open>simp add: registerDeviceAlias_def\<close>)

end
