(* ===== verification/RuntimeStoreRuns.thy ===== *)
theory RuntimeStoreRuns
  imports RuntimeStoreMoves
begin

text \<open>
  Every public method of the store keeps its structure, and what it has published stays what its machines
  say: a method that does not publish has changed nothing a reader can see.
\<close>

subsection \<open>What a reader can see\<close>

text \<open>A machine nothing has been told yet.\<close>

definition untouched :: "runtime_machine \<Rightarrow> bool" where
  "untouched m \<longleftrightarrow> (\<exists>a u. rmState m = rmState (new_runtime_machine a u))"

text \<open>The published entry of a task against its machine: an unlisted task is one nothing is known of.\<close>

definition shown_at :: "RuntimeTaskLifecycleSnapshot option \<Rightarrow> runtime_machine option \<Rightarrow> bool" where
  "shown_at t m = (case m of
       None \<Rightarrow> t = None
     | Some m \<Rightarrow> t = Some (getSnapshot m) \<or> t = None \<and> untouched m)"

definition lists_ok :: "RuntimeTaskLifecycleStoreSnapshot \<Rightarrow> bool" where
  "lists_ok snapshot \<longleftrightarrow> jm_wf (ssTasks snapshot)
     \<and> ssRunningTaskKeys snapshot = flagged ldIsRunning (ssTasks snapshot)
     \<and> ssQueuedTaskKeys snapshot = flagged ldIsQueued (ssTasks snapshot)
     \<and> ssUnreadTaskKeys snapshot = flagged ldShouldShowUnread (ssTasks snapshot)"

definition view_ok :: "lifecycle_store \<Rightarrow> bool" where
  "view_ok s \<longleftrightarrow> (\<forall>k. shown_at (jm_get (ssTasks (stSnapshot s)) k) (jm_get (stMachines s) k))
     \<and> lists_ok (stSnapshot s) \<and> ssVersion (stSnapshot s) = stVersion s"

text \<open>A change no reader can see.\<close>

definition same_at :: "runtime_machine option \<Rightarrow> runtime_machine option \<Rightarrow> bool" where
  "same_at m m' = (case m' of
       None \<Rightarrow> m = None
     | Some m' \<Rightarrow> (case m of None \<Rightarrow> untouched m' | Some m \<Rightarrow> rmState m' = rmState m))"

definition quiet :: "lifecycle_store \<Rightarrow> lifecycle_store \<Rightarrow> bool" where
  "quiet s s' \<longleftrightarrow> stSnapshot s' = stSnapshot s \<and> stVersion s' = stVersion s \<and>
     (\<forall>k. same_at (jm_get (stMachines s) k) (jm_get (stMachines s') k))"

lemma getSnapshot_cong: "rmState m = rmState m' \<Longrightarrow> getSnapshot m = getSnapshot m'"
  by (simp add: getSnapshot_def Let_def)

lemma untouched_cong: "rmState m = rmState m' \<Longrightarrow> untouched m = untouched m'"
  by (simp add: untouched_def)

lemma same_at_refl [simp]: "same_at m m"
  by (simp add: same_at_def split: option.split)

lemma same_at_trans: "same_at m1 m2 \<Longrightarrow> same_at m2 m3 \<Longrightarrow> same_at m1 m3"
  by (auto simp: same_at_def split: option.splits dest: untouched_cong)

lemma shown_same: "shown_at t m \<Longrightarrow> same_at m m' \<Longrightarrow> shown_at t m'"
  by (auto simp: same_at_def shown_at_def split: option.splits dest: untouched_cong getSnapshot_cong)

lemma quiet_refl [simp]: "quiet s s"
  by (simp add: quiet_def)

lemma quiet_trans: "quiet s1 s2 \<Longrightarrow> quiet s2 s3 \<Longrightarrow> quiet s1 s3"
  by (auto simp: quiet_def intro: same_at_trans)

lemma quiet_view: "view_ok s \<Longrightarrow> quiet s s' \<Longrightarrow> view_ok s'"
  by (auto simp: quiet_def view_ok_def intro: shown_same)

lemma quiet_cong:
  "stMachines s' = stMachines s \<Longrightarrow> stSnapshot s' = stSnapshot s \<Longrightarrow> stVersion s' = stVersion s \<Longrightarrow> quiet s s'"
  by (simp add: quiet_def)

lemma quiet_put:
  assumes "same_at (jm_get (stMachines s) k) (Some m')"
    and "stMachines s' = jm_set k m' (stMachines s)" and "stSnapshot s' = stSnapshot s" and "stVersion s' = stVersion s"
  shows "quiet s s'"
  using assms by (auto simp: quiet_def)

lemma publish_snapshot:
  "stSnapshot (publish e s) = (let tasks = map (\<lambda>(key, machine). (key, getSnapshot machine)) (stMachines s)
     in \<lparr>ssVersion = stVersion s + 1, ssTasks = tasks, ssRunningTaskKeys = flagged ldIsRunning tasks,
       ssQueuedTaskKeys = flagged ldIsQueued tasks, ssUnreadTaskKeys = flagged ldShouldShowUnread tasks\<rparr>)"
  by (simp add: publish_def Let_def)

lemma publish_view [simp]: "store_ok s \<Longrightarrow> view_ok (publish e s)"
  by (auto dest: store_okD(2) simp: view_ok_def publish_snapshot Let_def jm_get_map shown_at_def lists_ok_def split: option.split)

lemma publish_if_view: "store_ok (fst r) \<Longrightarrow> view_ok s \<Longrightarrow> (\<not> snd r \<Longrightarrow> quiet s (fst r)) \<Longrightarrow> view_ok (publish_if e r)"
  by (auto simp: publish_if_def intro: quiet_view)

subsection \<open>One event\<close>

lemma untouched_new [simp]: "untouched (new_runtime_machine a u)"
  by (auto simp: untouched_def)

lemma ensure_quiet:
  assumes "ensureMachine s a = (s1, k, m)"
  shows "quiet s s1"
  using assms
proof (cases rule: ensureMachine_cases)
  case new
  show ?thesis by (rule quiet_put [of s k m]) (use new in \<open>simp_all add: put_machine_def same_at_def\<close>)
qed simp

lemma reduceMachine_quiet:
  assumes ok: "store_ok s" and pl: "plain (adDeviceId a)" and red: "reduceMachine e a ev s = (s', False)"
  shows "quiet s s'"
  using ok pl red
proof (cases rule: reduceMachine_cases)
  case (skip s1 k m)
  with ensure_quiet show ?thesis by blast
next
  case (run s1 k m s2 m2 c2)
  note ens = ensureMachine_ok [OF ok pl run(1)] and frame = settle_unread_frame [OF run(4)]
  have same: "rmState m2 = rmState m"
    using settle_unread_marked(2) [OF run(4)] run(6) dispatch_unchanged by simp
  have "quiet s1 s'"
    by (rule quiet_put [of s1 k m2]) (use ens frame run(5) same in \<open>auto simp: put_machine_def same_at_def\<close>)
  with ensure_quiet [OF run(1)] show ?thesis by (rule quiet_trans)
qed

definition sound :: "lifecycle_store \<Rightarrow> bool" where
  "sound s \<longleftrightarrow> store_ok s \<and> view_ok s"

text \<open>An operation that says whether it changed anything.\<close>

definition careful :: "(lifecycle_store \<Rightarrow> lifecycle_store \<times> bool) \<Rightarrow> bool" where
  "careful f \<longleftrightarrow> (\<forall>s. store_ok s \<longrightarrow> store_ok (fst (f s)) \<and> (\<not> snd (f s) \<longrightarrow> quiet s (fst (f s))))"

lemma carefulI:
  "(\<And>s s' c. store_ok s \<Longrightarrow> f s = (s', c) \<Longrightarrow> store_ok s' \<and> (\<not> c \<longrightarrow> quiet s s')) \<Longrightarrow> careful f"
  unfolding careful_def by (metis prod.collapse)

lemma careful_publish: "careful f \<Longrightarrow> sound s \<Longrightarrow> sound (publish_if e (f s))"
  unfolding careful_def sound_def by (blast intro: publish_if_view store_ok_publish(2) [THEN iffD2])

lemma careful_reduce: "plain (adDeviceId a) \<Longrightarrow> careful (reduceMachine e a ev)"
  by (intro carefulI) (metis reduceMachine_ok(1) reduceMachine_quiet)

lemma careful_chain:
  assumes "\<And>x. x \<in> set xs \<Longrightarrow> careful (f x)"
  shows "careful (chain f xs)"
  using assms
proof (induction xs)
  case Nil
  show ?case by (simp add: careful_def)
next
  case (Cons x xs)
  have x: "careful (f x)" and xs: "careful (chain f xs)" using Cons by simp_all
  show ?case
  proof (rule carefulI)
    fix s s' c
    assume ok: "store_ok s" and run: "chain f (x # xs) s = (s', c)"
    have "store_ok (fst (f s'')) \<and> (\<not> snd (f s'') \<longrightarrow> quiet s'' (fst (f s'')))"
      if "careful f" "store_ok s''" for f s'' using that unfolding careful_def by blast
    note step = this
    from step [OF x ok] step [OF xs, of "fst (f x s)"] run
    show "store_ok s' \<and> (\<not> c \<longrightarrow> quiet s s')"
      by (auto simp: Let_def case_prod_unfold intro: quiet_trans)
  qed
qed

lemma careful_alias: "plain canonical \<Longrightarrow> careful (registerDeviceAlias e alias canonical)"
  unfolding careful_def by (simp add: registerDeviceAlias_ok) (simp add: registerDeviceAlias_def Let_def)

lemma store_dispatch_sound: "plain (adDeviceId a) \<Longrightarrow> sound s \<Longrightarrow> sound (store_dispatch e a ev s)"
  unfolding store_dispatch_def by (rule careful_publish [OF careful_reduce])

subsection \<open>The methods\<close>

text \<open>A device id never contains the character that separates it from the task id in a key.\<close>

definition action_ok :: "store_action \<Rightarrow> bool" where
  "action_ok a = (case a of
       SyncRuntimeWork work \<Rightarrow>
         opt_truthy (list_all (\<lambda>w. plain (wsDeviceId w)) \<circ> collectRuntimeWorkspaces) work \<or> work = None
     | InvalidateNativeExecutions \<Rightarrow> True
     | SyncDevices devices \<Rightarrow> list_all (\<lambda>(canonical, _). plain canonical) devices
     | SyncRuntimeTask address _ _ \<Rightarrow> plain (adDeviceId address)
     | SyncTranscriptSnapshot address _ \<Rightarrow> plain (adDeviceId address)
     | SyncTranscript address _ _ \<Rightarrow> plain (adDeviceId address)
     | SetCurrentTask address \<Rightarrow> address = None \<or> opt_truthy (\<lambda>a. plain (adDeviceId a)) address
     | StoreEvent address _ \<Rightarrow> plain (adDeviceId address)
     | RemoveTask _ \<Rightarrow> True
     | RenameTask _ address \<Rightarrow> plain (adDeviceId address))"

lemma js_trim_plain: "plain s \<Longrightarrow> plain (js_trim s)"
  by (auto simp: plain_def js_trim_def dest!: set_dropWhileD)

lemma careful_skip [simp]: "careful (\<lambda>s. (s, False))"
  by (simp add: careful_def)

lemma careful_if: "(\<not> b \<Longrightarrow> careful f) \<Longrightarrow> careful (\<lambda>s. if b then (s, False) else f s)"
  by (cases b) simp_all

lemma careful_work_aliases:
  "list_all (\<lambda>w. plain (wsDeviceId w)) (collectRuntimeWorkspaces work) \<Longrightarrow> careful (registerRuntimeWorkAliases e work)"
  unfolding registerRuntimeWorkAliases_def
  by (rule careful_chain) (auto simp: Let_def list_all_iff intro!: careful_if careful_alias js_trim_plain)

lemma collectRuntimeTasks_workspace:
  "(w, t) \<in> set (collectRuntimeTasks work) \<Longrightarrow> w \<in> set (collectRuntimeWorkspaces work)"
  by (auto simp: collectRuntimeTasks_def)

lemma careful_work_tasks:
  "list_all (\<lambda>w. plain (wsDeviceId w)) (collectRuntimeWorkspaces work) \<Longrightarrow>
   careful (chain (sync_one_task e) (collectRuntimeTasks work))"
  by (rule careful_chain)
    (auto simp: sync_one_task_def Let_def list_all_iff getRuntimeTaskAddress_def
      intro!: careful_reduce dest!: collectRuntimeTasks_workspace)

lemma careful_then:
  assumes "careful f" and "careful g"
  shows "careful (\<lambda>s. (fst (g (fst (f s))), snd (f s) \<or> snd (g (fst (f s)))))"
proof (rule carefulI)
  fix s s' c
  assume "store_ok s" "(fst (g (fst (f s))), snd (f s) \<or> snd (g (fst (f s)))) = (s', c)"
  moreover from this assms have "store_ok (fst (f s))" "\<not> snd (f s) \<longrightarrow> quiet s (fst (f s))"
    unfolding careful_def by blast+
  moreover from this assms have "store_ok (fst (g (fst (f s))))"
    "\<not> snd (g (fst (f s))) \<longrightarrow> quiet (fst (f s)) (fst (g (fst (f s))))"
    unfolding careful_def by blast+
  ultimately show "store_ok s' \<and> (\<not> c \<longrightarrow> quiet s s')" by (auto intro: quiet_trans)
qed

lemma syncRuntimeWork_sound:
  assumes "action_ok (SyncRuntimeWork work)" and "sound s"
  shows "sound (syncRuntimeWork e work s)"
proof (cases work)
  case (Some w)
  with assms(1) have "list_all (\<lambda>w. plain (wsDeviceId w)) (collectRuntimeWorkspaces w)"
    by (simp add: action_ok_def)
  from careful_publish [OF careful_then [OF careful_work_aliases [OF this] careful_work_tasks [OF this]] assms(2)] Some
  show ?thesis by (simp add: syncRuntimeWork_def Let_def case_prod_unfold)
qed (use assms in \<open>simp add: syncRuntimeWork_def\<close>)

lemma jm_set_entries: "set (jm_set k v m) \<subseteq> insert (k, v) (set m)"
  by (induction m) auto

definition plain_matches :: "(string, string list) jsmap \<Rightarrow> bool" where
  "plain_matches acc \<longleftrightarrow> (\<forall>ms \<in> snd ` set acc. list_all plain ms)"

lemma plain_matches_set:
  assumes "plain_matches acc" and "plain d"
  shows "plain_matches (jm_set a (js_add d (the_or [] (jm_get acc a))) acc)"
proof -
  have "list_all plain (the_or [] (jm_get acc a))"
    using assms(1) by (cases "jm_get acc a") (force simp: plain_matches_def dest: jm_get_in)+
  with assms(2) have "list_all plain (js_add d (the_or [] (jm_get acc a)))" by (simp add: js_add_def)
  with assms(1) jm_set_entries [of a _ acc] show ?thesis unfolding plain_matches_def by fastforce
qed

lemma plain_matches_ids:
  "plain_matches acc \<Longrightarrow> plain d \<Longrightarrow>
   plain_matches (foldl (\<lambda>m alias. jm_set alias (js_add d (the_or [] (jm_get m alias))) m) acc ids)"
  by (induction ids arbitrary: acc) (simp_all add: plain_matches_set)

lemma plain_matches_devices:
  "list_all (\<lambda>(canonical, _). plain canonical) devices \<Longrightarrow> plain_matches acc \<Longrightarrow>
   plain_matches (foldl (\<lambda>acc (canonicalDeviceId, ids).
     if canonicalDeviceId = [] then acc
     else foldl (\<lambda>m alias. jm_set alias (js_add canonicalDeviceId (the_or [] (jm_get m alias))) m) acc ids) acc devices)"
  by (induction devices arbitrary: acc) (simp_all add: plain_matches_ids case_prod_unfold)

lemma unambiguous_plain:
  assumes "list_all (\<lambda>(canonical, _). plain canonical) devices"
    and "(a, c) \<in> set (unambiguous_aliases devices)" and "a \<noteq> c"
  shows "plain c"
proof -
  let ?cs = "foldl (\<lambda>acc (canonicalDeviceId, ids). if canonicalDeviceId = [] then acc
     else foldl (\<lambda>m alias. jm_set alias (js_add canonicalDeviceId (the_or [] (jm_get m alias))) m) acc ids) [] devices"
  have "plain_matches ?cs" using plain_matches_devices [OF assms(1), of "[]"] by (simp add: plain_matches_def)
  moreover obtain ms where "(a, ms) \<in> set ?cs" "length ms = 1" "c = hd ms"
    using assms(2,3) by (auto simp: unambiguous_aliases_def Let_def split: if_split_asm)
  ultimately show ?thesis by (cases ms) (auto simp: plain_matches_def)
qed

lemma deleted_root: "alias_root aliases d \<Longrightarrow> alias_root (foldl (\<lambda>m a. jm_delete a m) aliases ks) d"
  by (induction ks arbitrary: aliases) (simp_all add: alias_root_delete)

lemma deleted_ok: "aliases_ok aliases \<Longrightarrow> aliases_ok (foldl (\<lambda>m a. jm_delete a m) aliases ks)"
  by (induction ks arbitrary: aliases) (simp_all add: aliases_ok_delete)

lemma syncDevices_sound:
  assumes "action_ok (SyncDevices devices)" and "sound s"
  shows "sound (syncDevices e devices s)"
proof -
  let ?al = "unambiguous_aliases devices"
  define own where "own = map fst (filter (\<lambda>(alias, canonical). alias = canonical) ?al)"
  let ?drop = "\<lambda>s. (s\<lparr>stDeviceAliases := foldl (\<lambda>m alias. jm_delete alias m) (stDeviceAliases s) own\<rparr>,
    list_ex (\<lambda>alias. jm_get (stDeviceAliases s) alias \<noteq> None) own)"
  let ?reg = "chain (\<lambda>(alias, canonical). registerDeviceAlias e alias canonical)
    (filter (\<lambda>(alias, canonical). alias \<noteq> canonical) ?al)"
  have "careful ?drop"
    by (rule carefulI) (auto simp: store_ok_def deleted_ok filed_def deleted_root intro!: quiet_cong)
  moreover have "careful ?reg"
    using assms(1) by (intro careful_chain) (auto simp: action_ok_def intro!: careful_alias dest: unambiguous_plain)
  ultimately have "sound (publish_if e (fst (?reg (fst (?drop s))), snd (?drop s) \<or> snd (?reg (fst (?drop s)))))"
    using careful_publish [OF careful_then assms(2)] by blast
  then show ?thesis
    by (simp add: syncDevices_def Let_def own_def case_prod_unfold)
qed

lemma replaced_filed: "filed aliases k (fst (rm_dispatch m ExecutorReplaced)) = filed aliases k m"
  by (rule filed_cong) (simp add: dispatch_addr)

lemma invalidate_sound: "sound s \<Longrightarrow> sound (fst (invalidateNativeExecutions e s))"
proof -
  assume s: "sound s"
  define f where "f = (\<lambda>m. if native_state (rmState m) \<noteq> None then fst (rm_dispatch m ExecutorReplaced) else m)"
  define changed where "changed = list_ex (\<lambda>(_, m). native_state (rmState m) \<noteq> None \<and> snd (rm_dispatch m ExecutorReplaced))
    (stMachines s)"
  have filed: "filed aliases k (f m) = filed aliases k m" for aliases k m
    by (simp add: f_def replaced_filed)
  have "rmState (f m) = rmState m" if "\<not> changed" "jm_get (stMachines s) k = Some m" for k m
  proof (cases "native_state (rmState m) = None")
    case False
    with that have "\<not> snd (rm_dispatch m ExecutorReplaced)"
      by (force simp: changed_def list_ex_iff dest: jm_get_in)
    then show ?thesis by (simp add: f_def dispatch_unchanged)
  qed (simp add: f_def)
  then have "\<not> changed \<Longrightarrow> quiet s (s\<lparr>stMachines := map (\<lambda>(k, m). (k, f m)) (stMachines s)\<rparr>)"
    by (auto simp: quiet_def same_at_def jm_get_map split: option.split)
  moreover have "store_ok (s\<lparr>stMachines := map (\<lambda>(k, m). (k, f m)) (stMachines s)\<rparr>)"
    using s by (auto simp: sound_def store_ok_def jm_get_map filed)
  ultimately show ?thesis
    using s by (auto simp: sound_def invalidateNativeExecutions_def Let_def f_def changed_def intro!: publish_if_view)
qed

lemma syncRuntimeTask_sound:
  "plain (adDeviceId a) \<Longrightarrow> sound s \<Longrightarrow> sound (fst (syncRuntimeTask e a t x s))"
  by (simp add: syncRuntimeTask_def Let_def store_dispatch_def [symmetric] store_dispatch_sound)

lemma transcript_snapshot_sound:
  assumes "plain (adDeviceId a)" and "sound s"
  shows "sound (syncRuntimeTranscriptSnapshot e a t s)"
  using assms
  by (simp add: syncRuntimeTranscriptSnapshot_def sync_terminal_turn_def Let_def store_dispatch_sound
      syncRuntimeTask_sound split: option.split bool.split)



lemma observe_state [simp]: "rmState (observe_turns t m) = rmState m"
proof -
  have "rmState (foldl (\<lambda>m turn. if P turn then observeTurn (f turn) m else m) m turns) = rmState m" for P f turns
    by (induction turns arbitrary: m) (simp_all add: observeTurn_def)
  then show ?thesis by (simp add: observe_turns_def)
qed

lemma observe_sound:
  assumes "sound s" and "plain (adDeviceId a)" and "ensureMachine s (canonicalizeAddress s a) = (s1, k, m)"
  shows "sound (put_machine k (observe_turns t m) s1)"
proof -
  have ok: "store_ok s" and pl: "plain (adDeviceId (canonicalizeAddress s a))"
    using assms(1,2) by (simp_all add: sound_def)
  note ens = ensureMachine_ok [OF ok pl assms(3)]
  have "filed (stDeviceAliases s) k (observe_turns t m)"
    using ens(2) filed_cong [of "observe_turns t m" m] by simp
  then have "store_ok (put_machine k (observe_turns t m) s1)"
    using store_ok_put [OF ens(1)] ens(3) by simp
  moreover have "quiet s1 (put_machine k (observe_turns t m) s1)"
    by (rule quiet_put [of s1 k "observe_turns t m"]) (use ens in \<open>simp_all add: same_at_def put_machine_def\<close>)
  ultimately show ?thesis
    using assms(1) ensure_quiet [OF assms(3)] by (auto simp: sound_def intro: quiet_view)
qed

lemma follow_sound:
  assumes "plain (adDeviceId a)" and "sound s"
  shows "sound (follow_transcript e a t i s0 s)"
  using assms observe_sound [OF assms(2,1)]
  by (auto simp: follow_transcript_def Let_def store_dispatch_sound split: option.split prod.split)

lemma syncTranscript_sound:
  assumes "plain (adDeviceId a)" and "sound s"
  shows "sound (syncTranscript e a t p s)"
  using assms
  by (simp add: syncTranscript_def Let_def store_dispatch_sound transcript_snapshot_sound follow_sound)

lemma setCurrentTask_sound:
  assumes "action_ok (SetCurrentTask a)" and "sound s"
  shows "sound (setCurrentTask e a s)"
proof -
  have s1: "sound (s\<lparr>stCurrentTaskKey := k\<rparr>)" for k
    using assms(2) by (simp add: sound_def store_ok_def view_ok_def)
  then have "store_ok (s\<lparr>stCurrentTaskKey := k\<rparr>)" for k by (simp add: sound_def)
  with assms s1 show ?thesis
    by (cases a) (auto simp: setCurrentTask_def Let_def action_ok_def sound_def [of "publish _ _"]
      intro!: store_dispatch_sound simp: sound_def [of s])
qed

lemma store_remove_sound:
  assumes "sound s"
  shows "sound (store_remove e a s)"
proof -
  let ?k = "store_key s a"
  let ?s1 = "s\<lparr>stMachines := jm_delete ?k (stMachines s), stUnread := jm_delete ?k (stUnread s),
    stPreviousRunning := js_remove ?k (stPreviousRunning s), stDeferredGoal := js_remove ?k (stDeferredGoal s)\<rparr>"
  have "store_ok ?s1" using assms by (auto simp: sound_def store_ok_def)
  moreover have "quiet s ?s1" if "jm_get (stMachines s) ?k = None"
    using that by (simp add: quiet_def)
  ultimately show ?thesis
    using assms by (auto simp: store_remove_def Let_def sound_def intro!: publish_if_view)
qed

lemma store_rename_sound:
  assumes "plain (adDeviceId b)" and "sound s"
  shows "sound (store_rename e a b s)"
proof -
  have "store_ok (store_rename e a b s)" using assms by (simp add: sound_def store_rename_ok)
  moreover have "view_ok s" using assms by (simp add: sound_def)
  then have "view_ok (fst (movePersistedTaskState k k' s))" for k k'
    by (rule quiet_view) (rule quiet_cong, simp_all add: movePersistedTaskState_def Let_def)
  with \<open>view_ok s\<close> \<open>store_ok (store_rename e a b s)\<close> have "view_ok (store_rename e a b s)"
    by (simp add: store_rename_def Let_def case_prod_unfold split: option.splits if_splits)
  ultimately show ?thesis by (simp add: sound_def)
qed

lemmas act_sound = syncRuntimeWork_sound invalidate_sound syncDevices_sound syncRuntimeTask_sound
  transcript_snapshot_sound syncTranscript_sound setCurrentTask_sound store_dispatch_sound
  store_remove_sound store_rename_sound

lemma store_act_sound: "action_ok act \<Longrightarrow> sound s \<Longrightarrow> sound (store_act e s act)"
  by (cases act) (simp_all add: act_sound, simp_all add: action_ok_def act_sound)

lemma new_store_sound: "sound (new_store unreadKeys runningKeys)"
  by (simp add: sound_def store_ok_def view_ok_def new_store_def shown_at_def lists_ok_def flagged_def)

text \<open>The store as a step function on actions whose device ids are well formed.\<close>

definition store_next :: "store_env \<Rightarrow> lifecycle_store \<Rightarrow> store_action \<Rightarrow> lifecycle_store" where
  "store_next e s act = (if action_ok act then store_act e s act else s)"

interpretation task_store: invariant_machine "store_next e" sound for e
  by unfold_locales (simp add: store_next_def store_act_sound)

abbreviation store_run :: "store_env \<Rightarrow> lifecycle_store \<Rightarrow> store_action list \<Rightarrow> lifecycle_store" where
  "store_run e \<equiv> foldl (store_next e)"

end
