(* ===== verification/RuntimeStoreAliases.thy ===== *)
theory RuntimeStoreAliases
  imports RuntimeStoreRuns
begin

text \<open>
  What registering a device alias does: which device an id resolves to afterwards, and that the tasks known
  under the alias are known under the device it stands for.
\<close>

subsection \<open>Following aliases\<close>

inductive leads :: "(string, string) jsmap \<Rightarrow> string \<Rightarrow> string \<Rightarrow> bool" for aliases where
  leads_root: "alias_root aliases d \<Longrightarrow> leads aliases d d"
| leads_step: "jm_get aliases d = Some n \<Longrightarrow> n \<noteq> [] \<Longrightarrow> n \<noteq> d \<Longrightarrow> leads aliases n r \<Longrightarrow> leads aliases d r"

inductive_cases leadsE: "leads aliases d r"

lemma leads_ends: "leads aliases d r \<Longrightarrow> alias_root aliases r"
  by (induction rule: leads.induct)

lemma leads_at_root: "leads aliases d r \<Longrightarrow> alias_root aliases d \<Longrightarrow> r = d"
  by (erule leadsE) (simp_all add: alias_root_def)

lemma leads_at_step: "leads aliases d r \<Longrightarrow> jm_get aliases d = Some n \<Longrightarrow> n \<noteq> [] \<Longrightarrow> n \<noteq> d \<Longrightarrow> leads aliases n r"
  by (erule leadsE) (simp_all add: alias_root_def)

lemma leads_unique: "leads aliases d r \<Longrightarrow> leads aliases d r' \<Longrightarrow> r = r'"
  by (induction rule: leads.induct) (blast dest: leads_at_root leads_at_step)+

lemma resolve_leads:
  "alias_rank rank aliases \<Longrightarrow> \<forall>v \<in> set visited. rank current < rank v \<Longrightarrow>
   leads aliases current (resolve_from aliases visited current)"
proof (induction aliases visited current rule: resolve_from.induct)
  case (1 aliases visited current)
  have fresh: "current \<notin> set visited" using "1.prems"(2) by blast
  show ?case
  proof (cases "alias_root aliases current")
    case True
    with fresh have "resolve_from aliases visited current = current"
      by (subst resolve_from.simps) (auto simp: alias_root_def split: option.splits)
    with True show ?thesis by (simp add: leads_root)
  next
    case False
    then obtain n where n: "jm_get aliases current = Some n" "n \<noteq> []" "n \<noteq> current"
      by (auto simp: alias_root_def split: option.splits)
    with "1.prems"(1) have "rank n < rank current" by (auto simp: alias_rank_def)
    then have "\<forall>v \<in> set (current # visited). rank n < rank v"
      using "1.prems"(2) by (auto intro: less_trans)
    with "1.IH" [OF fresh n(1)] n "1.prems"(1)
    have "leads aliases n (resolve_from aliases (current # visited) n)" by auto
    with n have "leads aliases current (resolve_from aliases (current # visited) n)" by (blast intro: leads_step)
    with fresh n show ?thesis by (subst resolve_from.simps) simp
  qed
qed

lemma resolve_is: "aliases_ok (stDeviceAliases s) \<Longrightarrow> leads (stDeviceAliases s) d r \<longleftrightarrow> resolveDeviceId s d = r"
proof -
  assume "aliases_ok (stDeviceAliases s)"
  then have "leads (stDeviceAliases s) d (resolveDeviceId s d)"
    unfolding aliases_ok_def resolveDeviceId_def by (auto intro: resolve_leads)
  with leads_unique show ?thesis by blast
qed

text \<open>A new alias moves exactly the ids that led to it.\<close>

lemma leads_set:
  assumes "leads aliases d r" and "alias_root aliases alias" and "alias_root aliases canonical"
    and "canonical \<noteq> alias" and "canonical \<noteq> []"
  shows "leads (jm_set alias canonical aliases) d (if r = alias then canonical else r)"
  using assms(1)
proof (induction rule: leads.induct)
  case (leads_root d)
  have "alias_root (jm_set alias canonical aliases) canonical" using assms by (simp add: alias_root_set)
  then have "leads (jm_set alias canonical aliases) alias canonical"
    using assms(4,5) by (intro leads_step [of _ "alias" canonical]) (auto intro: leads.leads_root)
  with leads_root show ?case by (auto intro: leads.leads_root alias_root_set)
next
  case (leads_step d n r)
  moreover have "d \<noteq> alias" using leads_step(1-3) assms(2) by (auto simp: alias_root_def)
  ultimately show ?case by (intro leads.leads_step [of _ d n]) simp_all
qed

subsection \<open>No task is lost\<close>

definition present :: "lifecycle_store \<Rightarrow> string \<Rightarrow> bool" where
  "present s k \<longleftrightarrow> jm_get (stMachines s) k \<noteq> None"

lemma present_restore: "present s k \<Longrightarrow> present (restore_at k' s) k"
  by (auto simp: present_def restore_at_def case_prod_unfold Let_def split: option.split)

lemma known_present: "getTask s a \<noteq> None \<longleftrightarrow> present s (store_key s a)"
  by (auto simp: getTask_def store_machine_def present_def)

lemma migrate_present:
  assumes ok: "store_but {alias} s" and root: "alias_root (stDeviceAliases s) canonical" and pl: "plain canonical"
    and ne: "alias \<noteq> canonical" and a: "plain (adDeviceId a)" and pres: "present s (getRuntimeTaskLifecycleKey a)"
  shows "present (migrate_machine e alias canonical s key) (getRuntimeTaskLifecycleKey a) \<or>
    adDeviceId a = alias \<and>
    present (migrate_machine e alias canonical s key) (getRuntimeTaskLifecycleKey (a\<lparr>adDeviceId := canonical\<rparr>))"
proof (cases "\<exists>m. jm_get (stMachines s) key = Some m \<and> adDeviceId (lsAddress (rmState m)) = alias")
  case False
  then have "migrate_machine e alias canonical s key = s"
    by (auto simp: migrate_machine_def Let_def split: option.split)
  with pres show ?thesis by simp
next
  case True
  then obtain m where m: "jm_get (stMachines s) key = Some m" "adDeviceId (lsAddress (rmState m)) = alias" by blast
  let ?n = "(lsAddress (rmState m))\<lparr>adDeviceId := canonical\<rparr>"
  have n: "alias_root (stDeviceAliases s) (adDeviceId ?n)" "plain (adDeviceId ?n)" using root pl by simp_all
  obtain m' where get: "\<And>k. jm_get (stMachines (migrate_machine e alias canonical s key)) k = (if k = key then None
      else if k = getRuntimeTaskLifecycleKey ?n then Some m' else jm_get (stMachines s) k)"
    using merge_into_root [OF ok n, of e key m] m by (auto simp: migrate_machine_def Let_def)
  have m_key: "key = getRuntimeTaskLifecycleKey (lsAddress (rmState m))" "plain alias"
    using store_but_get [OF ok m(1)] m(2) by (auto simp: filed_in_def)
  show ?thesis
  proof (cases "getRuntimeTaskLifecycleKey a = key")
    case True
    with m_key m(2) have "adDeviceId a = alias \<and> adTaskId a = adTaskId (lsAddress (rmState m))"
      using key_injective [OF a, of "lsAddress (rmState m)"] by simp
    moreover from this have "getRuntimeTaskLifecycleKey (a\<lparr>adDeviceId := canonical\<rparr>) = getRuntimeTaskLifecycleKey ?n"
      by (simp add: getRuntimeTaskLifecycleKey_def)
    moreover have "getRuntimeTaskLifecycleKey ?n \<noteq> key"
      using m_key m(2) ne key_injective [OF n(2), of "lsAddress (rmState m)"] by auto
    ultimately show ?thesis using get by (simp add: present_def)
  next
    case False
    with get pres show ?thesis by (simp add: present_def)
  qed
qed


lemma migrate_all_present:
  assumes "store_but {alias} s" and "alias_root (stDeviceAliases s) canonical" and "plain canonical"
    and "alias \<noteq> canonical" and "plain (adDeviceId a)"
    and "present s (getRuntimeTaskLifecycleKey a) \<or>
      adDeviceId a = alias \<and> present s (getRuntimeTaskLifecycleKey (a\<lparr>adDeviceId := canonical\<rparr>))"
  shows "present (foldl (migrate_machine e alias canonical) s keys) (getRuntimeTaskLifecycleKey a) \<or>
    adDeviceId a = alias \<and>
    present (foldl (migrate_machine e alias canonical) s keys) (getRuntimeTaskLifecycleKey (a\<lparr>adDeviceId := canonical\<rparr>))"
  using assms
proof (induction keys arbitrary: s)
  case (Cons key keys)
  let ?s = "migrate_machine e alias canonical s key"
  note step = migrate_step(1,2) [OF Cons.prems(1-4), of UNIV e key]
  have "present ?s (getRuntimeTaskLifecycleKey a) \<or>
    adDeviceId a = alias \<and> present ?s (getRuntimeTaskLifecycleKey (a\<lparr>adDeviceId := canonical\<rparr>))"
    using Cons.prems(6)
  proof (elim disjE conjE)
    assume "present s (getRuntimeTaskLifecycleKey a)"
    from migrate_present [OF Cons.prems(1-5) this] show ?thesis by blast
  next
    assume moved: "adDeviceId a = alias" "present s (getRuntimeTaskLifecycleKey (a\<lparr>adDeviceId := canonical\<rparr>))"
    from migrate_present [OF Cons.prems(1-4) _ moved(2)] Cons.prems(3,4) moved(1) show ?thesis by simp
  qed
  with Cons.IH [of ?s] Cons.prems step show ?case by simp
qed simp


text \<open>The device that ids lead to, and what is known of a task, after an alias is registered.\<close>

lemma tracked_key_in:
  "\<forall>k m. jm_get (stMachines t) k = Some m \<and> P m \<longrightarrow> k \<in> set (map fst (stMachines t))"
  by (force dest: jm_get_in)

lemma registered_device:
  assumes ok: "store_ok s" and pl: "plain canonicalDeviceId" and root: "alias_root (stDeviceAliases s) alias"
    and c: "c = resolveDeviceId s canonicalDeviceId" "c \<noteq> []"
  shows "resolveDeviceId (fst (registerDeviceAlias e alias canonicalDeviceId s)) d =
    (if resolveDeviceId s d = alias then c else resolveDeviceId s d)"
proof (cases "resolveDeviceId s alias = resolveDeviceId s canonicalDeviceId")
  case True
  then have "alias = c" using resolve_of_root [OF root] c by (simp add: resolveDeviceId_def)
  with True c show ?thesis by (simp add: registerDeviceAlias_def)
next
  case False
  let ?s = "fst (registerDeviceAlias e alias canonicalDeviceId s)"
  obtain t keys where t: "stDeviceAliases t = jm_set alias c (stDeviceAliases s)" "store_but {alias} t"
      "alias_root (stDeviceAliases t) c" "plain c" "alias \<noteq> c"
    and s': "?s = foldl (\<lambda>s' key. restore_at (migrate_key alias c key) s')
      (foldl (migrate_machine e alias c) t (map fst (stMachines t))) keys"
    using register_parts [OF ok pl False c(1), of e] by metis
  have al: "stDeviceAliases ?s = jm_set alias c (stDeviceAliases s)"
    unfolding s' restored_aliases migrate_all(2) [OF t(2-5) tracked_key_in] by (rule t(1))
  have "leads (stDeviceAliases s) d (resolveDeviceId s d)"
    using resolve_is [OF store_okD(1) [OF ok]] by blast
  moreover have "alias_root (stDeviceAliases s) c" using resolve_root [OF store_okD(1) [OF ok]] c by simp
  ultimately have "leads (stDeviceAliases ?s) d (if resolveDeviceId s d = alias then c else resolveDeviceId s d)"
    unfolding al using leads_set [OF _ root] c(2) t(5) by blast
  then show ?thesis using resolve_is [OF store_okD(1) [OF registerDeviceAlias_ok [OF ok pl]]] by blast
qed

lemma restored_present:
  "present s k \<Longrightarrow> present (foldl (\<lambda>s' key. restore_at (f key) s') s keys) k"
  by (induction keys arbitrary: s) (simp_all add: present_restore)

lemma known_key: "store_key s a = getRuntimeTaskLifecycleKey (canonicalizeAddress s a)"
  by (simp add: store_key_def)

lemma registered_known:
  assumes ok: "store_ok s" and pl: "plain canonicalDeviceId" and root: "alias_root (stDeviceAliases s) alias"
    and c: "c = resolveDeviceId s canonicalDeviceId" "c \<noteq> []"
    and a: "plain (adDeviceId a)" and known: "getTask s a \<noteq> None"
  shows "getTask (fst (registerDeviceAlias e alias canonicalDeviceId s)) a \<noteq> None"
proof (cases "resolveDeviceId s alias = resolveDeviceId s canonicalDeviceId")
  case True
  with known show ?thesis by (simp add: registerDeviceAlias_def)
next
  case False
  let ?s = "fst (registerDeviceAlias e alias canonicalDeviceId s)" and ?b = "canonicalizeAddress s a"
  obtain t keys where t: "stMachines t = stMachines s" "store_but {alias} t"
      "alias_root (stDeviceAliases t) c" "plain c" "alias \<noteq> c"
    and s': "?s = foldl (\<lambda>s' key. restore_at (migrate_key alias c key) s')
      (foldl (migrate_machine e alias c) t (map fst (stMachines t))) keys"
    using register_parts [OF ok pl False c(1), of e] by metis
  have here: "present s (getRuntimeTaskLifecycleKey ?b)" using known unfolding known_present known_key .
  then have "present t (getRuntimeTaskLifecycleKey ?b)" using t(1) by (simp add: present_def)
  with migrate_all_present [OF t(2-5) canonical_plain [OF ok a]]
  have after: "present ?s (getRuntimeTaskLifecycleKey ?b) \<or>
    adDeviceId ?b = alias \<and> present ?s (getRuntimeTaskLifecycleKey (?b\<lparr>adDeviceId := c\<rparr>))"
    unfolding s' by (blast intro: restored_present)
  have ok': "store_ok ?s" by (rule registerDeviceAlias_ok [OF ok pl])
  have device: "adDeviceId (canonicalizeAddress ?s a) = (if adDeviceId ?b = alias then c else adDeviceId ?b)"
    using registered_device [OF ok pl root c] by (simp add: canonicalizeAddress_def)
  have key: "store_key ?s a = getRuntimeTaskLifecycleKey (?b\<lparr>adDeviceId := adDeviceId (canonicalizeAddress ?s a)\<rparr>)"
    by (simp add: known_key canonicalizeAddress_def)
  have not_alias: "\<not> present ?s (getRuntimeTaskLifecycleKey ?b)" if "adDeviceId ?b = alias"
  proof
    assume "present ?s (getRuntimeTaskLifecycleKey ?b)"
    then obtain m where m: "filed (stDeviceAliases ?s) (getRuntimeTaskLifecycleKey ?b) m"
      using store_okD(3) [OF ok'] by (auto simp: present_def)
    then have "adDeviceId (lsAddress (rmState m)) = alias" "alias_root (stDeviceAliases ?s) alias"
      using key_injective [OF canonical_plain [OF ok a], of "lsAddress (rmState m)"] that by (auto simp: filed_def)
    then have "resolveDeviceId ?s alias = alias" by (simp add: resolveDeviceId_def resolve_of_root)
    moreover have "resolveDeviceId ?s alias = c"
      using registered_device [OF ok pl root c, of e "alias"] resolve_of_root [OF root]
      by (simp add: resolveDeviceId_def)
    ultimately show False using t(5) by simp
  qed
  show ?thesis unfolding known_present key device using after not_alias by (auto split: if_split)
qed

end
