(* ===== verification/RuntimeStoreMarks.thy ===== *)
theory RuntimeStoreMarks
  imports RuntimeStoreRuns
begin

text \<open>
  The unread marks: what an event does to the mark of its task, and that the task that is open has none.
\<close>

subsection \<open>The mark of the task of an event\<close>

lemma settle_unread_marks:
  assumes "settle_unread key w u ev m s = (s', m', c)"
  shows "lsUnread (rmState m') = ((lsUnread (rmState m) \<or> marks_unread s key w (getSnapshot m)) \<and>
      \<not> ldIsRunning (snDerived (getSnapshot m)) \<and> \<not> is_current s (getSnapshot m))"
  using assms by (cases rule: settle_unread_machine) auto

lemma marks_not_read:
  "marks_unread s key w x \<Longrightarrow> \<not> ldIsRunning (snDerived x) \<and> \<not> is_current s x"
  by (simp add: marks_unread_def is_quiet_def)

lemma settle_unread_deferred:
  assumes "settle_unread key w u ev m s = (s', m', c)"
  shows "key \<in> set (stDeferredGoal s') \<longleftrightarrow>
    (key \<in> set (stDeferredGoal s) \<or>
       became_background_idle s w (getSnapshot m) \<and> snGoalStatus (getSnapshot m) = Some GActive) \<and>
    \<not> marks_unread s key w (getSnapshot m) \<and>
    \<not> ldIsRunning (snDerived (getSnapshot m)) \<and> \<not> is_current s (getSnapshot m)"
proof -
  have s': "s' = fst (settle_unread key w u ev m s)" using assms by simp
  show ?thesis
    unfolding s' settle_unread_def Let_def fst_conv
    by (simp add: if_distrib [of stDeferredGoal]) (auto split: if_split)
qed

lemma recordUnread_get:
  "jm_get (stUnread (recordUnreadState k u s)) k' =
     (if k' = k then Some \<lparr>tuUnread = u, tuRevision = Suc (stUnreadRevision s)\<rparr> else jm_get (stUnread s) k')"
  by (simp add: recordUnreadState_def Let_def)

lemma settle_unread_records:
  assumes "settle_unread key w u ev m s = (s', m', c)"
  shows "k \<noteq> key \<Longrightarrow> jm_get (stUnread s') k = jm_get (stUnread s) k"
    and "is_current s (getSnapshot m) \<Longrightarrow> jm_get (stUnread s') key = Some \<lparr>tuUnread = False, tuRevision = Suc (stUnreadRevision s)\<rparr>"
proof -
  have s': "s' = fst (settle_unread key w u ev m s)" using assms by simp
  show "jm_get (stUnread s') k = jm_get (stUnread s) k" if "k \<noteq> key"
    unfolding s' settle_unread_def Let_def fst_conv
    using that by (simp add: if_distrib [of stUnread] recordUnread_get)
  show "jm_get (stUnread s') key = Some \<lparr>tuUnread = False, tuRevision = Suc (stUnreadRevision s)\<rparr>"
    if "is_current s (getSnapshot m)"
    unfolding s' settle_unread_def Let_def fst_conv
    using that by (simp add: recordUnread_get)
qed

text \<open>The snapshots before and after the marks differ in the mark only.\<close>

lemma snapshot_fields:
  "snKey (getSnapshot m) = getRuntimeTaskLifecycleKey (lsAddress (rmState m))"
  "snGoalStatus (getSnapshot m) = lsGoalStatus (rmState m)"
  "snUnread (getSnapshot m) = lsUnread (rmState m)"
  "ldIsRunning (snDerived (getSnapshot m)) = running_phase (lsExecutionPhase (rmState m))"
  "ldIsQueued (snDerived (getSnapshot m)) = (lsExecutionPhase (rmState m) = EpQueued)"
  by (simp_all add: getSnapshot_def Let_def)

lemma marked_snapshot:
  assumes "marked m m'"
  shows "snKey (getSnapshot m') = snKey (getSnapshot m)" and "snGoalStatus (getSnapshot m') = snGoalStatus (getSnapshot m)"
    and "is_quiet (getSnapshot m') = is_quiet (getSnapshot m)"
    and "ldIsRunning (snDerived (getSnapshot m')) = ldIsRunning (snDerived (getSnapshot m))"
    and "snUnread (getSnapshot m') = lsUnread (rmState m')"
proof -
  obtain u where u: "rmState m' = (rmState m)\<lparr>lsUnread := u\<rparr>" using assms by (auto simp: marked_def)
  show "snKey (getSnapshot m') = snKey (getSnapshot m)" "snGoalStatus (getSnapshot m') = snGoalStatus (getSnapshot m)"
    "is_quiet (getSnapshot m') = is_quiet (getSnapshot m)"
    "ldIsRunning (snDerived (getSnapshot m')) = ldIsRunning (snDerived (getSnapshot m))"
    "snUnread (getSnapshot m') = lsUnread (rmState m')"
    by (simp_all add: snapshot_fields is_quiet_def u)
qed

lemma reduce_getTask:
  assumes "store_ok s" and "plain (adDeviceId a)" and "reduceMachine e a ev s = (s', c)"
  shows "getTask s' a = map_option getSnapshot (jm_get (stMachines s') (store_key s a))"
  by (simp add: getTask_def store_machine_def store_key_cong [OF reduceMachine_ok(2) [OF assms]])

lemma canonical_event_filed:
  assumes "store_ok s" and "plain (adDeviceId a)" and "filed (stDeviceAliases s) (store_key s a) m"
  shows "snKey (getSnapshot (fst (rm_dispatch m (canonical_event (canonicalizeAddress s a) ev)))) = store_key s a"
  using filed_dispatch [OF assms(3) canonical_event_sent [OF assms(1,2)]] by (rule filed_key)

lemma background_end:
  assumes ok: "store_ok s" and pl: "plain (adDeviceId a)" and red: "reduceMachine e a ev s = (s', c)"
    and before: "getTask s a = Some t" "ldIsRunning (snDerived t)"
    and background: "stCurrentTaskKey s \<noteq> Some (store_key s a)"
    and after: "getTask s' a = Some t'" "is_quiet t'"
  shows "if snGoalStatus t' = Some GActive then store_key s a \<in> set (stDeferredGoal s') else snUnread t'"
  using ok pl red
proof (cases rule: reduceMachine_cases)
  case (skip s1 k m)
  with ensureMachine_ok [OF ok pl skip(1)] reduce_getTask [OF ok pl red] before after
  have "t' = t" by (cases rule: ensureMachine_cases [OF skip(1)]) (auto simp: getTask_def store_machine_def)
  with before after show ?thesis by (simp add: is_quiet_def)
next
  case (run s1 k m s2 m2 c2)
  let ?m1 = "fst (rm_dispatch m (canonical_event (canonicalizeAddress s a) ev))"
  note ens = ensureMachine_ok [OF ok pl run(1)] and mk = settle_unread_marked(1) [OF run(4)]
  have t': "t' = getSnapshot m2" using reduce_getTask [OF ok pl red] after(1) run(2,5) by simp
  have m: "t = getSnapshot m" using run(1)
    by (cases rule: ensureMachine_cases) (use run(2) before(1) in \<open>auto simp: getTask_def store_machine_def\<close>)
  have idle: "became_background_idle s1 True (getSnapshot ?m1)"
    using canonical_event_filed [OF ok pl, of m ev] ens run(2) background after(2) marked_snapshot [OF mk]
    by (simp add: became_background_idle_def is_current_def t')
  have w: "(ldIsRunning (snDerived (getSnapshot m)) \<or> k \<in> set (stPreviousRunning s)) = True"
    using before m by simp
  note settled = settle_unread_marks [OF run(4), unfolded w] settle_unread_deferred [OF run(4), unfolded w]
  have s': "stDeferredGoal s' = stDeferredGoal s2" using run(5) by simp
  have same: "snGoalStatus t' = snGoalStatus (getSnapshot ?m1)" "snUnread t' = lsUnread (rmState m2)"
    using marked_snapshot [OF mk] by (simp_all add: t')
  show ?thesis
    using idle settled run(2) same s' by (auto simp: marks_unread_def became_background_idle_def is_quiet_def)
qed

definition is_snapshot :: "RuntimeTaskLifecycleEvent \<Rightarrow> bool" where
  "is_snapshot ev \<longleftrightarrow> (case ev of ExecutorSnapshotReceived _ _ \<Rightarrow> True | _ \<Rightarrow> False)"

lemma deferred_end:
  assumes ok: "store_ok s" and pl: "plain (adDeviceId a)" and red: "reduceMachine e a ev s = (s', c)"
    and event: "\<not> is_snapshot ev"
    and deferred: "store_key s a \<in> set (stDeferredGoal s)"
    and background: "stCurrentTaskKey s \<noteq> Some (store_key s a)"
    and after: "getTask s' a = Some t'" "is_quiet t'" "snGoalStatus t' \<noteq> Some GActive"
  shows "snUnread t' \<and> store_key s a \<notin> set (stDeferredGoal s')"
  using ok pl red
proof (cases rule: reduceMachine_cases)
  case (skip s1 k m)
  with event show ?thesis by (cases ev) (simp_all add: skips_event_def canonical_event_def is_snapshot_def)
next
  case (run s1 k m s2 m2 c2)
  let ?m1 = "fst (rm_dispatch m (canonical_event (canonicalizeAddress s a) ev))"
  note ens = ensureMachine_ok [OF ok pl run(1)] and mk = settle_unread_marked(1) [OF run(4)]
  have t': "t' = getSnapshot m2" using reduce_getTask [OF ok pl red] after(1) run(2,5) by simp
  have other: "\<not> is_current s1 (getSnapshot ?m1)"
    using canonical_event_filed [OF ok pl, of m ev] ens run(2) background by (simp add: is_current_def)
  have "marks_unread s1 k w (getSnapshot ?m1)" for w
    using other deferred after ens run(2) marked_snapshot [OF mk] by (simp add: marks_unread_def t')
  then show ?thesis
    using settle_unread_marks [OF run(4)] settle_unread_deferred [OF run(4)] marked_snapshot [OF mk] run(2,5)
    by (auto simp: t' marks_unread_def is_quiet_def)
qed

subsection \<open>The task that is open\<close>

definition current_read :: "lifecycle_store \<Rightarrow> bool" where
  "current_read s \<longleftrightarrow> (\<forall>k. stCurrentTaskKey s = Some k \<longrightarrow>
     \<not> opt_truthy (\<lambda>m. lsUnread (rmState m)) (jm_get (stMachines s) k) \<and>
     \<not> opt_truthy tuUnread (jm_get (stUnread s) k))"

lemma current_read_publish [simp]: "current_read (publish e s) = current_read s" "current_read (publish_if e r) = current_read (fst r)"
  by (simp_all add: current_read_def publish_if_def)

lemma reduce_records:
  assumes ok: "store_ok s" and pl: "plain (adDeviceId a)" and red: "reduceMachine e a ev s = (s', c)"
    and "k \<noteq> store_key s a"
  shows "jm_get (stMachines s') k = jm_get (stMachines s) k" and "jm_get (stUnread s') k = jm_get (stUnread s) k"
proof -
  have "jm_get (stMachines s') k = jm_get (stMachines s) k \<and> jm_get (stUnread s') k = jm_get (stUnread s) k"
    using ok pl red
  proof (cases rule: reduceMachine_cases)
    case (skip s1 k' m)
    then show ?thesis
      by (cases rule: ensureMachine_cases [OF skip(1)]) (use assms(4) in \<open>simp_all\<close>)
  next
    case (run s1 k' m s2 m2 c2)
    have "jm_get (stMachines s1) k = jm_get (stMachines s) k"
      by (cases rule: ensureMachine_cases [OF run(1)]) (use assms(4) in \<open>simp_all\<close>)
    with run ensureMachine_ok [OF ok pl run(1)] settle_unread_records(1) [OF run(4), of k] settle_unread_frame [OF run(4)]
      assms(4) show ?thesis by simp
  qed
  then show "jm_get (stMachines s') k = jm_get (stMachines s) k" "jm_get (stUnread s') k = jm_get (stUnread s) k"
    by blast+
qed

lemma reduce_opened:
  assumes ok: "store_ok s" and pl: "plain (adDeviceId a)" and red: "reduceMachine e a ev s = (s', c)"
    and ev: "\<not> is_snapshot ev" and cur: "stCurrentTaskKey s = Some (store_key s a)"
  shows "current_read s'"
  using ok pl red
proof (cases rule: reduceMachine_cases)
  case (skip s1 k m)
  with ev show ?thesis by (cases ev) (simp_all add: skips_event_def canonical_event_def is_snapshot_def)
next
  case (run s1 k m s2 m2 c2)
  let ?m1 = "fst (rm_dispatch m (canonical_event (canonicalizeAddress s a) ev))"
  note ens = ensureMachine_ok [OF ok pl run(1)]
  have "is_current s1 (getSnapshot ?m1)"
    using canonical_event_filed [OF ok pl, of m ev] ens run(2) cur by (simp add: is_current_def)
  then show ?thesis
    using settle_unread_marks [OF run(4)] settle_unread_records(2) [OF run(4)] settle_unread_frame [OF run(4)]
      run(2,5) cur ens by (simp add: current_read_def)
qed

lemma reduce_current_read:
  assumes ok: "store_ok s" and pl: "plain (adDeviceId a)" and red: "reduceMachine e a ev s = (s', c)"
    and cur: "current_read s"
  shows "current_read s'"
proof (cases "stCurrentTaskKey s = Some (store_key s a)")
  case False
  then show ?thesis
    using cur reduce_records [OF ok pl red] reduceMachine_ok(3) [OF ok pl red]
    by (auto simp: current_read_def)
next
  case True
  show ?thesis using ok pl red
  proof (cases rule: reduceMachine_cases)
    case (skip s1 k m)
    have "current_read s1"
      by (cases rule: ensureMachine_cases [OF skip(1)])
        (use cur True skip(2) in \<open>auto simp: current_read_def new_runtime_machine_def opt_truthy_def split: option.split_asm\<close>)
    with skip show ?thesis by simp
  next
    case (run s1 k m s2 m2 c2)
    let ?m1 = "fst (rm_dispatch m (canonical_event (canonicalizeAddress s a) ev))"
    note ens = ensureMachine_ok [OF ok pl run(1)]
    have "is_current s1 (getSnapshot ?m1)"
      using canonical_event_filed [OF ok pl, of m ev] ens run(2) True by (simp add: is_current_def)
    then show ?thesis
      using settle_unread_marks [OF run(4)] settle_unread_records(2) [OF run(4)] settle_unread_frame [OF run(4)]
        run(2,5) True ens by (simp add: current_read_def)
  qed
qed

lemma dispatch_current_read:
  "store_ok s \<Longrightarrow> plain (adDeviceId a) \<Longrightarrow> current_read s \<Longrightarrow> current_read (store_dispatch e a ev s)"
  unfolding store_dispatch_def by (cases "reduceMachine e a ev s") (simp add: reduce_current_read)


text \<open>Actions that move no task to another address.\<close>

definition moves_nothing :: "store_action \<Rightarrow> bool" where
  "moves_nothing act = (case act of
       SyncRuntimeWork (Some work) \<Rightarrow>
         list_all (\<lambda>w. the_or [] (map_option js_trim (wsRemoteHostId w)) = []) (collectRuntimeWorkspaces work)
     | SyncDevices _ \<Rightarrow> False
     | RenameTask _ _ \<Rightarrow> False
     | _ \<Rightarrow> True)"

lemma tasks_current_read:
  "list_all (\<lambda>w. plain (wsDeviceId w)) ws \<Longrightarrow> fst ` set tasks \<subseteq> set ws \<Longrightarrow> store_ok s \<Longrightarrow> current_read s \<Longrightarrow>
   current_read (fst (chain (sync_one_task e) tasks s))"
proof (induction tasks arbitrary: s)
  case (Cons task tasks)
  obtain w t where task: "task = (w, t)" by fastforce
  let ?a = "getRuntimeTaskAddress w t"
  have pl: "plain (adDeviceId ?a)" using Cons.prems(1,2) by (auto simp: task list_all_iff getRuntimeTaskAddress_def)
  obtain s' c where red: "reduceMachine e ?a (ExecutorSnapshotReceived ?a (normalizeRuntimeTaskSummary t)) s = (s', c)"
    by fastforce
  have "current_read (fst (chain (sync_one_task e) tasks s'))"
    using Cons.IH [of s'] Cons.prems reduceMachine_ok(1) [OF Cons.prems(3) pl red]
      reduce_current_read [OF Cons.prems(3) pl red Cons.prems(4)] by simp
  then show ?case by (simp add: sync_one_task_def task red Let_def case_prod_unfold)
qed simp

lemma no_aliases:
  assumes "list_all (\<lambda>w. the_or [] (map_option js_trim (wsRemoteHostId w)) = []) ws"
  shows "chain (\<lambda>workspace s'. let alias = the_or [] (map_option js_trim (wsRemoteHostId workspace));
            canonicalDeviceId = js_trim (wsDeviceId workspace)
        in if alias = [] \<or> canonicalDeviceId = [] \<or> alias = canonicalDeviceId then (s', False)
           else registerDeviceAlias e alias canonicalDeviceId s') ws s = (s, False)"
  using assms by (induction ws) (simp_all add: Let_def)

lemma sync_work_current_read:
  assumes "action_ok (SyncRuntimeWork work)" and "moves_nothing (SyncRuntimeWork work)" and "store_ok s" and "current_read s"
  shows "current_read (syncRuntimeWork e work s)"
proof (cases work)
  case (Some w)
  have "registerRuntimeWorkAliases e w s = (s, False)"
    using assms(2) Some by (simp add: registerRuntimeWorkAliases_def moves_nothing_def no_aliases)
  moreover have "current_read (fst (chain (sync_one_task e) (collectRuntimeTasks w) s))"
    using assms Some
    by (intro tasks_current_read [of "collectRuntimeWorkspaces w"])
      (auto simp: action_ok_def dest: collectRuntimeTasks_workspace)
  ultimately show ?thesis using Some by (simp add: syncRuntimeWork_def case_prod_unfold Let_def)
qed (use assms in \<open>simp add: syncRuntimeWork_def\<close>)

lemma replaced_unread: "lsUnread (rmState (fst (rm_dispatch m ExecutorReplaced))) = lsUnread (rmState m)"
  by (simp add: dispatch_rmState reduceRuntimeTaskLifecycle_def)

lemma invalidate_current_read:
  "current_read s \<Longrightarrow> current_read (fst (invalidateNativeExecutions e s))"
  by (auto simp: current_read_def invalidateNativeExecutions_def Let_def jm_get_map replaced_unread opt_truthy_def
      split: option.splits)

lemma syncTask_current_read:
  "store_ok s \<Longrightarrow> plain (adDeviceId a) \<Longrightarrow> current_read s \<Longrightarrow> current_read (fst (syncRuntimeTask e a t x s))"
  by (simp add: syncRuntimeTask_def Let_def store_dispatch_def [symmetric] dispatch_current_read)

lemma dispatch_ok: "store_ok s \<Longrightarrow> plain (adDeviceId a) \<Longrightarrow> store_ok (store_dispatch e a ev s)"
  unfolding store_dispatch_def by (cases "reduceMachine e a ev s") (simp add: reduceMachine_ok(1))

lemma syncTask_ok: "store_ok s \<Longrightarrow> plain (adDeviceId a) \<Longrightarrow> store_ok (fst (syncRuntimeTask e a t x s))"
  by (simp add: syncRuntimeTask_def Let_def store_dispatch_def [symmetric] dispatch_ok)

lemma transcript_snapshot_current_read:
  assumes "store_ok s" and "plain (adDeviceId a)"
  shows "store_ok (syncRuntimeTranscriptSnapshot e a t s)"
    and "current_read s \<Longrightarrow> current_read (syncRuntimeTranscriptSnapshot e a t s)"
  using assms
  by (simp_all add: syncRuntimeTranscriptSnapshot_def sync_terminal_turn_def Let_def dispatch_current_read dispatch_ok
      syncTask_current_read syncTask_ok split: option.split bool.split)

lemma the_or_truthy: "the_or False (map_option f x) = opt_truthy f x"
  by (cases x) simp_all

lemma ensure_current_read:
  assumes ens: "ensureMachine s a = (s1, k, m)" and cur: "current_read s" and same: "rmState m' = rmState m"
  shows "current_read (put_machine k m' s1)"
  using ens
proof (cases rule: ensureMachine_cases)
  case old
  with cur same show ?thesis by (auto simp: current_read_def)
next
  case new
  then have "lsUnread (rmState m) = opt_truthy tuUnread (jm_get (stUnread s) k)"
    by (simp add: new_runtime_machine_def the_or_truthy)
  with new(1,2) cur same show ?thesis by (simp add: current_read_def)
qed

lemma follow_current_read:
  assumes "store_ok s" and "plain (adDeviceId a)" and "current_read s"
  shows "current_read (follow_transcript e a t i s0 s)"
proof -
  have "current_read (put_machine k (observe_turns t m) s1)"
    if ens: "ensureMachine s (canonicalizeAddress s a) = (s1, k, m)" for s1 k m
    by (rule ensure_current_read [OF ens assms(3)]) simp
  then show ?thesis
    using assms
    by (auto simp: follow_transcript_def Let_def dispatch_current_read dispatch_ok split: option.split prod.split)
qed

lemma transcript_current_read:
  assumes "store_ok s" and "plain (adDeviceId a)" and "current_read s"
  shows "current_read (syncTranscript e a t p s)"
  using assms
  by (simp add: syncTranscript_def Let_def follow_current_read transcript_snapshot_current_read dispatch_current_read
      dispatch_ok)

lemma setCurrent_current_read:
  assumes ok: "store_ok s" and act: "action_ok (SetCurrentTask a)" and cur: "current_read s"
  shows "current_read (setCurrentTask e a s)"
proof (cases "a = None \<or> map_option (store_key s) a = stCurrentTaskKey s")
  case True
  with cur show ?thesis by (auto simp: setCurrentTask_def Let_def current_read_def split: option.split)
next
  case False
  then obtain b where b: "a = Some b" "Some (store_key s b) \<noteq> stCurrentTaskKey s" by auto
  let ?s = "s\<lparr>stCurrentTaskKey := Some (store_key s b)\<rparr>" and ?b = "canonicalizeAddress s b"
  have ok1: "store_ok ?s" using ok by (simp add: store_ok_def)
  have pl: "plain (adDeviceId ?b)" using act b ok by (simp add: action_ok_def)
  have "store_key ?s ?b = store_key s ?b" by (rule store_key_cong) simp
  then have "store_key ?s ?b = store_key s b" using ok by (simp add: store_key_def)
  then have "stCurrentTaskKey ?s = Some (store_key ?s ?b)" by simp
  moreover obtain s' c where red: "reduceMachine e ?b MarkedRead ?s = (s', c)" by fastforce
  ultimately have "current_read s'"
    by (intro reduce_opened [OF ok1 pl red]) (simp_all add: is_snapshot_def)
  with b red show ?thesis by (auto simp: setCurrentTask_def Let_def store_dispatch_def)
qed

lemma remove_current_read: "current_read s \<Longrightarrow> current_read (store_remove e a s)"
  by (auto simp: current_read_def store_remove_def Let_def)

lemma act_current_read:
  assumes "action_ok act" and "moves_nothing act" and "sound s" and "current_read s"
  shows "current_read (store_act e s act)"
  using assms
  by (cases act)
    (simp_all add: sound_def sync_work_current_read invalidate_current_read setCurrent_current_read remove_current_read,
     simp_all add: action_ok_def moves_nothing_def syncTask_current_read transcript_snapshot_current_read
       transcript_current_read dispatch_current_read)

text \<open>The store on the actions that move no task.\<close>

definition store_stay :: "store_env \<Rightarrow> lifecycle_store \<Rightarrow> store_action \<Rightarrow> lifecycle_store" where
  "store_stay e s act = (if moves_nothing act then store_next e s act else s)"

interpretation open_task: invariant_machine "store_stay e" "\<lambda>s. sound s \<and> current_read s" for e
  by unfold_locales (simp add: store_stay_def store_next_def store_act_sound act_current_read)

end
