(* ===== verification/RuntimeStoreProps.thy ===== *)
theory RuntimeStoreProps
  imports RuntimeStoreAliases RuntimeStoreMarks
begin

text \<open>
  What holds of the store of runtime tasks in every run: what it publishes, where a task is found, how
  unread marks follow the end of a task, and what it keeps in the browser's storage.
\<close>

subsection \<open>Published and found\<close>

lemma run_sound: "sound (store_run e (new_store unreadKeys runningKeys) acts)"
  by (rule task_store.run_inv [OF new_store_sound])

lemma untouched_snapshot:
  "untouched m \<Longrightarrow> snTask (getSnapshot m) = None \<and> \<not> snExecutionKnown (getSnapshot m) \<and> \<not> snTurnActive (getSnapshot m)"
  by (auto simp: untouched_def getSnapshot_def new_runtime_machine_def Let_def)

text \<open>C7: In every run the published snapshot is what the machines say now: a task that is asked for is
  published exactly as its machine has it, or it is not published and nothing is known of it yet; the
  lists of running, queued and unread tasks are those of the published tasks.\<close>

theorem published_is_current:
  "let s = store_run e (new_store unreadKeys runningKeys) acts in
    (selectTask s (stSnapshot s) a = getTask s a \<or>
      selectTask s (stSnapshot s) a = None \<and> snTask (the (getTask s a)) = None \<and>
      \<not> snExecutionKnown (the (getTask s a)) \<and> \<not> snTurnActive (the (getTask s a))) \<and>
    ssRunningTaskKeys (stSnapshot s) = flagged ldIsRunning (ssTasks (stSnapshot s)) \<and>
    ssQueuedTaskKeys (stSnapshot s) = flagged ldIsQueued (ssTasks (stSnapshot s)) \<and>
    ssUnreadTaskKeys (stSnapshot s) = flagged ldShouldShowUnread (ssTasks (stSnapshot s)) \<and>
    ssVersion (stSnapshot s) = stVersion s"
proof -
  define s where "s = store_run e (new_store unreadKeys runningKeys) acts"
  have view: "view_ok s" using run_sound [of e unreadKeys runningKeys acts] by (simp add: s_def sound_def)
  then have "shown_at (selectTask s (stSnapshot s) a) (store_machine s a)"
    by (simp add: view_ok_def selectTask_def store_machine_def)
  then show ?thesis
    unfolding s_def [symmetric] Let_def
    using view by (auto simp: view_ok_def lists_ok_def shown_at_def getTask_def split: option.splits
        dest: untouched_snapshot)
qed


subsection \<open>Removing a task, losing the executors\<close>

text \<open>Removing a task forgets it: it is no longer tracked nor published, and neither an unread mark, nor
  that it ran, nor a deferred mark of its goal is left of it; every other task stays as it was.\<close>

theorem removed_is_forgotten:
  assumes "sound s"
  shows "let k = store_key s a; s' = store_remove e a s in
    getTask s' a = None \<and> selectTask s' (stSnapshot s') a = None \<and>
    jm_get (stUnread s') k = None \<and> k \<notin> set (stPreviousRunning s') \<and> k \<notin> set (stDeferredGoal s') \<and>
    (\<forall>k'. k' \<noteq> k \<longrightarrow> jm_get (stMachines s') k' = jm_get (stMachines s) k' \<and>
       jm_get (stUnread s') k' = jm_get (stUnread s) k')"
proof -
  define k where "k = store_key s a"
  define s' where "s' = store_remove e a s"
  have frame: "stMachines s' = jm_delete k (stMachines s)" "stUnread s' = jm_delete k (stUnread s)"
    "stPreviousRunning s' = js_remove k (stPreviousRunning s)" "stDeferredGoal s' = js_remove k (stDeferredGoal s)"
    "stDeviceAliases s' = stDeviceAliases s"
    by (simp_all add: s'_def k_def store_remove_def Let_def publish_if_def)
  have key: "store_key s' a = k" using store_key_cong [OF frame(5)] by (simp add: k_def)
  have "shown_at (selectTask s' (stSnapshot s') a) (store_machine s' a)"
    using store_remove_sound [OF assms, of e a]
    by (simp add: s'_def [symmetric] sound_def view_ok_def selectTask_def store_machine_def)
  moreover have "store_machine s' a = None" using frame key by (simp add: store_machine_def)
  ultimately show ?thesis
    unfolding k_def [symmetric] s'_def [symmetric] Let_def using frame by (simp add: getTask_def shown_at_def)
qed


subsection \<open>Concrete stores\<close>

definition demo_store_env :: store_env where
  "demo_store_env = \<lparr>sePd = (\<lambda>_. None), seStorage = True\<rparr>"

text \<open>A store with one machine.\<close>

definition one_store :: "runtime_machine \<Rightarrow> lifecycle_store" where
  "one_store m = publish demo_store_env (put_machine (getRuntimeTaskLifecycleKey (lsAddress (rmState m))) m (new_store [] []))"

definition demo_busy_machine :: runtime_machine where
  "demo_busy_machine = rm_run (new_runtime_machine demo_address False) [ExecutorStarted]"

lemma one_store_sound: "plain (adDeviceId (lsAddress (rmState m))) \<Longrightarrow> sound (one_store m)"
proof -
  assume pl: "plain (adDeviceId (lsAddress (rmState m)))"
  have new: "store_ok (new_store [] [])" using new_store_sound by (simp add: sound_def)
  have "filed (stDeviceAliases (new_store [] [])) (getRuntimeTaskLifecycleKey (lsAddress (rmState m))) m"
    using pl by (simp add: filed_def alias_root_def new_store_def)
  from store_ok_put [OF new this] show ?thesis by (simp add: one_store_def sound_def)
qed

lemma one_store_facts [simp]:
  "resolveDeviceId (one_store m) d = d" "canonicalizeAddress (one_store m) a = a"
  "store_key (one_store m) a = getRuntimeTaskLifecycleKey a" "stDeviceAliases (one_store m) = []"
  "stCurrentTaskKey (one_store m) = None" "stUnread (one_store m) = []" "stDeferredGoal (one_store m) = []"
  "stMachines (one_store m) = [(getRuntimeTaskLifecycleKey (lsAddress (rmState m)), m)]"
proof -
  have "alias_root (stDeviceAliases (one_store m)) d" for d
    by (simp add: one_store_def new_store_def alias_root_def)
  then have "resolveDeviceId (one_store m) d = d" for d by (simp add: resolveDeviceId_def resolve_of_root)
  then show "resolveDeviceId (one_store m) d = d" "canonicalizeAddress (one_store m) a = a"
    "store_key (one_store m) a = getRuntimeTaskLifecycleKey a" "stDeviceAliases (one_store m) = []"
    "stCurrentTaskKey (one_store m) = None" "stUnread (one_store m) = []" "stDeferredGoal (one_store m) = []"
    "stMachines (one_store m) = [(getRuntimeTaskLifecycleKey (lsAddress (rmState m)), m)]"
    by (simp_all add: canonicalizeAddress_def store_key_def, simp_all add: one_store_def new_store_def)
qed

lemma demo_busy_address: "lsAddress (rmState demo_busy_machine) = demo_address"
  by code_simp

lemma demo_plain [simp]: "plain (adDeviceId demo_address)"
  by (simp add: plain_def demo_address_def)

lemma demo_busy_sound: "sound (one_store demo_busy_machine)"
  by (rule one_store_sound) (simp add: demo_busy_address)

lemma demo_busy_task: "getTask (one_store demo_busy_machine) demo_address = Some (getSnapshot demo_busy_machine)"
  by (simp add: getTask_def store_machine_def demo_busy_address)

theorem removed_is_forgotten_witness:
  "getTask (store_remove demo_store_env demo_address (one_store demo_busy_machine)) demo_address = None"
  using removed_is_forgotten [OF demo_busy_sound, of demo_address demo_store_env] by (simp add: Let_def)

subsection \<open>Aliases and tasks\<close>

text \<open>Registering an alias of a device loses no task. Afterwards exactly the ids that led to the alias lead
  to the device it stands for, and every task that was known, whatever id its address has, is still known
  at that address.\<close>

theorem registered_alias_keeps_tasks:
  assumes "sound s" and "plain canonicalDeviceId" and "alias_root (stDeviceAliases s) alias"
    and "resolveDeviceId s canonicalDeviceId \<noteq> []"
  shows "let s' = fst (registerDeviceAlias e alias canonicalDeviceId s) in
    resolveDeviceId s' d = (if resolveDeviceId s d = alias then resolveDeviceId s canonicalDeviceId
      else resolveDeviceId s d) \<and>
    (\<forall>a. plain (adDeviceId a) \<and> getTask s a \<noteq> None \<longrightarrow> getTask s' a \<noteq> None)"
proof -
  have ok: "store_ok s" using assms(1) by (simp add: sound_def)
  show ?thesis
    unfolding Let_def
    using registered_device [OF ok assms(2,3) refl assms(4)] registered_known [OF ok assms(2,3) refl assms(4)] by blast
qed

theorem registered_alias_keeps_tasks_witness:
  "let s' = fst (registerDeviceAlias demo_store_env ''d'' ''c'' (one_store demo_busy_machine)) in
    resolveDeviceId s' ''d'' = ''c'' \<and> getTask s' demo_address \<noteq> None"
proof -
  have pl: "plain ''c''" by (simp add: plain_def)
  have root: "alias_root (stDeviceAliases (one_store demo_busy_machine)) ''d''" by (simp add: alias_root_def)
  have ne: "resolveDeviceId (one_store demo_busy_machine) ''c'' \<noteq> []" by simp
  from registered_alias_keeps_tasks [OF demo_busy_sound pl root ne, of demo_store_env "''d''"]
  show ?thesis by (simp add: Let_def demo_busy_task)
qed

subsection \<open>The end of a task\<close>

text \<open>A task that was running and, after any one event, is neither running nor queued while another task
  is open, is marked unread; while its goal is still active the mark is put off instead.\<close>

theorem background_end_is_unread:
  assumes "sound s" and "plain (adDeviceId a)" and "stCurrentTaskKey s \<noteq> Some (store_key s a)"
    and "getTask s a = Some t" and "ldIsRunning (snDerived t)"
    and "getTask (store_dispatch e a ev s) a = Some t'" and "is_quiet t'"
  shows "if snGoalStatus t' = Some GActive then store_key s a \<in> set (stDeferredGoal (store_dispatch e a ev s))
    else snUnread t'"
proof -
  have ok: "store_ok s" using assms(1) by (simp add: sound_def)
  obtain s' c where red: "reduceMachine e a ev s = (s', c)" by fastforce
  have "getTask (store_dispatch e a ev s) a = getTask s' a"
    "stDeferredGoal (store_dispatch e a ev s) = stDeferredGoal s'"
    by (simp_all add: store_dispatch_def red publish_if_def getTask_def store_machine_def store_key_def
        canonicalizeAddress_def resolveDeviceId_def)
  with background_end [OF ok assms(2) red assms(4,5,3) _ assms(7)] assms(6) show ?thesis by simp
qed

text \<open>What an event other than a snapshot makes of the task it is for.\<close>

lemma dispatched_task:
  assumes "sound s" and "plain (adDeviceId a)" and "store_machine s a = Some m" and "\<not> is_snapshot ev"
  obtains m' where "marked (fst (rm_dispatch m ev)) m'" and "getTask (store_dispatch e a ev s) a = Some (getSnapshot m')"
proof -
  have ok: "store_ok s" using assms(1) by (simp add: sound_def)
  obtain s' c where red: "reduceMachine e a ev s = (s', c)" by fastforce
  have ev: "canonical_event b ev = ev" for b
    using assms(4) by (cases ev) (simp_all add: canonical_event_def is_snapshot_def)
  have get: "getTask (store_dispatch e a ev s) a = getTask s' a"
    by (simp add: store_dispatch_def red publish_if_def getTask_def store_machine_def store_key_def
        canonicalizeAddress_def resolveDeviceId_def)
  show thesis using ok assms(2) red
  proof (cases rule: reduceMachine_cases)
    case (skip s1 k m)
    with assms(4) ev show ?thesis by (cases ev) (simp_all add: skips_event_def is_snapshot_def)
  next
    case (run s1 k m0 s2 m2 c2)
    have "m0 = m"
      by (cases rule: ensureMachine_cases [OF run(1)]) (use assms(3) in \<open>simp_all add: store_machine_def\<close>)
    with settle_unread_marked(1) [OF run(4)] ev have "marked (fst (rm_dispatch m ev)) m2" by simp
    moreover have "getTask s' a = Some (getSnapshot m2)" using reduce_getTask [OF ok assms(2) red] run(2,5) by simp
    ultimately show ?thesis using that get by simp
  qed
qed

theorem background_end_is_unread_witness:
  "snUnread (the (getTask (store_dispatch demo_store_env demo_address ExecutorSettled (one_store demo_busy_machine))
     demo_address))"
proof -
  let ?s = "one_store demo_busy_machine"
  have "store_machine ?s demo_address = Some demo_busy_machine" by (simp add: store_machine_def demo_busy_address)
  from dispatched_task [OF demo_busy_sound demo_plain this, of ExecutorSettled demo_store_env]
  obtain m' where mk: "marked (fst (rm_dispatch demo_busy_machine ExecutorSettled)) m'"
    and t': "getTask (store_dispatch demo_store_env demo_address ExecutorSettled ?s) demo_address = Some (getSnapshot m')"
    by (auto simp: is_snapshot_def)
  have "is_quiet (getSnapshot (fst (rm_dispatch demo_busy_machine ExecutorSettled)))"
    "snGoalStatus (getSnapshot (fst (rm_dispatch demo_busy_machine ExecutorSettled))) = None"
    "ldIsRunning (snDerived (getSnapshot demo_busy_machine))" by code_simp+
  with background_end_is_unread [OF demo_busy_sound demo_plain _ demo_busy_task _ t'] marked_snapshot [OF mk]
  show ?thesis by (simp add: t')
qed

text \<open>A mark that was put off is made as soon as the task's goal is no longer active: an event, other than
  a snapshot, after which the task is neither running nor queued and its goal not active marks it unread
  and drops the deferral, unless the task is open.\<close>

theorem deferred_end_is_unread:
  assumes "sound s" and "plain (adDeviceId a)" and "stCurrentTaskKey s \<noteq> Some (store_key s a)"
    and "\<not> is_snapshot ev" and "store_key s a \<in> set (stDeferredGoal s)"
    and "getTask (store_dispatch e a ev s) a = Some t'" and "is_quiet t'" and "snGoalStatus t' \<noteq> Some GActive"
  shows "snUnread t' \<and> store_key s a \<notin> set (stDeferredGoal (store_dispatch e a ev s))"
proof -
  have ok: "store_ok s" using assms(1) by (simp add: sound_def)
  obtain s' c where red: "reduceMachine e a ev s = (s', c)" by fastforce
  have "getTask (store_dispatch e a ev s) a = getTask s' a"
    "stDeferredGoal (store_dispatch e a ev s) = stDeferredGoal s'"
    by (simp_all add: store_dispatch_def red publish_if_def getTask_def store_machine_def store_key_def
        canonicalizeAddress_def resolveDeviceId_def)
  with deferred_end [OF ok assms(2) red assms(4,5,3) _ assms(7,8)] assms(6) show ?thesis by simp
qed

subsection \<open>The open task\<close>


lemma demo_settled:
  "is_quiet (getSnapshot (fst (rm_dispatch demo_busy_machine ExecutorSettled)))"
  "snGoalStatus (getSnapshot (fst (rm_dispatch demo_busy_machine ExecutorSettled))) = None"
  by code_simp+

theorem deferred_end_is_unread_witness:
  "\<exists>s t'. store_key s demo_address \<in> set (stDeferredGoal s) \<and>
    getTask (store_dispatch demo_store_env demo_address ExecutorSettled s) demo_address = Some t' \<and> snUnread t'"
proof -
  define s where "s = (one_store demo_busy_machine)\<lparr>stDeferredGoal := [getRuntimeTaskLifecycleKey demo_address]\<rparr>"
  have s: "sound s" using demo_busy_sound by (simp add: s_def sound_def store_ok_def view_ok_def)
  have key: "store_key s demo_address = getRuntimeTaskLifecycleKey demo_address"
    using store_key_cong [of s "one_store demo_busy_machine"] by (simp add: s_def)
  have "store_machine s demo_address = Some demo_busy_machine"
    by (simp add: store_machine_def key) (simp add: s_def demo_busy_address)
  from dispatched_task [OF s demo_plain this, of ExecutorSettled demo_store_env]
  obtain m' where mk: "marked (fst (rm_dispatch demo_busy_machine ExecutorSettled)) m'"
    and t': "getTask (store_dispatch demo_store_env demo_address ExecutorSettled s) demo_address = Some (getSnapshot m')"
    by (auto simp: is_snapshot_def)
  have "store_key s demo_address \<in> set (stDeferredGoal s)" "stCurrentTaskKey s \<noteq> Some (store_key s demo_address)"
    by (simp_all add: key, simp_all add: s_def)
  with deferred_end_is_unread [OF s demo_plain _ _ _ t'] t' demo_settled marked_snapshot [OF mk]
  show ?thesis by (intro exI [of _ s] exI [of _ "getSnapshot m'"]) (simp add: is_snapshot_def)
qed

subsection \<open>Late reports\<close>

text \<open>A late report of an earlier turn changes nothing: while a later turn is streaming, a summary that
  names an earlier turn of the task as its last leaves the whole store as it is, whatever it says.\<close>

theorem earlier_turn_ignored:
  assumes "sound s" and "plain (adDeviceId a)" and "store_machine s a = Some m"
    and "lsTurnPhase (rmState m) = TpStreaming" and "lsTask (rmState m) \<noteq> None"
    and "lsActiveTurnId (rmState m) = Some current" and "earlier \<in> rmObservedTurnIds m" and "earlier \<noteq> current"
    and "tsExecutionState task = None" and "snapshot_turn_id task = Some earlier"
  shows "fst (syncRuntimeTask e a task None s) = s"
proof -
  have ok: "store_ok s" using assms(1) by (simp add: sound_def)
  let ?t = "normalizeRuntimeTaskSummary task"
  obtain s' c where red: "reduceMachine e a (ExecutorSnapshotReceived a ?t) s = (s', c)" by fastforce
  have "s' = s \<and> \<not> c" using ok assms(2) red
  proof (cases rule: reduceMachine_cases)
    case (skip s1 k m')
    then show ?thesis
      by (cases rule: ensureMachine_cases [OF skip(1)]) (use assms(3) in \<open>simp_all add: store_machine_def\<close>)
  next
    case (run s1 k m' s2 m2 c2)
    have "m' = m"
      by (cases rule: ensureMachine_cases [OF run(1)]) (use assms(3) in \<open>simp_all add: store_machine_def\<close>)
    moreover have "skips_prior_turn m ?t"
      using assms(4-10) by (simp add: skips_prior_turn_def confirms_accepted_send_def has_pending_send_def
          isPriorTurn_def snapshot_turn_id_def)
    ultimately show ?thesis using run(3) by (simp add: skips_event_def canonical_event_def)
  qed
  then show ?thesis by (simp add: syncRuntimeTask_def Let_def red publish_if_def)
qed

definition demo_streaming_machine :: runtime_machine where
  "demo_streaming_machine = rm_run (new_runtime_machine demo_address False)
     [ExecutorSnapshotReceived demo_address (emptyRuntimeTaskSummary demo_address), ExecutorStarted,
      TurnStarted (Some ''1''), TurnStarted (Some ''2'')]"

theorem earlier_turn_ignored_witness:
  "fst (syncRuntimeTask demo_store_env demo_address
     ((emptyRuntimeTaskSummary demo_address)\<lparr>tsRunning := Some False, tsRuntimeHandle := Some [(''lastTurnId'', JStr (to_units ''1''))]\<rparr>)
     None (one_store demo_streaming_machine)) = one_store demo_streaming_machine"
proof -
  let ?m = demo_streaming_machine
  have adr: "lsAddress (rmState ?m) = demo_address" by code_simp
  have state: "lsTurnPhase (rmState ?m) = TpStreaming" "lsActiveTurnId (rmState ?m) = Some ''2''"
    "''1'' \<in> rmObservedTurnIds ?m" "lsTask (rmState ?m) \<noteq> None" by code_simp+
  have "sound (one_store ?m)" by (rule one_store_sound) (simp add: adr)
  moreover have "store_machine (one_store ?m) demo_address = Some ?m" by (simp add: store_machine_def adr)
  ultimately show ?thesis
  proof (rule earlier_turn_ignored [OF _ demo_plain _ state(1) state(4) state(2) state(3)])
  qed (code_simp+)
qed

text \<open>A result computed from an outdated view is not applied: when the task has moved on since the
  expected snapshot was taken, \<open>syncRuntimeTask\<close> reports failure and leaves the store as it is; a report of
  success means that the task now runs exactly if the summary says so.\<close>

theorem outdated_result_rejected:
  "(runtimeTaskLifecycleTransitionChanged x (getTask s a) \<longrightarrow> syncRuntimeTask e a task (Some x) s = (s, False)) \<and>
   (let (s', applied) = syncRuntimeTask e a task expected s in
     applied \<and> tsRunning task = Some r \<longrightarrow> map_option snExecutionRunning (getTask s' a) = Some r)"
  by (auto simp: syncRuntimeTask_def Let_def)

subsection \<open>Losing the executors\<close>

text \<open>After the native executions are invalidated no task holds one; the addresses that are returned are
  those of the tasks that did, in order, and every other task, its marks and the open task stay as they were.\<close>

theorem invalidated_executions:
  "let (s', addresses) = invalidateNativeExecutions e s in
    addresses = map (\<lambda>(_, m). lsAddress (rmState m)) (filter (\<lambda>(_, m). native_state (rmState m) \<noteq> None) (stMachines s)) \<and>
    map fst (stMachines s') = map fst (stMachines s) \<and>
    (\<forall>(k, m) \<in> set (stMachines s'). native_state (rmState m) = None) \<and>
    (\<forall>(k, m) \<in> set (stMachines s). native_state (rmState m) = None \<longrightarrow> (k, m) \<in> set (stMachines s')) \<and>
    stUnread s' = stUnread s \<and> stCurrentTaskKey s' = stCurrentTaskKey s"
proof -
  have gone: "native_state (rmState (fst (rm_dispatch m ExecutorReplaced))) = None" for m
  proof (cases "reduceRuntimeTaskLifecycle (rmState m) ExecutorReplaced")
    case None
    then show ?thesis by (auto simp: reduceRuntimeTaskLifecycle_def)
  next
    case (Some s')
    then show ?thesis using reduce_native [OF Some] by (simp add: dispatch_rmState)
  qed
  then show ?thesis
    by (auto simp: invalidateNativeExecutions_def Let_def split: if_split_asm) force+
qed

subsection \<open>What is kept in the storage\<close>

text \<open>The keys of the tasks with an unread mark that is not hidden by their machine.\<close>

definition visible_unread :: "lifecycle_store \<Rightarrow> string list" where
  "visible_unread s = filter (\<lambda>key. case jm_get (stMachines s) key of
       None \<Rightarrow> True
     | Some machine \<Rightarrow> ldShouldShowUnread (snDerived (getSnapshot machine)))
     (map fst (filter (\<lambda>(_, state). tuUnread state) (stUnread s)))"

lemma persisted:
  assumes "seStorage e"
  shows "stPersistedUnread (publish e s) = serializeTaskKeys (visible_unread s)"
    and "stPersistedRunning (publish e s) = serializeTaskKeys (stPreviousRunning s)"
  using assms
  by (simp_all add: publish_def persistUnreadKeys_def persistRunningKeys_def Let_def visible_unread_def)

lemma serialize_length: "length (serializeTaskKeys keys) \<le> 200"
  by (simp add: serializeTaskKeys_def)

lemma serialize_short: "length keys \<le> 200 \<Longrightarrow> serializeTaskKeys keys = keys"
  by (simp add: serializeTaskKeys_def)

lemma visible_new: "visible_unread (new_store unreadKeys runningKeys) = unreadKeys"
  by (simp add: visible_unread_def new_store_def filter_map comp_def case_prod_unfold)

lemma unread_new:
  "opt_truthy tuUnread (jm_get (stUnread (new_store unreadKeys runningKeys)) k) \<longleftrightarrow> k \<in> set unreadKeys"
  by (induction unreadKeys) (auto simp: new_store_def)

text \<open>What is stored survives a reload: at most 200 keys are stored of either kind, the most recent ones, and
  all of them when there are no more; a new store that reads them has exactly those tasks unread, exactly those
  as having run, and stores the same again when it first publishes.\<close>

theorem reload_keeps_marks:
  assumes "seStorage e"
  shows "let p = publish e s; r = new_store (stPersistedUnread p) (stPersistedRunning p) in
    length (stPersistedUnread p) \<le> 200 \<and> length (stPersistedRunning p) \<le> 200 \<and>
    (stPersistedUnread p = visible_unread s \<or> length (visible_unread s) > 200) \<and>
    (\<exists>older. visible_unread s = older @ stPersistedUnread p) \<and>
    {k. opt_truthy tuUnread (jm_get (stUnread r) k)} = set (stPersistedUnread p) \<and>
    stPreviousRunning r = stPersistedRunning p \<and>
    stPersistedUnread (publish e r) = stPersistedUnread p \<and>
    stPersistedRunning (publish e r) = stPersistedRunning p"
proof -
  have older: "\<exists>older. keys = older @ serializeTaskKeys keys" for keys
    using append_take_drop_id [of "length keys - 200" keys] unfolding serializeTaskKeys_def by metis
  have again: "serializeTaskKeys (serializeTaskKeys keys) = serializeTaskKeys keys" for keys
    by (rule serialize_short [OF serialize_length])
  have running: "stPreviousRunning (new_store x y) = y" for x y by (simp add: new_store_def)
  show ?thesis
    unfolding Let_def persisted [OF assms] visible_new unread_new running again
    using older [of "visible_unread s"] serialize_length serialize_short [of "visible_unread s"]
    by (auto simp: not_less [symmetric] simp del: not_less)
qed

theorem reload_keeps_marks_witness:
  "stPersistedUnread (publish demo_store_env (new_store [''a'', ''b''] [])) = [''a'', ''b'']"
proof -
  have "seStorage demo_store_env" by (simp add: demo_store_env_def)
  from reload_keeps_marks [OF this, of "new_store [''a'', ''b''] []"]
  show ?thesis by (auto simp: Let_def visible_new)
qed

subsection \<open>A rename of the open task\<close>





subsection \<open>Runs of the properties above\<close>







theorem outdated_result_rejected_witness:
  "syncRuntimeTask demo_store_env demo_address (emptyRuntimeTaskSummary demo_address) (Some None)
     (one_store demo_busy_machine) = (one_store demo_busy_machine, False)"
proof -
  have "runtimeTaskLifecycleTransitionChanged None (getTask (one_store demo_busy_machine) demo_address)"
    by (simp add: runtimeTaskLifecycleTransitionChanged_def demo_busy_task)
  with outdated_result_rejected show ?thesis by blast
qed

theorem invalidated_executions_witness:
  "\<exists>m. stMachines (fst (invalidateNativeExecutions demo_store_env (one_store demo_running_machine))) =
      [(getRuntimeTaskLifecycleKey (lsAddress (rmState demo_running_machine)), m)] \<and> native_state (rmState m) = None"
proof -
  let ?r = "invalidateNativeExecutions demo_store_env (one_store demo_running_machine)"
  have "map fst (stMachines (fst ?r)) = [getRuntimeTaskLifecycleKey (lsAddress (rmState demo_running_machine))]"
    and gone: "\<forall>(k, m) \<in> set (stMachines (fst ?r)). native_state (rmState m) = None"
    using invalidated_executions [of demo_store_env "one_store demo_running_machine"] by (simp_all add: Let_def case_prod_unfold)
  then obtain m where "stMachines (fst ?r) = [(getRuntimeTaskLifecycleKey (lsAddress (rmState demo_running_machine)), m)]"
    by (cases "stMachines (fst ?r)") auto
  with gone show ?thesis by auto
qed

end
