(* ===== verification/OrderedEntries.thy ===== *)
theory OrderedEntries
  imports Prelude "HOL-Library.Sublist"
begin

text \<open>
  \<open>packages/chat-core/src/ordered-conversation-entries.ts\<close>: the entries of a snapshot that are missing
  from the local ones are inserted at the place their neighbours in the snapshot give. The code keeps a
  doubly linked list with an index of the first node of each id; here its nodes are in a heap. The list of
  entries it stands for, and insertion on that list, are the specification it refines.
\<close>

subsection \<open>The linked list\<close>

record 'a entry_node =
  nodeItem :: 'a
  nodePrevious :: "nat option"
  nodeNext :: "nat option"

record 'a entry_list =
  elNodes :: "'a entry_node list"
  elHead :: "nat option"
  elTail :: "nat option"
  elFirstById :: "(string, nat) jsmap"

definition set_next :: "nat option \<Rightarrow> nat option \<Rightarrow> 'a entry_node list \<Rightarrow> 'a entry_node list" where
  "set_next n target nodes = (case n of None \<Rightarrow> nodes | Some i \<Rightarrow> nodes[i := (nodes ! i)\<lparr>nodeNext := target\<rparr>])"

definition set_previous :: "nat option \<Rightarrow> nat option \<Rightarrow> 'a entry_node list \<Rightarrow> 'a entry_node list" where
  "set_previous n target nodes = (case n of None \<Rightarrow> nodes | Some i \<Rightarrow> nodes[i := (nodes ! i)\<lparr>nodePrevious := target\<rparr>])"

definition insertOrderedEntryNode ::
    "'a entry_list \<Rightarrow> 'a \<Rightarrow> nat option \<Rightarrow> nat option \<Rightarrow> 'a entry_list \<times> nat" where
  "insertOrderedEntryNode list item before after =
     (let nodes = elNodes list;
          previous = coalesce (Option.bind before (\<lambda>b. nodePrevious (nodes ! b))) after;
          successor = coalesce before (Option.bind after (\<lambda>a. nodeNext (nodes ! a)));
          node = length nodes;
          nodes1 = nodes @ [\<lparr>nodeItem = item, nodePrevious = previous, nodeNext = successor\<rparr>];
          nodes2 = set_next previous (Some node) nodes1;
          nodes3 = set_previous successor (Some node) nodes2
      in (list\<lparr>elNodes := nodes3,
            elHead := (if previous = None then Some node else elHead list),
            elTail := (if successor = None then Some node else elTail list)\<rparr>, node))"

definition orderedEntryList :: "('a \<Rightarrow> string) \<Rightarrow> 'a list \<Rightarrow> 'a entry_list" where
  "orderedEntryList key items = foldl (\<lambda>list item.
       let (list', node) = insertOrderedEntryNode list item None (elTail list)
       in if jm_get (elFirstById list') (key item) = None
          then list'\<lparr>elFirstById := jm_set (key item) node (elFirstById list')\<rparr> else list')
     \<lparr>elNodes = [], elHead = None, elTail = None, elFirstById = []\<rparr> items"

text \<open>For each entry of the snapshot the next one after it that was in the list from the start.\<close>

fun nextInitialEntryIds :: "('a \<Rightarrow> string) \<Rightarrow> 'a list \<Rightarrow> string list \<Rightarrow> string option list" where
  "nextInitialEntryIds key [] initialIds = []"
| "nextInitialEntryIds key [x] initialIds = [None]"
| "nextInitialEntryIds key (x # y # ys) initialIds =
     (let rest = nextInitialEntryIds key (y # ys) initialIds
      in (if key y \<noteq> [] \<and> key y \<in> set initialIds then Some (key y) else hd rest) # rest)"

text \<open>The loop over the snapshot, with the node of the entry before.\<close>

definition insert_missing ::
    "('a \<Rightarrow> string) \<Rightarrow> 'a entry_list \<times> nat option \<Rightarrow> 'a \<times> string option \<Rightarrow> 'a entry_list \<times> nat option" where
  "insert_missing key s entry =
     (let (list, previousSnapshotNode) = s; (item, nextInitialId) = entry
      in case jm_get (elFirstById list) (key item) of
           Some existing \<Rightarrow> (list, Some existing)
         | None \<Rightarrow>
             let nextNode = jm_get (elFirstById list) (the_or [] nextInitialId);
                 (list', node) = insertOrderedEntryNode list item nextNode
                   (if nextNode \<noteq> None then None else coalesce previousSnapshotNode (elTail list))
             in (list'\<lparr>elFirstById := jm_set (key item) node (elFirstById list')\<rparr>, Some node))"

text \<open>The walk along the next pointers; it is partial, as a loop along pointers can be.\<close>

partial_function (option) orderedEntriesFromList :: "'a entry_node list \<Rightarrow> nat option \<Rightarrow> 'a list option" where
  "orderedEntriesFromList nodes node = (case node of
       None \<Rightarrow> Some []
     | Some i \<Rightarrow> Option.bind (orderedEntriesFromList nodes (nodeNext (nodes ! i)))
         (\<lambda>items. Some (nodeItem (nodes ! i) # items)))"

definition insertMissingOrderedEntries :: "('a \<Rightarrow> string) \<Rightarrow> 'a list \<Rightarrow> 'a list \<Rightarrow> 'a list option" where
  "insertMissingOrderedEntries key localItems snapshotItems =
     (let list = orderedEntryList key localItems;
          initialIds = map fst (elFirstById list);
          nextInitialId = nextInitialEntryIds key snapshotItems initialIds;
          result = fst (foldl (insert_missing key) (list, None) (zip snapshotItems nextInitialId))
      in orderedEntriesFromList (elNodes result) (elHead result))"

subsection \<open>The specification\<close>

definition insert_before :: "('a \<Rightarrow> string) \<Rightarrow> string \<Rightarrow> 'a \<Rightarrow> 'a list \<Rightarrow> 'a list" where
  "insert_before key i x xs = takeWhile (\<lambda>y. key y \<noteq> i) xs @ x # dropWhile (\<lambda>y. key y \<noteq> i) xs"

definition insert_after :: "('a \<Rightarrow> string) \<Rightarrow> string \<Rightarrow> 'a \<Rightarrow> 'a list \<Rightarrow> 'a list" where
  "insert_after key i x xs = (case dropWhile (\<lambda>y. key y \<noteq> i) xs of
       [] \<Rightarrow> xs @ [x]
     | y # ys \<Rightarrow> takeWhile (\<lambda>y. key y \<noteq> i) xs @ y # x # ys)"

fun spec_insert ::
    "('a \<Rightarrow> string) \<Rightarrow> 'a list \<times> string option \<Rightarrow> 'a \<times> string option \<Rightarrow> 'a list \<times> string option" where
  "spec_insert key (xs, previous) (x, successor) =
     (if key x \<in> key ` set xs then (xs, Some (key x))
      else (if the_or [] successor \<in> key ` set xs then insert_before key (the_or [] successor) x xs
            else case previous of Some p \<Rightarrow> insert_after key p x xs | None \<Rightarrow> xs @ [x],
            Some (key x)))"

definition spec_entries :: "('a \<Rightarrow> string) \<Rightarrow> 'a list \<Rightarrow> 'a list \<Rightarrow> 'a list" where
  "spec_entries key xs ys =
     fst (foldl (spec_insert key) (xs, None) (zip ys (nextInitialEntryIds key ys (map key xs))))"

subsection \<open>Segments of the heap\<close>

fun seg :: "'a entry_node list \<Rightarrow> nat option \<Rightarrow> nat list \<Rightarrow> nat option \<Rightarrow> bool" where
  "seg nodes p [] q = True"
| "seg nodes p (n # ns) q = (n < length nodes \<and> nodePrevious (nodes ! n) = p \<and>
     nodeNext (nodes ! n) = (case ns of [] \<Rightarrow> q | m # _ \<Rightarrow> Some m) \<and> seg nodes (Some n) ns q)"

definition first_or :: "nat list \<Rightarrow> nat option \<Rightarrow> nat option" where
  "first_or ns q = (case ns of [] \<Rightarrow> q | n # _ \<Rightarrow> Some n)"

definition last_or :: "nat list \<Rightarrow> nat option \<Rightarrow> nat option" where
  "last_or ns p = (if ns = [] then p else Some (last ns))"

lemma first_or_simps [simp]: "first_or [] q = q" "first_or (n # ns) q = Some n"
  by (simp_all add: first_or_def)

lemma last_or_simps [simp]: "last_or [] p = p" "last_or (ns @ [n]) p = Some n"
  "last_or (n # ns) p = last_or ns (Some n)"
  by (simp_all add: last_or_def)

lemma seg_append: "seg nodes p (as @ bs) q \<longleftrightarrow> seg nodes p as (first_or bs q) \<and> seg nodes (last_or as p) bs q"
proof (induction as arbitrary: p)
  case (Cons a as)
  then show ?case by (cases as; cases bs) auto
qed simp

lemma seg_bound: "seg nodes p ns q \<Longrightarrow> set ns \<subseteq> {..<length nodes}"
  by (induction ns arbitrary: p) auto

lemma seg_frame:
  "seg nodes p ns q \<Longrightarrow> length nodes \<le> length nodes' \<Longrightarrow>
   \<forall>n \<in> set ns. nodePrevious (nodes' ! n) = nodePrevious (nodes ! n) \<and> nodeNext (nodes' ! n) = nodeNext (nodes ! n) \<Longrightarrow>
   seg nodes' p ns q"
  by (induction ns arbitrary: p) auto

lemma seg_walk: "seg nodes p ns None \<Longrightarrow> orderedEntriesFromList nodes (first_or ns None) = Some (map (\<lambda>n. nodeItem (nodes ! n)) ns)"
proof (induction ns arbitrary: p)
  case Nil
  show ?case by (simp add: orderedEntriesFromList.simps)
next
  case (Cons n ns)
  then have "orderedEntriesFromList nodes (nodeNext (nodes ! n)) = Some (map (\<lambda>n. nodeItem (nodes ! n)) ns)"
    by (cases ns) (auto simp: first_or_def orderedEntriesFromList.simps)
  then show ?case by (subst orderedEntriesFromList.simps) simp
qed

lemma nth_old [simp]: "n < length xs \<Longrightarrow> (xs @ [x]) ! n = xs ! n"
  by (simp add: nth_append)

lemma set_next_length [simp]: "length (set_next i t nodes) = length nodes"
  by (cases i) (simp_all add: set_next_def)

lemma set_next_other [simp]:
  "nodeItem (set_next i t nodes ! n) = nodeItem (nodes ! n)" "nodePrevious (set_next i t nodes ! n) = nodePrevious (nodes ! n)"
proof -
  have "nodeItem (nodes[j := (nodes ! j)\<lparr>nodeNext := t\<rparr>] ! n) = nodeItem (nodes ! n) \<and>
    nodePrevious (nodes[j := (nodes ! j)\<lparr>nodeNext := t\<rparr>] ! n) = nodePrevious (nodes ! n)" for j
    by (cases "j = n"; cases "n < length nodes") (simp_all add: not_less list_update_beyond)
  then show "nodeItem (set_next i t nodes ! n) = nodeItem (nodes ! n)" "nodePrevious (set_next i t nodes ! n) = nodePrevious (nodes ! n)"
    by (cases i; simp add: set_next_def)+
qed

lemma set_next_same [simp]: "n < length nodes \<Longrightarrow> nodeNext (set_next (Some n) t nodes ! n) = t"
  by (simp add: set_next_def)

lemma set_next_neq: "i \<noteq> Some n \<Longrightarrow> nodeNext (set_next i t nodes ! n) = nodeNext (nodes ! n)"
  by (cases i) (simp_all add: set_next_def nth_list_update_neq)

lemma set_previous_length [simp]: "length (set_previous i t nodes) = length nodes"
  by (cases i) (simp_all add: set_previous_def)

lemma set_previous_other [simp]:
  "nodeItem (set_previous i t nodes ! n) = nodeItem (nodes ! n)" "nodeNext (set_previous i t nodes ! n) = nodeNext (nodes ! n)"
proof -
  have "nodeItem (nodes[j := (nodes ! j)\<lparr>nodePrevious := t\<rparr>] ! n) = nodeItem (nodes ! n) \<and>
    nodeNext (nodes[j := (nodes ! j)\<lparr>nodePrevious := t\<rparr>] ! n) = nodeNext (nodes ! n)" for j
    by (cases "j = n"; cases "n < length nodes") (simp_all add: not_less list_update_beyond)
  then show "nodeItem (set_previous i t nodes ! n) = nodeItem (nodes ! n)" "nodeNext (set_previous i t nodes ! n) = nodeNext (nodes ! n)"
    by (cases i; simp add: set_previous_def)+
qed

lemma set_previous_same [simp]: "n < length nodes \<Longrightarrow> nodePrevious (set_previous (Some n) t nodes ! n) = t"
  by (simp add: set_previous_def)

lemma set_previous_neq: "i \<noteq> Some n \<Longrightarrow> nodePrevious (set_previous i t nodes ! n) = nodePrevious (nodes ! n)"
  by (cases i) (simp_all add: set_previous_def nth_list_update_neq)

subsection \<open>One insertion\<close>

definition linked :: "'a entry_list \<Rightarrow> nat list \<Rightarrow> bool" where
  "linked l ns \<longleftrightarrow> distinct ns \<and> seg (elNodes l) None ns None \<and> elHead l = first_or ns None \<and> elTail l = last_or ns None"

definition items_of :: "'a entry_list \<Rightarrow> nat list \<Rightarrow> 'a list" where
  "items_of l ns = map (\<lambda>n. nodeItem (elNodes l ! n)) ns"

lemma linked_bound: "linked l ns \<Longrightarrow> n \<in> set ns \<Longrightarrow> n < length (elNodes l)"
  by (auto simp: linked_def dest: seg_bound)

lemma seg_set_next:
  assumes "distinct as" and "seg nodes p as q"
  shows "seg (set_next (last_or as None) t nodes) p as (if as = [] then q else t)"
proof (cases as rule: rev_cases)
  case (snoc xs x)
  with assms have x: "x \<notin> set xs" "seg nodes p xs (Some x)" "seg nodes (last_or xs p) [x] q"
    by (simp_all add: seg_append)
  have "seg (set_next (Some x) t nodes) p xs (Some x)"
    by (rule seg_frame [OF x(2)]) (use x(1) in \<open>auto intro!: set_next_neq\<close>)
  with x(3) snoc show ?thesis by (simp add: seg_append)
qed simp

lemma seg_set_previous:
  assumes "distinct bs" and "seg nodes p bs q"
  shows "seg (set_previous (first_or bs None) t nodes) (if bs = [] then p else t) bs q"
proof (cases bs)
  case (Cons x xs)
  with assms have x: "x \<notin> set xs" "x < length nodes" "seg nodes (Some x) xs q"
    "nodeNext (nodes ! x) = first_or xs q"
    by (simp_all add: first_or_def)
  have "seg (set_previous (Some x) t nodes) (Some x) xs q"
    by (rule seg_frame [OF x(3)]) (use x(1) in \<open>auto intro!: set_previous_neq\<close>)
  with x Cons show ?thesis by (simp add: first_or_def)
qed simp

lemma insert_node:
  assumes l: "linked l (as @ bs)"
    and previous: "coalesce (Option.bind before (\<lambda>b. nodePrevious (elNodes l ! b))) after = last_or as None"
    and successor: "coalesce before (Option.bind after (\<lambda>a. nodeNext (elNodes l ! a))) = first_or bs None"
    and result: "insertOrderedEntryNode l x before after = (l', n)"
  shows "linked l' (as @ n # bs)" and "items_of l' (as @ n # bs) = items_of l as @ x # items_of l bs"
    and "n \<notin> set (as @ bs)" and "elFirstById l' = elFirstById l"
    and "\<forall>m \<in> set (as @ bs). nodeItem (elNodes l' ! m) = nodeItem (elNodes l ! m)" and "nodeItem (elNodes l' ! n) = x"
proof -
  let ?nodes = "elNodes l @ [\<lparr>nodeItem = x, nodePrevious = last_or as None, nodeNext = first_or bs None\<rparr>]"
  let ?n = "length (elNodes l)"
  have n: "n = ?n" and nodes: "elNodes l' = set_previous (first_or bs None) (Some ?n) (set_next (last_or as None) (Some ?n) ?nodes)"
    and ends: "elHead l' = (if as = [] then Some ?n else elHead l)" "elTail l' = (if bs = [] then Some ?n else elTail l)"
    and ids: "elFirstById l' = elFirstById l"
    using result unfolding insertOrderedEntryNode_def Let_def previous successor
    by (auto simp: last_or_def first_or_def split: list.splits)
  have bound: "m < ?n" if "m \<in> set (as @ bs)" for m using linked_bound [OF l that] .
  then have fresh: "?n \<notin> set (as @ bs)" by blast
  have d: "distinct as" "distinct bs" "set as \<inter> set bs = {}" and s: "seg (elNodes l) None as (first_or bs None)"
    "seg (elNodes l) (last_or as None) bs None"
    using l by (simp_all add: linked_def seg_append)
  have old: "seg ?nodes None as (first_or bs None)" "seg ?nodes (last_or as None) bs None"
    by (rule seg_frame [OF s(1)], use bound in auto) (rule seg_frame [OF s(2)], use bound in auto)
  let ?next = "set_next (last_or as None) (Some ?n) ?nodes"
  have last: "last_or as None \<noteq> Some m" if "m \<in> insert ?n (set bs)" for m
    using that d(3) fresh by (cases as rule: rev_cases) auto
  have first: "first_or bs None \<noteq> Some m" if "m \<in> insert ?n (set as)" for m
    using that d(3) fresh by (cases bs) auto
  have as1: "seg ?next None as (Some ?n)"
    using seg_set_next [OF d(1) old(1), of "Some ?n"] by (cases "as = []") simp_all
  have bs1: "seg ?next (last_or as None) bs None"
    by (rule seg_frame [OF old(2)]) (use last in \<open>auto simp: set_next_neq\<close>)
  have "seg (elNodes l') None as (Some ?n)"
    unfolding nodes by (rule seg_frame [OF as1]) (use first in \<open>auto simp: set_previous_neq\<close>)
  moreover have "seg (elNodes l') (Some ?n) bs None"
    using seg_set_previous [OF d(2) bs1, of "Some ?n"] unfolding nodes by (cases "bs = []") simp_all
  moreover have "nodePrevious (elNodes l' ! ?n) = last_or as None" "nodeNext (elNodes l' ! ?n) = first_or bs None"
    using first [of ?n] last [of ?n] unfolding nodes by (simp_all add: set_next_neq set_previous_neq)
  moreover have "length (elNodes l') = Suc ?n" unfolding nodes by simp
  ultimately have "seg (elNodes l') None (as @ n # bs) None"
    unfolding n by (simp add: seg_append first_or_def split: list.split)
  then show "linked l' (as @ n # bs)"
    using l ends fresh d n by (auto simp: linked_def last_or_def first_or_def split: list.splits)
  have item: "nodeItem (elNodes l' ! m) = nodeItem (?nodes ! m)" for m unfolding nodes by simp
  show "\<forall>m \<in> set (as @ bs). nodeItem (elNodes l' ! m) = nodeItem (elNodes l ! m)" using bound by (auto simp: item)
  moreover show "nodeItem (elNodes l' ! n) = x" by (simp add: item n)
  ultimately show "items_of l' (as @ n # bs) = items_of l as @ x # items_of l bs" by (simp add: items_of_def)
  show "n \<notin> set (as @ bs)" "elFirstById l' = elFirstById l" using fresh n ids by simp_all
qed

subsection \<open>The index\<close>

definition indexed :: "('a \<Rightarrow> string) \<Rightarrow> 'a entry_list \<Rightarrow> nat list \<Rightarrow> bool" where
  "indexed key l ns \<longleftrightarrow> (\<forall>i. jm_get (elFirstById l) i = List.find (\<lambda>n. key (nodeItem (elNodes l ! n)) = i) ns)"

definition represents :: "('a \<Rightarrow> string) \<Rightarrow> 'a entry_list \<Rightarrow> nat list \<Rightarrow> bool" where
  "represents key l ns \<longleftrightarrow> linked l ns \<and> indexed key l ns"

lemma find_append: "List.find P (xs @ ys) = (case List.find P xs of None \<Rightarrow> List.find P ys | Some x \<Rightarrow> Some x)"
  by (induction xs) auto

lemma find_cong': "(\<And>x. x \<in> set xs \<Longrightarrow> P x = Q x) \<Longrightarrow> List.find P xs = List.find Q xs"
  by (induction xs) auto

lemma find_none: "List.find P xs = None \<longleftrightarrow> (\<forall>x \<in> set xs. \<not> P x)"
  by (induction xs) auto

lemma find_parts:
  assumes "List.find P xs = Some x"
  obtains ys where "xs = takeWhile (\<lambda>y. \<not> P y) xs @ x # ys" and "dropWhile (\<lambda>y. \<not> P y) xs = x # ys" and "P x"
proof -
  have "dropWhile (Not \<circ> P) xs = x # tl (dropWhile (Not \<circ> P) xs)"
    using assms by (simp add: find_dropWhile split: list.splits)
  then have d: "dropWhile (\<lambda>y. \<not> P y) xs = x # tl (dropWhile (\<lambda>y. \<not> P y) xs)" by (simp add: comp_def)
  moreover have "P x" using assms by (induction xs) (auto split: if_split_asm)
  ultimately show thesis using that takeWhile_dropWhile_id [of "\<lambda>y. \<not> P y" xs] by metis
qed

lemma indexed_known: "indexed key l ns \<Longrightarrow> jm_get (elFirstById l) i = None \<longleftrightarrow> i \<notin> key ` set (items_of l ns)"
  by (auto simp: indexed_def find_none items_of_def)

lemma items_of_parts:
  "takeWhile (\<lambda>y. key y \<noteq> i) (items_of l ns) = items_of l (takeWhile (\<lambda>n. key (nodeItem (elNodes l ! n)) \<noteq> i) ns)"
  "dropWhile (\<lambda>y. key y \<noteq> i) (items_of l ns) = items_of l (dropWhile (\<lambda>n. key (nodeItem (elNodes l ! n)) \<noteq> i) ns)"
  by (simp_all add: items_of_def takeWhile_map dropWhile_map comp_def)

text \<open>An inserted node with a new id keeps the index right.\<close>

lemma insert_new:
  assumes rep: "represents key l (as @ bs)" and new: "jm_get (elFirstById l) (key x) = None"
    and previous: "coalesce (Option.bind before (\<lambda>b. nodePrevious (elNodes l ! b))) after = last_or as None"
    and successor: "coalesce before (Option.bind after (\<lambda>a. nodeNext (elNodes l ! a))) = first_or bs None"
    and result: "insertOrderedEntryNode l x before after = (l', n)"
  defines "l'' \<equiv> l'\<lparr>elFirstById := jm_set (key x) n (elFirstById l')\<rparr>"
  shows "represents key l'' (as @ n # bs)" and "items_of l'' (as @ n # bs) = items_of l as @ x # items_of l bs"
    and "jm_get (elFirstById l'') (key x) = Some n"
proof -
  have l: "linked l (as @ bs)" and idx: "indexed key l (as @ bs)" using rep by (simp_all add: represents_def)
  note ins = insert_node [OF l previous successor result]
  have "jm_get (elFirstById l'') i = List.find (\<lambda>m. key (nodeItem (elNodes l'' ! m)) = i) (as @ n # bs)" for i
  proof (cases "i = key x")
    case True
    have "List.find (\<lambda>m. key (nodeItem (elNodes l ! m)) = key x) (as @ bs) = None"
      using idx new by (simp add: indexed_def)
    then have "List.find (\<lambda>m. key (nodeItem (elNodes l' ! m)) = key x) as = None"
      using ins(5) by (simp add: find_none)
    with True ins(6) show ?thesis by (simp add: l''_def find_append)
  next
    case False
    have "List.find (\<lambda>m. key (nodeItem (elNodes l' ! m)) = i) (as @ bs) =
      List.find (\<lambda>m. key (nodeItem (elNodes l ! m)) = i) (as @ bs)"
      by (rule find_cong') (use ins(5) in auto)
    with False ins(4,6) idx show ?thesis by (simp add: l''_def indexed_def find_append cong: option.case_cong)
  qed
  moreover have "linked l'' (as @ n # bs)" using ins(1) by (simp add: l''_def linked_def)
  ultimately show "represents key l'' (as @ n # bs)" by (simp add: represents_def indexed_def)
  show "items_of l'' (as @ n # bs) = items_of l as @ x # items_of l bs" using ins(2) by (simp add: l''_def items_of_def)
  show "jm_get (elFirstById l'') (key x) = Some n" by (simp add: l''_def)
qed

lemma last_next: "linked l ns \<Longrightarrow> Option.bind (elTail l) (\<lambda>a. nodeNext (elNodes l ! a)) = None"
  by (cases ns rule: rev_cases) (auto simp: linked_def seg_append)

lemma append_step:
  assumes rep: "represents key l ns"
  shows "\<exists>ns'. represents key (let (list', node) = insertOrderedEntryNode l x None (elTail l)
       in if jm_get (elFirstById list') (key x) = None
          then list'\<lparr>elFirstById := jm_set (key x) node (elFirstById list')\<rparr> else list') ns' \<and>
     items_of (let (list', node) = insertOrderedEntryNode l x None (elTail l)
       in if jm_get (elFirstById list') (key x) = None
          then list'\<lparr>elFirstById := jm_set (key x) node (elFirstById list')\<rparr> else list') ns' = items_of l ns @ [x]"
proof -
  obtain l' n where ins: "insertOrderedEntryNode l x None (elTail l) = (l', n)" by fastforce
  have l: "linked l (ns @ [])" and idx: "indexed key l ns" using rep by (simp_all add: represents_def)
  have places: "coalesce (Option.bind None (\<lambda>b. nodePrevious (elNodes l ! b))) (elTail l) = last_or ns None"
    "coalesce None (Option.bind (elTail l) (\<lambda>a. nodeNext (elNodes l ! a))) = first_or [] None"
    using l last_next [of l ns] by (simp_all add: linked_def)
  note node = insert_node [OF l places ins]
  show ?thesis
  proof (cases "jm_get (elFirstById l) (key x) = None")
    case True
    have rep': "represents key l (ns @ [])" using rep by simp
    from insert_new(1,2) [OF rep' True places ins] show ?thesis
      using True node(4) by (intro exI [of _ "ns @ [n]"]) (simp add: ins items_of_def)
  next
    case False
    have "List.find (\<lambda>m. key (nodeItem (elNodes l' ! m)) = i) ns = List.find (\<lambda>m. key (nodeItem (elNodes l ! m)) = i) ns" for i
      by (rule find_cong') (use node(5) in auto)
    moreover have "List.find (\<lambda>m. key (nodeItem (elNodes l ! m)) = key x) ns \<noteq> None"
      using False idx by (simp add: indexed_def)
    ultimately have "indexed key l' (ns @ [n])"
      using idx node(4,6) by (auto simp: indexed_def find_append split: option.split)
    moreover obtain y where "jm_get (elFirstById l) (key x) = Some y" using False by auto
    ultimately show ?thesis using node(1,2,4)
      by (intro exI [of _ "ns @ [n]"]) (simp add: ins represents_def items_of_def)
  qed
qed

lemma orderedEntryList_represents:
  "\<exists>ns. represents key (orderedEntryList key items) ns \<and> items_of (orderedEntryList key items) ns = items"
proof -
  define step where "step = (\<lambda>list item. let (list', node) = insertOrderedEntryNode list item None (elTail list)
       in if jm_get (elFirstById list') (key item) = None
          then list'\<lparr>elFirstById := jm_set (key item) node (elFirstById list')\<rparr> else list')"
  have "\<exists>ns'. represents key (foldl step l items) ns' \<and> items_of (foldl step l items) ns' = items_of l ns @ items"
    if "represents key l ns" for l ns
    using that
  proof (induction items arbitrary: l ns)
    case Nil
    then show ?case by auto
  next
    case (Cons x items)
    from append_step [OF Cons.prems, of x] obtain ns1 where "represents key (step l x) ns1"
      "items_of (step l x) ns1 = items_of l ns @ [x]" unfolding step_def by blast
    with Cons.IH [of "step l x" ns1] show ?case by simp
  qed
  moreover have "represents key \<lparr>elNodes = [], elHead = None, elTail = None, elFirstById = []\<rparr> []"
    by (simp add: represents_def linked_def indexed_def)
  ultimately show ?thesis unfolding orderedEntryList_def step_def [symmetric] by (fastforce simp: items_of_def)
qed

subsection \<open>The loop refines the specification\<close>

definition same_place :: "('a \<Rightarrow> string) \<Rightarrow> 'a entry_list \<Rightarrow> nat option \<Rightarrow> string option \<Rightarrow> bool" where
  "same_place key l node place = (case place of
       None \<Rightarrow> node = None
     | Some i \<Rightarrow> node = jm_get (elFirstById l) i \<and> node \<noteq> None)"

lemma missing_step:
  assumes rep: "represents key l ns" and place: "same_place key l p q"
    and step: "insert_missing key (l, p) (x, nxt) = (l', p')" and spec: "spec_insert key (items_of l ns, q) (x, nxt) = (xs', q')"
  shows "\<exists>ns'. represents key l' ns' \<and> xs' = items_of l' ns' \<and> same_place key l' p' q'"
proof -
  have l: "linked l ns" and idx: "indexed key l ns" using rep by (simp_all add: represents_def)
  note known = indexed_known [OF idx]
  show ?thesis
  proof (cases "jm_get (elFirstById l) (key x)")
    case (Some n)
    with known [of "key x"] have "key x \<in> key ` set (items_of l ns)" by auto
    with Some step spec have "l' = l" "p' = Some n" "xs' = items_of l ns" "q' = Some (key x)"
      by (simp_all add: insert_missing_def)
    with rep Some show ?thesis by (intro exI [of _ ns]) (simp add: same_place_def)
  next
    case None
    then have fresh: "key x \<notin> key ` set (items_of l ns)" using known by blast
    let ?i = "the_or [] nxt"
    obtain as bs before after where ns: "ns = as @ bs"
      and previous: "coalesce (Option.bind before (\<lambda>b. nodePrevious (elNodes l ! b))) after = last_or as None"
      and successor: "coalesce before (Option.bind after (\<lambda>a. nodeNext (elNodes l ! a))) = first_or bs None"
      and call: "before = jm_get (elFirstById l) ?i" "after = (if before \<noteq> None then None else coalesce p (elTail l))"
      and xs': "xs' = items_of l as @ x # items_of l bs"
    proof (cases "jm_get (elFirstById l) ?i")
      case (Some b)
      let ?P = "\<lambda>n. key (nodeItem (elNodes l ! n)) = ?i"
      have "List.find ?P ns = Some b" using Some idx by (simp add: indexed_def)
      then obtain bs where bs: "ns = takeWhile (\<lambda>n. \<not> ?P n) ns @ b # bs" "dropWhile (\<lambda>n. \<not> ?P n) ns = b # bs"
        by (rule find_parts)
      let ?as = "takeWhile (\<lambda>n. \<not> ?P n) ns"
      have "seg (elNodes l) None (?as @ b # bs) None" using l bs(1) unfolding linked_def by metis
      then have "nodePrevious (elNodes l ! b) = last_or ?as None" by (simp add: seg_append)
      moreover have "?i \<in> key ` set (items_of l ns)" using Some known [of ?i] by auto
      then have "xs' = items_of l ?as @ x # items_of l (b # bs)"
        using spec fresh bs(2) by (simp add: insert_before_def items_of_parts)
      ultimately show thesis using Some bs(1) by (intro that [of ?as "b # bs" "Some b" None]) simp_all
    next
      case None
      then have no: "?i \<notin> key ` set (items_of l ns)" using known by blast
      show thesis
      proof (cases q)
        case None
        with place have p: "p = None" by (simp add: same_place_def)
        show thesis
        proof (rule that [of ns "[]" None "elTail l"])
          show "coalesce None (Option.bind (elTail l) (\<lambda>a. nodeNext (elNodes l ! a))) = first_or [] None"
            using last_next [OF l] by simp
          show "xs' = items_of l ns @ x # items_of l []" using spec fresh no None by (simp add: items_of_def)
          show "None = jm_get (elFirstById l) ?i"
            using \<open>jm_get (elFirstById l) (the_or [] nxt) = None\<close> by simp
        qed (use l p in \<open>simp_all add: linked_def\<close>)
      next
        case (Some j)
        let ?P = "\<lambda>n. key (nodeItem (elNodes l ! n)) = j"
        obtain n where n: "p = Some n" "jm_get (elFirstById l) j = Some n" using place Some by (auto simp: same_place_def)
        then have "List.find ?P ns = Some n" using idx by (simp add: indexed_def)
        then obtain bs where bs: "ns = takeWhile (\<lambda>n. \<not> ?P n) ns @ n # bs" "dropWhile (\<lambda>n. \<not> ?P n) ns = n # bs"
          by (rule find_parts)
        let ?as = "takeWhile (\<lambda>n. \<not> ?P n) ns @ [n]"
        have ns: "ns = ?as @ bs" using bs(1) by simp
        then have "seg (elNodes l) None (?as @ bs) None" using l unfolding linked_def by metis
        then have "nodeNext (elNodes l ! n) = first_or bs None" by (simp add: seg_append first_or_def)
        moreover have "xs' = items_of l ?as @ x # items_of l bs"
        proof -
          have "dropWhile (\<lambda>y. key y \<noteq> j) (items_of l ns) = items_of l (n # bs)"
            "takeWhile (\<lambda>y. key y \<noteq> j) (items_of l ns) = items_of l (takeWhile (\<lambda>n. \<not> ?P n) ns)"
            using bs(2) by (simp_all add: items_of_parts)
          then show ?thesis using spec fresh no Some by (simp add: insert_after_def items_of_def)
        qed
        ultimately show thesis
          using ns n \<open>jm_get (elFirstById l) (the_or [] nxt) = None\<close>
          by (intro that [of ?as bs None "Some n"]) simp_all
      qed
    qed
    have rep': "represents key l (as @ bs)" using rep ns by simp
    obtain l1 node where ins: "insertOrderedEntryNode l x before after = (l1, node)" by fastforce
    note new = insert_new [OF rep' None previous successor ins]
    have "l' = l1\<lparr>elFirstById := jm_set (key x) node (elFirstById l1)\<rparr>" "p' = Some node"
      using step None call ins by (auto simp: insert_missing_def Let_def)
    moreover have "q' = Some (key x)" using spec fresh by simp
    ultimately show ?thesis
      using new xs' by (intro exI [of _ "as @ node # bs"]) (simp add: same_place_def)
  qed
qed

lemma nextInitial_set: "set is = set js \<Longrightarrow> nextInitialEntryIds key ys is = nextInitialEntryIds key ys js"
  by (induction key ys "is" rule: nextInitialEntryIds.induct) (simp_all add: Let_def)

lemma missing_run:
  assumes "represents key l ns" and "same_place key l p q"
  shows "\<exists>ns'. represents key (fst (foldl (insert_missing key) (l, p) entries)) ns' \<and>
    fst (foldl (spec_insert key) (items_of l ns, q) entries) = items_of (fst (foldl (insert_missing key) (l, p) entries)) ns'"
  using assms
proof (induction entries arbitrary: l p q ns)
  case Nil
  then show ?case by auto
next
  case (Cons entry entries)
  obtain x nxt where e: "entry = (x, nxt)" by fastforce
  obtain l' p' where l': "insert_missing key (l, p) (x, nxt) = (l', p')" by fastforce
  obtain xs' q' where s: "spec_insert key (items_of l ns, q) (x, nxt) = (xs', q')" by (metis surj_pair)
  from missing_step [OF Cons.prems l' s] obtain ns1 where "represents key l' ns1" "xs' = items_of l' ns1" "same_place key l' p' q'"
    by blast
  with Cons.IH [of l' ns1 p' q'] show ?case by (simp only: e foldl_Cons l' s)
qed

lemma represented_list:
  assumes "represents key l ns"
  shows "orderedEntriesFromList (elNodes l) (elHead l) = Some (items_of l ns)"
  using assms seg_walk [of "elNodes l" None ns] by (simp add: represents_def linked_def items_of_def)

lemma insertMissing_spec:
  "insertMissingOrderedEntries key localItems snapshotItems = Some (spec_entries key localItems snapshotItems)"
proof -
  let ?l = "orderedEntryList key localItems"
  obtain ns where ns: "represents key ?l ns" "items_of ?l ns = localItems"
    using orderedEntryList_represents by blast
  have "set (map fst (elFirstById ?l)) = set (map key localItems)"
  proof -
    have "i \<in> set (map fst (elFirstById ?l)) \<longleftrightarrow> jm_get (elFirstById ?l) i \<noteq> None" for i
      by (simp add: map_of_eq_None_iff)
    also have "jm_get (elFirstById ?l) i \<noteq> None \<longleftrightarrow> i \<in> set (map key localItems)" for i
      using indexed_known [of key ?l ns i] ns by (auto simp: represents_def)
    finally show ?thesis by blast
  qed
  from nextInitial_set [OF this]
  have start: "nextInitialEntryIds key snapshotItems (map fst (elFirstById ?l)) =
    nextInitialEntryIds key snapshotItems (map key localItems)" .
  define r where "r = fst (foldl (insert_missing key) (?l, None) (zip snapshotItems
    (nextInitialEntryIds key snapshotItems (map key localItems))))"
  have "same_place key ?l None None" by (simp add: same_place_def)
  from missing_run [OF ns(1) this, of "zip snapshotItems (nextInitialEntryIds key snapshotItems (map key localItems))"]
  obtain ns' where "represents key r ns'" "spec_entries key localItems snapshotItems = items_of r ns'"
    unfolding r_def [symmetric] ns(2) spec_entries_def [symmetric] by blast
  then have "orderedEntriesFromList (elNodes r) (elHead r) = Some (spec_entries key localItems snapshotItems)"
    by (simp add: represented_list)
  then show ?thesis by (simp add: insertMissingOrderedEntries_def Let_def start r_def)
qed

subsection \<open>What the merged order keeps\<close>

lemma insert_before_split:
  "insert_before key i x xs = takeWhile (\<lambda>y. key y \<noteq> i) xs @ [x] @ dropWhile (\<lambda>y. key y \<noteq> i) xs"
  by (simp add: insert_before_def)

lemma insert_after_split:
  "\<exists>as bs. xs = as @ bs \<and> insert_after key i x xs = as @ [x] @ bs"
proof (cases "dropWhile (\<lambda>y. key y \<noteq> i) xs")
  case Nil
  have "insert_after key i x xs = xs @ [x] @ []" unfolding insert_after_def Nil by simp
  then show ?thesis by blast
next
  case (Cons y ys)
  then have "xs = (takeWhile (\<lambda>y. key y \<noteq> i) xs @ [y]) @ ys"
    using takeWhile_dropWhile_id [of "\<lambda>y. key y \<noteq> i" xs] by simp
  moreover have "insert_after key i x xs = (takeWhile (\<lambda>y. key y \<noteq> i) xs @ [y]) @ [x] @ ys"
    using Cons by (simp add: insert_after_def)
  ultimately show ?thesis by metis
qed

text \<open>A step leaves the list as it is or puts one new entry somewhere in it.\<close>

lemma spec_insert_cases:
  assumes "spec_insert key (xs, q) (x, nxt) = (xs', q')"
  obtains (known) "key x \<in> key ` set xs" and "xs' = xs"
  | (new) as bs where "key x \<notin> key ` set xs" and "xs = as @ bs" and "xs' = as @ [x] @ bs"
proof (cases "key x \<in> key ` set xs")
  case True
  with assms show ?thesis by (intro known) simp_all
next
  case False
  have "\<exists>as bs. xs = as @ bs \<and> xs' = as @ [x] @ bs"
  proof (cases "the_or [] nxt \<in> key ` set xs")
    case True
    let ?P = "\<lambda>y. key y \<noteq> the_or [] nxt"
    show ?thesis
      by (intro exI [of _ "takeWhile ?P xs"] exI [of _ "dropWhile ?P xs"])
        (use assms False True in \<open>simp add: insert_before_split\<close>)
  next
    case no: False
    show ?thesis
    proof (cases q)
      case None
      then show ?thesis using assms False no by (intro exI [of _ xs] exI [of _ "[]"]) simp
    next
      case (Some i)
      then show ?thesis using assms False no insert_after_split [of xs key i x] by simp
    qed
  qed
  with False show ?thesis using new by blast
qed

lemma subseq_inserted: "subseq (as @ bs) (as @ [x] @ bs)"
  by (simp add: subseq_append' list_emb_Cons)

lemma spec_run:
  assumes "fst (foldl (spec_insert key) (xs, q) entries) = rs"
  shows "subseq xs rs" and "key ` set rs = key ` set xs \<union> key ` fst ` set entries"
    and "distinct (map key xs) \<Longrightarrow> distinct (map key rs)"
    and "set rs \<subseteq> set xs \<union> fst ` set entries"
    and "K \<subseteq> key ` set xs \<Longrightarrow> filter (\<lambda>y. key y \<in> K) rs = filter (\<lambda>y. key y \<in> K) xs"
proof -
  have "subseq xs rs \<and> key ` set rs = key ` set xs \<union> key ` fst ` set entries \<and>
    (distinct (map key xs) \<longrightarrow> distinct (map key rs)) \<and> set rs \<subseteq> set xs \<union> fst ` set entries \<and>
    (K \<subseteq> key ` set xs \<longrightarrow> filter (\<lambda>y. key y \<in> K) rs = filter (\<lambda>y. key y \<in> K) xs)"
    using assms
  proof (induction entries arbitrary: xs q)
    case Nil
    then show ?case by auto
  next
    case (Cons entry entries)
    obtain x nxt where e: "entry = (x, nxt)" by fastforce
    obtain xs' q' where s: "spec_insert key (xs, q) (x, nxt) = (xs', q')" by (metis surj_pair)
    have ih: "subseq xs' rs \<and> key ` set rs = key ` set xs' \<union> key ` fst ` set entries \<and>
      (distinct (map key xs') \<longrightarrow> distinct (map key rs)) \<and> set rs \<subseteq> set xs' \<union> fst ` set entries \<and>
      (K \<subseteq> key ` set xs' \<longrightarrow> filter (\<lambda>y. key y \<in> K) rs = filter (\<lambda>y. key y \<in> K) xs')"
      by (rule Cons.IH) (use Cons.prems in \<open>simp only: e foldl_Cons s\<close>)
    show ?case using s
    proof (cases rule: spec_insert_cases)
      case known
      with ih show ?thesis by (auto simp: e)
    next
      case (new as bs)
      have "subseq xs rs" using ih new(2,3) subseq_inserted subseq_order.order_trans by metis
      moreover have "filter (\<lambda>y. key y \<in> K) rs = filter (\<lambda>y. key y \<in> K) xs" if K: "K \<subseteq> key ` set xs"
      proof -
        have "key x \<notin> K" using K new(1) by blast
        then have "filter (\<lambda>y. key y \<in> K) xs' = filter (\<lambda>y. key y \<in> K) xs" by (simp add: new(2,3))
        moreover have "K \<subseteq> key ` set xs'" using K new(2,3) by auto
        ultimately show ?thesis using ih by simp
      qed
      moreover have "distinct (map key xs')" if "distinct (map key xs)" using that new by auto
      moreover have "set xs' = insert x (set xs)" using new by auto
      ultimately show ?thesis using ih e by auto
    qed
  qed
  then show "subseq xs rs" "key ` set rs = key ` set xs \<union> key ` fst ` set entries"
    "distinct (map key xs) \<Longrightarrow> distinct (map key rs)" "set rs \<subseteq> set xs \<union> fst ` set entries"
    "K \<subseteq> key ` set xs \<Longrightarrow> filter (\<lambda>y. key y \<in> K) rs = filter (\<lambda>y. key y \<in> K) xs" by (elim conjE; simp)+
qed

lemma nextInitial_length [simp]: "length (nextInitialEntryIds key ys is) = length ys"
  by (induction key ys "is" rule: nextInitialEntryIds.induct) (simp_all add: Let_def)

lemma spec_entries_run:
  "subseq xs (spec_entries key xs ys)" "key ` set (spec_entries key xs ys) = key ` set xs \<union> key ` set ys"
  "distinct (map key xs) \<Longrightarrow> distinct (map key (spec_entries key xs ys))"
  "set (spec_entries key xs ys) \<subseteq> set xs \<union> set ys"
  "filter (\<lambda>y. key y \<in> key ` set xs) (spec_entries key xs ys) = xs"
proof -
  let ?es = "zip ys (nextInitialEntryIds key ys (map key xs))"
  have "map fst ?es = ys" by simp
  then have es: "fst ` set ?es = set ys" by (metis set_map)
  note run = spec_run [of key xs None ?es "spec_entries key xs ys", folded spec_entries_def, OF refl, unfolded es]
  show "subseq xs (spec_entries key xs ys)" "key ` set (spec_entries key xs ys) = key ` set xs \<union> key ` set ys"
    "distinct (map key xs) \<Longrightarrow> distinct (map key (spec_entries key xs ys))"
    "set (spec_entries key xs ys) \<subseteq> set xs \<union> set ys" using run by blast+
  show "filter (\<lambda>y. key y \<in> key ` set xs) (spec_entries key xs ys) = xs"
    using run(5) [of "key ` set xs"] by (simp add: filter_id_conv)
qed

text \<open>The snapshot's order is kept as well, when the two orders agree on what they share.\<close>

lemma nextInitial_Cons:
  "nextInitialEntryIds key (x # ys) is =
     (case filter (\<lambda>i. i \<noteq> [] \<and> i \<in> set is) (map key ys) of [] \<Rightarrow> None | i # _ \<Rightarrow> Some i) #
     nextInitialEntryIds key ys is"
proof (induction ys arbitrary: x)
  case (Cons y ys)
  then show ?case by (simp add: Let_def)
qed simp

lemma subseq_Cons_split:
  assumes "subseq (x # xs) ys"
  obtains as bs where "ys = as @ x # bs" and "subseq xs bs"
  using assms list_emb_ConsD [of "(=)" x xs ys] by blast

lemma takeWhile_key:
  "map key (insert_before key i x xs) = takeWhile (\<lambda>k. k \<noteq> i) (map key xs) @ key x # dropWhile (\<lambda>k. k \<noteq> i) (map key xs)"
  by (simp add: insert_before_def takeWhile_map dropWhile_map comp_def)

lemma insert_after_key:
  assumes "map key xs = as @ i # bs" and "i \<notin> set as"
  shows "map key (insert_after key i x xs) = as @ [i, key x] @ bs"
proof -
  have "takeWhile (\<lambda>k. k \<noteq> i) (map key xs) = as" "dropWhile (\<lambda>k. k \<noteq> i) (map key xs) = i # bs"
    unfolding assms(1) using assms(2) by (induction as) auto
  then have "map key (takeWhile (\<lambda>y. key y \<noteq> i) xs) = as" "map key (dropWhile (\<lambda>y. key y \<noteq> i) xs) = i # bs"
    by (simp_all add: takeWhile_map dropWhile_map comp_def)
  then show ?thesis by (cases "dropWhile (\<lambda>y. key y \<noteq> i) xs") (auto simp: insert_after_def)
qed

lemma ordered_step:
  assumes "map key xs = A @ B" and "subseq P A" and "subseq F B"
    and "case q of None \<Rightarrow> True | Some i \<Rightarrow> \<exists>A'. A = A' @ [i]"
    and "distinct (map key xs)" and "[] \<notin> key ` set xs" and fresh: "key x \<notin> key ` set xs"
    and F: "nxt = (case F of [] \<Rightarrow> None | i # _ \<Rightarrow> Some i)"
    and step: "spec_insert key (xs, q) (x, nxt) = (xs', q')"
  obtains L R where "map key xs = L @ R" and "map key xs' = L @ [key x] @ R" and "subseq P L" and "subseq F R"
proof (cases F)
  case Nil
  then have nxt: "the_or [] nxt \<notin> key ` set xs" using F assms(6) by simp
  show thesis
  proof (cases q)
    case None
    then have "xs' = xs @ [x]" using step fresh nxt by auto
    then show thesis
      using Nil assms(1,2) by (intro that [of "A @ B" "[]"]) (simp_all add: list_emb_prefix)
  next
    case (Some i)
    then obtain A0 where A: "A = A0 @ [i]" using assms(4) by auto
    then have "map key xs = A0 @ i # B" "i \<notin> set A0" using assms(1,5) by auto
    then have "map key (insert_after key i x xs) = A0 @ [i, key x] @ B" by (rule insert_after_key)
    moreover have "xs' = insert_after key i x xs" using step fresh nxt Some by auto
    ultimately show thesis using Nil A assms(1,2) by (intro that [of A B]) simp_all
  qed
next
  case (Cons n F')
  obtain B1 B2 where B: "B = B1 @ n # B2" "subseq F' B2"
    using assms(3) Cons by (auto elim: subseq_Cons_split)
  have keys: "map key xs = (A @ B1) @ n # B2" using assms(1) B by simp
  have n: "n \<notin> set (A @ B1)" using assms(5) unfolding keys by auto
  have "n \<in> set (map key xs)" unfolding keys by simp
  then have "xs' = insert_before key n x xs" using step fresh F Cons by auto
  moreover have "takeWhile (\<lambda>k. k \<noteq> n) (map key xs) = A @ B1" "dropWhile (\<lambda>k. k \<noteq> n) (map key xs) = n # B2"
    unfolding keys using n by (auto simp: takeWhile_append dropWhile_append)
  ultimately have "map key xs' = (A @ B1) @ [key x] @ (n # B2)" by (simp add: takeWhile_key)
  then show thesis
    using keys Cons assms(2) B(2) by (intro that [of "A @ B1" "n # B2"]) (simp_all add: list_emb_prefix)
qed

lemma ordered_run:
  assumes "map key xs = A @ B" and "subseq P A" and "subseq (filter (\<lambda>i. i \<in> set is) (map key rs)) B"
    and "case q of None \<Rightarrow> True | Some i \<Rightarrow> \<exists>A'. A = A' @ [i]"
    and "distinct (map key xs)" and "distinct (map key rs)" and "set is \<subseteq> key ` set xs"
    and "\<forall>r \<in> set rs. key r \<in> key ` set xs \<longrightarrow> key r \<in> set is" and "[] \<notin> key ` set xs" and "[] \<notin> key ` set rs"
  shows "\<exists>A' B'. map key (fst (foldl (spec_insert key) (xs, q) (zip rs (nextInitialEntryIds key rs is)))) = A' @ B' \<and>
    subseq (P @ map key rs) A'"
  using assms
proof (induction rs arbitrary: xs q A B P)
  case Nil
  then show ?case by auto
next
  case (Cons x rs)
  let ?F = "filter (\<lambda>i. i \<in> set is) (map key rs)"
  let ?nxt = "case ?F of [] \<Rightarrow> None | i # _ \<Rightarrow> Some i"
  have F: "filter (\<lambda>i. i \<noteq> [] \<and> i \<in> set is) (map key rs) = ?F"
    by (rule filter_cong) (use Cons.prems(10) in \<open>auto simp: image_iff\<close>)
  obtain xs' q' where s: "spec_insert key (xs, q) (x, ?nxt) = (xs', q')" by (metis surj_pair)
  then have q': "q' = Some (key x)" by (auto split: if_split_asm)
  obtain L R where LR: "map key xs' = L @ [key x] @ R" "subseq P L" "subseq ?F R"
    and d: "distinct (map key xs')" and keys: "key ` set xs' = insert (key x) (key ` set xs)"
  proof (cases "key x \<in> set is")
    case True
    with Cons.prems(3) have "subseq (key x # ?F) B" by simp
    then obtain B1 B2 where B: "B = B1 @ key x # B2" "subseq ?F B2" by (rule subseq_Cons_split)
    have "key x \<in> key ` set xs" using True Cons.prems(7) by auto
    moreover from this have "xs' = xs" using s by simp
    ultimately show thesis
      using Cons.prems(1,2,5) B by (intro that [of "A @ B1" B2]) (auto intro: list_emb_prefix)
  next
    case False
    then have fresh: "key x \<notin> key ` set xs" using Cons.prems(8) by auto
    have "subseq ?F B" using Cons.prems(3) False by simp
    from ordered_step [OF Cons.prems(1,2) this Cons.prems(4,5,9) fresh refl s]
    obtain L R where LR: "map key xs = L @ R" "map key xs' = L @ [key x] @ R" "subseq P L" "subseq ?F R" .
    have "key x \<notin> set (L @ R)" using fresh LR(1) by (metis set_map)
    then have "distinct (map key xs')" using LR(1,2) Cons.prems(5) by auto
    have "set (map key xs') = insert (key x) (set (map key xs))" using LR(1,2) by auto
    then have "key ` set xs' = insert (key x) (key ` set xs)" by simp
    with \<open>distinct (map key xs')\<close> show thesis by (rule that [OF LR(2-4)])
  qed
  have "\<exists>A' B'. map key (fst (foldl (spec_insert key) (xs', q') (zip rs (nextInitialEntryIds key rs is)))) = A' @ B' \<and>
    subseq ((P @ [key x]) @ map key rs) A'"
  proof (rule Cons.IH)
    show "map key xs' = (L @ [key x]) @ R" using LR(1) by simp
    show "subseq (P @ [key x]) (L @ [key x])" using LR(2) by simp
    show "subseq ?F R" by (rule LR(3))
    show "\<forall>r \<in> set rs. key r \<in> key ` set xs' \<longrightarrow> key r \<in> set is"
    proof -
      have "key x \<notin> key ` set rs" using Cons.prems(6) by simp
      then show ?thesis using Cons.prems(8) unfolding keys by (metis image_eqI insert_iff list.set_intros(2))
    qed
  qed (use q' d keys Cons.prems in auto)
  moreover have "foldl (spec_insert key) (xs, q) (zip (x # rs) (nextInitialEntryIds key (x # rs) is)) =
    foldl (spec_insert key) (xs', q') (zip rs (nextInitialEntryIds key rs is))"
    unfolding nextInitial_Cons F zip_Cons_Cons foldl_Cons s ..
  ultimately show ?case by simp
qed

text \<open>The merge keeps both orders.\<close>

lemma spec_entries_order:
  assumes "distinct (map key xs)" and "distinct (map key ys)" and "[] \<notin> key ` set xs" and "[] \<notin> key ` set ys"
    and "subseq (filter (\<lambda>i. i \<in> key ` set xs) (map key ys)) (map key xs)"
  shows "subseq (map key ys) (map key (spec_entries key xs ys))"
proof -
  obtain A' B' where "map key (spec_entries key xs ys) = A' @ B'" "subseq ([] @ map key ys) A'"
    using ordered_run [of key xs "[]" "map key xs" "[]" "map key xs" ys None] assms
    by (auto simp: spec_entries_def)
  then show ?thesis by (simp add: list_emb_prefix)
qed


subsection \<open>Properties\<close>

text \<open>C9: The doubly linked list does what insertion into a list would: whatever the local entries and the
  snapshot are, repeated ids included, the walk along the next pointers ends and gives the list in which every
  missing entry of the snapshot stands before the next local one of the snapshot, else after the one before it,
  else at the end.\<close>

theorem linked_list_refines:
  "insertMissingOrderedEntries key localItems snapshotItems = Some (spec_entries key localItems snapshotItems)"
  by (rule insertMissing_spec)

text \<open>Merging loses no entry and reorders none: the local entries stay in their order, exactly the entries of
  both are there, each once, and when the two orders agree on the entries they share the snapshot's order is
  kept too.\<close>

theorem merge_keeps_both_orders:
  assumes "distinct (map key localItems)" and "distinct (map key snapshotItems)"
    and "[] \<notin> key ` set localItems" and "[] \<notin> key ` set snapshotItems"
    and "subseq (filter (\<lambda>i. i \<in> key ` set localItems) (map key snapshotItems)) (map key localItems)"
  shows "\<exists>merged. insertMissingOrderedEntries key localItems snapshotItems = Some merged \<and>
    subseq localItems merged \<and> subseq (map key snapshotItems) (map key merged) \<and>
    key ` set merged = key ` set localItems \<union> key ` set snapshotItems \<and> distinct (map key merged)"
  using spec_entries_run(1) [of localItems key snapshotItems] spec_entries_run(2,3) [of key localItems snapshotItems] spec_entries_order [OF assms] assms(1)
  by (auto simp: insertMissing_spec)

theorem merge_keeps_both_orders_witness:
  "\<exists>merged. insertMissingOrderedEntries id [''a'', ''d''] [''b'', ''d'', ''e''] = Some merged \<and>
    subseq [''a'', ''d''] merged \<and> subseq [''b'', ''d'', ''e''] merged"
  using merge_keeps_both_orders [of id "[''a'', ''d'']" "[''b'', ''d'', ''e'']"] by auto

lemma demo_merge: "insertMissingOrderedEntries id [''a'', ''d''] [''b'', ''d'', ''e''] = Some [''a'', ''b'', ''d'', ''e'']"
  unfolding insertMissing_spec by (simp add: spec_entries_def insert_before_def insert_after_def)

end
