(* ===== verification/FileChanges.thy ===== *)
theory FileChanges
  imports Prelude "HOL-Library.Monad_Syntax"
begin

text \<open>
  What files a turn has changed, from \<open>packages/chat-core/src/turn-file-changes.ts\<close> and the types of \<open>runtime.ts\<close>:
  reading a summary out of a value that was parsed from JSON, and merging the summaries of one turn.
\<close>

subsection \<open>Types\<close>

datatype TurnFileChangesStatus = FcActive | FcReverted | FcConflicted | FcArtifactMissing

datatype change_type = FcCreated | FcModified | FcDeleted | FcRenamed

text \<open>\<open>oldPath\<close> and \<open>revertedAt\<close> are \<open>undefined\<close>, \<open>null\<close> or a text.\<close>

record TurnFileChangeItem =
  fiOldPath :: "ustring option option"
  fiPath :: ustring
  fiChangeType :: change_type
  fiAdditions :: int
  fiDeletions :: int
  fiBinary :: bool

record TurnFileChangesSummary =
  fcStatus :: TurnFileChangesStatus
  fcArtifactId :: ustring
  fcDeviceId :: ustring
  fcWorkspacePath :: ustring
  fcFileCount :: int
  fcAdditions :: int
  fcDeletions :: int
  fcFiles :: "TurnFileChangeItem list"
  fcRevertedAt :: "ustring option option"
  fcDiff :: "ustring option"
  fcRevertible :: "bool option"

subsection \<open>Reading\<close>

definition STATUSES :: "(string \<times> TurnFileChangesStatus) list" where
  "STATUSES = [(''active'', FcActive), (''reverted'', FcReverted), (''conflicted'', FcConflicted),
     (''artifact_missing'', FcArtifactMissing)]"

definition CHANGE_TYPES :: "(string \<times> change_type) list" where
  "CHANGE_TYPES = [(''created'', FcCreated), (''modified'', FcModified), (''deleted'', FcDeleted), (''renamed'', FcRenamed)]"

definition named_value :: "(string \<times> 'a) list \<Rightarrow> json option \<Rightarrow> 'a option" where
  "named_value values v = (case v of
       Some (JStr s) \<Rightarrow> map_option snd (List.find (\<lambda>(name, _). units name = s) values)
     | _ \<Rightarrow> None)"

text \<open>\<open>isNonNegativeInteger\<close>, a text and a text that is not empty, as the value they establish.\<close>

definition non_negative :: "json option \<Rightarrow> int option" where
  "non_negative v = (case v of Some (JNum n) \<Rightarrow> if 0 \<le> n then Some n else None | _ \<Rightarrow> None)"

definition text_value :: "json option \<Rightarrow> ustring option" where
  "text_value v = (case v of Some (JStr s) \<Rightarrow> Some s | _ \<Rightarrow> None)"

definition filled_text :: "json option \<Rightarrow> ustring option" where
  "filled_text v = (case v of Some (JStr s) \<Rightarrow> if s \<noteq> [] then Some s else None | _ \<Rightarrow> None)"

definition bool_value :: "json option \<Rightarrow> bool option" where
  "bool_value v = (case v of Some (JBool b) \<Rightarrow> Some b | _ \<Rightarrow> None)"

text \<open>A text, \<open>null\<close> or \<open>undefined\<close>; anything else makes the whole value unreadable.\<close>

definition nullable_text :: "json option \<Rightarrow> ustring option option option" where
  "nullable_text v = (case v of
       None \<Rightarrow> Some None
     | Some JNull \<Rightarrow> Some (Some None)
     | Some (JStr s) \<Rightarrow> Some (Some (Some s))
     | _ \<Rightarrow> None)"

definition normalizeFile :: "json \<Rightarrow> TurnFileChangeItem option" where
  "normalizeFile value = do {
     path \<leftarrow> filled_text (json_field ''path'' value);
     changeType \<leftarrow> named_value CHANGE_TYPES (json_field ''change_type'' value);
     additions \<leftarrow> non_negative (json_field ''additions'' value);
     deletions \<leftarrow> non_negative (json_field ''deletions'' value);
     binary \<leftarrow> bool_value (json_field ''binary'' value);
     oldPath \<leftarrow> nullable_text (json_field ''old_path'' value);
     Some \<lparr>fiOldPath = oldPath, fiPath = path, fiChangeType = changeType, fiAdditions = additions,
       fiDeletions = deletions, fiBinary = binary\<rparr>
   }"

definition normalizeTurnFileChanges :: "json option \<Rightarrow> TurnFileChangesSummary option" where
  "normalizeTurnFileChanges v = do {
     value \<leftarrow> v;
     values \<leftarrow> (case json_field ''files'' value of Some (JArr xs) \<Rightarrow> Some xs | _ \<Rightarrow> None);
     _ \<leftarrow> (if json_field ''version'' value = Some (JNum 1) then Some () else None);
     status \<leftarrow> named_value STATUSES (json_field ''status'' value);
     artifactId \<leftarrow> filled_text (json_field ''artifact_id'' value);
     deviceId \<leftarrow> filled_text (json_field ''device_id'' value);
     workspacePath \<leftarrow> filled_text (json_field ''workspace_path'' value);
     fileCount \<leftarrow> non_negative (json_field ''file_count'' value);
     additions \<leftarrow> non_negative (json_field ''additions'' value);
     deletions \<leftarrow> non_negative (json_field ''deletions'' value);
     files \<leftarrow> those (map normalizeFile values);
     _ \<leftarrow> (if int (length files) = fileCount then Some () else None);
     revertedAt \<leftarrow> nullable_text (json_field ''reverted_at'' value);
     Some \<lparr>fcStatus = status, fcArtifactId = artifactId, fcDeviceId = deviceId, fcWorkspacePath = workspacePath,
       fcFileCount = fileCount, fcAdditions = additions, fcDeletions = deletions, fcFiles = files,
       fcRevertedAt = revertedAt, fcDiff = text_value (json_field ''diff'' value),
       fcRevertible = bool_value (json_field ''revertible'' value)\<rparr>
   }"

subsection \<open>Merging\<close>

definition mergeFileChange :: "TurnFileChangeItem \<Rightarrow> TurnFileChangeItem \<Rightarrow> TurnFileChangeItem" where
  "mergeFileChange existing following =
     \<lparr>fiOldPath = (case fiOldPath following of Some (Some p) \<Rightarrow> Some (Some p) | _ \<Rightarrow> fiOldPath existing),
      fiPath = fiPath following,
      fiChangeType = (if (fiChangeType existing = FcCreated \<or> fiChangeType existing = FcRenamed)
          \<and> fiChangeType following = FcModified then fiChangeType existing else fiChangeType following),
      fiAdditions = fiAdditions existing + fiAdditions following,
      fiDeletions = fiDeletions existing + fiDeletions following,
      fiBinary = fiBinary following\<rparr>"

definition add_file :: "(ustring, TurnFileChangeItem) jsmap \<Rightarrow> TurnFileChangeItem \<Rightarrow> (ustring, TurnFileChangeItem) jsmap" where
  "add_file files file = jm_set (fiPath file)
     (case jm_get files (fiPath file) of None \<Rightarrow> file | Some existing \<Rightarrow> mergeFileChange existing file) files"

definition merged_files :: "TurnFileChangesSummary list \<Rightarrow> TurnFileChangeItem list" where
  "merged_files summaries = map snd (foldl add_file [] (concat (map fcFiles summaries)))"

definition mergeTurnFileChanges :: "TurnFileChangesSummary list \<Rightarrow> TurnFileChangesSummary option" where
  "mergeTurnFileChanges summaries = (case summaries of
       [] \<Rightarrow> None
     | first # _ \<Rightarrow>
         let files = merged_files summaries; latest = last summaries;
             diffs = filter (\<lambda>d. unit_trim d \<noteq> []) (List.map_filter fcDiff summaries)
         in Some (first\<lparr>fcStatus := fcStatus latest, fcDeviceId := fcDeviceId latest,
              fcWorkspacePath := fcWorkspacePath latest, fcFileCount := int (length files),
              fcAdditions := sum_list (map fiAdditions files), fcDeletions := sum_list (map fiDeletions files),
              fcFiles := files, fcRevertedAt := fcRevertedAt latest, fcRevertible := fcRevertible latest,
              fcDiff := (if diffs \<noteq> [] then Some (join_units [10] diffs) else fcDiff first)\<rparr>))"


subsection \<open>What merging keeps\<close>

lemma add_file_paths:
  assumes "\<forall>(k, f) \<in> set m. fiPath f = k" and "distinct (map fst m)"
  shows "(\<forall>(k, f) \<in> set (add_file m x). fiPath f = k) \<and> distinct (map fst (add_file m x))"
proof -
  have "fiPath (case jm_get m (fiPath x) of None \<Rightarrow> x | Some y \<Rightarrow> mergeFileChange y x) = fiPath x"
    by (simp add: mergeFileChange_def split: option.split)
  moreover have "set (jm_set k v m) \<subseteq> insert (k, v) (set m)" for k v
    using assms(2) by (induction m) auto
  ultimately show ?thesis
    using assms by (auto simp: add_file_def distinct_update) blast
qed

lemma update_sum:
  fixes g :: "'v \<Rightarrow> int"
  shows "distinct (map fst m) \<Longrightarrow> (\<Sum>(_, f) \<leftarrow> jm_set k v m. g f) = (\<Sum>(_, f) \<leftarrow> m. g f) + g v - (case jm_get m k of None \<Rightarrow> 0 | Some w \<Rightarrow> g w)"
proof (induction m)
  case (Cons a m)
  then show ?case by (cases a) (auto split: option.splits)
qed simp

lemma add_file_sum:
  assumes "distinct (map fst m)" and "\<And>a b. g (mergeFileChange a b) = g a + (g b :: int)"
  shows "(\<Sum>(_, f) \<leftarrow> add_file m x. g f) = (\<Sum>(_, f) \<leftarrow> m. g f) + g x"
  unfolding add_file_def update_sum [OF assms(1)] by (simp add: assms(2) split: option.split)

lemma add_files:
  assumes "\<forall>(k, f) \<in> set m. fiPath f = k" and "distinct (map fst m)"
  shows "(\<forall>(k, f) \<in> set (foldl add_file m xs). fiPath f = k) \<and> distinct (map fst (foldl add_file m xs)) \<and>
    fst ` set (foldl add_file m xs) = fst ` set m \<union> fiPath ` set xs \<and>
    (\<forall>g. (\<forall>a b. g (mergeFileChange a b) = g a + (g b :: int)) \<longrightarrow>
      (\<Sum>(_, f) \<leftarrow> foldl add_file m xs. g f) = (\<Sum>(_, f) \<leftarrow> m. g f) + (\<Sum>f \<leftarrow> xs. g f))"
  using assms
proof (induction xs arbitrary: m)
  case (Cons x xs)
  have "fst ` set (add_file m x) = insert (fiPath x) (fst ` set m)" by (simp add: add_file_def dom_update)
  then show ?case
    using Cons.IH [of "add_file m x"] add_file_paths [OF Cons.prems, of x] add_file_sum [OF Cons.prems(2), of _ x]
    by simp
qed simp

lemma merged_files_facts:
  "distinct (map fiPath (merged_files summaries))"
  "set (map fiPath (merged_files summaries)) = (\<Union>s \<in> set summaries. fiPath ` set (fcFiles s))"
  "(\<And>a b. g (mergeFileChange a b) = g a + (g b :: int)) \<Longrightarrow>
    (\<Sum>f \<leftarrow> merged_files summaries. g f) = (\<Sum>s \<leftarrow> summaries. \<Sum>f \<leftarrow> fcFiles s. g f)"
proof -
  let ?files = "foldl add_file [] (concat (map fcFiles summaries))"
  note facts = add_files [of "[]" "concat (map fcFiles summaries)"]
  have paths: "map fiPath (merged_files summaries) = map fst ?files"
    unfolding merged_files_def map_map using facts by (auto intro!: map_cong)
  show "distinct (map fiPath (merged_files summaries))" unfolding paths using facts by simp
  show "set (map fiPath (merged_files summaries)) = (\<Union>s \<in> set summaries. fiPath ` set (fcFiles s))"
    unfolding paths using facts by auto
  assume g: "\<And>a b. g (mergeFileChange a b) = g a + g b"
  have "(\<Sum>f \<leftarrow> merged_files summaries. g f) = (\<Sum>(_, f) \<leftarrow> ?files. g f)"
    by (simp add: merged_files_def o_def case_prod_unfold)
  also have "\<dots> = (\<Sum>f \<leftarrow> concat (map fcFiles summaries). g f)" using facts g by simp
  also have "\<dots> = (\<Sum>s \<leftarrow> summaries. \<Sum>f \<leftarrow> fcFiles s. g f)" by (induction summaries) simp_all
  finally show "(\<Sum>f \<leftarrow> merged_files summaries. g f) = (\<Sum>s \<leftarrow> summaries. \<Sum>f \<leftarrow> fcFiles s. g f)" .
qed

subsection \<open>Property\<close>

text \<open>C25: However many summaries a turn sends, the merged one lists every file they name exactly once, and no added or
  deleted line is lost or counted twice: the totals are the sums over all the summaries.\<close>

theorem merged_changes_total:
  "(mergeTurnFileChanges summaries = None \<longleftrightarrow> summaries = []) \<and>
   pred_option (\<lambda>merged. distinct (map fiPath (fcFiles merged)) \<and>
     fiPath ` set (fcFiles merged) = (\<Union>s \<in> set summaries. fiPath ` set (fcFiles s)) \<and>
     fcFileCount merged = int (card (fiPath ` set (fcFiles merged))) \<and>
     fcAdditions merged = (\<Sum>s \<leftarrow> summaries. \<Sum>f \<leftarrow> fcFiles s. fiAdditions f) \<and>
     fcDeletions merged = (\<Sum>s \<leftarrow> summaries. \<Sum>f \<leftarrow> fcFiles s. fiDeletions f))
   (mergeTurnFileChanges summaries)"
proof -
  note files = merged_files_facts(1,2) [of summaries]
  have count: "length (merged_files summaries) = card (fiPath ` set (merged_files summaries))"
    using distinct_card [OF files(1)] by simp
  show ?thesis
  proof (cases "mergeTurnFileChanges summaries")
    case None
    then show ?thesis by (auto simp: mergeTurnFileChanges_def Let_def split: list.splits)
  next
    case (Some m)
    then have m: "summaries \<noteq> []" "fcFiles m = merged_files summaries" "fcFileCount m = int (length (merged_files summaries))"
      "fcAdditions m = sum_list (map fiAdditions (merged_files summaries))"
      "fcDeletions m = sum_list (map fiDeletions (merged_files summaries))"
      by (auto simp: mergeTurnFileChanges_def Let_def split: list.splits)
    have "fiPath ` set (merged_files summaries) = (\<Union>s \<in> set summaries. fiPath ` set (fcFiles s))" using files(2) by simp
    then show ?thesis
      using m count files(1) merged_files_facts(3) [of fiAdditions] merged_files_facts(3) [of fiDeletions]
      by (simp add: Some mergeFileChange_def)
  qed
qed

end
