(* ===== verification/ConversationTypes.thy ===== *)
theory ConversationTypes
  imports RuntimeTaskTypes FileChanges "HOL-Library.Product_Lexorder" "HOL-Library.Multiset"
begin

text \<open>
  The conversation of a runtime task, \<open>packages/chat-core/src/runtime-conversation.ts\<close>, with the blocks and
  messages of \<open>workbench-message-reducer.ts\<close>: a turn is a list of items, each a user message, a piece of the
  assistant's text or a processing block. An item that the executor has stored has a native position, one
  still in flight has none. A processing block is one record of the properties of all block types under its
  type; properties that nothing here reads are kept in one list of named values.
\<close>

subsection \<open>Optional properties\<close>

text \<open>
  An optional property is absent (\<open>None\<close>), explicitly \<open>undefined\<close> (\<open>Some None\<close>) or has a value. The
  difference matters to a spread, which copies an explicit \<open>undefined\<close>: one property of \<open>{...old, ...new}\<close> is
  \<open>coalesce new old\<close>. \<open>got\<close> reads a property. A value that may be \<open>null\<close> is an option of its own, and
  \<open>nullish\<close> is what \<open>??\<close> tests.
\<close>

type_synonym 'a property = "'a option option"

abbreviation absent :: "'a property" where "absent \<equiv> None"
abbreviation undef :: "'a property" where "undef \<equiv> Some None"
abbreviation val :: "'a \<Rightarrow> 'a property" where "val x \<equiv> Some (Some x)"

definition got :: "'a property \<Rightarrow> 'a option" where
  "got p = (case p of None \<Rightarrow> None | Some v \<Rightarrow> v)"

definition nullish :: "'a option property \<Rightarrow> 'a option" where
  "nullish p = Option.bind (got p) (\<lambda>v. v)"

lemma got_simps [simp]: "got None = None" "got (Some v) = v"
  by (simp_all add: got_def)

lemma got_spread: "got (coalesce new old) = (case new of None \<Rightarrow> got old | Some v \<Rightarrow> v)"
  by (cases new) auto

subsection \<open>Blocks\<close>

datatype WorkbenchToolBlockStatus = TbGeneratingArguments | TbPending | TbStreaming | TbDone | TbError

datatype block_kind = KTool | KThinking | KText | KPlan | KSubagent | KFileChanges

datatype agent_status = AgRunning | AgDone | AgInterrupted

datatype load_kind = LoadMessageContent | LoadBlockContent | LoadToolOutput

record WorkbenchContentLoadRef =
  lrTaskId :: "string option"
  lrMessageId :: "string option"
  lrSubtaskId :: "string option"
  lrBlockId :: "string option"
  lrKind :: load_kind

record block_fields =
  wbId :: string
  wbSubtaskId :: string
  wbType :: block_kind
  wbStatus :: WorkbenchToolBlockStatus
  wbCreatedAt :: int
  wbParentToolUseId :: "string property"
  wbCompletedAt :: "int property"
  wbDurationMs :: "int property"
  wbContent :: "ustring property"
  wbContentTruncated :: "bool property"
  wbContentOriginalChars :: "int property"
  wbContentLoadRef :: "WorkbenchContentLoadRef property"
  wbToolName :: "string property"
  wbToolInput :: "json property"
  wbToolOutput :: "json property"
  wbToolOutputTruncated :: "bool property"
  wbToolOutputOriginalBytes :: "int property"
  wbToolOutputOriginalChars :: "int property"
  wbToolOutputLoadRef :: "WorkbenchContentLoadRef property"
  wbRenderPayload :: "json property"
  wbAnchorBlockId :: "string property"
  wbMcpServer :: "string property"
  wbAgentType :: "string property"
  wbAgentPath :: "string property"
  wbAgentId :: "string property"
  wbAgentThreadId :: "string property"
  wbAgentStatus :: "agent_status property"
  wbTitle :: "ustring property"
  wbDescription :: "ustring property"
  wbOutput :: "ustring property"
  wbSummary :: "ustring property"
  wbFileChanges :: "TurnFileChangesSummary property"
  wbOthers :: "(string, json) jsmap"

datatype ProcessingBlock = PBlock (pbFields: block_fields) (pbChildren: "ProcessingBlock list property")

abbreviation pb_id :: "ProcessingBlock \<Rightarrow> string" where "pb_id b \<equiv> wbId (pbFields b)"
abbreviation pb_type :: "ProcessingBlock \<Rightarrow> block_kind" where "pb_type b \<equiv> wbType (pbFields b)"
abbreviation pb_status :: "ProcessingBlock \<Rightarrow> WorkbenchToolBlockStatus" where "pb_status b \<equiv> wbStatus (pbFields b)"

fun upd_fields :: "(block_fields \<Rightarrow> block_fields) \<Rightarrow> ProcessingBlock \<Rightarrow> ProcessingBlock" where
  "upd_fields f (PBlock b cs) = PBlock (f b) cs"

lemma upd_fields_simps [simp]:
  "pbFields (upd_fields f b) = f (pbFields b)" "pbChildren (upd_fields f b) = pbChildren b"
  by (cases b; simp)+

definition new_fields ::
    "string \<Rightarrow> string \<Rightarrow> block_kind \<Rightarrow> WorkbenchToolBlockStatus \<Rightarrow> int \<Rightarrow> block_fields" where
  "new_fields i subtaskId kind status createdAt =
     \<lparr>wbId = i, wbSubtaskId = subtaskId, wbType = kind, wbStatus = status, wbCreatedAt = createdAt,
      wbParentToolUseId = absent, wbCompletedAt = absent, wbDurationMs = absent, wbContent = absent,
      wbContentTruncated = absent, wbContentOriginalChars = absent, wbContentLoadRef = absent,
      wbToolName = absent, wbToolInput = absent, wbToolOutput = absent, wbToolOutputTruncated = absent,
      wbToolOutputOriginalBytes = absent, wbToolOutputOriginalChars = absent, wbToolOutputLoadRef = absent,
      wbRenderPayload = absent, wbAnchorBlockId = absent, wbMcpServer = absent, wbAgentType = absent,
      wbAgentPath = absent, wbAgentId = absent, wbAgentThreadId = absent,
      wbAgentStatus = absent, wbTitle = absent, wbDescription = absent, wbOutput = absent, wbSummary = absent,
      wbFileChanges = absent, wbOthers = []\<rparr>"

definition spread_others :: "(string, 'v) jsmap \<Rightarrow> (string, 'v) jsmap \<Rightarrow> (string, 'v) jsmap" where
  "spread_others old new = foldl (\<lambda>m (k, v). jm_set k v m) old new"

definition spread_fields :: "block_fields \<Rightarrow> block_fields \<Rightarrow> block_fields" where
  "spread_fields old new =
     \<lparr>wbId = wbId new, wbSubtaskId = wbSubtaskId new, wbType = wbType new, wbStatus = wbStatus new,
      wbCreatedAt = wbCreatedAt new,
      wbParentToolUseId = coalesce (wbParentToolUseId new) (wbParentToolUseId old),
      wbCompletedAt = coalesce (wbCompletedAt new) (wbCompletedAt old),
      wbDurationMs = coalesce (wbDurationMs new) (wbDurationMs old),
      wbContent = coalesce (wbContent new) (wbContent old),
      wbContentTruncated = coalesce (wbContentTruncated new) (wbContentTruncated old),
      wbContentOriginalChars = coalesce (wbContentOriginalChars new) (wbContentOriginalChars old),
      wbContentLoadRef = coalesce (wbContentLoadRef new) (wbContentLoadRef old),
      wbToolName = coalesce (wbToolName new) (wbToolName old),
      wbToolInput = coalesce (wbToolInput new) (wbToolInput old),
      wbToolOutput = coalesce (wbToolOutput new) (wbToolOutput old),
      wbToolOutputTruncated = coalesce (wbToolOutputTruncated new) (wbToolOutputTruncated old),
      wbToolOutputOriginalBytes = coalesce (wbToolOutputOriginalBytes new) (wbToolOutputOriginalBytes old),
      wbToolOutputOriginalChars = coalesce (wbToolOutputOriginalChars new) (wbToolOutputOriginalChars old),
      wbToolOutputLoadRef = coalesce (wbToolOutputLoadRef new) (wbToolOutputLoadRef old),
      wbRenderPayload = coalesce (wbRenderPayload new) (wbRenderPayload old),
      wbAnchorBlockId = coalesce (wbAnchorBlockId new) (wbAnchorBlockId old),
      wbMcpServer = coalesce (wbMcpServer new) (wbMcpServer old),
      wbAgentType = coalesce (wbAgentType new) (wbAgentType old),
      wbAgentPath = coalesce (wbAgentPath new) (wbAgentPath old),
      wbAgentId = coalesce (wbAgentId new) (wbAgentId old),
      wbAgentThreadId = coalesce (wbAgentThreadId new) (wbAgentThreadId old),
      wbAgentStatus = coalesce (wbAgentStatus new) (wbAgentStatus old),
      wbTitle = coalesce (wbTitle new) (wbTitle old),
      wbDescription = coalesce (wbDescription new) (wbDescription old),
      wbOutput = coalesce (wbOutput new) (wbOutput old),
      wbSummary = coalesce (wbSummary new) (wbSummary old),
      wbFileChanges = coalesce (wbFileChanges new) (wbFileChanges old),
      wbOthers = spread_others (wbOthers old) (wbOthers new)\<rparr>"

definition spread_processing_block :: "ProcessingBlock \<Rightarrow> ProcessingBlock \<Rightarrow> ProcessingBlock" where
  "spread_processing_block old new = PBlock (spread_fields (pbFields old) (pbFields new))
     (coalesce (pbChildren new) (pbChildren old))"

lemma spread_fields_simps [simp]:
  "wbId (spread_fields a b) = wbId b" "wbSubtaskId (spread_fields a b) = wbSubtaskId b"
  "wbType (spread_fields a b) = wbType b" "wbStatus (spread_fields a b) = wbStatus b"
  "wbCreatedAt (spread_fields a b) = wbCreatedAt b"
  by (simp_all add: spread_fields_def)

subsection \<open>Messages, items and turns\<close>

datatype WorkbenchMessageRole = RoleUser | RoleAssistant | RoleSystem

datatype RuntimeWorkbenchMessageStatus = WmPending | WmStreaming | WmDone | WmFailed | WmCancelled

record WorkbenchMessage =
  wmId :: string
  wmRole :: WorkbenchMessageRole
  wmContent :: ustring
  wmStatus :: RuntimeWorkbenchMessageStatus
  wmCreatedAt :: string
  wmTaskId :: "string property"
  wmSubtaskId :: "string property"
  wmTurnId :: "string property"
  wmShellType :: "string property"
  wmError :: "ustring property"
  wmErrorType :: "string property"
  wmAttachments :: "json property"
  wmBlocks :: "ProcessingBlock list property"
  wmFileChanges :: "TurnFileChangesSummary property"
  wmSource :: "json property"
  wmRuntimeStatus :: "RuntimeWorkbenchMessageStatus option property"
  wmCompletedAt :: "timestamp option property"
  wmStoppedNotice :: "bool option property"
  wmStreamTextOffset :: "int property"
  wmStreamingThinkingContent :: "ustring property"
  wmContentTruncated :: "bool property"
  wmContentOriginalChars :: "int property"
  wmContentLoadRef :: "WorkbenchContentLoadRef property"
  wmRuntimeGuidance :: "bool option property"
  wmOthers :: "(string, json) jsmap"

definition spread_message :: "WorkbenchMessage \<Rightarrow> WorkbenchMessage \<Rightarrow> WorkbenchMessage" where
  "spread_message old new =
     \<lparr>wmId = wmId new, wmRole = wmRole new, wmContent = wmContent new, wmStatus = wmStatus new,
      wmCreatedAt = wmCreatedAt new,
      wmTaskId = coalesce (wmTaskId new) (wmTaskId old),
      wmSubtaskId = coalesce (wmSubtaskId new) (wmSubtaskId old),
      wmTurnId = coalesce (wmTurnId new) (wmTurnId old),
      wmShellType = coalesce (wmShellType new) (wmShellType old),
      wmError = coalesce (wmError new) (wmError old),
      wmErrorType = coalesce (wmErrorType new) (wmErrorType old),
      wmAttachments = coalesce (wmAttachments new) (wmAttachments old),
      wmBlocks = coalesce (wmBlocks new) (wmBlocks old),
      wmFileChanges = coalesce (wmFileChanges new) (wmFileChanges old),
      wmSource = coalesce (wmSource new) (wmSource old),
      wmRuntimeStatus = coalesce (wmRuntimeStatus new) (wmRuntimeStatus old),
      wmCompletedAt = coalesce (wmCompletedAt new) (wmCompletedAt old),
      wmStoppedNotice = coalesce (wmStoppedNotice new) (wmStoppedNotice old),
      wmStreamTextOffset = coalesce (wmStreamTextOffset new) (wmStreamTextOffset old),
      wmStreamingThinkingContent = coalesce (wmStreamingThinkingContent new) (wmStreamingThinkingContent old),
      wmContentTruncated = coalesce (wmContentTruncated new) (wmContentTruncated old),
      wmContentOriginalChars = coalesce (wmContentOriginalChars new) (wmContentOriginalChars old),
      wmContentLoadRef = coalesce (wmContentLoadRef new) (wmContentLoadRef old),
      wmRuntimeGuidance = coalesce (wmRuntimeGuidance new) (wmRuntimeGuidance old),
      wmOthers = spread_others (wmOthers old) (wmOthers new)\<rparr>"

definition new_message_fields ::
    "string \<Rightarrow> WorkbenchMessageRole \<Rightarrow> ustring \<Rightarrow> RuntimeWorkbenchMessageStatus \<Rightarrow> string \<Rightarrow> WorkbenchMessage" where
  "new_message_fields i role content status createdAt =
     \<lparr>wmId = i, wmRole = role, wmContent = content, wmStatus = status, wmCreatedAt = createdAt,
      wmTaskId = absent, wmSubtaskId = absent, wmTurnId = absent, wmShellType = absent, wmError = absent,
      wmErrorType = absent, wmAttachments = absent, wmBlocks = absent, wmFileChanges = absent,
      wmSource = absent, wmRuntimeStatus = absent, wmCompletedAt = absent, wmStoppedNotice = absent,
      wmStreamTextOffset = absent, wmStreamingThinkingContent = absent, wmContentTruncated = absent,
      wmContentOriginalChars = absent, wmContentLoadRef = absent, wmRuntimeGuidance = absent, wmOthers = []\<rparr>"

datatype conversation_item =
    UserMessage WorkbenchMessage
  | AssistantText ustring "int option" string
  | BlockItem ProcessingBlock

record RuntimeConversationItem =
  itId :: string
  itPosition :: "int option"
  itBody :: conversation_item

text \<open>Every spread of two turns sets all the properties below but the last three, so only these need an absence
  of their own; \<open>completedAt\<close> and \<open>stoppedNotice\<close> may be \<open>null\<close> besides. \<open>tnPrepends\<close> is the mark
  \<open>itemMerge: 'prepend'\<close>.\<close>

record RuntimeConversationTurn =
  tnId :: "string option"
  tnPosition :: "int option"
  tnClientUserMessageId :: "string option"
  tnRuntimeMessageIndex :: "int option"
  tnPrepends :: bool
  tnItems :: "RuntimeConversationItem list"
  tnStatus :: RuntimeWorkbenchMessageStatus
  tnStartedAt :: "int option"
  tnDurationMs :: "int option"
  tnCompletedAt :: "timestamp option option"
  tnError :: "ustring option"
  tnErrorType :: "string option"
  tnStoppedNotice :: "bool option option"
  tnStreamingThinkingContent :: "ustring option"
  tnFileChanges :: "TurnFileChangesSummary option"
  tnContentTruncated :: "bool property"
  tnReferences :: "json property"
  tnMemoryCitations :: "json property"

subsection \<open>Numbers with infinities\<close>

text \<open>Positions are compared with \<open>Infinity\<close> and \<open>-Infinity\<close>.\<close>

datatype jsord = NegInf | Fin int | PosInf

fun jsord_le :: "jsord \<Rightarrow> jsord \<Rightarrow> bool" where
  "jsord_le NegInf _ = True"
| "jsord_le (Fin _) NegInf = False"
| "jsord_le (Fin a) (Fin b) = (a \<le> b)"
| "jsord_le (Fin _) PosInf = True"
| "jsord_le PosInf b = (b = PosInf)"

instantiation jsord :: linorder
begin

definition less_eq_jsord :: "jsord \<Rightarrow> jsord \<Rightarrow> bool" where
  "less_eq_jsord a b = jsord_le a b"

definition less_jsord :: "jsord \<Rightarrow> jsord \<Rightarrow> bool" where
  "less_jsord a b = (jsord_le a b \<and> \<not> jsord_le b a)"

instance
proof
  fix x y z :: jsord
  show "(x < y) = (x \<le> y \<and> \<not> y \<le> x)" by (simp add: less_eq_jsord_def less_jsord_def)
  show "x \<le> x" by (cases x) (simp_all add: less_eq_jsord_def)
  show "x \<le> y \<Longrightarrow> y \<le> z \<Longrightarrow> x \<le> z" by (cases x; cases y; cases z) (simp_all add: less_eq_jsord_def)
  show "x \<le> y \<Longrightarrow> y \<le> x \<Longrightarrow> x = y" by (cases x; cases y) (simp_all add: less_eq_jsord_def)
  show "x \<le> y \<or> y \<le> x" by (cases x; cases y) (auto simp: less_eq_jsord_def)
qed

end

lemma jsord_simps [simp]:
  "NegInf \<le> a" "a \<le> PosInf" "Fin m \<le> Fin n \<longleftrightarrow> m \<le> n" "Fin m < Fin n \<longleftrightarrow> m < n"
  "\<not> Fin m \<le> NegInf" "\<not> PosInf \<le> Fin m" "Fin m < PosInf" "NegInf < Fin m"
  "\<not> PosInf < a" "\<not> a < NegInf" "\<not> PosInf \<le> NegInf" "NegInf < a \<longleftrightarrow> a \<noteq> NegInf"
  by (cases a; auto simp: less_eq_jsord_def less_jsord_def)+

text \<open>\<open>new Map(entries)\<close>: a later entry of a key replaces the value of an earlier one.\<close>

definition new_map :: "('k \<times> 'v) list \<Rightarrow> ('k, 'v) jsmap" where
  "new_map entries = foldl (\<lambda>m (k, v). jm_set k v m) [] entries"

lemma foldl_set_get:
  "jm_get (foldl (\<lambda>m (k, v). jm_set k v m) m entries) k =
     (case map_of (rev entries) k of None \<Rightarrow> jm_get m k | Some v \<Rightarrow> Some v)"
proof (induction entries arbitrary: m)
  case (Cons e entries)
  then show ?case by (cases e) (auto simp: map_add_def map_of_append split: option.split)
qed simp

lemma new_map_get: "jm_get (new_map entries) k = map_of (rev entries) k"
  by (simp add: new_map_def foldl_set_get split: option.split)

lemma new_map_in: "jm_get (new_map entries) k = Some v \<Longrightarrow> (k, v) \<in> set entries"
  using map_of_SomeD [of "rev entries" k v] by (simp add: new_map_get)

lemma new_map_known: "jm_get (new_map entries) k = None \<longleftrightarrow> k \<notin> fst ` set entries"
  by (simp add: new_map_get map_of_eq_None_iff)

subsection \<open>Stable sorts\<close>

text \<open>With the index as the last key a sort is the stable sort by the other keys.\<close>

lemma sorted_wrt_insort:
  fixes g :: "'a \<Rightarrow> 'k::linorder"
  assumes "sorted_wrt (\<lambda>x y. g x < g y \<or> g x = g y \<and> R x y) ys" and "\<forall>y\<in>set ys. R x y"
  shows "sorted_wrt (\<lambda>x y. g x < g y \<or> g x = g y \<and> R x y) (insort_key g x ys)"
  using assms by (induction ys) (auto simp: set_insort_key)

lemma sorted_wrt_sort_key:
  fixes g :: "'a \<Rightarrow> 'k::linorder"
  assumes "sorted_wrt R xs"
  shows "sorted_wrt (\<lambda>x y. g x < g y \<or> g x = g y \<and> R x y) (sort_key g xs)"
  using assms by (induction xs) (auto intro: sorted_wrt_insort)

lemma map_insort_key: "map h (insort_key (\<lambda>a. f (h a)) x ys) = insort_key f (h x) (map h ys)"
  by (induction ys) auto

lemma map_sort_key: "map h (sort_key (\<lambda>a. f (h a)) xs) = sort_key f (map h xs)"
  by (induction xs) (auto simp: map_insort_key)

lemma sort_key_index:
  fixes f :: "'a \<Rightarrow> 'k::linorder"
  shows "map fst (sort_key (\<lambda>(x, index). (f x, index :: nat)) (zip xs [0..<length xs])) = sort_key f xs"
proof -
  let ?z = "zip xs [0..<length xs]" and ?k = "\<lambda>(x :: 'a, index :: nat). (f x, index)"
  let ?s = "sort_key (f \<circ> fst) ?z"
  have "sorted_wrt (\<lambda>p q. snd p < snd q) ?z"
    by (simp add: sorted_wrt_iff_nth_less)
  then have "sorted_wrt (\<lambda>p q. (f \<circ> fst) p < (f \<circ> fst) q \<or> (f \<circ> fst) p = (f \<circ> fst) q \<and> snd p < snd q) ?s"
    by (rule sorted_wrt_sort_key)
  then have sorted: "sorted (map ?k ?s)"
    unfolding sorted_map by (rule sorted_wrt_mono_rel[rotated]) (auto simp: less_eq_prod_def)
  have "sort_key ?k ?z = ?s"
  proof (rule properties_for_sort_key)
    fix q
    have fuse: "filter (\<lambda>p. ?k q = ?k p) ps
      = filter (\<lambda>p. ?k q = ?k p) (filter (\<lambda>p. (f \<circ> fst) p = (f \<circ> fst) q) ps)" for ps
      by (auto simp: case_prod_beta intro!: filter_cong)
    show "filter (\<lambda>p. ?k q = ?k p) ?s = filter (\<lambda>p. ?k q = ?k p) ?z"
      by (simp only: fuse [of ?s] fuse [of ?z] sort_key_stable)
  qed (use sorted in simp_all)
  then show ?thesis by (simp add: comp_def map_sort_key)
qed

end
