(* ===== verification/ConversationOrder.thy ===== *)
theory ConversationOrder
  imports ConversationTypes "HOL-Library.Multiset"
begin

text \<open>
  The order of turns and items, from \<open>packages/chat-core/src/runtime-turn-merge.ts\<close>: entries with a native
  position are ordered by it; an entry in flight is anchored at the position of the next stored entry after it
  in a source that has it. \<open>id\<close> and \<open>position\<close> of an entry are the first two arguments of the generic
  functions. \<open>Array.sort\<close> is stable, as \<open>sort_key\<close> is; the comparator's differences of infinities are NaN,
  which it takes as equal.
\<close>

subsection \<open>Anchors\<close>

text \<open>The backward loop over one source; \<open>positions\<close> are the native positions of all entries.\<close>

definition anchor_step ::
    "('a \<Rightarrow> string option) \<Rightarrow> (string, int) jsmap \<Rightarrow> bool \<Rightarrow> 'a \<Rightarrow> (string, jsord) jsmap \<times> jsord \<Rightarrow>
     (string, jsord) jsmap \<times> jsord" where
  "anchor_step key positions hasNativeBoundary entry = (\<lambda>(anchors, nextPosition).
     case key entry of
       None \<Rightarrow> (anchors, nextPosition)
     | Some i \<Rightarrow> (case jm_get positions i of
           Some p \<Rightarrow> (anchors, Fin p)
         | None \<Rightarrow> if hasNativeBoundary \<or> jm_get anchors i = None
             then (jm_set i nextPosition anchors, nextPosition)
             else (anchors, nextPosition)))"

definition anchor_source ::
    "('a \<Rightarrow> string option) \<Rightarrow> (string, int) jsmap \<Rightarrow> (string, jsord) jsmap \<Rightarrow> 'a list \<Rightarrow>
     (string, jsord) jsmap" where
  "anchor_source key positions anchors source =
     (let hasNativeBoundary = list_ex (\<lambda>entry. opt_truthy (\<lambda>i. jm_get positions i \<noteq> None) (key entry)) source
      in fst (foldr (anchor_step key positions hasNativeBoundary) source (anchors, PosInf)))"

definition native_positions :: "('a \<Rightarrow> string option) \<Rightarrow> ('a \<Rightarrow> int option) \<Rightarrow> 'a list \<Rightarrow> (string, int) jsmap" where
  "native_positions key position entries = new_map (concat (map (\<lambda>entry.
     case (key entry, position entry) of (Some i, Some p) \<Rightarrow> [(i, p)] | _ \<Rightarrow> []) entries))"

definition observedNativePositionAnchors ::
    "('a \<Rightarrow> string option) \<Rightarrow> ('a \<Rightarrow> int option) \<Rightarrow> 'a list \<Rightarrow> 'a list list \<Rightarrow> (string, jsord) jsmap" where
  "observedNativePositionAnchors key position entries sources =
     foldl (anchor_source key (native_positions key position entries)) [] sources"

text \<open>The backward loop that gives every entry its anchor, and the sort.\<close>

definition entry_anchor ::
    "('a \<Rightarrow> string option) \<Rightarrow> ('a \<Rightarrow> int option) \<Rightarrow> (string, jsord) jsmap \<Rightarrow> 'a \<Rightarrow> jsord \<Rightarrow> jsord" where
  "entry_anchor key position anchors entry nextPosition =
     (case position entry of
        Some p \<Rightarrow> Fin p
      | None \<Rightarrow> the_or nextPosition (Option.bind (key entry) (jm_get anchors)))"

fun anchored ::
    "('a \<Rightarrow> string option) \<Rightarrow> ('a \<Rightarrow> int option) \<Rightarrow> (string, jsord) jsmap \<Rightarrow> 'a list \<Rightarrow>
     ('a \<times> jsord) list \<times> jsord" where
  "anchored key position anchors [] = ([], PosInf)"
| "anchored key position anchors (entry # entries) =
     (let (rest, next1) = anchored key position anchors entries;
          next2 = (case position entry of Some p \<Rightarrow> Fin p | None \<Rightarrow> next1)
      in ((entry, entry_anchor key position anchors entry next2) # rest, next2))"

definition orderNativePositionEntries ::
    "('a \<Rightarrow> string option) \<Rightarrow> ('a \<Rightarrow> int option) \<Rightarrow> 'a list \<Rightarrow> (string, jsord) jsmap \<Rightarrow> 'a list" where
  "orderNativePositionEntries key position entries anchors =
     map (fst \<circ> fst) (sort_key (\<lambda>((entry, anchor), index). (anchor, position entry \<noteq> None, index))
       (zip (fst (anchored key position anchors entries)) [0..<length entries]))"

subsection \<open>Items and turns\<close>

definition is_user_message :: "RuntimeConversationItem \<Rightarrow> bool" where
  "is_user_message item \<longleftrightarrow> (case itBody item of UserMessage _ \<Rightarrow> True | _ \<Rightarrow> False)"

definition leads_items :: "RuntimeConversationItem \<Rightarrow> bool" where
  "leads_items item \<longleftrightarrow> itPosition item = None \<and>
     (case itBody item of UserMessage m \<Rightarrow> nullish (wmRuntimeGuidance m) \<noteq> Some True | _ \<Rightarrow> False)"

abbreviation item_key :: "RuntimeConversationItem \<Rightarrow> string option" where
  "item_key item \<equiv> Some (itId item)"

definition item_anchors ::
    "RuntimeConversationItem list \<Rightarrow> (string, jsord) jsmap option \<Rightarrow> (string, jsord) jsmap" where
  "item_anchors items observedAnchors =
     foldl (\<lambda>anchors item. if leads_items item then jm_set (itId item) NegInf anchors else anchors)
       (the_or (observedNativePositionAnchors item_key itPosition items [items]) observedAnchors) items"

definition orderRuntimeConversationItems ::
    "RuntimeConversationItem list \<Rightarrow> (string, jsord) jsmap option \<Rightarrow> RuntimeConversationItem list" where
  "orderRuntimeConversationItems items observedAnchors =
     (if \<not> list_ex (\<lambda>item. itPosition item \<noteq> None) items then items
      else orderNativePositionEntries item_key itPosition items (item_anchors items observedAnchors))"

datatype moment = MomentNum int | MomentText "string option"

definition item_moment :: "RuntimeConversationItem \<Rightarrow> moment" where
  "item_moment item = (case itBody item of
       UserMessage m \<Rightarrow> MomentText (Some (wmCreatedAt m))
     | AssistantText _ _ createdAt \<Rightarrow> MomentText (Some createdAt)
     | BlockItem b \<Rightarrow> MomentNum (wbCreatedAt (pbFields b)))"

fun moment_time :: "(string \<Rightarrow> int option) \<Rightarrow> moment \<Rightarrow> int option" where
  "moment_time pd (MomentNum n) = Some n"
| "moment_time pd (MomentText t) = pd (the_or [] t)"

definition completed_moment :: "timestamp option option \<Rightarrow> moment" where
  "completed_moment t = (case Option.bind t (\<lambda>v. v) of None \<Rightarrow> MomentText None | Some (TimeNum n) \<Rightarrow> MomentNum n
     | Some (TimeStr x) \<Rightarrow> MomentText (Some x))"

definition runtimeConversationTurnTimestamp ::
    "(string \<Rightarrow> int option) \<Rightarrow> RuntimeConversationTurn \<Rightarrow> int option" where
  "runtimeConversationTurnTimestamp pd turn =
     Option.bind (List.find (\<lambda>m. moment_time pd m \<noteq> None)
       (map item_moment (tnItems turn)
        @ [case tnStartedAt turn of None \<Rightarrow> MomentText None | Some n \<Rightarrow> MomentNum n,
           completed_moment (tnCompletedAt turn)]))
       (moment_time pd)"

text \<open>A sort with the index as the last key.\<close>

definition sort_by :: "('a \<Rightarrow> int) \<Rightarrow> 'a list \<Rightarrow> 'a list" where
  "sort_by f xs = map fst (sort_key (\<lambda>(x, index). (f x, index)) (zip xs [0..<length xs]))"

definition orderRuntimeConversationTurns ::
    "(string \<Rightarrow> int option) \<Rightarrow> RuntimeConversationTurn list \<Rightarrow> RuntimeConversationTurn list list \<Rightarrow>
     RuntimeConversationTurn list" where
  "orderRuntimeConversationTurns pd turns sources =
     (let pendingOptimisticTurns = filter (\<lambda>turn. tnId turn = None) turns;
          indexedTurns = filter (\<lambda>turn. tnId turn \<noteq> None) turns;
          orderedTurns =
            (if list_ex (\<lambda>turn. tnPosition turn \<noteq> None) indexedTurns then
               orderNativePositionEntries tnId tnPosition indexedTurns
                 (observedNativePositionAnchors tnId tnPosition turns sources)
             else if list_all (\<lambda>turn. tnRuntimeMessageIndex turn \<noteq> None) indexedTurns then
               sort_by (\<lambda>turn. the_or 0 (tnRuntimeMessageIndex turn)) indexedTurns
             else if list_all (\<lambda>turn. runtimeConversationTurnTimestamp pd turn \<noteq> None) indexedTurns then
               sort_by (\<lambda>turn. the_or 0 (runtimeConversationTurnTimestamp pd turn)) indexedTurns
             else indexedTurns)
      in orderedTurns @ pendingOptimisticTurns)"

definition earliestRuntimeMessageIndex ::
    "RuntimeConversationTurn \<Rightarrow> RuntimeConversationTurn \<Rightarrow> int option" where
  "earliestRuntimeMessageIndex local snapshot = (case (tnRuntimeMessageIndex local, tnRuntimeMessageIndex snapshot) of
       (Some a, Some b) \<Rightarrow> Some (min a b)
     | (a, b) \<Rightarrow> coalesce a b)"

definition isTerminalTurnStatus_conv :: "RuntimeWorkbenchMessageStatus \<Rightarrow> bool" where
  "isTerminalTurnStatus_conv status \<longleftrightarrow> status = WmDone \<or> status = WmFailed \<or> status = WmCancelled"

definition isUnsettledTurnStatus :: "RuntimeWorkbenchMessageStatus \<Rightarrow> bool" where
  "isUnsettledTurnStatus status \<longleftrightarrow> status = WmPending \<or> status = WmStreaming"

subsection \<open>What the order keeps\<close>

lemma length_anchored [simp]: "length (fst (anchored key position anchors entries)) = length entries"
  by (induction entries) (auto simp: case_prod_beta Let_def)

lemma map_fst_anchored [simp]: "map fst (fst (anchored key position anchors entries)) = entries"
  by (induction entries) (auto simp: case_prod_beta Let_def)

definition rank :: "('a \<Rightarrow> int option) \<Rightarrow> 'a \<times> jsord \<Rightarrow> jsord \<times> bool" where
  "rank position = (\<lambda>(entry, anchor). (anchor, position entry \<noteq> None))"

definition ranked ::
    "('a \<Rightarrow> string option) \<Rightarrow> ('a \<Rightarrow> int option) \<Rightarrow> (string, jsord) jsmap \<Rightarrow> 'a list \<Rightarrow> ('a \<times> jsord) list" where
  "ranked key position anchors entries = sort_key (rank position) (fst (anchored key position anchors entries))"

lemma sort_index_key:
  fixes f :: "'a \<Rightarrow> 'k::linorder" and g :: "'a \<times> nat \<Rightarrow> 'm::linorder"
  assumes "\<And>x y. g x < g y \<longleftrightarrow> (f (fst x), snd x) < (f (fst y), snd y)"
  shows "sort_key g xs = sort_key (\<lambda>(x, index). (f x, index)) xs"
proof -
  have "g x \<le> g y \<longleftrightarrow> (\<lambda>(x, index). (f x, index)) x \<le> (\<lambda>(x, index). (f x, index)) y" for x y
    using assms [of y x] by (cases x; cases y) (auto simp flip: not_less)
  then have "insort_key g x ys = insort_key (\<lambda>(x, index). (f x, index)) x ys" for x ys
    by (induction ys) simp_all
  then show ?thesis by (induction xs) simp_all
qed

lemma order_ranked: "orderNativePositionEntries key position entries anchors
  = map fst (ranked key position anchors entries)"
proof -
  let ?A = "fst (anchored key position anchors entries)"
  have "sort_key (\<lambda>((entry, anchor), index). (anchor, position entry \<noteq> None, index :: nat)) (zip ?A [0..<length entries])
    = sort_key (\<lambda>(x, index). (rank position x, index)) (zip ?A [0..<length ?A])"
    unfolding length_anchored by (rule sort_index_key) (auto simp: rank_def case_prod_beta)
  then have "orderNativePositionEntries key position entries anchors
    = map fst (map fst (sort_key (\<lambda>(x, index). (rank position x, index)) (zip ?A [0..<length ?A])))"
    by (simp add: orderNativePositionEntries_def)
  then show ?thesis by (simp only: sort_key_index ranked_def)
qed

lemma mset_order [simp]: "mset (orderNativePositionEntries key position entries anchors) = mset entries"
  by (metis map_fst_anchored mset_map mset_sort order_ranked ranked_def)

lemma anchored_position:
  "x \<in> set (fst (anchored key position anchors entries)) \<Longrightarrow> position (fst x) = Some p \<Longrightarrow> snd x = Fin p"
  by (induction entries) (auto simp: case_prod_beta Let_def entry_anchor_def)

lemma ranked_position: "x \<in> set (ranked key position anchors entries) \<Longrightarrow> position (fst x) = Some p \<Longrightarrow> snd x = Fin p"
  by (simp add: ranked_def anchored_position)

lemma sorted_ranked: "sorted (map (rank position) (ranked key position anchors entries))"
  by (simp add: ranked_def)

lemma order_sorted:
  "sorted (map (\<lambda>entry. the (position entry)) (filter (\<lambda>entry. position entry \<noteq> None)
     (orderNativePositionEntries key position entries anchors)))"
proof -
  let ?R = "ranked key position anchors entries"
  have "sorted_wrt (\<lambda>x y. rank position x \<le> rank position y) (filter (\<lambda>x. position (fst x) \<noteq> None) ?R)"
    using sorted_ranked [of position key anchors entries] by (simp add: sorted_map sorted_wrt_filter)
  then have "sorted_wrt (\<lambda>x y. the (position (fst x)) \<le> the (position (fst y)))
      (filter (\<lambda>x. position (fst x) \<noteq> None) ?R)"
    by (rule sorted_wrt_mono_rel [rotated])
      (auto simp: rank_def case_prod_beta dest!: ranked_position)
  then show ?thesis
    by (simp add: order_ranked filter_map comp_def sorted_map sorted_wrt_map)
qed

lemma order_same_position:
  "filter (\<lambda>entry. position entry = Some p) (orderNativePositionEntries key position entries anchors)
   = filter (\<lambda>entry. position entry = Some p) entries"
proof -
  let ?A = "fst (anchored key position anchors entries)"
  have pick: "filter (\<lambda>x. position (fst x) = Some p) xs
      = filter (\<lambda>x. position (fst x) = Some p) (filter (\<lambda>x. rank position x = (Fin p, True)) xs)"
    if "set xs \<subseteq> set ?A" for xs
    using that by (auto simp: rank_def case_prod_beta intro!: filter_cong dest: anchored_position)
  have "filter (\<lambda>x. position (fst x) = Some p) (ranked key position anchors entries)
      = filter (\<lambda>x. position (fst x) = Some p) ?A"
    by (simp only: ranked_def pick [of ?A] pick [of "sort_key (rank position) ?A"] set_sort subset_refl sort_key_stable)
  then have "map fst (filter (\<lambda>x. position (fst x) = Some p) (ranked key position anchors entries))
      = map fst (filter (\<lambda>x. position (fst x) = Some p) ?A)" by simp
  also have "\<dots> = filter (\<lambda>entry. position entry = Some p) (map fst ?A)"
    by (simp only: filter_map comp_def)
  finally show ?thesis by (simp add: order_ranked filter_map comp_def)
qed

text \<open>Ordering again changes nothing: the next stored entry after one in flight is still at its anchor.\<close>

lemma snd_anchored: "snd (anchored key position anchors entries)
  = (case List.find (\<lambda>entry. position entry \<noteq> None) entries of None \<Rightarrow> PosInf | Some entry \<Rightarrow> Fin (the (position entry)))"
  by (induction entries) (auto simp: case_prod_beta Let_def split: option.split)

lemma anchored_next:
  assumes "x \<in> set (fst (anchored key position anchors entries))" and "position (fst x) = None"
    and "Option.bind (key (fst x)) (jm_get anchors) = None" and "snd x \<noteq> PosInf"
  obtains y where "y \<in> set entries" "position y \<noteq> None" "snd x = Fin (the (position y))"
proof -
  have "\<exists>y\<in>set entries. position y \<noteq> None \<and> snd x = Fin (the (position y))"
    using assms
  proof (induction entries)
    case (Cons e entries)
    show ?case
    proof (cases "x \<in> set (fst (anchored key position anchors entries))")
      case True
      then show ?thesis using Cons by auto
    next
      case False
      then have "x = (e, snd (anchored key position anchors entries))" and "position e = None"
        using Cons.prems by (auto simp: case_prod_beta Let_def entry_anchor_def)
      then show ?thesis using Cons.prems
        by (auto simp: snd_anchored find_Some_iff split: option.splits)
    qed
  qed simp
  then show ?thesis using that by blast
qed

definition settled_rank ::
    "('a \<Rightarrow> string option) \<Rightarrow> ('a \<Rightarrow> int option) \<Rightarrow> (string, jsord) jsmap \<Rightarrow> ('a \<times> jsord) list \<Rightarrow> 'a \<times> jsord \<Rightarrow> bool" where
  "settled_rank key position anchors R x \<longleftrightarrow> (case position (fst x) of
       Some p \<Rightarrow> snd x = Fin p
     | None \<Rightarrow> (case Option.bind (key (fst x)) (jm_get anchors) of
           Some a \<Rightarrow> snd x = a
         | None \<Rightarrow> snd x = PosInf \<or> (\<exists>y\<in>set R. position (fst y) \<noteq> None \<and> snd y = snd x)))"

lemma settled_anchored:
  assumes "x \<in> set (fst (anchored key position anchors entries))"
  shows "settled_rank key position anchors (fst (anchored key position anchors entries)) x"
proof -
  let ?A = "fst (anchored key position anchors entries)"
  have given: "snd x = a" if "x \<in> set ?A" "position (fst x) = None" "Option.bind (key (fst x)) (jm_get anchors) = Some a" for a
    using that by (induction entries) (auto simp: case_prod_beta Let_def entry_anchor_def)
  have following: "\<exists>y\<in>set ?A. position (fst y) \<noteq> None \<and> snd y = snd x"
    if none: "position (fst x) = None" "Option.bind (key (fst x)) (jm_get anchors) = None" "snd x \<noteq> PosInf"
  proof -
    obtain y where y: "y \<in> set entries" "position y \<noteq> None" "snd x = Fin (the (position y))"
      using anchored_next [OF assms none] .
    then have "y \<in> set (map fst ?A)" by simp
    then obtain z where z: "z \<in> set ?A" "fst z = y" by (auto simp del: map_fst_anchored)
    then have "snd z = Fin (the (position y))" using y by (auto intro: anchored_position)
    then show ?thesis using y z by auto
  qed
  show ?thesis
    using assms given following anchored_position [OF assms]
    by (auto simp: settled_rank_def split: option.split)
qed


lemma find_least:
  assumes "sorted (map f xs)" and "List.find P xs = Some z" and "y \<in> set xs" and "P y"
  shows "z \<in> set xs \<and> P z \<and> f z \<le> f y"
  using assms by (induction xs) (auto split: if_splits)

lemma next_in_ranked:
  assumes sorted: "sorted (map (rank position) (P @ x # S))"
    and settled: "\<forall>y\<in>set (P @ x # S). settled_rank key position anchors (P @ x # S) y"
    and flight: "position (fst x) = None" "Option.bind (key (fst x)) (jm_get anchors) = None"
  shows "(case List.find (\<lambda>entry. position entry \<noteq> None) (map fst S) of None \<Rightarrow> PosInf
     | Some entry \<Rightarrow> Fin (the (position entry))) = snd x"
proof -
  let ?stored = "\<lambda>y. position (fst y) \<noteq> None"
  have at: "snd y = Fin (the (position (fst y)))" if "y \<in> set S" "?stored y" for y
    using settled that by (force simp: settled_rank_def)
  have after: "rank position x \<le> rank position y" if "y \<in> set S" for y
    using sorted that by (auto simp: sorted_append)
  have find: "List.find (\<lambda>entry. position entry \<noteq> None) (map fst S) = map_option fst (List.find ?stored S)"
    by (induction S) auto
  show ?thesis
  proof (cases "snd x = PosInf")
    case True
    have "\<not> ?stored y" if "y \<in> set S" for y
    proof
      assume "?stored y"
      then show False using at [OF that] after [OF that] True by (auto simp: rank_def case_prod_beta)
    qed
    then have "List.find ?stored S = None" by (auto simp: find_None_iff)
    then show ?thesis using True by (simp only: find option.simps)
  next
    case False
    then obtain y where y: "y \<in> set (P @ x # S)" "?stored y" "snd y = snd x"
      using settled flight by (force simp: settled_rank_def)
    have "rank position x < rank position y" using y flight by (auto simp: rank_def case_prod_beta)
    moreover have "rank position z \<le> rank position x" if "z \<in> set P" for z
      using sorted that by (auto simp: sorted_append)
    ultimately have "y \<notin> set P" "y \<noteq> x" by (metis leD, metis less_irrefl)
    then have "y \<in> set S" using y by simp
    then have "List.find ?stored S \<noteq> None" using y unfolding find_None_iff by blast
    then obtain z where z: "List.find ?stored S = Some z" by blast
    have "sorted (map (rank position) S)" using sorted by (simp add: sorted_append)
    then have least: "z \<in> set S" "?stored z" "rank position z \<le> rank position y"
      using find_least [OF _ z \<open>y \<in> set S\<close>] y by auto
    then have "snd z = snd x"
      using after [OF least(1)] y flight by (auto simp: rank_def case_prod_beta split: if_splits)
    then show ?thesis using at [OF least(1,2)] unfolding find z by simp
  qed
qed

lemma anchored_ranked:
  assumes "sorted (map (rank position) (P @ S))"
    and "\<forall>y\<in>set (P @ S). settled_rank key position anchors (P @ S) y"
  shows "fst (anchored key position anchors (map fst S)) = S"
  using assms
proof (induction S arbitrary: P)
  case (Cons x S)
  have "fst (anchored key position anchors (map fst S)) = S"
    using Cons.IH [of "P @ [x]"] Cons.prems by simp
  moreover have "settled_rank key position anchors (P @ x # S) x" using Cons.prems(2) by simp
  moreover have "entry_anchor key position anchors (fst x) (snd (anchored key position anchors (map fst S))) = snd x"
    if "position (fst x) = None"
    using next_in_ranked [OF Cons.prems(1)] Cons.prems(2) that \<open>settled_rank _ _ _ _ x\<close>
    by (cases "Option.bind (key (fst x)) (jm_get anchors)")
      (auto simp: entry_anchor_def snd_anchored settled_rank_def simp del: set_append)
  ultimately show ?case
    by (cases "position (fst x)") (auto simp: case_prod_beta Let_def settled_rank_def entry_anchor_def prod_eq_iff)
qed simp

lemma order_again: "orderNativePositionEntries key position (orderNativePositionEntries key position entries anchors) anchors
  = orderNativePositionEntries key position entries anchors"
proof -
  let ?R = "ranked key position anchors entries"
  have same: "set ?R = set (fst (anchored key position anchors entries))" by (simp add: ranked_def)
  have "settled_rank key position anchors ?R y" if "y \<in> set ?R" for y
    using settled_anchored [of y key position anchors entries] that same by (simp only: settled_rank_def)
  then have "fst (anchored key position anchors (map fst ?R)) = ?R"
    using anchored_ranked [of position "[]" ?R key anchors] sorted_ranked [of position key anchors entries] by simp
  then have "ranked key position anchors (map fst ?R) = ?R"
    using sorted_ranked [of position key anchors entries]
    by (simp add: ranked_def sort_key_id_if_sorted)
  then show ?thesis by (simp add: order_ranked)
qed


subsection \<open>The items of a turn\<close>

lemma anchored_cong:
  assumes "\<And>e. e \<in> set entries \<Longrightarrow> position e = None \<Longrightarrow>
    Option.bind (key e) (jm_get anchors) = Option.bind (key e) (jm_get anchors')"
  shows "anchored key position anchors entries = anchored key position anchors' entries"
  using assms by (induction entries) (auto simp: case_prod_beta Let_def entry_anchor_def split: option.split)

definition next_stored :: "('a \<Rightarrow> int option) \<Rightarrow> 'a list \<Rightarrow> jsord" where
  "next_stored position entries = (case List.find (\<lambda>entry. position entry \<noteq> None) entries of
     None \<Rightarrow> PosInf | Some entry \<Rightarrow> Fin (the (position entry)))"

lemma next_stored_Cons [simp]: "next_stored position (e # entries) =
    (case position e of None \<Rightarrow> next_stored position entries | Some p \<Rightarrow> Fin p)"
  by (auto simp: next_stored_def split: option.split)

lemma next_stored_Nil [simp]: "next_stored position [] = PosInf"
  by (simp add: next_stored_def)

lemma snd_next_stored: "snd (anchored key position anchors entries) = next_stored position entries"
  by (simp add: snd_anchored next_stored_def)

definition lead_anchors :: "RuntimeConversationItem list \<Rightarrow> (string, jsord) jsmap \<Rightarrow> (string, jsord) jsmap" where
  "lead_anchors items m = foldl (\<lambda>anchors item. if leads_items item then jm_set (itId item) NegInf anchors else anchors) m items"

lemma lead_anchors_get: "jm_get (lead_anchors items m) i =
    (if \<exists>item\<in>set items. leads_items item \<and> itId item = i then Some NegInf else jm_get m i)"
  unfolding lead_anchors_def by (induction items arbitrary: m) auto

lemma native_positions_item:
  assumes "distinct (map itId items)" and "item \<in> set items"
  shows "jm_get (native_positions item_key itPosition items) (itId item) = itPosition item"
proof -
  let ?E = "concat (map (\<lambda>entry. case (Some (itId entry), itPosition entry) of (Some i, Some p) \<Rightarrow> [(i, p)] | _ \<Rightarrow> []) items)"
  have in_E: "(i, p) \<in> set ?E \<longleftrightarrow> (\<exists>e\<in>set items. itId e = i \<and> itPosition e = Some p)" for i p
    by (auto split: option.splits) metis
  have only: "e = item" if "e \<in> set items" "itId e = itId item" for e
    using assms that by (auto simp: distinct_map dest: inj_onD)
  show ?thesis
  proof (cases "itPosition item")
    case None
    then have "(itId item, p) \<notin> set ?E" for p using only by (auto simp: in_E)
    then have "itId item \<notin> fst ` set ?E" by force
    then show ?thesis using None by (simp add: native_positions_def new_map_known)
  next
    case (Some p)
    then have "(itId item, p) \<in> set ?E" using assms(2) unfolding in_E by blast
    then have "itId item \<in> fst ` set ?E" by force
    then obtain q where q: "jm_get (new_map ?E) (itId item) = Some q"
      using new_map_known [of ?E "itId item"] by fastforce
    then have "(itId item, q) \<in> set ?E" by (rule new_map_in)
    then have "q = p" using Some only by (auto simp: in_E)
    then show ?thesis using q Some by (simp add: native_positions_def)
  qed
qed

lemma anchor_fold_item:
  assumes "distinct (map itId S)" and "\<And>e. e \<in> set S \<Longrightarrow> jm_get positions (itId e) = itPosition e"
  shows "snd (foldr (anchor_step item_key positions True) S ([], PosInf)) = next_stored itPosition S
    \<and> (\<forall>i. i \<notin> itId ` set S \<longrightarrow> jm_get (fst (foldr (anchor_step item_key positions True) S ([], PosInf))) i = None)
    \<and> (\<forall>P e Q. S = P @ e # Q \<and> itPosition e = None \<longrightarrow>
         jm_get (fst (foldr (anchor_step item_key positions True) S ([], PosInf))) (itId e) = Some (next_stored itPosition Q))"
  using assms
proof (induction S)
  case (Cons x S)
  obtain m n where mn: "foldr (anchor_step item_key positions True) S ([], PosInf) = (m, n)" by fastforce
  have x: "jm_get positions (itId x) = itPosition x" using Cons.prems by simp
  have ih: "snd (m, n) = next_stored itPosition S
    \<and> (\<forall>i. i \<notin> itId ` set S \<longrightarrow> jm_get (fst (m, n)) i = None)
    \<and> (\<forall>P e Q. S = P @ e # Q \<and> itPosition e = None \<longrightarrow>
         jm_get (fst (m, n)) (itId e) = Some (next_stored itPosition Q))"
    unfolding mn [symmetric] by (rule Cons.IH) (use Cons.prems in auto)
  have IH: "n = next_stored itPosition S" "\<And>i. i \<notin> itId ` set S \<Longrightarrow> jm_get m i = None"
    "\<And>P e Q. S = P @ e # Q \<Longrightarrow> itPosition e = None \<Longrightarrow> jm_get m (itId e) = Some (next_stored itPosition Q)"
    using ih unfolding fst_conv snd_conv by blast+
  have new: "itId x \<notin> itId ` set S" using Cons.prems by simp
  have step: "foldr (anchor_step item_key positions True) (x # S) ([], PosInf)
      = (case itPosition x of None \<Rightarrow> (jm_set (itId x) n m, n) | Some p \<Rightarrow> (m, Fin p))"
    by (simp add: mn anchor_step_def x split: option.split)
  have third: "jm_get (fst (case itPosition x of None \<Rightarrow> (jm_set (itId x) n m, n) | Some p \<Rightarrow> (m, Fin p))) (itId e)
      = Some (next_stored itPosition Q)" if split: "x # S = P @ e # Q" and flight: "itPosition e = None" for P e Q
  proof (cases P)
    case Nil
    then show ?thesis using split flight IH(1) by simp
  next
    case (Cons y P')
    then have "S = P' @ e # Q" "itId e \<noteq> itId x" using split new by auto
    then show ?thesis using IH(3) [of P' e Q] flight by (simp split: option.split)
  qed
  show ?case
    unfolding step
  proof (intro conjI allI impI, goal_cases)
    case 1
    show ?case using IH(1) by (simp split: option.split)
  next
    case (2 i)
    then show ?case using IH(2) by (auto split: option.split)
  next
    case (3 P e Q)
    then show ?case using third by blast
  qed
qed simp

lemma observed_item:
  assumes "distinct (map itId items)" and "items = P @ e # Q" and "itPosition e = None"
    and "\<exists>item\<in>set items. itPosition item \<noteq> None"
  shows "jm_get (observedNativePositionAnchors item_key itPosition items [items]) (itId e)
    = Some (next_stored itPosition Q)"
proof -
  let ?p = "native_positions item_key itPosition items"
  have "list_ex (\<lambda>entry. opt_truthy (\<lambda>i. jm_get ?p i \<noteq> None) (item_key entry)) items"
    using assms(4) native_positions_item [OF assms(1)] by (auto simp: list_ex_iff)
  then show ?thesis
    using anchor_fold_item [OF assms(1), of ?p] native_positions_item [OF assms(1)] assms(2,3)
    by (simp add: observedNativePositionAnchors_def anchor_source_def)
qed

lemma anchored_observed:
  assumes "distinct (map itId items)" and "items = P @ Q"
    and "\<exists>item\<in>set items. itPosition item \<noteq> None"
  shows "anchored item_key itPosition (item_anchors items None) Q
    = anchored item_key itPosition (lead_anchors items []) Q"
  using assms(2)
proof (induction Q arbitrary: P)
  case (Cons e Q)
  have "anchored item_key itPosition (item_anchors items None) Q
      = anchored item_key itPosition (lead_anchors items []) Q"
    using Cons.IH [of "P @ [e]"] Cons.prems by simp
  moreover have "entry_anchor item_key itPosition (item_anchors items None) e (next_stored itPosition Q)
      = entry_anchor item_key itPosition (lead_anchors items []) e (next_stored itPosition Q)"
    using observed_item [OF assms(1) Cons.prems _ assms(3)]
    by (auto simp: entry_anchor_def item_anchors_def lead_anchors_get simp flip: lead_anchors_def split: option.split)
  ultimately show ?case
    by (auto simp: case_prod_beta Let_def snd_next_stored entry_anchor_def split: option.split)
qed simp

lemma items_ranked:
  assumes "distinct (map itId items)" and "\<exists>item\<in>set items. itPosition item \<noteq> None"
  shows "orderRuntimeConversationItems items None
    = orderNativePositionEntries item_key itPosition items (lead_anchors items [])"
  using anchored_observed [OF assms(1) _ assms(2), of "[]"] assms(2)
  by (auto simp: orderRuntimeConversationItems_def order_ranked ranked_def list_ex_iff)


lemma lead_anchors_same:
  "set items = set items' \<Longrightarrow> jm_get (lead_anchors items m) i = jm_get (lead_anchors items' m) i"
  by (simp add: lead_anchors_get)

lemma sort_key_min_first:
  fixes f :: "'a \<Rightarrow> 'k::linorder"
  assumes "\<And>x. x \<in> set xs \<Longrightarrow> m \<le> f x"
  shows "sort_key f xs = filter (\<lambda>x. f x = m) xs @ sort_key f (filter (\<lambda>x. f x \<noteq> m) xs)"
  using assms
proof (induction xs)
  case (Cons x xs)
  have past: "insort_key f x (A @ B) = A @ insort_key f x B" if "\<And>a. a \<in> set A \<Longrightarrow> \<not> f x \<le> f a" for A B
    using that by (induction A) auto
  have IH: "sort_key f xs = filter (\<lambda>x. f x = m) xs @ sort_key f (filter (\<lambda>x. f x \<noteq> m) xs)"
    using Cons by simp
  show ?case
  proof (cases "f x = m")
    case True
    then have "insort_key f x (sort_key f xs) = x # sort_key f xs"
      using Cons.prems by (intro insort_is_Cons) simp
    then show ?thesis using True IH by simp
  next
    case False
    then have "m < f x" using Cons.prems [of x] by simp
    then have "insort_key f x (filter (\<lambda>x. f x = m) xs @ sort_key f (filter (\<lambda>x. f x \<noteq> m) xs))
      = filter (\<lambda>x. f x = m) xs @ insort_key f x (sort_key f (filter (\<lambda>x. f x \<noteq> m) xs))"
      by (intro past) auto
    then show ?thesis using False by (simp add: IH)
  qed
qed simp

lemma lead_rank:
  assumes "distinct (map itId items)" and "x \<in> set (fst (anchored item_key itPosition (lead_anchors items []) items))"
  shows "rank itPosition x = (NegInf, False) \<longleftrightarrow> leads_items (fst x)"
proof -
  let ?A = "fst (anchored item_key itPosition (lead_anchors items []) items)"
  have settled: "settled_rank item_key itPosition (lead_anchors items []) ?A x"
    using assms(2) by (rule settled_anchored)
  have "fst x \<in> set items"
    using assms(2) by (metis image_eqI list.set_map map_fst_anchored)
  then have only: "e = fst x" if "e \<in> set items" "itId e = itId (fst x)" for e
    using assms(1) that by (auto simp: distinct_map dest: inj_onD)
  show ?thesis
  proof (cases "leads_items (fst x)")
    case True
    then have "jm_get (lead_anchors items []) (itId (fst x)) = Some NegInf" "itPosition (fst x) = None"
      using \<open>fst x \<in> set items\<close> by (auto simp: lead_anchors_get leads_items_def)
    then show ?thesis using settled True by (simp add: settled_rank_def rank_def case_prod_beta)
  next
    case False
    then have none: "jm_get (lead_anchors items []) (itId (fst x)) = None"
      using only by (auto simp: lead_anchors_get)
    have "snd x \<noteq> NegInf"
    proof (cases "itPosition (fst x)")
      case None
      then have "snd x = PosInf \<or> (\<exists>y\<in>set ?A. itPosition (fst y) \<noteq> None \<and> snd y = snd x)"
        using settled none by (simp add: settled_rank_def)
      moreover have "snd y \<noteq> NegInf" if "y \<in> set ?A" "itPosition (fst y) \<noteq> None" for y
        using that by (auto dest: anchored_position)
      ultimately show ?thesis by (metis jsord.distinct(3))
    qed (use settled in \<open>simp add: settled_rank_def\<close>)
    then show ?thesis using False by (simp add: rank_def case_prod_beta)
  qed
qed

subsection \<open>Properties\<close>

lemma ordered_items:
  "mset (orderRuntimeConversationItems items observed) = mset items"
  "sorted (map (\<lambda>item. the (itPosition item)) (filter (\<lambda>item. itPosition item \<noteq> None)
     (orderRuntimeConversationItems items observed)))"
  "filter (\<lambda>item. itPosition item = Some p) (orderRuntimeConversationItems items observed)
     = filter (\<lambda>item. itPosition item = Some p) items"
proof -
  have "filter (\<lambda>item. itPosition item \<noteq> None) items = []" if "\<not> list_ex (\<lambda>item. itPosition item \<noteq> None) items"
    using that by (auto simp: list_ex_iff filter_empty_conv)
  then show "mset (orderRuntimeConversationItems items observed) = mset items"
    "sorted (map (\<lambda>item. the (itPosition item)) (filter (\<lambda>item. itPosition item \<noteq> None)
       (orderRuntimeConversationItems items observed)))"
    "filter (\<lambda>item. itPosition item = Some p) (orderRuntimeConversationItems items observed)
       = filter (\<lambda>item. itPosition item = Some p) items"
    using order_sorted [of itPosition item_key items] order_same_position [of itPosition p item_key items]
    by (auto simp: orderRuntimeConversationItems_def)
qed

text \<open>C13: Ordering the items of a turn loses none and repeats none; the stored ones come by native position, and
  items stored at the same position keep their order.\<close>

theorem stored_items_in_order:
  "mset (orderRuntimeConversationItems items observed) = mset items \<and>
   sorted (map (\<lambda>item. the (itPosition item)) (filter (\<lambda>item. itPosition item \<noteq> None)
     (orderRuntimeConversationItems items observed))) \<and>
   filter (\<lambda>item. itPosition item = Some p) (orderRuntimeConversationItems items observed)
     = filter (\<lambda>item. itPosition item = Some p) items"
  using ordered_items by blast

text \<open>Ordering settles in one round: items in flight stay before the stored item they were observed before, so
  ordering the result again changes nothing, although the anchors are then read off the new order.\<close>

theorem item_order_settles:
  assumes "distinct (map itId items)"
  shows "orderRuntimeConversationItems (orderRuntimeConversationItems items None) None
    = orderRuntimeConversationItems items None"
proof (cases "\<exists>item\<in>set items. itPosition item \<noteq> None")
  case True
  let ?O = "orderNativePositionEntries item_key itPosition items (lead_anchors items [])"
  have same: "set ?O = set items" by (metis mset_order set_mset_mset)
  have "distinct (map itId ?O)" using assms
    by (metis mset_order mset_map mset_eq_imp_distinct_iff)
  then have "orderRuntimeConversationItems ?O None
      = orderNativePositionEntries item_key itPosition ?O (lead_anchors ?O [])"
    by (rule items_ranked) (use True same in simp)
  also have "\<dots> = orderNativePositionEntries item_key itPosition ?O (lead_anchors items [])"
    using anchored_cong [of ?O itPosition item_key "lead_anchors ?O []" "lead_anchors items []"]
      lead_anchors_same [OF same] by (simp add: order_ranked ranked_def)
  finally show ?thesis by (simp add: items_ranked [OF assms True] order_again)
qed (auto simp: orderRuntimeConversationItems_def list_ex_iff)

definition demo_item :: "string \<Rightarrow> int option \<Rightarrow> RuntimeConversationItem" where
  "demo_item i p = \<lparr>itId = i, itPosition = p, itBody = AssistantText [] None []\<rparr>"

definition demo_prompt :: "string \<Rightarrow> RuntimeConversationItem" where
  "demo_prompt i = \<lparr>itId = i, itPosition = None, itBody = UserMessage (new_message_fields i RoleUser [] WmDone [])\<rparr>"

lemma demo_leads [simp]: "leads_items (demo_prompt i)" "\<not> leads_items (demo_item i p)"
  by (simp_all add: demo_prompt_def demo_item_def leads_items_def new_message_fields_def nullish_def)

lemma demo_fields [simp]: "itId (demo_prompt i) = i" "itPosition (demo_prompt i) = None"
  "itId (demo_item i p) = i" "itPosition (demo_item i p) = p"
  by (simp_all add: demo_prompt_def demo_item_def)

lemma demo_order: "orderRuntimeConversationItems
    [demo_item ''a'' None, demo_item ''b'' (Some 2), demo_prompt ''u'', demo_item ''c'' (Some 1)] None
  = [demo_prompt ''u'', demo_item ''c'' (Some 1), demo_item ''a'' None, demo_item ''b'' (Some 2)]"
  by code_simp

theorem item_order_settles_witness:
  "orderRuntimeConversationItems
     [demo_prompt ''u'', demo_item ''c'' (Some 1), demo_item ''a'' None, demo_item ''b'' (Some 2)] None
   = [demo_prompt ''u'', demo_item ''c'' (Some 1), demo_item ''a'' None, demo_item ''b'' (Some 2)]"
  using item_order_settles [of "[demo_item ''a'' None, demo_item ''b'' (Some 2), demo_prompt ''u'', demo_item ''c'' (Some 1)]"]
  by (simp add: demo_order)

text \<open>When a turn has stored items, the prompts that are not stored yet come before everything else, in the order
  they were given; guidance sent to a running turn does not count as a prompt.\<close>

theorem prompts_lead:
  assumes "distinct (map itId items)" and "\<exists>item\<in>set items. itPosition item \<noteq> None"
  shows "\<exists>rest. orderRuntimeConversationItems items None = filter leads_items items @ rest \<and>
    (\<forall>item\<in>set rest. \<not> leads_items item)"
proof -
  let ?A = "fst (anchored item_key itPosition (lead_anchors items []) items)"
  let ?r = "rank itPosition"
  have "(NegInf, False) \<le> ?r x" for x :: "RuntimeConversationItem \<times> jsord"
    by (cases x) (auto simp: rank_def less_eq_prod_def order_le_less)
  then have "sort_key ?r ?A = filter (\<lambda>x. ?r x = (NegInf, False)) ?A
      @ sort_key ?r (filter (\<lambda>x. ?r x \<noteq> (NegInf, False)) ?A)"
    by (rule sort_key_min_first)
  also have "filter (\<lambda>x. ?r x = (NegInf, False)) ?A = filter (leads_items \<circ> fst) ?A"
    by (rule filter_cong) (auto simp: lead_rank [OF assms(1)])
  finally have "orderRuntimeConversationItems items None = filter leads_items items
      @ map fst (sort_key ?r (filter (\<lambda>x. ?r x \<noteq> (NegInf, False)) ?A))"
    unfolding items_ranked [OF assms] order_ranked ranked_def
    by (simp del: map_fst_anchored flip: filter_map) simp
  moreover have "\<not> leads_items (fst x)" if "x \<in> set (filter (\<lambda>x. ?r x \<noteq> (NegInf, False)) ?A)" for x
    using that lead_rank [OF assms(1), of x] by simp
  ultimately show ?thesis by fastforce
qed

theorem prompts_lead_witness:
  "\<exists>rest. orderRuntimeConversationItems [demo_item ''a'' (Some 1), demo_prompt ''u''] None = demo_prompt ''u'' # rest"
  using prompts_lead [of "[demo_item ''a'' (Some 1), demo_prompt ''u'']"] by auto

lemma mset_sort_by [simp]: "mset (sort_by f xs) = mset xs"
  by (simp add: sort_by_def sort_key_index)

text \<open>Ordering the turns loses none: the turns without an id yet come last in the order given, the others
  before them, and where there are native positions they ascend.\<close>

theorem turns_in_order:
  "\<exists>ordered. orderRuntimeConversationTurns pd turns sources = ordered @ filter (\<lambda>turn. tnId turn = None) turns \<and>
     mset ordered = mset (filter (\<lambda>turn. tnId turn \<noteq> None) turns) \<and>
     sorted (map (\<lambda>turn. the (tnPosition turn)) (filter (\<lambda>turn. tnPosition turn \<noteq> None) ordered))"
proof -
  let ?I = "filter (\<lambda>turn. tnId turn \<noteq> None) turns"
  have none: "filter (\<lambda>turn. tnPosition turn \<noteq> None) ts = []"
    if "\<not> list_ex (\<lambda>turn. tnPosition turn \<noteq> None) ?I" "mset ts = mset ?I" for ts
    using that mset_eq_setD [OF that(2)] by (auto simp: list_ex_iff filter_empty_conv)
  define ordered where "ordered =
    (if list_ex (\<lambda>turn. tnPosition turn \<noteq> None) ?I then
       orderNativePositionEntries tnId tnPosition ?I (observedNativePositionAnchors tnId tnPosition turns sources)
     else if list_all (\<lambda>turn. tnRuntimeMessageIndex turn \<noteq> None) ?I then
       sort_by (\<lambda>turn. the_or 0 (tnRuntimeMessageIndex turn)) ?I
     else if list_all (\<lambda>turn. runtimeConversationTurnTimestamp pd turn \<noteq> None) ?I then
       sort_by (\<lambda>turn. the_or 0 (runtimeConversationTurnTimestamp pd turn)) ?I
     else ?I)"
  have same: "mset ordered = mset ?I" by (auto simp: ordered_def)
  have "sorted (map (\<lambda>turn. the (tnPosition turn)) (filter (\<lambda>turn. tnPosition turn \<noteq> None) ordered))"
  proof (cases "list_ex (\<lambda>turn. tnPosition turn \<noteq> None) ?I")
    case True
    then have "ordered = orderNativePositionEntries tnId tnPosition ?I
        (observedNativePositionAnchors tnId tnPosition turns sources)"
      by (simp only: ordered_def if_True)
    then show ?thesis by (simp only: order_sorted)
  next
    case False
    from none [OF this same] show ?thesis by (simp only: list.map sorted_wrt.simps)
  qed
  moreover have "orderRuntimeConversationTurns pd turns sources = ordered @ filter (\<lambda>turn. tnId turn = None) turns"
    by (simp only: orderRuntimeConversationTurns_def Let_def ordered_def)
  ultimately show ?thesis using same by blast
qed

end
