(* ===== verification/TextAliases.thy ===== *)
theory TextAliases
  imports ConversationTypes "HOL-Library.Sublist"
begin

text \<open>
  One text of the assistant can be known twice, as provisional items under other ids or as a text block.
  \<open>removeEquivalentAssistantTextItems\<close> of \<open>packages/chat-core/src/runtime-turn-merge.ts\<close> drops the local copies:
  each item of the snapshot stands for at most one of them. The code looks candidates up by their content, in two
  queues with a cursor and a set of consumed indexes; the specification searches the list of what is left.
\<close>

subsection \<open>Representations of a text\<close>

definition assistantTextRepresentationContent :: "RuntimeConversationItem \<Rightarrow> ustring option" where
  "assistantTextRepresentationContent item = (case itBody item of
       AssistantText content _ _ \<Rightarrow> Some content
     | BlockItem block \<Rightarrow> if pb_type block = KText then Some (the_or [] (got (wbContent (pbFields block)))) else None
     | UserMessage _ \<Rightarrow> None)"

definition is_assistant_text :: "RuntimeConversationItem \<Rightarrow> bool" where
  "is_assistant_text item \<longleftrightarrow> (case itBody item of AssistantText _ _ _ \<Rightarrow> True | _ \<Rightarrow> False)"

definition same_item_type :: "RuntimeConversationItem \<Rightarrow> RuntimeConversationItem \<Rightarrow> bool" where
  "same_item_type a b \<longleftrightarrow> (case (itBody a, itBody b) of
       (UserMessage _, UserMessage _) \<Rightarrow> True
     | (AssistantText _ _ _, AssistantText _ _ _) \<Rightarrow> True
     | (BlockItem _, BlockItem _) \<Rightarrow> True
     | _ \<Rightarrow> False)"

definition isEquivalentAssistantTextRepresentation ::
    "RuntimeConversationItem \<Rightarrow> RuntimeConversationItem \<Rightarrow> bool" where
  "isEquivalentAssistantTextRepresentation local snapshot =
     (if itId local = itId snapshot then False
      else if itPosition local \<noteq> None then False
      else if is_assistant_text local \<and> is_assistant_text snapshot
        then assistantTextRepresentationContent local = assistantTextRepresentationContent snapshot
      else if same_item_type local snapshot then False
      else assistantTextRepresentationContent local \<noteq> None
        \<and> assistantTextRepresentationContent local = assistantTextRepresentationContent snapshot)"

subsection \<open>Candidate queues\<close>

record AssistantTextCandidate =
  cdItem :: RuntimeConversationItem
  cdQueueIndex :: nat
  cdSnapshotIndex :: nat

record AssistantTextCandidateQueue =
  cqCandidates :: "AssistantTextCandidate list"
  cqCursor :: nat
  cqConsumedIndexes :: "nat list"

record AssistantTextCandidateGroup =
  cgAssistantText :: AssistantTextCandidateQueue
  cgTextBlock :: AssistantTextCandidateQueue

definition createAssistantTextCandidateGroup :: AssistantTextCandidateGroup where
  "createAssistantTextCandidateGroup =
     (let queue = \<lparr>cqCandidates = [], cqCursor = 0, cqConsumedIndexes = []\<rparr>
      in \<lparr>cgAssistantText = queue, cgTextBlock = queue\<rparr>)"

text \<open>The code passes the queues of a group around by reference; here by name.\<close>

datatype queue_name = AssistantTextQueue | TextBlockQueue

fun get_queue :: "queue_name \<Rightarrow> AssistantTextCandidateGroup \<Rightarrow> AssistantTextCandidateQueue" where
  "get_queue AssistantTextQueue g = cgAssistantText g"
| "get_queue TextBlockQueue g = cgTextBlock g"

fun put_queue ::
    "queue_name \<Rightarrow> AssistantTextCandidateQueue \<Rightarrow> AssistantTextCandidateGroup \<Rightarrow> AssistantTextCandidateGroup" where
  "put_queue AssistantTextQueue q g = g\<lparr>cgAssistantText := q\<rparr>"
| "put_queue TextBlockQueue q g = g\<lparr>cgTextBlock := q\<rparr>"

definition assistantTextCandidateQueue :: "RuntimeConversationItem \<Rightarrow> queue_name" where
  "assistantTextCandidateQueue item = (if is_assistant_text item then AssistantTextQueue else TextBlockQueue)"

definition assistantTextCandidateQueues :: "RuntimeConversationItem \<Rightarrow> queue_name list" where
  "assistantTextCandidateQueues localItem =
     (if is_assistant_text localItem then [AssistantTextQueue, TextBlockQueue] else [AssistantTextQueue])"

text \<open>The loop that moves a cursor past what is consumed.\<close>

function advance :: "nat list \<Rightarrow> nat \<Rightarrow> nat" where
  "advance consumed cursor = (if cursor \<in> set consumed then advance consumed (cursor + 1) else cursor)"
  by pat_completeness auto
termination
proof (relation "measure (\<lambda>(consumed, cursor). card {i \<in> set consumed. cursor \<le> i})")
  fix consumed and cursor :: nat
  assume "cursor \<in> set consumed"
  then have "card {i \<in> set consumed. cursor + 1 \<le> i} < card (insert cursor {i \<in> set consumed. cursor + 1 \<le> i})"
    by simp
  also have "insert cursor {i \<in> set consumed. cursor + 1 \<le> i} = {i \<in> set consumed. cursor \<le> i}"
    using \<open>cursor \<in> set consumed\<close> by (auto simp: Suc_le_eq le_less)
  finally show "((consumed, cursor + 1), consumed, cursor) \<in> measure (\<lambda>(consumed, cursor). card {i \<in> set consumed. cursor \<le> i})"
    by simp
qed simp

declare advance.simps [simp del]

definition peekAssistantTextCandidate ::
    "AssistantTextCandidateQueue \<Rightarrow> RuntimeConversationItem \<Rightarrow>
     AssistantTextCandidateQueue \<times> AssistantTextCandidate option" where
  "peekAssistantTextCandidate queue localItem =
     (let queue1 = queue\<lparr>cqCursor := advance (cqConsumedIndexes queue) (cqCursor queue)\<rparr>
      in (queue1, map_option ((!) (cqCandidates queue1)) (List.find (\<lambda>index.
            index \<notin> set (cqConsumedIndexes queue1) \<and>
            isEquivalentAssistantTextRepresentation localItem (cdItem (cqCandidates queue1 ! index)))
          [cqCursor queue1..<length (cqCandidates queue1)])))"

definition consumeAssistantTextCandidate ::
    "AssistantTextCandidateQueue \<Rightarrow> AssistantTextCandidate \<Rightarrow> AssistantTextCandidateQueue" where
  "consumeAssistantTextCandidate queue candidate =
     (let consumed = js_add (cdQueueIndex candidate) (cqConsumedIndexes queue)
      in queue\<lparr>cqConsumedIndexes := consumed, cqCursor := advance consumed (cqCursor queue)\<rparr>)"

subsection \<open>Removing local copies\<close>

text \<open>A stored item whose provisional self is local is no candidate.\<close>

definition alias_reserved :: "(string, RuntimeConversationItem) jsmap \<Rightarrow> RuntimeConversationItem \<Rightarrow> bool" where
  "alias_reserved localById item \<longleftrightarrow> itPosition item \<noteq> None \<and>
     (case jm_get localById (itId item) of None \<Rightarrow> False | Some l \<Rightarrow> itPosition l = None)"

definition push_candidate ::
    "(string, RuntimeConversationItem) jsmap \<Rightarrow> (ustring, AssistantTextCandidateGroup) jsmap \<Rightarrow>
     nat \<times> RuntimeConversationItem \<Rightarrow> (ustring, AssistantTextCandidateGroup) jsmap" where
  "push_candidate localById candidateGroups entry = (let (index, item) = entry in
     if alias_reserved localById item then candidateGroups
     else case assistantTextRepresentationContent item of
         None \<Rightarrow> candidateGroups
       | Some content \<Rightarrow>
           let grp = the_or createAssistantTextCandidateGroup (jm_get candidateGroups content);
               name = assistantTextCandidateQueue item;
               queue = get_queue name grp;
               queue1 = queue\<lparr>cqCandidates := cqCandidates queue
                 @ [\<lparr>cdItem = item, cdQueueIndex = length (cqCandidates queue), cdSnapshotIndex = index\<rparr>]\<rparr>
           in jm_set content (put_queue name queue1 grp) candidateGroups)"

definition peek_queue ::
    "RuntimeConversationItem \<Rightarrow> AssistantTextCandidateGroup \<times> (queue_name \<times> AssistantTextCandidate) list \<Rightarrow>
     queue_name \<Rightarrow> AssistantTextCandidateGroup \<times> (queue_name \<times> AssistantTextCandidate) list" where
  "peek_queue localItem s name = (let (grp, found) = s;
       (queue, candidate) = peekAssistantTextCandidate (get_queue name grp) localItem
     in (put_queue name queue grp, found @ (case candidate of None \<Rightarrow> [] | Some c \<Rightarrow> [(name, c)])))"

definition match_alias ::
    "AssistantTextCandidateGroup \<Rightarrow> RuntimeConversationItem \<Rightarrow> AssistantTextCandidateGroup \<times> bool" where
  "match_alias grp localItem =
     (let (grp1, found) = foldl (peek_queue localItem) (grp, []) (assistantTextCandidateQueues localItem)
      in case sort_key (\<lambda>entry. cdSnapshotIndex (snd entry)) found of
           [] \<Rightarrow> (grp1, False)
         | (name, candidate) # _ \<Rightarrow>
             (put_queue name (consumeAssistantTextCandidate (get_queue name grp1) candidate) grp1, True))"

fun keep_unaliased ::
    "(ustring, AssistantTextCandidateGroup) jsmap \<Rightarrow> RuntimeConversationItem list \<Rightarrow> RuntimeConversationItem list" where
  "keep_unaliased candidateGroups [] = []"
| "keep_unaliased candidateGroups (localItem # localItems) =
     (case assistantTextRepresentationContent localItem of
        None \<Rightarrow> localItem # keep_unaliased candidateGroups localItems
      | Some content \<Rightarrow> (case jm_get candidateGroups content of
            None \<Rightarrow> localItem # keep_unaliased candidateGroups localItems
          | Some grp \<Rightarrow>
              let (grp1, matched) = match_alias grp localItem;
                  rest = keep_unaliased (jm_set content grp1 candidateGroups) localItems
              in if matched then rest else localItem # rest))"

definition removeEquivalentAssistantTextItems ::
    "RuntimeConversationItem list \<Rightarrow> RuntimeConversationItem list \<Rightarrow> RuntimeConversationItem list" where
  "removeEquivalentAssistantTextItems localItems snapshotItems =
     (let localById = new_map (map (\<lambda>item. (itId item, item)) localItems);
          candidateGroups = foldl (push_candidate localById) [] (zip [0..<length snapshotItems] snapshotItems)
      in keep_unaliased candidateGroups localItems)"

subsection \<open>The specification\<close>

definition remove_first :: "('a \<Rightarrow> bool) \<Rightarrow> 'a list \<Rightarrow> 'a list" where
  "remove_first P xs = takeWhile (\<lambda>x. \<not> P x) xs @ drop 1 (dropWhile (\<lambda>x. \<not> P x) xs)"

fun without_aliases ::
    "RuntimeConversationItem list \<Rightarrow> RuntimeConversationItem list \<Rightarrow> RuntimeConversationItem list" where
  "without_aliases candidates [] = []"
| "without_aliases candidates (l # ls) =
     (if list_ex (isEquivalentAssistantTextRepresentation l) candidates
      then without_aliases (remove_first (isEquivalentAssistantTextRepresentation l) candidates) ls
      else l # without_aliases candidates ls)"

definition alias_candidates ::
    "RuntimeConversationItem list \<Rightarrow> RuntimeConversationItem list \<Rightarrow> RuntimeConversationItem list" where
  "alias_candidates localItems snapshotItems = filter (\<lambda>item.
     \<not> alias_reserved (new_map (map (\<lambda>l. (itId l, l)) localItems)) item \<and>
     assistantTextRepresentationContent item \<noteq> None) snapshotItems"

subsection \<open>The queues hold what is left\<close>

definition live :: "AssistantTextCandidateQueue \<Rightarrow> AssistantTextCandidate list" where
  "live q = map ((!) (cqCandidates q)) (filter (\<lambda>i. i \<notin> set (cqConsumedIndexes q)) [0..<length (cqCandidates q)])"

definition queue_ok :: "AssistantTextCandidateQueue \<Rightarrow> bool" where
  "queue_ok q \<longleftrightarrow> (\<forall>i < length (cqCandidates q). cdQueueIndex (cqCandidates q ! i) = i) \<and>
     (\<forall>i < cqCursor q. i \<in> set (cqConsumedIndexes q)) \<and>
     (\<forall>i \<in> set (cqConsumedIndexes q). i < length (cqCandidates q))"

abbreviation candidate_pair :: "AssistantTextCandidate \<Rightarrow> nat \<times> RuntimeConversationItem" where
  "candidate_pair c \<equiv> (cdSnapshotIndex c, cdItem c)"

definition in_queue :: "ustring \<Rightarrow> queue_name \<Rightarrow> nat \<times> RuntimeConversationItem \<Rightarrow> bool" where
  "in_queue content name entry \<longleftrightarrow> assistantTextRepresentationContent (snd entry) = Some content \<and>
     assistantTextCandidateQueue (snd entry) = name"

definition group_holds ::
    "AssistantTextCandidateGroup \<Rightarrow> ustring \<Rightarrow> (nat \<times> RuntimeConversationItem) list \<Rightarrow> bool" where
  "group_holds g content R \<longleftrightarrow> (\<forall>name. queue_ok (get_queue name g) \<and>
     map candidate_pair (live (get_queue name g)) = filter (in_queue content name) R)"

definition holds ::
    "(ustring, AssistantTextCandidateGroup) jsmap \<Rightarrow> (nat \<times> RuntimeConversationItem) list \<Rightarrow> bool" where
  "holds groups R \<longleftrightarrow> sorted_wrt (\<lambda>a b. fst a < fst b) R \<and> (\<forall>content. case jm_get groups content of
       None \<Rightarrow> (\<forall>name. filter (in_queue content name) R = [])
     | Some g \<Rightarrow> group_holds g content R)"

lemma get_put [simp]:
  "get_queue n (put_queue m q g) = (if n = m then q else get_queue n g)"
  by (cases n; cases m) simp_all

lemma advance_skips: "\<forall>i < cursor. i \<in> set consumed \<Longrightarrow> \<forall>i < advance consumed cursor. i \<in> set consumed"
proof (induction consumed cursor rule: advance.induct)
  case (1 consumed cursor)
  then show ?case
    by (subst advance.simps) (auto simp: less_Suc_eq)
qed

lemma find_filter: "List.find P (filter Q xs) = List.find (\<lambda>x. Q x \<and> P x) xs"
  by (induction xs) auto

lemma find_map: "List.find P (map f xs) = map_option f (List.find (\<lambda>x. P (f x)) xs)"
  by (induction xs) auto

lemma find_skip: "\<forall>i < m. \<not> P i \<Longrightarrow> List.find P [m..<n] = List.find P [0..<n]"
proof (cases "m \<le> n")
  case True
  assume "\<forall>i < m. \<not> P i"
  then have "List.find P ([0..<m] @ xs) = List.find P xs" for xs
    by (induction m arbitrary: xs) auto
  then show ?thesis using upt_add_eq_append [of 0 m "n - m"] True by simp
next
  case False
  assume "\<forall>i < m. \<not> P i"
  then show ?thesis using False by (auto simp: find_None_iff eq_commute [of None])
qed

lemma peek_live:
  assumes "queue_ok q"
  obtains q' where "peekAssistantTextCandidate q l
      = (q', List.find (\<lambda>c. isEquivalentAssistantTextRepresentation l (cdItem c)) (live q))"
    and "live q' = live q" and "queue_ok q'"
proof
  let ?q = "q\<lparr>cqCursor := advance (cqConsumedIndexes q) (cqCursor q)\<rparr>"
  let ?P = "\<lambda>i. i \<notin> set (cqConsumedIndexes q) \<and> isEquivalentAssistantTextRepresentation l (cdItem (cqCandidates q ! i))"
  have before: "\<forall>i < cqCursor ?q. i \<in> set (cqConsumedIndexes q)"
    using advance_skips [of "cqCursor q" "cqConsumedIndexes q"] assms by (simp add: queue_ok_def)
  then have "List.find ?P [cqCursor ?q..<length (cqCandidates q)] = List.find ?P [0..<length (cqCandidates q)]"
    by (intro find_skip) auto
  then show "peekAssistantTextCandidate q l
      = (?q, List.find (\<lambda>c. isEquivalentAssistantTextRepresentation l (cdItem c)) (live q))"
    by (simp add: peekAssistantTextCandidate_def live_def find_map find_filter)
  show "live ?q = live q" by (simp add: live_def)
  show "queue_ok ?q" using before assms by (simp add: queue_ok_def)
qed

lemma queue_index: "queue_ok q \<Longrightarrow> i < length (cqCandidates q) \<Longrightarrow> cdQueueIndex (cqCandidates q ! i) = i"
  by (simp add: queue_ok_def)

lemma live_index: "queue_ok q \<Longrightarrow> c \<in> set (live q) \<Longrightarrow> cqCandidates q ! cdQueueIndex c = c
  \<and> cdQueueIndex c < length (cqCandidates q)"
  by (auto simp: live_def queue_index)

lemma consume_live:
  assumes "queue_ok q" and "c \<in> set (live q)"
  shows "live (consumeAssistantTextCandidate q c) = filter (\<lambda>d. cdQueueIndex d \<noteq> cdQueueIndex c) (live q)"
    and "queue_ok (consumeAssistantTextCandidate q c)"
proof -
  let ?k = "cdQueueIndex c"
  have "filter (\<lambda>i. cdQueueIndex (cqCandidates q ! i) \<noteq> ?k \<and> i \<notin> set (cqConsumedIndexes q)) [0..<length (cqCandidates q)]
      = filter (\<lambda>i. i \<noteq> ?k \<and> i \<notin> set (cqConsumedIndexes q)) [0..<length (cqCandidates q)]"
    by (rule filter_cong) (auto simp: queue_index [OF assms(1)])
  then show "live (consumeAssistantTextCandidate q c) = filter (\<lambda>d. cdQueueIndex d \<noteq> ?k) (live q)"
    by (simp add: live_def consumeAssistantTextCandidate_def Let_def filter_map comp_def conj_commute)
  have "\<forall>i < cqCursor q. i \<in> set (js_add ?k (cqConsumedIndexes q))"
    using assms(1) by (auto simp: queue_ok_def)
  from advance_skips [OF this] show "queue_ok (consumeAssistantTextCandidate q c)"
    using assms(1) live_index [OF assms] by (simp add: queue_ok_def consumeAssistantTextCandidate_def Let_def)
qed

lemma peek_fold:
  assumes "distinct names" and "\<forall>n. queue_ok (get_queue n g)"
  obtains g' where "foldl (peek_queue l) (g, found) names = (g', found @ concat (map (\<lambda>n.
        case List.find (\<lambda>c. isEquivalentAssistantTextRepresentation l (cdItem c)) (live (get_queue n g)) of
          None \<Rightarrow> [] | Some c \<Rightarrow> [(n, c)]) names))"
    and "\<forall>n. queue_ok (get_queue n g') \<and> live (get_queue n g') = live (get_queue n g)"
proof -
  have "\<exists>g'. foldl (peek_queue l) (g, found) names = (g', found @ concat (map (\<lambda>n.
        case List.find (\<lambda>c. isEquivalentAssistantTextRepresentation l (cdItem c)) (live (get_queue n g)) of
          None \<Rightarrow> [] | Some c \<Rightarrow> [(n, c)]) names)) \<and>
      (\<forall>n. queue_ok (get_queue n g') \<and> live (get_queue n g') = live (get_queue n g))"
    using assms
  proof (induction names arbitrary: g found)
    case (Cons n names)
    obtain q where q: "peekAssistantTextCandidate (get_queue n g) l
        = (q, List.find (\<lambda>c. isEquivalentAssistantTextRepresentation l (cdItem c)) (live (get_queue n g)))"
      and "live q = live (get_queue n g)" "queue_ok q"
      using peek_live [of "get_queue n g" l] Cons.prems by metis
    then have same: "\<forall>m. queue_ok (get_queue m (put_queue n q g)) \<and> live (get_queue m (put_queue n q g)) = live (get_queue m g)"
      using Cons.prems by simp
    show ?case
      using Cons.IH [of "put_queue n q g" "found @ (case List.find (\<lambda>c. isEquivalentAssistantTextRepresentation l (cdItem c))
          (live (get_queue n g)) of None \<Rightarrow> [] | Some c \<Rightarrow> [(n, c)])"] same Cons.prems
      by (simp add: peek_queue_def q)
  qed simp
  then show ?thesis using that by blast
qed

lemma sorted_distinct: "sorted_wrt (\<lambda>a b. fst a < (fst b :: nat)) R \<Longrightarrow> distinct (map fst R)"
  by (induction R) force+

lemma same_index:
  assumes "sorted_wrt (\<lambda>a b. fst a < (fst b :: nat)) R" and "d \<in> set R" and "e \<in> set R" and "fst d = fst e"
  shows "d = e"
  using sorted_distinct [OF assms(1)] assms(2-) by (auto simp: distinct_map dest: inj_onD)

lemma filter_removed:
  assumes "sorted_wrt (\<lambda>a b. fst a < fst b) R" and "(j, x) \<in> set R" and "in_queue content n (j, x)"
  shows "filter (in_queue c' m) (filter (\<lambda>e. fst e \<noteq> j) R) = (if c' = content \<and> m = n
     then filter (\<lambda>e. fst e \<noteq> j) (filter (in_queue content n) R) else filter (in_queue c' m) R)"
proof -
  have only: "e = (j, x)" if "e \<in> set R" "fst e = j" for e
    using same_index [OF assms(1) that(1) assms(2)] that(2) by simp
  have "in_queue c' m e \<and> fst e \<noteq> j \<longleftrightarrow> in_queue c' m e" if "e \<in> set R" "\<not> (c' = content \<and> m = n)" for e
    using that assms(3) only [OF that(1)] by (auto simp: in_queue_def prod_eq_iff)
  then show ?thesis by (auto simp: conj_commute intro!: filter_cong)
qed

lemma sorted_find:
  assumes "sorted_wrt (\<lambda>a b. fst a < (fst b :: nat)) R" and "List.find P R = Some e"
  shows "e \<in> set R \<and> P e \<and> (\<forall>d\<in>set R. P d \<longrightarrow> fst e \<le> fst d) \<and>
    map snd (filter (\<lambda>d. fst d \<noteq> fst e) R) = map snd (remove_first P R)"
  using assms
proof (induction R)
  case (Cons d R)
  show ?case
  proof (cases "P d")
    case True
    then have "filter (\<lambda>r. fst r \<noteq> fst d) R = R" using Cons.prems by (auto intro!: filter_True)
    then show ?thesis using True Cons.prems by (auto simp: remove_first_def)
  next
    case False
    then show ?thesis using Cons by (force simp: remove_first_def)
  qed
qed simp

lemma map_remove_first: "map f (remove_first (\<lambda>x. P (f x)) xs) = remove_first P (map f xs)"
  by (simp add: remove_first_def takeWhile_map dropWhile_map comp_def drop_map)


lemma match_alias_ok:
  assumes sorted: "sorted_wrt (\<lambda>a b. fst a < fst b) R" and g: "group_holds g content R"
    and content: "assistantTextRepresentationContent l = Some content"
  shows "\<exists>g' b. match_alias g l = (g', b) \<and>
    (case List.find (\<lambda>e. isEquivalentAssistantTextRepresentation l (snd e)) R of
       None \<Rightarrow> \<not> b \<and> group_holds g' content R
     | Some e \<Rightarrow> b \<and> in_queue content (assistantTextCandidateQueue (snd e)) e \<and>
         group_holds g' content (filter (\<lambda>d. fst d \<noteq> fst e) R))"
proof -
  let ?P = "\<lambda>e. isEquivalentAssistantTextRepresentation l (snd e)"
  let ?names = "assistantTextCandidateQueues l"
  let ?hit = "\<lambda>n. List.find (\<lambda>c. isEquivalentAssistantTextRepresentation l (cdItem c)) (live (get_queue n g))"
  have names: "distinct ?names" "\<And>e. ?P e \<Longrightarrow> assistantTextCandidateQueue (snd e) \<in> set ?names"
    by (auto simp: assistantTextCandidateQueues_def assistantTextCandidateQueue_def
        isEquivalentAssistantTextRepresentation_def is_assistant_text_def same_item_type_def
        assistantTextRepresentationContent_def split: conversation_item.splits if_splits)
  have placed: "in_queue content (assistantTextCandidateQueue (snd e)) e" if "?P e" for e
    using that content by (auto simp: in_queue_def isEquivalentAssistantTextRepresentation_def split: if_splits)
  have oks: "\<forall>n. queue_ok (get_queue n g)" and
    lives: "\<And>n. map candidate_pair (live (get_queue n g)) = filter (in_queue content n) R"
    using g by (auto simp: group_holds_def)
  have hit: "map_option candidate_pair (?hit n) = List.find ?P (filter (in_queue content n) R)" for n
    unfolding lives [symmetric] by (simp add: find_map)
  obtain g1 where fold: "foldl (peek_queue l) (g, []) ?names
      = (g1, [] @ concat (map (\<lambda>n. case ?hit n of None \<Rightarrow> [] | Some c \<Rightarrow> [(n, c)]) ?names))"
    and g1: "\<forall>n. queue_ok (get_queue n g1) \<and> live (get_queue n g1) = live (get_queue n g)"
    using peek_fold [OF names(1) oks] by blast
  define found where "found = concat (map (\<lambda>n. case ?hit n of None \<Rightarrow> [] | Some c \<Rightarrow> [(n, c)]) ?names)"
  have fold_found: "foldl (peek_queue l) (g, []) ?names = (g1, found)"
    using fold by (simp add: found_def)
  have in_found: "(n, c) \<in> set found \<longleftrightarrow> n \<in> set ?names \<and> ?hit n = Some c" for n c
    by (auto simp: found_def split: option.splits)
  have keep: "group_holds g1 content R" using g1 lives by (simp add: group_holds_def)
  show ?thesis
  proof (cases "List.find ?P R")
    case None
    then have "\<not> ?P e" if "e \<in> set R" for e using that None unfolding find_None_iff by blast
    then have "List.find ?P (filter (in_queue content n) R) = None" for n
      unfolding find_None_iff by auto
    then have "?hit n = None" for n using hit [of n] by simp
    then have "found = []" using in_found by (metis list.set_intros(1) list.exhaust option.distinct(1) surj_pair)
    then show ?thesis using keep None by (intro exI [of _ g1] exI [of _ False]) (simp add: match_alias_def fold_found)
  next
    case (Some e)
    have e: "e \<in> set R" "?P e" "\<And>d. d \<in> set R \<Longrightarrow> ?P d \<Longrightarrow> fst e \<le> fst d"
      using sorted_find [OF sorted Some] by auto
    let ?n = "assistantTextCandidateQueue (snd e)"
    have hits: "candidate_pair c \<in> set R \<and> ?P (candidate_pair c) \<and> in_queue content n (candidate_pair c)
        \<and> c \<in> set (live (get_queue n g))" if "?hit n = Some c" for n c
    proof -
      have "c \<in> set (live (get_queue n g))" "?P (candidate_pair c)"
        using that by (auto simp: find_Some_iff)
      then have "candidate_pair c \<in> set (filter (in_queue content n) R)"
        unfolding lives [symmetric] by auto
      then show ?thesis using \<open>?P (candidate_pair c)\<close> \<open>c \<in> _\<close> by auto
    qed
    have "e \<in> set (filter (in_queue content ?n) R)" using e placed by simp
    then have "List.find ?P (filter (in_queue content ?n) R) \<noteq> None"
      using e unfolding find_None_iff by blast
    then obtain c0 where c0: "?hit ?n = Some c0" using hit [of ?n] by force
    have sub: "sorted_wrt (\<lambda>a b. fst a < fst b) (filter (in_queue content ?n) R)"
      using sorted by (rule sorted_wrt_filter)
    have "List.find ?P (filter (in_queue content ?n) R) = Some (candidate_pair c0)"
      using hit [of ?n] c0 by simp
    from sorted_find [OF sub this]
    have "\<forall>d \<in> set (filter (in_queue content ?n) R). ?P d \<longrightarrow> cdSnapshotIndex c0 \<le> fst d" by simp
    then have "cdSnapshotIndex c0 \<le> fst e" using \<open>e \<in> set (filter _ _)\<close> e(2) by blast
    have in0: "(?n, c0) \<in> set found" using in_found names(2) e c0 by simp
    obtain n c others where first: "sort_key (\<lambda>entry. cdSnapshotIndex (snd entry)) found = (n, c) # others"
      using in0 by (metis empty_iff list.exhaust list.set(1) set_sort surj_pair)
    then have "(n, c) \<in> set found" by (metis list.set_intros(1) set_sort)
    then have c: "?hit n = Some c" by (simp add: in_found)
    have "sorted (map (\<lambda>entry. cdSnapshotIndex (snd entry)) ((n, c) # others))"
      unfolding first [symmetric] by simp
    moreover have "(?n, c0) \<in> set ((n, c) # others)" unfolding first [symmetric] using in0 by simp
    ultimately have "cdSnapshotIndex c \<le> cdSnapshotIndex c0" by auto
    then have "cdSnapshotIndex c \<le> fst e" using \<open>cdSnapshotIndex c0 \<le> fst e\<close> by simp
    moreover have "fst e \<le> cdSnapshotIndex c" using e(3) hits [OF c] by fastforce
    ultimately have pair: "candidate_pair c = e"
      using same_index [OF sorted _ e(1)] hits [OF c] by simp
    then have n: "n = ?n" using hits [OF c] by (auto simp: in_queue_def)
    let ?q = "consumeAssistantTextCandidate (get_queue n g1) c"
    have c_live: "c \<in> set (live (get_queue n g1))" "queue_ok (get_queue n g1)" using hits [OF c] g1 by auto
    note consumed = consume_live [OF c_live(2,1)]
    have "cdQueueIndex d \<noteq> cdQueueIndex c \<longleftrightarrow> cdSnapshotIndex d \<noteq> fst e" if d: "d \<in> set (live (get_queue n g1))" for d
    proof -
      have "d = c" if "cdQueueIndex d = cdQueueIndex c"
        using live_index [OF c_live(2)] d c_live(1) that by metis
      moreover have "d = c" if "cdSnapshotIndex d = fst e"
      proof -
        have "map candidate_pair (live (get_queue n g1)) = filter (in_queue content n) R" using g1 lives by simp
        then have "distinct (map cdSnapshotIndex (live (get_queue n g1)))"
          using sorted_distinct [OF sorted_wrt_filter [OF sorted, of "in_queue content n"]]
          by (metis (mono_tags, lifting) list.map_comp map_eq_conv comp_apply fst_conv)
        then show "d = c" using that pair d c_live(1) by (auto simp: distinct_map dest: inj_onD)
      qed
      ultimately show ?thesis using pair by auto
    qed
    then have "live ?q = filter (\<lambda>d. cdSnapshotIndex d \<noteq> fst e) (live (get_queue n g1))"
      unfolding consumed(1) by (intro filter_cong) auto
    then have "map candidate_pair (live ?q) = filter (\<lambda>d. fst d \<noteq> fst e) (filter (in_queue content n) R)"
      using g1 lives [of n] by (simp add: filter_map comp_def flip: lives)
    then have "group_holds (put_queue n ?q g1) content (filter (\<lambda>d. fst d \<noteq> fst e) R)"
      using consumed(2) g1 lives filter_removed [OF sorted, of "fst e" "snd e" content n] e(1) placed [OF e(2)] n
      by (simp add: group_holds_def)
    then show ?thesis
      using first placed [OF e(2)] Some
      by (intro exI [of _ "put_queue n ?q g1"] exI [of _ True]) (simp add: match_alias_def fold_found)
  qed
qed


lemma find_snd: "List.find (\<lambda>e. P (snd e)) R = None \<longleftrightarrow> \<not> list_ex P (map snd R)"
  by (auto simp: find_None_iff list_ex_iff)

lemma holds_none: "holds groups R \<Longrightarrow> jm_get groups c = None \<Longrightarrow> filter (in_queue c n) R = []"
  unfolding holds_def by (elim conjE allE [of _ c]) simp

lemma holds_some: "holds groups R \<Longrightarrow> jm_get groups c = Some g \<Longrightarrow> group_holds g c R"
  unfolding holds_def by (elim conjE allE [of _ c]) simp

lemma holdsI:
  assumes "sorted_wrt (\<lambda>a b. fst a < fst b) R"
    and "\<And>c n. jm_get groups c = None \<Longrightarrow> filter (in_queue c n) R = []"
    and "\<And>c g. jm_get groups c = Some g \<Longrightarrow> group_holds g c R"
  shows "holds groups R"
  using assms unfolding holds_def by (auto split: option.split)

lemma group_holds_cong:
  "(\<And>n. filter (in_queue c n) R = filter (in_queue c n) R') \<Longrightarrow> group_holds g c R \<longleftrightarrow> group_holds g c R'"
  by (simp add: group_holds_def)

lemma holds_set:
  assumes "holds groups R" and "sorted_wrt (\<lambda>a b. fst a < fst b) R'" and "group_holds g content R'"
    and "\<And>c n. c \<noteq> content \<Longrightarrow> filter (in_queue c n) R' = filter (in_queue c n) R"
  shows "holds (jm_set content g groups) R'"
proof (rule holdsI [OF assms(2)])
  fix c n
  assume "jm_get (jm_set content g groups) c = None"
  then have "c \<noteq> content" "jm_get groups c = None" by (auto split: if_splits)
  then show "filter (in_queue c n) R' = []" using holds_none [OF assms(1)] assms(4) by simp
next
  fix c h
  assume "jm_get (jm_set content g groups) c = Some h"
  then show "group_holds h c R'"
    using assms(3) holds_some [OF assms(1)] group_holds_cong [OF assms(4)] by (auto split: if_splits)
qed

lemma keep_unaliased_ok: "holds groups R \<Longrightarrow> keep_unaliased groups ls = without_aliases (map snd R) ls"
proof (induction ls arbitrary: groups R)
  case (Cons l ls)
  let ?P = "isEquivalentAssistantTextRepresentation l"
  have sorted: "sorted_wrt (\<lambda>a b. fst a < fst b) R" using Cons.prems by (simp add: holds_def)
  have has: "assistantTextRepresentationContent l \<noteq> None
      \<and> in_queue (the (assistantTextRepresentationContent l)) (assistantTextCandidateQueue (snd e)) e"
    if "?P (snd e)" for e
    using that by (auto simp: in_queue_def isEquivalentAssistantTextRepresentation_def is_assistant_text_def
        assistantTextRepresentationContent_def split: if_splits conversation_item.splits)
  have alone: "\<not> list_ex ?P (map snd R)" if "assistantTextRepresentationContent l = None \<or>
      jm_get groups (the (assistantTextRepresentationContent l)) = None"
  proof
    assume "list_ex ?P (map snd R)"
    then obtain e where e: "e \<in> set R" "?P (snd e)" by (auto simp: list_ex_iff)
    then have "filter (in_queue (the (assistantTextRepresentationContent l)) n) R = []" for n
      using that has [OF e(2)] by (intro holds_none [OF Cons.prems]) simp
    then show False using e has [of e] by (auto simp: filter_empty_conv)
  qed
  show ?case
  proof (cases "assistantTextRepresentationContent l")
    case None
    then show ?thesis using alone Cons by simp
  next
    case (Some content)
    show ?thesis
    proof (cases "jm_get groups content")
      case None
      then show ?thesis using alone Cons Some by simp
    next
      case g: (Some g)
      have "group_holds g content R" using holds_some [OF Cons.prems g] .
      from match_alias_ok [OF sorted this Some] obtain g' b where m: "match_alias g l = (g', b)" and
        b: "case List.find (\<lambda>e. ?P (snd e)) R of
          None \<Rightarrow> \<not> b \<and> group_holds g' content R
        | Some e \<Rightarrow> b \<and> in_queue content (assistantTextCandidateQueue (snd e)) e \<and>
            group_holds g' content (filter (\<lambda>d. fst d \<noteq> fst e) R)" by blast
      show ?thesis
      proof (cases "List.find (\<lambda>e. ?P (snd e)) R")
        case None
        then have "holds (jm_set content g' groups) R" using Cons.prems b by (simp add: holds_def)
        then show ?thesis using Cons.IH Some g m b None find_snd [of ?P R] by simp
      next
        case e: (Some e)
        let ?R = "filter (\<lambda>d. fst d \<noteq> fst e) R"
        have found: "e \<in> set R" "map snd ?R = map snd (remove_first (\<lambda>e. ?P (snd e)) R)"
          using sorted_find [OF sorted e] by auto
        have q: "in_queue content (assistantTextCandidateQueue (snd e)) (fst e, snd e)" using b e by simp
        have other: "filter (in_queue c n) ?R = filter (in_queue c n) R" if "c \<noteq> content" for c n
          using filter_removed [OF sorted, of "fst e" "snd e", OF _ q, of c n] found(1) that by simp
        have "holds (jm_set content g' groups) ?R"
          using b e by (intro holds_set [OF Cons.prems sorted_wrt_filter [OF sorted]] other) simp_all
        then have "keep_unaliased (jm_set content g' groups) ls = without_aliases (remove_first ?P (map snd R)) ls"
          using Cons.IH found(2) by (simp add: map_remove_first)
        then show ?thesis using Some g m b e find_snd [of ?P R] by simp
      qed
    qed
  qed
qed simp

lemma live_push:
  assumes "queue_ok q"
  shows "live (q\<lparr>cqCandidates := cqCandidates q @ [c]\<rparr>) = live q @ [c]"
proof -
  have "length (cqCandidates q) \<notin> set (cqConsumedIndexes q)" using assms by (auto simp: queue_ok_def)
  then show ?thesis by (simp add: live_def nth_append)
qed

lemma new_group:
  "queue_ok (get_queue m createAssistantTextCandidateGroup) \<and> live (get_queue m createAssistantTextCandidateGroup) = []"
  by (cases m) (simp_all add: createAssistantTextCandidateGroup_def Let_def queue_ok_def live_def)

lemma push_holds:
  assumes "holds groups R" and "\<forall>e\<in>set R. fst e < index"
  shows "holds (push_candidate localById groups (index, item))
    (R @ (if \<not> alias_reserved localById item \<and> assistantTextRepresentationContent item \<noteq> None
          then [(index, item)] else []))"
proof (cases "\<not> alias_reserved localById item \<and> assistantTextRepresentationContent item \<noteq> None")
  case True
  then obtain content where content: "assistantTextRepresentationContent item = Some content" by auto
  let ?n = "assistantTextCandidateQueue item"
  let ?g = "the_or createAssistantTextCandidateGroup (jm_get groups content)"
  let ?c = "\<lparr>cdItem = item, cdQueueIndex = length (cqCandidates (get_queue ?n ?g)), cdSnapshotIndex = index\<rparr>"
  have g: "group_holds ?g content R"
    using new_group holds_some [OF assms(1)] holds_none [OF assms(1), of content]
    by (cases "jm_get groups content") (auto simp: group_holds_def)
  have "queue_ok (get_queue ?n ?g\<lparr>cqCandidates := cqCandidates (get_queue ?n ?g) @ [?c]\<rparr>)"
    using g by (auto simp: group_holds_def queue_ok_def nth_append less_Suc_eq)
  then have "group_holds (put_queue ?n (get_queue ?n ?g\<lparr>cqCandidates := cqCandidates (get_queue ?n ?g) @ [?c]\<rparr>) ?g)
      content (R @ [(index, item)])"
    using g content by (auto simp: group_holds_def live_push in_queue_def)
  then have "holds (jm_set content (put_queue ?n (get_queue ?n ?g\<lparr>cqCandidates := cqCandidates (get_queue ?n ?g) @ [?c]\<rparr>) ?g) groups)
      (R @ [(index, item)])"
    using assms(2) content holds_def [of groups R] assms(1)
    by (intro holds_set [OF assms(1)]) (auto simp: sorted_wrt_append in_queue_def)
  then show ?thesis using True content by (simp add: push_candidate_def Let_def)
next
  case False
  then show ?thesis using assms(1) by (auto simp: push_candidate_def split: option.split)
qed

lemma pushed_holds:
  "holds (foldl (push_candidate localById) [] (zip [0..<length items] items))
    (filter (\<lambda>e. \<not> alias_reserved localById (snd e) \<and> assistantTextRepresentationContent (snd e) \<noteq> None)
      (zip [0..<length items] items))"
proof (induction items rule: rev_induct)
  case Nil
  show ?case by (simp add: holds_def)
next
  case (snoc item items)
  have "\<forall>e \<in> set (zip [0..<length items] items). fst e < length items"
    by (auto dest: set_zip_leftD)
  then show ?case
    using push_holds [OF snoc, of "length items" localById item] by (auto split: if_splits)
qed

lemma filter_zip_snd: "length xs = length ys \<Longrightarrow> map snd (filter (\<lambda>e. P (snd e)) (zip xs ys)) = filter P ys"
  by (induction xs ys rule: list_induct2) auto

lemma queues_refine:
  "removeEquivalentAssistantTextItems localItems snapshotItems
    = without_aliases (alias_candidates localItems snapshotItems) localItems"
  unfolding removeEquivalentAssistantTextItems_def Let_def
  unfolding keep_unaliased_ok [OF pushed_holds] alias_candidates_def
  by (subst filter_zip_snd) simp_all

subsection \<open>Properties\<close>

text \<open>C12: The queues with their cursors do what a search through the list of remaining candidates would: local items
  are taken in order, and each drops out when some remaining item of the snapshot represents the same text, the
  first of which is then used up.\<close>

theorem candidate_queues_refine:
  "removeEquivalentAssistantTextItems localItems snapshotItems
    = without_aliases (alias_candidates localItems snapshotItems) localItems"
  by (rule queues_refine)

definition text_count :: "ustring \<Rightarrow> RuntimeConversationItem list \<Rightarrow> nat" where
  "text_count content items = length (filter (\<lambda>item. assistantTextRepresentationContent item = Some content) items)"

lemma text_count_simps [simp]:
  "text_count c [] = 0"
  "text_count c (x # xs) = (if assistantTextRepresentationContent x = Some c then Suc (text_count c xs) else text_count c xs)"
  by (simp_all add: text_count_def)

lemma text_count_remove:
  assumes "list_ex P xs" and "\<And>x. P x \<Longrightarrow> assistantTextRepresentationContent x = d"
  shows "text_count c xs = (if d = Some c then Suc (text_count c (remove_first P xs)) else text_count c (remove_first P xs))"
  using assms by (induction xs) (auto simp: remove_first_def)

lemma equivalent_content:
  "isEquivalentAssistantTextRepresentation l x \<Longrightarrow> itPosition l = None \<and> assistantTextRepresentationContent l \<noteq> None
    \<and> assistantTextRepresentationContent x = assistantTextRepresentationContent l"
  by (auto simp: isEquivalentAssistantTextRepresentation_def is_assistant_text_def
      assistantTextRepresentationContent_def split: if_splits conversation_item.splits)

text \<open>An item that no alias can be: it is stored, or it is no text of the assistant.\<close>

definition stays :: "RuntimeConversationItem \<Rightarrow> bool" where
  "stays item \<longleftrightarrow> itPosition item \<noteq> None \<or> assistantTextRepresentationContent item = None"

lemma without_aliases_keeps:
  "subseq (without_aliases cs ls) ls \<and> filter stays (without_aliases cs ls) = filter stays ls \<and>
   text_count c ls \<le> text_count c (without_aliases cs ls) + text_count c cs"
proof (induction ls arbitrary: cs)
  case (Cons l ls)
  let ?P = "isEquivalentAssistantTextRepresentation l"
  show ?case
  proof (cases "list_ex ?P cs")
    case True
    then have "\<not> stays l" using equivalent_content by (auto simp: list_ex_iff stays_def)
    moreover have "text_count c cs = (if assistantTextRepresentationContent l = Some c
        then Suc (text_count c (remove_first ?P cs)) else text_count c (remove_first ?P cs))"
      using equivalent_content by (intro text_count_remove [OF True]) auto
    ultimately show ?thesis using Cons.IH [of "remove_first ?P cs"] True by auto
  qed (use Cons.IH [of cs] in auto)
qed simp

lemma unaliased_keeps:
  "subseq (removeEquivalentAssistantTextItems ls ss) ls" "filter stays (removeEquivalentAssistantTextItems ls ss) = filter stays ls"
  using without_aliases_keeps by (simp_all add: queues_refine)

text \<open>What is dropped is accounted for: of each text no more local copies go than the snapshot has items of it,
  and stored items, prompts and other blocks all stay, in their order.\<close>

theorem aliases_used_once:
  "subseq (removeEquivalentAssistantTextItems localItems snapshotItems) localItems \<and>
   text_count c localItems \<le> text_count c (removeEquivalentAssistantTextItems localItems snapshotItems) + text_count c snapshotItems \<and>
   filter stays (removeEquivalentAssistantTextItems localItems snapshotItems) = filter stays localItems"
proof -
  have "text_count c (alias_candidates localItems snapshotItems) \<le> text_count c snapshotItems"
    unfolding alias_candidates_def by (induction snapshotItems) auto
  then show ?thesis
    using without_aliases_keeps [of "alias_candidates localItems snapshotItems" localItems c] unaliased_keeps
    by (simp add: queues_refine)
qed

lemma demo_aliases: "removeEquivalentAssistantTextItems
    [\<lparr>itId = ''p1'', itPosition = None, itBody = AssistantText [104, 105] None []\<rparr>,
     \<lparr>itId = ''p2'', itPosition = None, itBody = AssistantText [104, 105] None []\<rparr>]
    [\<lparr>itId = ''n1'', itPosition = Some 3, itBody = AssistantText [104, 105] None []\<rparr>]
  = [\<lparr>itId = ''p2'', itPosition = None, itBody = AssistantText [104, 105] None []\<rparr>]"
  by (simp add: queues_refine alias_candidates_def alias_reserved_def new_map_def remove_first_def
      isEquivalentAssistantTextRepresentation_def is_assistant_text_def assistantTextRepresentationContent_def)


end
