(* ===== verification/WorkbenchBlocks.thy ===== *)
theory WorkbenchBlocks
  imports ConversationTypes "HOL-Library.Sublist"
begin

text \<open>
  The blocks of a workbench message: \<open>workbench-message-reducer.ts\<close> and \<open>command-execution.ts\<close> of
  \<open>packages/chat-core/src\<close>. Long texts are cut to their last code points, updates and deltas are merged, the
  end of a turn settles what is open, and subagents are nested into a tree.
\<close>

subsection \<open>Texts\<close>

definition isGenericTaskStatusError :: "ustring option \<Rightarrow> bool" where
  "isGenericTaskStatusError error =
     (let s = unit_trim (the_or [] error);
          start = units ''task failed with status:'';
          rest = dropWhile unit_space (drop (length start) s)
      in map unit_lower (take (length start) s) = start \<and> rest \<noteq> [] \<and> list_all word_unit rest)"

definition ascii :: "ustring \<Rightarrow> bool" where
  "ascii s = list_all (\<lambda>u. u \<le> 0x7F) s"

definition textCodePointLength :: "ustring \<Rightarrow> int" where
  "textCodePointLength s = (if ascii s then int (length s) else int (length (code_points s)))"

definition sliceTextCodePoints :: "ustring \<Rightarrow> int \<Rightarrow> ustring" where
  "sliceTextCodePoints s start =
     (if start \<le> 0 then s
      else if ascii s then drop (nat start) s
      else concat (drop (nat start) (code_points s)))"

text \<open>\<open>slice(-n)\<close> of a string that may be shorter than \<open>n\<close>.\<close>

definition tailTextCodePoints :: "ustring \<Rightarrow> int \<Rightarrow> ustring" where
  "tailTextCodePoints s maxChars =
     (if maxChars \<le> 0 then []
      else if ascii s then drop (length s - nat maxChars) s
      else (let chars = code_points s in concat (drop (nat (max 0 (int (length chars) - maxChars))) chars)))"

definition MAX_LIVE_MESSAGE_CONTENT_CHARS :: int where "MAX_LIVE_MESSAGE_CONTENT_CHARS = 200000"
definition MAX_LIVE_BLOCK_CONTENT_CHARS :: int where "MAX_LIVE_BLOCK_CONTENT_CHARS = 120000"
definition MAX_LIVE_TOOL_OUTPUT_CHARS :: int where "MAX_LIVE_TOOL_OUTPUT_CHARS = 64 * 1024"
definition MAX_LIVE_SUBAGENT_CHILDREN :: nat where "MAX_LIVE_SUBAGENT_CHILDREN = 256"

record limited_text =
  ltText :: ustring
  ltTruncated :: bool
  ltOriginalChars :: int

definition limitTextContent :: "ustring \<Rightarrow> int \<Rightarrow> int option \<Rightarrow> limited_text" where
  "limitTextContent s maxChars knownOriginalChars =
     (let currentChars = textCodePointLength s;
          originalChars = max (the_or currentChars knownOriginalChars) currentChars
      in if currentChars \<le> maxChars
         then \<lparr>ltText = s, ltTruncated = (originalChars > maxChars \<and> originalChars > currentChars),
               ltOriginalChars = originalChars\<rparr>
         else \<lparr>ltText = tailTextCodePoints s maxChars, ltTruncated = True, ltOriginalChars = originalChars\<rparr>)"

definition limitOptionalBlockText :: "ustring option \<Rightarrow> ustring option \<times> bool" where
  "limitOptionalBlockText s = (case s of
       None \<Rightarrow> (None, False)
     | Some t \<Rightarrow> (let l = limitTextContent t MAX_LIVE_BLOCK_CONTENT_CHARS None in (Some (ltText l), ltTruncated l)))"

subsection \<open>Command executions\<close>

definition is_object_of_kind :: "string \<Rightarrow> json option \<Rightarrow> bool" where
  "is_object_of_kind kind payload \<longleftrightarrow> (case payload of
       Some (JObj props) \<Rightarrow> jm_get props ''kind'' = Some (JStr (units kind))
     | _ \<Rightarrow> False)"

definition commandExecutionPayload :: "ProcessingBlock \<Rightarrow> json option" where
  "commandExecutionPayload block =
     (if pb_type block \<noteq> KTool then None
      else if is_object_of_kind ''command_execution'' (got (wbRenderPayload (pbFields block)))
        then got (wbRenderPayload (pbFields block)) else None)"

definition command_in_progress :: "json option \<Rightarrow> bool" where
  "command_in_progress payload \<longleftrightarrow> (case payload of
       Some (JObj props) \<Rightarrow> jm_get props ''status'' = Some (JStr (units ''inProgress''))
     | _ \<Rightarrow> False)"

definition spread_json :: "json option \<Rightarrow> json option \<Rightarrow> json" where
  "spread_json old new = (case (old, new) of
       (Some (JObj a), Some (JObj b)) \<Rightarrow> JObj (spread_others a b)
     | (Some (JObj a), _) \<Rightarrow> JObj a
     | (_, Some (JObj b)) \<Rightarrow> JObj b
     | _ \<Rightarrow> JObj [])"

definition mergeCommandExecutionPayload :: "json option \<Rightarrow> json option \<Rightarrow> json option" where
  "mergeCommandExecutionPayload previous update =
     (if \<not> is_object_of_kind ''command_execution'' previous \<or> \<not> is_object_of_kind ''command_execution'' update
      then update else Some (spread_json previous update))"

subsection \<open>Limits\<close>

abbreviation undef_or :: "bool \<Rightarrow> bool property" where
  "undef_or b \<equiv> Some (if b then Some True else None)"

definition blockContentLoadRef :: "block_fields \<Rightarrow> WorkbenchContentLoadRef" where
  "blockContentLoadRef b = \<lparr>lrTaskId = None, lrMessageId = None, lrSubtaskId = Some (wbSubtaskId b),
     lrBlockId = Some (wbId b), lrKind = LoadBlockContent\<rparr>"

definition toolOutputLoadRef :: "block_fields \<Rightarrow> WorkbenchContentLoadRef" where
  "toolOutputLoadRef b = \<lparr>lrTaskId = None, lrMessageId = None, lrSubtaskId = Some (wbSubtaskId b),
     lrBlockId = Some (wbId b), lrKind = LoadToolOutput\<rparr>"

definition limitToolBlock :: "block_fields \<Rightarrow> block_fields" where
  "limitToolBlock b = (case got (wbToolOutput b) of
       Some (JStr s) \<Rightarrow>
         let output = limitTextContent s MAX_LIVE_TOOL_OUTPUT_CHARS
               (coalesce (got (wbToolOutputOriginalChars b)) (got (wbToolOutputOriginalBytes b)))
         in b\<lparr>wbToolOutput := val (JStr (ltText output)),
              wbToolOutputTruncated := undef_or (ltTruncated output \<or> got (wbToolOutputTruncated b) = Some True),
              wbToolOutputOriginalBytes := Some (if ltTruncated output then Some (ltOriginalChars output)
                else got (wbToolOutputOriginalBytes b)),
              wbToolOutputOriginalChars := Some (if ltTruncated output then Some (ltOriginalChars output)
                else got (wbToolOutputOriginalChars b)),
              wbToolOutputLoadRef := Some (if ltTruncated output then Some (toolOutputLoadRef b)
                else got (wbToolOutputLoadRef b))\<rparr>
     | _ \<Rightarrow> b)"

definition limit_text_block :: "block_fields \<Rightarrow> block_fields" where
  "limit_text_block b =
     (let content = limitTextContent (the_or [] (got (wbContent b))) MAX_LIVE_BLOCK_CONTENT_CHARS
            (got (wbContentOriginalChars b))
      in b\<lparr>wbContent := val (ltText content),
           wbContentTruncated := undef_or (ltTruncated content),
           wbContentOriginalChars := Some (if ltTruncated content then Some (ltOriginalChars content) else None),
           wbContentLoadRef := Some (if ltTruncated content then Some (blockContentLoadRef b) else None)\<rparr>)"

definition last_children :: "'a list \<Rightarrow> 'a list" where
  "last_children cs = drop (length cs - MAX_LIVE_SUBAGENT_CHILDREN) cs"

definition limit_subagent :: "block_fields \<Rightarrow> ProcessingBlock list option \<Rightarrow> block_fields" where
  "limit_subagent b children =
     (let title = limitOptionalBlockText (got (wbTitle b));
          description = limitOptionalBlockText (got (wbDescription b));
          output = limitOptionalBlockText (got (wbOutput b));
          summary = limitOptionalBlockText (got (wbSummary b))
      in b\<lparr>wbTitle := Some (fst title), wbDescription := Some (fst description), wbOutput := Some (fst output),
           wbSummary := Some (fst summary),
           wbContentTruncated := undef_or (got (wbContentTruncated b) = Some True \<or> snd title \<or> snd description
             \<or> snd output \<or> snd summary
             \<or> map_option (length \<circ> last_children) children \<noteq> map_option length children)\<rparr>)"

lemma last_children_set: "x \<in> set (last_children cs) \<Longrightarrow> x \<in> set cs"
  by (auto simp: last_children_def dest: in_set_dropD)

lemma last_children_size [termination_simp]:
  "x \<in> set (last_children cs) \<Longrightarrow> size x < Suc (Suc (Suc (size_list size cs)))"
  using size_list_estimation' [OF last_children_set order_refl, of x cs size] by simp

fun limitWorkbenchProcessingBlock :: "ProcessingBlock \<Rightarrow> ProcessingBlock" where
  "limitWorkbenchProcessingBlock (PBlock b cs) =
     (if wbType b = KTool then PBlock (limitToolBlock b) cs
      else if wbType b = KThinking \<or> wbType b = KText \<or> wbType b = KPlan then PBlock (limit_text_block b) cs
      else if wbType b = KSubagent
        then PBlock (limit_subagent b (got cs))
          (Some (case cs of Some (Some children) \<Rightarrow> Some (map limitWorkbenchProcessingBlock (last_children children))
             | _ \<Rightarrow> None))
      else PBlock b cs)"

text \<open>\<open>createdAt\<close> is a finite number; with the index as the last key the sort is the stable one.\<close>

definition sortProcessingBlocksByCreatedAt :: "ProcessingBlock list \<Rightarrow> ProcessingBlock list" where
  "sortProcessingBlocksByCreatedAt blocks =
     map fst (sort_key (\<lambda>(block, index). (wbCreatedAt (pbFields block), index)) (zip blocks [0..<length blocks]))"

subsection \<open>Updates\<close>

definition is_complete :: "WorkbenchToolBlockStatus \<Rightarrow> bool" where
  "is_complete status \<longleftrightarrow> status = TbDone \<or> status = TbError"

definition isActiveBlockStatus :: "WorkbenchToolBlockStatus option \<Rightarrow> bool" where
  "isActiveBlockStatus status \<longleftrightarrow> status = Some TbGeneratingArguments \<or> status = Some TbPending \<or> status = Some TbStreaming"

definition withBlockCompletionTime :: "env \<Rightarrow> ProcessingBlock \<Rightarrow> ProcessingBlock \<Rightarrow> ProcessingBlock" where
  "withBlockCompletionTime e previous following =
     (if is_complete (pb_status previous) \<or> \<not> is_complete (pb_status following)
         \<or> got (wbCompletedAt (pbFields following)) \<noteq> None then following
      else upd_fields (\<lambda>b. b\<lparr>wbCompletedAt := val (now e)\<rparr>) following)"

definition mergeProcessingBlock :: "env \<Rightarrow> ProcessingBlock list \<Rightarrow> ProcessingBlock \<Rightarrow> ProcessingBlock list" where
  "mergeProcessingBlock e blocks incomingBlock =
     (case List.find (\<lambda>i. pb_id (blocks ! i) = pb_id incomingBlock) [0..<length blocks] of
        None \<Rightarrow> blocks @ [incomingBlock]
      | Some index \<Rightarrow> blocks[index := withBlockCompletionTime e (blocks ! index)
            (spread_processing_block (blocks ! index) incomingBlock)])"

text \<open>Whoever makes an update leaves out what is not known.\<close>

record ProcessingBlockUpdate =
  upContent :: "ustring option"
  upContentDelta :: "ustring option"
  upToolInput :: "json option"
  upToolOutput :: "json option"
  upToolOutputDelta :: "ustring option"
  upToolOutputTruncated :: "bool option"
  upToolOutputOriginalBytes :: "int option"
  upRenderPayload :: "json option"
  upFileChanges :: "TurnFileChangesSummary property"
  upOutput :: "ustring option"
  upSummary :: "ustring option"
  upParentToolUseId :: "string option"
  upAgentStatus :: "agent_status option"
  upStatus :: "WorkbenchToolBlockStatus option"
  upCompletedAt :: "int option"
  upDurationMs :: "int option"

abbreviation given :: "'a option \<Rightarrow> 'a property" where
  "given \<equiv> map_option Some"

definition direct_update :: "ProcessingBlockUpdate \<Rightarrow> block_fields \<Rightarrow> block_fields" where
  "direct_update u b = b\<lparr>
     wbContent := coalesce (given (upContent u)) (wbContent b),
     wbToolInput := coalesce (given (upToolInput u)) (wbToolInput b),
     wbToolOutput := coalesce (given (upToolOutput u)) (wbToolOutput b),
     wbToolOutputTruncated := coalesce (given (upToolOutputTruncated u)) (wbToolOutputTruncated b),
     wbToolOutputOriginalBytes := coalesce (given (upToolOutputOriginalBytes u)) (wbToolOutputOriginalBytes b),
     wbRenderPayload := coalesce (given (upRenderPayload u)) (wbRenderPayload b),
     wbFileChanges := coalesce (upFileChanges u) (wbFileChanges b),
     wbOutput := coalesce (given (upOutput u)) (wbOutput b),
     wbSummary := coalesce (given (upSummary u)) (wbSummary b),
     wbParentToolUseId := coalesce (given (upParentToolUseId u)) (wbParentToolUseId b),
     wbAgentStatus := coalesce (given (upAgentStatus u)) (wbAgentStatus b),
     wbStatus := the_or (wbStatus b) (upStatus u),
     wbCompletedAt := (case upDurationMs u of
         Some d \<Rightarrow> val (wbCreatedAt b + max 0 d)
       | None \<Rightarrow> coalesce (given (upCompletedAt u)) (wbCompletedAt b)),
     wbDurationMs := (case upDurationMs u of Some d \<Rightarrow> val (max 0 d) | None \<Rightarrow> wbDurationMs b)\<rparr>"

definition append_block_content :: "ustring \<Rightarrow> block_fields \<Rightarrow> block_fields" where
  "append_block_content contentDelta b =
     (let content = the_or [] (got (wbContent b));
          previousContentChars = the_or (textCodePointLength content) (got (wbContentOriginalChars b))
      in b\<lparr>wbContent := val (content @ contentDelta),
           wbContentOriginalChars := val (previousContentChars + textCodePointLength contentDelta)\<rparr>)"

text \<open>\<open>String(x)\<close> of a JSON value; an element of an array that is \<open>null\<close> is printed as nothing.\<close>

fun json_text :: "json \<Rightarrow> ustring" and json_elements :: "json list \<Rightarrow> ustring" where
  "json_text JNull = units ''null''"
| "json_text (JBool b) = units (if b then ''true'' else ''false'')"
| "json_text (JNum n) = units (show_int n)"
| "json_text (JStr s) = s"
| "json_text (JArr xs) = json_elements xs"
| "json_text (JObj _) = units ''[object Object]''"
| "json_elements [] = []"
| "json_elements [x] = (if x = JNull then [] else json_text x)"
| "json_elements (x # y # ys) = (if x = JNull then [] else json_text x) @ units '','' @ json_elements (y # ys)"

definition output_text :: "json option \<Rightarrow> ustring" where
  "output_text current = (case current of None \<Rightarrow> [] | Some JNull \<Rightarrow> [] | Some x \<Rightarrow> json_text x)"

definition appendToolOutputDelta :: "json option \<Rightarrow> ustring \<Rightarrow> json" where
  "appendToolOutputDelta current delta = JStr (output_text current @ delta)"

definition append_output :: "ustring \<Rightarrow> block_fields \<Rightarrow> block_fields" where
  "append_output toolOutputDelta b =
     (let previousOutput = got (wbToolOutput b);
          previousOutputChars = textCodePointLength (output_text previousOutput);
          deltaChars = textCodePointLength toolOutputDelta;
          knownOriginalChars = coalesce (got (wbToolOutputOriginalChars b)) (got (wbToolOutputOriginalBytes b));
          nextOriginalChars = (case knownOriginalChars of
              Some n \<Rightarrow> if n > previousOutputChars then n + deltaChars else previousOutputChars + deltaChars
            | None \<Rightarrow> previousOutputChars + deltaChars)
      in b\<lparr>wbToolOutput := val (appendToolOutputDelta previousOutput toolOutputDelta),
           wbToolOutputOriginalChars := val nextOriginalChars\<rparr>)"

definition mergeProcessingBlockUpdate :: "env \<Rightarrow> ProcessingBlock \<Rightarrow> ProcessingBlockUpdate \<Rightarrow> ProcessingBlock" where
  "mergeProcessingBlockUpdate e block updates =
     (let nextBlock = withBlockCompletionTime e block (upd_fields (direct_update updates) block);
          nextBlock1 = (if pb_type block = KTool \<and> upRenderPayload updates \<noteq> None
            then upd_fields (\<lambda>b. b\<lparr>wbRenderPayload := Some (mergeCommandExecutionPayload
                (got (wbRenderPayload (pbFields block))) (upRenderPayload updates))\<rparr>) nextBlock
            else nextBlock);
          nextBlock2 = (case upContentDelta updates of
              Some d \<Rightarrow> if pb_type nextBlock1 = KThinking \<or> pb_type nextBlock1 = KText \<or> pb_type nextBlock1 = KPlan
                then upd_fields (append_block_content d) nextBlock1 else nextBlock1
            | None \<Rightarrow> nextBlock1)
      in case upToolOutputDelta updates of
           Some d \<Rightarrow> if pb_type block = KTool then upd_fields (append_output d) nextBlock2 else nextBlock2
         | None \<Rightarrow> nextBlock2)"

subsection \<open>Settling\<close>

definition settleWorkbenchProcessingBlock ::
    "env \<Rightarrow> WorkbenchToolBlockStatus \<Rightarrow> ProcessingBlock \<Rightarrow> ProcessingBlock" where
  "settleWorkbenchProcessingBlock e finalStatus block =
     (if is_complete (pb_status block) then block
      else if command_in_progress (commandExecutionPayload block) then block
      else withBlockCompletionTime e block (upd_fields (\<lambda>b. b\<lparr>wbStatus :=
          (if wbType b = KTool \<and> got (wbToolName b) = Some ''context_compaction'' then TbError else finalStatus)\<rparr>) block))"

definition finalizeBlocks ::
    "env \<Rightarrow> WorkbenchToolBlockStatus option \<Rightarrow> ProcessingBlock list option \<Rightarrow> ProcessingBlock list" where
  "finalizeBlocks e finalStatus blocks = map (\<lambda>block.
     if pb_type block = KThinking \<and> pb_status block = TbStreaming
       then upd_fields (\<lambda>b. b\<lparr>wbStatus := TbDone\<rparr>) block
     else (case finalStatus of
         None \<Rightarrow> block
       | Some status \<Rightarrow> if is_complete (pb_status block) then block
           else settleWorkbenchProcessingBlock e status block)) (the_or [] blocks)"

definition finalizeProcessingBlocks ::
    "env \<Rightarrow> WorkbenchToolBlockStatus \<Rightarrow> ProcessingBlock list option \<Rightarrow> ProcessingBlock list option" where
  "finalizeProcessingBlocks e finalStatus blocks =
     (case blocks of None \<Rightarrow> None | Some bs \<Rightarrow> Some (finalizeBlocks e (Some finalStatus) (Some bs)))"

definition finalizeOpenNarrativeBlocks ::
    "env \<Rightarrow> int \<Rightarrow> ProcessingBlock list option \<Rightarrow> ProcessingBlock list" where
  "finalizeOpenNarrativeBlocks e nextBlockCreatedAt blocks = map (\<lambda>block.
     if (pb_type block = KThinking \<or> pb_type block = KText \<or> pb_type block = KPlan) \<and> pb_status block = TbStreaming
     then upd_fields (\<lambda>b. b\<lparr>wbStatus := TbDone, wbCreatedAt := min (wbCreatedAt b) nextBlockCreatedAt,
         wbCompletedAt := val (the_or (now e) (got (wbCompletedAt b)))\<rparr>) block
     else block) (the_or [] blocks)"

definition getLatestThinkingContent :: "ProcessingBlock list option \<Rightarrow> ustring option" where
  "getLatestThinkingContent blocks =
     Option.bind (List.find (\<lambda>block. pb_type block = KThinking
         \<and> unit_trim (the_or [] (got (wbContent (pbFields block)))) \<noteq> []) (rev (the_or [] blocks)))
       (\<lambda>block. got (wbContent (pbFields block)))"

definition getTextBlockCount :: "ProcessingBlock list \<Rightarrow> nat" where
  "getTextBlockCount blocks = length (filter (\<lambda>block. pb_type block = KText) blocks)"

definition appendThinkingChunk ::
    "env \<Rightarrow> ProcessingBlock list option \<Rightarrow> string option \<Rightarrow> ustring option \<Rightarrow> ProcessingBlock list option" where
  "appendThinkingChunk e blocks subtaskId chunk =
     (if \<not> opt_truthy truthy_text chunk \<or> \<not> opt_truthy truthy_text subtaskId then blocks
      else
        let nextBlocks = the_or [] blocks; text = the_or [] chunk; sub = the_or [] subtaskId
        in if nextBlocks \<noteq> [] \<and> pb_type (last nextBlocks) = KThinking \<and> pb_status (last nextBlocks) = TbStreaming
           then Some (butlast nextBlocks @ [upd_fields (\<lambda>b. b\<lparr>wbContent := val (the_or [] (got (wbContent b)) @ text)\<rparr>)
               (last nextBlocks)])
           else Some (nextBlocks @ [PBlock (new_fields (''thinking-'' @ sub @ ''-''
               @ show_nat (length (filter (\<lambda>b. pb_type b = KThinking) nextBlocks) + 1)) sub KThinking TbStreaming (now e)
               \<lparr>wbContent := val text\<rparr>) absent]))"

definition resolveStreamingThinkingContent ::
    "ustring option \<Rightarrow> ustring option \<Rightarrow> ustring option \<Rightarrow> ProcessingBlock list option \<Rightarrow>
     ProcessingBlock list option \<Rightarrow> ustring option" where
  "resolveStreamingThinkingContent previousContent reasoningChunk content incomingBlocks blocks =
     (if opt_truthy truthy_text reasoningChunk then getLatestThinkingContent blocks
      else if opt_truthy truthy_text content then None
      else if opt_truthy (list_ex (\<lambda>block. pb_type block = KTool)) incomingBlocks then getLatestThinkingContent blocks
      else previousContent)"

text \<open>\<open>trim\<close>, lower case, and runs of white space and dashes as one underscore. The word is one of a few ASCII
  ones, so only ASCII letters are lowered.\<close>

fun squeeze :: "bool \<Rightarrow> string \<Rightarrow> string" where
  "squeeze in_run [] = []"
| "squeeze in_run (c # s) = (if js_space c \<or> c = CHR ''-''
     then (if in_run then squeeze True s else CHR ''_'' # squeeze True s)
     else c # squeeze False s)"

definition normalizeWorkbenchBlockStatus :: "string option \<Rightarrow> WorkbenchToolBlockStatus" where
  "normalizeWorkbenchBlockStatus status =
     (let normalizedStatus = map_option (\<lambda>s. squeeze False (map lower_char (js_trim s))) status
      in if normalizedStatus = Some ''generating_arguments'' then TbGeneratingArguments
         else if normalizedStatus = Some ''pending'' then TbPending
         else if normalizedStatus = Some ''streaming'' then TbStreaming
         else if normalizedStatus \<in> {Some ''done'', Some ''completed'', Some ''complete'', Some ''succeeded'', Some ''success''} then TbDone
         else if normalizedStatus \<in> {Some ''error'', Some ''failed'', Some ''failure''} then TbError
         else TbPending)"

end
