(* ===== verification/SubagentNesting.thy ===== *)
theory SubagentNesting
  imports WorkbenchBlocks MessageBlocks
begin

text \<open>
  Subagents among the blocks of a message, from \<open>packages/chat-core/src/workbench-message-reducer.ts\<close>:
  \<open>nestWorkbenchProcessingBlocks\<close> puts every block under the subagent its parent link names, whether the link
  is its own or comes from where it was nested.
\<close>

subsection \<open>Nesting\<close>

abbreviation is_sub_block :: "ProcessingBlock \<Rightarrow> bool" where
  "is_sub_block b \<equiv> pb_type b = KSubagent"

record wb_nest_state =
  wbBlockMap :: "(string, ProcessingBlock) jsmap"
  wbBlockOrder :: "string list"
  wbParentIds :: "(string, string) jsmap"

definition wb_collect_one :: "string option \<Rightarrow> ProcessingBlock \<Rightarrow> wb_nest_state \<Rightarrow> wb_nest_state" where
  "wb_collect_one nestedParentId block s =
     (let existing = jm_get (wbBlockMap s) (pb_id block);
          blockWithoutChildren = (if is_sub_block block then PBlock (pbFields block) undef else block);
          entry = (case existing of
              None \<Rightarrow> blockWithoutChildren
            | Some ex \<Rightarrow> spread_processing_block ex blockWithoutChildren);
          parentId = coalesce (got (wbParentToolUseId (pbFields block))) nestedParentId
      in s\<lparr>wbBlockOrder := (if existing = None then wbBlockOrder s @ [pb_id block] else wbBlockOrder s),
           wbBlockMap := jm_set (pb_id block) entry (wbBlockMap s),
           wbParentIds := (case parentId of
               Some p \<Rightarrow> if truthy_text p \<and> p \<noteq> pb_id block
                 then jm_set (pb_id block) p (wbParentIds s) else wbParentIds s
             | None \<Rightarrow> wbParentIds s)\<rparr>)"

fun wb_collect :: "string option \<Rightarrow> ProcessingBlock \<Rightarrow> wb_nest_state \<Rightarrow> wb_nest_state"
  and wb_collect_all :: "string option \<Rightarrow> ProcessingBlock list \<Rightarrow> wb_nest_state \<Rightarrow> wb_nest_state" where
  "wb_collect np (PBlock b cs) s =
     (let s' = wb_collect_one np (PBlock b cs) s
      in if wbType b = KSubagent
         then (case cs of Some (Some bs) \<Rightarrow> wb_collect_all (Some (wbId b)) bs s' | _ \<Rightarrow> s')
         else s')"
| "wb_collect_all np [] s = s"
| "wb_collect_all np (b # bs) s = wb_collect_all np bs (wb_collect np b s)"

definition wb_subagent_id :: "(string, ProcessingBlock) jsmap \<Rightarrow> string \<Rightarrow> bool" where
  "wb_subagent_id m i = (case jm_get m i of None \<Rightarrow> False | Some b \<Rightarrow> is_sub_block b)"

definition wb_children ::
    "(string, ProcessingBlock) jsmap \<Rightarrow> (string, string) jsmap \<Rightarrow> (string, string list) jsmap" where
  "wb_children m ps =
     foldl (\<lambda>acc (childId, parentId).
        if \<not> wb_subagent_id m parentId then acc
        else jm_set parentId (the_or [] (jm_get acc parentId) @ [childId]) acc) [] ps"

text \<open>\<open>None\<close> is the TypeError of reading an id that is not in the map; \<open>wb_nest_total\<close> shows it never happens.\<close>

function wb_build ::
    "(string, ProcessingBlock) jsmap \<Rightarrow> (string, string list) jsmap \<Rightarrow> string \<Rightarrow> string list
     \<Rightarrow> ProcessingBlock option" where
  "wb_build m kids blockId ancestors =
     (case jm_get m blockId of
        None \<Rightarrow> None
      | Some block \<Rightarrow>
          if \<not> is_sub_block block \<or> blockId \<in> set ancestors then Some block
          else map_option (\<lambda>cs. PBlock (pbFields block) (val cs))
                 (those (map (\<lambda>c. wb_build m kids c (blockId # ancestors))
                   (the_or [] (jm_get kids blockId)))))"
  by pat_completeness auto
termination
proof (relation "measure (\<lambda>(m, kids, i, anc). card (fst ` set m - set anc))")
  show "wf (measure (\<lambda>(m :: (string, ProcessingBlock) jsmap, kids :: (string, string list) jsmap,
      i :: string, anc). card (fst ` set m - set anc)))"
    by simp
  fix m :: "(string, ProcessingBlock) jsmap" and kids :: "(string, string list) jsmap"
    and i c :: string and anc b
  assume "jm_get m i = Some b" and "\<not> (\<not> is_sub_block b \<or> i \<in> set anc)"
    and "c \<in> set (the_or [] (jm_get kids i))"
  then have "i \<in> fst ` set m - set anc" by (force dest: jm_get_in)
  then have "fst ` set m - set (i # anc) \<subset> fst ` set m - set anc" by auto
  then have "card (fst ` set m - set (i # anc)) < card (fst ` set m - set anc)"
    by (intro psubset_card_mono) auto
  then show "((m, kids, c, i # anc), m, kids, i, anc)
      \<in> measure (\<lambda>(m, kids, i, anc). card (fst ` set m - set anc))"
    by simp
qed

declare wb_build.simps [simp del]

definition wb_nest_collect :: "ProcessingBlock list \<Rightarrow> wb_nest_state" where
  "wb_nest_collect blocks =
     wb_collect_all None blocks \<lparr>wbBlockMap = [], wbBlockOrder = [], wbParentIds = []\<rparr>"

definition wb_roots :: "wb_nest_state \<Rightarrow> string list" where
  "wb_roots s = filter (\<lambda>i. case jm_get (wbParentIds s) i of
       None \<Rightarrow> True | Some p \<Rightarrow> \<not> truthy_text p \<or> \<not> wb_subagent_id (wbBlockMap s) p) (wbBlockOrder s)"

definition try_nestWorkbenchProcessingBlocks :: "ProcessingBlock list \<Rightarrow> ProcessingBlock list option" where
  "try_nestWorkbenchProcessingBlocks blocks =
     (let s = wb_nest_collect blocks; kids = wb_children (wbBlockMap s) (wbParentIds s)
      in those (map (\<lambda>i. wb_build (wbBlockMap s) kids i []) (wb_roots s)))"

definition nestWorkbenchProcessingBlocks :: "ProcessingBlock list \<Rightarrow> ProcessingBlock list" where
  "nestWorkbenchProcessingBlocks blocks = the_or [] (try_nestWorkbenchProcessingBlocks blocks)"

subsection \<open>The tree is always built\<close>

definition wb_nest_ok :: "wb_nest_state \<Rightarrow> bool" where
  "wb_nest_ok s \<longleftrightarrow> jm_wf (wbBlockMap s) \<and> distinct (wbBlockOrder s)
     \<and> set (wbBlockOrder s) = fst ` set (wbBlockMap s)
     \<and> fst ` set (wbParentIds s) \<subseteq> fst ` set (wbBlockMap s)
     \<and> jm_every (\<lambda>k b. pb_id b = k) (wbBlockMap s)"

lemma wb_collect_one_ok: "wb_nest_ok s \<Longrightarrow> wb_nest_ok (wb_collect_one np b s)"
  unfolding wb_nest_ok_def wb_collect_one_def Let_def
  by (auto simp: dom_update jm_every_set map_of_eq_None_iff spread_processing_block_def
      split: option.splits intro!: jm_every_set)

lemma wb_collect_ok:
  "wb_nest_ok s \<Longrightarrow> wb_nest_ok (wb_collect np b s)"
  "wb_nest_ok s \<Longrightarrow> wb_nest_ok (wb_collect_all np bs s)"
  by (induction np b s and np bs s rule: wb_collect_wb_collect_all.induct)
    (auto simp: Let_def wb_collect_one_ok split: option.splits)

lemma wb_nest_collect_ok: "wb_nest_ok (wb_nest_collect bs)"
  unfolding wb_nest_collect_def
  by (rule wb_collect_ok) (simp add: wb_nest_ok_def)

interpretation wb_forest: forest wb_subagent_id is_sub_block "\<lambda>b cs. PBlock (pbFields b) (val cs)" wb_children wb_build
proof
  show "wb_subagent_id m i = (case jm_get m i of None \<Rightarrow> False | Some b \<Rightarrow> is_sub_block b)" for m i
    by (simp add: wb_subagent_id_def)
  show "wb_children m ps = foldl (\<lambda>acc (c, p). if \<not> wb_subagent_id m p then acc
      else jm_set p (the_or [] (jm_get acc p) @ [c]) acc) [] ps" for m ps
    by (simp add: wb_children_def)
qed (rule wb_build.simps)

lemma wb_nest_total: "\<exists>tree. try_nestWorkbenchProcessingBlocks blocks = Some tree"
proof -
  let ?s = "wb_nest_collect blocks"
  have ok: "wb_nest_ok ?s" by (rule wb_nest_collect_ok)
  show ?thesis
    unfolding try_nestWorkbenchProcessingBlocks_def Let_def
    by (rule wb_forest.all_built) (use ok in \<open>auto simp: wb_nest_ok_def wb_roots_def\<close>)
qed

end
