(* ===== verification/WorkbenchMessages.thy ===== *)
theory WorkbenchMessages
  imports WorkbenchBlocks
begin

text \<open>
  The message reducer of the workbench, \<open>reduceWorkbenchMessages\<close> of
  \<open>packages/chat-core/src/workbench-message-reducer.ts\<close>: the list of messages of a pane and the actions a runtime
  stream sends to it. Every step that touches an assistant message cuts its texts to their limits.
\<close>

subsection \<open>Actions\<close>

record action_target =
  acMessageId :: "string option"
  acSubtaskId :: "string option"

text \<open>A \<open>clientUserMessageId\<close> may be \<open>null\<close> (\<open>Some None\<close>), which says that no message of the user started the turn.\<close>

record WorkbenchAssistantIdentity = action_target +
  acTaskId :: "string option"
  acClientUserMessageId :: "string option option"
  acShellType :: "string option"
  acStartedAt :: "int option"

datatype content_mode = DeltaContent | SnapshotContent

record chunk_action = action_target +
  acItemId :: "string option"
  acContent :: ustring
  acContentMode :: "content_mode option"
  acOffset :: "int option"
  acReasoningChunk :: "ustring option"
  acBlocks :: "ProcessingBlock list option"

record done_action = action_target +
  dnTurnId :: "string option"
  dnItemId :: "string option"
  dnContent :: "ustring option"
  dnBlocks :: "ProcessingBlock list option"
  dnFileChanges :: "TurnFileChangesSummary option"
  dnStartedAt :: "int option"
  dnDurationMs :: "int option"

record cancelled_action = action_target +
  cnContent :: "ustring option"
  cnStartedAt :: "int option"
  cnDurationMs :: "int option"

record error_action = action_target +
  erError :: ustring
  erErrorType :: "string option"
  erStartedAt :: "int option"
  erDurationMs :: "int option"

record created_action = action_target +
  crBlock :: ProcessingBlock
  crReplaceAssistantTextItemId :: "string option"

record updated_action = action_target +
  uaBlockId :: string
  uaUpdates :: ProcessingBlockUpdate

datatype WorkbenchMessageAction =
    WmReset "WorkbenchMessage list"
  | UserAdded WorkbenchMessage
  | AssistantStarted WorkbenchAssistantIdentity
  | AssistantBound WorkbenchAssistantIdentity
  | AssistantChunk chunk_action
  | AssistantDone done_action
  | AssistantCancelled cancelled_action
  | FileChangesUpdated string TurnFileChangesSummary
  | AssistantError error_action
  | BlockCreated created_action
  | BlockUpdated updated_action

subsection \<open>Finding the message of an action\<close>

abbreviation is_assistant :: "WorkbenchMessage \<Rightarrow> bool" where
  "is_assistant m \<equiv> wmRole m = RoleAssistant"

definition isAssistantMessageForAction :: "('a action_target_scheme) \<Rightarrow> WorkbenchMessage \<Rightarrow> bool" where
  "isAssistantMessageForAction a m \<longleftrightarrow> is_assistant m \<and>
     (if opt_truthy truthy_text (acMessageId a) then Some (wmId m) = acMessageId a
      else acSubtaskId a \<noteq> None \<and> got (wmSubtaskId m) = acSubtaskId a)"

definition isAssistantMessageForCancellationAction :: "('a action_target_scheme) \<Rightarrow> WorkbenchMessage \<Rightarrow> bool" where
  "isAssistantMessageForCancellationAction a m \<longleftrightarrow> is_assistant m \<and>
     ((acSubtaskId a \<noteq> None \<and> got (wmSubtaskId m) = acSubtaskId a) \<or>
      (opt_truthy truthy_text (acMessageId a) \<and> Some (wmId m) = acMessageId a))"

definition isAssistantMessageForSubtask :: "string \<Rightarrow> WorkbenchMessage \<Rightarrow> bool" where
  "isAssistantMessageForSubtask subtaskId m \<longleftrightarrow> is_assistant m \<and> got (wmSubtaskId m) = Some subtaskId"

text \<open>The message a completed turn ends: an index, none (\<open>-1\<close>), or ambiguous (\<open>null\<close>).\<close>

datatype done_index = DoneAt nat | DoneNone | DoneAmbiguous

definition done_identity :: "WorkbenchMessage list \<Rightarrow> string option \<Rightarrow> done_index" where
  "done_identity messages identity = (case identity of
       None \<Rightarrow> DoneNone
     | Some i \<Rightarrow>
         (case filter (\<lambda>(index, m). is_assistant m \<and> got (wmSubtaskId m) = Some i) (zip [0..<length messages] messages) of
            [] \<Rightarrow> DoneNone
          | [(index, m)] \<Rightarrow> DoneAt index
          | candidates \<Rightarrow> (case filter (\<lambda>(index, m). wmStatus m \<noteq> WmDone) candidates of
                [(index, m)] \<Rightarrow> DoneAt index
              | _ \<Rightarrow> DoneAmbiguous)))"

definition findAssistantMessageIndexForDoneAction :: "WorkbenchMessage list \<Rightarrow> done_action \<Rightarrow> done_index" where
  "findAssistantMessageIndexForDoneAction messages a =
     (if opt_truthy truthy_text (acMessageId a) then
        (case List.find (\<lambda>i. is_assistant (messages ! i) \<and> Some (wmId (messages ! i)) = acMessageId a) [0..<length messages] of
           None \<Rightarrow> DoneNone | Some i \<Rightarrow> DoneAt i)
      else (case done_identity messages (acSubtaskId a) of
          DoneNone \<Rightarrow> done_identity messages (dnTurnId a)
        | found \<Rightarrow> found))"

subsection \<open>Making and limiting messages\<close>

record new_assistant =
  naMessageId :: "string option"
  naTaskId :: "string option"
  naSubtaskId :: "string option"
  naTurnId :: "string option"
  naShellType :: "string option"
  naContent :: ustring
  naStatus :: RuntimeWorkbenchMessageStatus
  naBlocks :: "ProcessingBlock list option"
  naFileChanges :: "TurnFileChangesSummary option"
  naError :: "ustring option"
  naErrorType :: "string option"
  naRuntimeStatus :: "RuntimeWorkbenchMessageStatus option option"
  naCompletedAt :: "timestamp option option"
  naStoppedNotice :: "bool option option"

definition assistant_for :: "string option \<Rightarrow> string option \<Rightarrow> new_assistant" where
  "assistant_for messageId subtaskId = \<lparr>naMessageId = messageId, naTaskId = None, naSubtaskId = subtaskId,
     naTurnId = None, naShellType = None, naContent = [], naStatus = WmStreaming, naBlocks = None,
     naFileChanges = None, naError = None, naErrorType = None, naRuntimeStatus = None, naCompletedAt = None,
     naStoppedNotice = None\<rparr>"

definition createAssistantMessage :: "env \<Rightarrow> new_assistant \<Rightarrow> WorkbenchMessage" where
  "createAssistantMessage e a =
     (new_message_fields (the_or (''assistant-'' @ the_or (show_int (now e)) (naSubtaskId a)) (naMessageId a))
        RoleAssistant (naContent a) (naStatus a) (nowIso e))
     \<lparr>wmTaskId := Some (naTaskId a), wmSubtaskId := Some (naSubtaskId a), wmTurnId := Some (naTurnId a),
      wmShellType := Some (naShellType a), wmBlocks := val (the_or [] (naBlocks a)),
      wmFileChanges := Some (naFileChanges a), wmError := Some (naError a), wmErrorType := Some (naErrorType a),
      wmRuntimeStatus := Some (naRuntimeStatus a), wmCompletedAt := Some (naCompletedAt a),
      wmStoppedNotice := Some (naStoppedNotice a)\<rparr>"

definition clearMessageError :: "WorkbenchMessage \<Rightarrow> WorkbenchMessage" where
  "clearMessageError m =
     (if \<not> opt_truthy truthy_text (got (wmError m)) \<and> \<not> opt_truthy truthy_text (got (wmErrorType m)) then m
      else m\<lparr>wmError := absent, wmErrorType := absent\<rparr>)"

definition withActiveStreamState :: "WorkbenchMessage \<Rightarrow> bool \<Rightarrow> WorkbenchMessage" where
  "withActiveStreamState m isActive = (if isActive then (clearMessageError m)\<lparr>wmStatus := WmStreaming\<rparr> else m)"

definition messageContentLoadRef :: "WorkbenchMessage \<Rightarrow> WorkbenchContentLoadRef" where
  "messageContentLoadRef m = \<lparr>lrTaskId = got (wmTaskId m), lrMessageId = Some (wmId m),
     lrSubtaskId = got (wmSubtaskId m), lrBlockId = None, lrKind = LoadMessageContent\<rparr>"

definition limitWorkbenchMessage :: "WorkbenchMessage \<Rightarrow> WorkbenchMessage" where
  "limitWorkbenchMessage m =
     (if \<not> is_assistant m then m
      else
        let content = limitTextContent (wmContent m) MAX_LIVE_MESSAGE_CONTENT_CHARS (got (wmContentOriginalChars m));
            blocks = map_option (\<lambda>bs. sortProcessingBlocksByCreatedAt (map limitWorkbenchProcessingBlock bs)) (got (wmBlocks m))
        in m\<lparr>wmContent := ltText content,
             wmContentTruncated := undef_or (ltTruncated content),
             wmContentOriginalChars := Some (if ltTruncated content then Some (ltOriginalChars content) else None),
             wmContentLoadRef := Some (if ltTruncated content then Some (messageContentLoadRef m) else None),
             wmBlocks := Some blocks\<rparr>)"

subsection \<open>Duplicate ids\<close>

definition mergeMessageContent :: "ustring \<Rightarrow> ustring \<Rightarrow> ustring" where
  "mergeMessageContent current incoming =
     (if incoming = [] then current
      else if current = [] then incoming
      else if current = incoming then current
      else if prefix current incoming then incoming
      else if prefix incoming current then current
      else current @ incoming)"

definition mergeMessageBlocks ::
    "env \<Rightarrow> ProcessingBlock list option \<Rightarrow> ProcessingBlock list option \<Rightarrow> ProcessingBlock list option" where
  "mergeMessageBlocks e current incoming =
     (case incoming of None \<Rightarrow> current | Some bs \<Rightarrow> Some (foldl (mergeProcessingBlock e) (the_or [] current) bs))"

definition nullish_or :: "'a option property \<Rightarrow> 'a option property \<Rightarrow> 'a option property" where
  "nullish_or new old = Some (case nullish new of None \<Rightarrow> got old | Some v \<Rightarrow> Some (Some v))"

definition mergeDuplicateWorkbenchMessage :: "env \<Rightarrow> WorkbenchMessage \<Rightarrow> WorkbenchMessage \<Rightarrow> WorkbenchMessage" where
  "mergeDuplicateWorkbenchMessage e current incoming = (spread_message current incoming)
     \<lparr>wmTaskId := Some (coalesce (got (wmTaskId incoming)) (got (wmTaskId current))),
      wmSubtaskId := Some (coalesce (got (wmSubtaskId incoming)) (got (wmSubtaskId current))),
      wmShellType := Some (coalesce (got (wmShellType incoming)) (got (wmShellType current))),
      wmContent := mergeMessageContent (wmContent current) (wmContent incoming),
      wmAttachments := Some (coalesce (got (wmAttachments incoming)) (got (wmAttachments current))),
      wmBlocks := Some (mergeMessageBlocks e (got (wmBlocks current)) (got (wmBlocks incoming))),
      wmFileChanges := Some (coalesce (got (wmFileChanges incoming)) (got (wmFileChanges current))),
      wmSource := Some (coalesce (got (wmSource incoming)) (got (wmSource current))),
      wmRuntimeStatus := nullish_or (wmRuntimeStatus incoming) (wmRuntimeStatus current),
      wmCompletedAt := nullish_or (wmCompletedAt incoming) (wmCompletedAt current),
      wmStoppedNotice := nullish_or (wmStoppedNotice incoming) (wmStoppedNotice current),
      wmCreatedAt := (if wmCreatedAt current \<noteq> [] then wmCreatedAt current else wmCreatedAt incoming)\<rparr>"

definition normalize_one ::
    "env \<Rightarrow> WorkbenchMessage list \<times> (string, nat) jsmap \<Rightarrow> WorkbenchMessage \<Rightarrow>
     WorkbenchMessage list \<times> (string, nat) jsmap" where
  "normalize_one e s message = (let (normalized, indexes) = s in
     case jm_get indexes (wmId message) of
       None \<Rightarrow> (normalized @ [message], jm_set (wmId message) (length normalized) indexes)
     | Some index \<Rightarrow> (normalized[index := mergeDuplicateWorkbenchMessage e (normalized ! index) message], indexes))"

definition normalizeUniqueWorkbenchMessages :: "env \<Rightarrow> WorkbenchMessage list \<Rightarrow> WorkbenchMessage list" where
  "normalizeUniqueWorkbenchMessages e messages = fst (foldl (normalize_one e) ([], []) messages)"

subsection \<open>Chunks\<close>

definition nextMergedOriginalChars :: "ustring \<Rightarrow> int option \<Rightarrow> int \<Rightarrow> int option \<Rightarrow> int \<Rightarrow> int" where
  "nextMergedOriginalChars currentContent currentOriginalChars appendedChars incomingOffset incomingLength =
     (let currentVisibleChars = textCodePointLength currentContent;
          localOriginalChars = (case currentOriginalChars of
              Some n \<Rightarrow> if n > currentVisibleChars then n + appendedChars else currentVisibleChars + appendedChars
            | None \<Rightarrow> currentVisibleChars + appendedChars);
          offsetOriginalChars = (case incomingOffset of None \<Rightarrow> 0 | Some n \<Rightarrow> n + incomingLength)
      in max localOriginalChars offsetOriginalChars)"

record chunk_merge =
  cmContent :: ustring
  cmStreamTextOffset :: "int option"
  cmContentOriginalChars :: "int option"

definition mergeWorkbenchChunkContent ::
    "ustring \<Rightarrow> int option \<Rightarrow> int option \<Rightarrow> ustring \<Rightarrow> int option \<Rightarrow> chunk_merge" where
  "mergeWorkbenchChunkContent content streamTextOffset contentOriginalChars incomingContent incomingOffset =
     (if incomingContent = []
      then \<lparr>cmContent = content, cmStreamTextOffset = streamTextOffset, cmContentOriginalChars = contentOriginalChars\<rparr>
      else
        let currentOffset = coalesce streamTextOffset (if content = [] \<and> incomingOffset = Some 0 then Some 0 else None);
            incomingLength = textCodePointLength incomingContent;
            originalChars = (\<lambda>appended. Some (nextMergedOriginalChars content contentOriginalChars appended
              incomingOffset incomingLength))
        in case (incomingOffset, currentOffset) of
             (Some offset, Some current) \<Rightarrow>
               if offset < current then
                 (let coveredLength = current - offset
                  in if coveredLength \<ge> incomingLength
                     then \<lparr>cmContent = content, cmStreamTextOffset = Some current,
                       cmContentOriginalChars = originalChars 0\<rparr>
                     else (let suf = sliceTextCodePoints incomingContent coveredLength
                       in \<lparr>cmContent = content @ suf, cmStreamTextOffset = Some (offset + incomingLength),
                            cmContentOriginalChars = originalChars (textCodePointLength suf)\<rparr>))
               else \<lparr>cmContent = content @ incomingContent, cmStreamTextOffset = Some (offset + incomingLength),
                 cmContentOriginalChars = originalChars incomingLength\<rparr>
           | (offset, _) \<Rightarrow>
               \<lparr>cmContent = content @ incomingContent,
                cmStreamTextOffset = map_option (\<lambda>n. n + incomingLength) offset,
                cmContentOriginalChars = originalChars incomingLength\<rparr>)"

definition getChunkBlocks :: "env \<Rightarrow> WorkbenchMessage \<Rightarrow> chunk_action \<Rightarrow> ProcessingBlock list option" where
  "getChunkBlocks e message a =
     (let withReasoning = appendThinkingChunk e (got (wmBlocks message))
            (coalesce (acSubtaskId a) (got (wmSubtaskId message))) (acReasoningChunk a)
      in case acBlocks a of
           None \<Rightarrow> withReasoning
         | Some bs \<Rightarrow> Some (foldl (mergeProcessingBlock e) (the_or [] withReasoning) bs))"

definition chunk_existing :: "env \<Rightarrow> chunk_action \<Rightarrow> WorkbenchMessage \<Rightarrow> WorkbenchMessage" where
  "chunk_existing e a message =
     (if wmStatus message = WmDone then message
      else
        let blocks = getChunkBlocks e message a;
            merge = mergeWorkbenchChunkContent (wmContent message) (got (wmStreamTextOffset message))
              (got (wmContentOriginalChars message)) (acContent a) (acOffset a)
        in limitWorkbenchMessage ((clearMessageError message)
             \<lparr>wmContent := cmContent merge, wmStreamTextOffset := Some (cmStreamTextOffset merge),
              wmContentOriginalChars := Some (cmContentOriginalChars merge),
              wmStatus := WmStreaming, wmBlocks := Some blocks,
              wmStreamingThinkingContent := Some (resolveStreamingThinkingContent (got (wmStreamingThinkingContent message))
                (acReasoningChunk a) (Some (acContent a)) (acBlocks a) blocks)\<rparr>))"

definition chunk_created :: "env \<Rightarrow> chunk_action \<Rightarrow> WorkbenchMessage" where
  "chunk_created e a =
     (let merge = mergeWorkbenchChunkContent [] None None (acContent a) (acOffset a);
          message = createAssistantMessage e
            ((assistant_for (acMessageId a) (acSubtaskId a))\<lparr>naContent := cmContent merge\<rparr>);
          blocks = getChunkBlocks e message a
      in limitWorkbenchMessage (message
           \<lparr>wmStreamTextOffset := Some (cmStreamTextOffset merge), wmBlocks := Some blocks,
            wmStreamingThinkingContent := Some (resolveStreamingThinkingContent (got (wmStreamingThinkingContent message))
              (acReasoningChunk a) (Some (acContent a)) (acBlocks a) blocks)\<rparr>))"

subsection \<open>Created blocks\<close>

definition shouldMovePendingContentBeforeBlock :: "WorkbenchMessage \<Rightarrow> ProcessingBlock \<Rightarrow> bool" where
  "shouldMovePendingContentBeforeBlock message incomingBlock \<longleftrightarrow>
     pb_type incomingBlock \<noteq> KText \<and> unit_trim (wmContent message) \<noteq> []"

definition getBlocksBeforeIncomingBlock ::
    "env \<Rightarrow> WorkbenchMessage \<Rightarrow> string \<Rightarrow> ProcessingBlock \<Rightarrow> ProcessingBlock list" where
  "getBlocksBeforeIncomingBlock e message subtaskId incomingBlock =
     (let createdAt = wbCreatedAt (pbFields incomingBlock);
          finalizedBlocks = finalizeOpenNarrativeBlocks e createdAt (got (wmBlocks message))
      in if \<not> shouldMovePendingContentBeforeBlock message incomingBlock then finalizedBlocks
         else finalizedBlocks @ [PBlock ((new_fields (''text-'' @ subtaskId @ ''-'' @ show_nat (getTextBlockCount finalizedBlocks + 1))
           subtaskId KText TbDone createdAt)\<lparr>wbContent := val (wmContent message)\<rparr>) absent])"

definition createBlockCreatedMessage :: "env \<Rightarrow> WorkbenchMessage \<Rightarrow> created_action \<Rightarrow> WorkbenchMessage" where
  "createBlockCreatedMessage e message a =
     (let block = crBlock a;
          subtaskId = coalesce (acSubtaskId a) (got (wmSubtaskId message));
          movesPendingContent = shouldMovePendingContentBeforeBlock message block;
          activeMessage = withActiveStreamState message (isActiveBlockStatus (Some (pb_status block)));
          blocks = mergeProcessingBlock e
            (if opt_truthy truthy_text subtaskId then getBlocksBeforeIncomingBlock e message (the_or [] subtaskId) block
             else the_or [] (got (wmBlocks message))) block;
          moved = (if movesPendingContent
            then activeMessage\<lparr>wmContent := [], wmStreamTextOffset := undef, wmContentTruncated := undef,
              wmContentOriginalChars := undef, wmContentLoadRef := undef\<rparr>
            else activeMessage)
      in moved\<lparr>wmBlocks := val blocks,
           wmStreamingThinkingContent := Some (
             if pb_type block = KThinking \<or> pb_type block = KTool then getLatestThinkingContent (Some blocks)
             else if pb_type block = KText \<or> pb_type block = KPlan then None
             else got (wmStreamingThinkingContent message))\<rparr>)"

definition block_updated :: "env \<Rightarrow> updated_action \<Rightarrow> WorkbenchMessage \<Rightarrow> WorkbenchMessage" where
  "block_updated e a message =
     (let previousBlock = List.find (\<lambda>block. pb_id block = uaBlockId a) (the_or [] (got (wmBlocks message)));
          blocks = map (\<lambda>block. if pb_id block = uaBlockId a
            then mergeProcessingBlockUpdate e block (uaUpdates a) else block) (the_or [] (got (wmBlocks message)))
      in limitWorkbenchMessage ((withActiveStreamState message (isActiveBlockStatus (upStatus (uaUpdates a))))
           \<lparr>wmBlocks := val blocks,
            wmStreamingThinkingContent := Some (
              if map_option pb_type previousBlock = Some KThinking then getLatestThinkingContent (Some blocks)
              else if map_option pb_type previousBlock = Some KText \<or> map_option pb_type previousBlock = Some KPlan then None
              else got (wmStreamingThinkingContent message))\<rparr>))"

subsection \<open>Ends\<close>

definition drop_limits :: "bool \<Rightarrow> WorkbenchMessage \<Rightarrow> WorkbenchMessage" where
  "drop_limits given_content m = (if given_content
     then m\<lparr>wmContentTruncated := undef, wmContentOriginalChars := undef, wmContentLoadRef := undef\<rparr> else m)"

definition done_existing :: "env \<Rightarrow> done_action \<Rightarrow> WorkbenchMessage \<Rightarrow> WorkbenchMessage" where
  "done_existing e a message = limitWorkbenchMessage (drop_limits (dnContent a \<noteq> None) (clearMessageError message)
     \<lparr>wmSubtaskId := Some (coalesce (dnTurnId a) (got (wmSubtaskId message))),
      wmTurnId := Some (coalesce (dnTurnId a) (got (wmTurnId message))),
      wmContent := the_or (wmContent message) (dnContent a),
      wmStreamTextOffset := undef, wmStatus := WmDone, wmStreamingThinkingContent := undef,
      wmBlocks := Some (finalizeProcessingBlocks e TbDone (coalesce (dnBlocks a) (got (wmBlocks message)))),
      wmFileChanges := Some (coalesce (dnFileChanges a) (got (wmFileChanges message)))\<rparr>)"

definition cancelled_existing :: "env \<Rightarrow> cancelled_action \<Rightarrow> WorkbenchMessage \<Rightarrow> WorkbenchMessage" where
  "cancelled_existing e a message = limitWorkbenchMessage (drop_limits (cnContent a \<noteq> None) (clearMessageError message)
     \<lparr>wmContent := the_or (wmContent message) (cnContent a),
      wmStatus := WmDone, wmRuntimeStatus := val (Some WmCancelled), wmStreamingThinkingContent := undef,
      wmCompletedAt := val (Some (TimeStr (nowIso e))), wmStoppedNotice := val (Some True),
      wmBlocks := Some (finalizeProcessingBlocks e TbDone (got (wmBlocks message)))\<rparr>)"

definition error_existing :: "env \<Rightarrow> error_action \<Rightarrow> WorkbenchMessage \<Rightarrow> WorkbenchMessage" where
  "error_existing e a message =
     (let keeps = opt_truthy truthy_text (got (wmError message)) \<and> isGenericTaskStatusError (Some (erError a))
      in limitWorkbenchMessage (message
           \<lparr>wmStatus := WmFailed, wmStreamingThinkingContent := undef,
            wmError := (if keeps then Some (got (wmError message)) else val (erError a)),
            wmErrorType := Some (if keeps then got (wmErrorType message) else erErrorType a),
            wmBlocks := Some (finalizeProcessingBlocks e TbError (got (wmBlocks message)))\<rparr>))"

subsection \<open>The reducer\<close>

definition map_where :: "('a \<Rightarrow> bool) \<Rightarrow> ('a \<Rightarrow> 'a) \<Rightarrow> 'a list \<Rightarrow> 'a list" where
  "map_where P f xs = map (\<lambda>x. if P x then f x else x) xs"

definition update_or_add :: "('a \<Rightarrow> bool) \<Rightarrow> ('a \<Rightarrow> 'a) \<Rightarrow> 'a \<Rightarrow> 'a list \<Rightarrow> 'a list" where
  "update_or_add P f x xs = (if list_ex P xs then map_where P f xs else xs @ [x])"

definition reduce_done :: "env \<Rightarrow> WorkbenchMessage list \<Rightarrow> done_action \<Rightarrow> WorkbenchMessage list" where
  "reduce_done e state a = (case findAssistantMessageIndexForDoneAction state a of
       DoneAmbiguous \<Rightarrow> state
     | DoneNone \<Rightarrow> state @ [limitWorkbenchMessage (createAssistantMessage e
         ((assistant_for (acMessageId a) (coalesce (dnTurnId a) (acSubtaskId a)))
           \<lparr>naTurnId := dnTurnId a, naContent := the_or [] (dnContent a), naStatus := WmDone,
            naBlocks := finalizeProcessingBlocks e TbDone (dnBlocks a), naFileChanges := dnFileChanges a\<rparr>))]
     | DoneAt index \<Rightarrow> state[index := done_existing e a (state ! index)])"

definition reduce_cancelled :: "env \<Rightarrow> WorkbenchMessage list \<Rightarrow> cancelled_action \<Rightarrow> WorkbenchMessage list" where
  "reduce_cancelled e state a =
     (let matches = (if list_ex (isAssistantMessageForCancellationAction a) state
            then isAssistantMessageForCancellationAction a
            else (\<lambda>m. is_assistant m \<and> wmStatus m = WmStreaming))
      in update_or_add matches (cancelled_existing e a)
           (limitWorkbenchMessage (createAssistantMessage e ((assistant_for (acMessageId a) (acSubtaskId a))
              \<lparr>naContent := the_or [] (cnContent a), naStatus := WmDone, naRuntimeStatus := Some (Some WmCancelled),
               naCompletedAt := Some (Some (TimeStr (nowIso e))), naStoppedNotice := Some (Some True)\<rparr>))) state)"

definition started_existing :: "WorkbenchAssistantIdentity \<Rightarrow> WorkbenchMessage \<Rightarrow> WorkbenchMessage" where
  "started_existing a m = limitWorkbenchMessage ((clearMessageError m)
     \<lparr>wmTaskId := Some (coalesce (acTaskId a) (got (wmTaskId m))),
      wmShellType := Some (coalesce (acShellType a) (got (wmShellType m))), wmStatus := WmStreaming\<rparr>)"

definition bound_message :: "WorkbenchAssistantIdentity \<Rightarrow> WorkbenchMessage \<Rightarrow> WorkbenchMessage" where
  "bound_message a m =
     (if wmRole m = RoleUser \<and> acClientUserMessageId a = Some (Some (wmId m))
        then m\<lparr>wmSubtaskId := Some (acSubtaskId a), wmTurnId := Some (acSubtaskId a)\<rparr>
      else if isAssistantMessageForAction a m
        then m\<lparr>wmTaskId := Some (coalesce (acTaskId a) (got (wmTaskId m))),
          wmShellType := Some (coalesce (acShellType a) (got (wmShellType m)))\<rparr>
      else m)"

fun reduceWorkbenchMessages :: "env \<Rightarrow> WorkbenchMessage list \<Rightarrow> WorkbenchMessageAction \<Rightarrow> WorkbenchMessage list" where
  "reduceWorkbenchMessages e state (WmReset messages) =
     map limitWorkbenchMessage (normalizeUniqueWorkbenchMessages e messages)"
| "reduceWorkbenchMessages e state (UserAdded message) =
     map limitWorkbenchMessage (normalizeUniqueWorkbenchMessages e (state @ [message]))"
| "reduceWorkbenchMessages e state (AssistantBound a) = map (bound_message a) state"
| "reduceWorkbenchMessages e state (AssistantStarted a) =
     update_or_add (isAssistantMessageForAction a) (started_existing a)
       (limitWorkbenchMessage (createAssistantMessage e ((assistant_for (acMessageId a) (acSubtaskId a))
          \<lparr>naTaskId := acTaskId a, naShellType := acShellType a\<rparr>))) state"
| "reduceWorkbenchMessages e state (AssistantChunk a) =
     update_or_add (isAssistantMessageForAction a) (chunk_existing e a) (chunk_created e a) state"
| "reduceWorkbenchMessages e state (AssistantDone a) = reduce_done e state a"
| "reduceWorkbenchMessages e state (AssistantCancelled a) = reduce_cancelled e state a"
| "reduceWorkbenchMessages e state (FileChangesUpdated subtaskId fileChanges) =
     map_where (isAssistantMessageForSubtask subtaskId) (\<lambda>m. m\<lparr>wmFileChanges := val fileChanges\<rparr>) state"
| "reduceWorkbenchMessages e state (AssistantError a) =
     update_or_add (isAssistantMessageForAction a) (error_existing e a)
       (limitWorkbenchMessage (createAssistantMessage e ((assistant_for (acMessageId a) (acSubtaskId a))
          \<lparr>naStatus := WmFailed, naError := Some (erError a), naErrorType := erErrorType a\<rparr>))) state"
| "reduceWorkbenchMessages e state (BlockCreated a) =
     update_or_add (isAssistantMessageForAction a) (\<lambda>m. limitWorkbenchMessage (createBlockCreatedMessage e m a))
       (limitWorkbenchMessage (createBlockCreatedMessage e
          (createAssistantMessage e (assistant_for (acMessageId a) (acSubtaskId a))) a)) state"
| "reduceWorkbenchMessages e state (BlockUpdated a) =
     map_where (isAssistantMessageForAction a) (block_updated e a) state"

end
