(* ===== verification/WorkbenchMessageProps.thy ===== *)
theory WorkbenchMessageProps
  imports WorkbenchMessages MessageUtils
begin

text \<open>
  What holds of the messages of a pane: every text stays within its limit and the blocks in the order of their
  creation, chunks give the end of the stream's text whatever is repeated and however much was cut off, an
  update changes no other message, and ids are unique after a reset.
\<close>

subsection \<open>Cutting a text\<close>

lemma code_points_ascii: "ascii s \<Longrightarrow> code_points s = map (\<lambda>u. [u]) s"
proof (induction s rule: code_points.induct)
  case (3 a b r)
  then have "\<not> high_surrogate a"
    using order_trans [of "0xD800" a "0x7F"] by (auto simp: ascii_def high_surrogate_def)
  then show ?case using 3 by (simp add: ascii_def)
qed (simp_all add: ascii_def)

lemma codePointLength: "textCodePointLength s = int (length (code_points s))"
  by (simp add: textCodePointLength_def code_points_ascii)

lemma code_points_drop: "code_points (concat (drop k (code_points s))) = drop k (code_points s)"
proof (induction s arbitrary: k rule: code_points.induct)
  case (2 a)
  then show ?case by (cases k) simp_all
next
  case (3 a b r)
  show ?case
  proof (cases k)
    case (Suc j)
    then show ?thesis using 3 by (cases "high_surrogate a \<and> low_surrogate b") auto
  qed (simp only: drop_0 concat_code_points)
qed simp

lemma slice_code_points: "0 \<le> start \<Longrightarrow> sliceTextCodePoints s start = concat (drop (nat start) (code_points s))"
  by (auto simp: sliceTextCodePoints_def code_points_ascii drop_map)

lemma tail_code_points:
  "0 \<le> n \<Longrightarrow> tailTextCodePoints s n = concat (drop (length (code_points s) - nat n) (code_points s))"
  by (auto simp: tailTextCodePoints_def Let_def code_points_ascii drop_map nat_diff_distrib' max_def)

definition last_points :: "nat \<Rightarrow> 'a list \<Rightarrow> 'a list" where
  "last_points n xs = drop (length xs - n) xs"

lemma last_points_length [simp]: "length (last_points n xs) = min n (length xs)"
  by (simp add: last_points_def)

lemma limit_text: "0 \<le> n \<Longrightarrow> code_points (ltText (limitTextContent s n known)) = last_points (nat n) (code_points s)"
  by (auto simp: limitTextContent_def Let_def codePointLength tail_code_points code_points_drop last_points_def)

lemma limit_length: "0 \<le> n \<Longrightarrow> textCodePointLength (ltText (limitTextContent s n known)) \<le> n"
  by (simp add: codePointLength limit_text)

subsection \<open>Everything shown is limited\<close>

definition short :: "int \<Rightarrow> ustring option \<Rightarrow> bool" where
  "short n s \<longleftrightarrow> (case s of None \<Rightarrow> True | Some t \<Rightarrow> textCodePointLength t \<le> n)"

fun limited_block :: "ProcessingBlock \<Rightarrow> bool" where
  "limited_block (PBlock b cs) \<longleftrightarrow>
     (wbType b = KTool \<longrightarrow> (case got (wbToolOutput b) of
        Some (JStr s) \<Rightarrow> textCodePointLength s \<le> MAX_LIVE_TOOL_OUTPUT_CHARS | _ \<Rightarrow> True)) \<and>
     (wbType b = KThinking \<or> wbType b = KText \<or> wbType b = KPlan \<longrightarrow>
        short MAX_LIVE_BLOCK_CONTENT_CHARS (got (wbContent b))) \<and>
     (wbType b = KSubagent \<longrightarrow>
        short MAX_LIVE_BLOCK_CONTENT_CHARS (got (wbTitle b)) \<and>
        short MAX_LIVE_BLOCK_CONTENT_CHARS (got (wbDescription b)) \<and>
        short MAX_LIVE_BLOCK_CONTENT_CHARS (got (wbOutput b)) \<and>
        short MAX_LIVE_BLOCK_CONTENT_CHARS (got (wbSummary b)) \<and>
        (case cs of Some (Some children) \<Rightarrow> length children \<le> MAX_LIVE_SUBAGENT_CHILDREN \<and> list_all limited_block children
          | _ \<Rightarrow> True))"

abbreviation created_at :: "ProcessingBlock \<Rightarrow> int" where
  "created_at b \<equiv> wbCreatedAt (pbFields b)"

definition limited_message :: "WorkbenchMessage \<Rightarrow> bool" where
  "limited_message m \<longleftrightarrow> (is_assistant m \<longrightarrow>
     textCodePointLength (wmContent m) \<le> MAX_LIVE_MESSAGE_CONTENT_CHARS \<and>
     (case got (wmBlocks m) of None \<Rightarrow> True | Some bs \<Rightarrow> list_all limited_block bs \<and> sorted (map created_at bs)))"

lemma max_nonneg [simp]:
  "0 \<le> MAX_LIVE_MESSAGE_CONTENT_CHARS" "0 \<le> MAX_LIVE_BLOCK_CONTENT_CHARS" "0 \<le> MAX_LIVE_TOOL_OUTPUT_CHARS"
  by (simp_all add: MAX_LIVE_MESSAGE_CONTENT_CHARS_def MAX_LIVE_BLOCK_CONTENT_CHARS_def MAX_LIVE_TOOL_OUTPUT_CHARS_def)

lemma short_optional: "short MAX_LIVE_BLOCK_CONTENT_CHARS (fst (limitOptionalBlockText s))"
  by (auto simp: limitOptionalBlockText_def short_def Let_def limit_length split: option.split)

lemma limit_kinds [simp]:
  "wbType (limitToolBlock b) = wbType b" "wbType (limit_text_block b) = wbType b"
  "wbType (limit_subagent b cs) = wbType b"
  "wbCreatedAt (limitToolBlock b) = wbCreatedAt b" "wbCreatedAt (limit_text_block b) = wbCreatedAt b"
  "wbCreatedAt (limit_subagent b cs) = wbCreatedAt b"
  "wbId (limitToolBlock b) = wbId b" "wbId (limit_text_block b) = wbId b" "wbId (limit_subagent b cs) = wbId b"
  "wbStatus (limitToolBlock b) = wbStatus b" "wbStatus (limit_text_block b) = wbStatus b"
  "wbStatus (limit_subagent b cs) = wbStatus b"
  by (auto simp: limitToolBlock_def limit_text_block_def limit_subagent_def Let_def split: option.split json.split)

lemma limited_limit: "limited_block (limitWorkbenchProcessingBlock b)"
proof (induction b rule: limitWorkbenchProcessingBlock.induct)
  case (1 b cs)
  have tool: "case got (wbToolOutput (limitToolBlock b)) of
      Some (JStr s) \<Rightarrow> textCodePointLength s \<le> MAX_LIVE_TOOL_OUTPUT_CHARS | _ \<Rightarrow> True"
    by (auto simp: limitToolBlock_def Let_def limit_length split: option.split json.split)
  have content: "short MAX_LIVE_BLOCK_CONTENT_CHARS (got (wbContent (limit_text_block b)))"
    by (simp add: limit_text_block_def Let_def short_def limit_length)
  have sub: "short MAX_LIVE_BLOCK_CONTENT_CHARS (got (wbTitle (limit_subagent b x)))"
    "short MAX_LIVE_BLOCK_CONTENT_CHARS (got (wbDescription (limit_subagent b x)))"
    "short MAX_LIVE_BLOCK_CONTENT_CHARS (got (wbOutput (limit_subagent b x)))"
    "short MAX_LIVE_BLOCK_CONTENT_CHARS (got (wbSummary (limit_subagent b x)))" for x
    by (simp_all add: limit_subagent_def Let_def short_optional)
  have few: "length (last_children (xs :: ProcessingBlock list)) \<le> MAX_LIVE_SUBAGENT_CHILDREN" for xs
    by (simp add: last_children_def)
  show ?case
  proof (cases "wbType b")
    case KSubagent
    then show ?thesis
      using "1.IH" sub few by (auto simp: list_all_iff split: option.split)
  qed (use tool content in simp_all)
qed

lemma limit_block_same [simp]:
  "pb_id (limitWorkbenchProcessingBlock b) = pb_id b" "pb_type (limitWorkbenchProcessingBlock b) = pb_type b"
  "pb_status (limitWorkbenchProcessingBlock b) = pb_status b" "created_at (limitWorkbenchProcessingBlock b) = created_at b"
  by (cases b; simp)+

lemma sort_blocks: "sortProcessingBlocksByCreatedAt bs = sort_key created_at bs"
  unfolding sortProcessingBlocksByCreatedAt_def by (rule sort_key_index)

lemma limitWorkbench_role [simp]: "wmRole (limitWorkbenchMessage m) = wmRole m"
  by (simp add: limitWorkbenchMessage_def Let_def)

lemma limited_limitWorkbenchMessage [simp, intro]: "limited_message (limitWorkbenchMessage m)"
  by (auto simp: limited_message_def limitWorkbenchMessage_def Let_def limit_length sort_blocks list_all_iff
      limited_limit split: option.split)

lemma limited_all: "list_all limited_message (map limitWorkbenchMessage ms)"
  by (simp add: list_all_iff)

lemma limited_same:
  "wmRole m' = wmRole m \<Longrightarrow> wmContent m' = wmContent m \<Longrightarrow> wmBlocks m' = wmBlocks m \<Longrightarrow>
   limited_message m' = limited_message m"
  by (simp add: limited_message_def)

lemma limited_map_where: "list_all P xs \<Longrightarrow> (\<And>x. P x \<Longrightarrow> P (f x)) \<Longrightarrow> list_all P (map_where Q f xs)"
  by (induction xs) (auto simp: map_where_def)

lemma limited_update_or_add:
  "list_all P xs \<Longrightarrow> (\<And>x. P x \<Longrightarrow> P (f x)) \<Longrightarrow> P y \<Longrightarrow> list_all P (update_or_add Q f y xs)"
  by (auto simp: update_or_add_def limited_map_where)

lemma limited_reduce: "list_all limited_message s \<Longrightarrow> list_all limited_message (reduceWorkbenchMessages e s a)"
proof (cases a)
  case (AssistantBound x)
  have "limited_message (bound_message x m) = limited_message m" for m
    by (rule limited_same) (simp_all add: bound_message_def)
  then show "list_all limited_message s \<Longrightarrow> ?thesis" using AssistantBound by (simp add: list_all_iff)
next
  case (FileChangesUpdated i x)
  then show "list_all limited_message s \<Longrightarrow> ?thesis"
    by (auto intro!: limited_map_where simp: limited_message_def)
next
  case (AssistantDone x)
  assume "list_all limited_message s"
  then have "list_all limited_message (s[i := done_existing e x m])" for i m
    using set_update_subset_insert [of s i "done_existing e x m"] by (auto simp: list_all_iff done_existing_def)
  then show ?thesis using AssistantDone \<open>list_all limited_message s\<close>
    by (auto simp: reduce_done_def split: done_index.split)
next
  case (AssistantChunk x)
  then show "list_all limited_message s \<Longrightarrow> ?thesis"
    by (auto intro!: limited_update_or_add simp: chunk_existing_def chunk_created_def Let_def)
qed (auto intro!: limited_update_or_add limited_map_where
  simp: reduce_cancelled_def Let_def limited_all cancelled_existing_def started_existing_def error_existing_def block_updated_def)

interpretation workbench: invariant_machine "\<lambda>s (e, a). reduceWorkbenchMessages e s a" "list_all limited_message"
  by unfold_locales (auto intro: limited_reduce)


subsection \<open>Chunks of a long text\<close>

lemma last_points_append: "last_points m (last_points m xs @ ys) = last_points m (xs @ ys)"
  by (cases "length xs \<le> m") (auto simp: last_points_def add.commute)

lemma last_points_short: "length xs \<le> m \<Longrightarrow> last_points m xs = xs"
  by (simp add: last_points_def)

lemma code_points_scalars: "list_all scalar cs \<Longrightarrow> code_points (concat cs) = cs"
  by (rule code_points_concat)

abbreviation max_chars :: nat where
  "max_chars \<equiv> nat MAX_LIVE_MESSAGE_CONTENT_CHARS"

lemma max_chars_int [simp]: "int max_chars = MAX_LIVE_MESSAGE_CONTENT_CHARS"
  by simp

text \<open>A message that has received the first \<open>n\<close> code points of a text shows the last ones of them.\<close>

definition displays :: "ustring list \<Rightarrow> nat \<Rightarrow> WorkbenchMessage \<Rightarrow> bool" where
  "displays T n m \<longleftrightarrow> is_assistant m \<and> wmStatus m \<noteq> WmDone \<and> n \<le> length T \<and>
     wmContent m = concat (last_points max_chars (take n T)) \<and>
     (got (wmStreamTextOffset m) = Some (int n) \<or> n = 0 \<and> got (wmStreamTextOffset m) = None) \<and>
     got (wmContentOriginalChars m) = (if n > max_chars then Some (int n) else None)"

lemma merge_at_offset:
  assumes "incoming \<noteq> []" and "coalesce streamed (if content = [] \<and> Some offset = Some 0 then Some 0 else None) = Some current"
  shows "mergeWorkbenchChunkContent content streamed originals incoming (Some offset) =
    (let len = textCodePointLength incoming;
         original = (\<lambda>appended. Some (nextMergedOriginalChars content originals appended (Some offset) len))
     in if offset < current \<and> current - offset \<ge> len
        then \<lparr>cmContent = content, cmStreamTextOffset = Some current, cmContentOriginalChars = original 0\<rparr>
        else let suf = (if offset < current then sliceTextCodePoints incoming (current - offset) else incoming)
          in \<lparr>cmContent = content @ suf, cmStreamTextOffset = Some (offset + len),
               cmContentOriginalChars = original (textCodePointLength suf)\<rparr>)"
  using assms unfolding mergeWorkbenchChunkContent_def by (simp add: Let_def)

lemma chunk_merge_text:
  assumes T: "list_all scalar T" and m: "displays T n m" and fits: "off \<le> n" "off + k \<le> length T"
  defines "merge \<equiv> mergeWorkbenchChunkContent (wmContent m) (got (wmStreamTextOffset m))
    (got (wmContentOriginalChars m)) (chunk_at T off k) (Some (int off))"
  shows "cmContent merge = concat (last_points max_chars (take n T) @ drop n (take (max n (off + k)) T)) \<and>
    (cmStreamTextOffset merge = Some (int (max n (off + k))) \<or> max n (off + k) = 0 \<and> cmStreamTextOffset merge = None) \<and>
    (cmContentOriginalChars merge = Some (int (max n (off + k))) \<or>
      k = 0 \<and> cmContentOriginalChars merge = (if n > max_chars then Some (int n) else None))"
proof (cases "k = 0")
  case True
  then show ?thesis using m fits
    by (auto simp: merge_def displays_def mergeWorkbenchChunkContent_def chunk_at_def)
next
  case False
  let ?X = "last_points max_chars (take n T)"
  have sX: "list_all scalar ?X" using T by (simp add: last_points_def scalar_slices)
  have sc: "list_all scalar (take k (drop off T))" using T by (simp add: scalar_slices)
  have chunk: "code_points (chunk_at T off k) = take k (drop off T)"
    using sc by (simp add: chunk_at_def code_points_scalars)
  have len: "textCodePointLength (chunk_at T off k) = int k"
    using fits by (simp add: codePointLength chunk)
  have nonempty: "chunk_at T off k \<noteq> []"
    using len False by (auto simp: codePointLength)
  have visible: "textCodePointLength (wmContent m) = int (min n max_chars)"
    using m sX by (simp add: codePointLength displays_def code_points_scalars min.commute)
  have current: "coalesce (got (wmStreamTextOffset m))
      (if wmContent m = [] \<and> Some (int off) = Some 0 then Some 0 else None) = Some (int n)"
    using m fits by (auto simp: displays_def last_points_def)
  have original: "nextMergedOriginalChars (wmContent m) (got (wmContentOriginalChars m)) appended (Some (int off)) (int k)
      = int (max n (off + k))" if "appended = int (max n (off + k)) - int n" for appended
    using m that fits unfolding nextMergedOriginalChars_def visible by (auto simp: displays_def Let_def max_def min_def)
  have merged: "merge = (if off < n \<and> int n - int off \<ge> int k
      then \<lparr>cmContent = wmContent m, cmStreamTextOffset = Some (int n), cmContentOriginalChars =
        Some (nextMergedOriginalChars (wmContent m) (got (wmContentOriginalChars m)) 0 (Some (int off)) (int k))\<rparr>
      else let suf = (if off < n then sliceTextCodePoints (chunk_at T off k) (int n - int off) else chunk_at T off k)
        in \<lparr>cmContent = wmContent m @ suf, cmStreamTextOffset = Some (int off + int k), cmContentOriginalChars =
          Some (nextMergedOriginalChars (wmContent m) (got (wmContentOriginalChars m)) (textCodePointLength suf) (Some (int off)) (int k))\<rparr>)"
    unfolding merge_def merge_at_offset [OF nonempty current] len Let_def by simp
  have shown: "wmContent m = concat ?X" using m by (simp add: displays_def)
  consider (covered) "off + k \<le> n" | (overlap) "off < n" "n < off + k" | (appends) "off = n" using fits by linarith
  then show ?thesis
  proof cases
    case covered
    then have "off < n" using False by linarith
    then show ?thesis using covered original [of 0] by (simp add: merged shown max_absorb1)
  next
    case overlap
    have suf: "sliceTextCodePoints (chunk_at T off k) (int n - int off) = concat (drop (n - off) (take k (drop off T)))"
      using overlap by (simp add: slice_code_points chunk nat_diff_distrib)
    have "list_all scalar (drop (n - off) (take k (drop off T)))" using sc by (rule scalar_drop)
    then have "textCodePointLength (concat (drop (n - off) (take k (drop off T)))) = int (off + k) - int n"
      using fits overlap by (simp add: codePointLength code_points_scalars)
    moreover have "drop (n - off) (take k (drop off T)) = drop n (take (off + k) T)"
      using overlap by (simp add: drop_take add.commute)
    ultimately show ?thesis
      using overlap original [of "int (off + k) - int n"] by (simp add: merged Let_def suf shown max_absorb2)
  next
    case appends
    have "textCodePointLength (concat (take k (drop n T))) = int k"
      using len appends by (simp add: chunk_at_def)
    then show ?thesis
      using appends original [of "int k"] by (simp add: merged Let_def shown max_absorb2 chunk_at_def drop_take)
  qed
qed

lemma clear_error_simps [simp]:
  "wmRole (clearMessageError m) = wmRole m" "wmId (clearMessageError m) = wmId m"
  "wmSubtaskId (clearMessageError m) = wmSubtaskId m" "wmContent (clearMessageError m) = wmContent m"
  by (simp_all add: clearMessageError_def)

lemma limit_message_simps:
  assumes "is_assistant m"
  shows "wmContent (limitWorkbenchMessage m) = ltText (limitTextContent (wmContent m) MAX_LIVE_MESSAGE_CONTENT_CHARS (got (wmContentOriginalChars m)))"
    and "got (wmContentOriginalChars (limitWorkbenchMessage m)) =
      (let l = limitTextContent (wmContent m) MAX_LIVE_MESSAGE_CONTENT_CHARS (got (wmContentOriginalChars m))
       in if ltTruncated l then Some (ltOriginalChars l) else None)"
    and "wmStreamTextOffset (limitWorkbenchMessage m) = wmStreamTextOffset m"
    and "wmStatus (limitWorkbenchMessage m) = wmStatus m"
  using assms by (simp_all add: limitWorkbenchMessage_def Let_def)

lemma chunk_step:
  assumes T: "list_all scalar T" and m: "displays T n m" and fits: "off \<le> n" "off + k \<le> length T"
    and a: "acContent a = chunk_at T off k" "acOffset a = Some (int off)"
  shows "displays T (max n (off + k)) (chunk_existing e a m)"
proof -
  let ?n = "max n (off + k)"
  let ?X = "last_points max_chars (take n T)" and ?Y = "drop n (take ?n T)"
  obtain c so oc where merge: "mergeWorkbenchChunkContent (wmContent m) (got (wmStreamTextOffset m))
      (got (wmContentOriginalChars m)) (acContent a) (acOffset a)
      = \<lparr>cmContent = c, cmStreamTextOffset = so, cmContentOriginalChars = oc\<rparr>" by (cases rule: chunk_merge.cases) blast
  note parts = chunk_merge_text [OF T m fits, folded a, unfolded merge, simplified]
  have "c = concat (?X @ ?Y)" using parts by simp
  moreover have "list_all scalar (?X @ ?Y)" using T by (simp add: last_points_def scalar_slices)
  ultimately have cp: "code_points c = ?X @ ?Y" by (simp only: code_points_scalars)
  have all: "last_points max_chars (code_points c) = last_points max_chars (take ?n T)"
    unfolding cp last_points_append using append_take_drop_id [of n "take ?n T"] by (simp add: min_absorb1)
  have cur: "textCodePointLength c = int (min max_chars n + (?n - n))"
    using m fits by (simp add: codePointLength cp displays_def)
  have stext: "ltText (limitTextContent c MAX_LIVE_MESSAGE_CONTENT_CHARS oc) = concat (last_points max_chars (take ?n T))"
    using limit_text [OF max_nonneg(1), of c oc] all by (metis concat_code_points)
  have chars: "(let l = limitTextContent c MAX_LIVE_MESSAGE_CONTENT_CHARS oc in
      if ltTruncated l then Some (ltOriginalChars l) else None) = (if ?n > max_chars then Some (int ?n) else None)"
  proof -
    define N where "N = ?n"
    have N: "n \<le> N" "k = 0 \<Longrightarrow> N = n" using fits by (auto simp: N_def)
    have "oc = Some (int N) \<or> k = 0 \<and> oc = (if n > max_chars then Some (int n) else None)"
      using parts [THEN conjunct2, THEN conjunct2] by (simp add: N_def)
    moreover have "textCodePointLength c = int (min max_chars n + (N - n))" using cur by (simp add: N_def)
    ultimately show ?thesis
      unfolding limitTextContent_def N_def [symmetric] using N
      by (auto simp: Let_def max_def min_def split: if_splits)
  qed
  have open_message: "is_assistant m" "wmStatus m \<noteq> WmDone" using m by (simp_all add: displays_def)
  define m1 where "m1 = (clearMessageError m)
     \<lparr>wmContent := c, wmStreamTextOffset := Some so, wmContentOriginalChars := Some oc, wmStatus := WmStreaming,
      wmBlocks := Some (getChunkBlocks e m a),
      wmStreamingThinkingContent := Some (resolveStreamingThinkingContent (got (wmStreamingThinkingContent m))
        (acReasoningChunk a) (Some (acContent a)) (acBlocks a) (getChunkBlocks e m a))\<rparr>"
  have m1: "chunk_existing e a m = limitWorkbenchMessage m1" "is_assistant m1" "wmContent m1 = c"
    "wmStreamTextOffset m1 = Some so" "wmContentOriginalChars m1 = Some oc" "wmStatus m1 = WmStreaming"
    using open_message by (simp_all add: chunk_existing_def Let_def merge m1_def)
  have "so = Some (int ?n) \<or> ?n = 0 \<and> so = None"
    using parts [THEN conjunct2, THEN conjunct1] by simp
  then show ?thesis
    using m fits stext chars m1(2-)
    unfolding displays_def m1(1) limit_message_simps [OF m1(2)] limitWorkbench_role by simp
qed


text \<open>A chunk leaves the message it is sent to the target of the next ones.\<close>

lemma chunk_keeps_target [simp]:
  "wmRole (chunk_existing e a m) = wmRole m" "wmId (chunk_existing e a m) = wmId m"
  "wmSubtaskId (chunk_existing e a m) = wmSubtaskId m"
  by (simp_all add: chunk_existing_def Let_def limitWorkbenchMessage_def)

lemma same_target:
  "wmRole m' = wmRole m \<Longrightarrow> wmId m' = wmId m \<Longrightarrow> wmSubtaskId m' = wmSubtaskId m \<Longrightarrow>
   acMessageId b = acMessageId a \<Longrightarrow> acSubtaskId b = acSubtaskId a \<Longrightarrow>
   isAssistantMessageForAction b m' = isAssistantMessageForAction a m"
  by (simp add: isAssistantMessageForAction_def)

lemma chunk_reaches:
  assumes "i < length s" and "isAssistantMessageForAction a (s ! i)"
  shows "length (reduceWorkbenchMessages e s (AssistantChunk a)) = length s \<and>
    reduceWorkbenchMessages e s (AssistantChunk a) ! i = chunk_existing e a (s ! i)"
proof -
  have "list_ex (isAssistantMessageForAction a) s" using assms by (auto simp: list_ex_length)
  then show ?thesis using assms by (simp add: update_or_add_def map_where_def)
qed

text \<open>The chunk of \<open>k\<close> code points at \<open>off\<close>, with whatever else the event \<open>a\<close> carries.\<close>

definition chunk_event :: "ustring list \<Rightarrow> chunk_action \<times> nat \<times> nat \<Rightarrow> WorkbenchMessageAction" where
  "chunk_event T = (\<lambda>(a, off, k). AssistantChunk (a\<lparr>acContent := chunk_at T off k, acOffset := Some (int off)\<rparr>))"

definition chunk_stream ::
    "ustring list \<Rightarrow> WorkbenchMessage list \<Rightarrow> (env \<times> chunk_action \<times> nat \<times> nat) list \<Rightarrow> WorkbenchMessage list" where
  "chunk_stream T s cs = foldl (\<lambda>s (e, c). reduceWorkbenchMessages e s (chunk_event T c)) s cs"

abbreviation spans :: "(env \<times> chunk_action \<times> nat \<times> nat) list \<Rightarrow> (nat \<times> nat) list" where
  "spans \<equiv> map (\<lambda>c. snd (snd c))"

lemma stream_displays:
  assumes "list_all scalar T"
    and "\<forall>(e, a, off, k)\<in>set cs. off + k \<le> length T \<and> acMessageId a = acMessageId t \<and> acSubtaskId a = acSubtaskId t"
    and "gap_free n (spans cs)" and "i < length s" and "isAssistantMessageForAction t (s ! i)" and "displays T n (s ! i)"
  shows "displays T (reach n (spans cs)) (chunk_stream T s cs ! i)"
  using assms
proof (induction cs arbitrary: s n)
  case Nil
  then show ?case by (simp add: chunk_stream_def reach_def)
next
  case (Cons c cs)
  obtain e a off k where c: "c = (e, a, off, k)" by (cases c)
  define b where "b = a\<lparr>acContent := chunk_at T off k, acOffset := Some (int off)\<rparr>"
  define s' where "s' = reduceWorkbenchMessages e s (AssistantChunk b)"
  have target: "acMessageId b = acMessageId t" "acSubtaskId b = acSubtaskId t" "off + k \<le> length T" "off \<le> n"
    using Cons.prems by (simp_all add: c b_def)
  have "isAssistantMessageForAction b (s ! i)"
    using Cons.prems(5) same_target [OF refl refl refl target(1,2)] by blast
  then have s': "length s' = length s" "s' ! i = chunk_existing e b (s ! i)"
    using chunk_reaches [OF Cons.prems(4), of b e] by (simp_all add: s'_def)
  have "displays T (reach (max n (off + k)) (spans cs)) (chunk_stream T s' cs ! i)"
  proof (rule Cons.IH)
    show "isAssistantMessageForAction t (s' ! i)"
      using Cons.prems(5) same_target [OF _ _ _ refl refl, of "s' ! i" "s ! i" t] by (simp add: s'(2))
    show "displays T (max n (off + k)) (s' ! i)"
      unfolding s'(2) using Cons.prems target by (intro chunk_step) (auto simp: b_def)
  qed (use Cons.prems in \<open>auto simp: c s'\<close>)
  then show ?case by (simp add: c chunk_stream_def chunk_event_def reach_def s'_def b_def)
qed

subsection \<open>Unique ids\<close>

definition index_of_ids :: "WorkbenchMessage list \<Rightarrow> (string, nat) jsmap \<Rightarrow> bool" where
  "index_of_ids ms ix \<longleftrightarrow> distinct (map wmId ms) \<and>
     (\<forall>k i. jm_get ix k = Some i \<longrightarrow> i < length ms \<and> wmId (ms ! i) = k) \<and> (\<forall>m\<in>set ms. jm_get ix (wmId m) \<noteq> None)"

lemma merged_id [simp]: "wmId (mergeDuplicateWorkbenchMessage e a b) = wmId b"
  by (simp add: mergeDuplicateWorkbenchMessage_def spread_message_def)

lemma normalize_one_ids:
  fixes e m
  assumes "index_of_ids ms ix"
  defines "r \<equiv> normalize_one e (ms, ix) m"
  shows "index_of_ids (fst r) (snd r) \<and>
    map wmId (fst r) = (if wmId m \<in> wmId ` set ms then map wmId ms else map wmId ms @ [wmId m])"
proof (cases "jm_get ix (wmId m)")
  case None
  then have "wmId m \<notin> wmId ` set ms" using assms(1) by (force simp: index_of_ids_def)
  then show ?thesis
    using assms(1) None by (auto simp: r_def normalize_one_def index_of_ids_def nth_append less_Suc_eq)
next
  case (Some i)
  then have i: "i < length ms" "wmId (ms ! i) = wmId m" using assms(1) by (auto simp: index_of_ids_def)
  then have ids: "map wmId (ms[i := mergeDuplicateWorkbenchMessage e (ms ! i) m]) = map wmId ms"
    by (metis list_update_id map_update merged_id)
  moreover have "wmId m \<in> wmId ` set ms" using i by (metis image_eqI nth_mem)
  moreover have "index_of_ids ms' ix" if "map wmId ms' = map wmId ms" for ms'
  proof -
    have "length ms' = length ms" "\<forall>j < length ms. wmId (ms' ! j) = wmId (ms ! j)" "wmId ` set ms' = wmId ` set ms"
      using that by (metis length_map, metis length_map nth_map, metis set_map)
    moreover have "\<forall>x\<in>set ms'. jm_get ix (wmId x) \<noteq> None"
    proof
      fix x assume "x \<in> set ms'"
      then obtain y where "y \<in> set ms" "wmId x = wmId y" using calculation(3) by (metis imageE imageI)
      then show "jm_get ix (wmId x) \<noteq> None" using assms(1) unfolding index_of_ids_def by metis
    qed
    ultimately show ?thesis using assms(1) that by (simp add: index_of_ids_def)
  qed
  ultimately show ?thesis using Some by (simp add: r_def normalize_one_def)
qed

text \<open>The first occurrences of a list, in their order.\<close>

definition first_occurrences :: "'a list \<Rightarrow> 'a list" where
  "first_occurrences xs = rev (remdups (rev xs))"

lemma first_occurrences_snoc:
  "first_occurrences (xs @ [x]) = (if x \<in> set xs then first_occurrences xs else first_occurrences xs @ [x])"
  by (simp add: first_occurrences_def)

lemma normalize_ids:
  fixes e
  defines "r \<equiv> \<lambda>ms. foldl (normalize_one e) ([], []) ms"
  shows "index_of_ids (fst (r ms)) (snd (r ms)) \<and> map wmId (fst (r ms)) = first_occurrences (map wmId ms)"
proof (induction ms rule: rev_induct)
  case Nil
  then show ?case by (simp add: r_def index_of_ids_def first_occurrences_def)
next
  case (snoc m ms)
  have step: "r (ms @ [m]) = normalize_one e (fst (r ms), snd (r ms)) m" by (simp add: r_def)
  have "set (map wmId (fst (r ms))) = set (map wmId ms)" using conjunct2 [OF snoc] by (simp add: first_occurrences_def)
  then have "wmId m \<in> wmId ` set (fst (r ms)) \<longleftrightarrow> wmId m \<in> wmId ` set ms" by (metis set_map)
  then show ?case
    using normalize_one_ids [OF conjunct1 [OF snoc], of e m] conjunct2 [OF snoc]
    unfolding step by (simp add: first_occurrences_snoc)
qed

lemma limit_id [simp]: "wmId (limitWorkbenchMessage m) = wmId m"
  by (simp add: limitWorkbenchMessage_def Let_def)

lemma normalized_ids:
  "map wmId (map limitWorkbenchMessage (normalizeUniqueWorkbenchMessages e ms)) = first_occurrences (map wmId ms)"
  using normalize_ids [of e ms] by (simp add: normalizeUniqueWorkbenchMessages_def comp_def)

subsection \<open>Properties\<close>

text \<open>C10: Whatever actions reach the reducer, from the empty pane on, every assistant message it keeps is cut to
  size: its content, the texts and tool outputs of its blocks and those of a subagent's blocks at every depth stay
  within their limits counted in code points, and its blocks are in the order of their creation.\<close>

theorem live_messages_limited:
  "list_all limited_message (foldl (\<lambda>s (e, a). reduceWorkbenchMessages e s a) [] actions)"
  by (rule workbench.run_inv) simp

text \<open>C11: A text of any length that is streamed into a started message in chunks, repeated or overlapping as they
  may be and carrying whatever reasoning and blocks: the message shows the last code points of the part
  received, as many as the limit allows, and says how long the text is exactly when some of it is cut off.\<close>

theorem long_stream_shows_its_end:
  assumes "list_all scalar T" and "gap_free 0 (spans cs)"
    and "\<forall>(e, a, off, k)\<in>set cs. off + k \<le> length T \<and> acMessageId a = acMessageId t \<and> acSubtaskId a = acSubtaskId t"
    and "i < length s" and "isAssistantMessageForAction t (s ! i)"
    and "wmStatus (s ! i) \<noteq> WmDone" and "wmContent (s ! i) = []"
    and "got (wmStreamTextOffset (s ! i)) = None" and "got (wmContentOriginalChars (s ! i)) = None"
  defines "m \<equiv> chunk_stream T s cs ! i" and "n \<equiv> reach 0 (spans cs)"
  shows "wmContent m = concat (last_points max_chars (take n T)) \<and>
    got (wmContentOriginalChars m) = (if n > max_chars then Some (int n) else None)"
proof -
  have "displays T 0 (s ! i)"
    using assms(5-9) by (simp add: displays_def isAssistantMessageForAction_def last_points_def)
  then have "displays T n m"
    unfolding m_def n_def by (rule stream_displays [OF assms(1,3,2,4,5)])
  then show ?thesis by (simp add: displays_def)
qed

text \<open>A text of \<open>n\<close> letters, streamed into the message an \<open>assistant_started\<close> has made.\<close>

definition demo_letters :: "nat \<Rightarrow> ustring list" where
  "demo_letters n = replicate n [97]"

lemma demo_letters_simps [simp]:
  "length (demo_letters n) = n" "list_all scalar (demo_letters n)" "take k (demo_letters n) = demo_letters (min k n)"
  "last_points k (demo_letters n) = demo_letters (min k n)"
  by (auto simp: demo_letters_def list_all_iff high_surrogate_def low_surrogate_def last_points_def min_def)

abbreviation demo_text_chunk :: chunk_action where
  "demo_text_chunk \<equiv> \<lparr>acMessageId = None, acSubtaskId = Some ''7'', acItemId = None, acContent = [],
     acContentMode = None, acOffset = None, acReasoningChunk = None,
     acBlocks = None\<rparr>"

definition demo_started :: "env \<Rightarrow> WorkbenchMessage list" where
  "demo_started e = reduceWorkbenchMessages e [] (AssistantStarted \<lparr>acMessageId = None, acSubtaskId = Some ''7'',
     acTaskId = None, acClientUserMessageId = None, acShellType = None, acStartedAt = None\<rparr>)"

theorem long_stream_shows_its_end_witness:
  "\<forall>e. wmContent (chunk_stream (demo_letters 250000) (demo_started e)
     [(e, demo_text_chunk, 0, 150000), (e, demo_text_chunk, 100000, 150000)] ! 0) = concat (demo_letters 200000)"
proof
  fix e
  have fresh: "0 < length (demo_started e)" "isAssistantMessageForAction demo_text_chunk (demo_started e ! 0)"
    "wmStatus (demo_started e ! 0) \<noteq> WmDone" "wmContent (demo_started e ! 0) = []"
    "got (wmStreamTextOffset (demo_started e ! 0)) = None" "got (wmContentOriginalChars (demo_started e ! 0)) = None"
    by (simp_all add: demo_started_def update_or_add_def limitWorkbenchMessage_def createAssistantMessage_def assistant_for_def
        new_message_fields_def isAssistantMessageForAction_def limitTextContent_def textCodePointLength_def Let_def
        MAX_LIVE_MESSAGE_CONTENT_CHARS_def ascii_def)
  show "wmContent (chunk_stream (demo_letters 250000) (demo_started e)
     [(e, demo_text_chunk, 0, 150000), (e, demo_text_chunk, 100000, 150000)] ! 0) = concat (demo_letters 200000)"
    by (subst long_stream_shows_its_end [OF _ _ _ fresh, THEN conjunct1])
      (simp_all add: reach_def MAX_LIVE_MESSAGE_CONTENT_CHARS_def)
qed

text \<open>After a reset, or when a message of the user is added, no two messages have the same id: the duplicates
  are merged into the place of the first.\<close>

theorem reset_ids_unique:
  "map wmId (reduceWorkbenchMessages e s (WmReset ms)) = first_occurrences (map wmId ms) \<and>
   map wmId (reduceWorkbenchMessages e s (UserAdded m)) = first_occurrences (map wmId s @ [wmId m])"
  using normalized_ids [of e ms] normalized_ids [of e "s @ [m]"] by simp

end
