(* ===== verification/UserInput.thy ===== *)
theory UserInput
  imports WorkbenchBlocks
begin

text \<open>
  Questions a runtime asks the user, from \<open>packages/chat-core/src/runtime-user-input.ts\<close>: which block is a question,
  the key that ties an answer to its question, and how an answer that is known locally survives a snapshot that
  does not have it.
\<close>

subsection \<open>JSON texts\<close>

text \<open>\<open>a ?? b\<close> of two properties of a JSON object.\<close>

definition json_or :: "json option \<Rightarrow> json option \<Rightarrow> json option" where
  "json_or a b = (case a of None \<Rightarrow> b | Some x \<Rightarrow> if x = JNull then b else Some x)"

text \<open>\<open>JSON.stringify\<close> of a string: quotes, backslashes, control characters and lone surrogates are escaped.\<close>

definition hex_digit :: "nat \<Rightarrow> 16 word" where
  "hex_digit n = word_of_nat (if n < 10 then 48 + n else 87 + n)"

definition unicode_escape :: "16 word \<Rightarrow> ustring" where
  "unicode_escape u = (let n = unat u in
     units [CHR 0x5C, CHR ''u''] @ map (\<lambda>k. hex_digit (n div 16 ^ k mod 16)) [3, 2, 1, 0])"

definition escape_unit :: "16 word \<Rightarrow> ustring" where
  "escape_unit u =
     (if u = 34 then units [CHR 0x5C, CHR 0x22]
      else if u = 92 then units [CHR 0x5C, CHR 0x5C]
      else if u = 8 then units [CHR 0x5C, CHR ''b'']
      else if u = 9 then units [CHR 0x5C, CHR ''t'']
      else if u = 10 then units [CHR 0x5C, CHR ''n'']
      else if u = 12 then units [CHR 0x5C, CHR ''f'']
      else if u = 13 then units [CHR 0x5C, CHR ''r'']
      else if u < 32 \<or> high_surrogate u \<or> low_surrogate u then unicode_escape u
      else [u])"

fun escape_text :: "ustring \<Rightarrow> ustring" where
  "escape_text [] = []"
| "escape_text [a] = escape_unit a"
| "escape_text (a # b # s) =
     (if high_surrogate a \<and> low_surrogate b then a # b # escape_text s
      else escape_unit a @ escape_text (b # s))"

definition quote_text :: "ustring \<Rightarrow> ustring" where
  "quote_text s = 34 # escape_text s @ [34]"

subsection \<open>Identity\<close>

definition identity_text :: "json option \<Rightarrow> ustring option" where
  "identity_text v = (case v of
       None \<Rightarrow> None
     | Some x \<Rightarrow> if x \<noteq> JNull \<and> unit_trim (json_text x) \<noteq> [] then Some (json_text x) else None)"

definition interaction_scope :: "json \<Rightarrow> ustring" where
  "interaction_scope identity = (case json_field ''interactionScope'' identity of
       Some (JStr s) \<Rightarrow> unit_trim s | _ \<Rightarrow> [])"

definition scoped_key :: "json \<Rightarrow> ustring \<Rightarrow> ustring" where
  "scoped_key identity key = (let scope = interaction_scope identity in
     if scope \<noteq> [] then units ''interaction:['' @ quote_text scope @ units '','' @ quote_text key @ units '']'' else key)"

definition requestUserInputIdentityKey :: "json \<Rightarrow> ustring option" where
  "requestUserInputIdentityKey identity =
     (case identity_text (json_or (json_field ''requestId'' identity) (json_field ''request_id'' identity)) of
        Some requestId \<Rightarrow> Some (scoped_key identity (units ''request:'' @ requestId))
      | None \<Rightarrow> (case identity_text (json_or (json_field ''itemId'' identity) (json_field ''item_id'' identity)) of
          Some itemId \<Rightarrow> Some (scoped_key identity (units ''item:'' @ itemId))
        | None \<Rightarrow> None))"

definition requestUserInputPayloadKey :: "json \<Rightarrow> ustring option" where
  "requestUserInputPayloadKey payload = requestUserInputIdentityKey payload"

definition requestUserInputResponseKey :: "json \<Rightarrow> ustring option" where
  "requestUserInputResponseKey response = requestUserInputIdentityKey response"

subsection \<open>Questions and their answers\<close>

definition isRequestUserInputPayload :: "json option \<Rightarrow> bool" where
  "isRequestUserInputPayload v = is_object_of_kind ''request_user_input'' v"

definition isRequestUserInputBlock :: "ProcessingBlock \<Rightarrow> bool" where
  "isRequestUserInputBlock block \<longleftrightarrow>
     pb_type block = KTool \<and> isRequestUserInputPayload (got (wbRenderPayload (pbFields block)))"

abbreviation payload_of :: "ProcessingBlock \<Rightarrow> json" where
  "payload_of block \<equiv> the_or JNull (got (wbRenderPayload (pbFields block)))"

definition known_response :: "json \<Rightarrow> json option" where
  "known_response payload = json_or (json_field ''response'' payload)
     (json_or (json_field ''requestUserInputResponse'' payload) (json_field ''request_user_input_response'' payload))"

definition hasRequestUserInputResponse :: "json \<Rightarrow> bool" where
  "hasRequestUserInputResponse payload = opt_truthy truthy_json (known_response payload)"

definition isAnsweredRequestUserInputBlock :: "ProcessingBlock \<Rightarrow> bool" where
  "isAnsweredRequestUserInputBlock block \<longleftrightarrow>
     isRequestUserInputBlock block \<and> hasRequestUserInputResponse (payload_of block)"

definition isSettledRequestUserInputBlock :: "env \<Rightarrow> ProcessingBlock \<Rightarrow> bool" where
  "isSettledRequestUserInputBlock e block \<longleftrightarrow> isRequestUserInputBlock block \<and>
     (let status = json_field ''interactionStatus'' (payload_of block);
          deadline = json_field ''expiresAtUnixMs'' (payload_of block)
      in (opt_truthy truthy_json status \<and> status \<noteq> Some (JStr (units ''pending'')))
         \<or> hasRequestUserInputResponse (payload_of block)
         \<or> (case deadline of Some (JNum n) \<Rightarrow> n \<le> now e | _ \<Rightarrow> False))"

definition isHiddenRequestUserInputBlock :: "ProcessingBlock \<Rightarrow> ustring list \<Rightarrow> bool" where
  "isHiddenRequestUserInputBlock block hiddenIds \<longleftrightarrow> isRequestUserInputBlock block \<and>
     (case requestUserInputPayloadKey (payload_of block) of
        None \<Rightarrow> False | Some key \<Rightarrow> key \<noteq> [] \<and> key \<in> set hiddenIds)"

definition isPendingRequestUserInputBlock :: "env \<Rightarrow> ProcessingBlock \<Rightarrow> ustring list \<Rightarrow> bool" where
  "isPendingRequestUserInputBlock e block hiddenIds \<longleftrightarrow> isRequestUserInputBlock block \<and> pb_status block \<noteq> TbError \<and>
     \<not> isSettledRequestUserInputBlock e block \<and> \<not> isHiddenRequestUserInputBlock block hiddenIds"

definition isMatchingRequestUserInputBlock :: "ProcessingBlock \<Rightarrow> ustring option \<Rightarrow> bool" where
  "isMatchingRequestUserInputBlock block responseKey \<longleftrightarrow>
     isRequestUserInputBlock block \<and> pb_status block \<noteq> TbError \<and>
     \<not> hasRequestUserInputResponse (payload_of block) \<and>
     json_field ''interactionStatus'' (payload_of block) \<noteq> Some (JStr (units ''cancelled'')) \<and>
     json_field ''interactionStatus'' (payload_of block) \<noteq> Some (JStr (units ''expired'')) \<and>
     opt_truthy truthy_text responseKey \<and>
     requestUserInputPayloadKey (payload_of block) = responseKey"

definition applyRequestUserInputResponseToBlock :: "ProcessingBlock \<Rightarrow> json \<Rightarrow> ProcessingBlock" where
  "applyRequestUserInputResponseToBlock block response =
     (if \<not> isMatchingRequestUserInputBlock block (requestUserInputResponseKey response) then block
      else upd_fields (\<lambda>b. b\<lparr>wbStatus := TbDone,
        wbRenderPayload := val (spread_json (got (wbRenderPayload b)) (Some (JObj [(''response'', response)])))\<rparr>) block)"

definition preserveRequestUserInputResponse :: "ProcessingBlock \<Rightarrow> ProcessingBlock \<Rightarrow> ProcessingBlock" where
  "preserveRequestUserInputResponse local snapshot =
     (if \<not> isRequestUserInputBlock local \<or> \<not> isRequestUserInputBlock snapshot then snapshot
      else if requestUserInputPayloadKey (payload_of local) \<noteq> requestUserInputPayloadKey (payload_of snapshot) then snapshot
      else case known_response (payload_of local) of
          Some response \<Rightarrow> if truthy_json response then applyRequestUserInputResponseToBlock snapshot response else snapshot
        | None \<Rightarrow> snapshot)"

lemma preserve_same [simp]:
  "pb_id (preserveRequestUserInputResponse l s) = pb_id s" "pb_type (preserveRequestUserInputResponse l s) = pb_type s"
  "pbChildren (preserveRequestUserInputResponse l s) = pbChildren s"
  by (cases s; auto simp: preserveRequestUserInputResponse_def applyRequestUserInputResponseToBlock_def
      split: option.split)+

end
