(* ===== verification/TurnMerge.thy ===== *)
theory TurnMerge
  imports ConversationOrder TextAliases SubagentNesting UserInput OrderedEntries "HOL-Library.Monad_Syntax"
begin

text \<open>
  Merging two versions of a turn, from \<open>runtime-turn-merge.ts\<close> and \<open>runtime-turn-helpers.ts\<close> of
  \<open>packages/chat-core/src\<close>: what was seen live (\<open>local\<close>) and what a transcript says (\<open>snapshot\<close>). An operation that
  can raise returns an option: \<open>None\<close> is the TypeError of reading the status of \<open>nestWorkbenchProcessingBlocks(..)[0]\<close>
  when the two versions of a subagent are each other's descendants and the nested list is empty.
\<close>

subsection \<open>Helpers\<close>

definition processingBlocks :: "RuntimeConversationItem list \<Rightarrow> ProcessingBlock list" where
  "processingBlocks items = List.map_filter (\<lambda>item. case itBody item of BlockItem b \<Rightarrow> Some b | _ \<Rightarrow> None) items"

definition assistantTextContent :: "RuntimeConversationItem list \<Rightarrow> ustring" where
  "assistantTextContent items = join_units [10, 10]
     (List.map_filter (\<lambda>item. case itBody item of AssistantText content _ _ \<Rightarrow> Some content | _ \<Rightarrow> None) items)"

definition isTerminalProcessingBlockStatus :: "WorkbenchToolBlockStatus \<Rightarrow> bool" where
  "isTerminalProcessingBlockStatus status \<longleftrightarrow> status = TbDone \<or> status = TbError"

definition preserveProcessingBlockTiming :: "ProcessingBlock \<Rightarrow> ProcessingBlock \<Rightarrow> ProcessingBlock" where
  "preserveProcessingBlockTiming previous following =
     (let p = pbFields previous; n = pbFields following;
          previousComplete = isTerminalProcessingBlockStatus (wbStatus p);
          nextComplete = isTerminalProcessingBlockStatus (wbStatus n);
          createdAt = (if previousComplete then wbCreatedAt n else wbCreatedAt p)
      in if previousComplete \<and> nextComplete \<and> got (wbCompletedAt p) \<noteq> None \<and> got (wbCompletedAt n) = None
         then upd_fields (\<lambda>b. b\<lparr>wbCreatedAt := wbCreatedAt p, wbCompletedAt := Some (got (wbCompletedAt p)),
                wbDurationMs := Some (coalesce (got (wbDurationMs n)) (got (wbDurationMs p)))\<rparr>) following
         else if createdAt = wbCreatedAt n then following
         else upd_fields (\<lambda>b. b\<lparr>wbCreatedAt := createdAt,
                wbCompletedAt := (case got (wbDurationMs n) of
                    Some d \<Rightarrow> if nextComplete then val (createdAt + d) else wbCompletedAt b
                  | None \<Rightarrow> wbCompletedAt b)\<rparr>) following)"

record turn_timing =
  ttStartedAt :: "int option"
  ttDurationMs :: "int option"
  ttCompletedAt :: "timestamp option option"

definition completeRuntimeTurnTiming ::
    "env \<Rightarrow> RuntimeConversationTurn \<Rightarrow> int option \<Rightarrow> int option \<Rightarrow> turn_timing" where
  "completeRuntimeTurnTiming e turn sourceStartedAt sourceDurationMs =
     (case tnCompletedAt turn of
        Some (Some completedAt) \<Rightarrow>
          if isTerminalTurnStatus_conv (tnStatus turn)
          then \<lparr>ttStartedAt = coalesce (tnStartedAt turn) sourceStartedAt,
                ttDurationMs = coalesce (tnDurationMs turn) sourceDurationMs,
                ttCompletedAt = tnCompletedAt turn\<rparr>
          else \<lparr>ttStartedAt = coalesce (tnStartedAt turn) sourceStartedAt,
                ttDurationMs = (case tnStartedAt turn of None \<Rightarrow> sourceDurationMs | Some t \<Rightarrow> Some (max 0 (now e - t))),
                ttCompletedAt = Some (Some (TimeStr (nowIso e)))\<rparr>
      | _ \<Rightarrow> \<lparr>ttStartedAt = coalesce (tnStartedAt turn) sourceStartedAt,
              ttDurationMs = (case tnStartedAt turn of None \<Rightarrow> sourceDurationMs | Some t \<Rightarrow> Some (max 0 (now e - t))),
              ttCompletedAt = Some (Some (TimeStr (nowIso e)))\<rparr>)"

definition with_timing :: "turn_timing \<Rightarrow> RuntimeConversationTurn \<Rightarrow> RuntimeConversationTurn" where
  "with_timing t turn = turn\<lparr>tnStartedAt := ttStartedAt t, tnDurationMs := ttDurationMs t, tnCompletedAt := ttCompletedAt t\<rparr>"

subsection \<open>One block\<close>

definition no_output :: "json option \<Rightarrow> bool" where
  "no_output v \<longleftrightarrow> v = None \<or> v = Some JNull \<or> v = Some (JStr [])"

definition is_partial_output :: "json option \<Rightarrow> json option \<Rightarrow> bool" where
  "is_partial_output previous incoming = (case (previous, incoming) of
       (Some (JStr p), Some (JStr i)) \<Rightarrow> prefix i p | _ \<Rightarrow> False)"

definition preserveProcessingBlockOutput :: "ProcessingBlock \<Rightarrow> ProcessingBlock \<Rightarrow> ProcessingBlock" where
  "preserveProcessingBlockOutput local snapshot =
     (let l = pbFields local; s = pbFields snapshot;
          previous = got (wbToolOutput l); incoming = got (wbToolOutput s)
      in if wbType l = KPlan \<and> wbType s = KPlan \<and> \<not> isTerminalProcessingBlockStatus (wbStatus s)
            \<and> opt_truthy truthy_text (got (wbContent l)) \<and> prefix (the_or [] (got (wbContent s))) (the_or [] (got (wbContent l)))
         then upd_fields (\<lambda>b. b\<lparr>wbContent := Some (got (wbContent l))\<rparr>) snapshot
         else if wbType l \<noteq> KTool \<or> wbType s \<noteq> KTool \<or> got (wbToolName l) \<noteq> got (wbToolName s) then snapshot
         else if no_output previous then snapshot
         else if \<not> no_output incoming
              \<and> \<not> (commandExecutionPayload local \<noteq> None \<and> command_in_progress (commandExecutionPayload snapshot)
                   \<and> is_partial_output previous incoming)
         then snapshot
         else upd_fields (\<lambda>b. b\<lparr>wbToolOutput := Some previous,
                wbToolOutputTruncated := Some (got (wbToolOutputTruncated l)),
                wbToolOutputOriginalBytes := Some (got (wbToolOutputOriginalBytes l)),
                wbToolOutputOriginalChars := Some (got (wbToolOutputOriginalChars l)),
                wbToolOutputLoadRef := Some (got (wbToolOutputLoadRef l))\<rparr>) snapshot)"

definition different_agents :: "ProcessingBlock \<Rightarrow> ProcessingBlock \<Rightarrow> bool" where
  "different_agents local snapshot =
     (let a = got (wbAgentThreadId (pbFields local)); b = got (wbAgentThreadId (pbFields snapshot))
      in opt_truthy truthy_text a \<and> opt_truthy truthy_text b \<and> a \<noteq> b)"

definition merge_subagent :: "ProcessingBlock \<Rightarrow> ProcessingBlock \<Rightarrow> ProcessingBlock option" where
  "merge_subagent local snapshot =
     (if pb_type local = KSubagent \<and> pb_type snapshot = KSubagent \<and> \<not> different_agents local snapshot
      then (case nestWorkbenchProcessingBlocks [local, snapshot] of [] \<Rightarrow> None | b # _ \<Rightarrow> Some b)
      else Some snapshot)"

definition merge_block :: "ProcessingBlock \<Rightarrow> ProcessingBlock \<Rightarrow> bool \<Rightarrow> ProcessingBlock option" where
  "merge_block local snapshot preserveLocalTerminal = do {
     snapshotBlock \<leftarrow> merge_subagent local
       (preserveProcessingBlockOutput local (preserveRequestUserInputResponse local snapshot));
     let localCommand = commandExecutionPayload local;
     Some (if (preserveLocalTerminal \<or> localCommand \<noteq> None) \<and> isTerminalProcessingBlockStatus (pb_status local)
             \<and> \<not> isTerminalProcessingBlockStatus (pb_status snapshotBlock)
           then upd_fields (\<lambda>b. b\<lparr>
               wbRenderPayload := (if localCommand \<noteq> None \<and> wbType b = KTool
                 then Some (mergeCommandExecutionPayload (got (wbRenderPayload b)) localCommand) else wbRenderPayload b),
               wbStatus := pb_status local,
               wbCompletedAt := Some (got (wbCompletedAt (pbFields local))),
               wbDurationMs := Some (got (wbDurationMs (pbFields local)))\<rparr>) snapshotBlock
           else preserveProcessingBlockTiming local snapshotBlock)
   }"

subsection \<open>One item\<close>

definition mergeRuntimeConversationItem ::
    "RuntimeConversationItem option \<Rightarrow> RuntimeConversationItem \<Rightarrow> bool \<Rightarrow> RuntimeConversationItem option" where
  "mergeRuntimeConversationItem local snapshot preserveLocalTerminal =
     (let positioned = snapshot\<lparr>itPosition := coalesce (itPosition snapshot) (Option.bind local itPosition)\<rparr>
      in case (map_option itBody local, itBody snapshot) of
           (Some (UserMessage m), UserMessage n) \<Rightarrow> Some (positioned\<lparr>itBody := UserMessage (spread_message m n)\<rparr>)
         | (Some (BlockItem b), BlockItem c) \<Rightarrow>
             map_option (\<lambda>block. positioned\<lparr>itBody := BlockItem block\<rparr>) (merge_block b c preserveLocalTerminal)
         | _ \<Rightarrow> Some positioned)"

subsection \<open>Completed images\<close>

definition nonblank :: "json option \<Rightarrow> bool" where
  "nonblank v = (case v of Some (JStr s) \<Rightarrow> unit_trim s \<noteq> [] | _ \<Rightarrow> False)"

definition hasGeneratedImageArtifact :: "json \<Rightarrow> bool" where
  "hasGeneratedImageArtifact payload \<longleftrightarrow> nonblank (json_field ''imageBase64'' payload) \<or>
     (case json_field ''source'' payload of
        Some (JObj props) \<Rightarrow> jm_get props ''type'' = Some (JStr (units ''workspace_file'')) \<and>
          list_all (\<lambda>key. nonblank (jm_get props key)) [''deviceId'', ''workspacePath'', ''path'']
      | _ \<Rightarrow> False)"

definition is_image_tool :: "ProcessingBlock \<Rightarrow> bool" where
  "is_image_tool block \<longleftrightarrow> pb_type block = KTool \<and> got (wbToolName (pbFields block)) = Some ''image_generation''
     \<and> pb_status block = TbDone"

definition lacks_artifact :: "json option \<Rightarrow> bool" where
  "lacks_artifact payload = (case payload of
       None \<Rightarrow> True
     | Some x \<Rightarrow> is_object_of_kind ''image_generation'' (Some x)
         \<and> json_field ''source'' x = None \<and> json_field ''imageBase64'' x = None)"

definition preserveCompletedImageArtifact ::
    "RuntimeConversationItem option \<Rightarrow> RuntimeConversationItem \<Rightarrow> RuntimeConversationItem" where
  "preserveCompletedImageArtifact previous incoming = (case (map_option itBody previous, itBody incoming) of
       (Some (BlockItem local), BlockItem snapshot) \<Rightarrow>
         let artifact = got (wbRenderPayload (pbFields local)); payload = got (wbRenderPayload (pbFields snapshot))
         in if is_image_tool local \<and> is_image_tool snapshot \<and> is_object_of_kind ''image_generation'' artifact
               \<and> lacks_artifact payload \<and> hasGeneratedImageArtifact (the_or JNull artifact)
            then incoming\<lparr>itBody := BlockItem (upd_fields (\<lambda>b. b\<lparr>wbRenderPayload := val (spread_json artifact payload)\<rparr>) snapshot)\<rparr>
            else incoming
     | _ \<Rightarrow> incoming)"


subsection \<open>The items of a turn\<close>

definition take_match ::
    "RuntimeConversationItem list \<Rightarrow> bool \<Rightarrow> nat list \<Rightarrow> RuntimeConversationItem \<Rightarrow>
     (RuntimeConversationItem \<times> nat list) option" where
  "take_match localItems preserveLocalTerminal matched snapshotItem =
     (case List.find (\<lambda>index. index \<notin> set matched \<and> itId (localItems ! index) = itId snapshotItem) [0..<length localItems] of
        None \<Rightarrow> Some (snapshotItem, matched)
      | Some index \<Rightarrow> map_option (\<lambda>item. (item, js_add index matched))
          (mergeRuntimeConversationItem (Some (localItems ! index)) snapshotItem preserveLocalTerminal))"

fun merge_matches ::
    "RuntimeConversationItem list \<Rightarrow> bool \<Rightarrow> nat list \<Rightarrow> RuntimeConversationItem list \<Rightarrow>
     (RuntimeConversationItem list \<times> nat list) option" where
  "merge_matches localItems preserveLocalTerminal matched [] = Some ([], matched)"
| "merge_matches localItems preserveLocalTerminal matched (x # xs) = do {
     (item, matched1) \<leftarrow> take_match localItems preserveLocalTerminal matched x;
     (items, matched2) \<leftarrow> merge_matches localItems preserveLocalTerminal matched1 xs;
     Some (item # items, matched2)
   }"

definition prependRuntimeConversationItems ::
    "RuntimeConversationItem list \<Rightarrow> RuntimeConversationItem list \<Rightarrow> bool \<Rightarrow> RuntimeConversationItem list option" where
  "prependRuntimeConversationItems localItems snapshotItems preserveLocalTerminal = do {
     (mergedSnapshotItems, matched) \<leftarrow> merge_matches localItems preserveLocalTerminal [] snapshotItems;
     let remainingLocalItems = map ((!) localItems) (filter (\<lambda>index. index \<notin> set matched) [0..<length localItems]);
     Some (takeWhile is_user_message remainingLocalItems @ mergedSnapshotItems @ dropWhile is_user_message remainingLocalItems)
   }"

definition user_entry :: "RuntimeConversationItem \<Rightarrow> (string \<times> RuntimeConversationItem) option" where
  "user_entry item = (case itBody item of UserMessage m \<Rightarrow> Some (wmId m, item) | _ \<Rightarrow> None)"

definition merge_entries :: "('a \<Rightarrow> string) \<Rightarrow> 'a list \<Rightarrow> 'a list \<Rightarrow> 'a list" where
  "merge_entries key localItems snapshotItems = the_or [] (insertMissingOrderedEntries key localItems snapshotItems)"

text \<open>A prompt that the snapshot has under another item id gives way to it.\<close>

definition stays_canonical :: "(string, RuntimeConversationItem) jsmap \<Rightarrow> RuntimeConversationItem \<Rightarrow> bool" where
  "stays_canonical snapshotUsers item = (case itBody item of
       UserMessage m \<Rightarrow> (case jm_get snapshotUsers (wmId m) of None \<Rightarrow> True | Some other \<Rightarrow> itId other = itId item)
     | _ \<Rightarrow> True)"

definition local_version ::
    "(string, RuntimeConversationItem) jsmap \<Rightarrow> (string, RuntimeConversationItem) jsmap \<Rightarrow> RuntimeConversationItem \<Rightarrow>
     RuntimeConversationItem option" where
  "local_version localById localUsers item = coalesce (jm_get localById (itId item))
     (case itBody item of UserMessage m \<Rightarrow> jm_get localUsers (wmId m) | _ \<Rightarrow> None)"

abbreviation by_id :: "RuntimeConversationItem list \<Rightarrow> (string, RuntimeConversationItem) jsmap" where
  "by_id items \<equiv> new_map (map (\<lambda>item. (itId item, item)) items)"

definition canonical_local ::
    "RuntimeConversationItem list \<Rightarrow> RuntimeConversationItem list \<Rightarrow> RuntimeConversationItem list" where
  "canonical_local localItems snapshotItems =
     filter (stays_canonical (new_map (List.map_filter user_entry snapshotItems)))
       (removeEquivalentAssistantTextItems localItems snapshotItems)"

definition place_merged ::
    "RuntimeConversationItem list \<Rightarrow> RuntimeConversationItem list \<Rightarrow> RuntimeConversationItem list \<Rightarrow>
     RuntimeConversationItem list" where
  "place_merged canonicalLocalItems snapshotItems mergedSnapshotItems =
     (let snapshotById = by_id mergedSnapshotItems;
          mergedLocalItems = map (\<lambda>item. the_or item (jm_get snapshotById (itId item))) canonicalLocalItems;
          items = merge_entries itId mergedLocalItems mergedSnapshotItems;
          anchors = observedNativePositionAnchors item_key itPosition items [canonicalLocalItems, snapshotItems]
      in orderRuntimeConversationItems items (Some anchors))"

definition mergeRuntimeConversationItems ::
    "RuntimeConversationItem list \<Rightarrow> RuntimeConversationItem list \<Rightarrow> bool \<Rightarrow> RuntimeConversationItem list option" where
  "mergeRuntimeConversationItems localItems snapshotItems0 preserveLocalTerminal =
     (let snapshotItems = removeEquivalentAssistantTextItems snapshotItems0
            (filter (\<lambda>item. itPosition item \<noteq> None) localItems);
          localUsers = new_map (List.map_filter user_entry localItems);
          canonicalLocalItems = canonical_local localItems snapshotItems;
          localById = by_id canonicalLocalItems
      in map_option (place_merged canonicalLocalItems snapshotItems)
           (those (map (\<lambda>item. mergeRuntimeConversationItem (local_version localById localUsers item) item
              preserveLocalTerminal) snapshotItems)))"

subsection \<open>One turn\<close>

definition same_changes :: "TurnFileChangesSummary \<Rightarrow> TurnFileChangesSummary \<Rightarrow> bool" where
  "same_changes a b \<longleftrightarrow> fcArtifactId a = fcArtifactId b \<and> fcDeviceId a = fcDeviceId b \<and> fcWorkspacePath a = fcWorkspacePath b"

definition merge_file_changes ::
    "TurnFileChangesSummary option \<Rightarrow> TurnFileChangesSummary option \<Rightarrow> TurnFileChangesSummary option" where
  "merge_file_changes local snapshot =
     (case (local, snapshot) of
        (Some a, Some b) \<Rightarrow> if same_changes a b \<and> fcStatus a \<noteq> FcActive \<and> fcStatus b = FcActive then Some a else Some b
      | _ \<Rightarrow> coalesce snapshot local)"

definition merge_position :: "int option \<Rightarrow> int option \<Rightarrow> int option" where
  "merge_position local snapshot = (case (local, snapshot) of
       (Some a, Some b) \<Rightarrow> Some (min a b) | (Some a, None) \<Rightarrow> Some a | (None, b) \<Rightarrow> b)"

definition null_or :: "'a option option \<Rightarrow> 'a option option \<Rightarrow> 'a option option" where
  "null_or a b = (case a of Some (Some x) \<Rightarrow> a | _ \<Rightarrow> b)"

definition merge_timing :: "env \<Rightarrow> RuntimeConversationTurn \<Rightarrow> RuntimeConversationTurn \<Rightarrow> turn_timing" where
  "merge_timing e local snapshot =
     (if isTerminalTurnStatus_conv (tnStatus local)
      then \<lparr>ttStartedAt = coalesce (tnStartedAt local) (tnStartedAt snapshot),
            ttDurationMs = coalesce (tnDurationMs local) (tnDurationMs snapshot),
            ttCompletedAt = null_or (tnCompletedAt local) (tnCompletedAt snapshot)\<rparr>
      else if isTerminalTurnStatus_conv (tnStatus snapshot) \<and> tnStartedAt local \<noteq> None
      then completeRuntimeTurnTiming e local (tnStartedAt snapshot) (tnDurationMs snapshot)
      else \<lparr>ttStartedAt = coalesce (tnStartedAt local) (tnStartedAt snapshot),
            ttDurationMs = tnDurationMs snapshot, ttCompletedAt = tnCompletedAt snapshot\<rparr>)"

definition merge_turn_fields ::
    "env \<Rightarrow> RuntimeConversationTurn \<Rightarrow> RuntimeConversationTurn \<Rightarrow> RuntimeConversationItem list \<Rightarrow>
     RuntimeConversationTurn" where
  "merge_turn_fields e local snapshot items =
     (let preserveLocalTerminal = isTerminalTurnStatus_conv (tnStatus local) \<and> isUnsettledTurnStatus (tnStatus snapshot);
          preserveLocalFailure = tnStatus local = WmFailed \<and> opt_truthy truthy_text (tnError local)
            \<and> \<not> opt_truthy truthy_text (tnError snapshot);
          preserveStreamingThinking = tnStatus snapshot = WmStreaming
            \<and> assistantTextContent (tnItems local) = assistantTextContent (tnItems snapshot)
      in with_timing (merge_timing e local snapshot) (snapshot
           \<lparr>tnClientUserMessageId := coalesce (tnClientUserMessageId snapshot) (tnClientUserMessageId local),
            tnRuntimeMessageIndex := earliestRuntimeMessageIndex local snapshot,
            tnPrepends := False,
            tnItems := orderRuntimeConversationItems items None,
            tnPosition := merge_position (tnPosition local) (tnPosition snapshot),
            tnFileChanges := merge_file_changes (tnFileChanges local) (tnFileChanges snapshot),
            tnStatus := (if preserveLocalTerminal \<or> preserveLocalFailure then tnStatus local else tnStatus snapshot),
            tnError := (if preserveLocalTerminal \<or> preserveLocalFailure then tnError local else tnError snapshot),
            tnErrorType := (if preserveLocalTerminal \<or> preserveLocalFailure then tnErrorType local else tnErrorType snapshot),
            tnStoppedNotice := (if preserveLocalTerminal then tnStoppedNotice local else tnStoppedNotice snapshot),
            tnStreamingThinkingContent := (if preserveLocalTerminal then None
              else if preserveStreamingThinking then getLatestThinkingContent (Some (processingBlocks items))
              else tnStreamingThinkingContent snapshot),
            tnContentTruncated := coalesce (tnContentTruncated snapshot) (tnContentTruncated local),
            tnReferences := coalesce (tnReferences snapshot) (tnReferences local),
            tnMemoryCitations := coalesce (tnMemoryCitations snapshot) (tnMemoryCitations local)\<rparr>))"

definition mergeRuntimeConversationTurn ::
    "env \<Rightarrow> RuntimeConversationTurn \<Rightarrow> RuntimeConversationTurn \<Rightarrow> RuntimeConversationTurn option" where
  "mergeRuntimeConversationTurn e local snapshot =
     (if tnId snapshot = None \<and> tnId local \<noteq> None
      then map_option (\<lambda>items. local\<lparr>tnItems := items\<rparr>)
        (mergeRuntimeConversationItems (tnItems snapshot) (tnItems local) False)
      else do {
        let preserveLocalTerminal = isTerminalTurnStatus_conv (tnStatus local) \<and> isUnsettledTurnStatus (tnStatus snapshot);
        items \<leftarrow> (if tnPrepends snapshot
          then prependRuntimeConversationItems (tnItems local) (tnItems snapshot) preserveLocalTerminal
          else mergeRuntimeConversationItems (tnItems local) (tnItems snapshot) preserveLocalTerminal);
        let previousById = by_id (tnItems local);
        Some (merge_turn_fields e local snapshot
          (if tnId local \<noteq> None \<and> tnId local = tnId snapshot
           then map (\<lambda>item. preserveCompletedImageArtifact (jm_get previousById (itId item)) item) items
           else items))
      })"

end
