(* ===== verification/TurnUpdates.thy ===== *)
theory TurnUpdates
  imports TurnMerge WorkbenchMessages
begin

text \<open>
  The steps by which an action changes a turn, from \<open>packages/chat-core/src/runtime-turn-updates.ts\<close>: the user's
  message before the server knows of it, binding and starting a turn, texts, reasoning and blocks of its items.
  An operation that merges items can raise and returns an option, as in \<open>TurnMerge\<close>.
\<close>

subsection \<open>Arrays and dates\<close>

primrec find_index :: "('a \<Rightarrow> bool) \<Rightarrow> 'a list \<Rightarrow> nat option" where
  "find_index P [] = None"
| "find_index P (x # xs) = (if P x then Some 0 else map_option Suc (find_index P xs))"

definition find_last_index :: "('a \<Rightarrow> bool) \<Rightarrow> 'a list \<Rightarrow> nat option" where
  "find_last_index P xs = map_option (\<lambda>i. length xs - 1 - i) (find_index P (rev xs))"

definition insert_at :: "nat \<Rightarrow> 'a \<Rightarrow> 'a list \<Rightarrow> 'a list" where
  "insert_at i x xs = take i xs @ x # drop i xs"

definition slice_bound :: "int \<Rightarrow> nat \<Rightarrow> nat" where
  "slice_bound i n = (if i < 0 then nat (max 0 (int n + i)) else min (nat i) n)"

definition slice_to :: "int \<Rightarrow> ustring \<Rightarrow> ustring" where
  "slice_to i s = take (slice_bound i (length s)) s"

definition slice_from :: "int \<Rightarrow> ustring \<Rightarrow> ustring" where
  "slice_from i s = drop (slice_bound i (length s)) s"

text \<open>\<open>new Date(t).toISOString()\<close>: the day number is split into eras of 400 years that start in March.\<close>

definition pad :: "nat \<Rightarrow> int \<Rightarrow> string" where
  "pad n i = (let s = show_int i in replicate (n - length s) (CHR ''0'') @ s)"

definition civil_date :: "int \<Rightarrow> int \<times> int \<times> int" where
  "civil_date days =
     (let z = days + 719468; era = z div 146097; doe = z mod 146097;
          yoe = (doe - doe div 1460 + doe div 36524 - doe div 146096) div 365;
          doy = doe - (365 * yoe + yoe div 4 - yoe div 100);
          mp = (5 * doy + 2) div 153;
          month = (if mp < 10 then mp + 3 else mp - 9);
          year = yoe + era * 400 + (if month \<le> 2 then 1 else 0)
      in (year, month, doy - (153 * mp + 2) div 5 + 1))"

definition iso_year :: "int \<Rightarrow> string" where
  "iso_year y = (if 0 \<le> y \<and> y \<le> 9999 then pad 4 y
     else (if y < 0 then ''-'' else ''+'') @ pad 6 \<bar>y\<bar>)"

definition toISOString :: "int \<Rightarrow> string" where
  "toISOString t =
     (let (year, month, day) = civil_date (t div 86400000); ms = t mod 86400000
      in iso_year year @ ''-'' @ pad 2 month @ ''-'' @ pad 2 day @ ''T'' @ pad 2 (ms div 3600000) @ '':''
         @ pad 2 (ms div 60000 mod 60) @ '':'' @ pad 2 (ms div 1000 mod 60) @ ''.'' @ pad 3 (ms mod 1000) @ ''Z'')"

subsection \<open>Prompts\<close>

definition hasRuntimeConversationUserIdentity :: "RuntimeConversationTurn \<Rightarrow> string \<Rightarrow> bool" where
  "hasRuntimeConversationUserIdentity turn i = list_ex (\<lambda>item. case itBody item of
       UserMessage m \<Rightarrow> itId item = i \<or> wmId m = i | _ \<Rightarrow> False) (tnItems turn)"

definition hasRuntimeConversationUser :: "RuntimeConversationTurn \<Rightarrow> bool" where
  "hasRuntimeConversationUser turn = list_ex is_user_message (tnItems turn)"

definition runtimeMessageTimestamp :: "env \<Rightarrow> WorkbenchMessage \<Rightarrow> int option" where
  "runtimeMessageTimestamp e message = parseDate e (wmCreatedAt message)"

definition runtimeMessageTimestampFromTurn :: "env \<Rightarrow> RuntimeConversationTurn \<Rightarrow> int option" where
  "runtimeMessageTimestampFromTurn e turn = (case List.find is_user_message (tnItems turn) of
       Some item \<Rightarrow> (case itBody item of UserMessage m \<Rightarrow> runtimeMessageTimestamp e m | _ \<Rightarrow> None)
     | None \<Rightarrow> None)"

definition new_turn :: "string option \<Rightarrow> RuntimeConversationItem list \<Rightarrow> RuntimeWorkbenchMessageStatus \<Rightarrow>
    RuntimeConversationTurn" where
  "new_turn i items status =
     \<lparr>tnId = i, tnPosition = None, tnClientUserMessageId = None, tnRuntimeMessageIndex = None, tnPrepends = False,
      tnItems = items, tnStatus = status, tnStartedAt = None, tnDurationMs = None, tnCompletedAt = None,
      tnError = None, tnErrorType = None, tnStoppedNotice = None, tnStreamingThinkingContent = None,
      tnFileChanges = None, tnContentTruncated = absent, tnReferences = absent, tnMemoryCitations = absent\<rparr>"

definition user_item :: "WorkbenchMessage \<Rightarrow> RuntimeConversationItem" where
  "user_item message = \<lparr>itId = wmId message, itPosition = None, itBody = UserMessage message\<rparr>"

definition message_of_turn :: "string \<Rightarrow> WorkbenchMessage \<Rightarrow> WorkbenchMessage" where
  "message_of_turn turnId message = message\<lparr>wmSubtaskId := val turnId, wmTurnId := val turnId\<rparr>"

definition appendOptimisticUser ::
    "env \<Rightarrow> RuntimeConversationTurn list \<Rightarrow> WorkbenchMessage \<Rightarrow> RuntimeConversationTurn list" where
  "appendOptimisticUser e turns message =
     (if wmRole message \<noteq> RoleUser then turns
      else if list_ex (\<lambda>turn. hasRuntimeConversationUserIdentity turn (wmId message)) turns then turns
      else turns @ [(new_turn None [user_item message] WmPending)
        \<lparr>tnClientUserMessageId := Some (wmId message), tnStartedAt := runtimeMessageTimestamp e message\<rparr>])"

definition seedRuntimeConversationTurns ::
    "env \<Rightarrow> WorkbenchMessage list \<Rightarrow> RuntimeConversationTurn list \<Rightarrow> RuntimeConversationTurn list" where
  "seedRuntimeConversationTurns e messages currentTurns = foldl (\<lambda>turns message.
       if wmRole message \<noteq> RoleUser then turns
       else if list_ex (\<lambda>turn. hasRuntimeConversationUserIdentity turn (wmId message)) turns then turns
       else appendOptimisticUser e turns message) currentTurns messages"

definition appendAcceptedRuntimeConversationUser ::
    "env \<Rightarrow> RuntimeConversationTurn list \<Rightarrow> WorkbenchMessage \<Rightarrow> string option \<Rightarrow> string list \<Rightarrow>
     RuntimeConversationTurn list" where
  "appendAcceptedRuntimeConversationUser e turns message activeTurnId turnIdsBeforeSend =
     (if wmRole message \<noteq> RoleUser then appendOptimisticUser e turns message
      else if list_ex (\<lambda>turn. hasRuntimeConversationUserIdentity turn (wmId message)) turns then turns
      else
        let activeTurnIndex = (case activeTurnId of
              Some i \<Rightarrow> if i \<noteq> [] \<and> i \<notin> set turnIdsBeforeSend
                then find_index (\<lambda>turn. tnId turn = Some i \<and> \<not> hasRuntimeConversationUser turn) turns else None
            | None \<Rightarrow> None);
            acceptedTurnIndex = (case activeTurnIndex of
              Some i \<Rightarrow> Some i
            | None \<Rightarrow> find_last_index (\<lambda>turn. tnId turn \<noteq> None \<and> the_or [] (tnId turn) \<notin> set turnIdsBeforeSend
                \<and> \<not> hasRuntimeConversationUser turn) turns)
        in case acceptedTurnIndex of
             None \<Rightarrow> appendOptimisticUser e turns message
           | Some i \<Rightarrow>
               let turnId = the_or [] (tnId (turns ! i))
               in if turnId = [] then appendOptimisticUser e turns message
                  else turns[i := (turns ! i)\<lparr>tnClientUserMessageId := Some (wmId message),
                    tnItems := \<lparr>itId = wmId message, itPosition = None,
                      itBody = UserMessage (message_of_turn turnId message)\<rparr> # tnItems (turns ! i)\<rparr>])"

definition bind_item :: "string \<Rightarrow> RuntimeConversationItem \<Rightarrow> RuntimeConversationItem" where
  "bind_item turnId item = (case itBody item of
       UserMessage m \<Rightarrow> item\<lparr>itBody := UserMessage (message_of_turn turnId m)\<rparr> | _ \<Rightarrow> item)"

definition names_user :: "string \<Rightarrow> RuntimeConversationTurn \<Rightarrow> bool" where
  "names_user clientId turn \<longleftrightarrow> hasRuntimeConversationUserIdentity turn clientId
     \<or> (tnId turn = None \<and> tnClientUserMessageId turn = Some clientId)"

definition bindAssistantTurn ::
    "env \<Rightarrow> RuntimeConversationTurn list \<Rightarrow> string option \<Rightarrow> string option option \<Rightarrow>
     RuntimeConversationTurn list option" where
  "bindAssistantTurn e turns subtaskId clientUserMessageId =
     (let turnId = the_or [] subtaskId; clientId = the_or [] (the_or None clientUserMessageId)
      in if turnId = [] \<or> clientId = [] then Some turns
         else
           let existingIndex = find_index (\<lambda>turn. tnId turn = Some turnId) turns
           in case find_index (names_user clientId) turns of
                None \<Rightarrow> Some (case existingIndex of
                    None \<Rightarrow> turns @ [(new_turn (Some turnId) [] WmPending)\<lparr>tnClientUserMessageId := Some clientId\<rparr>]
                  | Some i \<Rightarrow> turns[i := (turns ! i)\<lparr>tnClientUserMessageId := Some clientId\<rparr>])
              | Some userIndex \<Rightarrow> do {
                  let bound = (turns ! userIndex)\<lparr>tnId := Some turnId, tnClientUserMessageId := Some clientId,
                    tnItems := map (bind_item turnId) (tnItems (turns ! userIndex))\<rparr>;
                  merged \<leftarrow> (case existingIndex of
                      Some i \<Rightarrow> if i \<noteq> userIndex then mergeRuntimeConversationTurn e bound (turns ! i) else Some bound
                    | None \<Rightarrow> Some bound);
                  let target = (case existingIndex of None \<Rightarrow> userIndex | Some i \<Rightarrow> min userIndex i);
                  Some (concat (map (\<lambda>index. if index = target then [merged]
                    else if Some index = existingIndex \<or> index = userIndex then [] else [turns ! index]) [0..<length turns]))
                })"

definition restart_turn :: "env \<Rightarrow> int option \<Rightarrow> RuntimeConversationTurn \<Rightarrow> RuntimeConversationTurn" where
  "restart_turn e startedAt turn = turn\<lparr>tnStatus := WmStreaming,
     tnStartedAt := coalesce (tnStartedAt turn) (Some (the_or (now e) startedAt)),
     tnDurationMs := None, tnCompletedAt := None, tnError := None, tnErrorType := None, tnStoppedNotice := None\<rparr>"

definition start_optimistic ::
    "env \<Rightarrow> string \<Rightarrow> int option \<Rightarrow> RuntimeConversationTurn \<Rightarrow> RuntimeConversationTurn" where
  "start_optimistic e turnId startedAt turn =
     (let cancelled = tnStatus turn = WmCancelled
      in turn\<lparr>tnId := Some turnId,
           tnStatus := (if cancelled then WmCancelled else WmStreaming),
           tnStartedAt := coalesce (tnStartedAt turn) (coalesce startedAt (runtimeMessageTimestampFromTurn e turn)),
           tnDurationMs := (if cancelled then tnDurationMs turn else None),
           tnCompletedAt := (if cancelled then tnCompletedAt turn else None),
           tnError := (if cancelled then tnError turn else None),
           tnErrorType := (if cancelled then tnErrorType turn else None),
           tnStoppedNotice := (if cancelled then tnStoppedNotice turn else None),
           tnItems := map (bind_item turnId) (tnItems turn)\<rparr>)"

definition optimistic_index :: "RuntimeConversationTurn list \<Rightarrow> string option option \<Rightarrow> nat option" where
  "optimistic_index turns clientUserMessageId = (case clientUserMessageId of
       Some None \<Rightarrow> None
     | Some (Some clientId) \<Rightarrow>
         if clientId \<noteq> [] then find_index (\<lambda>turn. tnClientUserMessageId turn = Some clientId
           \<or> hasRuntimeConversationUserIdentity turn clientId) turns
         else find_last_index (\<lambda>turn. tnId turn = None \<and> tnStatus turn \<in> {WmPending, WmStreaming, WmCancelled}) turns
     | None \<Rightarrow> find_last_index (\<lambda>turn. tnId turn = None \<and> tnStatus turn \<in> {WmPending, WmStreaming, WmCancelled}) turns)"

definition updateStartedTurn ::
    "env \<Rightarrow> RuntimeConversationTurn list \<Rightarrow> WorkbenchAssistantIdentity \<Rightarrow> RuntimeConversationTurn list option" where
  "updateStartedTurn e turns0 a =
     (let turnId = the_or [] (acSubtaskId a)
      in if turnId = [] then Some turns0
         else do {
           turns \<leftarrow> bindAssistantTurn e turns0 (acSubtaskId a) (acClientUserMessageId a);
           Some (case find_index (\<lambda>turn. tnId turn = Some turnId) turns of
               Some i \<Rightarrow> if tnStatus (turns ! i) = WmCancelled then turns
                 else turns[i := restart_turn e (acStartedAt a) (turns ! i)]
             | None \<Rightarrow> (case optimistic_index turns (acClientUserMessageId a) of
                   Some i \<Rightarrow> turns[i := start_optimistic e turnId (acStartedAt a) (turns ! i)]
                 | None \<Rightarrow> turns @ [(new_turn (Some turnId) [] WmStreaming)
                     \<lparr>tnClientUserMessageId := the_or None (acClientUserMessageId a),
                      tnStartedAt := Some (the_or (now e) (acStartedAt a))\<rparr>]))
         })"

definition updateTurn ::
    "RuntimeConversationTurn list \<Rightarrow> string option \<Rightarrow> (RuntimeConversationTurn \<Rightarrow> RuntimeConversationTurn option) \<Rightarrow>
     RuntimeConversationTurn list option" where
  "updateTurn turns turnId update =
     (if \<not> opt_truthy truthy_text turnId then Some turns
      else case find_index (\<lambda>turn. tnId turn = turnId) turns of
          None \<Rightarrow> Some turns
        | Some i \<Rightarrow> if tnStatus (turns ! i) = WmCancelled then Some turns
            else map_option (\<lambda>turn. turns[i := turn]) (update (turns ! i)))"

definition updateFailedTurn ::
    "RuntimeConversationTurn list \<Rightarrow> string option \<Rightarrow> (RuntimeConversationTurn \<Rightarrow> RuntimeConversationTurn) \<Rightarrow>
     RuntimeConversationTurn list" where
  "updateFailedTurn turns turnId update =
     (if \<not> opt_truthy truthy_text turnId then turns
      else case find_index (\<lambda>turn. tnId turn = turnId) turns of
          Some i \<Rightarrow> if tnStatus (turns ! i) = WmCancelled then turns else turns[i := update (turns ! i)]
        | None \<Rightarrow> (case find_last_index (\<lambda>turn. tnId turn = None \<and> (tnStatus turn = WmPending \<or> tnStatus turn = WmStreaming)) turns of
              Some i \<Rightarrow> turns[i := update ((turns ! i)\<lparr>tnId := turnId, tnItems := map (bind_item (the_or [] turnId)) (tnItems (turns ! i))\<rparr>)]
            | None \<Rightarrow> turns @ [update (new_turn turnId [] WmStreaming)]))"


subsection \<open>Texts\<close>

definition text_units_end :: "int \<Rightarrow> ustring \<Rightarrow> int" where
  "text_units_end offset content = offset + int (length content)"

definition current_text :: "RuntimeConversationItem \<Rightarrow> (ustring \<times> string) option" where
  "current_text item = (case itBody item of
       AssistantText content streamTextOffset createdAt \<Rightarrow> Some (content, createdAt)
     | BlockItem b \<Rightarrow> if pb_type b = KText
         then Some (the_or [] (got (wbContent (pbFields b))), toISOString (wbCreatedAt (pbFields b))) else None
     | UserMessage _ \<Rightarrow> None)"

text \<open>The offset of a delta is taken as a number of UTF-16 code units.\<close>

definition splice_text :: "ustring \<Rightarrow> ustring \<Rightarrow> int option \<Rightarrow> ustring" where
  "splice_text current content offset = (case offset of
       None \<Rightarrow> current @ content
     | Some n \<Rightarrow> slice_to n current @ content @ slice_from (text_units_end n content) current)"

definition upsertAssistantText ::
    "env \<Rightarrow> RuntimeConversationItem list \<Rightarrow> string \<Rightarrow> ustring \<Rightarrow> content_mode option \<Rightarrow> int option \<Rightarrow>
     RuntimeConversationItem list" where
  "upsertAssistantText e items itemId content contentMode offset =
     (case find_index (\<lambda>item. itId item = itemId) items of
        None \<Rightarrow> items @ [\<lparr>itId = itemId, itPosition = None, itBody = AssistantText content
          (if contentMode = Some SnapshotContent then None else map_option (\<lambda>n. text_units_end n content) offset) (nowIso e)\<rparr>]
      | Some index \<Rightarrow> (case current_text (items ! index) of
            None \<Rightarrow> items
          | Some (current, createdAt) \<Rightarrow> items[index := (items ! index)\<lparr>itBody :=
              (if contentMode = Some SnapshotContent then AssistantText content None createdAt
               else AssistantText (splice_text current content offset)
                 (map_option (\<lambda>n. text_units_end n content) offset) createdAt)\<rparr>]))"

definition after_last_user :: "RuntimeConversationItem list \<Rightarrow> nat \<Rightarrow> bool" where
  "after_last_user items index = (case find_last_index is_user_message items of None \<Rightarrow> True | Some i \<Rightarrow> i < index)"

definition is_process_text :: "ustring \<Rightarrow> RuntimeConversationItem \<Rightarrow> bool" where
  "is_process_text content item = (case itBody item of
       BlockItem b \<Rightarrow> pb_type b = KText \<and> got (wbContent (pbFields b)) = Some content | _ \<Rightarrow> False)"

definition applyCompletedAssistantContent ::
    "env \<Rightarrow> RuntimeConversationItem list \<Rightarrow> string option \<Rightarrow> string option \<Rightarrow> ustring option \<Rightarrow>
     RuntimeConversationItem list" where
  "applyCompletedAssistantContent e items turnId itemId content =
     (let text1 = the_or [] content
      in if text1 = [] then items
         else if opt_truthy truthy_text itemId
           then upsertAssistantText e items (the_or [] itemId) text1 (Some SnapshotContent) None
         else if list_ex (\<lambda>index. after_last_user items index \<and> is_assistant_text (items ! index)) [0..<length items]
           then items
         else (case find_last_index (is_process_text text1) items of
             Some i \<Rightarrow> items[i := (items ! i)\<lparr>itBody := AssistantText text1 None (nowIso e)\<rparr>]
           | None \<Rightarrow> map ((!) items) (filter (\<lambda>index. \<not> after_last_user items index \<or> \<not> is_assistant_text (items ! index))
                 [0..<length items])
               @ [\<lparr>itId = ''runtime-final:'' @ the_or ''pending'' turnId, itPosition = None,
                   itBody = AssistantText text1 None (nowIso e)\<rparr>]))"

definition is_block_item :: "RuntimeConversationItem \<Rightarrow> bool" where
  "is_block_item item \<longleftrightarrow> (case itBody item of BlockItem _ \<Rightarrow> True | _ \<Rightarrow> False)"

definition upsertReasoningChunk ::
    "env \<Rightarrow> RuntimeConversationItem list \<Rightarrow> string option \<Rightarrow> ustring option \<Rightarrow> RuntimeConversationItem list" where
  "upsertReasoningChunk e items subtaskId reasoningChunk =
     (let sub = the_or [] subtaskId; chunk = the_or [] reasoningChunk; itemId = ''runtime-reasoning:'' @ sub
      in if sub = [] \<or> chunk = [] then items
         else case find_index (\<lambda>item. is_block_item item \<and> itId item = itemId) items of
             None \<Rightarrow> items @ [\<lparr>itId = itemId, itPosition = None, itBody = BlockItem (limitWorkbenchProcessingBlock
               (PBlock ((new_fields itemId sub KThinking TbStreaming (now e))\<lparr>wbContent := val chunk\<rparr>) absent))\<rparr>]
           | Some index \<Rightarrow> (case itBody (items ! index) of
               BlockItem b \<Rightarrow> if pb_type b \<noteq> KThinking then items
                 else (let content = the_or [] (got (wbContent (pbFields b)))
                   in items[index := (items ! index)\<lparr>itBody := BlockItem (limitWorkbenchProcessingBlock
                     (upd_fields (\<lambda>f. f\<lparr>wbContent := val (content @ chunk),
                       wbContentOriginalChars := val (the_or (int (length content)) (got (wbContentOriginalChars f)) + int (length chunk)),
                       wbStatus := TbStreaming\<rparr>) b))\<rparr>])
             | _ \<Rightarrow> items))"

subsection \<open>Blocks\<close>

definition isContextCompactionBlock :: "ProcessingBlock \<Rightarrow> bool" where
  "isContextCompactionBlock block \<longleftrightarrow> pb_type block = KTool \<and> got (wbToolName (pbFields block)) = Some ''context_compaction''"

definition guidance_time :: "env \<Rightarrow> RuntimeConversationItem \<Rightarrow> int option" where
  "guidance_time e item = (case itBody item of
       UserMessage m \<Rightarrow> if got (wmRuntimeGuidance m) = Some (Some True) then parseDate e (wmCreatedAt m) else None
     | _ \<Rightarrow> None)"

definition insertRuntimeBlockBeforeLaterGuidance ::
    "env \<Rightarrow> RuntimeConversationItem list \<Rightarrow> RuntimeConversationItem \<Rightarrow> int \<Rightarrow> RuntimeConversationItem list" where
  "insertRuntimeBlockBeforeLaterGuidance e items blockItem createdAt =
     (case find_index (\<lambda>item. case guidance_time e item of Some t \<Rightarrow> createdAt \<le> t | None \<Rightarrow> False) items of
        None \<Rightarrow> items @ [blockItem] | Some i \<Rightarrow> insert_at i blockItem items)"

definition block_item :: "string \<Rightarrow> int option \<Rightarrow> ProcessingBlock \<Rightarrow> RuntimeConversationItem" where
  "block_item i position block = \<lparr>itId = i, itPosition = position, itBody = BlockItem block\<rparr>"

definition block_created :: "RuntimeConversationItem \<Rightarrow> int" where
  "block_created item = (case itBody item of BlockItem b \<Rightarrow> wbCreatedAt (pbFields b) | _ \<Rightarrow> 0)"

definition compaction_of :: "ProcessingBlock \<Rightarrow> RuntimeConversationItem \<Rightarrow> bool" where
  "compaction_of block item = (case itBody item of
       BlockItem b \<Rightarrow> wbSubtaskId (pbFields b) = wbSubtaskId (pbFields block) \<and> isContextCompactionBlock b | _ \<Rightarrow> False)"

definition upsert_block ::
    "env \<Rightarrow> RuntimeConversationItem list \<Rightarrow> ProcessingBlock \<Rightarrow> RuntimeConversationItem list option" where
  "upsert_block e items block =
     (let exactIndex = find_index (\<lambda>item. itId item = pb_id block) items
      in if (case exactIndex of Some i \<Rightarrow> is_assistant_text (items ! i) \<and> pb_type block = KText | None \<Rightarrow> False)
         then Some items
         else do {
           let index = (case exactIndex of
               Some i \<Rightarrow> Some i
             | None \<Rightarrow> if isContextCompactionBlock block then find_index (compaction_of block) items else None);
           canonicalItem \<leftarrow> mergeRuntimeConversationItem (map_option ((!) items) index)
             (block_item (pb_id block) (Option.bind index (\<lambda>i. itPosition (items ! i))) (limitWorkbenchProcessingBlock block)) False;
           Some (case index of
               None \<Rightarrow> insertRuntimeBlockBeforeLaterGuidance e items canonicalItem (block_created canonicalItem)
             | Some i \<Rightarrow> items[i := canonicalItem])
         })"

fun upsert_all :: "env \<Rightarrow> RuntimeConversationItem list \<Rightarrow> ProcessingBlock list \<Rightarrow> RuntimeConversationItem list option" where
  "upsert_all e items [] = Some items"
| "upsert_all e items (block # blocks) = do { following \<leftarrow> upsert_block e items block; upsert_all e following blocks }"

definition upsertBlocks ::
    "env \<Rightarrow> RuntimeConversationItem list \<Rightarrow> ProcessingBlock list option \<Rightarrow> RuntimeConversationItem list option" where
  "upsertBlocks e items blocks = upsert_all e items (the_or [] blocks)"

definition replaceAssistantTextWithBlock ::
    "env \<Rightarrow> RuntimeConversationItem list \<Rightarrow> string option \<Rightarrow> ProcessingBlock \<Rightarrow> RuntimeConversationItem list option" where
  "replaceAssistantTextWithBlock e items assistantTextItemId block =
     (if \<not> opt_truthy truthy_text assistantTextItemId then upsertBlocks e items (Some [block])
      else case find_index (\<lambda>item. is_assistant_text item \<and> Some (itId item) = assistantTextItemId) items of
          None \<Rightarrow> upsertBlocks e items (Some [block])
        | Some i \<Rightarrow> Some (items[i := block_item (pb_id block) (itPosition (items ! i)) (limitWorkbenchProcessingBlock block)]))"

definition created_later :: "env \<Rightarrow> int \<Rightarrow> RuntimeConversationItem \<Rightarrow> bool" where
  "created_later e createdAt item = (case itBody item of
       UserMessage m \<Rightarrow> (case guidance_time e item of Some t \<Rightarrow> createdAt < t | None \<Rightarrow> False)
     | AssistantText _ _ textCreatedAt \<Rightarrow> (case parseDate e textCreatedAt of Some t \<Rightarrow> createdAt < t | None \<Rightarrow> False)
     | BlockItem b \<Rightarrow> createdAt < wbCreatedAt (pbFields b))"

definition insertDelayedSubagentBlock ::
    "env \<Rightarrow> RuntimeConversationItem list \<Rightarrow> ProcessingBlock \<Rightarrow> RuntimeConversationItem list" where
  "insertDelayedSubagentBlock e items block =
     (let blockItem = block_item (pb_id block) None (limitWorkbenchProcessingBlock block)
      in case find_index (created_later e (wbCreatedAt (pbFields block))) items of
           None \<Rightarrow> items @ [blockItem] | Some i \<Rightarrow> insert_at i blockItem items)"

definition upsertRuntimeBlock ::
    "env \<Rightarrow> RuntimeConversationItem list \<Rightarrow> string option \<Rightarrow> ProcessingBlock \<Rightarrow> RuntimeWorkbenchMessageStatus \<Rightarrow>
     RuntimeConversationItem list option" where
  "upsertRuntimeBlock e items assistantTextItemId block turnStatus =
     (if opt_truthy truthy_text assistantTextItemId then replaceAssistantTextWithBlock e items assistantTextItemId block
      else case find_index (\<lambda>item. itId item = pb_id block) items of
          Some i \<Rightarrow> if is_assistant_text (items ! i) \<and> turnStatus = WmDone then Some items
            else upsertBlocks e items (Some [block])
        | None \<Rightarrow>
            if turnStatus \<noteq> WmDone
            then (if pb_type block = KSubagent then Some (insertDelayedSubagentBlock e items block)
              else upsertBlocks e items (Some [block]))
            else (case find_last_index is_assistant_text items of
                None \<Rightarrow> upsertBlocks e items (Some [block])
              | Some i \<Rightarrow> Some (insert_at i (block_item (pb_id block) None (limitWorkbenchProcessingBlock block)) items)))"

subsection \<open>Bounds and settling\<close>

definition MAX_VISIBLE_RUNTIME_PROCESSING_BLOCKS :: nat where "MAX_VISIBLE_RUNTIME_PROCESSING_BLOCKS = 256"

definition is_live_block :: "RuntimeConversationItem \<Rightarrow> bool" where
  "is_live_block item \<longleftrightarrow> is_block_item item \<and> itPosition item = None"

fun drop_live :: "nat \<Rightarrow> RuntimeConversationItem list \<Rightarrow> RuntimeConversationItem list" where
  "drop_live blocksToDrop [] = []"
| "drop_live blocksToDrop (item # items) =
     (if \<not> is_live_block item \<or> blocksToDrop = 0 then item # drop_live blocksToDrop items
      else drop_live (blocksToDrop - 1) items)"

definition boundVisibleRuntimeProcessingBlocks ::
    "RuntimeConversationTurn \<Rightarrow> RuntimeConversationItem list \<Rightarrow> RuntimeConversationTurn" where
  "boundVisibleRuntimeProcessingBlocks turn items =
     (let blockCount = length (filter is_live_block items)
      in if blockCount \<le> MAX_VISIBLE_RUNTIME_PROCESSING_BLOCKS
         then turn\<lparr>tnItems := items, tnContentTruncated := Some (got (tnContentTruncated turn))\<rparr>
         else turn\<lparr>tnItems := drop_live (blockCount - MAX_VISIBLE_RUNTIME_PROCESSING_BLOCKS) items,
           tnContentTruncated := val True\<rparr>)"

definition map_blocks :: "(ProcessingBlock \<Rightarrow> ProcessingBlock) \<Rightarrow> RuntimeConversationItem list \<Rightarrow> RuntimeConversationItem list" where
  "map_blocks f items = map (\<lambda>item. case itBody item of BlockItem b \<Rightarrow> item\<lparr>itBody := BlockItem (f b)\<rparr> | _ \<Rightarrow> item) items"

definition settleProcessingBlocks :: "env \<Rightarrow> RuntimeConversationItem list \<Rightarrow> RuntimeConversationItem list" where
  "settleProcessingBlocks e items = map_blocks (settleWorkbenchProcessingBlock e TbDone) items"

definition isRuntimeReconnectingBlock :: "ProcessingBlock \<Rightarrow> bool" where
  "isRuntimeReconnectingBlock block \<longleftrightarrow> pb_type block = KTool \<and> got (wbToolName (pbFields block)) = Some ''runtime_reconnecting''"

definition settleRuntimeReconnectingBlocks :: "env \<Rightarrow> RuntimeConversationItem list \<Rightarrow> RuntimeConversationItem list" where
  "settleRuntimeReconnectingBlocks e items = map_blocks (\<lambda>block.
     if \<not> isRuntimeReconnectingBlock block \<or> isTerminalProcessingBlockStatus (pb_status block) then block
     else upd_fields (\<lambda>b. b\<lparr>wbStatus := TbDone, wbCompletedAt := val (the_or (now e) (got (wbCompletedAt b)))\<rparr>) block) items"

definition hasAssistantChunkProgress :: "chunk_action \<Rightarrow> bool" where
  "hasAssistantChunkProgress a \<longleftrightarrow> acContent a \<noteq> [] \<or> opt_truthy truthy_text (acReasoningChunk a)
     \<or> opt_truthy (list_ex (\<lambda>block. \<not> isRuntimeReconnectingBlock block)) (acBlocks a)"

definition resolveRuntimeStreamingThinkingContent ::
    "RuntimeConversationTurn \<Rightarrow> chunk_action \<Rightarrow> RuntimeConversationItem list \<Rightarrow> ustring option" where
  "resolveRuntimeStreamingThinkingContent turn a items =
     resolveStreamingThinkingContent (tnStreamingThinkingContent turn) (acReasoningChunk a) (Some (acContent a))
       (acBlocks a) (Some (processingBlocks items))"

definition mergeVisibleBlockUpdate :: "env \<Rightarrow> ProcessingBlock \<Rightarrow> ProcessingBlockUpdate \<Rightarrow> ProcessingBlock" where
  "mergeVisibleBlockUpdate e block updates = limitWorkbenchProcessingBlock (mergeProcessingBlockUpdate e block updates)"

end
