(* ===== verification/RuntimeTurns.thy ===== *)
theory RuntimeTurns
  imports TurnUpdates
begin

text \<open>
  The turns of a runtime conversation, from \<open>packages/chat-core/src/runtime-turns.ts\<close>: the reducer of the actions a
  stream sends, the merge of the turns seen live with those of a transcript, and the hydration that replays on a
  transcript the actions which came while it was read.
\<close>

subsection \<open>The reducer\<close>

definition reopen :: "RuntimeConversationTurn \<Rightarrow> RuntimeConversationTurn" where
  "reopen turn = turn\<lparr>tnStatus := WmStreaming, tnCompletedAt := None, tnError := None, tnErrorType := None,
     tnStoppedNotice := None\<rparr>"

definition turn_chunk :: "env \<Rightarrow> chunk_action \<Rightarrow> RuntimeConversationTurn \<Rightarrow> RuntimeConversationTurn option" where
  "turn_chunk e a turn = do {
     let settled = (if hasAssistantChunkProgress a then settleRuntimeReconnectingBlocks e (tnItems turn) else tnItems turn);
     let reasoned = upsertReasoningChunk e settled (acSubtaskId a) (acReasoningChunk a);
     blocked \<leftarrow> upsertBlocks e reasoned (acBlocks a);
     let items = (if acContent a \<noteq> [] \<and> opt_truthy truthy_text (acItemId a)
       then upsertAssistantText e blocked (the_or [] (acItemId a)) (acContent a) (acContentMode a) (acOffset a) else blocked);
     Some ((boundVisibleRuntimeProcessingBlocks turn items)
       \<lparr>tnStatus := (if isUnsettledTurnStatus (tnStatus turn) then WmStreaming else tnStatus turn),
        tnStreamingThinkingContent := resolveRuntimeStreamingThinkingContent turn a items\<rparr>)
   }"

definition turn_done :: "env \<Rightarrow> done_action \<Rightarrow> RuntimeConversationTurn \<Rightarrow> RuntimeConversationTurn option" where
  "turn_done e a turn = do {
     blocked \<leftarrow> upsertBlocks e (settleRuntimeReconnectingBlocks e (tnItems turn)) (dnBlocks a);
     let items = applyCompletedAssistantContent e (settleProcessingBlocks e blocked) (tnId turn) (dnItemId a) (dnContent a);
     Some ((with_timing (completeRuntimeTurnTiming e turn (dnStartedAt a) (dnDurationMs a))
         (boundVisibleRuntimeProcessingBlocks turn items))
       \<lparr>tnStatus := WmDone, tnStreamingThinkingContent := None,
        tnFileChanges := coalesce (dnFileChanges a) (tnFileChanges turn), tnError := None, tnErrorType := None\<rparr>)
   }"

definition turn_cancelled :: "env \<Rightarrow> cancelled_action \<Rightarrow> RuntimeConversationTurn \<Rightarrow> RuntimeConversationTurn" where
  "turn_cancelled e a turn = (with_timing (completeRuntimeTurnTiming e turn (cnStartedAt a) (cnDurationMs a)) turn)
     \<lparr>tnItems := settleRuntimeReconnectingBlocks e (tnItems turn), tnStatus := WmCancelled,
      tnStreamingThinkingContent := None, tnStoppedNotice := Some (Some True)\<rparr>"

definition turn_failed :: "env \<Rightarrow> error_action \<Rightarrow> RuntimeConversationTurn \<Rightarrow> RuntimeConversationTurn" where
  "turn_failed e a turn = (with_timing (completeRuntimeTurnTiming e turn (erStartedAt a) (erDurationMs a)) turn)
     \<lparr>tnItems := settleRuntimeReconnectingBlocks e (tnItems turn), tnStatus := WmFailed,
      tnStreamingThinkingContent := None, tnError := Some (erError a), tnErrorType := erErrorType a\<rparr>"

definition thinking_after :: "block_kind option \<Rightarrow> RuntimeConversationItem list \<Rightarrow> ustring option \<Rightarrow> ustring option" where
  "thinking_after kind items previous =
     (if kind = Some KThinking then getLatestThinkingContent (Some (processingBlocks items))
      else if kind = Some KText \<or> kind = Some KPlan then None
      else previous)"

definition turn_block :: "env \<Rightarrow> created_action \<Rightarrow> RuntimeConversationTurn \<Rightarrow> RuntimeConversationTurn option" where
  "turn_block e a turn = do {
     let block = crBlock a;
     let currentItems = (if isRuntimeReconnectingBlock block then tnItems turn
       else settleRuntimeReconnectingBlocks e (tnItems turn));
     items \<leftarrow> upsertRuntimeBlock e currentItems (crReplaceAssistantTextItemId a) block (tnStatus turn);
     let bounded = boundVisibleRuntimeProcessingBlocks turn items;
     Some ((if isTerminalProcessingBlockStatus (pb_status block) then bounded else reopen bounded)
       \<lparr>tnStreamingThinkingContent := (if pb_type block = KTool
          then getLatestThinkingContent (Some (processingBlocks items))
          else thinking_after (Some (pb_type block)) items (tnStreamingThinkingContent turn))\<rparr>)
   }"

definition block_at :: "string \<Rightarrow> RuntimeConversationItem \<Rightarrow> ProcessingBlock option" where
  "block_at blockId item = (case itBody item of
       BlockItem b \<Rightarrow> if itId item = blockId then Some b else None | _ \<Rightarrow> None)"

definition update_item ::
    "env \<Rightarrow> updated_action \<Rightarrow> RuntimeConversationItem \<Rightarrow> RuntimeConversationItem option" where
  "update_item e a item = (case block_at (uaBlockId a) item of
       None \<Rightarrow> Some item
     | Some b \<Rightarrow> mergeRuntimeConversationItem (Some item)
         (item\<lparr>itBody := BlockItem (mergeVisibleBlockUpdate e b (uaUpdates a))\<rparr>) False)"

definition turn_update :: "env \<Rightarrow> updated_action \<Rightarrow> RuntimeConversationTurn \<Rightarrow> RuntimeConversationTurn option" where
  "turn_update e a turn = do {
     let currentItems = (if list_ex (\<lambda>item. case block_at (uaBlockId a) item of
         Some b \<Rightarrow> isRuntimeReconnectingBlock b | None \<Rightarrow> False) (tnItems turn)
       then tnItems turn else settleRuntimeReconnectingBlocks e (tnItems turn));
     let previousBlock = Option.bind (List.find (\<lambda>item. block_at (uaBlockId a) item \<noteq> None) (tnItems turn))
       (block_at (uaBlockId a));
     items \<leftarrow> those (map (update_item e a) currentItems);
     let reopens = (case upStatus (uaUpdates a) of
         None \<Rightarrow> False
       | Some status \<Rightarrow> Option.bind previousBlock commandExecutionPayload = None \<and> \<not> isTerminalProcessingBlockStatus status);
     Some ((if reopens then reopen (turn\<lparr>tnItems := items\<rparr>) else turn\<lparr>tnItems := items\<rparr>)
       \<lparr>tnStreamingThinkingContent :=
          thinking_after (map_option pb_type previousBlock) items (tnStreamingThinkingContent turn)\<rparr>)
   }"

fun reduceRuntimeConversationTurns ::
    "env \<Rightarrow> RuntimeConversationTurn list \<Rightarrow> WorkbenchMessageAction \<Rightarrow> RuntimeConversationTurn list option" where
  "reduceRuntimeConversationTurns e turns (WmReset messages) = Some (seedRuntimeConversationTurns e messages turns)"
| "reduceRuntimeConversationTurns e turns (UserAdded message) = Some (appendOptimisticUser e turns message)"
| "reduceRuntimeConversationTurns e turns (AssistantStarted a) = updateStartedTurn e turns a"
| "reduceRuntimeConversationTurns e turns (AssistantBound a) =
     bindAssistantTurn e turns (acSubtaskId a) (acClientUserMessageId a)"
| "reduceRuntimeConversationTurns e turns (AssistantChunk a) = updateTurn turns (acSubtaskId a) (turn_chunk e a)"
| "reduceRuntimeConversationTurns e turns (AssistantDone a) = updateTurn turns (acSubtaskId a) (turn_done e a)"
| "reduceRuntimeConversationTurns e turns (AssistantCancelled a) =
     updateTurn turns (acSubtaskId a) (Some \<circ> turn_cancelled e a)"
| "reduceRuntimeConversationTurns e turns (AssistantError a) =
     Some (updateFailedTurn turns (acSubtaskId a) (turn_failed e a))"
| "reduceRuntimeConversationTurns e turns (FileChangesUpdated subtaskId fileChanges) =
     updateTurn turns (Some subtaskId) (\<lambda>turn. Some (turn\<lparr>tnFileChanges := Some fileChanges\<rparr>))"
| "reduceRuntimeConversationTurns e turns (BlockCreated a) = updateTurn turns (acSubtaskId a) (turn_block e a)"
| "reduceRuntimeConversationTurns e turns (BlockUpdated a) = updateTurn turns (acSubtaskId a) (turn_update e a)"

subsection \<open>Guidance\<close>

definition is_user_item :: "string \<Rightarrow> RuntimeConversationItem \<Rightarrow> bool" where
  "is_user_item i item \<longleftrightarrow> is_user_message item \<and> itId item = i"

definition only_prompt :: "string \<Rightarrow> RuntimeConversationTurn \<Rightarrow> bool" where
  "only_prompt i turn \<longleftrightarrow> tnId turn = None \<and> tnClientUserMessageId turn = Some i \<and> list_all (is_user_item i) (tnItems turn)"

definition appendRuntimeConversationGuidance ::
    "RuntimeConversationTurn list \<Rightarrow> string option \<Rightarrow> WorkbenchMessage \<Rightarrow> RuntimeConversationTurn list" where
  "appendRuntimeConversationGuidance turns turnId guidance =
     (let i = wmId guidance; t = the_or [] turnId; item = \<lparr>itId = i, itPosition = None,
            itBody = UserMessage (message_of_turn t guidance)\<rparr>
      in if t = [] then turns
         else the_or [] (updateTurn (map (\<lambda>turn. if tnId turn \<noteq> turnId
               then turn\<lparr>tnItems := filter (\<lambda>item. \<not> is_user_item i item) (tnItems turn)\<rparr> else turn)
             (filter (\<lambda>turn. \<not> only_prompt i turn) turns)) turnId
           (\<lambda>turn. Some (case find_index (is_user_item i) (tnItems turn) of
              Some k \<Rightarrow> turn\<lparr>tnItems := (tnItems turn)[k := item]\<rparr>
            | None \<Rightarrow> turn\<lparr>tnItems := tnItems turn @ [item]\<rparr>))))"

subsection \<open>Identities of turns\<close>

definition runtimeConversationTurnClientUserMessageIds :: "RuntimeConversationTurn \<Rightarrow> string list" where
  "runtimeConversationTurnClientUserMessageIds turn = foldl (\<lambda>ids i. js_add i ids) []
     ((if opt_truthy truthy_text (tnClientUserMessageId turn) then [the_or [] (tnClientUserMessageId turn)] else [])
      @ concat (map (\<lambda>item. case itBody item of UserMessage m \<Rightarrow> [itId item, wmId m] | _ \<Rightarrow> []) (tnItems turn)))"

definition is_turn_scoped :: "RuntimeConversationItem \<Rightarrow> bool" where
  "is_turn_scoped item = (case itBody item of
       UserMessage _ \<Rightarrow> True
     | BlockItem b \<Rightarrow> pb_type b = KSubagent
         \<or> (pb_type b = KTool \<and> got (wbToolName (pbFields b)) = Some ''request_user_input'')
     | AssistantText _ _ _ \<Rightarrow> False)"

definition runtimeConversationTurnAssistantItemIds :: "RuntimeConversationTurn \<Rightarrow> string list" where
  "runtimeConversationTurnAssistantItemIds turn = map itId (filter (\<lambda>item. \<not> is_turn_scoped item) (tnItems turn))"

definition note_item ::
    "nat \<Rightarrow> (string, nat) jsmap \<times> string list \<Rightarrow> string \<Rightarrow> (string, nat) jsmap \<times> string list" where
  "note_item index s i = (let (indexes, duplicates) = s in case jm_get indexes i of
       None \<Rightarrow> (jm_set i index indexes, duplicates)
     | Some existing \<Rightarrow> if existing \<noteq> index then (indexes, js_add i duplicates) else s)"

definition uniqueSnapshotIndexByAssistantItemId :: "RuntimeConversationTurn list \<Rightarrow> (string, nat) jsmap" where
  "uniqueSnapshotIndexByAssistantItemId turns =
     (let (indexes, duplicates) = foldl (\<lambda>s (index, turn). foldl (note_item index) s (runtimeConversationTurnAssistantItemIds turn))
            ([], []) (zip [0..<length turns] turns)
      in foldl (\<lambda>m i. jm_delete i m) indexes duplicates)"


subsection \<open>Merging the turns of a transcript\<close>

record merge_state =
  msMerged :: "RuntimeConversationTurn list"
  msEmitted :: "nat list"
  msRetained :: "nat list"
  msCanonical :: "(nat, string option) jsmap"

definition index_by_turn :: "RuntimeConversationTurn list \<Rightarrow> (string, nat) jsmap" where
  "index_by_turn turns = new_map (List.map_filter (\<lambda>(index, turn). map_option (\<lambda>i. (i, index)) (tnId turn))
     (zip [0..<length turns] turns))"

definition index_by_prompt :: "RuntimeConversationTurn list \<Rightarrow> (string, nat) jsmap" where
  "index_by_prompt turns = new_map (concat (map (\<lambda>(index, turn).
     map (\<lambda>i. (i, index)) (runtimeConversationTurnClientUserMessageIds turn)) (zip [0..<length turns] turns)))"

definition local_index :: "RuntimeConversationTurn list \<Rightarrow> RuntimeConversationTurn \<Rightarrow> nat option" where
  "local_index localTurns snapshotTurn = coalesce
     (Option.bind (tnId snapshotTurn) (jm_get (index_by_turn localTurns)))
     (Option.bind (List.find (\<lambda>i. jm_get (index_by_prompt localTurns) i \<noteq> None)
        (runtimeConversationTurnClientUserMessageIds snapshotTurn)) (jm_get (index_by_prompt localTurns)))"

definition merge_snapshot_turn ::
    "env \<Rightarrow> RuntimeConversationTurn list \<Rightarrow> merge_state \<Rightarrow> RuntimeConversationTurn \<Rightarrow> merge_state option" where
  "merge_snapshot_turn e localTurns s snapshotTurn = (case local_index localTurns snapshotTurn of
       None \<Rightarrow> Some (s\<lparr>msMerged := msMerged s @ [snapshotTurn]\<rparr>)
     | Some index \<Rightarrow> map_option (\<lambda>turn. s\<lparr>msMerged := msMerged s @ [turn], msEmitted := js_add index (msEmitted s),
           msCanonical := jm_set index (tnId snapshotTurn) (msCanonical s)\<rparr>)
         (mergeRuntimeConversationTurn e (localTurns ! index) snapshotTurn))"

definition alias_indexes :: "(string, nat) jsmap \<Rightarrow> RuntimeConversationTurn \<Rightarrow> nat list" where
  "alias_indexes byItem turn = foldl (\<lambda>is i. js_add i is) []
     (List.map_filter (jm_get byItem) (runtimeConversationTurnAssistantItemIds turn))"

definition place_local_turn ::
    "env \<Rightarrow> RuntimeConversationTurn list \<Rightarrow> merge_state \<Rightarrow> nat \<times> RuntimeConversationTurn \<Rightarrow> merge_state option" where
  "place_local_turn e snapshotTurns s entry =
     (let (index, turn) = entry;
          aliases = alias_indexes (uniqueSnapshotIndexByAssistantItemId snapshotTurns) turn;
          prompts = concat (map runtimeConversationTurnClientUserMessageIds snapshotTurns)
      in if index \<in> set (msEmitted s) then Some s
         else if length aliases = 1
         then (let snapshotIndex = hd aliases; target = msMerged s ! snapshotIndex
           in map_option (\<lambda>merged. s\<lparr>msCanonical := jm_set index (tnId target) (msCanonical s),
                msMerged := (msMerged s)[snapshotIndex := merged]\<rparr>) (mergeRuntimeConversationTurn e turn target))
         else if list_ex (\<lambda>i. i \<in> set prompts) (runtimeConversationTurnClientUserMessageIds turn) then Some s
         else if tnId turn = None \<or> \<not> list_ex (\<lambda>snapshotTurn. tnId snapshotTurn = tnId turn) snapshotTurns
         then Some (s\<lparr>msRetained := js_add index (msRetained s)\<rparr>)
         else Some s)"

fun fold_option :: "('s \<Rightarrow> 'a \<Rightarrow> 's option) \<Rightarrow> 's \<Rightarrow> 'a list \<Rightarrow> 's option" where
  "fold_option f s [] = Some s"
| "fold_option f s (x # xs) = Option.bind (f s x) (\<lambda>t. fold_option f t xs)"

definition canonical_turn :: "(nat, string option) jsmap \<Rightarrow> nat \<times> RuntimeConversationTurn \<Rightarrow> RuntimeConversationTurn" where
  "canonical_turn canonical entry = (case jm_get canonical (fst entry) of
       None \<Rightarrow> snd entry | Some i \<Rightarrow> (snd entry)\<lparr>tnId := i\<rparr>)"

definition turn_key :: "RuntimeConversationTurn \<Rightarrow> string" where
  "turn_key turn = the_or [] (tnId turn)"

definition mergeRuntimeConversationTurns ::
    "env \<Rightarrow> RuntimeConversationTurn list \<Rightarrow> RuntimeConversationTurn list \<Rightarrow> RuntimeConversationTurn list option" where
  "mergeRuntimeConversationTurns e localTurns snapshotTurns =
     (if snapshotTurns = [] then Some localTurns
      else do {
        let numbered = zip [0..<length localTurns] localTurns;
        s1 \<leftarrow> fold_option (merge_snapshot_turn e localTurns)
          \<lparr>msMerged = [], msEmitted = [], msRetained = [], msCanonical = []\<rparr> snapshotTurns;
        s \<leftarrow> fold_option (place_local_turn e snapshotTurns) s1 numbered;
        let localOrder = map (canonical_turn (msCanonical s)) numbered;
        let shown = map snd (filter (\<lambda>(index, turn). tnId turn \<noteq> None \<and>
          (jm_get (msCanonical s) index \<noteq> None \<or> index \<in> set (msRetained s))) (zip [0..<length localOrder] localOrder));
        let ordered = merge_entries turn_key (filter (\<lambda>turn. tnId turn \<noteq> None) (msMerged s)) shown;
        let pending = filter (\<lambda>turn. tnId turn = None) (msMerged s)
          @ map snd (filter (\<lambda>(index, turn). tnId turn = None \<and> index \<in> set (msRetained s)) numbered);
        Some (orderRuntimeConversationTurns (parseDate e) (ordered @ pending) [localOrder, snapshotTurns])
      })"

subsection \<open>Hydration\<close>

definition live_block :: "RuntimeConversationTurn option \<Rightarrow> string \<Rightarrow> ProcessingBlock option" where
  "live_block turn i = (case turn of
       None \<Rightarrow> None
     | Some t \<Rightarrow> (case List.find (\<lambda>item. itId item = i) (tnItems t) of
         Some item \<Rightarrow> (case itBody item of BlockItem b \<Rightarrow> Some b | _ \<Rightarrow> None) | None \<Rightarrow> None))"

definition classify_item ::
    "env \<Rightarrow> (string option, RuntimeConversationTurn) jsmap \<Rightarrow> string option \<Rightarrow> RuntimeConversationItem list \<Rightarrow> created_action \<Rightarrow>
     RuntimeConversationItem list option" where
  "classify_item e observedByTurn turnId items a =
     (let previousId = crReplaceAssistantTextItemId a
      in if acSubtaskId a = None \<or> acSubtaskId a \<noteq> turnId then Some items
         else case live_block (jm_get observedByTurn turnId) (pb_id (crBlock a)) of
             None \<Rightarrow> Some items
           | Some block \<Rightarrow>
               if \<not> list_ex (\<lambda>item. is_assistant_text item \<and> Some (itId item) = previousId) items then Some items
               else if Some (pb_id (crBlock a)) \<noteq> previousId \<and> list_ex (\<lambda>item. itId item = pb_id (crBlock a)) items
               then Some (filter (\<lambda>item. Some (itId item) \<noteq> previousId) items)
               else replaceAssistantTextWithBlock e items previousId block)"

definition classifications :: "WorkbenchMessageAction list \<Rightarrow> created_action list" where
  "classifications actions = List.map_filter (\<lambda>a. case a of
       BlockCreated c \<Rightarrow> if opt_truthy truthy_text (crReplaceAssistantTextItemId c) then Some c else None
     | _ \<Rightarrow> None) actions"

definition preserveLiveClassifications ::
    "env \<Rightarrow> RuntimeConversationTurn list \<Rightarrow> (string option, RuntimeConversationTurn) jsmap \<Rightarrow>
     WorkbenchMessageAction list \<Rightarrow> RuntimeConversationTurn list option" where
  "preserveLiveClassifications e snapshot observedByTurn actions = those (map (\<lambda>turn.
       map_option (\<lambda>items. turn\<lparr>tnItems := items\<rparr>)
         (fold_option (classify_item e observedByTurn (tnId turn)) (tnItems turn) (classifications actions))) snapshot)"

definition preserveLiveRecovery ::
    "RuntimeConversationTurn \<Rightarrow> RuntimeConversationTurn option \<Rightarrow> string list \<Rightarrow> RuntimeConversationTurn" where
  "preserveLiveRecovery snapshot latest recoveringTurnIds = (case latest of
       None \<Rightarrow> snapshot
     | Some seen \<Rightarrow>
         if tnStatus snapshot \<noteq> WmFailed \<or> \<not> opt_truthy truthy_text (tnId snapshot)
            \<or> the_or [] (tnId snapshot) \<notin> set recoveringTurnIds then snapshot
         else snapshot\<lparr>tnStatus := tnStatus seen, tnError := tnError seen, tnErrorType := tnErrorType seen,
           tnCompletedAt := tnCompletedAt seen, tnDurationMs := tnDurationMs seen, tnStoppedNotice := tnStoppedNotice seen\<rparr>)"

definition updated_text_ids :: "WorkbenchMessageAction list \<Rightarrow> string list" where
  "updated_text_ids actions = List.map_filter (\<lambda>a. case a of
       AssistantChunk c \<Rightarrow> if opt_truthy truthy_text (acItemId c) then acItemId c else None
     | AssistantDone d \<Rightarrow> if opt_truthy truthy_text (dnItemId d) then dnItemId d else None
     | _ \<Rightarrow> None) actions"

definition recovering_turn_ids :: "WorkbenchMessageAction list \<Rightarrow> string list" where
  "recovering_turn_ids actions = List.map_filter (\<lambda>a. case a of
       BlockCreated c \<Rightarrow> if opt_truthy truthy_text (acSubtaskId c) \<and> isRuntimeReconnectingBlock (crBlock c)
         then acSubtaskId c else None
     | _ \<Rightarrow> None) actions"

definition keep_live_text ::
    "string list \<Rightarrow> (string, RuntimeConversationItem) jsmap \<Rightarrow> RuntimeConversationItem \<Rightarrow> RuntimeConversationItem" where
  "keep_live_text updatedTextIds latestItems item =
     (case (itBody item, map_option itBody (jm_get latestItems (itId item))) of
        (AssistantText content offset createdAt, Some (AssistantText seen seenOffset _)) \<Rightarrow>
          if itId item \<notin> set updatedTextIds \<or> prefix seen content then item
          else item\<lparr>itBody := AssistantText seen seenOffset createdAt\<rparr>
      | _ \<Rightarrow> item)"

definition keep_live_turn ::
    "string list \<Rightarrow> (string option, RuntimeConversationTurn) jsmap \<Rightarrow> RuntimeConversationTurn \<Rightarrow> RuntimeConversationTurn" where
  "keep_live_turn updatedTextIds observedByTurn turn = (case jm_get observedByTurn (tnId turn) of
       None \<Rightarrow> turn
     | Some latest \<Rightarrow> turn\<lparr>tnItems := map (keep_live_text updatedTextIds (by_id (tnItems latest))) (tnItems turn)\<rparr>)"

definition is_superseded :: "string list \<Rightarrow> RuntimeConversationTurn \<Rightarrow> bool" where
  "is_superseded superseded turn \<longleftrightarrow> opt_truthy truthy_text (tnId turn) \<and> the_or [] (tnId turn) \<in> set superseded"

definition missing_turns :: "RuntimeConversationTurn list \<Rightarrow> RuntimeConversationTurn list \<Rightarrow> RuntimeConversationTurn list" where
  "missing_turns local snapshot =
     (let localUserIds = concat (map runtimeConversationTurnClientUserMessageIds local)
      in filter (\<lambda>turn. tnId turn \<notin> tnId ` set local
        \<and> \<not> list_ex (\<lambda>i. i \<in> set localUserIds) (runtimeConversationTurnClientUserMessageIds turn)) snapshot)"

text \<open>The turns as the live actions leave them, on top of what the transcript adds to them.\<close>

definition observed_turns ::
    "env \<Rightarrow> RuntimeConversationTurn list \<Rightarrow> RuntimeConversationTurn list \<Rightarrow> WorkbenchMessageAction list \<Rightarrow> bool \<Rightarrow>
     RuntimeConversationTurn list option" where
  "observed_turns e local snapshot actions actionsAlreadyApplied = do {
     observed \<leftarrow> mergeRuntimeConversationTurns e local (missing_turns local snapshot);
     if actionsAlreadyApplied then Some observed else fold_option (reduceRuntimeConversationTurns e) observed actions
   }"

definition hydrateRuntimeConversationTurns ::
    "env \<Rightarrow> RuntimeConversationTurn list \<Rightarrow> RuntimeConversationTurn list \<Rightarrow> WorkbenchMessageAction list \<Rightarrow> bool \<Rightarrow>
     string list \<Rightarrow> RuntimeConversationTurn list option" where
  "hydrateRuntimeConversationTurns e local0 snapshot actions actionsAlreadyApplied superseded = do {
     observed \<leftarrow> observed_turns e (filter (\<lambda>turn. \<not> is_superseded superseded turn) local0) snapshot actions actionsAlreadyApplied;
     let observedByTurn = new_map (map (\<lambda>turn. (tnId turn, turn)) observed);
     classified \<leftarrow> preserveLiveClassifications e snapshot observedByTurn actions;
     let reconciled = map (\<lambda>turn. preserveLiveRecovery turn (jm_get observedByTurn (tnId turn)) (recovering_turn_ids actions))
       classified;
     merged \<leftarrow> mergeRuntimeConversationTurns e observed reconciled;
     Some (map (keep_live_turn (updated_text_ids actions) observedByTurn)
       (filter (\<lambda>turn. \<not> is_superseded superseded turn) merged))
   }"

end
