(* ===== verification/RuntimeTurnProps.thy ===== *)
theory RuntimeTurnProps
  imports RuntimeTurns MessageUtils
begin

text \<open>
  What holds of the turns of a conversation: no two turns share an id, a cancelled turn is final and a settled one
  is not reopened by a transcript, merging loses no item and keeps the stored order, the live blocks of a turn are
  bounded, and a text item follows its stream as long as offsets count the units its string has.
\<close>

subsection \<open>Indexes\<close>

lemma find_index_Some:
  "find_index P xs = Some i \<Longrightarrow> i < length xs \<and> P (xs ! i) \<and> (\<forall>j < i. \<not> P (xs ! j))"
  by (induction xs arbitrary: i) (auto split: if_splits simp: less_Suc_eq_0_disj)

lemma find_index_None: "find_index P xs = None \<longleftrightarrow> \<not> list_ex P xs"
  by (induction xs) auto

lemma find_last_index_Some: "find_last_index P xs = Some i \<Longrightarrow> i < length xs \<and> P (xs ! i)"
  by (auto simp: find_last_index_def rev_nth dest!: find_index_Some)

subsection \<open>Ids of turns\<close>

definition turn_ids :: "RuntimeConversationTurn list \<Rightarrow> string list" where
  "turn_ids turns = List.map_filter tnId turns"

lemma turn_ids_simps [simp]:
  "turn_ids [] = []" "turn_ids (xs @ ys) = turn_ids xs @ turn_ids ys"
  "turn_ids (t # ts) = (case tnId t of None \<Rightarrow> turn_ids ts | Some i \<Rightarrow> i # turn_ids ts)"
  by (auto simp: turn_ids_def map_filter_def split: option.split)

lemma turn_ids_set: "i \<in> set (turn_ids ts) \<longleftrightarrow> (\<exists>t \<in> set ts. tnId t = Some i)"
  by (induction ts) (auto split: option.split)

lemma turn_ids_map: "(\<And>t. tnId (f t) = tnId t) \<Longrightarrow> turn_ids (map f ts) = turn_ids ts"
  by (induction ts) (auto split: option.split)

lemma turn_ids_split: "i < length ts \<Longrightarrow> turn_ids ts = turn_ids (take i ts) @ (case tnId (ts ! i) of None \<Rightarrow> [] | Some k \<Rightarrow> [k])
    @ turn_ids (drop (Suc i) ts)"
  by (subst id_take_nth_drop [of i ts]) (auto split: option.split)

lemma turn_ids_update: "i < length ts \<Longrightarrow> turn_ids (ts[i := t]) = turn_ids (take i ts) @ (case tnId t of None \<Rightarrow> [] | Some k \<Rightarrow> [k])
    @ turn_ids (drop (Suc i) ts)"
  by (subst upd_conv_take_nth_drop) (auto split: option.split)

lemma turn_ids_same: "i < length ts \<Longrightarrow> tnId t = tnId (ts ! i) \<Longrightarrow> turn_ids (ts[i := t]) = turn_ids ts"
  by (simp add: turn_ids_update turn_ids_split [of i ts])

lemma distinct_renamed:
  "i < length ts \<Longrightarrow> distinct (turn_ids ts) \<Longrightarrow> tnId t = Some k \<Longrightarrow> k \<notin> set (turn_ids ts) \<Longrightarrow> distinct (turn_ids (ts[i := t]))"
  using turn_ids_split [of i ts] by (auto simp: turn_ids_update split: option.splits)

lemma find_turn: "find_index (\<lambda>t. tnId t = Some k) ts = None \<longleftrightarrow> k \<notin> set (turn_ids ts)"
  by (simp add: find_index_None list_ex_iff turn_ids_set)

lemma with_timing_id [simp]: "tnId (with_timing t turn) = tnId turn" "tnStatus (with_timing t turn) = tnStatus turn"
  "tnItems (with_timing t turn) = tnItems turn" "tnError (with_timing t turn) = tnError turn"
  by (simp_all add: with_timing_def)

lemma bounded_id [simp]: "tnId (boundVisibleRuntimeProcessingBlocks turn items) = tnId turn"
  "tnStatus (boundVisibleRuntimeProcessingBlocks turn items) = tnStatus turn"
  by (simp_all add: boundVisibleRuntimeProcessingBlocks_def Let_def)

lemma reopen_id [simp]: "tnId (reopen turn) = tnId turn" by (simp add: reopen_def)

lemma reopen_if_id: "tnId (if c then x else reopen x) = tnId x" "tnId (if c then reopen x else x) = tnId x"
  by simp_all

lemma turn_chunk_id: "turn_chunk e a turn = Some t \<Longrightarrow> tnId t = tnId turn"
  unfolding turn_chunk_def Let_def by (auto simp: Option.bind_eq_Some_conv)

lemma turn_done_id: "turn_done e a turn = Some t \<Longrightarrow> tnId t = tnId turn"
  unfolding turn_done_def Let_def by (auto simp: Option.bind_eq_Some_conv)

lemma turn_block_id: "turn_block e a turn = Some t \<Longrightarrow> tnId t = tnId turn"
  unfolding turn_block_def Let_def by (auto simp: Option.bind_eq_Some_conv reopen_if_id)

lemma turn_update_id: "turn_update e a turn = Some t \<Longrightarrow> tnId t = tnId turn"
  unfolding turn_update_def Let_def by (auto simp: Option.bind_eq_Some_conv reopen_if_id)

lemma turn_end_id: "tnId (turn_cancelled e a turn) = tnId turn" "tnId (turn_failed e b turn) = tnId turn"
  by (simp_all add: turn_cancelled_def turn_failed_def)

lemmas turn_step_id = turn_chunk_id turn_done_id turn_block_id turn_update_id

lemma merge_fields_id [simp]: "tnId (merge_turn_fields e local snapshot items) = tnId snapshot"
  by (simp add: merge_turn_fields_def Let_def)

lemma merged_turn_id:
  assumes "mergeRuntimeConversationTurn e local snapshot = Some t"
  shows "tnId t = (if tnId snapshot = None then tnId local else tnId snapshot)"
proof (cases "tnId snapshot = None \<and> tnId local \<noteq> None")
  case True
  then show ?thesis using assms by (auto simp: mergeRuntimeConversationTurn_def)
next
  case False
  then obtain items where "t = merge_turn_fields e local snapshot items"
    using assms unfolding mergeRuntimeConversationTurn_def Let_def by (auto simp: Option.bind_eq_Some_conv)
  then show ?thesis using False by auto
qed

lemma updateTurn_cases:
  assumes "updateTurn ts k f = Some ts'"
  obtains "ts' = ts" | i t where "i < length ts" "k = tnId (ts ! i)" "tnStatus (ts ! i) \<noteq> WmCancelled"
    "f (ts ! i) = Some t" "ts' = ts[i := t]"
proof (cases "find_index (\<lambda>t. tnId t = k) ts")
  case None
  then show thesis using assms by (intro that(1)) (simp add: updateTurn_def split: if_splits)
next
  case (Some i)
  note i = find_index_Some [OF Some]
  show thesis
  proof (cases "opt_truthy truthy_text k \<and> tnStatus (ts ! i) \<noteq> WmCancelled")
    case True
    then obtain t where "f (ts ! i) = Some t" "ts' = ts[i := t]" using assms Some by (auto simp: updateTurn_def)
    then show thesis using True i by (intro that(2)) simp_all
  next
    case False
    then show thesis using assms Some by (intro that(1)) (auto simp: updateTurn_def split: if_splits)
  qed
qed

lemma updateTurn_ids: "updateTurn ts k f = Some ts' \<Longrightarrow> (\<And>t t'. f t = Some t' \<Longrightarrow> tnId t' = tnId t) \<Longrightarrow> turn_ids ts' = turn_ids ts"
  by (erule updateTurn_cases) (auto simp: turn_ids_same)

lemma failed_ids:
  assumes "distinct (turn_ids ts)" and f: "\<And>t. tnId (f t) = tnId t"
  shows "distinct (turn_ids (updateFailedTurn ts k f))"
proof (cases "find_index (\<lambda>t. tnId t = k) ts")
  case (Some i)
  then show ?thesis
    using assms find_index_Some [OF Some] by (auto simp: updateFailedTurn_def turn_ids_same)
next
  case None
  show ?thesis
  proof (cases k)
    case (Some j)
    then have new: "j \<notin> set (turn_ids ts)" using None by (simp add: find_turn)
    then show ?thesis
      using assms None Some
      by (auto simp: updateFailedTurn_def new_turn_def split: option.split intro!: distinct_renamed dest: find_last_index_Some)
  qed (use assms in \<open>simp add: updateFailedTurn_def\<close>)
qed

lemma optimistic_ids [simp]: "turn_ids (appendOptimisticUser e ts m) = turn_ids ts"
  by (simp add: appendOptimisticUser_def new_turn_def)

lemma seeded_ids [simp]: "turn_ids (seedRuntimeConversationTurns e ms ts) = turn_ids ts"
  unfolding seedRuntimeConversationTurns_def by (induction ms arbitrary: ts) auto

lemma turn_ids_concat: "turn_ids (concat ls) = concat (map turn_ids ls)"
  by (induction ls) auto

lemma turn_ids_others: "set (turn_ids (map ((!) ts) is)) = {k. \<exists>i \<in> set is. tnId (ts ! i) = Some k}"
  by (auto simp: turn_ids_set)


lemma turn_ids_unique:
  assumes "distinct (turn_ids ts)" and "i < length ts" and "j < length ts"
    and "tnId (ts ! i) = Some k" and "tnId (ts ! j) = Some k"
  shows "i = j"
proof -
  have less: False if "i < j" "j < length ts" "tnId (ts ! i) = Some k" "tnId (ts ! j) = Some k" for i j
  proof -
    have "ts ! j = drop (Suc i) ts ! (j - Suc i)" "j - Suc i < length (drop (Suc i) ts)" using that by simp_all
    then have "ts ! j \<in> set (drop (Suc i) ts)" by (metis nth_mem)
    then have "k \<in> set (turn_ids (drop (Suc i) ts))" using that by (auto simp: turn_ids_set)
    then show False using assms(1) turn_ids_split [of i ts] that by auto
  qed
  show ?thesis using less [of i j] less [of j i] assms by (cases i j rule: linorder_cases) auto
qed

lemma distinct_concat_upt:
  "(\<And>i. i < n \<Longrightarrow> distinct (h i)) \<Longrightarrow> (\<And>i j. i < n \<Longrightarrow> j < n \<Longrightarrow> i \<noteq> j \<Longrightarrow> set (h i) \<inter> set (h j) = {}) \<Longrightarrow>
   distinct (concat (map h [0..<n]))"
proof (induction n)
  case (Suc n)
  then have "distinct (concat (map h [0..<n]))" by simp
  moreover have "set (h i) \<inter> set (h n) = {}" if "i < n" for i using Suc.prems(2) [of i n] that by simp
  then have "set (concat (map h [0..<n])) \<inter> set (h n) = {}" by (auto simp: disjoint_iff)
  ultimately show ?case using Suc.prems(1) by simp
qed simp

text \<open>Binding puts the merged turn in one place and drops the turns it was made from.\<close>

lemma bound_ids:
  assumes d: "distinct (turn_ids ts)" and i: "find_index (\<lambda>t. tnId t = Some k) ts = existing" and m: "tnId m = Some k"
    and target: "target = (case existing of None \<Rightarrow> user | Some i \<Rightarrow> min user i)" and user: "user < length ts"
  shows "distinct (turn_ids (concat (map (\<lambda>index. if index = target then [m]
    else if Some index = existing \<or> index = user then [] else [ts ! index]) [0..<length ts])))"
proof -
  have other: "tnId (ts ! j) \<noteq> Some k" if "j < length ts" "Some j \<noteq> existing" for j
  proof (cases existing)
    case None
    then have "k \<notin> set (turn_ids ts)" using i find_turn by simp
    then show ?thesis using that by (auto simp: turn_ids_set)
  next
    case (Some e)
    then have "tnId (ts ! e) = Some k" "e < length ts" using i find_index_Some [of _ ts e] by auto
    then show ?thesis using turn_ids_unique [OF d, of j e k] that Some by auto
  qed
  show ?thesis
    unfolding turn_ids_concat map_map
  proof (rule distinct_concat_upt)
    fix a b assume "a < length ts" "b < length ts" "a \<noteq> b"
    then show "set ((turn_ids \<circ> (\<lambda>index. if index = target then [m] else if Some index = existing \<or> index = user then []
        else [ts ! index])) a) \<inter> set ((turn_ids \<circ> (\<lambda>index. if index = target then [m]
        else if Some index = existing \<or> index = user then [] else [ts ! index])) b) = {}"
      using other [of a] other [of b] m turn_ids_unique [OF d, of a b] by (auto split: option.split)
  qed (auto simp: m split: option.split)
qed

lemma bind_ids:
  assumes d: "distinct (turn_ids ts)" and bind: "bindAssistantTurn e ts sub client = Some ts'"
  shows "distinct (turn_ids ts')"
proof -
  define k c where "k = the_or [] sub" and "c = the_or [] (the_or None client)"
  note bind = bind [unfolded bindAssistantTurn_def Let_def, folded k_def c_def]
  show ?thesis
  proof (cases "k = [] \<or> c = []")
    case False
    show ?thesis
    proof (cases "find_index (names_user c) ts")
      case None
      then have ts': "ts' = (case find_index (\<lambda>t. tnId t = Some k) ts of
          None \<Rightarrow> ts @ [(new_turn (Some k) [] WmPending)\<lparr>tnClientUserMessageId := Some c\<rparr>]
        | Some i \<Rightarrow> ts[i := (ts ! i)\<lparr>tnClientUserMessageId := Some c\<rparr>])"
        using bind False by simp
      show ?thesis
      proof (cases "find_index (\<lambda>t. tnId t = Some k) ts")
        case None
        then show ?thesis using d find_turn [of k ts] by (simp add: ts' new_turn_def)
      next
        case (Some i)
        then show ?thesis using d find_index_Some [OF Some] by (simp add: ts' turn_ids_same)
      qed
    next
      case (Some user)
      note u = find_index_Some [OF Some]
      let ?bound = "(ts ! user)\<lparr>tnId := Some k, tnClientUserMessageId := Some c, tnItems := map (bind_item k) (tnItems (ts ! user))\<rparr>"
      let ?existing = "find_index (\<lambda>t. tnId t = Some k) ts"
      obtain m where m: "(case ?existing of
            Some i \<Rightarrow> if i \<noteq> user then mergeRuntimeConversationTurn e ?bound (ts ! i) else Some ?bound
          | None \<Rightarrow> Some ?bound) = Some m"
        and ts': "ts' = concat (map (\<lambda>index. if index = (case ?existing of None \<Rightarrow> user | Some i \<Rightarrow> min user i) then [m]
            else if Some index = ?existing \<or> index = user then [] else [ts ! index]) [0..<length ts])"
        using bind False Some by (auto simp: Option.bind_eq_Some_conv)
      have "tnId m = Some k"
      proof (cases ?existing)
        case (Some i)
        then show ?thesis using m find_index_Some [OF Some] merged_turn_id [of e ?bound "ts ! i" m] by (auto split: if_splits)
      qed (use m in auto)
      then show ?thesis unfolding ts' by (rule bound_ids [OF d refl _ refl conjunct1 [OF u]])
    qed
  qed (use bind d in auto)
qed

lemma started_ids:
  assumes d: "distinct (turn_ids ts)" and "updateStartedTurn e ts a = Some ts'"
  shows "distinct (turn_ids ts')"
proof (cases "the_or [] (acSubtaskId a) = []")
  case False
  define k where "k = the_or [] (acSubtaskId a)"
  obtain bs where b: "bindAssistantTurn e ts (acSubtaskId a) (acClientUserMessageId a) = Some bs"
    and ts': "ts' = (case find_index (\<lambda>turn. tnId turn = Some k) bs of
        Some i \<Rightarrow> if tnStatus (bs ! i) = WmCancelled then bs else bs[i := restart_turn e (acStartedAt a) (bs ! i)]
      | None \<Rightarrow> (case optimistic_index bs (acClientUserMessageId a) of
            Some i \<Rightarrow> bs[i := start_optimistic e k (acStartedAt a) (bs ! i)]
          | None \<Rightarrow> bs @ [(new_turn (Some k) [] WmStreaming)
              \<lparr>tnClientUserMessageId := the_or None (acClientUserMessageId a),
               tnStartedAt := Some (the_or (now e) (acStartedAt a))\<rparr>]))"
    using assms(2) False unfolding updateStartedTurn_def Let_def k_def by (auto simp: Option.bind_eq_Some_conv)
  have d: "distinct (turn_ids bs)" using d b by (rule bind_ids)
  have optimistic: "i < length bs" if "optimistic_index bs c = Some i" for c i
    using that by (auto simp: optimistic_index_def split: option.splits if_splits dest: find_index_Some find_last_index_Some)
  show ?thesis
  proof (cases "find_index (\<lambda>turn. tnId turn = Some k) bs")
    case (Some i)
    then show ?thesis using d find_index_Some [OF Some] by (simp add: ts' turn_ids_same restart_turn_def)
  next
    case None
    then have new: "k \<notin> set (turn_ids bs)" by (simp add: find_turn)
    show ?thesis
    proof (cases "optimistic_index bs (acClientUserMessageId a)")
      case (Some i)
      then show ?thesis
        using None distinct_renamed [OF optimistic [OF Some] d _ new] by (simp add: ts' start_optimistic_def Let_def)
    qed (use None d new in \<open>simp add: ts' new_turn_def\<close>)
  qed
qed (use assms in \<open>simp add: updateStartedTurn_def\<close>)

lemma reduced_ids:
  assumes "distinct (turn_ids ts)" and "reduceRuntimeConversationTurns e ts a = Some ts'"
  shows "distinct (turn_ids ts')"
proof (cases a)
  case (AssistantError x)
  have "distinct (turn_ids (updateFailedTurn ts (acSubtaskId x) (turn_failed e x)))"
    using assms(1) by (rule failed_ids) (simp add: turn_end_id)
  then show ?thesis using assms AssistantError by simp
next
  case (AssistantCancelled x)
  then have "updateTurn ts (acSubtaskId x) (Some \<circ> turn_cancelled e x) = Some ts'" using assms by simp
  then have "turn_ids ts' = turn_ids ts" by (rule updateTurn_ids) (auto simp: turn_end_id)
  then show ?thesis using assms by simp
next
  case (FileChangesUpdated i x)
  then have "updateTurn ts (Some i) (\<lambda>turn. Some (turn\<lparr>tnFileChanges := Some x\<rparr>)) = Some ts'" using assms by simp
  then have "turn_ids ts' = turn_ids ts" by (rule updateTurn_ids) auto
  then show ?thesis using assms by simp
qed (use assms updateTurn_ids turn_step_id in \<open>auto intro: started_ids bind_ids dest!: updateTurn_ids\<close>)

text \<open>An action whose reduction raises leaves the turns as they are.\<close>

definition turns_after :: "env \<Rightarrow> RuntimeConversationTurn list \<Rightarrow> WorkbenchMessageAction \<Rightarrow> RuntimeConversationTurn list" where
  "turns_after e turns a = the_or turns (reduceRuntimeConversationTurns e turns a)"

interpretation conversation: invariant_machine "\<lambda>turns (e, a). turns_after e turns a" "\<lambda>turns. distinct (turn_ids turns)"
  by unfold_locales (auto simp: turns_after_def the_or_def split: option.split intro: reduced_ids)


subsection \<open>A cancelled turn is final\<close>

text \<open>Only an action that names a message of the user can give a turn another id or merge it.\<close>

definition rebinds :: "WorkbenchMessageAction \<Rightarrow> bool" where
  "rebinds a = (case a of
       AssistantStarted x \<Rightarrow> the_or [] (the_or None (acClientUserMessageId x)) \<noteq> []
     | AssistantBound x \<Rightarrow> the_or [] (the_or None (acClientUserMessageId x)) \<noteq> []
     | _ \<Rightarrow> False)"

lemma kept_in: "t \<in> set ts \<Longrightarrow> ts ! i \<noteq> t \<Longrightarrow> t \<in> set (ts[i := x])"
  by (metis in_set_conv_nth length_list_update nth_list_update_neq)

lemma kept_update:
  "updateTurn ts k f = Some ts' \<Longrightarrow> t \<in> set ts \<Longrightarrow> tnStatus t = WmCancelled \<Longrightarrow> t \<in> set ts'"
  by (erule updateTurn_cases) (auto intro!: kept_in)

lemma kept_failed:
  "t \<in> set ts \<Longrightarrow> tnStatus t = WmCancelled \<Longrightarrow> tnId t = Some i \<Longrightarrow> t \<in> set (updateFailedTurn ts k f)"
  by (auto simp: updateFailedTurn_def split: option.split intro!: kept_in dest: find_last_index_Some)

lemma kept_seed: "t \<in> set ts \<Longrightarrow> t \<in> set (seedRuntimeConversationTurns e ms ts)"
  unfolding seedRuntimeConversationTurns_def by (induction ms arbitrary: ts) (auto simp: appendOptimisticUser_def)

lemma bind_unnamed: "the_or [] (the_or None c) = [] \<Longrightarrow> bindAssistantTurn e ts k c = Some ts"
  by (simp add: bindAssistantTurn_def)

lemma kept_started:
  assumes "updateStartedTurn e ts a = Some ts'" and "the_or [] (the_or None (acClientUserMessageId a)) = []"
    and t: "t \<in> set ts" "tnStatus t = WmCancelled" "tnId t = Some i"
  shows "t \<in> set ts'"
proof (cases "the_or [] (acSubtaskId a) = []")
  case False
  let ?k = "the_or [] (acSubtaskId a)"
  have no: "tnId (ts ! j) = None" if "optimistic_index ts (acClientUserMessageId a) = Some j" for j
    using that assms(2) find_last_index_Some
    by (fastforce simp: optimistic_index_def split: option.splits if_splits)
  have "ts' = (case find_index (\<lambda>turn. tnId turn = Some ?k) ts of
        Some i \<Rightarrow> if tnStatus (ts ! i) = WmCancelled then ts else ts[i := restart_turn e (acStartedAt a) (ts ! i)]
      | None \<Rightarrow> (case optimistic_index ts (acClientUserMessageId a) of
            Some i \<Rightarrow> ts[i := start_optimistic e ?k (acStartedAt a) (ts ! i)]
          | None \<Rightarrow> ts @ [(new_turn (Some ?k) [] WmStreaming)
              \<lparr>tnClientUserMessageId := the_or None (acClientUserMessageId a),
               tnStartedAt := Some (the_or (now e) (acStartedAt a))\<rparr>]))"
    using assms(1) False bind_unnamed [OF assms(2)] by (simp add: updateStartedTurn_def Let_def)
  then show ?thesis using t no by (auto split: option.split if_splits intro!: kept_in)
qed (use assms in \<open>simp add: updateStartedTurn_def\<close>)

lemma kept_reduced:
  assumes "reduceRuntimeConversationTurns e ts a = Some ts'" and "\<not> rebinds a"
    and "t \<in> set ts" "tnStatus t = WmCancelled" "tnId t = Some i"
  shows "t \<in> set ts'"
  using assms
  by (cases a) (auto simp: rebinds_def bind_unnamed kept_seed kept_failed appendOptimisticUser_def
      dest: kept_update kept_started)

subsection \<open>Merging two versions of a turn\<close>

lemma merge_status:
  assumes "mergeRuntimeConversationTurn e local snapshot = Some t" and "isTerminalTurnStatus_conv (tnStatus local)"
  shows "isTerminalTurnStatus_conv (tnStatus t)"
    and "isUnsettledTurnStatus (tnStatus snapshot) \<Longrightarrow> tnStatus t = tnStatus local \<and> tnError t = tnError local"
proof -
  consider (same) items where "t = local\<lparr>tnItems := items\<rparr>" | (merged) items where "t = merge_turn_fields e local snapshot items"
    using assms(1) unfolding mergeRuntimeConversationTurn_def Let_def
    by (auto simp: Option.bind_eq_Some_conv split: if_splits)
  then have "isTerminalTurnStatus_conv (tnStatus t) \<and>
    (isUnsettledTurnStatus (tnStatus snapshot) \<longrightarrow> tnStatus t = tnStatus local \<and> tnError t = tnError local)"
  proof cases
    case merged
    show ?thesis unfolding merged merge_turn_fields_def Let_def using assms(2)
      by (cases "tnStatus snapshot") (auto simp: isTerminalTurnStatus_conv_def isUnsettledTurnStatus_def)
  qed (use assms(2) in auto)
  then show "isTerminalTurnStatus_conv (tnStatus t)"
    "isUnsettledTurnStatus (tnStatus snapshot) \<Longrightarrow> tnStatus t = tnStatus local \<and> tnError t = tnError local" by auto
qed

subsection \<open>Merging the items\<close>

lemma merged_item_id: "mergeRuntimeConversationItem l x p = Some y \<Longrightarrow> itId y = itId x"
  by (auto simp: mergeRuntimeConversationItem_def Let_def split: option.splits conversation_item.splits)

lemma those_map_ids: "those (map f xs) = Some ys \<Longrightarrow> (\<And>x y. f x = Some y \<Longrightarrow> key y = key x) \<Longrightarrow> map key ys = map key xs"
  by (induction xs arbitrary: ys) (auto split: option.splits)

lemma merge_entries_spec [code]: "merge_entries key xs ys = spec_entries key xs ys"
  by (simp add: merge_entries_def insertMissing_spec)

lemma ordered_set [simp]: "set (orderRuntimeConversationItems items observed) = set items"
  by (metis mset_eq_setD ordered_items(1))

lemma unaliased_set: "x \<in> set (removeEquivalentAssistantTextItems xs ys) \<Longrightarrow> x \<in> set xs"
  using unaliased_keeps(1) [of xs ys] by (auto elim: list_emb_set)

lemma unaliased_stays: "x \<in> set xs \<Longrightarrow> stays x \<Longrightarrow> x \<in> set (removeEquivalentAssistantTextItems xs ys)"
  using unaliased_keeps(2) [of xs ys] filter_set [of stays xs] by (metis (mono_tags, lifting) mem_Collect_eq set_filter)

lemma by_id_get:
  assumes "jm_get (by_id items) i = Some a"
  shows "itId a = i \<and> a \<in> set items"
  using new_map_in [OF assms] by auto

lemma merged_item_ids:
  assumes "mergeRuntimeConversationItems local snapshot p = Some items"
  shows "itId ` set items \<subseteq> itId ` set local \<union> itId ` set snapshot" (is ?known)
    and "x \<in> set snapshot \<Longrightarrow> stays x \<Longrightarrow> itId x \<in> itId ` set items"
    and "x \<in> set local \<Longrightarrow> stays x \<Longrightarrow> \<not> is_user_message x \<Longrightarrow> itId x \<in> itId ` set items"
    and "sorted (map (\<lambda>item. the (itPosition item)) (filter (\<lambda>item. itPosition item \<noteq> None) items))"
proof -
  define S where "S = removeEquivalentAssistantTextItems snapshot (filter (\<lambda>item. itPosition item \<noteq> None) local)"
  define L where "L = canonical_local local S"
  have "map_option (place_merged L S) (those (map (\<lambda>item. mergeRuntimeConversationItem
      (local_version (by_id L) (new_map (List.map_filter user_entry local)) item) item p) S)) = Some items"
    using assms by (simp add: mergeRuntimeConversationItems_def Let_def S_def L_def)
  then obtain M where M: "those (map (\<lambda>item. mergeRuntimeConversationItem
        (local_version (by_id L) (new_map (List.map_filter user_entry local)) item) item p) S) = Some M"
    and items: "place_merged L S M = items"
    by (auto simp: map_option_eq_Some)
  have "map itId M = map itId S" by (rule those_map_ids [OF M]) (rule merged_item_id)
  then have MS: "itId ` set M = itId ` set S" by (metis list.set_map)
  have same: "itId (the_or item (jm_get (by_id M) (itId item))) = itId item" for item
    by (cases "jm_get (by_id M) (itId item)") (auto dest: by_id_get)
  have ids: "itId ` set items = itId ` set L \<union> itId ` set S"
    by (simp add: items [symmetric] place_merged_def Let_def merge_entries_spec spec_entries_run MS image_image same)
  have "set S \<subseteq> set snapshot" unfolding S_def using unaliased_set by blast
  moreover have "set L \<subseteq> set local" unfolding L_def canonical_local_def using unaliased_set by auto
  ultimately show ?known using ids by blast
  show "x \<in> set snapshot \<Longrightarrow> stays x \<Longrightarrow> itId x \<in> itId ` set items"
    using ids unaliased_stays unfolding S_def by blast
  show "itId x \<in> itId ` set items" if "x \<in> set local" "stays x" "\<not> is_user_message x"
  proof -
    have "stays_canonical m x" for m
      using that(3) by (simp add: stays_canonical_def is_user_message_def split: conversation_item.splits)
    then have "x \<in> set L" using that unaliased_stays by (simp add: L_def canonical_local_def)
    then show ?thesis using ids by blast
  qed
  show "sorted (map (\<lambda>item. the (itPosition item)) (filter (\<lambda>item. itPosition item \<noteq> None) items))"
    unfolding items [symmetric] place_merged_def Let_def by (rule ordered_items)
qed

subsection \<open>Bounded blocks\<close>

lemma drop_live_spec:
  "filter is_live_block (drop_live k items) = drop k (filter is_live_block items)"
  "filter (\<lambda>item. \<not> is_live_block item) (drop_live k items) = filter (\<lambda>item. \<not> is_live_block item) items"
  by (induction k items rule: drop_live.induct) (auto simp: drop_Cons' split: nat.split)

lemma bounded_items:
  "filter is_live_block (tnItems (boundVisibleRuntimeProcessingBlocks turn items))
    = drop (length (filter is_live_block items) - MAX_VISIBLE_RUNTIME_PROCESSING_BLOCKS) (filter is_live_block items)"
  "filter (\<lambda>item. \<not> is_live_block item) (tnItems (boundVisibleRuntimeProcessingBlocks turn items))
    = filter (\<lambda>item. \<not> is_live_block item) items"
  by (simp_all add: boundVisibleRuntimeProcessingBlocks_def Let_def drop_live_spec)

lemma reopen_items [simp]: "tnItems (reopen turn) = tnItems turn" by (simp add: reopen_def)

lemma bounded_steps:
  "turn_chunk e a turn = Some t \<Longrightarrow> length (filter is_live_block (tnItems t)) \<le> MAX_VISIBLE_RUNTIME_PROCESSING_BLOCKS"
  "turn_done e b turn = Some t \<Longrightarrow> length (filter is_live_block (tnItems t)) \<le> MAX_VISIBLE_RUNTIME_PROCESSING_BLOCKS"
  "turn_block e c turn = Some t \<Longrightarrow> length (filter is_live_block (tnItems t)) \<le> MAX_VISIBLE_RUNTIME_PROCESSING_BLOCKS"
  unfolding turn_chunk_def turn_done_def turn_block_def Let_def
  by (auto simp: Option.bind_eq_Some_conv bounded_items)

subsection \<open>Text items\<close>

lemma splice_prefix:
  assumes "n \<le> length T" and "off \<le> n" and "off + k \<le> length T"
  shows "splice_text (take n T) (take k (drop off T)) (Some (int off)) = take (max n (off + k)) T"
proof -
  have k: "length (take k (drop off T)) = k" using assms by simp
  have "take (off + k) T = take off T @ take k (drop off T)" by (rule take_add)
  moreover have "take (max n (off + k)) T = take (off + k) T @ drop (off + k) (take n T)"
    using assms by (cases "n \<le> off + k") (simp_all add: max_def drop_take flip: take_add)
  ultimately show ?thesis
    using assms k by (simp add: splice_text_def slice_to_def slice_from_def slice_bound_def text_units_end_def
        min_def nat_add_distrib)
qed


lemma splice_chunk:
  assumes "n \<le> length T" and "off \<le> n"
  shows "splice_text (take n T) (take k (drop off T)) (Some (int off)) = take (max n (off + k)) T"
proof -
  define k' where "k' = min k (length T - off)"
  have "take k (drop off T) = take k' (drop off T)" by (cases "k \<le> length T - off") (simp_all add: k'_def)
  moreover have "take (max n (off + k)) T = take (max n (off + k')) T"
  proof (cases "off + k \<le> length T")
    case True
    then have "k' = k" by (simp add: k'_def min_def)
    then show ?thesis by simp
  next
    case False
    then have "off + k' = length T" using assms by (simp add: k'_def min_def)
    then show ?thesis using False assms by (simp add: max_def)
  qed
  ultimately show ?thesis using splice_prefix [OF assms, of k'] assms by (simp add: k'_def)
qed

interpretation unit_stream: chunk_receiver "\<lambda>_. True" length "\<lambda>T n. take n T" "\<lambda>T off k. take k (drop off T)"
  "\<lambda>x c off. splice_text x c (Some (int off))"
  by unfold_locales (simp_all add: splice_chunk)

text \<open>The text of the item with an id, and a stream of chunks sent to it.\<close>

definition item_text :: "RuntimeConversationItem list \<Rightarrow> string \<Rightarrow> ustring option" where
  "item_text items i = (case find_index (\<lambda>x. itId x = i) items of
       None \<Rightarrow> None
     | Some j \<Rightarrow> (case itBody (items ! j) of AssistantText content _ _ \<Rightarrow> Some content | _ \<Rightarrow> None))"

definition stream_item ::
    "string \<Rightarrow> RuntimeConversationItem list \<Rightarrow> ustring \<Rightarrow> (env \<times> nat \<times> nat) list \<Rightarrow> RuntimeConversationItem list" where
  "stream_item i items T cs = foldl (\<lambda>items (e, off, k).
     upsertAssistantText e items i (take k (drop off T)) (Some DeltaContent) (Some (int off))) items cs"

lemma find_index_map: "map f xs = map f ys \<Longrightarrow> find_index (\<lambda>x. f x = i) xs = find_index (\<lambda>x. f x = i) ys"
proof (induction xs arbitrary: ys)
  case (Cons x xs)
  then show ?case by (cases ys) auto
qed simp

lemma find_index_snoc: "find_index P (xs @ [x]) =
    (case find_index P xs of Some j \<Rightarrow> Some j | None \<Rightarrow> if P x then Some (length xs) else None)"
  by (induction xs) (auto split: option.split)

lemma upsert_known:
  assumes "item_text items i = Some current"
  shows "item_text (upsertAssistantText e items i c (Some DeltaContent) offset) i = Some (splice_text current c offset)"
proof -
  obtain j off cr where j: "find_index (\<lambda>x. itId x = i) items = Some j" "itBody (items ! j) = AssistantText current off cr"
    using assms by (auto simp: item_text_def split: option.splits conversation_item.splits)
  let ?x = "(items ! j)\<lparr>itBody := AssistantText (splice_text current c offset) (map_option (\<lambda>n. text_units_end n c) offset) cr\<rparr>"
  have r: "upsertAssistantText e items i c (Some DeltaContent) offset = items[j := ?x]"
    using j by (simp add: upsertAssistantText_def current_text_def)
  have "map itId (items[j := ?x]) = map itId items"
    using find_index_Some [OF j(1)] by (simp add: map_update list_update_same_conv)
  then have "find_index (\<lambda>x. itId x = i) (items[j := ?x]) = Some j" using find_index_map j(1) by metis
  then show ?thesis using find_index_Some [OF j(1)] by (simp add: r item_text_def)
qed

lemma upsert_new:
  assumes "i \<notin> itId ` set items"
  shows "item_text (upsertAssistantText e items i c m offset) i = Some c"
proof -
  have "find_index (\<lambda>x. itId x = i) items = None" using assms by (auto simp: find_index_None list_ex_iff)
  then show ?thesis by (simp add: upsertAssistantText_def item_text_def find_index_snoc nth_append)
qed

abbreviation item_spans :: "(env \<times> nat \<times> nat) list \<Rightarrow> (nat \<times> nat) list" where
  "item_spans \<equiv> map snd"

lemma stream_known:
  "item_text items i = Some x \<Longrightarrow> item_text (stream_item i items T cs) i = Some (unit_stream.receive_all T x (item_spans cs))"
proof (induction cs arbitrary: items x)
  case (Cons c cs)
  obtain e off k where c: "c = (e, off, k)" by (cases c)
  show ?case
    using Cons.IH [OF upsert_known [OF Cons.prems, of e "take k (drop off T)" "Some (int off)"]]
    by (simp add: c stream_item_def unit_stream.receive_all_def)
qed (simp add: stream_item_def unit_stream.receive_all_def)

subsection \<open>Raising\<close>

lemma merge_block_raises:
  assumes "merge_block b c p = None"
  shows "pb_type b = KSubagent \<and> pb_type c = KSubagent"
proof -
  have type: "pb_type (preserveProcessingBlockOutput b x) = pb_type x" for x
    by (simp add: preserveProcessingBlockOutput_def Let_def)
  show ?thesis using assms
    by (auto simp: merge_block_def merge_subagent_def type Let_def Option.bind_eq_None_conv split: if_splits list.splits)
qed

subsection \<open>Properties\<close>

text \<open>C14: In every run of actions, in whatever order and with actions that raise among them, no two turns of a
  conversation have the same id.\<close>

theorem turn_ids_distinct:
  "distinct (turn_ids (foldl (\<lambda>turns (e, a). turns_after e turns a) [] actions))"
  by (rule conversation.run_inv) simp

text \<open>C26: Once a turn is cancelled nothing that arrives late changes it: after any actions that do not bind a message
  of the user it is still there, with its items, its status and its times.\<close>

theorem cancelled_turn_final:
  assumes "t \<in> set turns" and "tnStatus t = WmCancelled" and "tnId t = Some i"
    and "\<forall>(e, a) \<in> set actions. \<not> rebinds a"
  shows "t \<in> set (foldl (\<lambda>turns (e, a). turns_after e turns a) turns actions)"
  using assms
proof (induction actions arbitrary: turns)
  case (Cons x actions)
  obtain e a where x: "x = (e, a)" by (cases x)
  have "t \<in> set (turns_after e turns a)"
    using Cons.prems kept_reduced [of e turns a _ t i] by (auto simp: x turns_after_def the_or_def split: option.split)
  then show ?case using Cons by (simp add: x)
qed simp

abbreviation demo_cancelled :: RuntimeConversationTurn where
  "demo_cancelled \<equiv> new_turn (Some ''t'') [] WmCancelled"

theorem cancelled_turn_final_witness:
  "demo_cancelled \<in> set (foldl (\<lambda>turns (e, a). turns_after e turns a) [demo_cancelled]
     [(demo_env, AssistantError \<lparr>acMessageId = None, acSubtaskId = Some ''t'', erError = [97], erErrorType = None,
        erStartedAt = None, erDurationMs = None\<rparr>)])"
  by (rule cancelled_turn_final [of _ _ "''t''"]) (simp_all add: new_turn_def rebinds_def)

text \<open>C27: A turn that has ended stays ended when a transcript is merged into it, and a transcript that still has it
  running changes neither its status nor its error.\<close>

theorem settled_turn_stays:
  assumes "mergeRuntimeConversationTurn e local snapshot = Some t" and "isTerminalTurnStatus_conv (tnStatus local)"
  shows "isTerminalTurnStatus_conv (tnStatus t) \<and>
    (isUnsettledTurnStatus (tnStatus snapshot) \<longrightarrow> tnStatus t = tnStatus local \<and> tnError t = tnError local)"
  using merge_status [OF assms] by blast

theorem settled_turn_stays_witness:
  "\<exists>t. mergeRuntimeConversationTurn demo_env (new_turn (Some ''t'') [] WmFailed) (new_turn (Some ''t'') [] WmStreaming) = Some t
    \<and> tnStatus t = WmFailed"
proof -
  have "mergeRuntimeConversationItems [] [] True = Some []"
    by (simp add: mergeRuntimeConversationItems_def Let_def place_merged_def canonical_local_def merge_entries_spec
        spec_entries_def orderRuntimeConversationItems_def removeEquivalentAssistantTextItems_def)
  then obtain t where t: "mergeRuntimeConversationTurn demo_env (new_turn (Some ''t'') [] WmFailed)
      (new_turn (Some ''t'') [] WmStreaming) = Some t"
    by (simp add: mergeRuntimeConversationTurn_def Let_def new_turn_def isTerminalTurnStatus_conv_def isUnsettledTurnStatus_def)
  then show ?thesis
    using settled_turn_stays [OF t]
    by (simp add: new_turn_def isTerminalTurnStatus_conv_def isUnsettledTurnStatus_def)
qed

text \<open>Merging the items of a turn invents none and loses none that are stored or are no text of the assistant: all
  of the transcript's, and all local ones but prompts, which the transcript may have under another id. What is
  stored comes in the stored order.\<close>

theorem merged_items_complete:
  assumes "mergeRuntimeConversationItems local snapshot preserveLocalTerminal = Some items"
  shows "itId ` set items \<subseteq> itId ` set local \<union> itId ` set snapshot \<and>
    itId ` set (filter stays snapshot) \<subseteq> itId ` set items \<and>
    itId ` set (filter (\<lambda>x. stays x \<and> \<not> is_user_message x) local) \<subseteq> itId ` set items \<and>
    sorted (map (\<lambda>item. the (itPosition item)) (filter (\<lambda>item. itPosition item \<noteq> None) items))"
  using merged_item_ids [OF assms] by auto

definition demo_item :: "string \<Rightarrow> int option \<Rightarrow> 16 word \<Rightarrow> RuntimeConversationItem" where
  "demo_item i position c = \<lparr>itId = i, itPosition = position, itBody = AssistantText [c] None []\<rparr>"

theorem merged_items_complete_witness:
  "mergeRuntimeConversationItems [demo_item ''a'' None 97, demo_item ''live'' None 98]
     [demo_item ''a'' (Some 1) 97, demo_item ''b'' (Some 2) 99] False
    = Some [demo_item ''a'' (Some 1) 97, demo_item ''b'' (Some 2) 99, demo_item ''live'' None 98] \<and>
   sorted [1, 2 :: int]"
proof
  show run: "mergeRuntimeConversationItems [demo_item ''a'' None 97, demo_item ''live'' None 98]
      [demo_item ''a'' (Some 1) 97, demo_item ''b'' (Some 2) 99] False
     = Some [demo_item ''a'' (Some 1) 97, demo_item ''b'' (Some 2) 99, demo_item ''live'' None 98]"
    by code_simp
  show "sorted [1, 2 :: int]"
    using merged_items_complete [OF run] by (simp add: demo_item_def)
qed

text \<open>After a chunk, a completion or a new block a turn shows at most 256 blocks that are not stored: the blocks
  that go are the oldest of them, and the other items are untouched.\<close>

theorem visible_blocks_bounded:
  "filter is_live_block (tnItems (boundVisibleRuntimeProcessingBlocks turn items))
     = drop (length (filter is_live_block items) - MAX_VISIBLE_RUNTIME_PROCESSING_BLOCKS) (filter is_live_block items) \<and>
   filter (\<lambda>item. \<not> is_live_block item) (tnItems (boundVisibleRuntimeProcessingBlocks turn items))
     = filter (\<lambda>item. \<not> is_live_block item) items \<and>
   pred_option (\<lambda>t. length (filter is_live_block (tnItems t)) \<le> 256) (turn_chunk e a1 turn) \<and>
   pred_option (\<lambda>t. length (filter is_live_block (tnItems t)) \<le> 256) (turn_done e a2 turn) \<and>
   pred_option (\<lambda>t. length (filter is_live_block (tnItems t)) \<le> 256) (turn_block e a3 turn)"
  using bounded_items [of turn items] bounded_steps [of e _ turn]
  by (auto simp: option.pred_set MAX_VISIBLE_RUNTIME_PROCESSING_BLOCKS_def)

text \<open>C15: When offsets count UTF-16 code units, a text item holds after any chunks, repeated or overlapping but without
  a gap, exactly the part of the text received.\<close>

theorem item_text_follows_stream:
  assumes "i \<notin> itId ` set items" and "cs \<noteq> []" and "\<forall>(off, k)\<in>set (item_spans cs). off + k \<le> length T"
    and "gap_free 0 (item_spans cs)"
  shows "item_text (stream_item i items T cs) i = Some (take (reach 0 (item_spans cs)) T)"
proof -
  obtain e k cs' where cs: "cs = (e, 0, k) # cs'"
    using assms(2,4) by (cases cs) auto
  have "item_text (upsertAssistantText e items i (take k T) (Some DeltaContent) (Some 0)) i = Some (take k T)"
    using assms(1) by (rule upsert_new)
  then have "item_text (stream_item i items T cs) i = Some (unit_stream.receive_all T (take k T) (item_spans cs'))"
    using stream_known by (simp add: cs stream_item_def)
  moreover have "unit_stream.receive_all T (take k T) (item_spans cs') = take (reach k (item_spans cs')) T"
    using assms(3,4) by (intro unit_stream.stream_complete) (auto simp: cs)
  ultimately show ?thesis by (simp add: cs reach_def)
qed

theorem item_text_follows_stream_witness:
  "item_text (stream_item ''i'' [] [104, 101, 108, 108, 111]
     [(demo_env, 0, 2), (demo_env, 1, 2), (demo_env, 0, 1), (demo_env, 3, 2)]) ''i'' = Some [104, 101, 108, 108, 111]"
  by (subst item_text_follows_stream) (simp_all add: reach_def)

text \<open>C40: The executor counts code points and so does the reducer of messages, but a text item is cut at the same offset
  in code units: of a text with one character outside the basic plane, sent in two chunks, the item keeps half
  of that character, while the message has the whole text.\<close>

theorem item_text_splits_characters:
  "upsertAssistantText e (upsertAssistantText e [] ''i'' (chunk_at demo_text 0 2) None (Some 0)) ''i''
      (chunk_at demo_text 2 1) None (Some 2)
    = [\<lparr>itId = ''i'', itPosition = None, itBody = AssistantText [97, 0xD83D, 98] (Some 3) (nowIso e)\<rparr>] \<and>
   cmContent (mergeWorkbenchChunkContent (chunk_at demo_text 0 2) (Some 2) None (chunk_at demo_text 2 1) (Some 2))
    = concat demo_text"
proof -
  have "chunk_at demo_text 0 2 = [97, 0xD83D, 0xDE00]" "chunk_at demo_text 2 1 = [98]"
    by (simp_all add: chunk_at_def demo_text_def)
  then show ?thesis
    by (simp add: upsertAssistantText_def current_text_def splice_text_def slice_to_def slice_from_def slice_bound_def
        text_units_end_def mergeWorkbenchChunkContent_def Let_def demo_text_def)
qed

text \<open>Merging two versions of an item returns unless both are subagents.\<close>

theorem only_subagents_raise:
  assumes "mergeRuntimeConversationItem (Some local) snapshot p = None"
  shows "\<exists>b c. itBody local = BlockItem b \<and> itBody snapshot = BlockItem c \<and> pb_type b = KSubagent \<and> pb_type c = KSubagent"
  using assms merge_block_raises
  by (auto simp: mergeRuntimeConversationItem_def Let_def split: conversation_item.splits)

text \<open>A subagent that is nested in its own descendant has no place in the tree.\<close>

definition demo_agent :: "string \<Rightarrow> string property \<Rightarrow> ProcessingBlock list property \<Rightarrow> ProcessingBlock" where
  "demo_agent i parent children =
     PBlock ((new_fields i ''s'' KSubagent TbStreaming 0)\<lparr>wbParentToolUseId := parent\<rparr>) children"

theorem only_subagents_raise_witness:
  "\<exists>b c. itBody (block_item ''a'' None (demo_agent ''a'' (val ''b'') absent)) = BlockItem b \<and>
     itBody (block_item ''a'' None (demo_agent ''a'' absent (val [demo_agent ''b'' absent absent]))) = BlockItem c \<and>
     pb_type b = KSubagent \<and> pb_type c = KSubagent"
proof (rule only_subagents_raise)
  show "mergeRuntimeConversationItem (Some (block_item ''a'' None (demo_agent ''a'' (val ''b'') absent)))
      (block_item ''a'' None (demo_agent ''a'' absent (val [demo_agent ''b'' absent absent]))) False = None"
    by code_simp
qed













end
