(* ===== verification/TranscriptBlocks.thy ===== *)
theory TranscriptBlocks
  imports UserInput "HOL-Library.Monad_Syntax"
begin

text \<open>
  Reading processing blocks out of values that were parsed from JSON, from
  \<open>packages/chat-core/src/runtime-transcript-blocks.ts\<close>: each property under its camel-case or its snake-case name,
  times in seconds, milliseconds or as a date, and the children of subagents in the same way. A block without an id
  or of an unknown type is dropped, which is \<open>None\<close>.
\<close>

subsection \<open>Properties\<close>

definition isRecord :: "json option \<Rightarrow> bool" where
  "isRecord v \<longleftrightarrow> (case v of Some (JObj _) \<Rightarrow> True | Some (JArr _) \<Rightarrow> True | _ \<Rightarrow> False)"

definition number_value :: "json option \<Rightarrow> int option" where
  "number_value v = (case v of Some (JNum n) \<Rightarrow> Some n | _ \<Rightarrow> None)"

definition record_value :: "json option \<Rightarrow> json option" where
  "record_value v = (if isRecord v then v else None)"

text \<open>The first of two properties that has a value of the type that is read.\<close>

definition either_field :: "(json option \<Rightarrow> 'a option) \<Rightarrow> string \<Rightarrow> string \<Rightarrow> json \<Rightarrow> 'a option" where
  "either_field read a b block = coalesce (read (json_field a block)) (read (json_field b block))"

text \<open>\<open>a ?? b\<close> of two properties.\<close>

definition either_value :: "string \<Rightarrow> string \<Rightarrow> json \<Rightarrow> json option" where
  "either_value a b block = json_or (json_field a block) (json_field b block)"

definition name_value :: "json option \<Rightarrow> string option" where
  "name_value v = map_option text_of (text_value v)"

definition agent_status_value :: "json option \<Rightarrow> agent_status option" where
  "agent_status_value v = named_value [(''running'', AgRunning), (''done'', AgDone), (''interrupted'', AgInterrupted)] v"

subsection \<open>Times\<close>

definition decimal_digit :: "16 word \<Rightarrow> bool" where
  "decimal_digit u \<longleftrightarrow> 48 \<le> unat u \<and> unat u \<le> 57"

definition digits_number :: "ustring \<Rightarrow> int option" where
  "digits_number s = (if s \<noteq> [] \<and> list_all decimal_digit s
     then Some (foldl (\<lambda>n u. 10 * n + (int (unat u) - 48)) 0 s) else None)"

text \<open>\<open>Number\<close> of a text that is a decimal integer; the white space around it does not count.\<close>

definition text_number :: "ustring \<Rightarrow> int option" where
  "text_number s = (case unit_trim s of
       [] \<Rightarrow> Some 0
     | u # ds \<Rightarrow> if u = 45 then map_option uminus (digits_number ds)
         else if u = 43 then digits_number ds else digits_number (u # ds))"

definition scaled_timestamp :: "int \<Rightarrow> int \<Rightarrow> int" where
  "scaled_timestamp fallbackTimestamp n =
     (if n > 1000000000000 then n else if n > 1000000000 then n * 1000 else fallbackTimestamp)"

definition getBlockTimestamp :: "env \<Rightarrow> json option \<Rightarrow> int option \<Rightarrow> int" where
  "getBlockTimestamp e value fallbackTimestamp =
     (let fallback = the_or (now e) fallbackTimestamp
      in case value of
           Some (JStr s) \<Rightarrow> if unit_trim s = [] then fallback
             else (case text_number s of
                 Some n \<Rightarrow> scaled_timestamp fallback n
               | None \<Rightarrow> the_or fallback (parseDate e (text_of s)))
         | Some (JNum n) \<Rightarrow> scaled_timestamp fallback n
         | _ \<Rightarrow> fallback)"

record block_timing =
  btStatus :: WorkbenchToolBlockStatus
  btCreatedAt :: int
  btCompletedAt :: "int option"
  btDurationMs :: "int option"

definition block_timing_of :: "env \<Rightarrow> int option \<Rightarrow> json \<Rightarrow> block_timing" where
  "block_timing_of e fallbackTimestamp block =
     (let timestamp = getBlockTimestamp e (json_or (json_field ''timestamp'' block) (either_value ''created_at'' ''createdAt'' block))
            fallbackTimestamp;
          explicitCompletedAt = either_value ''completedAt'' ''completed_at'' block;
          durationMs = map_option (max 0) (either_field number_value ''durationMs'' ''duration_ms'' block)
      in \<lparr>btStatus = normalizeWorkbenchBlockStatus (name_value (json_field ''status'' block)),
          btCreatedAt = timestamp,
          btCompletedAt = (case durationMs of
              Some d \<Rightarrow> Some (timestamp + d)
            | None \<Rightarrow> if explicitCompletedAt = None then None
                else Some (getBlockTimestamp e explicitCompletedAt (Some timestamp))),
          btDurationMs = durationMs\<rparr>)"

subsection \<open>Blocks\<close>

definition normalizeToolRenderPayload :: "json \<Rightarrow> json option" where
  "normalizeToolRenderPayload block =
     (let payload = either_value ''renderPayload'' ''render_payload'' block;
          response = either_value ''requestUserInputResponse'' ''request_user_input_response'' block
      in case response of
           None \<Rightarrow> payload
         | Some r \<Rightarrow> if is_object_of_kind ''request_user_input'' payload
             then Some (spread_json payload (Some (JObj [(''response'', r)]))) else payload)"

text \<open>What all blocks share: an absent parent is no property, and \<open>completedAt\<close> is one even when it is \<open>undefined\<close>.\<close>

definition read_fields :: "env \<Rightarrow> string \<Rightarrow> int option \<Rightarrow> json \<Rightarrow> string \<Rightarrow> block_kind \<Rightarrow> block_fields" where
  "read_fields e subtaskId fallbackTimestamp block i kind =
     (let timing = block_timing_of e fallbackTimestamp block;
          parentToolUseId = either_field name_value ''parentToolUseId'' ''parent_tool_use_id'' block
      in (new_fields i subtaskId kind (btStatus timing) (btCreatedAt timing))
           \<lparr>wbCompletedAt := Some (btCompletedAt timing),
            wbDurationMs := map_option Some (btDurationMs timing),
            wbParentToolUseId := (if opt_truthy truthy_text parentToolUseId then Some parentToolUseId else absent)\<rparr>)"

definition read_tool :: "json \<Rightarrow> block_fields \<Rightarrow> block_fields" where
  "read_tool block b = b\<lparr>
     wbMcpServer := Some (either_field name_value ''mcp_server'' ''mcpServer'' block),
     wbToolName := val (the_or ''unknown'' (either_field name_value ''toolName'' ''tool_name'' block)),
     wbToolInput := Some (either_field record_value ''toolInput'' ''tool_input'' block),
     wbToolOutput := Some (either_value ''toolOutput'' ''tool_output'' block),
     wbToolOutputTruncated := Some (either_field bool_value ''toolOutputTruncated'' ''tool_output_truncated'' block),
     wbToolOutputOriginalBytes :=
       Some (either_field number_value ''toolOutputOriginalBytes'' ''tool_output_original_bytes'' block),
     wbRenderPayload := Some (normalizeToolRenderPayload block)\<rparr>"

definition image_property :: "string \<Rightarrow> json option \<Rightarrow> (string \<times> json) list" where
  "image_property key v = (case v of Some (JStr s) \<Rightarrow> [(key, JStr s)] | _ \<Rightarrow> [])"

definition read_image :: "json \<Rightarrow> block_fields \<Rightarrow> block_fields" where
  "read_image block b = b\<lparr>
     wbToolName := val ''image_generation'',
     wbRenderPayload := val (JObj ([(''kind'', JStr (units ''image_generation''))]
       @ image_property ''imageBase64'' (json_field ''result'' block)
       @ image_property ''revisedPrompt'' (json_field ''revised_prompt'' block)
       @ image_property ''savedPath'' (json_field ''saved_path'' block)))\<rparr>"

definition read_text :: "ustring \<Rightarrow> json \<Rightarrow> block_fields \<Rightarrow> block_fields" where
  "read_text content block b = b\<lparr>
     wbContent := val content,
     wbContentTruncated := Some (either_field bool_value ''contentTruncated'' ''content_truncated'' block),
     wbContentOriginalChars := Some (either_field number_value ''contentOriginalChars'' ''content_original_chars'' block)\<rparr>"

definition read_subagent :: "json \<Rightarrow> block_fields \<Rightarrow> block_fields" where
  "read_subagent block b = b\<lparr>
     wbToolName := Some (either_field name_value ''toolName'' ''tool_name'' block),
     wbAgentType := Some (either_field name_value ''agentType'' ''agent_type'' block),
     wbAgentId := Some (either_field name_value ''agentId'' ''agent_id'' block),
     wbAgentThreadId := Some (either_field name_value ''agentThreadId'' ''agent_thread_id'' block),
     wbAgentPath := Some (either_field name_value ''agentPath'' ''agent_path'' block),
     wbAgentStatus := Some (either_field agent_status_value ''agentStatus'' ''agent_status'' block),
     wbTitle := Some (text_value (json_field ''title'' block)),
     wbDescription := Some (text_value (json_field ''description'' block)),
     wbOutput := Some (text_value (json_field ''output'' block)),
     wbSummary := Some (text_value (json_field ''summary'' block))\<rparr>"

text \<open>The id is the first of the properties that is a text; when that is empty there is none.\<close>

definition block_identity :: "string list \<Rightarrow> json \<Rightarrow> string option" where
  "block_identity keys block = (case List.map_filter (\<lambda>key. name_value (json_field key block)) keys of
       i # _ \<Rightarrow> if i = [] then None else Some i | [] \<Rightarrow> None)"

definition is_type :: "string \<Rightarrow> json \<Rightarrow> bool" where
  "is_type type block \<longleftrightarrow> json_field ''type'' block = Some (JStr (units type))"

text \<open>All types but subagents.\<close>

definition normalize_plain :: "env \<Rightarrow> string \<Rightarrow> int option \<Rightarrow> json \<Rightarrow> block_fields option" where
  "normalize_plain e subtaskId fallbackTimestamp block =
     (let fields = read_fields e subtaskId fallbackTimestamp block;
          content = text_value (json_field ''content'' block); i = block_identity [''id''] block
      in if is_type ''tool'' block
         then map_option (\<lambda>i. read_tool block (fields i KTool)) (block_identity [''id'', ''tool_use_id'', ''toolUseId''] block)
         else if is_type ''image_generation_call'' block then map_option (\<lambda>i. read_image block (fields i KTool)) i
         else if is_type ''thinking'' block then map_option (\<lambda>i. read_text (the_or [] content) block (fields i KThinking)) i
         else if is_type ''text'' block \<or> is_type ''plan'' block
         then map_option (\<lambda>i. read_text (the_or [] (coalesce content (text_value (json_field ''text'' block)))) block
             (fields i (if is_type ''plan'' block then KPlan else KText))) i
         else if is_type ''file_changes'' block
         then Option.bind (normalizeTurnFileChanges (either_value ''fileChanges'' ''file_changes'' block))
             (\<lambda>changes. map_option (\<lambda>i. (fields i KFileChanges)\<lparr>wbFileChanges := val changes\<rparr>) i)
         else None)"

lemma json_field_size: "json_field k v = Some w \<Longrightarrow> size w < size v"
proof (cases v)
  case (JObj fs)
  assume "json_field k v = Some w"
  then have "(k, w) \<in> set fs" using JObj by (simp add: map_of_SomeD)
  then show ?thesis by (auto simp: JObj dest!: size_list_estimation' [where f = "size_prod (\<lambda>_. 0) size", OF _ order_refl])
qed auto

function normalizeProcessingBlock :: "env \<Rightarrow> string \<Rightarrow> int option \<Rightarrow> json \<Rightarrow> ProcessingBlock option" where
  "normalizeProcessingBlock e subtaskId fallbackTimestamp block =
     (if \<not> isRecord (Some block) then None
      else if is_type ''subagent'' block
      then (let fields = read_fields e subtaskId fallbackTimestamp block;
                children = (case json_field ''children'' block of
                    Some (JArr xs) \<Rightarrow> concat (map (\<lambda>x. case normalizeProcessingBlock e subtaskId
                        (Some (btCreatedAt (block_timing_of e fallbackTimestamp block))) x of
                      Some b \<Rightarrow> [b] | None \<Rightarrow> []) xs)
                  | _ \<Rightarrow> [])
            in map_option (\<lambda>i. PBlock (read_subagent block (fields i KSubagent))
                 (if children = [] then absent else val children)) (block_identity [''id'', ''tool_use_id''] block))
      else map_option (\<lambda>b. PBlock b absent) (normalize_plain e subtaskId fallbackTimestamp block))"
  by pat_completeness auto
termination
  by (relation "measure (\<lambda>(_, _, _, block). size block)")
    (auto dest!: json_field_size size_list_estimation' [where f = size, OF _ order_refl])

declare normalizeProcessingBlock.simps [simp del]

definition normalizeProcessingBlocks :: "env \<Rightarrow> string \<Rightarrow> int option \<Rightarrow> json list \<Rightarrow> ProcessingBlock list" where
  "normalizeProcessingBlocks e subtaskId fallbackTimestamp blocks =
     List.map_filter (normalizeProcessingBlock e subtaskId fallbackTimestamp) blocks"


subsection \<open>What is read is well formed\<close>

text \<open>A block of a turn at every depth: it has an id and belongs to the turn, a block that lasted \<open>d\<close> milliseconds ends
  \<open>d\<close> after it began, only a subagent has children, and each type has the properties its component reads.\<close>

definition fields_ok :: "string \<Rightarrow> block_fields \<Rightarrow> bool" where
  "fields_ok subtaskId b \<longleftrightarrow> wbId b \<noteq> [] \<and> wbSubtaskId b = subtaskId \<and>
     (case got (wbDurationMs b) of None \<Rightarrow> True | Some d \<Rightarrow> 0 \<le> d \<and> got (wbCompletedAt b) = Some (wbCreatedAt b + d)) \<and>
     got (wbParentToolUseId b) \<noteq> Some [] \<and>
     (wbType b = KTool \<longrightarrow> got (wbToolName b) \<noteq> None) \<and>
     (wbType b \<in> {KThinking, KText, KPlan} \<longrightarrow> got (wbContent b) \<noteq> None) \<and>
     (wbType b = KFileChanges \<longrightarrow> got (wbFileChanges b) \<noteq> None)"

fun block_ok :: "string \<Rightarrow> ProcessingBlock \<Rightarrow> bool" where
  "block_ok subtaskId (PBlock b (Some (Some children))) \<longleftrightarrow>
     fields_ok subtaskId b \<and> wbType b = KSubagent \<and> children \<noteq> [] \<and> list_all (block_ok subtaskId) children"
| "block_ok subtaskId (PBlock b None) \<longleftrightarrow> fields_ok subtaskId b"
| "block_ok subtaskId (PBlock b (Some None)) \<longleftrightarrow> False"

lemma timing_ok: "btDurationMs t = Some d \<Longrightarrow> t = block_timing_of e f block \<Longrightarrow> 0 \<le> d \<and> btCompletedAt t = Some (btCreatedAt t + d)"
  by (auto simp: block_timing_of_def Let_def)

lemma block_identity_filled: "block_identity keys block = Some i \<Longrightarrow> i \<noteq> []"
  by (auto simp: block_identity_def split: list.splits if_splits)

lemma read_fields_simps [simp]:
  "wbId (read_fields e s f block i k) = i" "wbSubtaskId (read_fields e s f block i k) = s"
  "wbType (read_fields e s f block i k) = k"
  by (simp_all add: read_fields_def Let_def new_fields_def)

lemma got_given [simp]: "got (map_option Some x) = x"
  by (cases x) (simp_all add: got_def)

lemma read_fields_timing:
  "got (wbDurationMs (read_fields e s f block i k)) = btDurationMs (block_timing_of e f block)"
  "got (wbCompletedAt (read_fields e s f block i k)) = btCompletedAt (block_timing_of e f block)"
  "wbCreatedAt (read_fields e s f block i k) = btCreatedAt (block_timing_of e f block)"
  by (simp_all add: read_fields_def Let_def new_fields_def)

lemma read_fields_parent: "got (wbParentToolUseId (read_fields e s f block i k)) \<noteq> Some []"
  by (auto simp: read_fields_def Let_def new_fields_def opt_truthy_def got_def split: option.splits)

lemma read_kinds_ok:
  assumes "i \<noteq> []"
  shows "fields_ok s (read_tool block (read_fields e s f block i KTool))"
    and "fields_ok s (read_image block (read_fields e s f block i KTool))"
    and "k = KThinking \<or> k = KText \<or> k = KPlan \<Longrightarrow> fields_ok s (read_text content block (read_fields e s f block i k))"
    and "fields_ok s ((read_fields e s f block i KFileChanges)\<lparr>wbFileChanges := val changes\<rparr>)"
    and "fields_ok s (read_subagent block (read_fields e s f block i KSubagent))"
  using assms timing_ok [OF _ refl, of e f block]
  by (auto simp: fields_ok_def read_tool_def read_image_def read_text_def read_subagent_def read_fields_timing
      read_fields_parent split: option.split)

lemma normalize_plain_ok: "normalize_plain e s f block = Some b \<Longrightarrow> fields_ok s b"
  unfolding normalize_plain_def Let_def
  by (auto split: if_splits simp: Option.bind_eq_Some_conv intro: read_kinds_ok dest!: block_identity_filled)

lemma normalize_ok: "normalizeProcessingBlock e s f block = Some b \<Longrightarrow> block_ok s b"
proof (induction e s f block arbitrary: b rule: normalizeProcessingBlock.induct)
  case (1 e s f block)
  show ?case
  proof (cases "is_type ''subagent'' block")
    case False
    then show ?thesis
      using 1(2) normalize_plain_ok by (subst (asm) normalizeProcessingBlock.simps) (auto split: if_splits)
  next
    case True
    let ?f = "Some (btCreatedAt (block_timing_of e f block))"
    let ?children = "case json_field ''children'' block of
        Some (JArr xs) \<Rightarrow> concat (map (\<lambda>x. case normalizeProcessingBlock e s ?f x of Some b \<Rightarrow> [b] | None \<Rightarrow> []) xs) | _ \<Rightarrow> []"
    have rec: "isRecord (Some block)" using 1(2) by (subst (asm) normalizeProcessingBlock.simps) (auto split: if_splits)
    obtain i where i: "block_identity [''id'', ''tool_use_id''] block = Some i"
      and b: "b = PBlock (read_subagent block (read_fields e s f block i KSubagent)) (if ?children = [] then absent else val ?children)"
      using 1(2) True rec by (subst (asm) normalizeProcessingBlock.simps) (auto simp: Let_def)
    have "list_all (block_ok s) ?children"
    proof (cases "json_field ''children'' block")
      case (Some x)
      then show ?thesis
        using 1(1) [OF _ True refl] rec by (cases x) (force simp: list_all_iff split: option.splits)+
    qed simp
    moreover have "fields_ok s (read_subagent block (read_fields e s f block i KSubagent))"
      using read_kinds_ok(5) block_identity_filled [OF i] by blast
    ultimately show ?thesis unfolding b by (simp add: read_subagent_def)
  qed
qed

text \<open>C24: Whatever value is parsed out of a stream or a transcript, every block read from it is well formed, down to the
  last child of the last subagent.\<close>

theorem blocks_read_are_well_formed:
  "list_all (block_ok subtaskId) (normalizeProcessingBlocks e subtaskId fallbackTimestamp blocks)"
  unfolding normalizeProcessingBlocks_def list_all_iff by (auto simp: map_filter_def intro: normalize_ok)

end
