(* ===== verification/StreamHandlers.thy ===== *)
theory StreamHandlers
  imports RuntimeTurns TranscriptBlocks
begin

text \<open>
  From the events of a running executor to the actions on a conversation:
  \<open>packages/chat-core/src/runtime-stream-handlers.ts\<close>, \<open>runtime-stream-helpers.ts\<close> and the payloads of
  \<open>runtime-stream-types.ts\<close>. The state of \<open>createRuntimeTaskStreamHandlers\<close> is what its closures share, and what it
  calls on its owner is returned in order; console output is left out.
\<close>

subsection \<open>Events\<close>

record stream_payload =
  plTaskId :: "string option"
  plSubtaskId :: "string option"
  plDeviceId :: "string option"

record generated_message =
  gmId :: string
  gmMessage :: ustring
  gmCreatedAt :: int
  gmSource :: json

record ChatStartPayload = stream_payload +
  stExecutionState :: "RuntimeExecutionState option"
  stClientUserMessageId :: "string option"
  stGenerated :: "generated_message option"
  stShellType :: "string option"

record ChatChunkPayload = stream_payload +
  ccItemId :: "string option"
  ccContent :: ustring
  ccContentMode :: "content_mode option"
  ccOffset :: "int option"
  ccResult :: "json option"

record ChatDonePayload = stream_payload +
  sdExecutionState :: "RuntimeExecutionState option"
  sdResult :: json

record ChatErrorPayload = stream_payload +
  seExecutionState :: "RuntimeExecutionState option"
  seError :: ustring
  seType :: "string option"
  seStartedAt :: "int option"
  seDurationMs :: "int option"

record ChatBlockCreatedPayload = stream_payload +
  scBlock :: json
  scReplacesItemId :: "string option"

record ChatBlockUpdatedPayload = stream_payload +
  suBlockId :: string
  suContent :: "ustring option"
  suContentDelta :: "ustring option"
  suToolInput :: "json option"
  suToolOutput :: "json option"
  suToolOutputDelta :: "ustring option"
  suToolOutputTruncated :: "bool option"
  suToolOutputOriginalBytes :: "int option"
  suRenderPayload :: "json option"
  suFileChanges :: "json option"
  suOutput :: "ustring option"
  suSummary :: "ustring option"
  suParentToolUseId :: "string option"
  suAgentStatus :: "agent_status option"
  suStatus :: "string option"
  suCompletedAt :: "int option"
  suDurationMs :: "int option"

datatype turn_update_status = TurnUpdateStarted | TurnUpdateSettled

record RuntimeTurnUpdatedPayload = stream_payload +
  tuExecutionState :: "RuntimeExecutionState option"
  tuTurnId :: "string option"
  tuStatus :: turn_update_status

text \<open>Events that are only passed on, with the rest of their payload.\<close>

datatype passed_event = SubagentActivity | TaskTitleUpdated | GoalUpdated | GoalCleared | SupervisorUpdated
  | PlanUpdated | GuidanceApplied

datatype stream_event =
    ChatStarted ChatStartPayload
  | ChatChunkReceived ChatChunkPayload
  | ChatCompleted ChatDonePayload
  | ChatFailed ChatErrorPayload
  | ChatRecovered stream_payload
  | ChatBlockCreated ChatBlockCreatedPayload
  | ChatBlockUpdated ChatBlockUpdatedPayload
  | TurnUpdated RuntimeTurnUpdatedPayload
  | Passed passed_event stream_payload json
  | TransportReplaced json

datatype stream_call =
    OnMessageAction WorkbenchMessageAction
  | OnAssistantStart string
  | OnAssistantFirstToken string
  | OnAssistantResponseSize string int
  | OnAssistantSettled string TurnOutcome
  | OnAssistantRecovered string
  | OnContextUsageUpdated json
  | OnTurnUpdated RuntimeTurnUpdatedPayload
  | OnPassed passed_event stream_payload json
  | OnTransportReplaced json

subsection \<open>Helpers\<close>

definition isRuntimeTaskStreamPayload :: "RuntimeTaskAddress \<Rightarrow> 'a stream_payload_scheme \<Rightarrow> bool" where
  "isRuntimeTaskStreamPayload address p = (case plTaskId p of
       None \<Rightarrow> False
     | Some taskId \<Rightarrow> js_trim taskId \<noteq> [] \<and> taskId = adTaskId address \<and>
         (\<not> opt_truthy truthy_text (plDeviceId p) \<or> plDeviceId p = Some (adDeviceId address)))"

definition runtimeStreamTaskSubtaskIdentity :: "'a stream_payload_scheme \<Rightarrow> (string \<times> string) option" where
  "runtimeStreamTaskSubtaskIdentity p = (case (plTaskId p, plSubtaskId p) of
       (Some taskId, Some subtaskId) \<Rightarrow> if js_trim taskId \<noteq> [] \<and> js_trim subtaskId \<noteq> [] then Some (taskId, subtaskId) else None
     | _ \<Rightarrow> None)"

definition isCancelledRuntimeError :: "ChatErrorPayload \<Rightarrow> bool" where
  "isCancelledRuntimeError p =
     (let error = map unit_lower (unit_trim (seError p));
          type = map_option (\<lambda>t. map lower_char (js_trim t)) (seType p)
      in error \<in> set (map units [''interrupted'', ''cancelled'', ''canceled'', ''aborted''])
         \<or> type \<in> set (map Some [''interrupted'', ''cancelled'', ''canceled'', ''aborted'']))"

definition getResultBlocks :: "env \<Rightarrow> string \<Rightarrow> json option \<Rightarrow> ProcessingBlock list option" where
  "getResultBlocks e subtaskId result = (case Option.bind result (json_field ''blocks'') of
       Some (JArr xs) \<Rightarrow> let blocks = normalizeProcessingBlocks e subtaskId None xs
         in if blocks = [] then None else Some blocks
     | _ \<Rightarrow> None)"

definition fileChangesFromBlocks :: "ProcessingBlock list option \<Rightarrow> TurnFileChangesSummary option" where
  "fileChangesFromBlocks blocks = mergeTurnFileChanges (List.map_filter
     (\<lambda>b. if pb_type b = KFileChanges then got (wbFileChanges (pbFields b)) else None) (the_or [] blocks))"

definition getReasoningChunk :: "json option \<Rightarrow> ustring option" where
  "getReasoningChunk result = text_value (Option.bind result (json_field ''reasoningChunk''))"

definition normalizeToolName :: "string \<Rightarrow> string" where
  "normalizeToolName toolName = map lower_char (filter (\<lambda>c. \<not> js_space c \<and> c \<noteq> CHR ''_'' \<and> c \<noteq> CHR ''-'') toolName)"

definition isCompletedContextCompactionBlock :: "ProcessingBlock \<Rightarrow> bool" where
  "isCompletedContextCompactionBlock block \<longleftrightarrow> pb_type block = KTool \<and> pb_status block = TbDone \<and>
     normalizeToolName (the_or [] (got (wbToolName (pbFields block)))) = ''contextcompaction''"

definition isStandaloneContextCompactionSubtask :: "string \<Rightarrow> bool" where
  "isStandaloneContextCompactionSubtask subtaskId = suffix ''-context-compact'' subtaskId"

definition isStandaloneCompletedContextCompaction :: "string \<Rightarrow> ProcessingBlock \<Rightarrow> bool" where
  "isStandaloneCompletedContextCompaction subtaskId block \<longleftrightarrow>
     isStandaloneContextCompactionSubtask subtaskId \<and> isCompletedContextCompactionBlock block"

text \<open>The number of bytes of a text in UTF-8; a lone surrogate is written as U+FFFD.\<close>

definition utf8_size :: "ustring \<Rightarrow> int" where
  "utf8_size s = sum_list (map (\<lambda>c. case c of
       [u] \<Rightarrow> if unat u < 128 then 1 else if unat u < 2048 then 2 else 3
     | _ \<Rightarrow> 4) (code_points s))"

subsection \<open>The state of a task\<close>

record stream_state =
  shFileChanges :: "(string, (string, TurnFileChangesSummary) jsmap) jsmap"
  shFirstToken :: "string list"
  shUnsettled :: "string list"
  shSettled :: "string list"

definition new_stream :: stream_state where
  "new_stream = \<lparr>shFileChanges = [], shFirstToken = [], shUnsettled = [], shSettled = []\<rparr>"

definition MAX_RUNTIME_SETTLED_ASSISTANT_TURN_IDS :: nat where "MAX_RUNTIME_SETTLED_ASSISTANT_TURN_IDS = 256"

definition rememberStreamedFileChanges ::
    "string \<Rightarrow> string \<Rightarrow> TurnFileChangesSummary \<Rightarrow> stream_state \<Rightarrow> stream_state" where
  "rememberStreamedFileChanges subtaskId blockId changes s =
     s\<lparr>shFileChanges := jm_set subtaskId (jm_set blockId changes (the_or [] (jm_get (shFileChanges s) subtaskId))) (shFileChanges s)\<rparr>"

text \<open>Remembering moves a turn to the end and forgets the oldest ones beyond the limit.\<close>

definition rememberSettledAssistantTurn :: "string \<Rightarrow> string list \<Rightarrow> string list" where
  "rememberSettledAssistantTurn turnId settled =
     (let ids = js_remove turnId settled @ [turnId]
      in drop (length ids - MAX_RUNTIME_SETTLED_ASSISTANT_TURN_IDS) ids)"

definition settleAssistantTurn ::
    "string \<Rightarrow> TurnOutcome \<Rightarrow> bool \<Rightarrow> stream_state \<Rightarrow> stream_state \<times> stream_call list" where
  "settleAssistantTurn terminalTurnId outcome allowProviderAlias s =
     (if terminalTurnId \<in> set (shSettled s) then (s, [])
      else
        let lifecycleTurnId = (if terminalTurnId \<notin> set (shUnsettled s) \<and> allowProviderAlias \<and> shUnsettled s \<noteq> []
              then hd (shUnsettled s) else terminalTurnId)
        in (s\<lparr>shUnsettled := js_remove lifecycleTurnId (shUnsettled s),
              shFirstToken := js_remove lifecycleTurnId (js_remove terminalTurnId (shFirstToken s)),
              shSettled := rememberSettledAssistantTurn lifecycleTurnId
                (rememberSettledAssistantTurn terminalTurnId (shSettled s))\<rparr>,
            [OnAssistantSettled lifecycleTurnId outcome]))"

definition recoverAssistantTurn :: "string \<Rightarrow> stream_state \<Rightarrow> stream_state \<times> stream_call list" where
  "recoverAssistantTurn turnId s =
     (s\<lparr>shUnsettled := js_remove turnId (shUnsettled s), shFirstToken := js_remove turnId (shFirstToken s),
        shSettled := rememberSettledAssistantTurn turnId (shSettled s)\<rparr>, [OnAssistantRecovered turnId])"

subsection \<open>The handlers\<close>

definition generated_call :: "RuntimeTaskAddress \<Rightarrow> generated_message \<Rightarrow> stream_call" where
  "generated_call address m = OnMessageAction (UserAdded
     ((new_message_fields (gmId m) RoleUser (gmMessage m) WmDone (toISOString (gmCreatedAt m)))
        \<lparr>wmTaskId := val (adTaskId address), wmSource := val (gmSource m)\<rparr>))"

definition onChatStart ::
    "env \<Rightarrow> RuntimeTaskAddress \<Rightarrow> ChatStartPayload \<Rightarrow> stream_state \<Rightarrow> stream_state \<times> stream_call list" where
  "onChatStart e address p s =
     (case runtimeStreamTaskSubtaskIdentity p of
        None \<Rightarrow> (s, [])
      | Some (_, subtaskId) \<Rightarrow>
          let generated = (case stGenerated p of None \<Rightarrow> [] | Some m \<Rightarrow> [generated_call address m]);
              bound = \<lparr>acMessageId = None, acSubtaskId = Some subtaskId, acTaskId = plTaskId p,
                acClientUserMessageId = map_option Some (coalesce (stClientUserMessageId p) (map_option gmId (stGenerated p))),
                acShellType = stShellType p, acStartedAt = None\<rparr>
          in if stExecutionState p \<noteq> None then (s, generated @ [OnMessageAction (AssistantBound bound)])
             else if subtaskId \<in> set (shSettled s) then (s, generated)
             else (s\<lparr>shUnsettled := js_add subtaskId (shUnsettled s)\<rparr>,
               generated @ [OnAssistantStart subtaskId,
                 OnMessageAction (AssistantStarted (bound
                   \<lparr>acClientUserMessageId := map_option Some (stClientUserMessageId p),
                    acStartedAt := Some (the_or (now e) (map_option gmCreatedAt (stGenerated p)))\<rparr>))]))"

definition usage_calls :: "json option \<Rightarrow> stream_call list" where
  "usage_calls usage = (case usage of
       Some u \<Rightarrow> if truthy_json u then [OnContextUsageUpdated u] else [] | None \<Rightarrow> [])"

definition onChatChunk ::
    "env \<Rightarrow> RuntimeTaskAddress \<Rightarrow> ChatChunkPayload \<Rightarrow> stream_state \<Rightarrow> stream_state \<times> stream_call list" where
  "onChatChunk e address p s =
     (let usage = Option.bind (ccResult p) (json_field ''contextUsage'');
          reasoningChunk = getReasoningChunk (ccResult p);
          speaks = (ccContent p \<noteq> [] \<or> opt_truthy truthy_text reasoningChunk)
      in case runtimeStreamTaskSubtaskIdentity p of
           None \<Rightarrow> (s, if speaks then [] else usage_calls usage)
         | Some (_, subtaskId) \<Rightarrow>
             if subtaskId \<in> set (shSettled s) then (s, [])
             else
               let blocks = getResultBlocks e subtaskId (ccResult p);
                   starts = (speaks \<and> subtaskId \<notin> set (shFirstToken s))
               in if \<not> speaks \<and> blocks = None then (s, usage_calls usage)
                  else (if starts then s\<lparr>shFirstToken := js_add subtaskId (shFirstToken s)\<rparr> else s,
                    usage_calls usage @ (if starts then [OnAssistantFirstToken subtaskId] else [])
                    @ [OnMessageAction (AssistantChunk \<lparr>acMessageId = None, acSubtaskId = Some subtaskId,
                         acItemId = ccItemId p, acContent = ccContent p, acContentMode = ccContentMode p,
                         acOffset = ccOffset p, acReasoningChunk = reasoningChunk, acBlocks = blocks\<rparr>)]))"

definition done_content :: "json \<Rightarrow> ustring option" where
  "done_content result = (case json_field ''value'' result of
       Some (JStr x) \<Rightarrow> if unit_trim x \<noteq> [] then Some x else None | _ \<Rightarrow> None)"

definition plain_done :: "string \<Rightarrow> done_action" where
  "plain_done subtaskId = \<lparr>acMessageId = None, acSubtaskId = Some subtaskId, dnTurnId = None, dnItemId = None,
     dnContent = None, dnBlocks = None, dnFileChanges = None, dnStartedAt = None, dnDurationMs = None\<rparr>"

definition done_changes ::
    "string \<Rightarrow> json \<Rightarrow> ProcessingBlock list option \<Rightarrow> stream_state \<Rightarrow> TurnFileChangesSummary option" where
  "done_changes subtaskId result blocks s =
     coalesce (normalizeTurnFileChanges (json_field ''fileChanges'' result))
       (coalesce (fileChangesFromBlocks blocks)
         (mergeTurnFileChanges (map snd (the_or [] (jm_get (shFileChanges s) subtaskId)))))"

text \<open>An executor that keeps the state of its turns says itself which turn has succeeded.\<close>

definition not_succeeded :: "RuntimeExecutionState option \<Rightarrow> string \<Rightarrow> bool" where
  "not_succeeded native subtaskId = (case native of
       None \<Rightarrow> False | Some x \<Rightarrow> esLatestTurnId x \<noteq> Some subtaskId \<or> esOutcome x \<noteq> Some Succeeded)"

definition onChatDone ::
    "env \<Rightarrow> RuntimeTaskAddress \<Rightarrow> ChatDonePayload \<Rightarrow> stream_state \<Rightarrow> stream_state \<times> stream_call list" where
  "onChatDone e address p s =
     (case runtimeStreamTaskSubtaskIdentity p of
        None \<Rightarrow> (s, [])
      | Some (_, subtaskId) \<Rightarrow>
          if not_succeeded (sdExecutionState p) subtaskId \<or> subtaskId \<in> set (shSettled s) then (s, [])
          else
            let result = sdResult p;
                blocks = getResultBlocks e subtaskId (Some result);
                content = done_content result;
                (settled, calls) = settleAssistantTurn subtaskId Succeeded (sdExecutionState p = None)
                  (s\<lparr>shFileChanges := jm_delete subtaskId (shFileChanges s)\<rparr>)
            in (settled,
                usage_calls (json_field ''contextUsage'' result)
                @ [OnMessageAction (AssistantDone ((plain_done subtaskId)
                     \<lparr>dnTurnId := either_field name_value ''turnId'' ''turn_id'' result,
                      dnItemId := either_field name_value ''itemId'' ''item_id'' result,
                      dnContent := content, dnBlocks := blocks, dnFileChanges := done_changes subtaskId result blocks s,
                      dnStartedAt := either_field number_value ''startedAt'' ''started_at'' result,
                      dnDurationMs := either_field number_value ''durationMs'' ''duration_ms'' result\<rparr>))]
                @ (case content of None \<Rightarrow> [] | Some x \<Rightarrow> [OnAssistantResponseSize subtaskId (utf8_size x)])
                @ calls))"

definition onChatError ::
    "env \<Rightarrow> RuntimeTaskAddress \<Rightarrow> ChatErrorPayload \<Rightarrow> stream_state \<Rightarrow> stream_state \<times> stream_call list" where
  "onChatError e address p s =
     (case runtimeStreamTaskSubtaskIdentity p of
        None \<Rightarrow> (s, [])
      | Some (_, subtaskId) \<Rightarrow>
          let cancelled = isCancelledRuntimeError p;
              (settled, calls) = settleAssistantTurn subtaskId (if cancelled then Cancelled else Failed)
                (seExecutionState p = None) s
          in (settled\<lparr>shFileChanges := jm_delete subtaskId (shFileChanges settled)\<rparr>,
              [OnMessageAction
                 (if cancelled
                  then AssistantCancelled \<lparr>acMessageId = None, acSubtaskId = Some subtaskId, cnContent = None,
                    cnStartedAt = seStartedAt p, cnDurationMs = seDurationMs p\<rparr>
                  else AssistantError \<lparr>acMessageId = None, acSubtaskId = Some subtaskId, erError = seError p,
                    erErrorType = seType p, erStartedAt = seStartedAt p, erDurationMs = seDurationMs p\<rparr>)]
              @ calls))"

definition onChatRecovered ::
    "stream_payload \<Rightarrow> stream_state \<Rightarrow> stream_state \<times> stream_call list" where
  "onChatRecovered p s =
     (case runtimeStreamTaskSubtaskIdentity p of
        None \<Rightarrow> (s, [])
      | Some (_, subtaskId) \<Rightarrow>
          let (recovered, calls) = recoverAssistantTurn subtaskId s
          in (recovered, calls @ [OnMessageAction (AssistantDone (plain_done subtaskId))]))"

definition note_changes :: "string \<Rightarrow> ProcessingBlock \<Rightarrow> stream_state \<Rightarrow> stream_state" where
  "note_changes subtaskId block s = (case got (wbFileChanges (pbFields block)) of
       Some changes \<Rightarrow> if pb_type block = KFileChanges
         then rememberStreamedFileChanges subtaskId (pb_id block) changes s else s
     | None \<Rightarrow> s)"

definition onBlockCreated ::
    "env \<Rightarrow> ChatBlockCreatedPayload \<Rightarrow> stream_state \<Rightarrow> stream_state \<times> stream_call list" where
  "onBlockCreated e p s =
     (case runtimeStreamTaskSubtaskIdentity p of
        None \<Rightarrow> (s, [])
      | Some (_, subtaskId) \<Rightarrow>
          (case normalizeProcessingBlock e subtaskId None (scBlock p) of
             None \<Rightarrow> (s, [])
           | Some block \<Rightarrow>
               let s1 = note_changes subtaskId block s;
                   created = OnMessageAction (BlockCreated \<lparr>acMessageId = None, acSubtaskId = Some subtaskId,
                     crBlock = block, crReplaceAssistantTextItemId = scReplacesItemId p\<rparr>)
               in if isStandaloneCompletedContextCompaction subtaskId block
                  then (let (s2, calls) = settleAssistantTurn subtaskId Succeeded False s1
                    in (s2, [created, OnMessageAction (AssistantDone (plain_done subtaskId))] @ calls))
                  else (s1, [created])))"

text \<open>The updates of a block: \<open>toolOutputOriginalBytes\<close> is not passed on.\<close>

definition stream_updates :: "ChatBlockUpdatedPayload \<Rightarrow> ProcessingBlockUpdate" where
  "stream_updates p =
     \<lparr>upContent = suContent p, upContentDelta = suContentDelta p, upToolInput = suToolInput p,
      upToolOutput = suToolOutput p, upToolOutputDelta = suToolOutputDelta p,
      upToolOutputTruncated = suToolOutputTruncated p, upToolOutputOriginalBytes = None,
      upRenderPayload = suRenderPayload p,
      upFileChanges = (case suFileChanges p of None \<Rightarrow> absent | Some x \<Rightarrow> Some (normalizeTurnFileChanges (Some x))),
      upOutput = suOutput p, upSummary = suSummary p, upParentToolUseId = suParentToolUseId p,
      upAgentStatus = suAgentStatus p,
      upStatus = (case suStatus p of
          Some x \<Rightarrow> if x \<noteq> [] then Some (normalizeWorkbenchBlockStatus (Some x)) else None | None \<Rightarrow> None),
      upCompletedAt = suCompletedAt p, upDurationMs = suDurationMs p\<rparr>"

definition onBlockUpdated :: "ChatBlockUpdatedPayload \<Rightarrow> stream_state \<Rightarrow> stream_state \<times> stream_call list" where
  "onBlockUpdated p s =
     (case runtimeStreamTaskSubtaskIdentity p of
        None \<Rightarrow> (s, [])
      | Some (_, subtaskId) \<Rightarrow>
          (case normalizeTurnFileChanges (suFileChanges p) of
             None \<Rightarrow> s | Some changes \<Rightarrow> rememberStreamedFileChanges subtaskId (suBlockId p) changes s,
           [OnMessageAction (BlockUpdated \<lparr>acMessageId = None, acSubtaskId = Some subtaskId,
              uaBlockId = suBlockId p, uaUpdates = stream_updates p\<rparr>)]))"

definition onRuntimeTurnUpdated ::
    "RuntimeTurnUpdatedPayload \<Rightarrow> stream_state \<Rightarrow> stream_state \<times> stream_call list" where
  "onRuntimeTurnUpdated p s =
     (case (tuStatus p, tuTurnId p, tuExecutionState p) of
        (TurnUpdateStarted, Some turnId, Some state) \<Rightarrow>
          if turnId \<noteq> [] \<and> esTurnId state = Some turnId \<and> turnId \<notin> set (shSettled s) \<and> turnId \<notin> set (shUnsettled s)
          then (s\<lparr>shUnsettled := js_add turnId (shUnsettled s)\<rparr>,
            [OnTurnUpdated p, OnAssistantStart turnId,
             OnMessageAction (AssistantStarted \<lparr>acMessageId = None, acSubtaskId = Some turnId, acTaskId = plTaskId p,
               acClientUserMessageId = Some None, acShellType = None, acStartedAt = esStartedAt state\<rparr>)])
          else (s, [OnTurnUpdated p])
      | _ \<Rightarrow> (s, [OnTurnUpdated p]))"

fun event_payload :: "stream_event \<Rightarrow> stream_payload option" where
  "event_payload (ChatStarted p) = Some (stream_payload.truncate p)"
| "event_payload (ChatChunkReceived p) = Some (stream_payload.truncate p)"
| "event_payload (ChatCompleted p) = Some (stream_payload.truncate p)"
| "event_payload (ChatFailed p) = Some (stream_payload.truncate p)"
| "event_payload (ChatRecovered p) = Some p"
| "event_payload (ChatBlockCreated p) = Some (stream_payload.truncate p)"
| "event_payload (ChatBlockUpdated p) = Some (stream_payload.truncate p)"
| "event_payload (TurnUpdated p) = Some (stream_payload.truncate p)"
| "event_payload (Passed _ p _) = Some p"
| "event_payload (TransportReplaced _) = None"

text \<open>Every handler but the last begins by dropping what belongs to another task.\<close>

fun accepted_event ::
    "env \<Rightarrow> RuntimeTaskAddress \<Rightarrow> stream_event \<Rightarrow> stream_state \<Rightarrow> stream_state \<times> stream_call list" where
  "accepted_event e address (ChatStarted p) s = onChatStart e address p s"
| "accepted_event e address (ChatChunkReceived p) s = onChatChunk e address p s"
| "accepted_event e address (ChatCompleted p) s = onChatDone e address p s"
| "accepted_event e address (ChatFailed p) s = onChatError e address p s"
| "accepted_event e address (ChatRecovered p) s = onChatRecovered p s"
| "accepted_event e address (ChatBlockCreated p) s = onBlockCreated e p s"
| "accepted_event e address (ChatBlockUpdated p) s = onBlockUpdated p s"
| "accepted_event e address (TurnUpdated p) s = onRuntimeTurnUpdated p s"
| "accepted_event e address (Passed k p x) s = (s, [OnPassed k p x])"
| "accepted_event e address (TransportReplaced x) s = (s, [OnTransportReplaced x])"

definition stream_handle ::
    "env \<Rightarrow> RuntimeTaskAddress \<Rightarrow> stream_state \<Rightarrow> stream_event \<Rightarrow> stream_state \<times> stream_call list" where
  "stream_handle e address s event = (case event_payload event of
       Some p \<Rightarrow> if isRuntimeTaskStreamPayload address p then accepted_event e address event s else (s, [])
     | None \<Rightarrow> accepted_event e address event s)"


subsection \<open>All tasks\<close>

text \<open>\<open>createRuntimeConversationStreamHandlers\<close>: one stream state per task, filed under its address, the least
  recently used first. \<open>teActive\<close> is the set \<open>activeTurnIds\<close>, which the calls of the task's handlers keep.\<close>

record task_entry =
  teAddress :: RuntimeTaskAddress
  teState :: stream_state
  teActive :: "string list"

type_synonym task_handlers = "(string, task_entry) jsmap"

definition MAX_RUNTIME_TASK_STREAM_HANDLERS :: nat where "MAX_RUNTIME_TASK_STREAM_HANDLERS = 50"

fun track_active :: "string list \<Rightarrow> stream_call \<Rightarrow> string list" where
  "track_active active (OnAssistantStart turnId) = js_add turnId active"
| "track_active active (OnAssistantSettled turnId _) = js_remove turnId active"
| "track_active active (OnAssistantRecovered turnId) = js_remove turnId active"
| "track_active active _ = active"

lemma delete_shorter: "(k, v) \<in> set m \<Longrightarrow> length (jm_delete k m) < length m"
  unfolding AList.delete_eq by (rule length_filter_less) auto

function evictSettledTaskHandlers :: "task_handlers \<Rightarrow> task_handlers" where
  "evictSettledTaskHandlers entries =
     (if length entries \<le> MAX_RUNTIME_TASK_STREAM_HANDLERS then entries
      else case List.find (\<lambda>(_, entry). teActive entry = []) entries of
          None \<Rightarrow> entries
        | Some (key, _) \<Rightarrow> evictSettledTaskHandlers (jm_delete key entries))"
  by pat_completeness auto
termination
  by (relation "measure length") (auto simp: find_Some_iff intro!: delete_shorter dest: nth_mem)

declare evictSettledTaskHandlers.simps [simp del]

definition stream_key :: "string \<Rightarrow> string \<Rightarrow> string" where
  "stream_key deviceId taskId = deviceId @ '':'' @ taskId"

definition stream_address :: "string \<Rightarrow> string \<Rightarrow> RuntimeTaskAddress" where
  "stream_address deviceId taskId = \<lparr>adDeviceId = deviceId, adTaskId = taskId, adThreadId = None,
     adWorkspacePath = None, adRuntimeHandle = None, adOthers = []\<rparr>"

definition resolve_entry :: "task_handlers \<Rightarrow> stream_payload \<Rightarrow> (string \<times> task_entry) option" where
  "resolve_entry entries p =
     (let deviceId = the_or [] (plDeviceId p); taskId = the_or [] (plTaskId p); key = stream_key deviceId taskId
      in if deviceId = [] \<or> taskId = [] then None
         else Some (key, the_or \<lparr>teAddress = stream_address deviceId taskId, teState = new_stream, teActive = []\<rparr>
           (jm_get entries key)))"

text \<open>Every handler forwards to the task of its payload; only a replaced transport concerns no task.\<close>

definition conversation_handle ::
    "env \<Rightarrow> task_handlers \<Rightarrow> stream_event \<Rightarrow> task_handlers \<times> (RuntimeTaskAddress option \<times> stream_call) list" where
  "conversation_handle e entries event = (case event_payload event of
       None \<Rightarrow> (entries, map (Pair None) (snd (stream_handle e (stream_address [] []) new_stream event)))
     | Some p \<Rightarrow> (case resolve_entry entries p of
           None \<Rightarrow> (entries, [])
         | Some (key, entry) \<Rightarrow>
             let (state, calls) = stream_handle e (teAddress entry) (teState entry) event;
                 entry1 = entry\<lparr>teState := state, teActive := foldl track_active (teActive entry) calls\<rparr>
             in (evictSettledTaskHandlers (jm_delete key entries @ [(key, entry1)]),
                 map (Pair (Some (teAddress entry))) calls)))"

end
