(* ===== verification/ResponseDecoder.thy ===== *)
theory ResponseDecoder
  imports StreamHandlers
begin

text \<open>
  What the events of the Responses API carry, from \<open>packages/chat-core/src/response-api-decoder.ts\<close>: reading the
  properties of a parsed value, tools with the arguments seen so far, token usage, and the events of blocks they
  stand for. \<open>JSON.parse\<close> is the argument \<open>parse\<close>, \<open>None\<close> where it raises; console output is left out.
\<close>

subsection \<open>Properties of a record\<close>

definition asRecord :: "json option \<Rightarrow> json" where
  "asRecord v = (case v of Some (JObj fs) \<Rightarrow> JObj fs | _ \<Rightarrow> JObj [])"

definition stringField :: "json \<Rightarrow> string \<Rightarrow> ustring option" where
  "stringField r key = text_value (json_field key r)"

definition idField :: "json \<Rightarrow> string \<Rightarrow> ustring option" where
  "idField r key = (case json_field key r of
       Some (JStr s) \<Rightarrow> if unit_trim s \<noteq> [] then Some s else None
     | Some (JNum n) \<Rightarrow> Some (units (show_int n))
     | _ \<Rightarrow> None)"

definition optionalNumberField :: "json \<Rightarrow> string \<Rightarrow> int option" where
  "optionalNumberField r key = number_value (json_field key r)"

fun optionalFiniteNumberField :: "json \<Rightarrow> string list \<Rightarrow> int option" where
  "optionalFiniteNumberField r [] = None"
| "optionalFiniteNumberField r (key # keys) =
     coalesce (number_value (json_field key r)) (optionalFiniteNumberField r keys)"

definition commandExitCode :: "json \<Rightarrow> int option" where
  "commandExitCode r = coalesce (optionalNumberField r ''exit_code'') (optionalNumberField r ''exitCode'')"

definition recordField :: "json \<Rightarrow> string \<Rightarrow> json" where
  "recordField r key = asRecord (json_field key r)"

text \<open>The first of two names that holds a text, a number, an id.\<close>

definition either_text :: "json \<Rightarrow> string \<Rightarrow> string \<Rightarrow> ustring option" where
  "either_text r a b = coalesce (stringField r a) (stringField r b)"

definition either_number :: "json \<Rightarrow> string \<Rightarrow> string \<Rightarrow> int option" where
  "either_number r a b = coalesce (optionalNumberField r a) (optionalNumberField r b)"

definition either_id :: "json \<Rightarrow> string \<Rightarrow> string \<Rightarrow> ustring option" where
  "either_id r a b = coalesce (idField r a) (idField r b)"

text \<open>Setting a property of a record, and the properties that have a value.\<close>

definition set_field :: "string \<Rightarrow> json \<Rightarrow> json \<Rightarrow> json" where
  "set_field key v r = (case r of JObj fs \<Rightarrow> JObj (jm_set key v fs) | _ \<Rightarrow> r)"

definition given_fields :: "(string \<times> json option) list \<Rightarrow> (string \<times> json) list" where
  "given_fields fs = List.map_filter (\<lambda>(k, v). map_option (Pair k) v) fs"

subsection \<open>The address of an event\<close>

record event_base = stream_payload +
  ebClientUserMessageId :: "string option"

definition eventResult :: "json \<Rightarrow> json" where
  "eventResult payload = asRecord (json_field ''data'' payload)"

definition eventBase :: "json \<Rightarrow> event_base" where
  "eventBase payload =
     (let data = eventResult payload
      in \<lparr>plTaskId = map_option text_of (coalesce (idField payload ''taskId'') (idField data ''taskId'')),
          plSubtaskId = map_option text_of (coalesce (idField payload ''subtaskId'') (idField data ''subtaskId'')),
          plDeviceId = map_option text_of (coalesce (stringField payload ''deviceId'') (stringField data ''deviceId'')),
          ebClientUserMessageId = map_option text_of
            (coalesce (either_id payload ''clientUserMessageId'' ''client_user_message_id'')
              (either_id data ''clientUserMessageId'' ''client_user_message_id''))\<rparr>)"

definition parseRecord :: "(ustring \<Rightarrow> json option) \<Rightarrow> json option \<Rightarrow> json option" where
  "parseRecord parse value = (case value of
       Some (JObj fs) \<Rightarrow> Some (JObj fs)
     | Some (JStr s) \<Rightarrow> if unit_trim s = [] then None
         else (case parse s of Some (JObj fs) \<Rightarrow> Some (JObj fs) | _ \<Rightarrow> None)
     | _ \<Rightarrow> None)"

definition eventContent :: "json \<Rightarrow> ustring" where
  "eventContent payload = the_or [] (stringField (eventResult payload) ''delta'')"

definition eventOffset :: "json \<Rightarrow> int option" where
  "eventOffset payload = coalesce (optionalNumberField payload ''offset'') (optionalNumberField (eventResult payload) ''offset'')"

subsection \<open>Token usage\<close>

record RuntimeTokenUsageBreakdown =
  tkTotal :: int
  tkInput :: int
  tkCachedInput :: int
  tkOutput :: int
  tkReasoningOutput :: int

record RuntimeContextUsage =
  cuTotal :: RuntimeTokenUsageBreakdown
  cuLast :: RuntimeTokenUsageBreakdown
  cuModelContextWindow :: int

definition normalizeTokenUsageBreakdown :: "json option \<Rightarrow> RuntimeTokenUsageBreakdown option" where
  "normalizeTokenUsageBreakdown value = map_option (\<lambda>r.
     let inputTokens = the_or 0 (optionalFiniteNumberField r [''inputTokens'', ''input_tokens'']);
         cachedInputTokens = the_or 0 (optionalFiniteNumberField r [''cachedInputTokens'', ''cached_input_tokens'']);
         outputTokens = the_or 0 (optionalFiniteNumberField r [''outputTokens'', ''output_tokens'']);
         reasoningOutputTokens = the_or 0 (optionalFiniteNumberField r [''reasoningOutputTokens'', ''reasoning_output_tokens''])
     in \<lparr>tkTotal = the_or (inputTokens + outputTokens + reasoningOutputTokens)
           (optionalFiniteNumberField r [''totalTokens'', ''total_tokens'']),
         tkInput = inputTokens, tkCachedInput = cachedInputTokens, tkOutput = outputTokens,
         tkReasoningOutput = reasoningOutputTokens\<rparr>) value"

text \<open>\<open>recordField\<close> always gives a record, so the second and the third choice of a total are never taken.\<close>

definition normalizeContextUsage :: "json option \<Rightarrow> RuntimeContextUsage option" where
  "normalizeContextUsage value = Option.bind value (\<lambda>r.
     case optionalFiniteNumberField r [''modelContextWindow'', ''model_context_window'', ''contextWindow'', ''context_window''] of
       None \<Rightarrow> None
     | Some window \<Rightarrow>
         if window \<le> 0 then None
         else
           let total = coalesce (normalizeTokenUsageBreakdown (Some (recordField r ''total'')))
                 (coalesce (normalizeTokenUsageBreakdown (Some (recordField r ''total_token_usage'')))
                   (normalizeTokenUsageBreakdown (Some r)));
               last = coalesce (normalizeTokenUsageBreakdown (Some (recordField r ''last'')))
                 (coalesce (normalizeTokenUsageBreakdown (Some (recordField r ''last_token_usage''))) total)
           in case (total, last) of
                (Some t, Some l) \<Rightarrow> Some \<lparr>cuTotal = t, cuLast = l, cuModelContextWindow = window\<rparr>
              | _ \<Rightarrow> None)"

text \<open>The four names under which a record can hold its usage.\<close>

definition usage_of :: "json \<Rightarrow> RuntimeContextUsage option" where
  "usage_of r = coalesce (normalizeContextUsage (Some (recordField r ''contextUsage'')))
     (coalesce (normalizeContextUsage (Some (recordField r ''context_usage'')))
       (coalesce (normalizeContextUsage (Some (recordField r ''tokenUsage'')))
         (normalizeContextUsage (Some (recordField r ''token_usage'')))))"

definition contextUsageFromResponseData :: "json \<Rightarrow> RuntimeContextUsage option" where
  "contextUsageFromResponseData data = coalesce (usage_of data) (usage_of (recordField data ''response''))"

definition tokens_json :: "RuntimeTokenUsageBreakdown \<Rightarrow> json" where
  "tokens_json t = JObj [(''totalTokens'', JNum (tkTotal t)), (''inputTokens'', JNum (tkInput t)),
     (''cachedInputTokens'', JNum (tkCachedInput t)), (''outputTokens'', JNum (tkOutput t)),
     (''reasoningOutputTokens'', JNum (tkReasoningOutput t))]"

definition usage_json :: "RuntimeContextUsage \<Rightarrow> json" where
  "usage_json u = JObj [(''total'', tokens_json (cuTotal u)), (''last'', tokens_json (cuLast u)),
     (''modelContextWindow'', JNum (cuModelContextWindow u))]"

subsection \<open>The end of a response\<close>

definition output_parts :: "json \<Rightarrow> ustring list" where
  "output_parts item = (case json_field ''content'' (asRecord (Some item)) of
       Some (JArr parts) \<Rightarrow> concat (map (\<lambda>part.
         let r = asRecord (Some part); text1 = the_or [] (stringField r ''text'')
         in if is_type ''output_text'' r \<and> text1 \<noteq> [] then [text1] else []) parts)
     | _ \<Rightarrow> [])"

definition completedContent :: "json \<Rightarrow> ustring option" where
  "completedContent data =
     (let explicit = either_text data ''value'' ''output_text''
      in if opt_truthy truthy_text explicit then explicit
         else case json_field ''output'' (recordField data ''response'') of
             Some (JArr items) \<Rightarrow> Some (concat (concat (map output_parts items)))
           | _ \<Rightarrow> None)"

definition completedResult :: "json \<Rightarrow> json" where
  "completedResult data =
     (let response = recordField data ''response'';
          r1 = (case completedContent data of Some x \<Rightarrow> set_field ''value'' (JStr x) data | None \<Rightarrow> data);
          r2 = (case json_or (json_field ''file_changes'' response)
                  (json_or (json_field ''fileChanges'' response) (json_field ''file_changes'' data)) of
              Some (JObj fs) \<Rightarrow> set_field ''fileChanges'' (JObj fs) r1 | _ \<Rightarrow> r1);
          r3 = (case json_or (json_field ''blocks'' response) (json_field ''blocks'' data) of
              Some (JArr bs) \<Rightarrow> set_field ''blocks'' (JArr bs) r2 | _ \<Rightarrow> r2)
      in case contextUsageFromResponseData data of
           Some u \<Rightarrow> set_field ''contextUsage'' (usage_json u) r3 | None \<Rightarrow> r3)"

subsection \<open>Tools\<close>

definition callIdFromItem :: "json \<Rightarrow> ustring option" where
  "callIdFromItem item = coalesce (either_text item ''call_id'' ''callId'') (stringField item ''id'')"

definition callIdFromData :: "json \<Rightarrow> ustring option" where
  "callIdFromData data = coalesce (either_text data ''call_id'' ''callId'') (stringField data ''item_id'')"

definition normalizeToolName_item :: "json \<Rightarrow> ustring" where
  "normalizeToolName_item item =
     (let rawName = the_or (if is_type ''shell_call'' item then units ''bash''
            else if is_type ''mcp_call'' item then units ''mcp'' else units ''unknown'')
            (either_text item ''name'' ''server_label'')
      in if rawName = units ''exec_command'' \<or> rawName = units ''exec'' then units ''bash'' else rawName)"

definition rename_field :: "string \<Rightarrow> string \<Rightarrow> (string \<times> json) list \<Rightarrow> (string \<times> json) list" where
  "rename_field old new fs = (case jm_get fs old of
       Some v \<Rightarrow> if jm_get fs new = None then jm_delete old (jm_set new v fs) else fs
     | None \<Rightarrow> fs)"

definition normalizeToolInput :: "json option \<Rightarrow> json" where
  "normalizeToolInput input = (case input of
       Some (JObj fs) \<Rightarrow> JObj (rename_field ''workdir'' ''cwd'' (rename_field ''commandLine'' ''command''
         (rename_field ''cmd'' ''command'' fs)))
     | _ \<Rightarrow> JObj [])"

definition toolInputFrom :: "(ustring \<Rightarrow> json option) \<Rightarrow> json \<Rightarrow> json \<Rightarrow> json" where
  "toolInputFrom parse data item =
     (case coalesce (parseRecord parse (json_field ''arguments_summary'' data))
        (coalesce (parseRecord parse (json_field ''input'' item))
          (coalesce (parseRecord parse (json_field ''arguments'' item))
            (parseRecord parse (json_field ''arguments'' data)))) of
        Some r \<Rightarrow> normalizeToolInput (Some r)
      | None \<Rightarrow> (case json_field ''commands'' (recordField item ''action'') of
            Some (JArr commands) \<Rightarrow>
              (let command = join_units [10] (List.map_filter (\<lambda>v. text_value (Some v)) commands)
               in if command \<noteq> [] then JObj [(''command'', JStr command)] else JObj [])
          | _ \<Rightarrow> JObj []))"

definition responseToolItem :: "json \<Rightarrow> json" where
  "responseToolItem data = recordField data ''item''"

definition isToolItem :: "json \<Rightarrow> bool" where
  "isToolItem item \<longleftrightarrow> list_ex (\<lambda>type. is_type type item)
     [''function_call'', ''mcp_call'', ''shell_call'', ''image_generation_call'']"

definition isCommandToolItem :: "json \<Rightarrow> bool" where
  "isCommandToolItem item \<longleftrightarrow> is_type ''shell_call'' item \<or> is_type ''local_shell_call'' item"

definition toolStatusFromItem :: "json \<Rightarrow> string \<Rightarrow> string" where
  "toolStatusFromItem item fallback =
     (if isCommandToolItem item \<and> commandExitCode item \<noteq> None then ''done''
      else if stringField item ''status'' \<in> {Some (units ''error''), Some (units ''failed'')} then ''error''
      else fallback)"

definition imageGenerationRenderPayload :: "json \<Rightarrow> json" where
  "imageGenerationRenderPayload item =
     JObj ((''kind'', JStr (units ''image_generation'')) # given_fields (map (\<lambda>(k, v). (k, map_option JStr (js_or truthy_text v None)))
       [(''imageBase64'', either_text item ''result'' ''partial_image_b64''),
        (''revisedPrompt'', either_text item ''revised_prompt'' ''revisedPrompt''),
        (''savedPath'', either_text item ''saved_path'' ''savedPath'')]))"

subsection \<open>Events of blocks\<close>

record tool_context =
  tcName :: "ustring option"
  tcInput :: "json option"

type_synonym ResponseApiStreamState = "(ustring, tool_context) jsmap"

definition createResponseApiStreamState :: ResponseApiStreamState where
  "createResponseApiStreamState = []"

definition has_fields :: "json \<Rightarrow> bool" where
  "has_fields r \<longleftrightarrow> (case r of JObj fs \<Rightarrow> fs \<noteq> [] | _ \<Rightarrow> False)"

definition block_created_event :: "event_base \<Rightarrow> json \<Rightarrow> string option \<Rightarrow> stream_event" where
  "block_created_event base block replacesItemId = ChatBlockCreated
     \<lparr>plTaskId = plTaskId base, plSubtaskId = plSubtaskId base, plDeviceId = plDeviceId base,
      scBlock = block, scReplacesItemId = replacesItemId\<rparr>"

definition no_updates :: "event_base \<Rightarrow> ustring \<Rightarrow> ChatBlockUpdatedPayload" where
  "no_updates base blockId =
     \<lparr>plTaskId = plTaskId base, plSubtaskId = plSubtaskId base, plDeviceId = plDeviceId base,
      suBlockId = text_of blockId, suContent = None, suContentDelta = None, suToolInput = None, suToolOutput = None,
      suToolOutputDelta = None, suToolOutputTruncated = None, suToolOutputOriginalBytes = None, suRenderPayload = None,
      suFileChanges = None, suOutput = None, suSummary = None, suParentToolUseId = None, suAgentStatus = None,
      suStatus = None, suCompletedAt = None, suDurationMs = None\<rparr>"

definition emitBlockUpdated ::
    "event_base \<Rightarrow> ustring option \<Rightarrow> (ChatBlockUpdatedPayload \<Rightarrow> ChatBlockUpdatedPayload) \<Rightarrow> stream_event list" where
  "emitBlockUpdated base blockId updates = (case blockId of
       Some i \<Rightarrow> if i \<noteq> [] then [ChatBlockUpdated (updates (no_updates base i))] else []
     | None \<Rightarrow> [])"

definition emitBlockCreated ::
    "env \<Rightarrow> (ustring \<Rightarrow> json option) \<Rightarrow> event_base \<Rightarrow> json \<Rightarrow> ResponseApiStreamState \<Rightarrow>
     ResponseApiStreamState \<times> stream_event list" where
  "emitBlockCreated e parse base data state =
     (let item = responseToolItem data; callId = the_or [] (callIdFromItem item)
      in if \<not> isToolItem item \<or> callId = [] then (state, [])
         else
           let toolInput = toolInputFrom parse data item;
               isImageGeneration = is_type ''image_generation_call'' item;
               toolName = (if isImageGeneration then units ''image_generation'' else normalizeToolName_item item);
               status = (if json_field ''argument_status'' data = Some (JStr (units ''streaming''))
                 then units ''generating_arguments'' else units ''pending'')
           in (jm_set callId \<lparr>tcName = Some toolName, tcInput = Some toolInput\<rparr> state,
               [block_created_event base (JObj ([(''id'', JStr callId), (''type'', JStr (units ''tool'')),
                  (''tool_use_id'', JStr callId), (''tool_name'', JStr toolName), (''tool_input'', toolInput)]
                  @ (if isImageGeneration then [(''renderPayload'', imageGenerationRenderPayload item)] else [])
                  @ [(''status'', JStr status), (''timestamp'', JNum (now e))])) None]))"

definition emitToolArgumentsUpdate ::
    "(ustring \<Rightarrow> json option) \<Rightarrow> event_base \<Rightarrow> json \<Rightarrow> ResponseApiStreamState \<Rightarrow> string \<Rightarrow>
     ResponseApiStreamState \<times> stream_event list" where
  "emitToolArgumentsUpdate parse base data state status =
     (let callId = the_or [] (callIdFromData data)
      in if callId = [] then (state, [])
         else
           let toolInput = toolInputFrom parse data (JObj []);
               previous = the_or \<lparr>tcName = None, tcInput = None\<rparr> (jm_get state callId);
               nextInput = (if has_fields toolInput then Some toolInput else tcInput previous)
           in (jm_set callId (previous\<lparr>tcInput := nextInput\<rparr>) state,
               emitBlockUpdated base (Some callId) (\<lambda>p. p\<lparr>suStatus := Some status, suToolInput := nextInput\<rparr>)))"

definition emitToolDone ::
    "(ustring \<Rightarrow> json option) \<Rightarrow> event_base \<Rightarrow> json \<Rightarrow> ResponseApiStreamState \<Rightarrow>
     ResponseApiStreamState \<times> stream_event list" where
  "emitToolDone parse base data state =
     (let item = responseToolItem data; callId = the_or [] (coalesce (callIdFromItem item) (callIdFromData data))
      in if callId = [] then (state, [])
         else
           let toolInput = toolInputFrom parse data item;
               failureReason = json_field ''failure_reason'' data;
               nextInput = (if has_fields toolInput then Some toolInput else Option.bind (jm_get state callId) tcInput);
               toolOutput = json_or (json_field ''output'' item) (json_or (json_field ''output'' data) failureReason);
               status = toolStatusFromItem item (if opt_truthy truthy_json failureReason then ''error'' else ''done'')
           in (jm_delete callId state,
               emitBlockUpdated base (Some callId) (\<lambda>p. p\<lparr>suStatus := Some status, suToolInput := nextInput,
                 suToolOutput := toolOutput,
                 suRenderPayload := (if is_type ''image_generation_call'' item
                   then Some (imageGenerationRenderPayload item) else None)\<rparr>)))"

definition emitImageGenerationPartial :: "event_base \<Rightarrow> json \<Rightarrow> stream_event list" where
  "emitImageGenerationPartial base data =
     (let blockId = coalesce (callIdFromData data) (stringField data ''id'')
      in if \<not> opt_truthy truthy_text blockId \<or> \<not> opt_truthy truthy_text (stringField data ''partial_image_b64'') then []
         else emitBlockUpdated base blockId (\<lambda>p. p\<lparr>suStatus := Some ''streaming'',
           suRenderPayload := Some (imageGenerationRenderPayload data)\<rparr>))"

definition emitResponseBlockCreated :: "event_base \<Rightarrow> json \<Rightarrow> stream_event list" where
  "emitResponseBlockCreated base data = (case json_field ''block'' data of
       Some (JObj fs) \<Rightarrow> [block_created_event base (JObj fs)
         (map_option text_of (js_or truthy_text (stringField data ''replacesItemId'') None))]
     | _ \<Rightarrow> [])"

text \<open>The updates that an event of a block carries.\<close>

definition block_updates ::
    "(ustring \<Rightarrow> json option) \<Rightarrow> json \<Rightarrow> ChatBlockUpdatedPayload \<Rightarrow> ChatBlockUpdatedPayload" where
  "block_updates parse updates p = p\<lparr>
     suContent := stringField updates ''content'',
     suContentDelta := text_value (either_value ''contentDelta'' ''content_delta'' updates),
     suToolOutput := either_value ''toolOutput'' ''tool_output'' updates,
     suToolOutputDelta := text_value (either_value ''toolOutputDelta'' ''tool_output_delta'' updates),
     suToolOutputTruncated := bool_value (either_value ''toolOutputTruncated'' ''tool_output_truncated'' updates),
     suToolOutputOriginalBytes :=
       number_value (either_value ''toolOutputOriginalBytes'' ''tool_output_original_bytes'' updates),
     suToolInput := parseRecord parse (either_value ''toolInput'' ''tool_input'' updates),
     suRenderPayload := either_value ''renderPayload'' ''render_payload'' updates,
     suFileChanges := parseRecord parse (either_value ''fileChanges'' ''file_changes'' updates),
     suOutput := stringField updates ''output'',
     suSummary := stringField updates ''summary'',
     suParentToolUseId := map_option text_of
       (js_or truthy_text (either_text updates ''parentToolUseId'' ''parent_tool_use_id'') None),
     suAgentStatus := either_field agent_status_value ''agentStatus'' ''agent_status'' updates,
     suStatus := map_option text_of (stringField updates ''status''),
     suCompletedAt := either_number updates ''completedAt'' ''completed_at'',
     suDurationMs := either_number updates ''durationMs'' ''duration_ms''\<rparr>"

definition emitResponseBlockUpdated :: "(ustring \<Rightarrow> json option) \<Rightarrow> event_base \<Rightarrow> json \<Rightarrow> stream_event list" where
  "emitResponseBlockUpdated parse base data =
     (case json_field ''block'' data of Some (JObj fs) \<Rightarrow> [block_created_event base (JObj fs) None] | _ \<Rightarrow> [])
     @ emitBlockUpdated base (either_text data ''blockId'' ''block_id'') (block_updates parse (recordField data ''updates''))"

text \<open>What a payload has beyond its address, for the events that are only passed on.\<close>

definition passed :: "passed_event \<Rightarrow> event_base \<Rightarrow> (string \<times> json option) list \<Rightarrow> stream_event" where
  "passed kind base fs = Passed kind (stream_payload.truncate base) (JObj (given_fields fs))"

definition emitSubagentActivity :: "event_base \<Rightarrow> json \<Rightarrow> stream_event list" where
  "emitSubagentActivity base data = (case either_text data ''agent_path'' ''agentPath'' of
       Some agentPath \<Rightarrow> if agentPath = [] then [] else [passed SubagentActivity base
         [(''agentPath'', Some (JStr agentPath)),
          (''agentName'', map_option JStr (either_text data ''agent_name'' ''agentName'')),
          (''agentThreadId'', map_option JStr (either_text data ''agent_thread_id'' ''agentThreadId'')),
          (''kind'', map_option JStr (stringField data ''kind'')),
          (''status'', map_option JStr (stringField data ''status'')),
          (''occurredAtMs'', map_option JNum (either_number data ''occurred_at_ms'' ''occurredAtMs''))]]
     | None \<Rightarrow> [])"

text \<open>\<open>eventContent\<close> is always a text, so the default message is never taken.\<close>

definition errorMessage :: "json \<Rightarrow> json \<Rightarrow> ustring" where
  "errorMessage payload data = (case json_field ''error'' data of
       Some (JStr s) \<Rightarrow> s
     | error \<Rightarrow> the_or (units ''Response stream error'')
         (coalesce (coalesce (stringField payload ''error'')
           (coalesce (stringField data ''message'') (stringField (asRecord error) ''message'')))
           (Some (eventContent payload))))"


end
