(* ===== verification/ResponseStream.thy ===== *)
theory ResponseStream
  imports ResponseDecoder
begin

text \<open>
  From an event of the Responses API, a name and a parsed payload, to what the handlers of a stream get:
  \<open>packages/chat-core/src/response-api-stream.ts\<close>. A summary of a task is read as far as the handlers look at it, its
  execution state.
\<close>

subsection \<open>Calls\<close>

record RuntimeWorkChangedPayload =
  wcTaskId :: string
  wcDeviceId :: "string option"
  wcArchiveCleanup :: "(ustring \<times> ustring list) option"

datatype response_call = StreamEvent stream_event | RuntimeWorkChanged RuntimeWorkChangedPayload

definition execution_phases :: "(string \<times> RuntimeTaskExecutionPhase) list" where
  "execution_phases = [(''unknown'', EpUnknown), (''idle'', EpIdle), (''queued'', EpQueued), (''starting'', EpStarting),
     (''running'', EpRunning), (''continuing'', EpContinuing), (''recovering'', EpRecovering), (''stopping'', EpStopping)]"

definition task_execution_state :: "json option \<Rightarrow> RuntimeExecutionState option" where
  "task_execution_state task = (case json_field ''executionState'' (asRecord task) of
       Some (JObj fs) \<Rightarrow> (let s = JObj fs in Some
         \<lparr>esEpoch = map_option text_of (stringField s ''epoch''),
          esRevision = the_or 0 (optionalNumberField s ''revision''),
          esPhase = the_or EpUnknown (named_value execution_phases (json_field ''phase'' s)),
          esTurnId = map_option text_of (stringField s ''turnId''),
          esLatestTurnId = map_option text_of (stringField s ''latestTurnId''),
          esOutcome = named_value [(''succeeded'', Succeeded), (''failed'', Failed), (''cancelled'', Cancelled)]
            (json_field ''outcome'' s),
          esStartedAt = optionalNumberField s ''startedAt''\<rparr>)
     | _ \<Rightarrow> None)"

subsection \<open>Messages\<close>

definition generated_user_message :: "env \<Rightarrow> json \<Rightarrow> generated_message option" where
  "generated_user_message e payload =
     (let m = asRecord (json_field ''runtimeGeneratedUserMessage'' payload)
      in case (stringField m ''id'', stringField m ''message'') of
           (Some i, Some message) \<Rightarrow> if i = [] \<or> message = [] then None
             else Some \<lparr>gmId = text_of i, gmMessage = message,
               gmCreatedAt = the_or (now e) (optionalNumberField m ''createdAt''),
               gmSource = asRecord (json_field ''source'' m)\<rparr>
         | _ \<Rightarrow> None)"

definition start_events :: "env \<Rightarrow> event_base \<Rightarrow> json \<Rightarrow> json \<Rightarrow> stream_event list" where
  "start_events e base payload data = [ChatStarted
     \<lparr>plTaskId = plTaskId base, plSubtaskId = plSubtaskId base, plDeviceId = plDeviceId base,
      stExecutionState = task_execution_state (json_field ''task'' data),
      stClientUserMessageId = ebClientUserMessageId base,
      stGenerated = generated_user_message e payload,
      stShellType = map_option text_of (stringField payload ''runtime'')\<rparr>]"

definition chunk_events ::
    "event_base \<Rightarrow> ustring option \<Rightarrow> ustring \<Rightarrow> content_mode option \<Rightarrow> int option \<Rightarrow> json \<Rightarrow> stream_event list" where
  "chunk_events base itemId content contentMode offset result = [ChatChunkReceived
     \<lparr>plTaskId = plTaskId base, plSubtaskId = plSubtaskId base, plDeviceId = plDeviceId base,
      ccItemId = map_option text_of itemId, ccContent = content, ccContentMode = contentMode, ccOffset = offset,
      ccResult = Some result\<rparr>]"

definition text_delta_events :: "event_base \<Rightarrow> json \<Rightarrow> json \<Rightarrow> stream_event list" where
  "text_delta_events base payload data =
     (let content = eventContent payload
      in if content = [] then []
         else chunk_events base (either_id data ''itemId'' ''item_id'') content None
           (coalesce (optionalNumberField data ''block_offset'') (eventOffset payload)) data)"

definition text_done_events :: "event_base \<Rightarrow> json \<Rightarrow> stream_event list" where
  "text_done_events base data =
     (let content = the_or [] (coalesce (either_text data ''text'' ''value'') (either_text data ''output_text'' ''refusal''));
          itemId = either_id data ''itemId'' ''item_id''
      in if content = [] \<or> \<not> opt_truthy truthy_text itemId then []
         else chunk_events base itemId content (Some SnapshotContent) None data)"

definition reasoning_delta_events :: "event_base \<Rightarrow> json \<Rightarrow> json \<Rightarrow> stream_event list" where
  "reasoning_delta_events base payload data =
     (let content = the_or [] (stringField data ''delta'')
      in if content = [] then []
         else chunk_events base None [] None (eventOffset payload) (JObj [(''reasoningChunk'', JStr content)]))"

definition usage_events :: "event_base \<Rightarrow> json \<Rightarrow> stream_event list" where
  "usage_events base data =
     (case coalesce (normalizeContextUsage (Some (recordField data ''tokenUsage'')))
        (coalesce (normalizeContextUsage (Some (recordField data ''token_usage''))) (contextUsageFromResponseData data)) of
        Some u \<Rightarrow> chunk_events base None [] None None (JObj [(''contextUsage'', usage_json u)])
      | None \<Rightarrow> [])"

definition done_events :: "event_base \<Rightarrow> json \<Rightarrow> stream_event list" where
  "done_events base data = [ChatCompleted
     \<lparr>plTaskId = plTaskId base, plSubtaskId = plSubtaskId base, plDeviceId = plDeviceId base,
      sdExecutionState = task_execution_state (json_field ''task'' data), sdResult = completedResult data\<rparr>]"

definition recovered_events :: "event_base \<Rightarrow> json \<Rightarrow> stream_event list" where
  "recovered_events base data =
     (case coalesce (map_option text_of (either_text data ''turnId'' ''turn_id'')) (plSubtaskId base) of
        Some turnId \<Rightarrow> if turnId = [] then [] else [ChatRecovered
          \<lparr>plTaskId = plTaskId base, plSubtaskId = Some turnId, plDeviceId = plDeviceId base\<rparr>]
      | None \<Rightarrow> [])"

definition error_events :: "event_base \<Rightarrow> string \<Rightarrow> json \<Rightarrow> json \<Rightarrow> stream_event list" where
  "error_events base eventName payload data = [ChatFailed
     \<lparr>plTaskId = plTaskId base, plSubtaskId = plSubtaskId base, plDeviceId = plDeviceId base,
      seExecutionState = task_execution_state (json_field ''task'' data), seError = errorMessage payload data,
      seType = Some (the_or eventName (map_option text_of (stringField payload ''type''))),
      seStartedAt = either_number data ''startedAt'' ''started_at'',
      seDurationMs = either_number data ''durationMs'' ''duration_ms''\<rparr>]"

subsection \<open>What concerns a task\<close>

definition guidance_events :: "env \<Rightarrow> event_base \<Rightarrow> json \<Rightarrow> stream_event list" where
  "guidance_events e base data = [passed GuidanceApplied base
     [(''guidanceId'', Some (JStr (the_or (units ''guidance'') (either_text data ''guidanceId'' ''guidance_id'')))),
      (''clientGuidanceId'', map_option JStr (either_text data ''clientGuidanceId'' ''client_guidance_id'')),
      (''message'', Some (JStr (the_or [] (stringField data ''message'')))),
      (''appliedAtMs'', Some (JNum (the_or (now e) (either_number data ''appliedAtMs'' ''applied_at_ms''))))]]"

definition title_events :: "event_base \<Rightarrow> json \<Rightarrow> stream_event list" where
  "title_events base data = (case stringField data ''title'' of
       Some title \<Rightarrow> if title = [] then [] else [passed TaskTitleUpdated base [(''title'', Some (JStr title))]]
     | None \<Rightarrow> [])"

definition work_changed_calls :: "event_base \<Rightarrow> json \<Rightarrow> response_call list" where
  "work_changed_calls base data =
     (let taskId = the_or [] (plTaskId base); cleanup = asRecord (json_field ''archiveCleanup'' data)
      in if taskId = [] then []
         else [RuntimeWorkChanged \<lparr>wcTaskId = taskId, wcDeviceId = js_or truthy_text (plDeviceId base) None,
           wcArchiveCleanup = (case (js_or truthy_text (stringField cleanup ''workspacePath'') None, json_field ''errors'' cleanup) of
               (Some path, Some (JArr errors)) \<Rightarrow> Some (path, List.map_filter (\<lambda>v. text_value (Some v)) errors)
             | _ \<Rightarrow> None)\<rparr>])"

definition goal_updated_events :: "event_base \<Rightarrow> json \<Rightarrow> stream_event list" where
  "goal_updated_events base data = [passed GoalUpdated base
     [(''threadId'', map_option JStr (either_text data ''thread_id'' ''threadId'')),
      (''turnId'', map_option JStr (either_text data ''turn_id'' ''turnId'')),
      (''goal'', Some (the_or JNull (json_field ''goal'' data)))]]"

definition goal_cleared_events :: "event_base \<Rightarrow> json \<Rightarrow> stream_event list" where
  "goal_cleared_events base data = [passed GoalCleared base
     [(''threadId'', map_option JStr (either_text data ''thread_id'' ''threadId'')), (''goal'', Some JNull)]]"

definition supervisor_events :: "event_base \<Rightarrow> json \<Rightarrow> stream_event list" where
  "supervisor_events base data = [passed SupervisorUpdated base
     [(''supervisor'', Some (the_or JNull (json_field ''supervisor'' data)))]]"

definition turn_updated_events :: "event_base \<Rightarrow> json \<Rightarrow> stream_event list" where
  "turn_updated_events base data =
     (case named_value [(''started'', TurnUpdateStarted), (''settled'', TurnUpdateSettled)] (json_field ''status'' data) of
        Some status \<Rightarrow> [TurnUpdated
          \<lparr>plTaskId = plTaskId base, plSubtaskId = plSubtaskId base, plDeviceId = plDeviceId base,
           tuExecutionState = task_execution_state (json_field ''task'' data),
           tuTurnId = map_option text_of (either_text data ''turn_id'' ''turnId''), tuStatus = status\<rparr>]
      | None \<Rightarrow> [])"

definition plan_steps :: "json list \<Rightarrow> json list" where
  "plan_steps plan = List.map_filter (\<lambda>item.
     let step = asRecord (Some item); status = stringField step ''status''
     in case stringField step ''step'' of
          Some x \<Rightarrow> if x \<noteq> [] \<and> status \<in> set (map (Some \<circ> units) [''pending'', ''inProgress'', ''completed''])
            then Some (JObj [(''step'', JStr x), (''status'', JStr (the_or [] status))]) else None
        | None \<Rightarrow> None) plan"

definition plan_events :: "event_base \<Rightarrow> json \<Rightarrow> stream_event list" where
  "plan_events base data = (case json_field ''plan'' data of
       Some (JArr plan) \<Rightarrow> [passed PlanUpdated base
         [(''threadId'', map_option JStr (either_text data ''threadId'' ''thread_id'')),
          (''turnId'', map_option JStr (either_text data ''turnId'' ''turn_id'')),
          (''explanation'', map_option JStr (stringField data ''explanation'')),
          (''plan'', Some (JArr (plan_steps plan)))]]
     | _ \<Rightarrow> [])"

subsection \<open>Events\<close>

text \<open>The events that keep no state, by their names.\<close>

definition stateless_events :: "env \<Rightarrow> (ustring \<Rightarrow> json option) \<Rightarrow> event_base \<Rightarrow> string \<Rightarrow> json \<Rightarrow> json \<Rightarrow> stream_event list" where
  "stateless_events e parse base eventName payload data =
     (if eventName \<in> {''response.output_text.delta'', ''response.refusal.delta''} then text_delta_events base payload data
      else if eventName \<in> {''response.output_text.done'', ''response.refusal.done''} then text_done_events base data
      else if eventName = ''response.reasoning_summary_text.delta'' then reasoning_delta_events base payload data
      else if eventName = ''response.block.created'' then emitResponseBlockCreated base data
      else if eventName = ''response.block.updated'' then emitResponseBlockUpdated parse base data
      else if eventName = ''response.subagent.activity'' then emitSubagentActivity base data
      else if eventName = ''response.guidance.applied'' then guidance_events e base data
      else if eventName = ''runtime.task.title.updated'' then title_events base data
      else if eventName = ''runtime.goal.updated'' then goal_updated_events base data
      else if eventName = ''runtime.goal.cleared'' then goal_cleared_events base data
      else if eventName = ''runtime.supervisor.updated'' then supervisor_events base data
      else if eventName = ''runtime.turn.updated'' then turn_updated_events base data
      else if eventName = ''runtime.plan.updated'' then plan_events base data
      else if eventName \<in> {''thread/tokenUsage/updated'', ''thread.tokenUsage.updated''} then usage_events base data
      else if eventName = ''image_generation.partial_image'' then emitImageGenerationPartial base data
      else [])"

definition emitResponseApiEvent ::
    "env \<Rightarrow> (ustring \<Rightarrow> json option) \<Rightarrow> string \<Rightarrow> json \<Rightarrow> ResponseApiStreamState \<Rightarrow>
     ResponseApiStreamState \<times> response_call list" where
  "emitResponseApiEvent e parse eventName rawPayload state =
     (let payload = asRecord (Some rawPayload); base = eventBase payload; data = eventResult payload;
          stream = (\<lambda>(state, events). (state, map StreamEvent events))
      in if eventName = ''response.created'' then stream ([], start_events e base payload data)
         else if eventName = ''response.in_progress'' then stream (state, start_events e base payload data)
         else if eventName = ''runtime.work.changed'' then (state, work_changed_calls base data)
         else if eventName = ''response.output_item.added'' then stream (emitBlockCreated e parse base data state)
         else if eventName \<in> {''response.function_call_arguments.delta'', ''response.mcp_call_arguments.delta''}
         then stream (emitToolArgumentsUpdate parse base data state ''generating_arguments'')
         else if eventName \<in> {''response.function_call_arguments.done'', ''response.mcp_call_arguments.done''}
         then stream (emitToolArgumentsUpdate parse base data state ''pending'')
         else if eventName \<in> {''response.output_item.done'', ''response.mcp_call.completed'', ''response.mcp_call.failed''}
         then stream (emitToolDone parse base data state)
         else if eventName = ''response.completed'' then stream ([], done_events base data)
         else if eventName = ''response.recovered'' then stream ([], recovered_events base data)
         else if eventName \<in> {''response.incomplete'', ''response.failed'', ''error''}
         then stream ([], error_events base eventName payload data)
         else stream (state, stateless_events e parse base eventName payload data))"

end
