(* ===== verification/StreamProps.thy ===== *)
theory StreamProps
  imports StreamHandlers RuntimeTurnProps
begin

text \<open>
  What holds of the handlers of a stream: their state is consistent in every run, what comes late for a settled turn
  is dropped, a turn is reported ended once, the handlers of all tasks stay within their limit without forgetting a
  task that is running, and the text of a stream arrives in the turn it is for.
\<close>

subsection \<open>The state of a task\<close>

definition stream_ok :: "stream_state \<Rightarrow> bool" where
  "stream_ok s \<longleftrightarrow> distinct (shUnsettled s) \<and> distinct (shSettled s) \<and>
     set (shUnsettled s) \<inter> set (shSettled s) = {} \<and> length (shSettled s) \<le> MAX_RUNTIME_SETTLED_ASSISTANT_TURN_IDS"

lemma stream_ok_same:
  "shUnsettled t = shUnsettled s \<Longrightarrow> shSettled t = shSettled s \<Longrightarrow> stream_ok t = stream_ok s"
  by (simp add: stream_ok_def)

lemma distinct_js_remove [simp]: "distinct xs \<Longrightarrow> distinct (js_remove x xs)"
  by (simp add: js_remove_def)

lemma distinct_js_add [simp]: "distinct xs \<Longrightarrow> distinct (js_add x xs)"
  by (simp add: js_add_def)

lemma remember_ok:
  assumes "distinct xs"
  shows "distinct (rememberSettledAssistantTurn t xs)"
    and "set (rememberSettledAssistantTurn t xs) \<subseteq> insert t (set xs)"
    and "length (rememberSettledAssistantTurn t xs) \<le> MAX_RUNTIME_SETTLED_ASSISTANT_TURN_IDS"
    and "t \<in> set (rememberSettledAssistantTurn t xs)"
proof -
  show "distinct (rememberSettledAssistantTurn t xs)"
    using assms by (simp add: rememberSettledAssistantTurn_def Let_def del: drop_append)
  show "set (rememberSettledAssistantTurn t xs) \<subseteq> insert t (set xs)"
    by (auto simp: rememberSettledAssistantTurn_def Let_def dest!: in_set_dropD)
  show "length (rememberSettledAssistantTurn t xs) \<le> MAX_RUNTIME_SETTLED_ASSISTANT_TURN_IDS"
    by (simp add: rememberSettledAssistantTurn_def Let_def)
  show "t \<in> set (rememberSettledAssistantTurn t xs)"
    by (auto simp: rememberSettledAssistantTurn_def Let_def MAX_RUNTIME_SETTLED_ASSISTANT_TURN_IDS_def)
qed



subsection \<open>The lifecycle of turns\<close>

text \<open>What the handlers do to the turns that are running and to those they remember as ended, with the calls that
  report it: a turn starts, ends, possibly under the id it was started with, or is recovered.\<close>

inductive turn_life :: "string list \<times> string list \<Rightarrow> stream_call list \<Rightarrow> string list \<times> string list \<Rightarrow> bool" where
  life_same: "turn_life (u, d) [] (u, d)"
| life_start: "t \<notin> set d \<Longrightarrow> turn_life (u, d) [OnAssistantStart t] (js_add t u, d)"
| life_settle: "t \<notin> set d \<Longrightarrow> l = t \<or> l \<in> set u \<and> t \<notin> set u \<Longrightarrow>
    turn_life (u, d) [OnAssistantSettled l out]
      (js_remove l u, rememberSettledAssistantTurn l (rememberSettledAssistantTurn t d))"
| life_recover: "turn_life (u, d) [OnAssistantRecovered t] (js_remove t u, rememberSettledAssistantTurn t d)"

inductive_cases turn_lifeE: "turn_life x calls y"

fun is_life :: "stream_call \<Rightarrow> bool" where
  "is_life (OnAssistantStart _) = True"
| "is_life (OnAssistantSettled _ _) = True"
| "is_life (OnAssistantRecovered _) = True"
| "is_life _ = False"

definition life :: "stream_state \<Rightarrow> string list \<times> string list" where
  "life s = (shUnsettled s, shSettled s)"

lemma life_updates [simp]:
  "life (s\<lparr>shFileChanges := x\<rparr>) = life s" "life (s\<lparr>shFirstToken := y\<rparr>) = life s"
  "life (rememberStreamedFileChanges t b c s) = life s"
  "life (note_changes t block s) = life s"
  by (simp_all add: life_def rememberStreamedFileChanges_def note_changes_def split: option.split)

lemma settle_life:
  "turn_life (life s) (filter is_life (snd (settleAssistantTurn t out allowed s))) (life (fst (settleAssistantTurn t out allowed s)))"
  by (auto simp: settleAssistantTurn_def life_def Let_def intro!: turn_life.intros)

lemma usage_not_life [simp]: "filter is_life (usage_calls u) = []"
  by (simp add: usage_calls_def split: option.split)

lemma no_life [simp]: "turn_life (life s) [] (life s)"
  by (simp add: life_def life_same)

lemma quiet_life: "filter is_life calls = [] \<Longrightarrow> life s' = life s \<Longrightarrow> turn_life (life s) (filter is_life calls) (life s')"
  by (simp add: life_def life_same)

lemma settled_life:
  assumes "settleAssistantTurn t out allowed s0 = (s1, calls)" and "life s0 = life s" and "life s2 = life s1"
  shows "turn_life (life s) (filter is_life calls) (life s2)"
  using settle_life [of s0 t out allowed] assms by simp

lemma start_life:
  "t \<notin> set (shSettled s) \<Longrightarrow> turn_life (life s) [OnAssistantStart t] (life (s\<lparr>shUnsettled := js_add t (shUnsettled s)\<rparr>))"
  by (simp add: life_def life_start)

lemma chat_start_life: "turn_life (life s) (filter is_life (snd (onChatStart e a p s))) (life (fst (onChatStart e a p s)))"
  by (auto simp: onChatStart_def Let_def generated_call_def split: option.split intro: quiet_life start_life)

lemma chat_chunk_life: "turn_life (life s) (filter is_life (snd (onChatChunk e a p s))) (life (fst (onChatChunk e a p s)))"
  by (auto simp: onChatChunk_def Let_def split: option.split intro!: quiet_life)

lemma chat_done_life: "turn_life (life s) (filter is_life (snd (onChatDone e a p s))) (life (fst (onChatDone e a p s)))"
  by (auto simp: onChatDone_def Let_def split: option.split prod.split
      intro: quiet_life settled_life)

lemma chat_error_life: "turn_life (life s) (filter is_life (snd (onChatError e a p s))) (life (fst (onChatError e a p s)))"
  by (auto simp: onChatError_def Let_def split: option.split prod.split
      intro: quiet_life settled_life)

lemma recovered_life: "turn_life (life s) (filter is_life (snd (onChatRecovered p s))) (life (fst (onChatRecovered p s)))"
  by (auto simp: onChatRecovered_def recoverAssistantTurn_def Let_def life_def split: option.split intro: turn_life.intros)

lemma block_created_life: "turn_life (life s) (filter is_life (snd (onBlockCreated e p s))) (life (fst (onBlockCreated e p s)))"
  by (auto simp: onBlockCreated_def Let_def split: option.split prod.split intro: quiet_life settled_life)

lemma block_updated_life: "turn_life (life s) (filter is_life (snd (onBlockUpdated p s))) (life (fst (onBlockUpdated p s)))"
  by (auto simp: onBlockUpdated_def split: option.split intro!: quiet_life)

lemma turn_updated_life: "turn_life (life s) (filter is_life (snd (onRuntimeTurnUpdated p s))) (life (fst (onRuntimeTurnUpdated p s)))"
  by (auto simp: onRuntimeTurnUpdated_def split: option.split turn_update_status.split intro: quiet_life start_life)

lemma handle_life: "turn_life (life s) (filter is_life (snd (stream_handle e a s ev))) (life (fst (stream_handle e a s ev)))"
proof -
  have "turn_life (life s) (filter is_life (snd (accepted_event e a ev s))) (life (fst (accepted_event e a ev s)))"
    by (cases ev) (simp_all add: chat_start_life chat_chunk_life chat_done_life chat_error_life recovered_life
        block_created_life block_updated_life turn_updated_life quiet_life)
  then show ?thesis by (simp add: stream_handle_def quiet_life split: option.split)
qed


subsection \<open>Runs\<close>

lemma stream_ok_life:
  "stream_ok s \<longleftrightarrow> distinct (fst (life s)) \<and> distinct (snd (life s)) \<and> set (fst (life s)) \<inter> set (snd (life s)) = {} \<and>
     length (snd (life s)) \<le> MAX_RUNTIME_SETTLED_ASSISTANT_TURN_IDS"
  by (simp add: stream_ok_def life_def)

lemma turn_life_ok:
  assumes "turn_life x calls y" and "distinct (fst x)" "distinct (snd x)" "set (fst x) \<inter> set (snd x) = {}"
    and "length (snd x) \<le> MAX_RUNTIME_SETTLED_ASSISTANT_TURN_IDS"
  shows "distinct (fst y) \<and> distinct (snd y) \<and> set (fst y) \<inter> set (snd y) = {} \<and>
    length (snd y) \<le> MAX_RUNTIME_SETTLED_ASSISTANT_TURN_IDS"
  using assms
proof cases
  case (life_settle t d l u out)
  have "distinct d" using assms(3) life_settle by simp
  note r1 = remember_ok [OF this, of t]
  note r2 = remember_ok [OF r1(1), of l]
  show ?thesis using life_settle assms(2-5) r1 r2 by auto
next
  case (life_recover u d t)
  have "distinct d" using assms(3) life_recover by simp
  note r = remember_ok [OF this, of t]
  show ?thesis using life_recover assms(2-5) r by auto
qed auto

lemma handle_ok: "stream_ok s \<Longrightarrow> stream_ok (fst (stream_handle e a s ev))"
  unfolding stream_ok_life using turn_life_ok [OF handle_life] by blast

interpretation task_stream: invariant_machine "\<lambda>s (e, ev). fst (stream_handle e address s ev)" stream_ok
  by unfold_locales (simp add: handle_ok split: prod.split)

text \<open>A run of the handlers of a task, with all the calls they make.\<close>

definition stream_run :: "RuntimeTaskAddress \<Rightarrow> (env \<times> stream_event) list \<Rightarrow> stream_state \<times> stream_call list" where
  "stream_run address events = foldl (\<lambda>(s, calls) (e, ev). let (t, more) = stream_handle e address s ev in (t, calls @ more))
     (new_stream, []) events"

text \<open>The ends that are reported, and no start or second end of a turn after one of them.\<close>

definition ends :: "stream_call list \<Rightarrow> string list" where
  "ends calls = List.map_filter (\<lambda>c. case c of
     OnAssistantSettled t _ \<Rightarrow> Some t | OnAssistantRecovered t \<Rightarrow> Some t | _ \<Rightarrow> None) calls"




lemma ends_filter [simp]: "ends (filter is_life cs) = ends cs"
proof (induction cs)
  case (Cons c cs)
  then show ?case by (cases c) (auto simp: ends_def map_filter_def)
qed (simp add: ends_def)

lemma ends_append [simp]: "ends (xs @ ys) = ends xs @ ends ys"
  by (simp add: ends_def map_filter_def)


lemma stream_run_snoc:
  "stream_run a (evs @ [(e, ev)]) = (fst (stream_handle e a (fst (stream_run a evs)) ev),
     snd (stream_run a evs) @ snd (stream_handle e a (fst (stream_run a evs)) ev))"
  by (simp add: stream_run_def Let_def split: prod.split)

lemma stream_run_state: "fst (stream_run a evs) = foldl (\<lambda>s (e, ev). fst (stream_handle e a s ev)) new_stream evs"
proof (induction evs rule: rev_induct)
  case (snoc x evs)
  then show ?case by (cases x) (simp add: stream_run_snoc)
qed (simp add: stream_run_def)

lemma stream_run_ok: "stream_ok (fst (stream_run a evs))"
  unfolding stream_run_state by (rule task_stream.run_inv) (simp add: stream_ok_def new_stream_def)


subsection \<open>Late events\<close>

definition stream_turn :: "stream_event \<Rightarrow> (string \<times> string) option" where
  "stream_turn ev = Option.bind (event_payload ev) runtimeStreamTaskSubtaskIdentity"

text \<open>The events that a settled turn no longer takes: what it says, its end, and a start of it.\<close>

definition speaks_of_turn :: "stream_event \<Rightarrow> bool" where
  "speaks_of_turn ev = (case ev of ChatChunkReceived _ \<Rightarrow> True | ChatCompleted _ \<Rightarrow> True | _ \<Rightarrow> False)"

lemma identity_truncate [simp]:
  "runtimeStreamTaskSubtaskIdentity (stream_payload.truncate p) = runtimeStreamTaskSubtaskIdentity p"
  by (simp add: runtimeStreamTaskSubtaskIdentity_def stream_payload.defs)

lemma mine_truncate [simp]:
  "isRuntimeTaskStreamPayload a (stream_payload.truncate p) = isRuntimeTaskStreamPayload a p"
  by (simp add: isRuntimeTaskStreamPayload_def stream_payload.defs split: option.split)

text \<open>What arrives for a settled turn, text or another end, changes neither the state of the stream nor the
  conversation.\<close>

lemma late_event:
  assumes "speaks_of_turn ev" and "stream_turn ev = Some (task, t)" and "t \<in> set (shSettled s)"
  shows "stream_handle e a s ev = (s, [])"
  using assms by (cases ev) (auto simp: speaks_of_turn_def stream_turn_def stream_handle_def onChatChunk_def
      onChatDone_def Let_def)

subsection \<open>All tasks\<close>

lemma track_filter: "foldl track_active active calls = foldl track_active active (filter is_life calls)"
proof (induction calls arbitrary: active)
  case (Cons c cs)
  then show ?case by (cases c) simp_all
qed simp

lemma turn_life_active: "turn_life x calls y \<Longrightarrow> foldl track_active (fst x) calls = fst y"
  by (erule turn_lifeE) auto

lemma handle_active:
  "foldl track_active (shUnsettled s) (snd (stream_handle e a s ev)) = shUnsettled (fst (stream_handle e a s ev))"
  using turn_life_active [OF handle_life [of s e a ev]] by (simp add: life_def flip: track_filter)

definition entry_ok :: "task_entry \<Rightarrow> bool" where
  "entry_ok entry \<longleftrightarrow> stream_ok (teState entry) \<and> teActive entry = shUnsettled (teState entry)"

definition handlers_ok :: "task_handlers \<Rightarrow> bool" where
  "handlers_ok entries \<longleftrightarrow> jm_wf entries \<and> (\<forall>(k, entry)\<in>set entries. entry_ok entry) \<and>
     (length entries \<le> MAX_RUNTIME_TASK_STREAM_HANDLERS \<or> (\<forall>(k, entry)\<in>set entries. teActive entry \<noteq> []))"

lemma jm_wf_moved [simp]: "jm_wf m \<Longrightarrow> jm_wf (jm_delete k m @ [(k, v)])"
  using jm_wf_delete [of m k] by (auto simp: jm_wf_def AList.delete_eq)

lemma jm_get_moved: "jm_get (jm_delete j m @ [(j, v)]) k = (if k = j then Some v else jm_get m k)"
  by (simp add: map_add_def split: option.split)

lemma find_pair: "List.find P m = Some (k, v) \<Longrightarrow> (k, v) \<in> set m \<and> P (k, v)"
  by (auto simp: find_Some_iff)

lemma evict_induct:
  assumes stop: "\<And>m. length m \<le> MAX_RUNTIME_TASK_STREAM_HANDLERS \<or> (\<forall>(k, entry)\<in>set m. teActive entry \<noteq> []) \<Longrightarrow> P m m"
    and go_on: "\<And>m k entry r. (k, entry) \<in> set m \<Longrightarrow> teActive entry = [] \<Longrightarrow> P (jm_delete k m) r \<Longrightarrow> P m r"
  shows "P m (evictSettledTaskHandlers m)"
proof (induction m rule: evictSettledTaskHandlers.induct)
  case (1 m)
  show ?case
  proof (cases "length m \<le> MAX_RUNTIME_TASK_STREAM_HANDLERS \<or> List.find (\<lambda>(_, entry). teActive entry = []) m = None")
    case True
    then have "evictSettledTaskHandlers m = m" by (subst evictSettledTaskHandlers.simps) auto
    then show ?thesis using True by (auto simp: find_None_iff intro: stop)
  next
    case False
    then obtain k entry where f: "List.find (\<lambda>(_, entry). teActive entry = []) m = Some (k, entry)" by auto
    then have "evictSettledTaskHandlers m = evictSettledTaskHandlers (jm_delete k m)"
      using False by (subst evictSettledTaskHandlers.simps) simp
    then show ?thesis using find_pair [OF f] "1.IH" f False by (auto intro: go_on)
  qed
qed

lemma evict_subset: "set (evictSettledTaskHandlers m) \<subseteq> set m"
  by (rule evict_induct) (auto simp: AList.delete_eq)

lemma evict_wf: "jm_wf m \<Longrightarrow> jm_wf (evictSettledTaskHandlers m)"
  by (rule evict_induct [where P = "\<lambda>m r. jm_wf m \<longrightarrow> jm_wf r", THEN mp]) simp_all

lemma evict_bounded:
  "length (evictSettledTaskHandlers m) \<le> MAX_RUNTIME_TASK_STREAM_HANDLERS \<or>
   (\<forall>(k, entry)\<in>set (evictSettledTaskHandlers m). teActive entry \<noteq> [])"
  by (rule evict_induct) auto

lemma evict_keeps_running:
  assumes "jm_wf m" and "jm_get m k = Some entry" and "teActive entry \<noteq> []"
  shows "jm_get (evictSettledTaskHandlers m) k = Some entry"
proof -
  have "jm_wf m \<longrightarrow> jm_get m k = Some entry \<longrightarrow> jm_get (evictSettledTaskHandlers m) k = Some entry"
  proof (rule evict_induct)
    fix m j v r
    assume "(j, v) \<in> set m" "teActive v = []"
      and r: "jm_wf (jm_delete j m) \<longrightarrow> jm_get (jm_delete j m) k = Some entry \<longrightarrow> jm_get r k = Some entry"
    then have "jm_wf m \<Longrightarrow> jm_get m k = Some entry \<Longrightarrow> j \<noteq> k" using assms(3) jm_in_get [of m j v] by auto
    then show "jm_wf m \<longrightarrow> jm_get m k = Some entry \<longrightarrow> jm_get r k = Some entry" using r by auto
  qed simp
  then show ?thesis using assms by blast
qed

lemma resolved:
  assumes "handlers_ok entries" and "resolve_entry entries p = Some (k, entry)"
  shows "entry_ok entry"
  using assms by (auto simp: resolve_entry_def Let_def handlers_ok_def the_or_def entry_ok_def stream_ok_def new_stream_def
      split: if_splits option.splits dest: jm_get_in)

lemma entry_handled:
  assumes "entry_ok entry" and "stream_handle e a (teState entry) ev = (state, calls)"
  shows "entry_ok (entry\<lparr>teState := state, teActive := foldl track_active (teActive entry) calls\<rparr>)"
  using assms handle_ok [of "teState entry" e a ev] handle_active [of "teState entry" e a ev] by (simp add: entry_ok_def)

lemma conversation_ok: "handlers_ok entries \<Longrightarrow> handlers_ok (fst (conversation_handle e entries ev))"
proof -
  assume ok: "handlers_ok entries"
  consider "fst (conversation_handle e entries ev) = entries"
    | k entry where "entry_ok entry"
        "fst (conversation_handle e entries ev) = evictSettledTaskHandlers (jm_delete k entries @ [(k, entry)])"
  proof (cases "Option.bind (event_payload ev) (resolve_entry entries)")
    case None
    then have "fst (conversation_handle e entries ev) = entries"
      by (auto simp: conversation_handle_def split: option.splits)
    then show ?thesis by (rule that(1))
  next
    case (Some kx)
    then obtain p k x where p: "event_payload ev = Some p" "resolve_entry entries p = Some (k, x)"
      by (cases kx) (auto simp: Option.bind_eq_Some_conv)
    obtain s calls where h: "stream_handle e (teAddress x) (teState x) ev = (s, calls)" by (cases "stream_handle e (teAddress x) (teState x) ev")
    show ?thesis using p h entry_handled [OF resolved [OF ok p(2)] h] by (intro that(2)) (simp_all add: conversation_handle_def)
  qed
  then show ?thesis
  proof cases
    case 2
    let ?m = "jm_delete k entries @ [(k, entry)]"
    have "\<forall>(k, entry)\<in>set ?m. entry_ok entry" using ok 2 by (auto simp: handlers_ok_def AList.delete_eq)
    moreover have "jm_wf ?m" using ok by (simp add: handlers_ok_def)
    ultimately show ?thesis
      using evict_subset [of ?m] evict_wf [of ?m] evict_bounded [of ?m] 2(2) unfolding handlers_ok_def by auto
  qed (use ok in simp)
qed

interpretation all_tasks: invariant_machine "\<lambda>entries (e, ev). fst (conversation_handle e entries ev)" handlers_ok
  by unfold_locales (simp add: conversation_ok split: prod.split)


lemma running_entry_kept:
  assumes "jm_wf entries" and "jm_get entries k = Some entry" and "teActive entry \<noteq> []"
    and "map_option (\<lambda>p. stream_key (the_or [] (plDeviceId p)) (the_or [] (plTaskId p))) (event_payload ev) \<noteq> Some k"
  shows "jm_get (fst (conversation_handle e entries ev)) k = Some entry"
proof (cases "Option.bind (event_payload ev) (resolve_entry entries)")
  case None
  then show ?thesis using assms by (auto simp: conversation_handle_def split: option.splits)
next
  case (Some jx)
  then obtain p j x where p: "event_payload ev = Some p" "resolve_entry entries p = Some (j, x)"
    by (cases jx) (auto simp: Option.bind_eq_Some_conv)
  then have "j \<noteq> k" using assms(4) by (auto simp: resolve_entry_def Let_def split: if_splits)
  then have "jm_wf (jm_delete j entries @ [(j, y)])" "jm_get (jm_delete j entries @ [(j, y)]) k = Some entry" for y
    using assms(1,2) by (simp_all add: jm_get_moved)
  then show ?thesis using p evict_keeps_running assms(3)
    by (auto simp: conversation_handle_def split: prod.split)
qed

subsection \<open>From the executor to the turn\<close>

text \<open>The owner of a stream applies the actions in the order they come to the turns of the conversation.\<close>

fun apply_call :: "env \<Rightarrow> RuntimeConversationTurn list \<Rightarrow> stream_call \<Rightarrow> RuntimeConversationTurn list" where
  "apply_call e turns (OnMessageAction a) = turns_after e turns a"
| "apply_call e turns _ = turns"

definition receive_event ::
    "RuntimeTaskAddress \<Rightarrow> stream_state \<times> RuntimeConversationTurn list \<Rightarrow> env \<times> stream_event \<Rightarrow>
     stream_state \<times> RuntimeConversationTurn list" where
  "receive_event address = (\<lambda>(s, turns) (e, ev). let (s', calls) = stream_handle e address s ev
     in (s', foldl (apply_call e) turns calls))"

text \<open>What an executor sends of a turn that only speaks: its start, the chunks of a text item, and its end.\<close>

definition start_event :: "string \<Rightarrow> string \<Rightarrow> stream_event" where
  "start_event task t = ChatStarted \<lparr>plTaskId = Some task, plSubtaskId = Some t, plDeviceId = None,
     stExecutionState = None, stClientUserMessageId = None, stGenerated = None, stShellType = None\<rparr>"

definition done_event :: "string \<Rightarrow> string \<Rightarrow> stream_event" where
  "done_event task t = ChatCompleted \<lparr>plTaskId = Some task, plSubtaskId = Some t, plDeviceId = None,
     sdExecutionState = None, sdResult = JObj []\<rparr>"

text \<open>A chunk of a text with nothing else in it.\<close>

definition text_chunk :: "string \<Rightarrow> string \<Rightarrow> string \<Rightarrow> ustring \<Rightarrow> nat \<times> nat \<Rightarrow> stream_event \<Rightarrow> bool" where
  "text_chunk task t i T c ev \<longleftrightarrow> (\<exists>p. ev = ChatChunkReceived p \<and> plTaskId p = Some task \<and> plSubtaskId p = Some t \<and>
     plDeviceId p = None \<and> ccItemId p = Some i \<and> ccContent p = take (snd c) (drop (fst c) T) \<and>
     ccContentMode p \<noteq> Some SnapshotContent \<and> ccOffset p = Some (int (fst c)) \<and>
     Option.bind (ccResult p) (json_field ''contextUsage'') = None \<and> Option.bind (ccResult p) (json_field ''blocks'') = None \<and>
     Option.bind (ccResult p) (json_field ''reasoningChunk'') = None)"

text \<open>A turn that has received a text and nothing else.\<close>

definition speaking :: "string \<Rightarrow> string \<Rightarrow> ustring \<Rightarrow> stream_state \<times> RuntimeConversationTurn list \<Rightarrow> bool" where
  "speaking t i x st \<longleftrightarrow> shUnsettled (fst st) = [t] \<and> shSettled (fst st) = [] \<and> (\<exists>turn item off cr. snd st = [turn] \<and>
     tnId turn = Some t \<and> tnStatus turn = WmStreaming \<and> tnItems turn = [item] \<and> itId item = i \<and>
     itBody item = AssistantText x off cr)"

lemma text_item_quiet:
  assumes "itBody item = AssistantText x off cr"
  shows "settleRuntimeReconnectingBlocks e [item] = [item]" "settleProcessingBlocks e [item] = [item]"
    "tnItems (boundVisibleRuntimeProcessingBlocks turn [item]) = [item]"
  using assms by (simp_all add: settleRuntimeReconnectingBlocks_def settleProcessingBlocks_def map_blocks_def
      boundVisibleRuntimeProcessingBlocks_def is_live_block_def is_block_item_def)



lemma starts_speaking:
  assumes "js_trim (adTaskId a) \<noteq> []" and "js_trim t \<noteq> []" and "0 < k" and "k \<le> length T" and "i \<noteq> []"
    and "text_chunk (adTaskId a) t i T (0, k) ev"
  shows "speaking t i (take k T) (foldl (receive_event a) (new_stream, []) [(e, start_event (adTaskId a) t), (e', ev)])"
proof -
  have t: "t \<noteq> []" using assms(2) by (auto simp: js_trim_def)
  have T: "take k T \<noteq> []" using assms(3,4) by auto
  obtain p where p: "ev = ChatChunkReceived p" "plTaskId p = Some (adTaskId a)" "plSubtaskId p = Some t" "plDeviceId p = None"
      "ccItemId p = Some i" "ccContent p = take k T" "ccContentMode p \<noteq> Some SnapshotContent" "ccOffset p = Some 0"
      "Option.bind (ccResult p) (json_field ''contextUsage'') = None" "Option.bind (ccResult p) (json_field ''blocks'') = None"
      "Option.bind (ccResult p) (json_field ''reasoningChunk'') = None"
    using assms(6) by (auto simp: text_chunk_def)
  show ?thesis
    using assms(1,2,5) t T p
    by (simp add: speaking_def receive_event_def start_event_def stream_handle_def stream_payload.defs
        isRuntimeTaskStreamPayload_def runtimeStreamTaskSubtaskIdentity_def onChatStart_def onChatChunk_def new_stream_def
        Let_def turns_after_def updateStartedTurn_def bindAssistantTurn_def getReasoningChunk_def getResultBlocks_def
        usage_calls_def js_add_def optimistic_index_def find_last_index_def new_turn_def updateTurn_def turn_chunk_def
        upsertReasoningChunk_def upsertBlocks_def upsertAssistantText_def boundVisibleRuntimeProcessingBlocks_def
        settleRuntimeReconnectingBlocks_def map_blocks_def is_live_block_def is_block_item_def text_value_def
        isUnsettledTurnStatus_def)
qed

lemma keeps_speaking:
  assumes "speaking t i x st" and "js_trim (adTaskId a) \<noteq> []" and "js_trim t \<noteq> []" and "0 < k" and "off + k \<le> length T" and "i \<noteq> []"
    and "text_chunk (adTaskId a) t i T (off, k) ev"
  shows "speaking t i (splice_text x (take k (drop off T)) (Some (int off))) (receive_event a st (e, ev))"
proof -
  have t: "t \<noteq> []" using assms(3) by (auto simp: js_trim_def)
  have T: "take k (drop off T) \<noteq> []" using assms(4,5) by auto
  obtain p where p: "ev = ChatChunkReceived p" "plTaskId p = Some (adTaskId a)" "plSubtaskId p = Some t" "plDeviceId p = None"
      "ccItemId p = Some i" "ccContent p = take k (drop off T)" "ccContentMode p \<noteq> Some SnapshotContent" "ccOffset p = Some (int off)"
      "Option.bind (ccResult p) (json_field ''contextUsage'') = None" "Option.bind (ccResult p) (json_field ''blocks'') = None"
      "Option.bind (ccResult p) (json_field ''reasoningChunk'') = None"
    using assms(7) by (auto simp: text_chunk_def)
  obtain s turn item o' cr where s: "st = (s, [turn])" "shUnsettled s = [t]" "shSettled s = []" "tnId turn = Some t"
      "tnStatus turn = WmStreaming" "tnItems turn = [item]" "itId item = i" "itBody item = AssistantText x o' cr"
    using assms(1) by (cases st) (auto simp: speaking_def)
  show ?thesis
    using assms(2,3,6) t T s p
    by (simp add: speaking_def receive_event_def stream_handle_def stream_payload.defs
        isRuntimeTaskStreamPayload_def runtimeStreamTaskSubtaskIdentity_def onChatChunk_def
        Let_def turns_after_def getReasoningChunk_def getResultBlocks_def
        usage_calls_def js_add_def updateTurn_def turn_chunk_def text_item_quiet current_text_def
        upsertReasoningChunk_def upsertBlocks_def upsertAssistantText_def boundVisibleRuntimeProcessingBlocks_def
        is_live_block_def is_block_item_def text_value_def isUnsettledTurnStatus_def)
qed

text \<open>Chunks of a text, in whatever form they come.\<close>

lemma chunks_speaking:
  assumes "js_trim (adTaskId a) \<noteq> []" and "js_trim t \<noteq> []" and "i \<noteq> []" and chunk: "\<And>c. text_chunk (adTaskId a) t i T c (f c)"
  shows "speaking t i x st \<Longrightarrow> \<forall>(off, k)\<in>set (item_spans cs). 0 < k \<and> off + k \<le> length T \<Longrightarrow>
    speaking t i (unit_stream.receive_all T x (item_spans cs)) (foldl (receive_event a) st (map (\<lambda>(e, c). (e, f c)) cs))"
proof (induction cs arbitrary: st x)
  case (Cons c cs)
  obtain e off k where c: "c = (e, off, k)" by (cases c)
  have "speaking t i (splice_text x (take k (drop off T)) (Some (int off))) (receive_event a st (e, f (off, k)))"
    using Cons.prems assms(1-3) chunk by (intro keeps_speaking) (auto simp: c)
  from Cons.IH [OF this] Cons.prems(2) show ?case by (simp add: c unit_stream.receive_all_def)
qed (simp add: unit_stream.receive_all_def)

lemma done_after_speaking:
  assumes "speaking t i x st" and "js_trim (adTaskId a) \<noteq> []" and "js_trim t \<noteq> []"
  shows "\<exists>turn. snd (receive_event a st (e, done_event (adTaskId a) t)) = [turn] \<and> tnId turn = Some t \<and>
     tnStatus turn = WmDone \<and> item_text (tnItems turn) i = Some x"
proof -
  have t: "t \<noteq> []" using assms(3) by (auto simp: js_trim_def)
  obtain s turn item o' cr where s: "st = (s, [turn])" "shUnsettled s = [t]" "shSettled s = []" "tnId turn = Some t"
      "tnStatus turn = WmStreaming" "tnItems turn = [item]" "itId item = i" "itBody item = AssistantText x o' cr"
    using assms(1) by (cases st) (auto simp: speaking_def)
  show ?thesis
    using assms(2,3) t s
    by (simp add: receive_event_def done_event_def stream_handle_def stream_payload.defs
        isRuntimeTaskStreamPayload_def runtimeStreamTaskSubtaskIdentity_def onChatDone_def
        Let_def turns_after_def getResultBlocks_def not_succeeded_def settleAssistantTurn_def done_content_def plain_done_def
        usage_calls_def updateTurn_def turn_done_def text_item_quiet upsertBlocks_def item_text_def
        applyCompletedAssistantContent_def)
qed

text \<open>The whole run, for any form of the chunks.\<close>

lemma text_arrives:
  assumes "js_trim (adTaskId a) \<noteq> []" and "js_trim t \<noteq> []" and "i \<noteq> []" and chunk: "\<And>c. text_chunk (adTaskId a) t i T c (f c)"
    and "cs \<noteq> []" and "\<forall>(off, k)\<in>set (item_spans cs). 0 < k \<and> off + k \<le> length T" and "gap_free 0 (item_spans cs)"
  shows "\<exists>turn. snd (foldl (receive_event a) (new_stream, [])
      ((e, start_event (adTaskId a) t) # map (\<lambda>(e, c). (e, f c)) cs @ [(e', done_event (adTaskId a) t)])) = [turn] \<and>
    tnId turn = Some t \<and> tnStatus turn = WmDone \<and> item_text (tnItems turn) i = Some (take (reach 0 (item_spans cs)) T)"
proof -
  obtain e1 k cs' where cs: "cs = (e1, 0, k) # cs'" using assms(5,7) by (cases cs) auto
  have "speaking t i (take k T) (foldl (receive_event a) (new_stream, []) [(e, start_event (adTaskId a) t), (e1, f (0, k))])"
    using assms by (intro starts_speaking) (auto simp: cs)
  from chunks_speaking [OF assms(1-3) chunk this, of cs'] assms(6)
  have "speaking t i (unit_stream.receive_all T (take k T) (item_spans cs')) (foldl (receive_event a) (new_stream, [])
      ((e, start_event (adTaskId a) t) # map (\<lambda>(e, c). (e, f c)) cs))"
    by (simp add: cs)
  moreover have "unit_stream.receive_all T (take k T) (item_spans cs') = take (reach k (item_spans cs')) T"
    using assms(6,7) by (intro unit_stream.stream_complete) (auto simp: cs)
  ultimately show ?thesis using done_after_speaking [OF _ assms(1,2)] by (fastforce simp: cs reach_def)
qed

subsection \<open>Properties\<close>

text \<open>C18: In every run of events of a task, no turn is both running and settled, no turn is remembered twice, and at most
  256 settled turns are remembered.\<close>

theorem stream_consistent: "stream_ok (fst (stream_run address events))"
  by (rule stream_run_ok)




text \<open>The handlers of all tasks after a run of events.\<close>

definition conversation_run :: "(env \<times> stream_event) list \<Rightarrow> task_handlers" where
  "conversation_run events = foldl (\<lambda>entries (e, ev). fst (conversation_handle e entries ev)) [] events"

lemma conversation_run_ok: "handlers_ok (conversation_run events)"
  unfolding conversation_run_def by (rule all_tasks.run_inv) (simp add: handlers_ok_def jm_wf_def)

text \<open>C20: After any events of any tasks, either at most 50 tasks have handlers or every one of them is running a turn.\<close>

theorem task_handlers_bounded:
  "length (conversation_run events) \<le> 50 \<or>
   list_all (\<lambda>(_, entry). shUnsettled (teState entry) \<noteq> []) (conversation_run events)"
  using conversation_run_ok [of events]
  by (fastforce simp: handlers_ok_def entry_ok_def list_all_iff MAX_RUNTIME_TASK_STREAM_HANDLERS_def)

text \<open>A task that is running a turn keeps its handlers whatever the other tasks receive.\<close>

theorem running_task_kept:
  assumes "jm_get (conversation_run events) k = Some entry" and "shUnsettled (teState entry) \<noteq> []"
    and "map_option (\<lambda>p. stream_key (the_or [] (plDeviceId p)) (the_or [] (plTaskId p))) (event_payload ev) \<noteq> Some k"
  shows "jm_get (conversation_run (events @ [(e, ev)])) k = Some entry"
proof -
  have "entry_ok entry" using conversation_run_ok [of events] jm_get_in [OF assms(1)] by (auto simp: handlers_ok_def)
  then show ?thesis
    using running_entry_kept [OF _ assms(1) _ assms(3), of e] conversation_run_ok [of events] assms(2)
    by (simp add: conversation_run_def handlers_ok_def entry_ok_def)
qed

definition demo_start :: "string \<Rightarrow> stream_event" where
  "demo_start task = ChatStarted \<lparr>plTaskId = Some task, plSubtaskId = Some ''t'', plDeviceId = Some ''d'',
     stExecutionState = None, stClientUserMessageId = None, stGenerated = None, stShellType = None\<rparr>"

theorem running_task_kept_witness:
  "jm_get (conversation_run ([(demo_env, demo_start ''one'')] @ [(demo_env, demo_start ''two'')])) ''d:one''
   = Some \<lparr>teAddress = stream_address ''d'' ''one'', teState = new_stream\<lparr>shUnsettled := [''t'']\<rparr>, teActive = [''t'']\<rparr>"
  by (rule running_task_kept) code_simp+

lemma original_bytes [simp]:
  "wbToolOutputOriginalBytes (direct_update u b) =
     (case upToolOutputOriginalBytes u of Some n \<Rightarrow> val n | None \<Rightarrow> wbToolOutputOriginalBytes b)"
  "wbToolOutputOriginalBytes (append_block_content d b) = wbToolOutputOriginalBytes b"
  "wbToolOutputOriginalBytes (append_output d b) = wbToolOutputOriginalBytes b"
  "wbToolOutputOriginalBytes (b\<lparr>wbRenderPayload := payload\<rparr>) = wbToolOutputOriginalBytes b"
  by (simp_all add: direct_update_def append_block_content_def append_output_def Let_def split: option.split)

lemma original_bytes_completed [simp]:
  "wbToolOutputOriginalBytes (pbFields (withBlockCompletionTime e b c)) = wbToolOutputOriginalBytes (pbFields c)"
  by (simp add: withBlockCompletionTime_def Let_def split: option.split)

lemma original_bytes_update:
  "wbToolOutputOriginalBytes (pbFields (mergeProcessingBlockUpdate e b u)) =
     (case upToolOutputOriginalBytes u of Some n \<Rightarrow> val n | None \<Rightarrow> wbToolOutputOriginalBytes (pbFields b))"
  unfolding mergeProcessingBlockUpdate_def Let_def
  by (cases "upToolOutputDelta u"; cases "upContentDelta u")
    (simp_all only: option.case upd_fields_simps original_bytes original_bytes_completed if_cancel
       if_distrib [of pbFields] if_distrib [of wbToolOutputOriginalBytes])

text \<open>C38: The size of an output that an executor has cut is lost on the way. The reducer records the size of an update that
  has it, but of what the stream passes on the block keeps the size it had.\<close>

theorem output_size_not_forwarded:
  "got (wbToolOutputOriginalBytes (pbFields (mergeProcessingBlockUpdate e b (stream_updates p))))
     = got (wbToolOutputOriginalBytes (pbFields b)) \<and>
   got (wbToolOutputOriginalBytes (pbFields
     (mergeProcessingBlockUpdate e b ((stream_updates p)\<lparr>upToolOutputOriginalBytes := Some n\<rparr>)))) = Some n"
  by (simp add: original_bytes_update stream_updates_def)

end
