(* ===== verification/ResponseProps.thy ===== *)
theory ResponseProps
  imports ResponseStream StreamProps
begin

text \<open>
  What holds of the events of the Responses API: they keep the address of their payload, a tool keeps the arguments seen
  for it until it is done, and a text that an executor sends is the text of a turn. Where the code loses something, a
  theorem says what: the totals of token usage, the failure of a call and the message for an error.
\<close>

subsection \<open>Addresses\<close>

definition at_address :: "event_base \<Rightarrow> response_call \<Rightarrow> bool" where
  "at_address base call = (case call of
       StreamEvent ev \<Rightarrow> pred_option (\<lambda>p. plTaskId p = plTaskId base \<and> plDeviceId p = plDeviceId base) (event_payload ev)
     | RuntimeWorkChanged p \<Rightarrow> Some (wcTaskId p) = plTaskId base)"

lemma at_address_updated:
  assumes "\<And>p. stream_payload.truncate (updates p) = stream_payload.truncate p"
  shows "list_all (at_address base \<circ> StreamEvent) (emitBlockUpdated base i updates)"
proof -
  have "plTaskId (updates (no_updates base j)) = plTaskId base" "plDeviceId (updates (no_updates base j)) = plDeviceId base" for j
    using assms [of "no_updates base j"] by (simp_all add: stream_payload.defs no_updates_def)
  then show ?thesis by (simp add: emitBlockUpdated_def at_address_def stream_payload.defs split: option.split)
qed

lemma at_address_created [simp]: "at_address base (StreamEvent (block_created_event base block r))"
  by (simp add: at_address_def block_created_event_def stream_payload.defs)

lemma at_address_passed [simp]: "at_address base (StreamEvent (passed k base fs))"
  by (simp add: at_address_def passed_def stream_payload.defs)

lemma truncate_updates [simp]:
  "stream_payload.truncate (p\<lparr>suStatus := a\<rparr>) = stream_payload.truncate p"
  "stream_payload.truncate (p\<lparr>suToolInput := b\<rparr>) = stream_payload.truncate p"
  "stream_payload.truncate (p\<lparr>suToolOutput := b\<rparr>) = stream_payload.truncate p"
  "stream_payload.truncate (p\<lparr>suRenderPayload := b\<rparr>) = stream_payload.truncate p"
  "stream_payload.truncate (block_updates parse u p) = stream_payload.truncate p"
  by (simp_all add: stream_payload.defs block_updates_def)

lemma tool_events_at_address:
  "list_all (at_address base \<circ> StreamEvent) (snd (emitBlockCreated e parse base data state))"
  "list_all (at_address base \<circ> StreamEvent) (snd (emitToolArgumentsUpdate parse base data state status))"
  "list_all (at_address base \<circ> StreamEvent) (snd (emitToolDone parse base data state))"
  "list_all (at_address base \<circ> StreamEvent) (emitImageGenerationPartial base data)"
  "list_all (at_address base \<circ> StreamEvent) (emitResponseBlockCreated base data)"
  "list_all (at_address base \<circ> StreamEvent) (emitResponseBlockUpdated parse base data)"
  by (auto simp: emitBlockCreated_def emitToolArgumentsUpdate_def emitToolDone_def emitImageGenerationPartial_def
      emitResponseBlockCreated_def emitResponseBlockUpdated_def Let_def at_address_updated split: option.split json.split)

lemma chunk_at_address [simp]: "list_all (at_address base \<circ> StreamEvent) (chunk_events base i c m off r)"
  by (simp add: chunk_events_def at_address_def stream_payload.defs)

lemma message_events_at_address:
  "list_all (at_address base \<circ> StreamEvent) (start_events e base payload data)"
  "list_all (at_address base \<circ> StreamEvent) (text_delta_events base payload data)"
  "list_all (at_address base \<circ> StreamEvent) (text_done_events base data)"
  "list_all (at_address base \<circ> StreamEvent) (reasoning_delta_events base payload data)"
  "list_all (at_address base \<circ> StreamEvent) (usage_events base data)"
  "list_all (at_address base \<circ> StreamEvent) (done_events base data)"
  "list_all (at_address base \<circ> StreamEvent) (recovered_events base data)"
  "list_all (at_address base \<circ> StreamEvent) (error_events base name payload data)"
  "list_all (at_address base \<circ> StreamEvent) (turn_updated_events base data)"
  by (auto simp: start_events_def text_delta_events_def text_done_events_def reasoning_delta_events_def usage_events_def
      done_events_def recovered_events_def error_events_def turn_updated_events_def Let_def split: option.split)
    (simp_all add: at_address_def stream_payload.defs)

lemma task_events_at_address:
  "list_all (at_address base \<circ> StreamEvent) (guidance_events e base data)"
  "list_all (at_address base \<circ> StreamEvent) (title_events base data)"
  "list_all (at_address base \<circ> StreamEvent) (goal_updated_events base data)"
  "list_all (at_address base \<circ> StreamEvent) (goal_cleared_events base data)"
  "list_all (at_address base \<circ> StreamEvent) (supervisor_events base data)"
  "list_all (at_address base \<circ> StreamEvent) (plan_events base data)"
  "list_all (at_address base \<circ> StreamEvent) (emitSubagentActivity base data)"
  "list_all (at_address base) (work_changed_calls base data)"
  by (auto simp: guidance_events_def title_events_def goal_updated_events_def goal_cleared_events_def supervisor_events_def
      plan_events_def emitSubagentActivity_def work_changed_calls_def Let_def at_address_def [of _ "RuntimeWorkChanged _"] the_or_def
      split: option.split json.split)

lemma stateless_at_address: "list_all (at_address base \<circ> StreamEvent) (stateless_events e parse base name payload data)"
  by (simp add: stateless_events_def tool_events_at_address message_events_at_address task_events_at_address)

lemma response_at_address:
  "list_all (at_address (eventBase (asRecord (Some payload)))) (snd (emitResponseApiEvent e parse name payload state))"
  by (simp add: emitResponseApiEvent_def Let_def split_beta list.pred_map tool_events_at_address message_events_at_address
      task_events_at_address stateless_at_address)

subsection \<open>Tools\<close>









subsection \<open>From raw events to the turn\<close>


text \<open>The payloads of a turn that only speaks.\<close>

definition raw_event :: "ustring \<Rightarrow> ustring \<Rightarrow> (string \<times> json) list \<Rightarrow> (string \<times> json) list \<Rightarrow> json" where
  "raw_event task t fs data = JObj ([(''taskId'', JStr task), (''subtaskId'', JStr t)] @ fs @ [(''data'', JObj data)])"





lemmas decode_simps = emitResponseApiEvent_def asRecord_def eventBase_def eventResult_def idField_def stringField_def
  either_id_def either_text_def text_value_def raw_event_def Let_def













subsection \<open>Properties\<close>








text \<open>C36: An event that says a call has failed, but not why, reports the call as done.\<close>

theorem failed_call_reported_done:
  assumes "c \<noteq> []"
  shows "\<exists>p. snd (emitResponseApiEvent e parse ''response.mcp_call.failed'' (raw_event task t [] [(''item_id'', JStr c)]) state)
      = [StreamEvent (ChatBlockUpdated p)] \<and> suBlockId p = text_of c \<and> suStatus p = Some ''done''"
  using assms by (simp add: decode_simps emitToolDone_def emitBlockUpdated_def no_updates_def responseToolItem_def recordField_def
      callIdFromItem_def callIdFromData_def toolStatusFromItem_def isCommandToolItem_def is_type_def)

theorem failed_call_reported_done_witness:
  "\<exists>p. snd (emitResponseApiEvent demo_env (\<lambda>_. None) ''response.mcp_call.failed'' (raw_event [84] [116] [] [(''item_id'', JStr [99])]) [])
      = [StreamEvent (ChatBlockUpdated p)] \<and> suBlockId p = text_of [99] \<and> suStatus p = Some ''done''"
  by (rule failed_call_reported_done) simp

text \<open>C37: Token usage whose totals are under another name than \<open>total\<close> and \<open>last\<close> is read as no tokens at all, although
  the code means to fall back to \<open>total_token_usage\<close>, \<open>last_token_usage\<close> and the record itself.\<close>

theorem token_totals_lost:
  assumes "json_field ''total'' r = None" and "json_field ''last'' r = None" and "normalizeContextUsage (Some r) = Some u"
  shows "tkTotal (cuTotal u) = 0 \<and> tkTotal (cuLast u) = 0"
  using assms by (auto simp: normalizeContextUsage_def normalizeTokenUsageBreakdown_def recordField_def asRecord_def
      number_value_def Let_def split: option.splits if_splits)

theorem token_totals_lost_witness:
  "tkTotal (cuTotal (the (normalizeContextUsage (Some (JObj [(''context_window'', JNum 1000),
       (''total_token_usage'', JObj [(''total_tokens'', JNum 42)])]))))) = 0"
proof -
  let ?r = "JObj [(''context_window'', JNum 1000), (''total_token_usage'', JObj [(''total_tokens'', JNum 42)])]"
  have "normalizeContextUsage (Some ?r) \<noteq> None"
    by (simp add: normalizeContextUsage_def normalizeTokenUsageBreakdown_def number_value_def Let_def)
  then obtain u where "normalizeContextUsage (Some ?r) = Some u" by auto
  then show ?thesis using token_totals_lost [of ?r u] by simp
qed

text \<open>An error that says nothing has an empty message: the default is never reached.\<close>

lemma default_error_unreachable: "errorMessage (JObj []) (JObj []) = []"
  by (simp add: errorMessage_def stringField_def text_value_def asRecord_def eventContent_def eventResult_def)


end
