(* ===== verification/SocketClient.thy ===== *)
theory SocketClient
  imports RuntimeTaskTypes
begin

text \<open>
  The connection to the server: \<open>AuthenticatedSocketClientImpl\<close> of
  \<open>packages/chat-core/src/socket/authenticatedSocketClient.ts\<close>. A socket of socket.io is its number, with the flag
  \<open>connected\<close> that socket.io keeps; what the client does to sockets and tells its owner is returned in order. The
  methods are cut at their awaits: a call of \<open>connect\<close> that waits for the base URL is a thread, and its answer may come
  at any time. Logging is left out, and the listeners of the state are the calls \<open>StateChanged\<close>. The event that
  socket.io sends for a socket that is disconnected is a step of its own, and a call of \<open>io\<close> does not throw.
\<close>

subsection \<open>Options\<close>

definition defaultReconnectDelayMs :: "nat \<Rightarrow> nat" where
  "defaultReconnectDelayMs attempt = min (1000 * 2 ^ min (attempt - 1) 3) 5000"

fun contains_text :: "string \<Rightarrow> string \<Rightarrow> bool" where
  "contains_text pattern [] \<longleftrightarrow> pattern = []"
| "contains_text pattern (c # cs) \<longleftrightarrow> take (length pattern) (c # cs) = pattern \<or> contains_text pattern cs"

definition defaultIsAuthError :: "string \<Rightarrow> bool" where
  "defaultIsAuthError message =
     (let errorMessage = map lower_char message
      in contains_text ''expired'' errorMessage \<or> contains_text ''unauthorized'' errorMessage \<or> contains_text ''jwt'' errorMessage
         \<or> contains_text ''authentication'' errorMessage)"

definition joinNamespace :: "string \<Rightarrow> string \<Rightarrow> string" where
  "joinNamespace socketBaseUrl namespace =
     (let normalizedBaseUrl = rev (dropWhile ((=) (CHR ''/'')) (rev socketBaseUrl));
          normalizedNamespace = (if take 1 namespace = ''/'' then namespace else CHR ''/'' # namespace)
      in normalizedBaseUrl @ normalizedNamespace)"

definition RECONNECT_THROTTLE_MS :: int where "RECONNECT_THROTTLE_MS = 500"

record socket_options =
  opNamespace :: string
  opAuthErrorEvent :: "string option"
  opIsAuthError :: "string \<Rightarrow> bool"
  opReconnectDelayMs :: "nat \<Rightarrow> nat"
  opTimeout :: nat

text \<open>What a handler reads: the clock and \<open>getToken\<close>.\<close>

record socket_env =
  seNow :: int
  seToken :: "string option"

definition has_token :: "socket_env \<Rightarrow> bool" where
  "has_token e \<longleftrightarrow> opt_truthy truthy_text (seToken e)"

subsection \<open>State\<close>

record SocketClientState =
  csSocket :: "nat option"
  csIsConnected :: bool
  csConnectionError :: "string option"
  csReconnectAttempts :: nat

datatype socket_call =
    SocketCreated nat string string
  | SocketOn nat string nat
  | SocketOff nat string nat
  | SocketConnect nat
  | SocketDisconnect nat
  | StateChanged SocketClientState
  | TimerStarted nat
  | ReconnectNotified
  | AuthErrorReported string
  | EnsureResolved
  | EnsureRejected string

text \<open>A call of \<open>connect\<close> that waits for the base URL, and whether \<open>ensureConnected\<close> waits for it.\<close>

record url_thread =
  utGeneration :: nat
  utToken :: string
  utEnsure :: bool

record socket_client =
  scRaw :: "nat option"
  scGeneration :: nat
  scIsConnecting :: bool
  scRequestPending :: bool
  scTimer :: "string option"
  scAttempt :: nat
  scIntentional :: bool
  scHistory :: bool
  scNotifyNext :: bool
  scLastNotification :: int
  scState :: SocketClientState
  scListeners :: "(string, nat list) jsmap"
  scThreads :: "url_thread list"
  scWaiters :: nat
  scDeaf :: nat
  scConnected :: "nat list"
  scSockets :: nat

definition new_client :: socket_client where
  "new_client = \<lparr>scRaw = None, scGeneration = 0, scIsConnecting = False, scRequestPending = False, scTimer = None,
     scAttempt = 0, scIntentional = False, scHistory = False, scNotifyNext = False, scLastNotification = 0,
     scState = \<lparr>csSocket = None, csIsConnected = False, csConnectionError = None, csReconnectAttempts = 0\<rparr>,
     scListeners = [], scThreads = [], scWaiters = 0, scDeaf = 0, scConnected = [], scSockets = 0\<rparr>"

type_synonym client_action = "socket_client \<Rightarrow> socket_client \<times> socket_call list"

definition andThen :: "client_action \<Rightarrow> client_action \<Rightarrow> client_action" where
  "andThen f g c = (let (c1, calls1) = f c; (c2, calls2) = g c1 in (c2, calls1 @ calls2))"

definition tell :: "socket_call \<Rightarrow> client_action" where
  "tell x c = (c, [x])"

definition raw_connected :: "socket_client \<Rightarrow> bool" where
  "raw_connected c \<longleftrightarrow> scRaw c \<in> Some ` set (scConnected c)"

text \<open>Every waiting \<open>ensureConnected\<close> looks at the new state.\<close>

definition ensure_answer :: "SocketClientState \<Rightarrow> socket_call option" where
  "ensure_answer state = (if csIsConnected state then Some EnsureResolved else map_option EnsureRejected (csConnectionError state))"

definition updateState :: "(SocketClientState \<Rightarrow> SocketClientState) \<Rightarrow> client_action" where
  "updateState f c =
     (let state = f (scState c)
      in case ensure_answer state of
           None \<Rightarrow> (c\<lparr>scState := state\<rparr>, [StateChanged state])
         | Some answer \<Rightarrow> (c\<lparr>scState := state, scWaiters := 0\<rparr>, StateChanged state # replicate (scWaiters c) answer))"

definition clearReconnectTimer :: client_action where
  "clearReconnectTimer c = (c\<lparr>scTimer := None\<rparr>, [])"

definition disconnectCurrentSocket :: client_action where
  "disconnectCurrentSocket c = (case scRaw c of
       None \<Rightarrow> (c, [])
     | Some s \<Rightarrow> (c\<lparr>scRaw := None, scConnected := js_remove s (scConnected c)\<rparr>, [SocketDisconnect s]))"

subsection \<open>Reconnecting\<close>

definition shouldReconnect :: "socket_env \<Rightarrow> string \<Rightarrow> socket_client \<Rightarrow> bool" where
  "shouldReconnect e reason c \<longleftrightarrow> \<not> scIntentional c \<and> reason \<notin> {''io client disconnect'', ''client namespace disconnect''}
     \<and> has_token e"

definition queueReconnect :: "socket_options \<Rightarrow> socket_env \<Rightarrow> string \<Rightarrow> client_action" where
  "queueReconnect opts e reason c =
     (if scIntentional c \<or> raw_connected c \<or> scIsConnecting c \<or> scRequestPending c \<or> scTimer c \<noteq> None \<or> \<not> has_token e
      then (c, [])
      else
        let attempt = scAttempt c + 1
        in andThen (updateState (\<lambda>s. s\<lparr>csReconnectAttempts := attempt\<rparr>))
             (\<lambda>c. tell (TimerStarted (opReconnectDelayMs opts attempt)) (c\<lparr>scTimer := Some reason\<rparr>))
             (c\<lparr>scAttempt := attempt\<rparr>))"

definition notifyReconnectSubscribers :: "socket_env \<Rightarrow> client_action" where
  "notifyReconnectSubscribers e c =
     (if seNow e - scLastNotification c < RECONNECT_THROTTLE_MS then (c, [])
      else (c\<lparr>scLastNotification := seNow e\<rparr>, [ReconnectNotified]))"

subsection \<open>Connecting\<close>

definition bindFacadeListeners :: "nat \<Rightarrow> client_action" where
  "bindFacadeListeners s c = (c, concat (map (\<lambda>(event, handlers). map (SocketOn s event) handlers) (scListeners c)))"

text \<open>A new socket, once the current one is gone.\<close>

definition open_socket :: "socket_options \<Rightarrow> string \<Rightarrow> string \<Rightarrow> client_action" where
  "open_socket opts token socketBaseUrl c =
     (let s = scSockets c
      in andThen (tell (SocketCreated s token (joinNamespace socketBaseUrl (opNamespace opts))))
           (andThen (bindFacadeListeners s)
             (andThen (updateState (\<lambda>st. st\<lparr>csSocket := Some s, csIsConnected := False, csConnectionError := None\<rparr>))
               (tell (SocketConnect s))))
         (c\<lparr>scIntentional := False, scIsConnecting := True, scRaw := Some s, scSockets := s + 1\<rparr>))"

definition createSocketConnection :: "socket_options \<Rightarrow> string \<Rightarrow> string \<Rightarrow> client_action" where
  "createSocketConnection opts token socketBaseUrl = andThen disconnectCurrentSocket (open_socket opts token socketBaseUrl)"

text \<open>What \<open>ensureConnected\<close> does when its \<open>connect\<close> has returned: it looks at the state once and then waits for it
  to change, at most for the time of the options.\<close>

definition ensure_rest :: client_action where
  "ensure_rest c =
     (if raw_connected c then tell EnsureResolved c
      else case ensure_answer (scState c) of
          Some answer \<Rightarrow> tell answer c
        | None \<Rightarrow> (c\<lparr>scWaiters := scWaiters c + 1\<rparr>, []))"

definition ensure_if :: "bool \<Rightarrow> client_action" where
  "ensure_if ensures c = (if ensures then ensure_rest c else (c, []))"

text \<open>\<open>connect\<close> up to its await.\<close>

definition connect :: "socket_env \<Rightarrow> string option \<Rightarrow> bool \<Rightarrow> bool \<Rightarrow> client_action" where
  "connect e token notifyReconnectOnConnect ensures c =
     (if raw_connected c \<or> scIsConnecting c \<or> scRequestPending c then ensure_if ensures c
      else andThen clearReconnectTimer (\<lambda>c.
        let resolvedToken = the_or [] (coalesce token (seToken e));
            c1 = c\<lparr>scNotifyNext := scNotifyNext c \<or> notifyReconnectOnConnect\<rparr>
        in if resolvedToken = [] then ensure_if ensures (c1\<lparr>scRequestPending := False\<rparr>)
           else (c1\<lparr>scRequestPending := True, scThreads := scThreads c1
             @ [\<lparr>utGeneration = scGeneration c, utToken = resolvedToken, utEnsure = ensures\<rparr>]\<rparr>, [])) c)"

text \<open>What it does with the answer; whatever comes of it, it no longer says that a request is pending.\<close>

definition finish_request :: client_action where
  "finish_request c = (c\<lparr>scRequestPending := False\<rparr>, [])"

definition base_url_answered :: "socket_options \<Rightarrow> url_thread \<Rightarrow> string + string \<Rightarrow> client_action" where
  "base_url_answered opts t answer = andThen (\<lambda>c.
       if utGeneration t \<noteq> scGeneration c then (c, [])
       else case answer of
           Inr socketBaseUrl \<Rightarrow> createSocketConnection opts (utToken t) socketBaseUrl (c\<lparr>scRequestPending := False\<rparr>)
         | Inl connectionError \<Rightarrow>
             updateState (\<lambda>s. s\<lparr>csConnectionError := Some connectionError, csIsConnected := False\<rparr>) c)
     (andThen finish_request (ensure_if (utEnsure t)))"

definition disconnect :: client_action where
  "disconnect c = andThen clearReconnectTimer (andThen (\<lambda>c. (c\<lparr>scGeneration := scGeneration c + 1, scIntentional := True,
       scIsConnecting := False, scRequestPending := False, scAttempt := 0, scNotifyNext := False, scHistory := False\<rparr>, []))
     (andThen disconnectCurrentSocket (updateState (\<lambda>s. s\<lparr>csSocket := None, csIsConnected := False,
        csConnectionError := None, csReconnectAttempts := 0\<rparr>)))) c"

text \<open>Clearing the listeners leaves those that wait in \<open>ensureConnected\<close> with nothing but their timeout.\<close>

definition dispose :: client_action where
  "dispose = andThen disconnect (\<lambda>c. (c\<lparr>scListeners := [], scDeaf := scDeaf c + scWaiters c, scWaiters := 0\<rparr>, []))"

subsection \<open>Events of the socket\<close>

definition on_connect :: "socket_env \<Rightarrow> client_action" where
  "on_connect e c =
     (let shouldNotifyReconnect = (scHistory c \<or> scNotifyNext c)
      in andThen (updateState (\<lambda>s. s\<lparr>csIsConnected := True, csConnectionError := None, csReconnectAttempts := 0\<rparr>))
           (\<lambda>c. if shouldNotifyReconnect then notifyReconnectSubscribers e c else (c, []))
         (c\<lparr>scHistory := True, scNotifyNext := False, scAttempt := 0, scIsConnecting := False, scTimer := None\<rparr>))"

definition on_disconnect :: "socket_options \<Rightarrow> socket_env \<Rightarrow> string \<Rightarrow> client_action" where
  "on_disconnect opts e reason c = andThen (updateState (\<lambda>s. s\<lparr>csIsConnected := False\<rparr>))
     (\<lambda>c. if shouldReconnect e reason c then queueReconnect opts e reason c else (c, []))
     (c\<lparr>scHistory := True, scIsConnecting := False\<rparr>)"

definition on_connect_error :: "socket_options \<Rightarrow> socket_env \<Rightarrow> string \<Rightarrow> client_action" where
  "on_connect_error opts e message c =
     (let reason = (if message \<noteq> [] then message else ''connect_error'')
      in andThen (updateState (\<lambda>s. s\<lparr>csConnectionError := Some message, csIsConnected := False\<rparr>)) (\<lambda>c.
           if opIsAuthError opts message then tell (AuthErrorReported message) (c\<lparr>scIntentional := True\<rparr>)
           else if shouldReconnect e reason c then queueReconnect opts e reason c else (c, []))
         (c\<lparr>scIsConnecting := False\<rparr>))"

definition on_auth_error :: "nat \<Rightarrow> string \<Rightarrow> client_action" where
  "on_auth_error s error c = andThen (tell (AuthErrorReported error)) (andThen (tell (SocketDisconnect s))
       (updateState (\<lambda>s. s\<lparr>csIsConnected := False\<rparr>)))
     (c\<lparr>scIntentional := True, scConnected := js_remove s (scConnected c)\<rparr>)"

definition reconnect_timer_fired :: "socket_options \<Rightarrow> socket_env \<Rightarrow> string \<Rightarrow> client_action" where
  "reconnect_timer_fired opts e reason c0 =
     (let c = c0\<lparr>scTimer := None\<rparr>
      in if scRequestPending c \<or> scIsConnecting c then queueReconnect opts e reason c
         else connect e None True False c)"

subsection \<open>Steps\<close>

datatype socket_event =
    CallConnect "string option" bool
  | CallEnsureConnected
  | CallDisconnect
  | CallDispose
  | CallOn string nat
  | CallOff string nat
  | BaseUrlAnswered nat "string + string"
  | SocketConnected nat
  | SocketDisconnected nat string
  | SocketConnectError nat string
  | SocketAuthError nat string
  | TimerFired
  | EnsureTimedOut bool

definition addFacadeListener :: "string \<Rightarrow> nat \<Rightarrow> client_action" where
  "addFacadeListener event handler c =
     (c\<lparr>scListeners := jm_set event (js_add handler (the_or [] (jm_get (scListeners c) event))) (scListeners c)\<rparr>,
      case scRaw c of Some s \<Rightarrow> [SocketOn s event handler] | None \<Rightarrow> [])"

definition removeFacadeListener :: "string \<Rightarrow> nat \<Rightarrow> client_action" where
  "removeFacadeListener event handler c =
     (case jm_get (scListeners c) event of
        Some handlers \<Rightarrow> c\<lparr>scListeners := jm_set event (js_remove handler handlers) (scListeners c)\<rparr> | None \<Rightarrow> c,
      case scRaw c of Some s \<Rightarrow> [SocketOff s event handler] | None \<Rightarrow> [])"

definition timeout_message :: "nat \<Rightarrow> string" where
  "timeout_message timeout = ''Socket.IO connection timed out after '' @ show_nat timeout @ ''ms''"

fun client_step :: "socket_options \<Rightarrow> socket_env \<Rightarrow> socket_event \<Rightarrow> client_action" where
  "client_step opts e (CallConnect token notifyReconnectOnConnect) c = connect e token notifyReconnectOnConnect False c"
| "client_step opts e CallEnsureConnected c =
     (if raw_connected c then tell EnsureResolved c else connect e None (scHistory c) True c)"
| "client_step opts e CallDisconnect c = disconnect c"
| "client_step opts e CallDispose c = dispose c"
| "client_step opts e (CallOn event handler) c = addFacadeListener event handler c"
| "client_step opts e (CallOff event handler) c = removeFacadeListener event handler c"
| "client_step opts e (BaseUrlAnswered k answer) c =
     (if k < length (scThreads c)
      then base_url_answered opts (scThreads c ! k) answer
        (c\<lparr>scThreads := take k (scThreads c) @ drop (Suc k) (scThreads c)\<rparr>)
      else (c, []))"
| "client_step opts e (SocketConnected s) c =
     (if s < scSockets c
      then (let c1 = c\<lparr>scConnected := js_add s (scConnected c)\<rparr>
        in if scRaw c = Some s then on_connect e c1 else (c1, []))
      else (c, []))"
| "client_step opts e (SocketDisconnected s reason) c =
     (let c1 = c\<lparr>scConnected := js_remove s (scConnected c)\<rparr>
      in if scRaw c = Some s then on_disconnect opts e reason c1 else (c1, []))"
| "client_step opts e (SocketConnectError s message) c =
     (if scRaw c = Some s then on_connect_error opts e message c else (c, []))"
| "client_step opts e (SocketAuthError s error) c =
     (if scRaw c = Some s \<and> opt_truthy truthy_text (opAuthErrorEvent opts) then on_auth_error s error c else (c, []))"
| "client_step opts e TimerFired c = (case scTimer c of Some reason \<Rightarrow> reconnect_timer_fired opts e reason c | None \<Rightarrow> (c, []))"
| "client_step opts e (EnsureTimedOut deaf) c =
     (if deaf then if scDeaf c = 0 then (c, [])
        else tell (EnsureRejected (timeout_message (opTimeout opts))) (c\<lparr>scDeaf := scDeaf c - 1\<rparr>)
      else if scWaiters c = 0 then (c, [])
        else tell (EnsureRejected (timeout_message (opTimeout opts))) (c\<lparr>scWaiters := scWaiters c - 1\<rparr>))"

end
