(* ===== verification/SocketProps.thy ===== *)
theory SocketProps
  imports SocketClient
begin

text \<open>
  What holds of the connection: a socket that is replaced has been disconnected, the state never claims a connection
  that is lost, nothing connects after \<open>disconnect\<close> until somebody asks for it, and a lost connection is tried again.
  Where an overlapping call of \<open>connect\<close> slips through, a theorem exhibits the run.
\<close>

subsection \<open>Steps and runs\<close>

definition step_of :: "socket_options \<Rightarrow> socket_client \<Rightarrow> socket_env \<times> socket_event \<Rightarrow> socket_client" where
  "step_of opts c = (\<lambda>(e, ev). fst (client_step opts e ev c))"

definition client_run :: "socket_options \<Rightarrow> (socket_env \<times> socket_event) list \<Rightarrow> socket_client \<times> socket_call list" where
  "client_run opts events = foldl (\<lambda>(c, calls) (e, ev). let (c', more) = client_step opts e ev c in (c', calls @ more))
     (new_client, []) events"

lemma client_run_snoc:
  "client_run opts (evs @ [(e, ev)]) = (fst (client_step opts e ev (fst (client_run opts evs))),
     snd (client_run opts evs) @ snd (client_step opts e ev (fst (client_run opts evs))))"
  by (simp add: client_run_def Let_def split: prod.split)

lemma fst_andThen [simp]: "fst (andThen f g c) = fst (g (fst (f c)))"
  and snd_andThen [simp]: "snd (andThen f g c) = snd (f c) @ snd (g (fst (f c)))"
  by (simp_all add: andThen_def Let_def split_beta)

lemma tell_simps [simp]: "fst (tell x c) = c" "snd (tell x c) = [x]"
  by (simp_all add: tell_def)

subsection \<open>Sockets are not leaked\<close>

text \<open>The sockets that were created and not disconnected, in a sequence of calls.\<close>

definition created :: "socket_call list \<Rightarrow> nat set" where
  "created calls = {s. \<exists>t u. SocketCreated s t u \<in> set calls}"

definition disconnected :: "socket_call list \<Rightarrow> nat set" where
  "disconnected calls = {s. SocketDisconnect s \<in> set calls}"


fun is_socket_call :: "socket_call \<Rightarrow> bool" where
  "is_socket_call (SocketCreated _ _ _) = True"
| "is_socket_call (SocketDisconnect _) = True"
| "is_socket_call _ = False"

text \<open>A step that neither creates nor disconnects a socket.\<close>

definition idle :: "client_action \<Rightarrow> socket_client \<Rightarrow> bool" where
  "idle f c \<longleftrightarrow> scRaw (fst (f c)) = scRaw c \<and> scSockets (fst (f c)) = scSockets c \<and> filter is_socket_call (snd (f c)) = []"

lemma created_simps [simp]:
  "created (calls @ news) = created calls \<union> created news" "created (filter is_socket_call calls) = created calls"
  "created [] = {}" "created (SocketCreated n t u # calls) = insert n (created calls)"
  "created (SocketDisconnect n # calls) = created calls"
  by (auto simp: created_def)

lemma created_other [simp]: "\<not> is_socket_call x \<Longrightarrow> created (x # calls) = created calls"
  by (cases x) (auto simp: created_def)

lemma disconnected_simps [simp]:
  "disconnected (calls @ news) = disconnected calls \<union> disconnected news"
  "disconnected (filter is_socket_call calls) = disconnected calls"
  "disconnected [] = {}" "disconnected (SocketCreated n t u # calls) = disconnected calls"
  "disconnected (SocketDisconnect n # calls) = insert n (disconnected calls)"
  by (auto simp: disconnected_def)

lemma update_fields [simp]:
  "scRaw (fst (updateState f c)) = scRaw c" "scSockets (fst (updateState f c)) = scSockets c"
  "scGeneration (fst (updateState f c)) = scGeneration c" "scIsConnecting (fst (updateState f c)) = scIsConnecting c"
  "scRequestPending (fst (updateState f c)) = scRequestPending c" "scTimer (fst (updateState f c)) = scTimer c"
  "scIntentional (fst (updateState f c)) = scIntentional c" "scThreads (fst (updateState f c)) = scThreads c"
  "scConnected (fst (updateState f c)) = scConnected c" "scState (fst (updateState f c)) = f (scState c)"
  "scAttempt (fst (updateState f c)) = scAttempt c" "scHistory (fst (updateState f c)) = scHistory c"
  by (auto simp: updateState_def Let_def split: option.split)

lemma update_calls [simp]: "filter is_socket_call (snd (updateState f c)) = []"
  by (auto simp: updateState_def ensure_answer_def Let_def filter_empty_conv split: option.split)

lemma update_idle [simp]: "idle (updateState f) c"
  by (simp add: idle_def)

lemma idle_simps [simp]: "\<not> is_socket_call x \<Longrightarrow> idle (tell x) c"
  by (simp add: idle_def)

lemma ensure_rest_fields [simp]:
  "scRaw (fst (ensure_rest c)) = scRaw c" "scSockets (fst (ensure_rest c)) = scSockets c"
  "scGeneration (fst (ensure_rest c)) = scGeneration c" "scIsConnecting (fst (ensure_rest c)) = scIsConnecting c"
  "scRequestPending (fst (ensure_rest c)) = scRequestPending c" "scTimer (fst (ensure_rest c)) = scTimer c"
  "scIntentional (fst (ensure_rest c)) = scIntentional c" "scThreads (fst (ensure_rest c)) = scThreads c"
  "scConnected (fst (ensure_rest c)) = scConnected c" "scState (fst (ensure_rest c)) = scState c"
  "filter is_socket_call (snd (ensure_rest c)) = []"
  by (auto simp: ensure_rest_def ensure_answer_def split: option.split)

lemma queue_idle [simp]: "idle (queueReconnect opts e reason) c"
  by (simp add: queueReconnect_def idle_def Let_def)

lemma notify_idle [simp]: "idle (notifyReconnectSubscribers e) c"
  by (simp add: notifyReconnectSubscribers_def idle_def)

lemma connect_idle [simp]: "idle (connect e token notify ensures) c"
  by (simp add: connect_def idle_def ensure_if_def clearReconnectTimer_def Let_def)

lemma on_connect_idle [simp]: "idle (on_connect e) c"
  by (simp add: on_connect_def idle_def notifyReconnectSubscribers_def Let_def)

lemma idleD: "idle f c \<Longrightarrow> scRaw (fst (f c)) = scRaw c" "idle f c \<Longrightarrow> scSockets (fst (f c)) = scSockets c"
  "idle f c \<Longrightarrow> filter is_socket_call (snd (f c)) = []"
  by (simp_all add: idle_def)

lemmas queue_fields [simp] = queue_idle [THEN idleD(1)] queue_idle [THEN idleD(2)] queue_idle [THEN idleD(3)]
  connect_idle [THEN idleD(1)] connect_idle [THEN idleD(2)] connect_idle [THEN idleD(3)]
  on_connect_idle [THEN idleD(1)] on_connect_idle [THEN idleD(2)] on_connect_idle [THEN idleD(3)]

lemma on_disconnect_idle [simp]: "idle (on_disconnect opts e reason) c"
  by (simp add: on_disconnect_def idle_def)

lemma on_error_idle [simp]: "idle (on_connect_error opts e message) c"
  by (simp add: on_connect_error_def idle_def Let_def)

lemma timer_idle [simp]: "idle (reconnect_timer_fired opts e reason) c"
  by (simp add: reconnect_timer_fired_def idle_def Let_def)

lemmas event_fields [simp] = on_disconnect_idle [THEN idleD(1)] on_disconnect_idle [THEN idleD(2)] on_disconnect_idle [THEN idleD(3)]
  on_error_idle [THEN idleD(1)] on_error_idle [THEN idleD(2)] on_error_idle [THEN idleD(3)]
  timer_idle [THEN idleD(1)] timer_idle [THEN idleD(2)] timer_idle [THEN idleD(3)]


text \<open>What a step can do to sockets: nothing, drop the current one, disconnect it and keep it, or replace it by a new one.\<close>

definition drop_calls :: "nat option \<Rightarrow> socket_call list" where
  "drop_calls raw = (case raw of Some s \<Rightarrow> [SocketDisconnect s] | None \<Rightarrow> [])"






lemma drop_fields [simp]:
  "scRaw (fst (disconnectCurrentSocket c)) = None" "scSockets (fst (disconnectCurrentSocket c)) = scSockets c"
  "filter is_socket_call (snd (disconnectCurrentSocket c)) = drop_calls (scRaw c)"
  by (simp_all add: disconnectCurrentSocket_def drop_calls_def split: option.split)

lemma bind_calls [simp]: "fst (bindFacadeListeners s c) = c" "filter is_socket_call (snd (bindFacadeListeners s c)) = []"
  by (auto simp: bindFacadeListeners_def filter_empty_conv)

lemma create_fields [simp]:
  "scRaw (fst (createSocketConnection opts token url c)) = Some (scSockets c)"
  "scSockets (fst (createSocketConnection opts token url c)) = Suc (scSockets c)"
  "filter is_socket_call (snd (createSocketConnection opts token url c)) = drop_calls (scRaw c)
     @ [SocketCreated (scSockets c) token (joinNamespace url (opNamespace opts))]"
  by (simp_all add: createSocketConnection_def open_socket_def Let_def)

lemma ensure_fields [simp]: "scRaw (fst (ensure_if b c)) = scRaw c" "scSockets (fst (ensure_if b c)) = scSockets c"
  "filter is_socket_call (snd (ensure_if b c)) = []"
  by (simp_all add: ensure_if_def)

lemma finish_fields [simp]: "fst (finish_request c) = c\<lparr>scRequestPending := False\<rparr>" "snd (finish_request c) = []"
  by (simp_all add: finish_request_def)

lemma clear_fields [simp]: "fst (clearReconnectTimer c) = c\<lparr>scTimer := None\<rparr>" "snd (clearReconnectTimer c) = []"
  by (simp_all add: clearReconnectTimer_def)





lemma drop_calls_sets [simp]: "created (drop_calls raw) = {}" "disconnected (drop_calls raw) = set_option raw"
  by (simp_all add: drop_calls_def split: option.split)



subsection \<open>What the state shows is true\<close>

definition shown_true :: "socket_client \<Rightarrow> bool" where
  "shown_true c \<longleftrightarrow> csSocket (scState c) = scRaw c \<and> (csIsConnected (scState c) \<longrightarrow> raw_connected c)"

lemma queue_shown [simp]:
  "scConnected (fst (queueReconnect opts e reason c)) = scConnected c"
  "csSocket (scState (fst (queueReconnect opts e reason c))) = csSocket (scState c)"
  "csIsConnected (scState (fst (queueReconnect opts e reason c))) = csIsConnected (scState c)"
  by (simp_all add: queueReconnect_def Let_def)

lemma connect_shown [simp]:
  "scConnected (fst (connect e token n b c)) = scConnected c" "scState (fst (connect e token n b c)) = scState c"
  by (simp_all add: connect_def ensure_if_def Let_def)

lemma ensure_if_shown [simp]:
  "scConnected (fst (ensure_if b c)) = scConnected c" "scState (fst (ensure_if b c)) = scState c"
  by (simp_all add: ensure_if_def)

lemma create_shown [simp]:
  "csSocket (scState (fst (createSocketConnection opts token url c))) = Some (scSockets c)"
  "\<not> csIsConnected (scState (fst (createSocketConnection opts token url c)))"
  by (simp_all add: createSocketConnection_def open_socket_def Let_def)

lemma on_connect_shown:
  "scRaw c = Some s \<Longrightarrow> s \<in> set (scConnected c) \<Longrightarrow> csSocket (scState c) = scRaw c \<Longrightarrow> shown_true (fst (on_connect e c))"
  by (simp add: on_connect_def shown_true_def raw_connected_def notifyReconnectSubscribers_def Let_def)

lemma step_shown: "shown_true c \<Longrightarrow> shown_true (fst (client_step opts e ev c))"
proof (cases ev)
  case (BaseUrlAnswered k answer)
  assume "shown_true c"
  then show ?thesis
    by (auto simp: BaseUrlAnswered base_url_answered_def shown_true_def raw_connected_def split: sum.split)
next
  case CallDisconnect
  then show ?thesis by (simp add: disconnect_def shown_true_def)
next
  case CallDispose
  then show ?thesis by (simp add: dispose_def disconnect_def shown_true_def)
next
  case (SocketConnected s)
  assume "shown_true c"
  then show ?thesis
    by (auto simp: SocketConnected Let_def js_add_def shown_true_def [of c] raw_connected_def intro!: on_connect_shown)
      (auto simp: shown_true_def raw_connected_def)
next
  case (SocketDisconnected s reason)
  assume "shown_true c"
  then show ?thesis
    by (auto simp: SocketDisconnected Let_def on_disconnect_def shown_true_def raw_connected_def split: option.splits)
next
  case (SocketConnectError s message)
  assume "shown_true c"
  then show ?thesis by (auto simp: SocketConnectError Let_def on_connect_error_def shown_true_def raw_connected_def)
next
  case (SocketAuthError s error)
  assume "shown_true c"
  then show ?thesis by (auto simp: SocketAuthError on_auth_error_def shown_true_def raw_connected_def)
next
  case TimerFired
  assume "shown_true c"
  then show ?thesis
    by (auto simp: TimerFired reconnect_timer_fired_def Let_def shown_true_def raw_connected_def split: option.split)
qed (auto simp: addFacadeListener_def removeFacadeListener_def shown_true_def raw_connected_def split: option.splits)


subsection \<open>Disconnecting\<close>

text \<open>No call of \<open>connect\<close> is from the future.\<close>

definition threads_ok :: "socket_client \<Rightarrow> bool" where
  "threads_ok c \<longleftrightarrow> (\<forall>t \<in> set (scThreads c). utGeneration t \<le> scGeneration c)"

lemma set_without: "set (take k xs @ drop (Suc k) xs) \<subseteq> set xs"
  by (auto dest: in_set_takeD in_set_dropD)

lemma drop_current_fields [simp]:
  "scGeneration (fst (disconnectCurrentSocket c)) = scGeneration c" "scThreads (fst (disconnectCurrentSocket c)) = scThreads c"
  "scTimer (fst (disconnectCurrentSocket c)) = scTimer c" "scRequestPending (fst (disconnectCurrentSocket c)) = scRequestPending c"
  by (simp_all add: disconnectCurrentSocket_def split: option.split)

lemma create_threads [simp]:
  "scGeneration (fst (createSocketConnection opts token url c)) = scGeneration c"
  "scThreads (fst (createSocketConnection opts token url c)) = scThreads c"
  by (simp_all add: createSocketConnection_def open_socket_def Let_def)

lemma ensure_if_threads [simp]:
  "scGeneration (fst (ensure_if b c)) = scGeneration c" "scThreads (fst (ensure_if b c)) = scThreads c"
  "scTimer (fst (ensure_if b c)) = scTimer c"
  by (simp_all add: ensure_if_def)

lemma queue_threads [simp]:
  "scGeneration (fst (queueReconnect opts e reason c)) = scGeneration c"
  "scThreads (fst (queueReconnect opts e reason c)) = scThreads c"
  by (simp_all add: queueReconnect_def Let_def)

lemma event_threads [simp]:
  "scGeneration (fst (on_connect e c)) = scGeneration c" "scThreads (fst (on_connect e c)) = scThreads c"
  "scGeneration (fst (on_disconnect opts e reason c)) = scGeneration c" "scThreads (fst (on_disconnect opts e reason c)) = scThreads c"
  "scGeneration (fst (on_connect_error opts e reason c)) = scGeneration c"
  "scThreads (fst (on_connect_error opts e reason c)) = scThreads c"
  "scGeneration (fst (on_auth_error s reason c)) = scGeneration c" "scThreads (fst (on_auth_error s reason c)) = scThreads c"
  by (simp_all add: on_connect_def on_disconnect_def on_connect_error_def on_auth_error_def notifyReconnectSubscribers_def Let_def)

lemma answered_threads [simp]:
  "scGeneration (fst (base_url_answered opts t answer c)) = scGeneration c"
  "scThreads (fst (base_url_answered opts t answer c)) = scThreads c"
  by (simp_all add: base_url_answered_def split: sum.split)

lemma connect_threads: "scGeneration (fst (connect e token n b c)) = scGeneration c"
  "set (scThreads (fst (connect e token n b c))) \<subseteq> insert \<lparr>utGeneration = scGeneration c,
     utToken = the_or [] (coalesce token (seToken e)), utEnsure = b\<rparr> (set (scThreads c))"
  by (auto simp: connect_def Let_def)

lemma created_of: "filter is_socket_call calls = socket_calls \<Longrightarrow> created calls = created socket_calls"
  by auto

lemmas nothing_created [simp] = created_of [OF update_calls] created_of [OF drop_fields(3)] created_of [OF ensure_fields(3)]
  created_of [OF queue_idle [THEN idleD(3)]] created_of [OF connect_idle [THEN idleD(3)]]
  created_of [OF on_connect_idle [THEN idleD(3)]] created_of [OF on_disconnect_idle [THEN idleD(3)]]
  created_of [OF on_error_idle [THEN idleD(3)]] created_of [OF timer_idle [THEN idleD(3)]]

lemma disconnect_threads [simp]:
  "scGeneration (fst (disconnect c)) = Suc (scGeneration c)" "scThreads (fst (disconnect c)) = scThreads c"
  "scRaw (fst (disconnect c)) = None" "scTimer (fst (disconnect c)) = None" "\<not> csIsConnected (scState (fst (disconnect c)))"
  "created (snd (disconnect c)) = {}"
  by (simp_all add: disconnect_def)

lemma step_threads: "threads_ok c \<Longrightarrow> threads_ok (fst (client_step opts e ev c))"
proof (cases ev)
  case (BaseUrlAnswered k answer)
  assume "threads_ok c"
  then show ?thesis using set_without [of k "scThreads c"] by (auto simp: BaseUrlAnswered threads_ok_def)
next
  case (CallConnect token n)
  assume "threads_ok c"
  then show ?thesis using connect_threads [of e token n False c] by (fastforce simp: CallConnect threads_ok_def)
next
  case CallEnsureConnected
  assume "threads_ok c"
  then show ?thesis using connect_threads [of e None "scHistory c" True c] by (fastforce simp: CallEnsureConnected threads_ok_def)
next
  case TimerFired
  assume "threads_ok c"
  then show ?thesis using connect_threads [of e None True False "c\<lparr>scTimer := None\<rparr>"]
    by (fastforce simp: TimerFired reconnect_timer_fired_def threads_ok_def Let_def split: option.split)
qed (auto simp: threads_ok_def dispose_def addFacadeListener_def removeFacadeListener_def Let_def split: option.split
    intro: le_SucI)


lemma run_threads: "threads_ok (fst (client_run opts events))"
proof (induction events rule: rev_induct)
  case Nil
  then show ?case by (simp add: client_run_def new_client_def threads_ok_def)
next
  case (snoc x events)
  then show ?case by (cases x) (simp add: client_run_snoc step_threads)
qed

text \<open>At rest: no socket, no timer, and no call of \<open>connect\<close> whose answer would still be taken.\<close>

definition at_rest :: "socket_client \<Rightarrow> bool" where
  "at_rest c \<longleftrightarrow> scRaw c = None \<and> scTimer c = None \<and> \<not> csIsConnected (scState c) \<and>
     (\<forall>t \<in> set (scThreads c). utGeneration t < scGeneration c)"

definition asks_for_connection :: "socket_event \<Rightarrow> bool" where
  "asks_for_connection ev = (case ev of CallConnect _ _ \<Rightarrow> True | CallEnsureConnected \<Rightarrow> True | _ \<Rightarrow> False)"

lemma disconnect_rests: "threads_ok c \<Longrightarrow> at_rest (fst (disconnect c))"
  by (auto simp: at_rest_def threads_ok_def less_Suc_eq_le)

lemma rest_kept:
  assumes "at_rest c" and "\<not> asks_for_connection ev"
  shows "at_rest (fst (client_step opts e ev c)) \<and> created (snd (client_step opts e ev c)) = {}"
proof (cases ev)
  case (BaseUrlAnswered k answer)
  let ?d = "c\<lparr>scThreads := take k (scThreads c) @ drop (Suc k) (scThreads c)\<rparr>"
  have "utGeneration (scThreads c ! k) \<noteq> scGeneration c" if "k < length (scThreads c)"
    using assms(1) nth_mem [OF that] by (auto simp: at_rest_def)
  then show ?thesis using assms(1) set_without [of k "scThreads c"]
    by (auto simp: BaseUrlAnswered at_rest_def base_url_answered_def)
next
  case CallDisconnect
  have "threads_ok c" using assms(1) by (auto simp: at_rest_def threads_ok_def intro: less_imp_le)
  then show ?thesis using CallDisconnect disconnect_rests by simp
next
  case CallDispose
  have "threads_ok c" using assms(1) by (auto simp: at_rest_def threads_ok_def intro: less_imp_le)
  then show ?thesis using CallDispose disconnect_rests [of c] by (simp add: dispose_def at_rest_def)
qed (use assms in \<open>auto simp: asks_for_connection_def at_rest_def addFacadeListener_def removeFacadeListener_def Let_def split: option.split\<close>)

lemma rest_run:
  assumes "at_rest (fst (client_run opts events))" and "list_all (\<lambda>(_, ev). \<not> asks_for_connection ev) later"
  shows "at_rest (fst (client_run opts (events @ later))) \<and>
    created (snd (client_run opts (events @ later))) = created (snd (client_run opts events))"
  using assms(2)
proof (induction later rule: rev_induct)
  case (snoc x later)
  obtain e ev where x: "x = (e, ev)" by (cases x)
  then show ?case using snoc rest_kept [of "fst (client_run opts (events @ later))" ev opts e]
    by (simp add: client_run_snoc [of opts "events @ later", simplified])
qed (use assms(1) in simp)

subsection \<open>Reconnecting\<close>

lemma default_delay: "1000 \<le> defaultReconnectDelayMs n \<and> defaultReconnectDelayMs n \<le> 5000"
  by (simp add: defaultReconnectDelayMs_def)

text \<open>The state after some steps.\<close>

definition client_after :: "socket_options \<Rightarrow> socket_client \<Rightarrow> (socket_env \<times> socket_event) list \<Rightarrow> socket_client" where
  "client_after opts c events = foldl (\<lambda>c (e, ev). fst (client_step opts e ev c)) c events"

lemma lost_connection:
  fixes opts
  assumes "scRaw c = Some s" and "\<not> scIntentional c" and "\<not> scRequestPending c" and "scTimer c = None" and "has_token e"
    and "reason \<notin> {''io client disconnect'', ''client namespace disconnect''}"
  defines "d \<equiv> fst (client_step opts e (SocketDisconnected s reason) c)"
  shows "scTimer d = Some reason" "\<not> scRequestPending d" "\<not> scIsConnecting d" "\<not> raw_connected d"
    "scThreads d = scThreads c" "scGeneration d = scGeneration c" "scSockets d = scSockets c" "scRaw d = Some s"
  using assms by (auto simp: on_disconnect_def shouldReconnect_def queueReconnect_def raw_connected_def Let_def)

lemma timer_asks_url:
  assumes "scTimer d = Some reason" "\<not> scRequestPending d" "\<not> scIsConnecting d" "\<not> raw_connected d" and "has_token e"
  shows "scThreads (fst (client_step opts e TimerFired d)) =
      scThreads d @ [\<lparr>utGeneration = scGeneration d, utToken = the_or [] (seToken e), utEnsure = False\<rparr>]"
    "scGeneration (fst (client_step opts e TimerFired d)) = scGeneration d" "scTimer (fst (client_step opts e TimerFired d)) = None"
    "scSockets (fst (client_step opts e TimerFired d)) = scSockets d" "scRaw (fst (client_step opts e TimerFired d)) = scRaw d"
    "\<not> scIsConnecting (fst (client_step opts e TimerFired d))"
  using assms by (auto simp: reconnect_timer_fired_def connect_def has_token_def opt_truthy_def raw_connected_def Let_def
      split: option.splits)

lemma answered_at_end:
  assumes "scThreads c = ts @ [\<lparr>utGeneration = scGeneration c, utToken = t, utEnsure = False\<rparr>]"
  shows "client_step opts e (BaseUrlAnswered (length ts) answer) c =
    base_url_answered opts \<lparr>utGeneration = scGeneration c, utToken = t, utEnsure = False\<rparr> answer (c\<lparr>scThreads := ts\<rparr>)"
  using assms by (simp add: nth_append)

subsection \<open>Properties\<close>


text \<open>The state that listeners see names the current socket, and says connected only while it is.\<close>

theorem shown_state_true: "shown_true (fst (client_run opts events))"
proof (induction events rule: rev_induct)
  case Nil
  then show ?case by (simp add: client_run_def new_client_def shown_true_def)
next
  case (snoc x events)
  then show ?case by (cases x) (simp add: client_run_snoc step_shown)
qed

text \<open>C22: After \<open>disconnect\<close>, and until somebody asks for a connection, no socket is created and none is shown as
  connected, whatever timers, late answers and events of old sockets come.\<close>

theorem disconnect_is_final:
  assumes "list_all (\<lambda>(_, ev). \<not> asks_for_connection ev) later"
  shows "created (snd (client_run opts (events @ [(e, CallDisconnect)] @ later))) = created (snd (client_run opts events)) \<and>
    \<not> csIsConnected (scState (fst (client_run opts (events @ [(e, CallDisconnect)] @ later))))"
proof -
  have "at_rest (fst (client_run opts (events @ [(e, CallDisconnect)])))"
    using disconnect_rests [OF run_threads] by (simp add: client_run_snoc)
  from rest_run [OF this assms] show ?thesis by (simp add: client_run_snoc at_rest_def)
qed

definition demo_socket_options :: socket_options where
  "demo_socket_options = \<lparr>opNamespace = ''/chat'', opAuthErrorEvent = None, opIsAuthError = defaultIsAuthError,
     opReconnectDelayMs = defaultReconnectDelayMs, opTimeout = 20000\<rparr>"

definition demo_client_env :: socket_env where
  "demo_client_env = \<lparr>seNow = 1000, seToken = Some ''t''\<rparr>"

theorem disconnect_is_final_witness:
  "created (snd (client_run demo_socket_options ([(demo_client_env, CallConnect None False)] @ [(demo_client_env, CallDisconnect)]
       @ [(demo_client_env, BaseUrlAnswered 0 (Inr ''u''))])))
     = created (snd (client_run demo_socket_options [(demo_client_env, CallConnect None False)])) \<and>
   \<not> csIsConnected (scState (fst (client_run demo_socket_options ([(demo_client_env, CallConnect None False)]
       @ [(demo_client_env, CallDisconnect)] @ [(demo_client_env, BaseUrlAnswered 0 (Inr ''u''))]))))"
  by (rule disconnect_is_final) (simp add: asks_for_connection_def)

text \<open>C23: A connection that is lost is tried again, with the token of that time, as soon as the timer fires and the base URL
  is known. But if the base URL is not available at that moment, nothing is left that would try again.\<close>

theorem lost_connection_retried:
  assumes "scRaw c = Some s" and "\<not> scIntentional c" and "\<not> scRequestPending c" and "scTimer c = None"
    and "has_token e1" and "has_token e2" and "reason \<notin> {''io client disconnect'', ''client namespace disconnect''}"
  shows "case client_step opts e3 (BaseUrlAnswered (length (scThreads c)) answer)
        (client_after opts c [(e1, SocketDisconnected s reason), (e2, TimerFired)]) of
      (d, calls) \<Rightarrow> (case answer of
          Inr url \<Rightarrow> SocketCreated (scSockets c) (the_or [] (seToken e2)) (joinNamespace url (opNamespace opts)) \<in> set calls \<and>
            SocketConnect (scSockets c) \<in> set calls \<and> scIsConnecting d
        | Inl problem \<Rightarrow> scTimer d = None \<and> \<not> scRequestPending d \<and> \<not> scIsConnecting d \<and>
            csConnectionError (scState d) = Some problem)"
proof -
  let ?d = "fst (client_step opts e1 (SocketDisconnected s reason) c)"
  note lost = lost_connection [OF assms(1-5,7), of opts]
  note timer = timer_asks_url [OF lost(1-4) assms(6), of opts]
  obtain f where f: "client_after opts c [(e1, SocketDisconnected s reason), (e2, TimerFired)] = f"
    "fst (client_step opts e2 TimerFired ?d) = f" by (simp add: client_after_def)
  have threads: "scThreads f = scThreads c @ [\<lparr>utGeneration = scGeneration f, utToken = the_or [] (seToken e2), utEnsure = False\<rparr>]"
    and fields: "scSockets f = scSockets c" "\<not> scIsConnecting f" "scTimer f = None"
    using timer lost unfolding f(2) by simp_all
  show ?thesis unfolding f(1) answered_at_end [OF threads] using fields
    by (simp add: base_url_answered_def createSocketConnection_def open_socket_def ensure_if_def Let_def split_beta split: sum.split)
qed

definition lost_client :: socket_client where
  "lost_client = fst (client_run demo_socket_options [(demo_client_env, CallConnect None False),
     (demo_client_env, BaseUrlAnswered 0 (Inr ''u'')), (demo_client_env, SocketConnected 0)])"

theorem lost_connection_retried_witness:
  "case client_step demo_socket_options demo_client_env (BaseUrlAnswered (length (scThreads lost_client)) (Inl ''down''))
      (client_after demo_socket_options lost_client
        [(demo_client_env, SocketDisconnected 0 ''transport close''), (demo_client_env, TimerFired)]) of
    (d, calls) \<Rightarrow> scTimer d = None \<and> \<not> scRequestPending d \<and> \<not> scIsConnecting d \<and>
      csConnectionError (scState d) = Some ''down''"
proof -
  have "scRaw lost_client = Some 0" "\<not> scIntentional lost_client" "\<not> scRequestPending lost_client"
    "scTimer lost_client = None" "has_token demo_client_env"
    by (simp_all add: lost_client_def client_run_def new_client_def demo_socket_options_def demo_client_env_def has_token_def
        opt_truthy_def connect_def clearReconnectTimer_def andThen_def ensure_if_def disconnectCurrentSocket_def
        updateState_def ensure_answer_def base_url_answered_def finish_request_def createSocketConnection_def
        open_socket_def bindFacadeListeners_def tell_def raw_connected_def Let_def on_connect_def js_add_def
        notifyReconnectSubscribers_def)
  from lost_connection_retried [OF this this(5), where reason = "''transport close''" and opts = demo_socket_options
      and ?e3.0 = demo_client_env and answer = "Inl ''down''"]
  show ?thesis by simp
qed

text \<open>C39: A call of \<open>connect\<close> that \<open>disconnect\<close> has cancelled still says, when its answer comes, that no request is pending, and
  so lets a third call overlap the second: two sockets are created, and the first is thrown away while it connects.\<close>

theorem cancelled_connect_lets_others_overlap:
  "filter is_socket_call (snd (client_run opts
     [(e, CallConnect (Some ''t'') False), (e, CallDisconnect), (e, CallConnect (Some ''t'') False),
      (e, BaseUrlAnswered 0 (Inr url)), (e, CallConnect (Some ''t'') False),
      (e, BaseUrlAnswered 0 (Inr url)), (e, BaseUrlAnswered 0 (Inr url))]))
   = [SocketCreated 0 ''t'' (joinNamespace url (opNamespace opts)), SocketDisconnect 0,
      SocketCreated 1 ''t'' (joinNamespace url (opNamespace opts))]"
  by (simp add: client_run_def new_client_def connect_def clearReconnectTimer_def andThen_def ensure_if_def disconnect_def
      disconnectCurrentSocket_def updateState_def ensure_answer_def base_url_answered_def finish_request_def
      createSocketConnection_def open_socket_def bindFacadeListeners_def tell_def raw_connected_def Let_def)

end
